(* ===== verification/Edm_Prelude.thy ===== *)
theory Edm_Prelude
  imports Main "HOL-Library.Word"
begin

text \<open>
  What the components share: the machine integers of the code, the result type of code that
  can commit a memory error, sequencing of such results, checked reads of a byte buffer, and
  the list lemmas the parsers use.
\<close>

section \<open>Machine integers and faults\<close>

type_synonym u8 = "8 word"
type_synonym u16 = "16 word"
type_synonym u32 = "32 word"
type_synonym u64 = "64 word"

text \<open>
  C++ gives no meaning to an access outside an object, to a dereferenced null pointer and to a
  read of an uninitialised variable. The model makes each of them a value, so that a theorem
  can say that it happens or that it does not. \<open>Oob_element\<close> is a reference to an element past the
  end of an array through which the code then both writes and reads. A run of the model ends with its
  first fault: what the code does after it is not described.
\<close>

datatype fault = Oob_read | Oob_write | Oob_element | Null_deref | Uninit_read | Bad_cast | Use_after_free

type_synonym 'a res = "fault + 'a"

named_theorems exec_simps \<open>equations for symbolic execution of the model\<close>

lemma uint_nonneg: "0 \<le> uint (w :: 'a::len word)"
  by simp

lemma unat_pos: "2 \<le> uint (w :: 'a::len word) \<Longrightarrow> 0 < unat w"
  by (rule ccontr) (simp add: unat_0_iff)

lemma le_uint: "int n \<le> uint (w :: 'a::len word) \<longleftrightarrow> n \<le> unat w"
  by (metis of_nat_unat of_nat_le_iff)

lemma of_nat_of_unat: "unat (w :: 'a::len word) = n \<Longrightarrow> of_nat n = w"
  by (auto simp: word_eq_iff_unsigned)

section \<open>Sequencing results\<close>

definition bindE :: "'a res \<Rightarrow> ('a \<Rightarrow> 'b res) \<Rightarrow> 'b res" where
  "bindE m f = (case m of Inl e \<Rightarrow> Inl e | Inr x \<Rightarrow> f x)"

lemma bindE_Inl [simp]: "bindE (Inl e) f = Inl e"
  by (simp add: bindE_def)

lemma bindE_Inr [simp]: "bindE (Inr x) f = f x"
  by (simp add: bindE_def)

lemma bindE_cong [fundef_cong]:
  "m = m' \<Longrightarrow> (\<And>x. m' = Inr x \<Longrightarrow> f x = f' x) \<Longrightarrow> bindE m f = bindE m' f'"
  by (cases m') (simp_all add: bindE_def)

lemma bindE_eq_Inr: "bindE m f = Inr y \<longleftrightarrow> (\<exists>x. m = Inr x \<and> f x = Inr y)"
  by (cases m) auto

lemma bindE_eq_Inl: "bindE m f = Inl e \<longleftrightarrow> m = Inl e \<or> (\<exists>x. m = Inr x \<and> f x = Inl e)"
  by (cases m) auto

lemma bindE_InrE:
  assumes "bindE m f = Inr y"
  obtains x where "m = Inr x" and "f x = Inr y"
  using assms by (auto simp: bindE_eq_Inr)

lemma bindE_not_Inl:
  "m \<noteq> Inl e \<Longrightarrow> (\<And>x. m = Inr x \<Longrightarrow> f x \<noteq> Inl e) \<Longrightarrow> bindE m f \<noteq> Inl e"
  by (auto simp: bindE_eq_Inl)

text \<open>The faults a result can be.\<close>

definition faults_in :: "fault set \<Rightarrow> 'a res \<Rightarrow> bool" where
  "faults_in F m \<longleftrightarrow> (\<forall>e. m = Inl e \<longrightarrow> e \<in> F)"

named_theorems fault_rules \<open>introduction rules for faults_in\<close>

lemma faults_in_Inr [simp]: "faults_in F (Inr x)"
  by (simp add: faults_in_def)

lemma faults_in_Inl [simp]: "faults_in F (Inl e) \<longleftrightarrow> e \<in> F"
  by (simp add: faults_in_def)

lemma faults_in_bindE [fault_rules]:
  "faults_in F m \<Longrightarrow> (\<And>x. m = Inr x \<Longrightarrow> faults_in F (f x)) \<Longrightarrow> faults_in F (bindE m f)"
  by (cases m) auto

lemma faults_in_if [fault_rules]:
  "(b \<Longrightarrow> faults_in F m) \<Longrightarrow> (\<not> b \<Longrightarrow> faults_in F m') \<Longrightarrow> faults_in F (if b then m else m')"
  by simp

lemma faults_in_mono: "faults_in {} m \<Longrightarrow> faults_in F m"
  by (auto simp: faults_in_def)

lemma faults_in_empty: "faults_in {} m \<longleftrightarrow> (\<exists>x. m = Inr x)"
  by (cases m) auto

section \<open>Checked reads of a buffer\<close>

text \<open>
  A pointer into a byte buffer is the list of bytes from the pointer to the end of the buffer;
  advancing it by \<open>n\<close> is \<open>drop n\<close>. A read past the end is a fault.
\<close>

definition rd :: "u8 list \<Rightarrow> nat \<Rightarrow> u8 res" where
  "rd buf i = (if i < length buf then Inr (buf ! i) else Inl Oob_read)"

definition rd_bytes :: "u8 list \<Rightarrow> nat \<Rightarrow> u8 list res" where
  "rd_bytes buf n = (if n \<le> length buf then Inr (take n buf) else Inl Oob_read)"

lemma rd_in [simp]: "i < length buf \<Longrightarrow> rd buf i = Inr (buf ! i)"
  by (simp add: rd_def)

lemma rd_bytes_in [simp]: "n \<le> length buf \<Longrightarrow> rd_bytes buf n = Inr (take n buf)"
  by (simp add: rd_bytes_def)

lemma rd_append [simp]: "i < length xs \<Longrightarrow> rd (xs @ ys) i = Inr (xs ! i)"
  by (simp add: rd_def nth_append)

lemma rd_Inr: "rd buf i = Inr x \<longleftrightarrow> i < length buf \<and> x = buf ! i"
  by (auto simp: rd_def)

text \<open>Writing \<open>bs\<close> at offset \<open>off\<close> of an array that is large enough.\<close>

definition write_at :: "'a list \<Rightarrow> nat \<Rightarrow> 'a list \<Rightarrow> 'a list" where
  "write_at xs off bs = take off xs @ bs @ drop (off + length bs) xs"

lemma length_write_at [simp]:
  "off + length bs \<le> length xs \<Longrightarrow> length (write_at xs off bs) = length xs"
  by (simp add: write_at_def)

lemma write_at_0_replicate [simp]:
  "write_at (replicate (length bs) z) 0 bs = bs"
  by (simp add: write_at_def)

text \<open>
  \<open>memcpy_s (dest + off, destMax, src, count)\<close> of C11 Annex K: it refuses to copy more than
  \<open>destMax\<close> bytes and then clears the destination; a \<open>destMax\<close> of zero is an error. The result is
  the status (\<open>True\<close> for EOK) and the new contents of \<open>dest\<close>. Lengths are below the largest one
  that the function accepts.
\<close>

definition memcpy_s :: "u8 list \<Rightarrow> nat \<Rightarrow> nat \<Rightarrow> u8 list \<Rightarrow> nat \<Rightarrow> (bool \<times> u8 list) res" where
  "memcpy_s dest off destMax src count =
     (if destMax = 0 then Inr (False, dest)
      else if destMax < count
      then if length dest < off + destMax then Inl Oob_write else Inr (False, write_at dest off (replicate destMax 0))
      else if length dest < off + count then Inl Oob_write
      else bindE (rd_bytes src count) (\<lambda>bs. Inr (True, write_at dest off bs)))"

text \<open>
  The same from \<open>data ()\<close> of a vector, to the start of \<open>dest\<close>. That pointer may be null for an empty
  vector, which is an error that clears the destination; \<open>nul\<close> says whether it is.
\<close>

definition memcpy_vec :: "bool \<Rightarrow> u8 list \<Rightarrow> nat \<Rightarrow> u8 list \<Rightarrow> nat \<Rightarrow> (bool \<times> u8 list) res" where
  "memcpy_vec nul dest destMax src count =
     (if destMax \<noteq> 0 \<and> nul \<and> src = []
      then if length dest < destMax then Inl Oob_write else Inr (False, write_at dest 0 (replicate destMax 0))
      else memcpy_s dest 0 destMax src count)"

lemma memcpy_vec_ok:
  "src \<noteq> [] \<Longrightarrow> 0 < destMax \<Longrightarrow> destMax \<le> length dest \<Longrightarrow> count \<le> destMax \<Longrightarrow> count \<le> length src
   \<Longrightarrow> memcpy_vec nul dest destMax src count = Inr (True, take count src @ drop count dest)"
  by (simp add: memcpy_vec_def memcpy_s_def write_at_def)

lemma memcpy_vec_Inr:
  "destMax \<le> length dest \<Longrightarrow> count \<le> length src \<or> destMax < count \<Longrightarrow> \<exists>ok bs. memcpy_vec nul dest destMax src count = Inr (ok, bs) \<and> length bs = length dest"
  by (auto simp: memcpy_vec_def memcpy_s_def)

text \<open>Conversion of an integer to \<open>int32_t\<close>.\<close>

definition to_i32 :: "int \<Rightarrow> int" where
  "to_i32 n = (n + 2147483648) mod 4294967296 - 2147483648"

lemma to_i32_id [simp]: "- 2147483648 \<le> n \<Longrightarrow> n < 2147483648 \<Longrightarrow> to_i32 n = n"
  by (simp add: to_i32_def)

lemma to_i32_bounds: "- 2147483648 \<le> to_i32 n" "to_i32 n < 2147483648"
  using pos_mod_bound [of 4294967296 "n + 2147483648"]
  by (simp_all add: to_i32_def)

section \<open>Index of the first element that satisfies a test\<close>

fun find_index :: "('a \<Rightarrow> bool) \<Rightarrow> 'a list \<Rightarrow> nat" where
  "find_index p [] = 0"
| "find_index p (x # xs) = (if p x then 0 else Suc (find_index p xs))"

lemma find_index_le: "find_index p xs \<le> length xs"
  by (induction xs) auto

lemma find_index_less: "find_index p xs < length xs \<longleftrightarrow> (\<exists>x \<in> set xs. p x)"
  by (induction xs) auto

lemma find_index_nth: "find_index p xs < length xs \<Longrightarrow> p (xs ! find_index p xs)"
  by (induction xs) auto

lemma find_index_distinct:
  "distinct xs \<Longrightarrow> i < length xs \<Longrightarrow> find_index (\<lambda>x. x = xs ! i) xs = i"
proof (induction xs arbitrary: i)
  case Nil
  then show ?case by simp
next
  case (Cons x xs)
  then show ?case by (cases i) auto
qed

end
