(* ===== verification/Usb_Desc_Parser.thy ===== *)
theory Usb_Desc_Parser
  imports Edm_Prelude
begin

unbundle bit_operations_syntax

text \<open>
  The USB configuration descriptor parser,
  src/frameworks/ddk/usb/usb_config_desc_parser.cpp, on the types of
  src/interfaces/ddk/usb/usb_ddk_types.h.

  A pointer into the input is the suffix of the input that starts there, so that advancing it
  is \<open>drop\<close> and a read past the end is the fault \<open>Oob_read\<close>; the \<open>int32_t size\<close> that the code
  carries beside the pointer is an \<open>int\<close> of its own (\<open>sz\<close>), because the code lets the two drift apart.
  An array allocated with \<open>new T[n]\<close> is a list of length \<open>n\<close>; a write outside it is
  \<open>Oob_write\<close>, and the use of a reference to an element past its end is \<open>Oob_element\<close>. A run of the
  model ends with its first fault. Allocation never fails here (\<open>new\<close> throws, it does not return null).
\<close>

section \<open>Data\<close>

record usb_config_descriptor =
  cd_bLength :: u8
  cd_bDescriptorType :: u8
  cd_wTotalLength :: u16
  cd_bNumInterfaces :: u8
  cd_bConfigurationValue :: u8
  cd_iConfiguration :: u8
  cd_bmAttributes :: u8
  cd_bMaxPower :: u8

record usb_interface_descriptor =
  id_bLength :: u8
  id_bDescriptorType :: u8
  id_bInterfaceNumber :: u8
  id_bAlternateSetting :: u8
  id_bNumEndpoints :: u8
  id_bInterfaceClass :: u8
  id_bInterfaceSubClass :: u8
  id_bInterfaceProtocol :: u8
  id_iInterface :: u8

record usb_endpoint_descriptor =
  ed_bLength :: u8
  ed_bDescriptorType :: u8
  ed_bEndpointAddress :: u8
  ed_bmAttributes :: u8
  ed_wMaxPacketSize :: u16
  ed_bInterval :: u8
  ed_bRefresh :: u8
  ed_bSynchAddress :: u8

record ddk_endpoint =
  endpointDescriptor :: usb_endpoint_descriptor
  ep_extra :: "u8 list option"
  ep_extraLength :: u32

record ddk_interface_desc =
  interfaceDescriptor :: usb_interface_descriptor
  endPoint :: "ddk_endpoint list option"
  if_extra :: "u8 list option"
  if_extraLength :: u32

record ddk_interface =
  numAltsetting :: u8
  altsetting :: "ddk_interface_desc list"

record ddk_config =
  configDescriptor :: usb_config_descriptor
  cfg_interface :: "ddk_interface list option"
  cfg_extra :: "u8 list option"
  cfg_extraLength :: u32

datatype UsbDdkDescriptorType =
    USB_DDK_CONFIG_DESCRIPTOR_TYPE
  | USB_DDK_INTERFACE_DESCRIPTOR_TYPE
  | USB_DDK_ENDPOINT_DESCRIPTOR_TYPE
  | USB_DDK_AUDIO_ENDPOINT_DESCRIPTOR_TYPE

abbreviation (input) USB_DDK_SUCCESS :: int where "USB_DDK_SUCCESS \<equiv> 0"
abbreviation (input) USB_DDK_INVALID_PARAMETER :: int where "USB_DDK_INVALID_PARAMETER \<equiv> 401"
abbreviation (input) USB_DDK_MEMORY_ERROR :: int where "USB_DDK_MEMORY_ERROR \<equiv> 27400001"
abbreviation (input) USB_DDK_INVALID_OPERATION :: int where "USB_DDK_INVALID_OPERATION \<equiv> 27400002"
abbreviation (input) INT32_MAX :: int where "INT32_MAX \<equiv> 2147483647"
abbreviation (input) USB_MAXENDPOINTS :: nat where "USB_MAXENDPOINTS \<equiv> 32"
abbreviation (input) USB_MAXALTSETTING :: nat where "USB_MAXALTSETTING \<equiv> 128"
abbreviation (input) USB_MAXINTERFACES :: nat where "USB_MAXINTERFACES \<equiv> 32"
abbreviation (input) DESC_HEADER_LENGTH :: int where "DESC_HEADER_LENGTH \<equiv> 2"
abbreviation (input) USB_DDK_DT_CONFIG_SIZE :: int where "USB_DDK_DT_CONFIG_SIZE \<equiv> 9"
abbreviation (input) USB_DDK_DT_INTERFACE_SIZE :: int where "USB_DDK_DT_INTERFACE_SIZE \<equiv> 9"
abbreviation (input) USB_DDK_DT_ENDPOINT_SIZE :: int where "USB_DDK_DT_ENDPOINT_SIZE \<equiv> 7"
abbreviation (input) USB_DDK_DT_CONFIG :: u8 where "USB_DDK_DT_CONFIG \<equiv> 2"
abbreviation (input) USB_DDK_DT_INTERFACE :: u8 where "USB_DDK_DT_INTERFACE \<equiv> 4"
abbreviation (input) USB_DDK_DT_ENDPOINT :: u8 where "USB_DDK_DT_ENDPOINT \<equiv> 5"

subsection \<open>The structs as bytes\<close>

text \<open>
  The structs are packed and the host is little-endian: a 16-bit field is its low byte, then
  its high byte.
\<close>

definition le16 :: "u8 \<Rightarrow> u8 \<Rightarrow> u16" where
  "le16 lo hi = (push_bit 8 (ucast hi) OR ucast lo :: u16)"

definition lo8 :: "u16 \<Rightarrow> u8" where "lo8 w = ucast w"
definition hi8 :: "u16 \<Rightarrow> u8" where "hi8 w = ucast (drop_bit 8 w)"

fun config_of_bytes :: "u8 list \<Rightarrow> usb_config_descriptor" where
  "config_of_bytes bs =
     \<lparr> cd_bLength = bs ! 0, cd_bDescriptorType = bs ! 1, cd_wTotalLength = le16 (bs ! 2) (bs ! 3),
       cd_bNumInterfaces = bs ! 4, cd_bConfigurationValue = bs ! 5, cd_iConfiguration = bs ! 6,
       cd_bmAttributes = bs ! 7, cd_bMaxPower = bs ! 8 \<rparr>"

fun interface_of_bytes :: "u8 list \<Rightarrow> usb_interface_descriptor" where
  "interface_of_bytes bs =
     \<lparr> id_bLength = bs ! 0, id_bDescriptorType = bs ! 1, id_bInterfaceNumber = bs ! 2,
       id_bAlternateSetting = bs ! 3, id_bNumEndpoints = bs ! 4, id_bInterfaceClass = bs ! 5,
       id_bInterfaceSubClass = bs ! 6, id_bInterfaceProtocol = bs ! 7, id_iInterface = bs ! 8 \<rparr>"

fun endpoint_of_bytes :: "u8 list \<Rightarrow> usb_endpoint_descriptor" where
  "endpoint_of_bytes bs =
     \<lparr> ed_bLength = bs ! 0, ed_bDescriptorType = bs ! 1, ed_bEndpointAddress = bs ! 2,
       ed_bmAttributes = bs ! 3, ed_wMaxPacketSize = le16 (bs ! 4) (bs ! 5),
       ed_bInterval = bs ! 6, ed_bRefresh = bs ! 7, ed_bSynchAddress = bs ! 8 \<rparr>"

fun bytes_of_config :: "usb_config_descriptor \<Rightarrow> u8 list" where
  "bytes_of_config d =
     [cd_bLength d, cd_bDescriptorType d, lo8 (cd_wTotalLength d), hi8 (cd_wTotalLength d),
      cd_bNumInterfaces d, cd_bConfigurationValue d, cd_iConfiguration d, cd_bmAttributes d,
      cd_bMaxPower d]"

fun bytes_of_interface :: "usb_interface_descriptor \<Rightarrow> u8 list" where
  "bytes_of_interface d =
     [id_bLength d, id_bDescriptorType d, id_bInterfaceNumber d, id_bAlternateSetting d,
      id_bNumEndpoints d, id_bInterfaceClass d, id_bInterfaceSubClass d, id_bInterfaceProtocol d,
      id_iInterface d]"

fun bytes_of_endpoint :: "usb_endpoint_descriptor \<Rightarrow> u8 list" where
  "bytes_of_endpoint d =
     [ed_bLength d, ed_bDescriptorType d, ed_bEndpointAddress d, ed_bmAttributes d,
      lo8 (ed_wMaxPacketSize d), hi8 (ed_wMaxPacketSize d), ed_bInterval d, ed_bRefresh d,
      ed_bSynchAddress d]"

text \<open>What \<open>memset_s (p, n, 0, n)\<close> leaves in each struct.\<close>

definition zero_config_descriptor :: usb_config_descriptor where
  "zero_config_descriptor = config_of_bytes (replicate 9 0)"

definition zero_endpoint :: ddk_endpoint where
  "zero_endpoint =
     \<lparr> endpointDescriptor = endpoint_of_bytes (replicate 9 0), ep_extra = None, ep_extraLength = 0 \<rparr>"

definition zero_interface_desc :: ddk_interface_desc where
  "zero_interface_desc =
     \<lparr> interfaceDescriptor = interface_of_bytes (replicate 9 0), endPoint = None,
       if_extra = None, if_extraLength = 0 \<rparr>"

definition zero_config :: ddk_config where
  "zero_config =
     \<lparr> configDescriptor = zero_config_descriptor, cfg_interface = None, cfg_extra = None,
       cfg_extraLength = 0 \<rparr>"

section \<open>Descriptors and extra bytes\<close>

definition Le16ToHost :: "u16 \<Rightarrow> u16" where
  "Le16ToHost number = (let lo = lo8 number; hi = hi8 number in push_bit 8 (ucast hi) OR ucast lo)"

fun GetDescriptorLength :: "UsbDdkDescriptorType \<Rightarrow> int" where
  "GetDescriptorLength USB_DDK_CONFIG_DESCRIPTOR_TYPE = USB_DDK_DT_CONFIG_SIZE"
| "GetDescriptorLength USB_DDK_INTERFACE_DESCRIPTOR_TYPE = USB_DDK_DT_INTERFACE_SIZE"
| "GetDescriptorLength USB_DDK_ENDPOINT_DESCRIPTOR_TYPE = USB_DDK_DT_ENDPOINT_SIZE"
| "GetDescriptorLength _ = INT32_MAX"

text \<open>
  \<open>dest\<close> is the struct the caller passes, as its bytes; the result is the status and its new
  bytes. Every caller passes non-null pointers.
\<close>

definition ParseDescriptor ::
  "UsbDdkDescriptorType \<Rightarrow> u8 list \<Rightarrow> nat \<Rightarrow> u8 list \<Rightarrow> int \<Rightarrow> (int \<times> u8 list) res" where
  "ParseDescriptor descriptorType dest destLen source sourceLen =
     (let descriptorLen = GetDescriptorLength descriptorType in
      if descriptorLen = INT32_MAX then Inr (USB_DDK_INVALID_OPERATION, dest)
      else if sourceLen < descriptorLen then Inr (USB_DDK_INVALID_OPERATION, dest)
      else bindE (memcpy_s dest 0 destLen source (nat descriptorLen)) (\<lambda>(eok, dest).
        if \<not> eok then Inr (USB_DDK_MEMORY_ERROR, dest)
        else case descriptorType of
          USB_DDK_CONFIG_DESCRIPTOR_TYPE \<Rightarrow>
            (let d = config_of_bytes dest in
             Inr (USB_DDK_SUCCESS,
                  bytes_of_config (d\<lparr>cd_wTotalLength := Le16ToHost (cd_wTotalLength d)\<rparr>)))
        | USB_DDK_INTERFACE_DESCRIPTOR_TYPE \<Rightarrow> Inr (USB_DDK_SUCCESS, dest)
        | USB_DDK_ENDPOINT_DESCRIPTOR_TYPE \<Rightarrow>
            (let d = endpoint_of_bytes dest in
             Inr (USB_DDK_SUCCESS,
                  bytes_of_endpoint (d\<lparr>ed_wMaxPacketSize := Le16ToHost (ed_wMaxPacketSize d)\<rparr>)))
        | _ \<Rightarrow> Inr (USB_DDK_INVALID_OPERATION, dest)))"

text \<open>On a little-endian host \<open>Le16ToHost\<close> changes nothing, so a struct keeps the bytes it was copied from.\<close>

lemma not_bit_u8: "\<not> bit (w :: u8) (8 + n)"
  using bit_imp_le_length [of w "8 + n"] by auto

lemma le16_bytes [simp]: "lo8 (le16 lo hi) = lo" "hi8 (le16 lo hi) = hi"
  by (auto simp: le16_def lo8_def hi8_def bit_simps not_bit_u8 intro!: bit_word_eqI)

lemma le16_of_bytes [simp]: "le16 (lo8 w) (hi8 w) = w"
  by (auto simp: le16_def lo8_def hi8_def bit_simps intro!: bit_word_eqI)

lemma Le16ToHost_id [simp]: "Le16ToHost w = w"
  using le16_of_bytes [of w] by (simp add: Le16ToHost_def le16_def Let_def)

lemma list9:
  "length bs = 9 \<Longrightarrow> [bs ! 0, bs ! 1, bs ! 2, bs ! 3, bs ! 4, bs ! 5, bs ! 6, bs ! 7, bs ! 8] = bs"
  by (auto simp: list_eq_iff_nth_eq less_Suc_eq numeral_eq_Suc)

lemma bytes_of_config_of_bytes [simp]:
  "length bs = 9 \<Longrightarrow> bytes_of_config (config_of_bytes bs) = bs"
  and bytes_of_interface_of_bytes [simp]:
  "length bs = 9 \<Longrightarrow> bytes_of_interface (interface_of_bytes bs) = bs"
  and bytes_of_endpoint_of_bytes [simp]:
  "length bs = 9 \<Longrightarrow> bytes_of_endpoint (endpoint_of_bytes bs) = bs"
  using list9 [of bs] by simp_all

lemma struct_of_bytes_of [simp]:
  "config_of_bytes (bytes_of_config c) = c"
  "interface_of_bytes (bytes_of_interface d) = d"
  "endpoint_of_bytes (bytes_of_endpoint e) = e"
  by simp_all

lemma length_bytes_of [simp]:
  "length (bytes_of_config c) = 9"
  "length (bytes_of_interface d) = 9"
  "length (bytes_of_endpoint e) = 9"
  by simp_all

declare config_of_bytes.simps [simp del] interface_of_bytes.simps [simp del]
  endpoint_of_bytes.simps [simp del] bytes_of_config.simps [simp del]
  bytes_of_interface.simps [simp del] bytes_of_endpoint.simps [simp del]

lemma update_same [simp]:
  "c\<lparr>cd_wTotalLength := cd_wTotalLength c\<rparr> = c" "e\<lparr>ed_wMaxPacketSize := ed_wMaxPacketSize e\<rparr> = e"
  by simp_all

text \<open>What \<open>ParseDescriptor\<close> does, type by type.\<close>

lemma ParseDescriptor_config:
  "length dest = 9 \<Longrightarrow> ParseDescriptor USB_DDK_CONFIG_DESCRIPTOR_TYPE dest 9 buf sz =
     (if sz < 9 then Inr (USB_DDK_INVALID_OPERATION, dest)
      else if length buf < 9 then Inl Oob_read
      else Inr (USB_DDK_SUCCESS, take 9 buf))"
  by (auto simp: ParseDescriptor_def memcpy_s_def rd_bytes_def write_at_def Let_def)

lemma ParseDescriptor_interface:
  "length dest = 9 \<Longrightarrow> ParseDescriptor USB_DDK_INTERFACE_DESCRIPTOR_TYPE dest 9 buf sz =
     (if sz < 9 then Inr (USB_DDK_INVALID_OPERATION, dest)
      else if length buf < 9 then Inl Oob_read
      else Inr (USB_DDK_SUCCESS, take 9 buf))"
  by (auto simp: ParseDescriptor_def memcpy_s_def rd_bytes_def write_at_def Let_def)

lemma ParseDescriptor_endpoint:
  "length dest = 9 \<Longrightarrow> ParseDescriptor USB_DDK_ENDPOINT_DESCRIPTOR_TYPE dest 9 buf sz =
     (if sz < 7 then Inr (USB_DDK_INVALID_OPERATION, dest)
      else if length buf < 7 then Inl Oob_read
      else Inr (USB_DDK_SUCCESS, take 7 buf @ drop 7 dest))"
  by (auto simp: ParseDescriptor_def memcpy_s_def rd_bytes_def write_at_def Let_def)

text \<open>\<open>buffer - buffer0\<close> never leaves \<open>0 .. size\<close> here, so its conversion to \<open>int32_t\<close> is exact.\<close>

function FindNextDescriptor :: "u8 list \<Rightarrow> int \<Rightarrow> int res" where
  "FindNextDescriptor buffer sz =
     (if sz < 2 then Inr 0
      else bindE (rd buffer 1) (\<lambda>bDescriptorType.
        if bDescriptorType = USB_DDK_DT_INTERFACE \<or> bDescriptorType = USB_DDK_DT_ENDPOINT then Inr 0
        else bindE (rd buffer 0) (\<lambda>bLength.
          if uint bLength < 2 \<or> uint bLength > sz then Inr 0
          else bindE (FindNextDescriptor (drop (unat bLength) buffer) (sz - uint bLength)) (\<lambda>n.
            Inr (uint bLength + n)))))"
  by pat_completeness auto
termination
  by (relation "measure (\<lambda>(_, sz). nat sz)") (auto simp: not_less)


declare FindNextDescriptor.simps [simp del]

definition FillExtraDescriptor ::
  "u8 list option \<Rightarrow> u32 \<Rightarrow> u8 list \<Rightarrow> int \<Rightarrow> (int \<times> u8 list option \<times> u32) res" where
  "FillExtraDescriptor extra extraLength buffer bufferLen =
     (if bufferLen = 0 then Inr (USB_DDK_INVALID_OPERATION, extra, extraLength)
      else
        let extraLenTmp = extraLength + word_of_int bufferLen;
            extraTmp = replicate (unat extraLenTmp) 0 in
        bindE (case extra of
                 Some old \<Rightarrow>
                   if extraLength \<noteq> 0 then memcpy_s extraTmp 0 (unat extraLenTmp) old (unat extraLength)
                   else Inr (True, extraTmp)
               | None \<Rightarrow> Inr (True, extraTmp)) (\<lambda>(eok, extraTmp).
        if \<not> eok then Inr (USB_DDK_MEMORY_ERROR, extra, extraLength)
        else bindE (memcpy_s extraTmp (unat extraLength) (unat (extraLenTmp - extraLength)) buffer (nat bufferLen))
          (\<lambda>(eok, extraTmp).
        if \<not> eok then Inr (USB_DDK_MEMORY_ERROR, extra, extraLength)
        else Inr (USB_DDK_SUCCESS, Some extraTmp, extraLenTmp))))"

section \<open>Endpoints\<close>

definition ParseEndpoint :: "ddk_endpoint \<Rightarrow> u8 list \<Rightarrow> int \<Rightarrow> (int \<times> ddk_endpoint) res" where
  "ParseEndpoint ep buffer sz =
     (if sz < DESC_HEADER_LENGTH then Inr (USB_DDK_INVALID_OPERATION, ep)
      else bindE (rd buffer 1) (\<lambda>bDescriptorType. bindE (rd buffer 0) (\<lambda>bLength.
        if bDescriptorType \<noteq> USB_DDK_DT_ENDPOINT \<or> uint bLength > sz then Inr (0, ep)
        else if uint bLength < USB_DDK_DT_ENDPOINT_SIZE then Inr (USB_DDK_INVALID_OPERATION, ep)
        else bindE (ParseDescriptor USB_DDK_ENDPOINT_DESCRIPTOR_TYPE
                     (bytes_of_endpoint (endpointDescriptor ep)) 9 buffer sz) (\<lambda>(_, bs).
          let ep = ep\<lparr>endpointDescriptor := endpoint_of_bytes bs\<rparr>;
              buffer1 = drop (unat bLength) buffer;
              size1 = sz - uint bLength in
          bindE (FindNextDescriptor buffer1 size1) (\<lambda>len.
          if len = 0 then Inr (uint bLength, ep)
          else bindE (FillExtraDescriptor (ep_extra ep) (ep_extraLength ep) buffer1 len)
            (\<lambda>(ret, extra, extraLength).
            let ep = ep\<lparr>ep_extra := extra, ep_extraLength := extraLength\<rparr> in
            if ret \<noteq> USB_DDK_SUCCESS then Inr (ret, ep)
            else Inr (uint bLength + len, ep)))))))"

text \<open>
  The \<open>for\<close> loop of \<open>ParseInterfaceEndpoint\<close>: \<open>todo\<close> endpoints are left, \<open>i\<close> is the loop
  variable, \<open>ret\<close> the last value of \<open>ret\<close>. The result is the value of \<open>ret\<close> at the end, the
  array, the new \<open>bNumEndpoints\<close> and the advanced \<open>*buffer\<close> and \<open>*size\<close>.
\<close>

fun EndpointLoop ::
  "nat \<Rightarrow> nat \<Rightarrow> int \<Rightarrow> u8 \<Rightarrow> ddk_endpoint list \<Rightarrow> u8 list \<Rightarrow> int
   \<Rightarrow> (int \<times> u8 \<times> ddk_endpoint list \<times> u8 list \<times> int) res" where
  "EndpointLoop 0 i ret num eps buffer sz = Inr (ret, num, eps, buffer, sz)"
| "EndpointLoop (Suc todo) i ret num eps buffer sz =
     bindE (ParseEndpoint (eps ! i) buffer sz) (\<lambda>(ret, ep).
       let eps = eps[i := ep] in
       if ret = 0 then Inr (ret, of_nat i, eps, buffer, sz)
       else if ret < 0 then Inr (ret, num, eps, buffer, sz)
       else EndpointLoop todo (Suc i) ret num eps (drop (nat ret) buffer) (sz - ret))"

definition ParseInterfaceEndpoint ::
  "ddk_interface_desc \<Rightarrow> u8 list \<Rightarrow> int \<Rightarrow> (int \<times> ddk_interface_desc \<times> u8 list \<times> int) res" where
  "ParseInterfaceEndpoint ddkIntfDesc buffer sz =
     (let num = id_bNumEndpoints (interfaceDescriptor ddkIntfDesc) in
      if num > 0 then
        bindE (EndpointLoop (unat num) 0 USB_DDK_SUCCESS num (replicate (unat num) zero_endpoint) buffer sz)
          (\<lambda>(ret, num', eps, buffer, sz).
          Inr (ret,
               ddkIntfDesc\<lparr>endPoint := Some eps,
                 interfaceDescriptor := (interfaceDescriptor ddkIntfDesc)\<lparr>id_bNumEndpoints := num'\<rparr>\<rparr>,
               buffer, sz))
      else Inr (USB_DDK_SUCCESS, ddkIntfDesc, buffer, sz))"

section \<open>Interfaces\<close>

definition RawParseDescriptor ::
  "int \<Rightarrow> u8 list \<Rightarrow> UsbDdkDescriptorType \<Rightarrow> ddk_interface_desc \<Rightarrow> (int \<times> ddk_interface_desc) res" where
  "RawParseDescriptor sz buffer bDescriptorType ddkIntfDesc =
     bindE (ParseDescriptor bDescriptorType (bytes_of_interface (interfaceDescriptor ddkIntfDesc)) 9
              buffer sz) (\<lambda>(ret, bs).
       let d = interface_of_bytes bs;
           ddkIntfDesc = ddkIntfDesc\<lparr>interfaceDescriptor := d\<rparr> in
       if ret \<noteq> USB_DDK_SUCCESS then Inr (ret, ddkIntfDesc)
       else if id_bDescriptorType d \<noteq> USB_DDK_DT_INTERFACE \<or> uint (id_bLength d) > sz
       then Inr (USB_DDK_INVALID_PARAMETER, ddkIntfDesc)
       else if uint (id_bLength d) < USB_DDK_DT_INTERFACE_SIZE \<or> unat (id_bNumEndpoints d) > USB_MAXENDPOINTS
       then Inr (USB_DDK_INVALID_OPERATION, ddkIntfDesc)
       else Inr (ret, ddkIntfDesc))"

text \<open>
  \<open>interfaceNums\<close> and \<open>alternateSetting\<close> are grown together: the numbers of the interfaces in
  the buffer, and how many interface descriptors carry each number, at most 128.
\<close>

definition GetInterfaceNumberDes ::
  "u8 list \<Rightarrow> u8 list \<Rightarrow> u8 list \<Rightarrow> (u8 list \<times> u8 list) res" where
  "GetInterfaceNumberDes header interfaceNums alternateSetting =
     bindE (rd header 0) (\<lambda>bLength.
       if uint bLength < USB_DDK_DT_INTERFACE_SIZE then Inr (interfaceNums, alternateSetting)
       else bindE (rd header 2) (\<lambda>intfNum.
         let currentSize = length interfaceNums;
             i = find_index (\<lambda>x. x = intfNum) interfaceNums in
         if i < currentSize then
           if unat (alternateSetting ! i) < USB_MAXALTSETTING
           then Inr (interfaceNums, alternateSetting[i := alternateSetting ! i + 1])
           else Inr (interfaceNums, alternateSetting)
         else if currentSize < USB_MAXINTERFACES
         then Inr (interfaceNums @ [intfNum], alternateSetting @ [1])
         else Inr (interfaceNums, alternateSetting)))"

function GetInterfaceNumber ::
  "u8 list \<Rightarrow> int \<Rightarrow> u8 list \<Rightarrow> u8 list \<Rightarrow> (u8 list \<times> u8 list) res" where
  "GetInterfaceNumber buffer2 size2 interfaceNums alternateSetting =
     (if size2 \<le> 0 then Inr (interfaceNums, alternateSetting)
      else if size2 < 2 then Inr (interfaceNums, alternateSetting)
      else bindE (rd buffer2 0) (\<lambda>bLength.
        if uint bLength > size2 \<or> uint bLength < 2 then Inr (interfaceNums, alternateSetting)
        else bindE (rd buffer2 1) (\<lambda>bDescriptorType.
          bindE (if bDescriptorType = USB_DDK_DT_INTERFACE
                 then GetInterfaceNumberDes buffer2 interfaceNums alternateSetting
                 else Inr (interfaceNums, alternateSetting)) (\<lambda>(interfaceNums, alternateSetting).
            GetInterfaceNumber (drop (unat bLength) buffer2) (size2 - uint bLength)
              interfaceNums alternateSetting))))"
  by pat_completeness auto
termination
  by (relation "measure (\<lambda>(_, size2, _, _). nat size2)") (auto simp: not_less)


declare GetInterfaceNumber.simps [simp del]

text \<open>
  One round of the loop of \<open>ParseInterface\<close>: it returns a value, or goes round again with the
  new \<open>buffer\<close>, \<open>size\<close> and \<open>interfaceNumber\<close>. \<open>off\<close> is \<open>buffer - buffer0\<close>. The
  reference \<open>usbInterface.altsetting[usbInterface.numAltsetting]\<close> is not checked by the code:
  when it lies past the end of the array, \<open>ParseDescriptor\<close> writes an interface descriptor through it,
  \<open>RawParseDescriptor\<close> and the rest of the round read it back, and later rounds may do the same
  further out. The model stops at the reference, with \<open>Oob_element\<close>, and says nothing of the rest of
  such a run.
\<close>

datatype intf_step =
    IReturn int ddk_interface
  | IAgain ddk_interface "u8 list" int int int

definition ParseInterfaceNext ::
  "ddk_interface \<Rightarrow> u8 list \<Rightarrow> int \<Rightarrow> int \<Rightarrow> int \<Rightarrow> intf_step res" where
  "ParseInterfaceNext usbInterface buffer sz off interfaceNumber =
     (if sz < USB_DDK_DT_INTERFACE_SIZE then Inr (IReturn (to_i32 off) usbInterface)
      else bindE (rd buffer 1) (\<lambda>bDescriptorType. bindE (rd buffer 2) (\<lambda>bInterfaceNumber.
        if bDescriptorType \<noteq> USB_DDK_DT_INTERFACE \<or> uint bInterfaceNumber \<noteq> interfaceNumber
        then Inr (IReturn (to_i32 off) usbInterface)
        else Inr (IAgain usbInterface buffer sz off interfaceNumber))))"

text \<open>The rest of the round, for the accepted interface descriptor \<open>intfDesc\<close> in \<open>altsetting[k]\<close>.\<close>

definition ParseInterfaceAlt ::
  "ddk_interface \<Rightarrow> nat \<Rightarrow> ddk_interface_desc \<Rightarrow> u8 list \<Rightarrow> int \<Rightarrow> int \<Rightarrow> int \<Rightarrow> intf_step res" where
  "ParseInterfaceAlt usbInterface k intfDesc buffer sz off interfaceNumber =
     bindE (FindNextDescriptor buffer sz) (\<lambda>len.
     bindE (if len \<noteq> 0 then FillExtraDescriptor (if_extra intfDesc) (if_extraLength intfDesc) buffer len
            else Inr (USB_DDK_SUCCESS, if_extra intfDesc, if_extraLength intfDesc))
       (\<lambda>(ret, extra, extraLength).
     let intfDesc = intfDesc\<lparr>if_extra := extra, if_extraLength := extraLength\<rparr> in
     if ret \<noteq> USB_DDK_SUCCESS
     then Inr (IReturn USB_DDK_INVALID_PARAMETER
                 (usbInterface\<lparr>altsetting := (altsetting usbInterface)[k := intfDesc]\<rparr>))
     else
       let buffer = drop (nat len) buffer; sz = sz - len; off = off + len in
       bindE (ParseInterfaceEndpoint intfDesc buffer sz) (\<lambda>(ret, intfDesc, buffer, sz').
       let usbInterface = usbInterface\<lparr>altsetting := (altsetting usbInterface)[k := intfDesc]\<rparr>;
           off = off + (sz - sz') in
       if ret < USB_DDK_SUCCESS then Inr (IReturn ret usbInterface)
       else ParseInterfaceNext usbInterface buffer sz' off interfaceNumber)))"

definition ParseInterfaceStep ::
  "ddk_interface \<Rightarrow> u8 list \<Rightarrow> int \<Rightarrow> int \<Rightarrow> int \<Rightarrow> intf_step res" where
  "ParseInterfaceStep usbInterface buffer sz off interfaceNumber =
     (let k = unat (numAltsetting usbInterface) in
      if length (altsetting usbInterface) \<le> k then Inl Oob_element
      else bindE (RawParseDescriptor sz buffer USB_DDK_INTERFACE_DESCRIPTOR_TYPE (altsetting usbInterface ! k))
        (\<lambda>(ret, intfDesc).
        let usbInterface = usbInterface\<lparr>altsetting := (altsetting usbInterface)[k := intfDesc]\<rparr> in
        if ret = USB_DDK_INVALID_PARAMETER then Inr (IReturn (to_i32 off) usbInterface)
        else if ret = USB_DDK_INVALID_OPERATION then Inr (IReturn ret usbInterface)
        else
          let intfDesc = intfDesc\<lparr>if_extra := None, if_extraLength := 0, endPoint := None\<rparr>;
              usbInterface = usbInterface\<lparr>numAltsetting := numAltsetting usbInterface + 1,
                                         altsetting := (altsetting usbInterface)[k := intfDesc]\<rparr>;
              interfaceNumber = (if interfaceNumber = -1
                                 then uint (id_bInterfaceNumber (interfaceDescriptor intfDesc))
                                 else interfaceNumber);
              bLength = id_bLength (interfaceDescriptor intfDesc) in
          ParseInterfaceAlt usbInterface k intfDesc (drop (unat bLength) buffer) (sz - uint bLength)
            (off + uint bLength) interfaceNumber))"

text \<open>Each round consumes at least the nine bytes of an interface descriptor.\<close>

lemma FindNextDescriptor_nonneg: "FindNextDescriptor buf sz = Inr n \<Longrightarrow> 0 \<le> n"
  by (induction buf sz arbitrary: n rule: FindNextDescriptor.induct)
     (subst (asm) (2) FindNextDescriptor.simps, auto simp: bindE_eq_Inr split: if_splits)

lemma EndpointLoop_size:
  "EndpointLoop todo i ret num eps buf sz = Inr (ret', num', eps', buf', sz') \<Longrightarrow> sz' \<le> sz"
  by (induction todo i ret num eps buf sz rule: EndpointLoop.induct)
     (fastforce simp: bindE_eq_Inr Let_def split: if_splits)+

lemma ParseInterfaceEndpoint_size:
  "ParseInterfaceEndpoint d buf sz = Inr (ret, d', buf', sz') \<Longrightarrow> sz' \<le> sz"
  by (auto simp: ParseInterfaceEndpoint_def bindE_eq_Inr Let_def dest: EndpointLoop_size split: if_splits)

lemma RawParseDescriptor_accepts:
  assumes "RawParseDescriptor sz buf USB_DDK_INTERFACE_DESCRIPTOR_TYPE d = Inr (ret, d')"
    and "ret \<noteq> USB_DDK_INVALID_PARAMETER" and "ret \<noteq> USB_DDK_INVALID_OPERATION"
  shows "9 \<le> uint (id_bLength (interfaceDescriptor d'))"
  using assms
  by (auto simp: RawParseDescriptor_def ParseDescriptor_interface bindE_eq_Inr Let_def split: if_splits)

lemma ParseInterfaceAlt_size:
  "ParseInterfaceAlt u k d buf sz off n = Inr (IAgain u' buf' sz' off' n') \<Longrightarrow> sz' \<le> sz"
  by (fastforce simp: ParseInterfaceAlt_def ParseInterfaceNext_def bindE_eq_Inr Let_def split: if_splits
      dest: FindNextDescriptor_nonneg ParseInterfaceEndpoint_size)

lemma ParseInterfaceStep_decreases:
  assumes "ParseInterfaceStep u buf sz off n = Inr (IAgain u' buf' sz' off' n')"
  shows "sz' < sz"
  using assms
  by (fastforce simp: ParseInterfaceStep_def bindE_eq_Inr Let_def split: if_splits
      dest: ParseInterfaceAlt_size RawParseDescriptor_accepts)

function ParseInterfaceLoop ::
  "ddk_interface \<Rightarrow> u8 list \<Rightarrow> int \<Rightarrow> int \<Rightarrow> int \<Rightarrow> (int \<times> ddk_interface) res" where
  "ParseInterfaceLoop usbInterface buffer sz off interfaceNumber =
     (if sz < USB_DDK_DT_INTERFACE_SIZE then Inr (to_i32 off, usbInterface)
      else bindE (ParseInterfaceStep usbInterface buffer sz off interfaceNumber) (\<lambda>r. case r of
        IReturn ret usbInterface \<Rightarrow> Inr (ret, usbInterface)
      | IAgain usbInterface buffer sz off interfaceNumber \<Rightarrow>
          ParseInterfaceLoop usbInterface buffer sz off interfaceNumber))"
  by pat_completeness auto
termination
  by (relation "measure (\<lambda>(_, _, sz, _, _). nat sz)")
     (auto dest!: ParseInterfaceStep_decreases)

declare ParseInterfaceLoop.simps [simp del]

definition ParseInterface :: "ddk_interface \<Rightarrow> u8 list \<Rightarrow> int \<Rightarrow> (int \<times> ddk_interface) res" where
  "ParseInterface usbInterface buffer sz =
     (if unat (numAltsetting usbInterface) > USB_MAXALTSETTING
      then Inr (USB_DDK_INVALID_OPERATION, usbInterface)
      else ParseInterfaceLoop usbInterface buffer sz 0 (-1))"

section \<open>The configuration\<close>

text \<open>One round of the loop of \<open>ParseConfigurationDes\<close>, which leaves the loop with a result or repeats it.\<close>

datatype cfg_step =
    CReturn int ddk_config
  | CAgain ddk_config "u8 list" int

definition ParseConfigurationStep ::
  "ddk_config \<Rightarrow> u8 list \<Rightarrow> int \<Rightarrow> u8 list \<Rightarrow> cfg_step res" where
  "ParseConfigurationStep config buffer sz interfaceNums =
     bindE (FindNextDescriptor buffer sz) (\<lambda>len.
     bindE (if len \<noteq> 0 then FillExtraDescriptor (cfg_extra config) (cfg_extraLength config) buffer len
            else Inr (USB_DDK_SUCCESS, cfg_extra config, cfg_extraLength config))
       (\<lambda>(ret, extra, extraLength).
     let config = config\<lparr>cfg_extra := extra, cfg_extraLength := extraLength\<rparr> in
     if ret \<noteq> USB_DDK_SUCCESS then Inr (CReturn ret config)
     else
       let buffer = drop (nat len) buffer; sz = sz - len in
       if sz \<le> 2 then Inr (CReturn sz config)
       else
         let num = unat (cd_bNumInterfaces (configDescriptor config)) in
         if num \<ge> USB_MAXINTERFACES then Inr (CReturn USB_DDK_INVALID_PARAMETER config)
         else bindE (rd buffer 2) (\<lambda>bInterfaceNumber.
           if length interfaceNums < num then Inl Oob_read
           else
             let i = find_index (\<lambda>x. x = bInterfaceNumber) (take num interfaceNums) in
             if i = num then Inr (CReturn USB_DDK_INVALID_PARAMETER config)
             else case cfg_interface config of
               None \<Rightarrow> Inl Null_deref
             | Some intfs \<Rightarrow>
                 if length intfs \<le> i then Inl Oob_read
                 else bindE (ParseInterface (intfs ! i) buffer sz) (\<lambda>(ret, intf).
                   let config = config\<lparr>cfg_interface := Some (intfs[i := intf])\<rparr> in
                   if ret < 0 then Inr (CReturn ret config)
                   else Inr (CAgain config (drop (nat ret) buffer) (sz - ret))))))"

text \<open>
  The loop itself need not end, so it is a partial function: \<open>None\<close> says that it runs forever.
\<close>

partial_function (option) ParseConfigurationDes ::
  "ddk_config \<Rightarrow> u8 list \<Rightarrow> int \<Rightarrow> u8 list \<Rightarrow> (int \<times> ddk_config) res option" where
  "ParseConfigurationDes config buffer sz interfaceNums =
     (if sz < 2 then Some (Inr (sz, config))
      else case ParseConfigurationStep config buffer sz interfaceNums of
        Inl e \<Rightarrow> Some (Inl e)
      | Inr (CReturn ret config) \<Rightarrow> Some (Inr (ret, config))
      | Inr (CAgain config buffer sz) \<Rightarrow> ParseConfigurationDes config buffer sz interfaceNums)"

declare ParseConfigurationDes.simps [code]

text \<open>
  \<open>static_cast<uint8_t>(size)\<close> keeps the low eight bits. \<open>memset_s\<close> zeroes both arrays, so that
  each interface starts with \<open>numAltsetting = 0\<close>.
\<close>

definition alloc_interface :: "u8 \<Rightarrow> ddk_interface" where
  "alloc_interface alternateSetting =
     \<lparr> numAltsetting = 0,
       altsetting = replicate (min (unat alternateSetting) USB_MAXALTSETTING) zero_interface_desc \<rparr>"

definition ParseConfiguration :: "ddk_config \<Rightarrow> u8 list \<Rightarrow> int \<Rightarrow> (int \<times> ddk_config) res option" where
  "ParseConfiguration config buffer sz =
     (if sz < USB_DDK_DT_CONFIG_SIZE then Some (Inr (USB_DDK_INVALID_OPERATION, config))
      else case ParseDescriptor USB_DDK_CONFIG_DESCRIPTOR_TYPE (bytes_of_config (configDescriptor config)) 9
                  buffer sz of
        Inl e \<Rightarrow> Some (Inl e)
      | Inr (_, bs) \<Rightarrow>
          (let d = config_of_bytes bs; config = config\<lparr>configDescriptor := d\<rparr> in
           if cd_bDescriptorType d \<noteq> USB_DDK_DT_CONFIG
              \<or> uint (cd_bLength d) < USB_DDK_DT_CONFIG_SIZE
              \<or> cd_bLength d > (word_of_int sz :: u8)
              \<or> unat (cd_bNumInterfaces d) > USB_MAXINTERFACES
           then Some (Inr (USB_DDK_INVALID_OPERATION, config))
           else case GetInterfaceNumber buffer sz [] [] of
             Inl e \<Rightarrow> Some (Inl e)
           | Inr (interfaceNums, alternateSetting) \<Rightarrow>
               (let intfNum = length interfaceNums in
                if intfNum = 0 \<or> intfNum > USB_MAXALTSETTING
                then Some (Inr (USB_DDK_INVALID_OPERATION, config))
                else
                  let config = config\<lparr>configDescriptor := d\<lparr>cd_bNumInterfaces := of_nat intfNum\<rparr>,
                                      cfg_interface := Some (map alloc_interface alternateSetting)\<rparr> in
                  ParseConfigurationDes config (drop (unat (cd_bLength d)) buffer)
                    (sz - uint (cd_bLength d)) interfaceNums)))"

text \<open>
  The result pairs \<open>ret\<close> with \<open>*config\<close>: \<open>None\<close> when the code leaves it unset. The size of the
  vector is converted to \<open>int32_t\<close>.
\<close>

definition ParseUsbConfigDescriptor :: "u8 list \<Rightarrow> (int \<times> ddk_config option) res option" where
  "ParseUsbConfigDescriptor configBuffer =
     (case ParseConfiguration zero_config configBuffer (to_i32 (int (length configBuffer))) of
        None \<Rightarrow> None
      | Some (Inl e) \<Rightarrow> Some (Inl e)
      | Some (Inr (ret, tmpConfig)) \<Rightarrow>
          Some (Inr (ret, if ret < 0 then None else Some tmpConfig)))"

end
