(* ===== verification/Usb_Desc_Safety.thy ===== *)
theory Usb_Desc_Safety
  imports Usb_Desc_Parser
begin

text \<open>
  Memory safety of the descriptor parser of Usb_Desc_Parser, for every input: which faults
  can happen, and the bounds each function keeps between \<open>size\<close> and the bytes that are left.
\<close>

section \<open>Size and buffer\<close>

text \<open>The loops keep \<open>size\<close> at most the number of bytes left, even when an error code is added to the pointer.\<close>

definition sane :: "u8 list \<Rightarrow> int \<Rightarrow> bool" where
  "sane buf sz \<longleftrightarrow> sz \<le> int (length buf)"

lemma sane_drop: "sane buf sz \<Longrightarrow> 0 \<le> n \<Longrightarrow> sane (drop (nat n) buf) (sz - n)"
  by (auto simp: sane_def)

lemma sane_drop_unat: "sane buf sz \<Longrightarrow> sane (drop (unat (w :: u8)) buf) (sz - uint w)"
  using sane_drop [of buf sz "uint w"] by simp

lemma sane_length: "sane buf sz \<Longrightarrow> int n \<le> sz \<Longrightarrow> n \<le> length buf"
  by (simp add: sane_def)

lemma sane_rd: "sane buf sz \<Longrightarrow> int n < sz \<Longrightarrow> rd buf n = Inr (buf ! n)"
  by (simp add: sane_def)

definition extra_ok :: "u8 list option \<Rightarrow> u32 \<Rightarrow> bool" where
  "extra_ok extra l \<longleftrightarrow> unat l = (case extra of None \<Rightarrow> 0 | Some e \<Rightarrow> length e)"

lemma FindNextDescriptor_total:
  "sane buf sz \<Longrightarrow> \<exists>n. FindNextDescriptor buf sz = Inr n \<and> 0 \<le> n \<and> n \<le> max 0 sz"
proof (induction buf sz rule: FindNextDescriptor.induct)
  case (1 buf sz)
  show ?case
  proof (cases "sz < 2")
    case True
    then show ?thesis by (simp add: FindNextDescriptor.simps)
  next
    case False
    then have r: "rd buf 0 = Inr (buf ! 0)" "rd buf 1 = Inr (buf ! 1)"
      using 1(2) sane_rd [of buf sz 0] sane_rd [of buf sz 1] by auto
    show ?thesis
    proof (cases "buf ! 1 = 4 \<or> buf ! 1 = 5 \<or> uint (buf ! 0) < 2 \<or> uint (buf ! 0) > sz")
      case True
      then show ?thesis
        using r False by (subst FindNextDescriptor.simps) auto
    next
      case f: False
      then obtain n where "FindNextDescriptor (drop (unat (buf ! 0)) buf) (sz - uint (buf ! 0)) = Inr n"
        "0 \<le> n" "n \<le> max 0 (sz - uint (buf ! 0))"
        using 1(1) [OF False r(2) _ r(1)] sane_drop_unat [OF 1(2), of "buf ! 0"] by auto
      then show ?thesis
        using r False f by (subst FindNextDescriptor.simps) (auto simp: max_def split: if_splits)
    qed
  qed
qed

lemma memcpy_s_refuses:
  "destMax < count \<Longrightarrow> off + destMax \<le> length dest \<Longrightarrow> \<exists>d. memcpy_s dest off destMax src count = Inr (False, d)"
  by (simp add: memcpy_s_def)

text \<open>
  \<open>FillExtraDescriptor\<close> is safe even where \<open>extraLength + bufferLen\<close> wraps: the first
  \<open>memcpy_s\<close> then refuses.
\<close>

lemma FillExtraDescriptor_total:
  assumes "extra_ok extra l" and "0 \<le> n" and "n \<le> int (length buf)" and "n < 4294967296"
  shows "\<exists>r e' l'. FillExtraDescriptor extra l buf n = Inr (r, e', l') \<and> 0 \<le> r \<and> extra_ok e' l'"
proof (cases "n = 0")
  case True
  then show ?thesis using assms by (simp add: FillExtraDescriptor_def)
next
  case nz: False
  define t where "t = l + word_of_int n"
  have un: "unat (word_of_int n :: u32) = nat n"
    using assms by (simp add: unat_eq_nat_uint uint_word_of_int)
  have d: "t - l = word_of_int n" by (simp add: t_def)
  show ?thesis
  proof (cases "unat t < unat l")
    case True
    then have "l \<noteq> 0" by auto
    then obtain e where e: "extra = Some e" "length e = unat l"
      using assms(1) by (auto simp: extra_ok_def unsigned_eq_0_iff split: option.splits)
    obtain d where "memcpy_s (replicate (unat t) 0) 0 (unat t) e (unat l) = Inr (False, d)"
      using memcpy_s_refuses [of "unat t" "unat l" 0 "replicate (unat t) 0" e] True by auto
    then show ?thesis
      using assms(1) nz e \<open>l \<noteq> 0\<close> by (simp add: FillExtraDescriptor_def t_def [symmetric] Let_def)
  next
    case False
    then have t: "unat t = unat l + nat n"
      using un no_olen_add_nat [of l "word_of_int n"] unat_add_lem [of l "word_of_int n :: u32"]
      by (simp add: t_def word_le_nat_alt)
    show ?thesis
      using nz assms t un d
      by (auto simp: FillExtraDescriptor_def t_def [symmetric] Let_def memcpy_s_def extra_ok_def
          split: option.splits)
  qed
qed

section \<open>Endpoints\<close>

definition ep_ok :: "ddk_endpoint \<Rightarrow> bool" where
  "ep_ok ep \<longleftrightarrow> extra_ok (ep_extra ep) (ep_extraLength ep)"

lemma zero_endpoint_ok [simp]: "ep_ok zero_endpoint"
  by (simp add: ep_ok_def zero_endpoint_def extra_ok_def)

lemma ParseEndpoint_total:
  assumes s: "sane buf sz" and ok: "ep_ok ep" and b: "sz < 4294967296"
  shows "\<exists>r ep'. ParseEndpoint ep buf sz = Inr (r, ep') \<and> 0 \<le> r \<and> ep_ok ep'"
proof (cases "sz < 2 \<or> buf ! 1 \<noteq> 5 \<or> uint (buf ! 0) > sz \<or> uint (buf ! 0) < 7")
  case True
  then show ?thesis
    using s ok by (auto simp: ParseEndpoint_def sane_rd)
next
  case False
  let ?b = "drop (unat (buf ! 0)) buf" and ?s = "sz - uint (buf ! 0)"
  have s': "sane ?b ?s" using s by (rule sane_drop_unat)
  then obtain n where n: "FindNextDescriptor ?b ?s = Inr n" "0 \<le> n" "n \<le> max 0 ?s"
    using FindNextDescriptor_total by blast
  with False have "n \<le> ?s" by simp
  with s' have nb: "n \<le> int (length ?b)" by (simp add: sane_def)
  from ok have "extra_ok (ep_extra ep) (ep_extraLength ep)" by (simp add: ep_ok_def)
  moreover have "n < 4294967296" using \<open>n \<le> ?s\<close> b False by auto
  ultimately obtain r e l where f: "FillExtraDescriptor (ep_extra ep) (ep_extraLength ep) ?b n = Inr (r, e, l)"
    "0 \<le> r" "extra_ok e l"
    using FillExtraDescriptor_total n(2) nb by blast
  have "7 \<le> length buf" using s False by (auto simp: sane_def)
  with False s n f ok show ?thesis
    by (auto simp: ParseEndpoint_def sane_rd ParseDescriptor_endpoint ep_ok_def Let_def)
qed

lemma EndpointLoop_total:
  "sane buf sz \<Longrightarrow> sz < 4294967296 \<Longrightarrow> list_all ep_ok eps \<Longrightarrow> i + todo \<le> length eps
   \<Longrightarrow> \<exists>r num' eps' buf' sz'. EndpointLoop todo i ret num eps buf sz = Inr (r, num', eps', buf', sz')
        \<and> sane buf' sz' \<and> sz' \<le> sz"
proof (induction todo arbitrary: i ret eps buf sz)
  case 0
  then show ?case by simp
next
  case (Suc todo)
  then have "ep_ok (eps ! i)" by (simp add: list_all_length)
  then obtain r ep where r: "ParseEndpoint (eps ! i) buf sz = Inr (r, ep)" "0 \<le> r" "ep_ok ep"
    using ParseEndpoint_total Suc.prems by blast
  show ?case
  proof (cases "r = 0")
    case True
    then show ?thesis using r Suc.prems by simp
  next
    case False
    have "list_all ep_ok (eps[i := ep])"
      using Suc.prems r by (simp add: list_all_length nth_list_update)
    then obtain r' num' eps' buf' sz' where
      "EndpointLoop todo (Suc i) r num (eps[i := ep]) (drop (nat r) buf) (sz - r)
         = Inr (r', num', eps', buf', sz')" "sane buf' sz'" "sz' \<le> sz - r"
      using Suc.IH [of "drop (nat r) buf" "sz - r" "eps[i := ep]" "Suc i" r] Suc.prems r
        sane_drop [of buf sz r] by auto
    then show ?thesis using False r by (intro exI conjI) auto
  qed
qed

lemma ParseInterfaceEndpoint_total:
  assumes "sane buf sz" and "sz < 4294967296"
  shows "\<exists>r d' buf' sz'. ParseInterfaceEndpoint d buf sz = Inr (r, d', buf', sz')
           \<and> sane buf' sz' \<and> sz' \<le> sz"
proof -
  let ?n = "id_bNumEndpoints (interfaceDescriptor d)"
  have "list_all ep_ok (replicate (unat ?n) zero_endpoint)" by (simp add: list_all_length)
  then have "\<exists>r num' eps' buf' sz'.
      EndpointLoop (unat ?n) 0 0 ?n (replicate (unat ?n) zero_endpoint) buf sz
        = Inr (r, num', eps', buf', sz') \<and> sane buf' sz' \<and> sz' \<le> sz"
    using EndpointLoop_total [of buf sz "replicate (unat ?n) zero_endpoint" 0 "unat ?n" 0 ?n] assms
    by auto
  then show ?thesis
    using assms by (cases "?n > 0") (auto simp: ParseInterfaceEndpoint_def)
qed

section \<open>Interfaces\<close>

lemma RawParseDescriptor_interface:
  "9 \<le> sz \<Longrightarrow> sane buf sz \<Longrightarrow>
   \<exists>ret. RawParseDescriptor sz buf USB_DDK_INTERFACE_DESCRIPTOR_TYPE d
     = Inr (ret, d\<lparr>interfaceDescriptor := interface_of_bytes (take 9 buf)\<rparr>)
     \<and> (ret = 0 \<longleftrightarrow> buf ! 1 = 4 \<and> 9 \<le> uint (buf ! 0) \<and> uint (buf ! 0) \<le> sz \<and> unat (buf ! 4) \<le> 32)
     \<and> ret \<in> {0, 401, 27400002}"
  by (auto simp: RawParseDescriptor_def ParseDescriptor_interface sane_def Let_def not_less
      interface_of_bytes.simps)

lemma ParseInterfaceNext_total:
  "sane buf sz \<Longrightarrow> faults_in F (ParseInterfaceNext u buf sz off n)"
  "sane buf sz \<Longrightarrow> ParseInterfaceNext u buf sz off n = Inr (IAgain u' buf' sz' off' n') \<Longrightarrow> sane buf' sz'"
  by (auto simp: ParseInterfaceNext_def sane_rd split: if_splits)

lemma ParseInterfaceAlt_faults:
  assumes s: "sane buf sz" and sz: "0 \<le> sz" "sz < 4294967296" and d: "extra_ok (if_extra d) (if_extraLength d)"
  shows "faults_in F (ParseInterfaceAlt u k d buf sz off n)"
    and "ParseInterfaceAlt u k d buf sz off n = Inr (IAgain u' buf' sz' off' n') \<Longrightarrow> sane buf' sz'"
proof -
  obtain len where len: "FindNextDescriptor buf sz = Inr len" "0 \<le> len" "len \<le> sz"
    using FindNextDescriptor_total [OF s] sz by (auto simp: max_def)
  then have sc: "sane (drop (nat len) buf) (sz - len)" "sz - len < 4294967296"
    using sane_drop [OF s len(2)] sz by auto
  have "len \<le> int (length buf)" "len < 4294967296" using len(3) s sz by (auto simp: sane_def)
  then have "\<exists>r e l. FillExtraDescriptor (if_extra d) (if_extraLength d) buf len = Inr (r, e, l)"
    using FillExtraDescriptor_total [OF d len(2)] by blast
  then obtain r e l where f: "(if len \<noteq> 0 then FillExtraDescriptor (if_extra d) (if_extraLength d) buf len
      else Inr (USB_DDK_SUCCESS, if_extra d, if_extraLength d)) = Inr (r, e, l)"
    by (cases "len = 0") auto
  obtain r2 d2 buf2 sz2 where pe: "ParseInterfaceEndpoint (d\<lparr>if_extra := e, if_extraLength := l\<rparr>)
      (drop (nat len) buf) (sz - len) = Inr (r2, d2, buf2, sz2)" "sane buf2 sz2"
    using ParseInterfaceEndpoint_total [OF sc] by blast
  show "faults_in F (ParseInterfaceAlt u k d buf sz off n)"
    unfolding ParseInterfaceAlt_def len(1) bindE_Inr f
    by (simp add: Let_def pe ParseInterfaceNext_total(1))
  show "sane buf' sz'" if "ParseInterfaceAlt u k d buf sz off n = Inr (IAgain u' buf' sz' off' n')"
    using that unfolding ParseInterfaceAlt_def len(1) bindE_Inr f
    by (auto simp: Let_def pe(1) split: if_splits dest: ParseInterfaceNext_total(2) [OF pe(2)])
qed

lemma ParseInterfaceStep_faults:
  assumes s: "sane buf sz" and sz: "9 \<le> sz" "sz < 4294967296"
  shows "faults_in {Oob_element} (ParseInterfaceStep u buf sz off n)
    \<and> (\<forall>u' buf' sz' off' n'. ParseInterfaceStep u buf sz off n = Inr (IAgain u' buf' sz' off' n')
         \<longrightarrow> sane buf' sz')"
proof (cases "length (altsetting u) \<le> unat (numAltsetting u)")
  case True
  then show ?thesis by (simp add: ParseInterfaceStep_def)
next
  case room: False
  let ?d = "altsetting u ! unat (numAltsetting u)"
  obtain ret where raw: "RawParseDescriptor sz buf USB_DDK_INTERFACE_DESCRIPTOR_TYPE ?d
      = Inr (ret, ?d\<lparr>interfaceDescriptor := interface_of_bytes (take 9 buf)\<rparr>)"
    and ret: "ret \<in> {0, 401, 27400002}"
      "ret = 0 \<longleftrightarrow> buf ! 1 = 4 \<and> 9 \<le> uint (buf ! 0) \<and> uint (buf ! 0) \<le> sz \<and> unat (buf ! 4) \<le> 32"
    using RawParseDescriptor_interface [OF sz(1) s, of ?d] by blast
  show ?thesis
  proof (cases "ret = 0")
    case False
    with ret(1) room raw show ?thesis
      by (auto simp: ParseInterfaceStep_def Let_def)
  next
    case True
    let ?b = "drop (unat (buf ! 0)) buf" and ?s = "sz - uint (buf ! 0)"
    have sb: "sane ?b ?s" "0 \<le> ?s" "?s < 4294967296"
      using sane_drop_unat [OF s] sz True ret(2) uint_nonneg [of "buf ! 0"] by (blast, linarith+)
    have [simp]: "id_bLength (interface_of_bytes (take 9 buf)) = buf ! 0"
      by (simp add: interface_of_bytes.simps)
    from room True show ?thesis
      by (auto simp: ParseInterfaceStep_def raw Let_def extra_ok_def
          intro!: ParseInterfaceAlt_faults(1) [OF sb] dest!: ParseInterfaceAlt_faults(2) [OF sb, rotated])
  qed
qed


lemma ParseInterfaceLoop_faults:
  "sane buf sz \<Longrightarrow> sz < 4294967296 \<Longrightarrow> faults_in {Oob_element} (ParseInterfaceLoop u buf sz off n)"
proof (induction u buf sz off n rule: ParseInterfaceLoop.induct)
  case (1 u buf sz off n)
  show ?case
  proof (cases "sz < 9")
    case False
    then have f: "faults_in {Oob_element} (ParseInterfaceStep u buf sz off n)"
      and a: "\<And>u' buf' sz' off' n'. ParseInterfaceStep u buf sz off n = Inr (IAgain u' buf' sz' off' n')
        \<Longrightarrow> sane buf' sz'"
      using ParseInterfaceStep_faults [OF 1(2) _ 1(3), of u off n] by force+
    have "faults_in {Oob_element} (ParseInterfaceLoop u' buf' sz' off' n')"
      if "ParseInterfaceStep u buf sz off n = Inr (IAgain u' buf' sz' off' n')" for u' buf' sz' off' n'
      using 1(1) [OF False that refl a [OF that]] ParseInterfaceStep_decreases [OF that] 1(3) by simp
    then show ?thesis
      using f False by (subst ParseInterfaceLoop.simps) (auto intro!: fault_rules split: intf_step.split)
  qed (simp add: ParseInterfaceLoop.simps)
qed

lemma ParseInterface_faults:
  "sane buf sz \<Longrightarrow> sz < 4294967296 \<Longrightarrow> faults_in {Oob_element} (ParseInterface u buf sz)"
  by (simp add: ParseInterface_def ParseInterfaceLoop_faults)

text \<open>\<open>interfaceNums\<close> and \<open>alternateSetting\<close> stay parallel, distinct and bounded.\<close>

definition counts_ok :: "u8 list \<Rightarrow> u8 list \<Rightarrow> bool" where
  "counts_ok nums alts \<longleftrightarrow> length alts = length nums \<and> length nums \<le> 32 \<and> distinct nums
     \<and> (\<forall>a \<in> set alts. 1 \<le> unat a \<and> unat a \<le> 128)"

lemma counts_ok_Nil [simp]: "counts_ok [] []"
  by (simp add: counts_ok_def)

lemma unat_Suc_u8: "unat (a :: u8) < 128 \<Longrightarrow> unat (a + 1) = Suc (unat a)"
  using unat_add_lem [of a "1 :: u8"] by simp

lemma counts_ok_step:
  assumes "counts_ok nums alts" and "9 \<le> length buf \<or> uint (buf ! 0) < 9" and "buf \<noteq> []"
  shows "\<exists>nums' alts'. GetInterfaceNumberDes buf nums alts = Inr (nums', alts') \<and> counts_ok nums' alts'"
proof (cases "uint (buf ! 0) < 9")
  case True
  then show ?thesis using assms by (simp add: GetInterfaceNumberDes_def)
next
  case False
  let ?i = "find_index (\<lambda>x. x = buf ! 2) nums"
  have r: "rd buf 0 = Inr (buf ! 0)" "rd buf 2 = Inr (buf ! 2)" using False assms by auto
  have upd: "counts_ok nums (alts[?i := alts ! ?i + 1])" if "unat (alts ! ?i) < 128" "?i < length nums"
    using that assms(1) unat_Suc_u8 [OF that(1)]
    by (auto simp: counts_ok_def dest!: set_update_subset_insert [THEN subsetD])
  have new: "counts_ok (nums @ [buf ! 2]) (alts @ [1])" if "\<not> ?i < length nums" "length nums < 32"
    using that assms(1) by (auto simp: counts_ok_def find_index_less)
  show ?thesis
    using False r upd new assms(1) by (auto simp: GetInterfaceNumberDes_def Let_def)
qed

lemma GetInterfaceNumber_total:
  "sane buf sz \<Longrightarrow> counts_ok nums alts \<Longrightarrow>
   \<exists>nums' alts'. GetInterfaceNumber buf sz nums alts = Inr (nums', alts') \<and> counts_ok nums' alts'"
proof (induction buf sz nums alts rule: GetInterfaceNumber.induct)
  case (1 buf sz nums alts)
  show ?case
  proof (cases "sz < 2 \<or> uint (buf ! 0) > sz \<or> uint (buf ! 0) < 2")
    case True
    then show ?thesis
      using 1(2,3) sane_rd [of buf sz 0] by (subst GetInterfaceNumber.simps) auto
  next
    case False
    then have r: "rd buf 0 = Inr (buf ! 0)" "rd buf 1 = Inr (buf ! 1)"
      using sane_rd [OF 1(2), of 0] sane_rd [OF 1(2), of 1] by auto
    have "9 \<le> length buf \<or> uint (buf ! 0) < 9" "buf \<noteq> []"
      using 1(2) False by (auto simp: sane_def)
    then obtain nums' alts' where g:
      "(if buf ! 1 = 4 then GetInterfaceNumberDes buf nums alts else Inr (nums, alts)) = Inr (nums', alts')"
      "counts_ok nums' alts'"
      using counts_ok_step [OF 1(3), of buf] 1(3) by (cases "buf ! 1 = 4") auto
    have "\<exists>n a. GetInterfaceNumber (drop (unat (buf ! 0)) buf) (sz - uint (buf ! 0)) nums' alts' = Inr (n, a)
        \<and> counts_ok n a"
      by (rule 1(1) [OF _ _ r(1) _ r(2) g(1)])
         (use False g(2) sane_drop_unat [OF 1(2)] in auto)
    with False r g(1) show ?thesis by (subst GetInterfaceNumber.simps) auto
  qed
qed


section \<open>The configuration\<close>

definition cfg_ok :: "ddk_config \<Rightarrow> u8 list \<Rightarrow> bool" where
  "cfg_ok cfg nums \<longleftrightarrow> extra_ok (cfg_extra cfg) (cfg_extraLength cfg)
     \<and> unat (cd_bNumInterfaces (configDescriptor cfg)) = length nums
     \<and> (case cfg_interface cfg of None \<Rightarrow> False | Some intfs \<Rightarrow> length intfs = length nums)"

lemma ParseConfigurationStep_faults:
  assumes s: "sane buf sz" and sz: "0 \<le> sz" "sz < 4294967296" and ok: "cfg_ok cfg nums"
  shows "faults_in {Oob_element} (ParseConfigurationStep cfg buf sz nums)"
    and "ParseConfigurationStep cfg buf sz nums = Inr (CAgain cfg' buf' sz')
      \<Longrightarrow> sane buf' sz' \<and> cfg_ok cfg' nums \<and> sz' \<le> sz"
proof -
  obtain len where len: "FindNextDescriptor buf sz = Inr len" "0 \<le> len" "len \<le> sz"
    using FindNextDescriptor_total [OF s] sz by (auto simp: max_def)
  then have sc: "sane (drop (nat len) buf) (sz - len)" "sz - len < 4294967296"
    using sane_drop [OF s len(2)] sz by auto
  have "len \<le> int (length buf)" "len < 4294967296" using len(3) s sz by (auto simp: sane_def)
  moreover have xok: "extra_ok (cfg_extra cfg) (cfg_extraLength cfg)" using ok by (simp add: cfg_ok_def)
  ultimately have "\<exists>r e l. FillExtraDescriptor (cfg_extra cfg) (cfg_extraLength cfg) buf len = Inr (r, e, l)
      \<and> extra_ok e l"
    using FillExtraDescriptor_total [OF _ len(2)] by blast
  then obtain r e l where f: "(if len \<noteq> 0 then FillExtraDescriptor (cfg_extra cfg) (cfg_extraLength cfg) buf len
      else Inr (USB_DDK_SUCCESS, cfg_extra cfg, cfg_extraLength cfg)) = Inr (r, e, l)" "extra_ok e l"
    using xok by (cases "len = 0") auto
  let ?b = "drop (nat len) buf" and ?n = "length nums"
  obtain intfs where i: "cfg_interface cfg = Some intfs" "length intfs = ?n"
    "unat (cd_bNumInterfaces (configDescriptor cfg)) = ?n"
    using ok by (auto simp: cfg_ok_def split: option.splits)
  have le: "find_index p nums \<le> ?n" for p by (rule find_index_le)
  have rd2: "2 < sz - len \<Longrightarrow> rd ?b 2 = Inr (?b ! 2)" using sane_rd [OF sc(1), of 2] by simp
  have pi: "faults_in {Oob_element} (ParseInterface u ?b (sz - len))" for u
    using ParseInterface_faults [OF sc] .
  show "faults_in {Oob_element} (ParseConfigurationStep cfg buf sz nums)"
    unfolding ParseConfigurationStep_def len(1) bindE_Inr f(1)
    using le [of "\<lambda>x. x = ?b ! 2"]
    by (auto simp: Let_def i rd2 simp del: nth_drop drop_drop intro!: fault_rules pi)
  show "sane buf' sz' \<and> cfg_ok cfg' nums \<and> sz' \<le> sz"
    if "ParseConfigurationStep cfg buf sz nums = Inr (CAgain cfg' buf' sz')"
    using that le [of "\<lambda>x. x = ?b ! 2"] sane_drop [OF sc(1)] len(2) f(2)
    unfolding ParseConfigurationStep_def len(1) bindE_Inr f(1)
    by (auto simp: Let_def i rd2 bindE_eq_Inr cfg_ok_def simp del: nth_drop drop_drop split: if_splits)
qed

lemma ParseConfigurationDes_faults:
  "ParseConfigurationDes cfg buf sz nums = Some r \<Longrightarrow> sane buf sz \<Longrightarrow> sz < 4294967296 \<Longrightarrow> cfg_ok cfg nums
   \<Longrightarrow> faults_in {Oob_element} r"
proof (induction rule: ParseConfigurationDes.raw_induct [rotated, consumes 1])
  case (1 PCD cfg buf sz nums r)
  show ?case
  proof (cases "sz < 2")
    case True
    then show ?thesis using 1(2) by auto
  next
    case False
    note st = ParseConfigurationStep_faults [OF 1(3) _ 1(4,5)]
    show ?thesis
    proof (cases "ParseConfigurationStep cfg buf sz nums")
      case (Inl e)
      then show ?thesis using 1(2) False st(1) by auto
    next
      case (Inr x)
      show ?thesis
      proof (cases x)
        case (CReturn ret c)
        then show ?thesis using 1(2) False Inr by auto
      next
        case (CAgain c b z)
        then have "PCD c b z nums = Some r" using 1(2) False Inr by simp
        then show ?thesis using 1(1) st(2) Inr CAgain False 1(4) by fastforce
      qed
    qed
  qed
qed

lemma to_i32_length: "to_i32 (int n) \<le> int n"
proof -
  have "0 \<le> (int n + 2147483648) div 4294967296"
    by simp
  moreover have "int n + 2147483648 = (int n + 2147483648) div 4294967296 * 4294967296
      + (int n + 2147483648) mod 4294967296"
    by simp
  ultimately show ?thesis unfolding to_i32_def by linarith
qed

lemma ParseConfiguration_faults:
  assumes s: "sane buf sz" and sz: "sz < 4294967296" and x: "extra_ok (cfg_extra cfg) (cfg_extraLength cfg)"
    and p: "ParseConfiguration cfg buf sz = Some r"
  shows "faults_in {Oob_element} r"
proof (cases "sz < 9")
  case True
  then show ?thesis using p by (auto simp: ParseConfiguration_def)
next
  case False
  then have l: "9 \<le> length buf" using s by (simp add: sane_def)
  obtain nums alts where g: "GetInterfaceNumber buf sz [] [] = Inr (nums, alts)" "counts_ok nums alts"
    using GetInterfaceNumber_total [OF s counts_ok_Nil] by blast
  let ?d = "config_of_bytes (take 9 buf)"
  have "cfg_ok (cfg\<lparr>configDescriptor := ?d\<lparr>cd_bNumInterfaces := of_nat (length nums)\<rparr>,
      cfg_interface := Some (map alloc_interface alts)\<rparr>) nums"
    using g(2) x by (auto simp: cfg_ok_def counts_ok_def unat_of_nat)
  from ParseConfigurationDes_faults [OF _ sane_drop_unat [OF s] _ this]
  show ?thesis
    using p False l g(1) sz uint_nonneg [of "cd_bLength ?d"]
    by (auto simp: ParseConfiguration_def ParseDescriptor_config Let_def split: if_splits)
qed

lemma parser_faults:
  "ParseUsbConfigDescriptor buf = Some (Inl e) \<Longrightarrow> e = Oob_element"
proof -
  have "sane buf (to_i32 (int (length buf)))" "to_i32 (int (length buf)) < 4294967296"
    using to_i32_length to_i32_bounds(2) [of "int (length buf)"] by (auto simp: sane_def)
  moreover have "extra_ok (cfg_extra zero_config) (cfg_extraLength zero_config)"
    by (simp add: zero_config_def extra_ok_def)
  ultimately show "ParseUsbConfigDescriptor buf = Some (Inl e) \<Longrightarrow> e = Oob_element"
    using ParseConfiguration_faults [of buf "to_i32 (int (length buf))" zero_config]
    by (fastforce simp: ParseUsbConfigDescriptor_def faults_in_def split: option.splits sum.splits if_splits)
qed

text \<open>
  C2: for every buffer, ParseUsbConfigDescriptor never returns, or returns a result without having
  committed any memory error, or its first memory error is a reference to an element past the end of
  altsetting. So up to such a reference, and in the whole run if there is none, it reads no byte
  outside the input and outside the arrays it allocated, writes nothing outside them and dereferences
  no null pointer. What a run does after such a reference is not described; altsetting_overflow_witness
  is an input with one.
\<close>

theorem parser_leaves_only_altsetting:
  "ParseUsbConfigDescriptor buf \<in> {None, Some (Inl Oob_element)} \<union> range (\<lambda>result. Some (Inr result))"
proof (cases "ParseUsbConfigDescriptor buf")
  case (Some r)
  then show ?thesis using parser_faults [of buf] by (cases r) auto
qed simp

end
