(* ===== verification/Usb_Desc_Roundtrip.thy ===== *)
theory Usb_Desc_Roundtrip
  imports Usb_Desc_Parser
begin

text \<open>
  The parser against the format it parses: an encoder of configurations, the configurations
  it encodes faithfully (\<open>wf_config\<close>), and the proof that the parser rebuilds exactly the
  structure that was encoded and consumes every byte.
\<close>

section \<open>The encoder\<close>

text \<open>A run of class- or vendor-specific descriptors: none of them an interface or an endpoint.\<close>

function descs :: "u8 list \<Rightarrow> bool" where
  "descs e =
     (if e = [] then True
      else if 2 \<le> length e \<and> 2 \<le> uint (e ! 0) \<and> unat (e ! 0) \<le> length e \<and> e ! 1 \<noteq> 4 \<and> e ! 1 \<noteq> 5
      then descs (drop (unat (e ! 0)) e)
      else False)"
  by pat_completeness auto
termination
  by (relation "measure length") (auto intro!: diff_less unat_pos)

declare descs.simps [simp del]

definition extra_bytes :: "u8 list option \<Rightarrow> u8 list" where
  "extra_bytes x = (case x of None \<Rightarrow> [] | Some e \<Rightarrow> e)"

definition wf_extra :: "u8 list option \<Rightarrow> u32 \<Rightarrow> bool" where
  "wf_extra x l \<longleftrightarrow> l = of_nat (length (extra_bytes x)) \<and> x \<noteq> Some [] \<and> descs (extra_bytes x)"

definition enc_ep :: "ddk_endpoint \<Rightarrow> u8 list" where
  "enc_ep ep = take 7 (bytes_of_endpoint (endpointDescriptor ep)) @ extra_bytes (ep_extra ep)"

definition wf_ep :: "ddk_endpoint \<Rightarrow> bool" where
  "wf_ep ep \<longleftrightarrow> ed_bLength (endpointDescriptor ep) = 7 \<and> ed_bDescriptorType (endpointDescriptor ep) = 5
     \<and> ed_bRefresh (endpointDescriptor ep) = 0 \<and> ed_bSynchAddress (endpointDescriptor ep) = 0
     \<and> wf_extra (ep_extra ep) (ep_extraLength ep)"

definition eps_of :: "ddk_interface_desc \<Rightarrow> ddk_endpoint list" where
  "eps_of d = (case endPoint d of None \<Rightarrow> [] | Some eps \<Rightarrow> eps)"

definition enc_alt :: "ddk_interface_desc \<Rightarrow> u8 list" where
  "enc_alt d = bytes_of_interface (interfaceDescriptor d) @ extra_bytes (if_extra d)
     @ concat (map enc_ep (eps_of d))"

definition wf_alt :: "ddk_interface_desc \<Rightarrow> bool" where
  "wf_alt d \<longleftrightarrow> id_bLength (interfaceDescriptor d) = 9 \<and> id_bDescriptorType (interfaceDescriptor d) = 4
     \<and> unat (id_bNumEndpoints (interfaceDescriptor d)) = length (eps_of d) \<and> length (eps_of d) \<le> 32
     \<and> endPoint d \<noteq> Some [] \<and> list_all wf_ep (eps_of d) \<and> wf_extra (if_extra d) (if_extraLength d)"

definition enc_intf :: "ddk_interface \<Rightarrow> u8 list" where
  "enc_intf u = concat (map enc_alt (altsetting u))"

text \<open>The number of an interface is the one its first alternate setting carries.\<close>

definition number_of :: "ddk_interface \<Rightarrow> u8" where
  "number_of u = id_bInterfaceNumber (interfaceDescriptor (altsetting u ! 0))"

definition wf_intf :: "ddk_interface \<Rightarrow> bool" where
  "wf_intf u \<longleftrightarrow> altsetting u \<noteq> [] \<and> length (altsetting u) \<le> 128
     \<and> unat (numAltsetting u) = length (altsetting u) \<and> list_all wf_alt (altsetting u)
     \<and> list_all (\<lambda>d. id_bInterfaceNumber (interfaceDescriptor d) = number_of u) (altsetting u)"

definition intfs_of :: "ddk_config \<Rightarrow> ddk_interface list" where
  "intfs_of c = (case cfg_interface c of None \<Rightarrow> [] | Some us \<Rightarrow> us)"

definition enc_config :: "ddk_config \<Rightarrow> u8 list" where
  "enc_config c = bytes_of_config (configDescriptor c) @ extra_bytes (cfg_extra c)
     @ concat (map enc_intf (intfs_of c))"

text \<open>
  Two of the conditions come from the code, not from the USB format: at most 31 interfaces,
  and a total length whose low byte is at least 9.
\<close>

definition wf_config :: "ddk_config \<Rightarrow> bool" where
  "wf_config c \<longleftrightarrow> cd_bLength (configDescriptor c) = 9 \<and> cd_bDescriptorType (configDescriptor c) = 2
     \<and> unat (cd_bNumInterfaces (configDescriptor c)) = length (intfs_of c)
     \<and> 1 \<le> length (intfs_of c) \<and> length (intfs_of c) < 32
     \<and> cfg_interface c \<noteq> None \<and> list_all wf_intf (intfs_of c)
     \<and> distinct (map number_of (intfs_of c)) \<and> wf_extra (cfg_extra c) (cfg_extraLength c)
     \<and> int (length (enc_config c)) < 2147483648 \<and> 9 \<le> int (length (enc_config c)) mod 256"

section \<open>Extra bytes and endpoints\<close>

text \<open>What follows a run of extra descriptors: nothing, or an interface or endpoint descriptor.\<close>

definition boundary :: "u8 list \<Rightarrow> bool" where
  "boundary rest \<longleftrightarrow> rest = [] \<or> (2 \<le> length rest \<and> (rest ! 1 = 4 \<or> rest ! 1 = 5))"

lemma FindNextDescriptor_boundary:
  "boundary rest \<Longrightarrow> FindNextDescriptor rest (int (length rest)) = Inr 0"
  by (subst FindNextDescriptor.simps) (auto simp: boundary_def)

lemma FindNextDescriptor_descs:
  "descs e \<Longrightarrow> boundary rest \<Longrightarrow>
   FindNextDescriptor (e @ rest) (int (length e) + int (length rest)) = Inr (int (length e))"
proof (induction e rule: descs.induct)
  case (1 e)
  show ?case
  proof (cases "e = []")
    case True
    then show ?thesis using 1 FindNextDescriptor_boundary by simp
  next
    case False
    with 1(2) have d: "2 \<le> length e" "2 \<le> uint (e ! 0)" "unat (e ! 0) \<le> length e" "e ! 1 \<noteq> 4" "e ! 1 \<noteq> 5"
      "descs (drop (unat (e ! 0)) e)"
      by (subst (asm) descs.simps, simp split: if_splits)+
    have l: "int (length (drop (unat (e ! 0)) e)) = int (length e) - uint (e ! 0)"
      using d(3) by (simp add: of_nat_diff)
    have "uint (e ! 0) \<le> int (length e)" using d(3) by (metis of_nat_unat of_nat_le_iff)
    then have "\<not> int (length e) + int (length rest) < uint (e ! 0)" by linarith
    then have fits: "(int (length e) + int (length rest) < uint (e ! 0)) = False" by blast
    have "\<not> int (length e) + int (length rest) < 2" using d(1) by linarith
    then have long: "(int (length e) + int (length rest) < 2) = False" by blast
    have rds: "rd (e @ rest) 0 = Inr (e ! 0)" "rd (e @ rest) (Suc 0) = Inr (e ! 1)" using d(1) by (auto simp: rd_def nth_append)
    show ?thesis
      using 1(1) [OF False _ d(6) 1(3)] d l
      by (subst FindNextDescriptor.simps) (simp add: algebra_simps fits long rds)
  qed
qed

lemma FillExtraDescriptor_fresh:
  assumes "e \<noteq> []" and "length e < 2147483648"
  shows "FillExtraDescriptor None 0 (e @ rest) (int (length e)) = Inr (0, Some e, of_nat (length e))"
proof -
  have "unat (word_of_int (int (length e)) :: u32) = length e"
    using assms(2) by (simp add: unat_of_nat)
  then show ?thesis
    using assms by (simp add: FillExtraDescriptor_def memcpy_s_def rd_bytes_def Let_def)
qed

lemma wf_extra_None [simp]: "wf_extra None l \<longleftrightarrow> l = 0"
  by (simp add: wf_extra_def extra_bytes_def descs.simps)

lemma extra_parse:
  assumes "wf_extra x l" and "boundary rest" and "length (extra_bytes x) < 2147483648"
  shows "FindNextDescriptor (extra_bytes x @ rest) (int (length (extra_bytes x)) + int (length rest))
           = Inr (int (length (extra_bytes x)))"
    and "(if int (length (extra_bytes x)) \<noteq> 0
          then FillExtraDescriptor None 0 (extra_bytes x @ rest) (int (length (extra_bytes x)))
          else Inr (0, None, 0)) = Inr (0, x, l)"
proof -
  have d: "descs (extra_bytes x)" using assms(1) by (simp add: wf_extra_def)
  show "FindNextDescriptor (extra_bytes x @ rest) (int (length (extra_bytes x)) + int (length rest))
      = Inr (int (length (extra_bytes x)))"
    using FindNextDescriptor_descs [OF d assms(2)] .
  show "(if int (length (extra_bytes x)) \<noteq> 0
      then FillExtraDescriptor None 0 (extra_bytes x @ rest) (int (length (extra_bytes x)))
      else Inr (0, None, 0)) = Inr (0, x, l)"
  proof (cases x)
    case None
    then show ?thesis using assms(1) by (simp add: extra_bytes_def wf_extra_def)
  next
    case (Some e)
    then show ?thesis
      using assms(1,3) FillExtraDescriptor_fresh [of e rest] by (simp add: extra_bytes_def wf_extra_def)
  qed
qed

lemma length_enc_ep: "length (enc_ep ep) = 7 + length (extra_bytes (ep_extra ep))"
  by (simp add: enc_ep_def)

lemma enc_ep_nth: "enc_ep ep ! 0 = ed_bLength (endpointDescriptor ep)"
  "enc_ep ep ! 1 = ed_bDescriptorType (endpointDescriptor ep)"
  by (simp_all add: enc_ep_def bytes_of_endpoint.simps)

lemma ParseEndpoint_enc:
  assumes wf: "wf_ep ep" and rest: "boundary rest" and b: "length (enc_ep ep) < 2147483648"
  shows "ParseEndpoint zero_endpoint (enc_ep ep @ rest) (int (length (enc_ep ep)) + int (length rest))
    = Inr (int (length (enc_ep ep)), ep)"
proof -
  let ?x = "extra_bytes (ep_extra ep)"
  have x: "wf_extra (ep_extra ep) (ep_extraLength ep)" using wf by (simp add: wf_ep_def)
  have lx: "length ?x < 2147483648" using b by (simp add: length_enc_ep)
  have h: "(enc_ep ep @ rest) ! 0 = 7" "(enc_ep ep @ rest) ! 1 = 5"
    using wf by (simp_all add: nth_append length_enc_ep enc_ep_nth [simplified] wf_ep_def)
  have s: "endpoint_of_bytes (take 7 (enc_ep ep @ rest) @ drop 7 (bytes_of_endpoint (endpointDescriptor zero_endpoint)))
      = endpointDescriptor ep"
    using wf by (simp add: enc_ep_def wf_ep_def zero_endpoint_def endpoint_of_bytes.simps bytes_of_endpoint.simps)
  have d: "drop 7 (enc_ep ep @ rest) = ?x @ rest" by (simp add: enc_ep_def)
  show ?thesis
    using extra_parse [OF x rest lx] h s d
    by (auto simp: ParseEndpoint_def length_enc_ep ParseDescriptor_endpoint Let_def zero_endpoint_def
        split: if_splits)
qed


section \<open>Alternate settings\<close>

lemma boundary_ep [simp]: "wf_ep ep \<Longrightarrow> boundary (enc_ep ep @ rest)"
  by (simp add: boundary_def length_enc_ep nth_append enc_ep_nth [simplified] wf_ep_def)

lemma boundary_eps: "list_all wf_ep eps \<Longrightarrow> boundary rest \<Longrightarrow> boundary (concat (map enc_ep eps) @ rest)"
  by (cases eps) auto

lemma EndpointLoop_enc:
  "list_all wf_ep todo \<Longrightarrow> boundary rest \<Longrightarrow> length (concat (map enc_ep todo)) < 2147483648 \<Longrightarrow> 0 \<le> ret \<Longrightarrow>
   \<exists>ret'. 0 \<le> ret' \<and>
     EndpointLoop (length todo) (length done) ret num (done @ replicate (length todo) zero_endpoint)
       (concat (map enc_ep todo) @ rest) (int (length (concat (map enc_ep todo))) + int (length rest))
     = Inr (ret', num, done @ todo, rest, int (length rest))"
proof (induction todo arbitrary: "done" ret)
  case Nil
  then show ?case by auto
next
  case (Cons ep todo)
  let ?n = "int (length (enc_ep ep))" and ?r = "concat (map enc_ep todo) @ rest"
  have "ParseEndpoint zero_endpoint (enc_ep ep @ ?r) (?n + int (length ?r)) = Inr (?n, ep)"
    by (rule ParseEndpoint_enc) (use Cons.prems boundary_eps in auto)
  moreover have "0 < ?n" by (simp add: length_enc_ep)
  moreover obtain ret' where "0 \<le> ret'"
    "EndpointLoop (length todo) (length (done @ [ep])) ?n num ((done @ [ep]) @ replicate (length todo) zero_endpoint)
       ?r (int (length (concat (map enc_ep todo))) + int (length rest))
     = Inr (ret', num, (done @ [ep]) @ todo, rest, int (length rest))"
    using Cons.IH [of ?n "done @ [ep]"] Cons.prems by auto
  ultimately show ?case by (intro exI [of _ ret']) (simp add: add.assoc)
qed

lemma ParseInterfaceEndpoint_enc:
  assumes wf: "wf_alt d" and rest: "boundary rest" and b: "length (concat (map enc_ep (eps_of d))) < 2147483648"
  shows "\<exists>ret. 0 \<le> ret \<and> ParseInterfaceEndpoint (d\<lparr>endPoint := None\<rparr>) (concat (map enc_ep (eps_of d)) @ rest)
      (int (length (concat (map enc_ep (eps_of d)))) + int (length rest)) = Inr (ret, d, rest, int (length rest))"
proof (cases "eps_of d = []")
  case True
  then have "id_bNumEndpoints (interfaceDescriptor d) = 0" "endPoint d = None"
    using wf by (auto simp: wf_alt_def eps_of_def unat_0_iff split: option.splits)
  with True show ?thesis by (simp add: ParseInterfaceEndpoint_def)
next
  case False
  then have n: "unat (id_bNumEndpoints (interfaceDescriptor d)) = length (eps_of d)"
    "0 < id_bNumEndpoints (interfaceDescriptor d)" "endPoint d = Some (eps_of d)"
    using wf by (auto simp: wf_alt_def eps_of_def word_gt_0 split: option.splits)
  obtain ret where "0 \<le> ret"
    "EndpointLoop (length (eps_of d)) 0 0 (id_bNumEndpoints (interfaceDescriptor d))
       (replicate (length (eps_of d)) zero_endpoint) (concat (map enc_ep (eps_of d)) @ rest)
       (int (length (concat (map enc_ep (eps_of d)))) + int (length rest))
     = Inr (ret, id_bNumEndpoints (interfaceDescriptor d), eps_of d, rest, int (length rest))"
    using EndpointLoop_enc [of "eps_of d" rest 0 "[]"] wf rest b by (auto simp: wf_alt_def)
  with n show ?thesis
    by (intro exI [of _ ret]) (simp add: ParseInterfaceEndpoint_def n(3) [symmetric])
qed

lemma length_enc_alt: "length (enc_alt d) = 9 + length (extra_bytes (if_extra d)) + length (concat (map enc_ep (eps_of d)))"
  by (simp add: enc_alt_def)

lemma enc_alt_nth:
  "(enc_alt d @ r) ! 0 = id_bLength (interfaceDescriptor d)"
  "(enc_alt d @ r) ! 1 = id_bDescriptorType (interfaceDescriptor d)"
  "(enc_alt d @ r) ! 2 = id_bInterfaceNumber (interfaceDescriptor d)"
  "(enc_alt d @ r) ! 4 = id_bNumEndpoints (interfaceDescriptor d)"
  by (simp_all add: enc_alt_def bytes_of_interface.simps)

text \<open>What follows an alternate setting: nothing, or the next interface descriptor.\<close>

definition intf_boundary :: "u8 list \<Rightarrow> bool" where
  "intf_boundary rest \<longleftrightarrow> rest = [] \<or> (9 \<le> length rest \<and> rest ! 1 = 4)"

lemma intf_boundary_boundary: "intf_boundary rest \<Longrightarrow> boundary rest"
  by (auto simp: intf_boundary_def boundary_def)

lemma ParseInterfaceAlt_enc:
  assumes wf: "wf_alt d" and rest: "intf_boundary rest" and b: "length (enc_alt d) < 2147483648"
  shows "ParseInterfaceAlt u k (d\<lparr>if_extra := None, if_extraLength := 0, endPoint := None\<rparr>)
      (drop 9 (enc_alt d) @ rest) (int (length (enc_alt d)) + int (length rest) - 9) off n
    = ParseInterfaceNext (u\<lparr>altsetting := (altsetting u)[k := d]\<rparr>) rest (int (length rest))
        (off + int (length (enc_alt d)) - 9) n"
proof -
  let ?x = "extra_bytes (if_extra d)" and ?e = "concat (map enc_ep (eps_of d))"
  have x: "wf_extra (if_extra d) (if_extraLength d)" "list_all wf_ep (eps_of d)"
    using wf by (simp_all add: wf_alt_def)
  have b': "boundary (?e @ rest)" using boundary_eps [OF x(2) intf_boundary_boundary [OF rest]] .
  have l: "length ?x < 2147483648" "length ?e < 2147483648" using b by (simp_all add: length_enc_alt)
  obtain ret where ret: "0 \<le> ret" "ParseInterfaceEndpoint (d\<lparr>endPoint := None\<rparr>) (?e @ rest)
      (int (length ?e) + int (length rest)) = Inr (ret, d, rest, int (length rest))"
    using ParseInterfaceEndpoint_enc [OF wf intf_boundary_boundary [OF rest] l(2)] by blast
  have d: "drop 9 (enc_alt d) @ rest = ?x @ ?e @ rest" by (simp add: enc_alt_def)
  have s: "int (length (enc_alt d)) + int (length rest) - 9 = int (length ?x) + int (length (?e @ rest))"
    by (simp add: length_enc_alt)
  have upd: "d\<lparr>if_extra := None, if_extraLength := 0, endPoint := None,
      if_extra := if_extra d, if_extraLength := if_extraLength d\<rparr> = d\<lparr>endPoint := None\<rparr>" by simp
  let ?d0 = "d\<lparr>if_extra := None, if_extraLength := 0, endPoint := None\<rparr>"
  have f: "(if int (length ?x) \<noteq> 0
      then FillExtraDescriptor (if_extra ?d0) (if_extraLength ?d0) (?x @ ?e @ rest) (int (length ?x))
      else Inr (0, if_extra ?d0, if_extraLength ?d0)) = Inr (0, if_extra d, if_extraLength d)"
    using extra_parse(2) [OF x(1) b' l(1)] by (simp split: if_splits)
  show ?thesis
    unfolding ParseInterfaceAlt_def d s extra_parse(1) [OF x(1) b' l(1)] bindE_Inr f
    by (simp add: Let_def upd length_enc_alt ret(2) leD [OF ret(1)] add.assoc del: length_concat)
qed


section \<open>Interfaces\<close>

lemma ParseInterfaceStep_enc:
  assumes wf: "wf_alt d" and rest: "intf_boundary rest" and b: "length (enc_alt d) < 2147483648"
    and u: "unat (numAltsetting u) < length (altsetting u)"
    and z: "altsetting u ! unat (numAltsetting u) = zero_interface_desc"
    and n: "n = -1 \<or> n = uint (id_bInterfaceNumber (interfaceDescriptor d))"
  shows "ParseInterfaceStep u (enc_alt d @ rest) (int (length (enc_alt d)) + int (length rest)) off n
    = ParseInterfaceNext (u\<lparr>numAltsetting := numAltsetting u + 1,
        altsetting := (altsetting u)[unat (numAltsetting u) := d]\<rparr>) rest (int (length rest))
        (off + int (length (enc_alt d))) (uint (id_bInterfaceNumber (interfaceDescriptor d)))"
proof -
  let ?b = "enc_alt d @ rest" and ?s = "int (length (enc_alt d)) + int (length rest)"
  let ?k = "unat (numAltsetting u)"
  have w: "id_bLength (interfaceDescriptor d) = 9" "id_bDescriptorType (interfaceDescriptor d) = 4"
    "unat (id_bNumEndpoints (interfaceDescriptor d)) \<le> 32"
    using wf by (auto simp: wf_alt_def)
  have t: "take 9 ?b = bytes_of_interface (interfaceDescriptor d)" "9 \<le> length ?b" "9 \<le> ?s"
    by (simp_all add: enc_alt_def)
  have raw: "RawParseDescriptor ?s ?b USB_DDK_INTERFACE_DESCRIPTOR_TYPE zero_interface_desc
      = Inr (0, zero_interface_desc\<lparr>interfaceDescriptor := interfaceDescriptor d\<rparr>)"
    using w t by (simp add: RawParseDescriptor_def ParseDescriptor_interface Let_def del: take_append)
  have z0: "zero_interface_desc\<lparr>interfaceDescriptor := interfaceDescriptor d, if_extra := None,
      if_extraLength := 0, endPoint := None\<rparr> = d\<lparr>if_extra := None, if_extraLength := 0, endPoint := None\<rparr>"
    by (simp add: zero_interface_desc_def)
  have drop9: "drop 9 ?b = drop 9 (enc_alt d) @ rest" by (simp add: enc_alt_def)
  let ?u' = "u\<lparr>numAltsetting := numAltsetting u + 1,
      altsetting := (altsetting u)[?k := d\<lparr>if_extra := None, if_extraLength := 0, endPoint := None\<rparr>]\<rparr>"
  let ?m = "uint (id_bInterfaceNumber (interfaceDescriptor d))"
  have "ParseInterfaceStep u ?b ?s off n
      = ParseInterfaceAlt ?u' ?k (d\<lparr>if_extra := None, if_extraLength := 0, endPoint := None\<rparr>)
          (drop 9 (enc_alt d) @ rest) (?s - 9) (off + 9) ?m"
    using n u by (auto simp: ParseInterfaceStep_def z raw Let_def z0 w drop9 simp del: drop_append)
  then show ?thesis
    using ParseInterfaceAlt_enc [OF wf rest b, of ?u' ?k "off + 9" ?m] by simp
qed

text \<open>What follows an interface: nothing, or an alternate setting of another interface.\<close>

definition other_intf :: "u8 \<Rightarrow> u8 list \<Rightarrow> bool" where
  "other_intf m rest \<longleftrightarrow> intf_boundary rest \<and> (rest = [] \<or> rest ! 2 \<noteq> m)"

lemma intf_boundary_alt [simp]: "wf_alt d \<Longrightarrow> intf_boundary (enc_alt d @ rest)"
  by (simp add: intf_boundary_def length_enc_alt enc_alt_nth [simplified] wf_alt_def)

lemma ParseInterfaceLoop_enc:
  "todo \<noteq> [] \<Longrightarrow> list_all wf_alt todo \<Longrightarrow> list_all (\<lambda>d. id_bInterfaceNumber (interfaceDescriptor d) = m) todo
   \<Longrightarrow> other_intf m rest \<Longrightarrow> n = -1 \<or> n = uint m \<Longrightarrow> length done + length todo \<le> 128 \<Longrightarrow> 0 \<le> off
   \<Longrightarrow> off + int (length (concat (map enc_alt todo))) < 2147483648 \<Longrightarrow>
   ParseInterfaceLoop \<lparr>numAltsetting = of_nat (length done),
       altsetting = done @ replicate (length todo) zero_interface_desc\<rparr>
     (concat (map enc_alt todo) @ rest) (int (length (concat (map enc_alt todo))) + int (length rest)) off n
   = Inr (off + int (length (concat (map enc_alt todo))),
       \<lparr>numAltsetting = of_nat (length (done @ todo)), altsetting = done @ todo\<rparr>)"
proof (induction todo arbitrary: "done" off n)
  case Nil
  then show ?case by simp
next
  case (Cons d todo)
  let ?u = "\<lparr>numAltsetting = of_nat (length done), altsetting = done @ replicate (Suc (length todo)) zero_interface_desc\<rparr>"
  let ?r = "concat (map enc_alt todo) @ rest"
  let ?u' = "\<lparr>numAltsetting = of_nat (length (done @ [d])), altsetting = (done @ [d]) @ replicate (length todo) zero_interface_desc\<rparr>"
  have l: "unat (of_nat (length done) :: u8) = length done" using Cons.prems by (simp add: unat_of_nat)
  have bnd: "intf_boundary ?r"
    using Cons.prems by (cases todo) (auto simp: other_intf_def)
  have m: "id_bInterfaceNumber (interfaceDescriptor d) = m" and wf: "wf_alt d" using Cons.prems by auto
  have "length (enc_alt d) < 2147483648" using Cons.prems by simp
  from ParseInterfaceStep_enc [OF wf bnd this, of ?u n off]
  have step: "ParseInterfaceStep ?u (enc_alt d @ ?r) (int (length (enc_alt d)) + int (length ?r)) off n
      = ParseInterfaceNext ?u' ?r (int (length ?r)) (off + int (length (enc_alt d))) (uint m)"
    using Cons.prems by (auto simp: l m nth_append add.commute)
  have unfold: "ParseInterfaceLoop ?u (enc_alt d @ ?r) (int (length (enc_alt d)) + int (length ?r)) off n
      = bindE (ParseInterfaceNext ?u' ?r (int (length ?r)) (off + int (length (enc_alt d))) (uint m))
          (\<lambda>r. case r of IReturn ret u \<Rightarrow> Inr (ret, u)
             | IAgain u b s off n \<Rightarrow> ParseInterfaceLoop u b s off n)"
    by (subst ParseInterfaceLoop.simps, subst step) (simp add: length_enc_alt)
  show ?case
  proof (cases todo)
    case Nil
    then have "ParseInterfaceNext ?u' ?r (int (length ?r)) (off + int (length (enc_alt d))) (uint m)
        = Inr (IReturn (off + int (length (enc_alt d))) ?u')"
      using Cons.prems
      by (auto simp: ParseInterfaceNext_def other_intf_def intf_boundary_def word_uint_eq_iff [of "rest ! 2"])
    with unfold Nil show ?thesis by (simp add: add.assoc)
  next
    case (Cons d2 todo2)
    then have "ParseInterfaceNext ?u' ?r (int (length ?r)) (off + int (length (enc_alt d))) (uint m)
        = Inr (IAgain ?u' ?r (int (length ?r)) (off + int (length (enc_alt d))) (uint m))"
      using Cons.prems
      by (auto simp: ParseInterfaceNext_def length_enc_alt rd_def enc_alt_nth [simplified] wf_alt_def)
    moreover have "ParseInterfaceLoop ?u' ?r (int (length ?r)) (off + int (length (enc_alt d))) (uint m)
        = Inr (off + int (length (enc_alt d)) + int (length (concat (map enc_alt todo))),
            \<lparr>numAltsetting = of_nat (length ((done @ [d]) @ todo)), altsetting = (done @ [d]) @ todo\<rparr>)"
      using Cons.IH [of "uint m" "done @ [d]" "off + int (length (enc_alt d))"] Cons Cons.prems
      by (simp add: ac_simps)
    ultimately show ?thesis using unfold by (simp add: add.assoc)
  qed
qed


lemma ParseInterface_enc:
  assumes wf: "wf_intf u" and rest: "other_intf (number_of u) rest" and b: "length (enc_intf u) < 2147483648"
  shows "ParseInterface (alloc_interface (numAltsetting u)) (enc_intf u @ rest)
      (int (length (enc_intf u)) + int (length rest)) = Inr (int (length (enc_intf u)), u)"
proof -
  have "ParseInterfaceLoop (alloc_interface (numAltsetting u)) (enc_intf u @ rest)
      (int (length (enc_intf u)) + int (length rest)) 0 (-1)
    = Inr (int (length (enc_intf u)), \<lparr>numAltsetting = of_nat (length (altsetting u)), altsetting = altsetting u\<rparr>)"
    using ParseInterfaceLoop_enc [of "altsetting u" "number_of u" rest "-1" "[]" 0] assms
    by (simp add: wf_intf_def alloc_interface_def enc_intf_def)
  moreover have "of_nat (length (altsetting u)) = numAltsetting u"
    using wf by (metis wf_intf_def of_nat_of_unat)
  ultimately show ?thesis by (simp add: ParseInterface_def alloc_interface_def)
qed

section \<open>Counting the alternate settings\<close>

lemma GetInterfaceNumber_block:
  assumes "2 \<le> length b" and "unat (b ! 0) = length b"
  shows "GetInterfaceNumber (b @ rest) (int (length b) + int (length rest)) ns as =
     bindE (if b ! 1 = 4 then GetInterfaceNumberDes (b @ rest) ns as else Inr (ns, as))
       (\<lambda>(ns, as). GetInterfaceNumber rest (int (length rest)) ns as)"
proof -
  have u: "uint (b ! 0) = int (length b)" using assms(2) by (metis of_nat_unat)
  have "rd (b @ rest) 0 = Inr (b ! 0)" "rd (b @ rest) (Suc 0) = Inr (b ! 1)"
    using assms(1) by (auto simp: rd_def nth_append)
  then show ?thesis
    using assms by (subst GetInterfaceNumber.simps) (simp add: u)
qed

lemma GetInterfaceNumber_descs:
  "descs e \<Longrightarrow> GetInterfaceNumber (e @ rest) (int (length e) + int (length rest)) ns as
     = GetInterfaceNumber rest (int (length rest)) ns as"
proof (induction e rule: descs.induct)
  case (1 e)
  show ?case
  proof (cases "e = []")
    case False
    with 1(2) have d: "2 \<le> length e" "2 \<le> uint (e ! 0)" "unat (e ! 0) \<le> length e" "e ! 1 \<noteq> 4" "e ! 1 \<noteq> 5"
      "descs (drop (unat (e ! 0)) e)"
      by (subst (asm) descs.simps, simp split: if_splits)+
    let ?b = "take (unat (e ! 0)) e" and ?e = "drop (unat (e ! 0)) e"
    have n2: "2 \<le> unat (e ! 0)" using d(2) by (metis of_nat_unat of_nat_le_iff of_nat_numeral)
    have "GetInterfaceNumber (?b @ (?e @ rest)) (int (length ?b) + int (length (?e @ rest))) ns as
        = GetInterfaceNumber (?e @ rest) (int (length (?e @ rest))) ns as"
      using d n2 by (subst GetInterfaceNumber_block) (auto simp: min_def)
    moreover have "e @ rest = ?b @ (?e @ rest)"
      "int (length e) + int (length rest) = int (length ?b) + int (length (?e @ rest))"
      using d(3) by (simp_all add: of_nat_diff)
    ultimately have "GetInterfaceNumber (e @ rest) (int (length e) + int (length rest)) ns as
        = GetInterfaceNumber (?e @ rest) (int (length (?e @ rest))) ns as" by (simp only:)
    also have "\<dots> = GetInterfaceNumber rest (int (length rest)) ns as"
      using 1(1) [OF False _ d(6)] d(1-5) by (simp only: length_append of_nat_add) blast
    finally show ?thesis .
  qed simp
qed

lemma wf_extra_descs: "wf_extra x l \<Longrightarrow> descs (extra_bytes x)"
  by (simp add: wf_extra_def)

lemma GetInterfaceNumber_eps:
  "list_all wf_ep eps \<Longrightarrow>
   GetInterfaceNumber (concat (map enc_ep eps) @ rest) (int (length (concat (map enc_ep eps))) + int (length rest)) ns as
     = GetInterfaceNumber rest (int (length rest)) ns as"
proof (induction eps)
  case (Cons ep eps)
  let ?b = "take 7 (bytes_of_endpoint (endpointDescriptor ep))" and ?x = "extra_bytes (ep_extra ep)"
  let ?r = "concat (map enc_ep eps) @ rest"
  have "?b ! 0 = 7" "?b ! 1 = 5" "length ?b = 7" and x: "descs ?x"
    using Cons.prems wf_extra_descs by (auto simp: wf_ep_def bytes_of_endpoint.simps)
  then have "GetInterfaceNumber (?b @ (?x @ ?r)) (int (length ?b) + int (length (?x @ ?r))) ns as
      = GetInterfaceNumber (?x @ ?r) (int (length (?x @ ?r))) ns as"
    by (subst GetInterfaceNumber_block) auto
  moreover have "enc_ep ep = ?b @ ?x" by (simp add: enc_ep_def)
  ultimately show ?case
    using GetInterfaceNumber_descs [OF x, of ?r ns as] Cons
    by (simp add: add.assoc del: length_concat)
qed simp

lemma GetInterfaceNumber_alt:
  assumes wf: "wf_alt d"
  shows "GetInterfaceNumber (enc_alt d @ rest) (int (length (enc_alt d)) + int (length rest)) ns as =
     bindE (GetInterfaceNumberDes (enc_alt d @ rest) ns as)
       (\<lambda>(ns, as). GetInterfaceNumber rest (int (length rest)) ns as)"
proof -
  let ?b = "bytes_of_interface (interfaceDescriptor d)" and ?x = "extra_bytes (if_extra d)"
  let ?e = "concat (map enc_ep (eps_of d))"
  have b: "?b ! 0 = 9" "?b ! 1 = 4" using wf by (simp_all add: wf_alt_def bytes_of_interface.simps)
  have x: "descs ?x" "list_all wf_ep (eps_of d)" using wf wf_extra_descs by (auto simp: wf_alt_def)
  have "GetInterfaceNumber (?b @ (?x @ ?e @ rest)) (int (length ?b) + int (length (?x @ ?e @ rest))) ns as
      = bindE (GetInterfaceNumberDes (enc_alt d @ rest) ns as)
          (\<lambda>(ns, as). GetInterfaceNumber (?x @ ?e @ rest) (int (length (?x @ ?e @ rest))) ns as)"
    using b by (subst GetInterfaceNumber_block) (auto simp: enc_alt_def)
  moreover have "GetInterfaceNumber (?x @ ?e @ rest) (int (length (?x @ ?e @ rest))) ns as
      = GetInterfaceNumber rest (int (length rest)) ns as" for ns as
    using GetInterfaceNumber_descs [OF x(1), of "?e @ rest" ns as] GetInterfaceNumber_eps [OF x(2), of rest ns as]
    by (simp del: length_concat)
  ultimately show ?thesis
    by (simp add: enc_alt_def add.assoc del: length_concat)
qed

lemma GetInterfaceNumberDes_alt:
  assumes "wf_alt d"
  shows "m = id_bInterfaceNumber (interfaceDescriptor d) \<Longrightarrow> m \<notin> set ns \<Longrightarrow> length ns < 32
      \<Longrightarrow> GetInterfaceNumberDes (enc_alt d @ rest) ns as = Inr (ns @ [m], as @ [1])"
    and "m = id_bInterfaceNumber (interfaceDescriptor d) \<Longrightarrow> m \<notin> set ns \<Longrightarrow> length as = length ns \<Longrightarrow> c < 128
      \<Longrightarrow> GetInterfaceNumberDes (enc_alt d @ rest) (ns @ [m]) (as @ [of_nat c]) = Inr (ns @ [m], as @ [of_nat (Suc c)])"
proof -
  have r: "rd (enc_alt d @ rest) 0 = Inr 9" "rd (enc_alt d @ rest) 2 = Inr (id_bInterfaceNumber (interfaceDescriptor d))"
    using assms by (simp_all add: rd_def length_enc_alt enc_alt_nth wf_alt_def del: nth_append)
  have nine: "uint (9 :: u8) = 9" by simp
  have u: "unat (of_nat c :: u8) = c" if "c < 128" using that by (simp add: unat_of_nat)
  have i: "m \<notin> set ns \<Longrightarrow> find_index (\<lambda>x. x = m) (ns @ r) = length ns + find_index (\<lambda>x. x = m) r" for m r
    by (induction ns) auto
  show "m = id_bInterfaceNumber (interfaceDescriptor d) \<Longrightarrow> m \<notin> set ns \<Longrightarrow> length ns < 32
      \<Longrightarrow> GetInterfaceNumberDes (enc_alt d @ rest) ns as = Inr (ns @ [m], as @ [1])"
    using r i [of m "[]"] by (simp add: GetInterfaceNumberDes_def)
  show "m = id_bInterfaceNumber (interfaceDescriptor d) \<Longrightarrow> m \<notin> set ns \<Longrightarrow> length as = length ns \<Longrightarrow> c < 128
      \<Longrightarrow> GetInterfaceNumberDes (enc_alt d @ rest) (ns @ [m]) (as @ [of_nat c]) = Inr (ns @ [m], as @ [of_nat (Suc c)])"
    using i [of m "[m]"] u unfolding GetInterfaceNumberDes_def r bindE_Inr nine
    by (simp add: nth_append list_update_append add.commute)
qed

lemma GetInterfaceNumber_more_alts:
  "list_all wf_alt todo \<Longrightarrow> list_all (\<lambda>d. id_bInterfaceNumber (interfaceDescriptor d) = m) todo \<Longrightarrow> m \<notin> set ns
   \<Longrightarrow> length as = length ns \<Longrightarrow> c + length todo \<le> 128 \<Longrightarrow>
   GetInterfaceNumber (concat (map enc_alt todo) @ rest) (int (length (concat (map enc_alt todo))) + int (length rest))
     (ns @ [m]) (as @ [of_nat c])
   = GetInterfaceNumber rest (int (length rest)) (ns @ [m]) (as @ [of_nat (c + length todo)])"
proof (induction todo arbitrary: c)
  case (Cons d todo)
  then show ?case
    using GetInterfaceNumber_alt [of d "concat (map enc_alt todo) @ rest"] Cons.IH [of "Suc c"]
      GetInterfaceNumberDes_alt(2) [of d m ns as c]
    by (simp add: add.assoc del: length_concat of_nat_Suc)
qed simp

lemma GetInterfaceNumber_intf:
  assumes wf: "wf_intf u" and "number_of u \<notin> set ns" and "length as = length ns" and "length ns < 32"
  shows "GetInterfaceNumber (enc_intf u @ rest) (int (length (enc_intf u)) + int (length rest)) ns as
    = GetInterfaceNumber rest (int (length rest)) (ns @ [number_of u]) (as @ [numAltsetting u])"
proof -
  obtain d ds where a: "altsetting u = d # ds" using wf by (cases "altsetting u") (auto simp: wf_intf_def)
  have n: "of_nat (Suc (length ds)) = numAltsetting u"
    using wf a by (metis length_Cons wf_intf_def of_nat_of_unat)
  have w: "wf_alt d" "list_all wf_alt ds" "id_bInterfaceNumber (interfaceDescriptor d) = number_of u"
    "list_all (\<lambda>d. id_bInterfaceNumber (interfaceDescriptor d) = number_of u) ds" "Suc (length ds) \<le> 128"
    using wf a by (auto simp: wf_intf_def)
  show ?thesis
    using GetInterfaceNumber_alt [OF w(1), of "concat (map enc_alt ds) @ rest" ns as]
      GetInterfaceNumberDes_alt(1) [OF w(1) w(3) [symmetric] assms(2,4), of "concat (map enc_alt ds) @ rest" as]
      GetInterfaceNumber_more_alts [OF w(2,4) assms(2,3), of 1 rest] w(5) n
    by (simp add: enc_intf_def a add.assoc of_nat_1 [unfolded One_nat_def] del: length_concat of_nat_Suc)
qed

lemma GetInterfaceNumber_intfs:
  "list_all wf_intf us \<Longrightarrow> distinct (ns @ map number_of us) \<Longrightarrow> length as = length ns
   \<Longrightarrow> length ns + length us \<le> 32 \<Longrightarrow>
   GetInterfaceNumber (concat (map enc_intf us)) (int (length (concat (map enc_intf us)))) ns as
   = Inr (ns @ map number_of us, as @ map numAltsetting us)"
proof (induction us arbitrary: ns as)
  case Nil
  then show ?case by (subst GetInterfaceNumber.simps) simp
next
  case (Cons u us)
  then show ?case
    using GetInterfaceNumber_intf [of u ns as "concat (map enc_intf us)"]
      Cons.IH [of "ns @ [number_of u]" "as @ [numAltsetting u]"]
    by (simp del: length_concat)
qed


section \<open>The configuration\<close>

lemma other_intf_rest:
  assumes "list_all wf_intf us" and "m \<notin> set (map number_of us)"
  shows "other_intf m (concat (map enc_intf us))"
proof (cases us)
  case Nil
  then show ?thesis by (simp add: other_intf_def intf_boundary_def)
next
  case (Cons u us')
  then obtain d ds where "altsetting u = d # ds" "wf_alt d" "number_of u \<noteq> m"
    using assms by (cases "altsetting u") (auto simp: wf_intf_def)
  then show ?thesis
    using Cons intf_boundary_alt [of d]
    by (auto simp: other_intf_def enc_intf_def enc_alt_nth [simplified] number_of_def length_enc_alt)
qed

lemma enc_intf_Cons:
  assumes "wf_intf u"
  shows "boundary (enc_intf u @ r)" and "9 \<le> length (enc_intf u)" and "(enc_intf u @ r) ! 2 = number_of u"
proof -
  obtain d ds where "altsetting u = d # ds" "wf_alt d"
    using assms by (cases "altsetting u") (auto simp: wf_intf_def)
  then show "boundary (enc_intf u @ r)" "9 \<le> length (enc_intf u)" "(enc_intf u @ r) ! 2 = number_of u"
    using intf_boundary_boundary [OF intf_boundary_alt, of d]
    by (simp_all add: enc_intf_def enc_alt_nth [simplified] number_of_def length_enc_alt)
qed

lemma ParseConfigurationStep_extra:
  assumes "wf_extra x l" and "boundary r" and "length (extra_bytes x) < 2147483648"
    and "cfg_extra c = None" and "cfg_extraLength c = 0"
  shows "ParseConfigurationStep c (extra_bytes x @ r) (int (length (extra_bytes x)) + int (length r)) nums
    = ParseConfigurationStep (c\<lparr>cfg_extra := x, cfg_extraLength := l\<rparr>) r (int (length r)) nums"
proof -
  have f: "(if int (length (extra_bytes x)) \<noteq> 0
      then FillExtraDescriptor (cfg_extra c) (cfg_extraLength c) (extra_bytes x @ r) (int (length (extra_bytes x)))
      else Inr (0, cfg_extra c, cfg_extraLength c)) = Inr (0, x, l)"
    using extra_parse(2) [OF assms(1-3)] by (simp only: assms(4,5))
  show ?thesis
    unfolding ParseConfigurationStep_def extra_parse(1) [OF assms(1-3)]
      FindNextDescriptor_boundary [OF assms(2)] bindE_Inr f
    by (simp add: Let_def)
qed

lemma ParseConfigurationStep_enc:
  assumes wf: "wf_intf u" and ws: "list_all wf_intf todo" and dist: "distinct (map number_of (done @ u # todo))"
    and n: "unat (cd_bNumInterfaces (configDescriptor c)) = length (done @ u # todo)" "length (done @ u # todo) < 32"
    and i: "cfg_interface c = Some (done @ map (alloc_interface \<circ> numAltsetting) (u # todo))"
    and b: "length (enc_intf u) < 2147483648"
  shows "ParseConfigurationStep c (enc_intf u @ concat (map enc_intf todo))
      (int (length (enc_intf u @ concat (map enc_intf todo)))) (map number_of (done @ u # todo))
    = Inr (CAgain (c\<lparr>cfg_interface := Some (done @ u # map (alloc_interface \<circ> numAltsetting) todo)\<rparr>)
        (concat (map enc_intf todo)) (int (length (concat (map enc_intf todo)))))"
proof -
  let ?r = "concat (map enc_intf todo)" and ?nums = "map number_of (done @ u # todo)"
  have idx: "find_index (\<lambda>x. x = number_of u) ?nums = length done"
    using find_index_distinct [OF dist, of "length done"] by (simp add: nth_append)
  have p: "ParseInterface (alloc_interface (numAltsetting u)) (enc_intf u @ ?r)
      (int (length (enc_intf u)) + int (length ?r)) = Inr (int (length (enc_intf u)), u)"
    by (rule ParseInterface_enc [OF wf other_intf_rest [OF ws] b]) (use dist in auto)
  have r2: "rd (enc_intf u @ ?r) 2 = Inr (number_of u)"
    using enc_intf_Cons(2) [OF wf] enc_intf_Cons(3) [OF wf, of ?r] by (simp add: rd_def)
  have s: "(int (length (enc_intf u)) + int (length ?r) \<le> 2) = False"
    using enc_intf_Cons(2) [OF wf] by auto
  have f: "FindNextDescriptor (enc_intf u @ ?r) (int (length (enc_intf u)) + int (length ?r)) = Inr 0"
    using FindNextDescriptor_boundary [OF enc_intf_Cons(1) [OF wf, of ?r]] by (simp only: length_append of_nat_add)
  have c: "c\<lparr>cfg_extra := cfg_extra c, cfg_extraLength := cfg_extraLength c\<rparr> = c" by simp
  show ?thesis
    unfolding ParseConfigurationStep_def length_append of_nat_add f bindE_Inr c
    using n i idx p by (simp add: Let_def s r2 nth_append del: length_concat)
qed

lemma ParseConfigurationDes_enc:
  "list_all wf_intf todo \<Longrightarrow> distinct (map number_of (done @ todo))
   \<Longrightarrow> unat (cd_bNumInterfaces (configDescriptor c)) = length (done @ todo) \<Longrightarrow> length (done @ todo) < 32
   \<Longrightarrow> cfg_interface c = Some (done @ map (alloc_interface \<circ> numAltsetting) todo)
   \<Longrightarrow> length (concat (map enc_intf todo)) < 2147483648 \<Longrightarrow>
   ParseConfigurationDes c (concat (map enc_intf todo)) (int (length (concat (map enc_intf todo))))
     (map number_of (done @ todo)) = Some (Inr (0, c\<lparr>cfg_interface := Some (done @ todo)\<rparr>))"
proof (induction todo arbitrary: "done" c)
  case Nil
  then show ?case by (subst ParseConfigurationDes.simps) simp
next
  case (Cons u todo)
  let ?c = "c\<lparr>cfg_interface := Some (done @ u # map (alloc_interface \<circ> numAltsetting) todo)\<rparr>"
  let ?b = "enc_intf u @ concat (map enc_intf todo)"
  have wf: "wf_intf u" using Cons.prems by simp
  have step: "ParseConfigurationStep c ?b (int (length ?b)) (map number_of (done @ u # todo))
      = Inr (CAgain ?c (concat (map enc_intf todo)) (int (length (concat (map enc_intf todo)))))"
    by (rule ParseConfigurationStep_enc) (use Cons.prems in auto)
  have "\<not> int (length ?b) < 2" using enc_intf_Cons(2) [OF wf] by simp
  then have "ParseConfigurationDes c ?b (int (length ?b)) (map number_of (done @ u # todo))
      = ParseConfigurationDes ?c (concat (map enc_intf todo)) (int (length (concat (map enc_intf todo))))
          (map number_of ((done @ [u]) @ todo))"
    by (subst ParseConfigurationDes.simps, subst step) (simp del: length_concat)
  also have "\<dots> = Some (Inr (0, ?c\<lparr>cfg_interface := Some ((done @ [u]) @ todo)\<rparr>))"
    by (rule Cons.IH) (use Cons.prems in auto)
  finally show ?case by simp
qed


lemma GetInterfaceNumber_config:
  assumes wf: "wf_config c"
  shows "GetInterfaceNumber (enc_config c) (int (length (enc_config c))) [] []
    = Inr (map number_of (intfs_of c), map numAltsetting (intfs_of c))"
proof -
  let ?h = "bytes_of_config (configDescriptor c)" and ?x = "extra_bytes (cfg_extra c)"
  let ?r = "concat (map enc_intf (intfs_of c))"
  have h: "?h ! 0 = 9" "?h ! 1 = 2" using wf by (simp_all add: wf_config_def bytes_of_config.simps)
  have x: "descs ?x" using wf wf_extra_descs by (auto simp: wf_config_def)
  have "GetInterfaceNumber (?h @ (?x @ ?r)) (int (length ?h) + int (length (?x @ ?r))) [] []
      = GetInterfaceNumber (?x @ ?r) (int (length (?x @ ?r))) [] []"
    using h by (subst GetInterfaceNumber_block) auto
  also have "\<dots> = GetInterfaceNumber ?r (int (length ?r)) [] []"
    using GetInterfaceNumber_descs [OF x, of ?r] by (simp only: length_append of_nat_add)
  also have "\<dots> = Inr (map number_of (intfs_of c), map numAltsetting (intfs_of c))"
    using GetInterfaceNumber_intfs [of "intfs_of c" "[]" "[]"] wf by (simp add: wf_config_def)
  finally show ?thesis by (simp add: enc_config_def del: length_concat)
qed

lemma ParseConfiguration_enc:
  assumes wf: "wf_config c"
  shows "ParseConfiguration zero_config (enc_config c) (int (length (enc_config c))) = Some (Inr (0, c))"
proof -
  let ?h = "bytes_of_config (configDescriptor c)" and ?x = "extra_bytes (cfg_extra c)"
  let ?us = "intfs_of c"
  let ?r = "concat (map enc_intf ?us)" and ?nums = "map number_of ?us"
  have w: "cd_bLength (configDescriptor c) = 9" "cd_bDescriptorType (configDescriptor c) = 2"
    "unat (cd_bNumInterfaces (configDescriptor c)) = length ?us" "1 \<le> length ?us" "length ?us < 32"
    "cfg_interface c = Some ?us" "list_all wf_intf ?us" "distinct ?nums"
    "wf_extra (cfg_extra c) (cfg_extraLength c)" "length (enc_config c) < 2147483648"
    "9 \<le> length (enc_config c) mod 256"
    using wf by (auto simp: wf_config_def intfs_of_def nat_mod_as_int)
  have l: "length (enc_config c) = 9 + length ?x + length ?r" by (simp add: enc_config_def)
  have ne: "?us \<noteq> []" using w(4) by auto
  have l9: "\<not> int (length (enc_config c)) < 9" "\<not> length (enc_config c) < 9" using l by linarith+
  have t: "take 9 (enc_config c) = ?h" "drop 9 (enc_config c) = ?x @ ?r" by (simp_all add: enc_config_def)
  have low: "\<not> (word_of_int (int (length (enc_config c))) :: u8) < 9"
    using w(11) by (simp add: word_less_nat_alt unat_of_nat)
  have num: "of_nat (length ?us) = cd_bNumInterfaces (configDescriptor c)"
    using w(3) by (rule of_nat_of_unat)
  define c1 where "c1 = zero_config\<lparr>configDescriptor := configDescriptor c,
      cfg_interface := Some (map (alloc_interface \<circ> numAltsetting) ?us)\<rparr>"
  have "ParseConfiguration zero_config (enc_config c) (int (length (enc_config c)))
      = ParseConfigurationDes c1 (?x @ ?r) (int (length (enc_config c)) - 9) ?nums"
    using w low num l9 ne
    by (simp add: ParseConfiguration_def ParseDescriptor_config t GetInterfaceNumber_config [OF wf]
        Let_def c1_def zero_config_def del: length_concat)
  moreover have "ParseConfigurationDes c1 (?x @ ?r) (int (length ?x) + int (length ?r)) ?nums
      = ParseConfigurationDes (c1\<lparr>cfg_extra := cfg_extra c, cfg_extraLength := cfg_extraLength c\<rparr>) ?r
          (int (length ?r)) ?nums"
  proof -
    obtain u us where us: "?us = u # us" using w(4) by (cases ?us) auto
    then have u: "wf_intf u" using w(7) by simp
    have b: "boundary ?r" using enc_intf_Cons(1) [OF u] by (simp add: us)
    have lr: "9 \<le> length ?r" using enc_intf_Cons(2) [OF u] by (simp add: us)
    have lx: "length ?x < 2147483648" using w(10) l by simp
    have "ParseConfigurationStep c1 (?x @ ?r) (int (length ?x) + int (length ?r)) ?nums
        = ParseConfigurationStep (c1\<lparr>cfg_extra := cfg_extra c, cfg_extraLength := cfg_extraLength c\<rparr>) ?r
            (int (length ?r)) ?nums"
      by (rule ParseConfigurationStep_extra [OF w(9) b lx]) (simp_all add: c1_def zero_config_def)
    then show ?thesis
      using lr by (subst (1 2) ParseConfigurationDes.simps) (simp del: length_concat)
  qed
  moreover have "ParseConfigurationDes (c1\<lparr>cfg_extra := cfg_extra c, cfg_extraLength := cfg_extraLength c\<rparr>) ?r
      (int (length ?r)) ?nums = Some (Inr (0, c))"
  proof -
    let ?c2 = "c1\<lparr>cfg_extra := cfg_extra c, cfg_extraLength := cfg_extraLength c\<rparr>"
    have "ParseConfigurationDes ?c2 ?r (int (length ?r)) (map number_of ([] @ ?us))
        = Some (Inr (0, ?c2\<lparr>cfg_interface := Some ([] @ ?us)\<rparr>))"
      by (rule ParseConfigurationDes_enc) (use w(3,5,7,8,10) l in \<open>simp_all add: c1_def\<close>)
    moreover have "?c2\<lparr>cfg_interface := Some ?us\<rparr> = c"
      using w(6) by (simp add: c1_def zero_config_def)
    ultimately show ?thesis by (simp only: append_Nil)
  qed
  moreover have "int (length (enc_config c)) - 9 = int (length ?x) + int (length ?r)" by (simp add: l)
  ultimately show ?thesis by (simp only:)
qed

text \<open>
  C1: ParseUsbConfigDescriptor inverts the encoder. For every well-formed configuration
  the parser returns 0, so no byte is left over, and rebuilds exactly that configuration:
  interfaces, alternate settings, endpoints and extra bytes.
\<close>

theorem parse_encode_roundtrip:
  "wf_config c \<Longrightarrow> ParseUsbConfigDescriptor (enc_config c) = Some (Inr (0, Some c))"
  using ParseConfiguration_enc [of c] by (simp add: ParseUsbConfigDescriptor_def wf_config_def)

text \<open>
  A configuration with two interfaces: the first with two alternate settings, of which the
  second has two endpoints and class-specific bytes, the second with one endpoint.
\<close>

definition sample_config :: ddk_config where
  "sample_config =
     \<lparr>configDescriptor = config_of_bytes [9,2,80,0,2,1,0,128,50],
      cfg_interface = Some
        [\<lparr>numAltsetting = 2, altsetting =
           [\<lparr>interfaceDescriptor = interface_of_bytes [9,4,0,0,0,3,0,0,0], endPoint = None,
              if_extra = None, if_extraLength = 0\<rparr>,
            \<lparr>interfaceDescriptor = interface_of_bytes [9,4,0,1,2,3,0,0,0],
              endPoint = Some
                [\<lparr>endpointDescriptor = endpoint_of_bytes [7,5,129,3,8,0,10,0,0], ep_extra = None,
                   ep_extraLength = 0\<rparr>,
                 \<lparr>endpointDescriptor = endpoint_of_bytes [7,5,2,3,8,0,10,0,0],
                   ep_extra = Some [3,37,7], ep_extraLength = 3\<rparr>],
              if_extra = Some [4,33,1,2], if_extraLength = 4\<rparr>]\<rparr>,
         \<lparr>numAltsetting = 1, altsetting =
           [\<lparr>interfaceDescriptor = interface_of_bytes [9,4,5,0,1,8,6,80,0],
              endPoint = Some
                [\<lparr>endpointDescriptor = endpoint_of_bytes [7,5,130,2,0,2,0,0,0], ep_extra = None,
                   ep_extraLength = 0\<rparr>],
              if_extra = None, if_extraLength = 0\<rparr>]\<rparr>],
      cfg_extra = Some [8,11,0,2,3,0,0,0], cfg_extraLength = 8\<rparr>"

lemma sample_config_wf: "wf_config sample_config"
  by code_simp

theorem parse_encode_roundtrip_witness:
  "wf_config sample_config
   \<and> ParseUsbConfigDescriptor (enc_config sample_config) = Some (Inr (0, Some sample_config))"
  using parse_encode_roundtrip [OF sample_config_wf] sample_config_wf by blast

end
