(* ===== verification/Usb_Desc_Limits.thy ===== *)
theory Usb_Desc_Limits
  imports Usb_Desc_Safety Usb_Desc_Roundtrip
begin

text \<open>
  Where the descriptor parser stops being a parser: the inputs on which its loop never ends,
  the inputs on which it writes outside an allocated array, what its error results look like,
  and the inputs it refuses for reasons of its own.
\<close>

section \<open>Progress and its absence\<close>

lemma ParseConfigurationDes_stuck:
  assumes "ParseConfigurationStep c buf sz nums = Inr (CAgain c buf sz)" and "2 \<le> sz"
  shows "ParseConfigurationDes c buf sz nums = None"
proof (rule ccontr)
  assume "ParseConfigurationDes c buf sz nums \<noteq> None"
  then obtain r where "ParseConfigurationDes c buf sz nums = Some r" by auto
  then have "(c, buf, sz, nums) \<noteq> (c, buf, sz, nums)"
    using assms
  proof (induction rule: ParseConfigurationDes.raw_induct [rotated, consumes 1])
    case (1 P c buf sz nums r)
    then have "P c buf sz nums = Some r" by (auto split: if_splits)
    then show ?case using 1 by blast
  qed
  then show False by simp
qed

text \<open>The header of an interface that announces more bytes than there are.\<close>

definition truncated_header :: "u8 list \<Rightarrow> int \<Rightarrow> bool" where
  "truncated_header buf sz \<longleftrightarrow> 3 \<le> sz \<and> sz < 9 \<and> sz \<le> int (length buf) \<and> (buf ! 1 = 4 \<or> buf ! 1 = 5)"

text \<open>
  C6: ParseConfigurationDes never returns when three to eight bytes are left that start like an
  interface or endpoint descriptor and whose third byte is the number of a known interface:
  ParseInterface returns 0 for them and the loop goes round with the same pointer and size.
\<close>

theorem truncated_header_never_returns:
  assumes "truncated_header buf sz" and "cfg_interface c = Some intfs"
    and "unat (cd_bNumInterfaces (configDescriptor c)) = length nums" and "length intfs = length nums"
    and "length nums < 32" and "buf ! 2 \<in> set nums"
    and "list_all (\<lambda>u. unat (numAltsetting u) \<le> 128) intfs"
  shows "ParseConfigurationDes c buf sz nums = None"
proof (rule ParseConfigurationDes_stuck)
  let ?i = "find_index (\<lambda>x. x = buf ! 2) nums"
  have i: "?i < length nums" using assms(6) by (auto simp: find_index_less)
  have r: "rd buf 1 = Inr (buf ! 1)" "rd buf 2 = Inr (buf ! 2)"
    using assms(1) by (auto simp: truncated_header_def)
  have f: "FindNextDescriptor buf sz = Inr 0"
    using assms(1) r(1) by (subst FindNextDescriptor.simps) (auto simp: truncated_header_def)
  have a: "unat (numAltsetting (intfs ! ?i)) \<le> 128"
    using assms(4,7) i by (simp add: list_all_length)
  have p: "ParseInterface (intfs ! ?i) buf sz = Inr (0, intfs ! ?i)"
    using assms(1) a by (simp add: ParseInterface_def ParseInterfaceLoop.simps truncated_header_def)
  have c: "c\<lparr>cfg_extra := cfg_extra c, cfg_extraLength := cfg_extraLength c\<rparr> = c" by simp
  have c': "c\<lparr>cfg_interface := Some intfs\<rparr> = c" using assms(2) by simp
  have sz: "\<not> sz \<le> 2" using assms(1) by (simp add: truncated_header_def)
  show "ParseConfigurationStep c buf sz nums = Inr (CAgain c buf sz)"
    unfolding ParseConfigurationStep_def f bindE_Inr
    using assms(2-5) i r sz p by (simp add: Let_def c c')
  show "2 \<le> sz" using assms(1) by (simp add: truncated_header_def)
qed

text \<open>
  An input that reaches such a state: one interface without endpoints, then the first four bytes
  of a second alternate setting. The configuration of the first 18 bytes is the one the loop
  gets stuck with.
\<close>

definition hanging_input :: "u8 list" where
  "hanging_input = [9,2,22,0,1,1,0,0,0, 9,4,0,0,0,0,0,0,0, 9,4,0,1]"

definition hanging_config :: ddk_config where
  "hanging_config =
     zero_config\<lparr>configDescriptor := config_of_bytes [9,2,22,0,1,1,0,0,0],
       cfg_interface := Some [alloc_interface 1]\<rparr>"

definition stuck_config :: ddk_config where
  "stuck_config = hanging_config\<lparr>cfg_interface :=
     Some [\<lparr>numAltsetting = 1,
            altsetting = [zero_interface_desc\<lparr>interfaceDescriptor := interface_of_bytes [9,4,0,0,0,0,0,0,0]\<rparr>]\<rparr>]\<rparr>"

lemma hanging_prefix:
  "GetInterfaceNumber hanging_input 22 [] [] = Inr ([0], [1])"
  "ParseConfigurationStep hanging_config (drop 9 hanging_input) 13 [0] = Inr (CAgain stuck_config [9,4,0,1] 4)"
  by code_simp+

lemma hanging_input_enters_loop:
  "ParseUsbConfigDescriptor hanging_input = None \<longleftrightarrow> ParseConfigurationDes stuck_config [9,4,0,1] 4 [0] = None"
proof -
  have "ParseConfiguration zero_config hanging_input 22
      = ParseConfigurationDes hanging_config (drop 9 hanging_input) 13 [0]"
    using hanging_prefix(1)
    by (simp add: ParseConfiguration_def ParseDescriptor_config Let_def hanging_config_def
        zero_config_def hanging_input_def config_of_bytes.simps)
  also have "\<dots> = ParseConfigurationDes stuck_config [9,4,0,1] 4 [0]"
    by (subst ParseConfigurationDes.simps) (simp add: hanging_prefix(2))
  finally show ?thesis
    by (simp add: ParseUsbConfigDescriptor_def hanging_input_def split: option.split sum.split)
qed

theorem truncated_header_never_returns_witness:
  "ParseUsbConfigDescriptor hanging_input = None"
  unfolding hanging_input_enters_loop
  by (rule truncated_header_never_returns [of _ _ _ "the (cfg_interface stuck_config)"])
     (simp_all add: truncated_header_def stuck_config_def hanging_config_def config_of_bytes.simps)

section \<open>An element past the end of the array\<close>

text \<open>
  ParseInterface uses an element past the end of altsetting as soon as it is called with nine bytes left for
  an interface whose alternate settings have all been parsed: the index is not checked.
\<close>

theorem altsetting_overflow:
  assumes "9 \<le> sz" and "unat (numAltsetting u) = length (altsetting u)" and "length (altsetting u) \<le> 128"
  shows "ParseInterface u buf sz = Inl Oob_element"
  using assms
  by (simp add: ParseInterface_def ParseInterfaceLoop.simps ParseInterfaceStep_def Let_def)

definition overflow_input :: "u8 list" where
  "overflow_input = [9,2,27,0,1,1,0,0,0, 9,4,1,0,0,0,0,0,0, 9,5,1,0,0,0,0,0,0]"

text \<open>One interface that announces no endpoint, followed by an endpoint whose address is its number.\<close>

lemma overflow_input_result: "ParseUsbConfigDescriptor overflow_input = Some (Inl Oob_element)"
  by code_simp

theorem altsetting_overflow_witness:
  "ParseInterface \<lparr>numAltsetting = 1, altsetting = [zero_interface_desc]\<rparr> (drop 18 overflow_input) 9 = Inl Oob_element
   \<and> ParseUsbConfigDescriptor overflow_input = Some (Inl Oob_element)"
  using altsetting_overflow [of 9 "\<lparr>numAltsetting = 1, altsetting = [zero_interface_desc]\<rparr>" "drop 18 overflow_input"]
    overflow_input_result by simp

section \<open>Error results\<close>

text \<open>
  the error codes are positive, so the result never tells a failure from leftover bytes:
  a configuration is handed out exactly when the result is not negative, also for the input
  that is rejected at once because it is shorter than a configuration descriptor.
\<close>

theorem error_hands_out_config:
  "(\<forall>ret config. ParseUsbConfigDescriptor buf = Some (Inr (ret, config)) \<longrightarrow> (config = None \<longleftrightarrow> ret < 0))
   \<and> (length buf < 9 \<longrightarrow> ParseUsbConfigDescriptor buf = Some (Inr (27400002, Some zero_config)))"
  by (auto simp: ParseUsbConfigDescriptor_def ParseConfiguration_def split: option.splits sum.splits)

theorem error_hands_out_config_witness:
  "ParseUsbConfigDescriptor [9, 2] = Some (Inr (27400002, Some zero_config))"
  using error_hands_out_config [of "[9, 2]"] by simp

text \<open>
  a buffer whose length has a low byte below nine is refused, whatever it holds: the length
  of the configuration descriptor is compared with static_cast<uint8_t>(size).
\<close>

theorem low_byte_of_size_refused:
  assumes "length buf mod 256 < 9" and "length buf < 2147483648"
  shows "\<exists>c. ParseUsbConfigDescriptor buf = Some (Inr (27400002, Some c))"
proof (cases "length buf < 9")
  case True
  then show ?thesis by (simp add: ParseUsbConfigDescriptor_def ParseConfiguration_def)
next
  case False
  let ?d = "config_of_bytes (take 9 buf)"
  have "uint (cd_bLength ?d) < 9 \<or> (word_of_nat (length buf) :: u8) < cd_bLength ?d"
  proof (cases "uint (cd_bLength ?d) < 9")
    case False
    then have "9 \<le> unat (cd_bLength ?d)" using le_uint [of 9 "cd_bLength ?d"] by simp
    then show ?thesis using assms(1) by (simp add: word_less_nat_alt unat_of_nat)
  qed simp
  then have "ParseConfiguration zero_config buf (int (length buf))
      = Some (Inr (27400002, zero_config\<lparr>configDescriptor := ?d\<rparr>))"
    using False by (auto simp: ParseConfiguration_def ParseDescriptor_config Let_def)
  then show ?thesis using assms(2) by (simp add: ParseUsbConfigDescriptor_def)
qed

theorem low_byte_of_size_refused_witness:
  "\<exists>c. ParseUsbConfigDescriptor (replicate 260 7) = Some (Inr (27400002, Some c))"
  by (rule low_byte_of_size_refused) simp_all

end
