(* ===== verification/Usb_Desc_Free.thy ===== *)
theory Usb_Desc_Free
  imports Usb_Desc_Safety
begin

text \<open>
  How the descriptor parser gives its memory back: ClearEndpoint, ClearInterface,
  RawClearConfiguration and FreeUsbConfigDescriptor of
  src/frameworks/ddk/usb/usb_config_desc_parser.cpp.

  A parsed configuration is one block that points to an array of interfaces, each of which
  points to an array of alternate settings, each of which points to an array of endpoints; the
  configuration, the alternate settings and the endpoints may each own a block of extra bytes.
  A block is named by its place in that tree, and the state of the four functions is the list
  of the blocks deleted so far, in order: to read a block or to delete it again after that is
  \<open>Use_after_free\<close>, to index an array past its end is \<open>Oob_read\<close>. The first part defines the
  functions, the second the invariant under which they succeed, the third shows that the parser
  keeps that invariant.
\<close>

section \<open>Blocks\<close>

datatype desc_block =
    Config_block
  | Config_extra_bytes
  | Interface_array
  | Altsetting_array nat
  | Altsetting_extra nat nat
  | Endpoint_array nat nat
  | Endpoint_extra nat nat nat

definition read_block :: "desc_block \<Rightarrow> desc_block list \<Rightarrow> desc_block list res" where
  "read_block b freed = (if b \<in> set freed then Inl Use_after_free else Inr freed)"

definition delete_block :: "desc_block \<Rightarrow> desc_block list \<Rightarrow> desc_block list res" where
  "delete_block b freed = (if b \<in> set freed then Inl Use_after_free else Inr (freed @ [b]))"

text \<open>\<open>for (i = from; todo rounds; i++)\<close> over a body that can fault.\<close>

fun for_loop :: "nat \<Rightarrow> nat \<Rightarrow> (nat \<Rightarrow> 's \<Rightarrow> 's res) \<Rightarrow> 's \<Rightarrow> 's res" where
  "for_loop i 0 body s = Inr s"
| "for_loop i (Suc todo) body s = bindE (body i s) (for_loop (Suc i) todo body)"

section \<open>The four functions\<close>

text \<open>
  \<open>ep\<close> is \<open>infPtr->endPoint + k\<close> of alternate setting \<open>j\<close> of interface \<open>i\<close>. The pointers that
  the inner functions set to null lie in arrays that are deleted a few lines later, before
  anything reads them again.
\<close>

definition ClearEndpoint ::
  "nat \<Rightarrow> nat \<Rightarrow> nat \<Rightarrow> ddk_endpoint \<Rightarrow> desc_block list \<Rightarrow> desc_block list res" where
  "ClearEndpoint i j k ep freed =
     bindE (read_block (Endpoint_array i j) freed) (\<lambda>freed.
       case ep_extra ep of
         None \<Rightarrow> Inr freed
       | Some _ \<Rightarrow> delete_block (Endpoint_extra i j k) freed)"

text \<open>One round of the outer loop of \<open>ClearInterface\<close>.\<close>

definition ClearAltsetting ::
  "nat \<Rightarrow> ddk_interface_desc list \<Rightarrow> nat \<Rightarrow> desc_block list \<Rightarrow> desc_block list res" where
  "ClearAltsetting i alts j freed =
     bindE (read_block (Altsetting_array i) freed) (\<lambda>freed.
       if length alts \<le> j then Inl Oob_read
       else
         let infPtr = alts ! j in
         bindE (case if_extra infPtr of
                  None \<Rightarrow> Inr freed
                | Some _ \<Rightarrow> delete_block (Altsetting_extra i j) freed) (\<lambda>freed.
           case endPoint infPtr of
             None \<Rightarrow> Inr freed
           | Some eps \<Rightarrow>
               bindE (for_loop 0 (unat (id_bNumEndpoints (interfaceDescriptor infPtr)))
                        (\<lambda>k freed. if length eps \<le> k then Inl Oob_read
                                   else ClearEndpoint i j k (eps ! k) freed) freed)
                 (delete_block (Endpoint_array i j))))"

definition ClearInterface ::
  "nat \<Rightarrow> ddk_interface \<Rightarrow> desc_block list \<Rightarrow> desc_block list res" where
  "ClearInterface i usbInterface freed =
     (if unat (numAltsetting usbInterface) > USB_MAXALTSETTING then Inr freed
      else bindE (for_loop 0 (unat (numAltsetting usbInterface))
                    (ClearAltsetting i (altsetting usbInterface)) freed)
             (delete_block (Altsetting_array i)))"

definition RawClearConfiguration ::
  "ddk_config \<Rightarrow> desc_block list \<Rightarrow> (ddk_config \<times> desc_block list) res" where
  "RawClearConfiguration config freed =
     bindE (case cfg_interface config of
              None \<Rightarrow> Inr freed
            | Some intfs \<Rightarrow>
                bindE (for_loop 0 (unat (cd_bNumInterfaces (configDescriptor config)))
                         (\<lambda>i freed. bindE (read_block Interface_array freed) (\<lambda>freed.
                            if length intfs \<le> i then Inl Oob_read
                            else ClearInterface i (intfs ! i) freed)) freed)
                  (delete_block Interface_array)) (\<lambda>freed.
     bindE (case cfg_extra config of
              None \<Rightarrow> Inr freed
            | Some _ \<Rightarrow> delete_block Config_extra_bytes freed) (\<lambda>freed.
     Inr (config\<lparr>cfg_interface := None, cfg_extra := None\<rparr>, freed)))"

definition FreeUsbConfigDescriptor :: "ddk_config option \<Rightarrow> desc_block list res" where
  "FreeUsbConfigDescriptor config =
     (case config of
        None \<Rightarrow> Inr []
      | Some c \<Rightarrow> bindE (RawClearConfiguration c []) (\<lambda>(_, freed). delete_block Config_block freed))"

section \<open>What a configuration owns\<close>

definition interfaces_of :: "ddk_config \<Rightarrow> ddk_interface list" where
  "interfaces_of c = (case cfg_interface c of None \<Rightarrow> [] | Some intfs \<Rightarrow> intfs)"

definition altsettings_of :: "ddk_config \<Rightarrow> nat \<Rightarrow> ddk_interface_desc list" where
  "altsettings_of c i =
     (if i < length (interfaces_of c) then altsetting (interfaces_of c ! i) else [])"

definition endpoints_of :: "ddk_interface_desc \<Rightarrow> ddk_endpoint list" where
  "endpoints_of d = (case endPoint d of None \<Rightarrow> [] | Some eps \<Rightarrow> eps)"

text \<open>
  The blocks that the parser allocated and that can be reached from the configuration, whatever
  its counters say.
\<close>

fun owns :: "ddk_config \<Rightarrow> desc_block \<Rightarrow> bool" where
  "owns c Config_block \<longleftrightarrow> True"
| "owns c Config_extra_bytes \<longleftrightarrow> cfg_extra c \<noteq> None"
| "owns c Interface_array \<longleftrightarrow> cfg_interface c \<noteq> None"
| "owns c (Altsetting_array i) \<longleftrightarrow> i < length (interfaces_of c)"
| "owns c (Altsetting_extra i j) \<longleftrightarrow>
     j < length (altsettings_of c i) \<and> if_extra (altsettings_of c i ! j) \<noteq> None"
| "owns c (Endpoint_array i j) \<longleftrightarrow>
     j < length (altsettings_of c i) \<and> endPoint (altsettings_of c i ! j) \<noteq> None"
| "owns c (Endpoint_extra i j k) \<longleftrightarrow>
     j < length (altsettings_of c i) \<and> k < length (endpoints_of (altsettings_of c i ! j))
     \<and> ep_extra (endpoints_of (altsettings_of c i ! j) ! k) \<noteq> None"

section \<open>Invariant\<close>

text \<open>
  The counters never exceed the arrays, an interface never counts more alternate settings than
  \<open>ClearInterface\<close> accepts, and what lies beyond a counter owns nothing.
\<close>

definition endpoints_counted :: "ddk_interface_desc \<Rightarrow> bool" where
  "endpoints_counted d \<longleftrightarrow>
     endPoint d \<noteq> None \<longrightarrow> (let n = unat (id_bNumEndpoints (interfaceDescriptor d)) in
       n \<le> length (endpoints_of d)
       \<and> (\<forall>k. n \<le> k \<and> k < length (endpoints_of d) \<longrightarrow> ep_extra (endpoints_of d ! k) = None))"

definition altsettings_counted :: "ddk_interface \<Rightarrow> bool" where
  "altsettings_counted u \<longleftrightarrow> (let n = unat (numAltsetting u); alts = altsetting u in
     n \<le> length alts \<and> length alts \<le> USB_MAXALTSETTING
     \<and> (\<forall>j < n. endpoints_counted (alts ! j))
     \<and> (\<forall>j. n \<le> j \<and> j < length alts \<longrightarrow> if_extra (alts ! j) = None \<and> endPoint (alts ! j) = None))"

definition blocks_counted :: "ddk_config \<Rightarrow> bool" where
  "blocks_counted c \<longleftrightarrow> (case cfg_interface c of None \<Rightarrow> True
     | Some intfs \<Rightarrow> unat (cd_bNumInterfaces (configDescriptor c)) = length intfs
                    \<and> list_all altsettings_counted intfs)"

section \<open>What the four functions delete\<close>

definition endpoint_frees :: "nat \<Rightarrow> nat \<Rightarrow> ddk_endpoint list \<Rightarrow> nat \<Rightarrow> desc_block list" where
  "endpoint_frees i j eps k = (if ep_extra (eps ! k) = None then [] else [Endpoint_extra i j k])"

definition altsetting_frees :: "nat \<Rightarrow> ddk_interface_desc list \<Rightarrow> nat \<Rightarrow> desc_block list" where
  "altsetting_frees i alts j = (let d = alts ! j in
     (if if_extra d = None then [] else [Altsetting_extra i j])
     @ (if endPoint d = None then []
        else concat (map (endpoint_frees i j (endpoints_of d))
                       [0..<unat (id_bNumEndpoints (interfaceDescriptor d))]) @ [Endpoint_array i j]))"

definition interface_frees :: "ddk_interface list \<Rightarrow> nat \<Rightarrow> desc_block list" where
  "interface_frees intfs i =
     concat (map (altsetting_frees i (altsetting (intfs ! i))) [0..<unat (numAltsetting (intfs ! i))])
     @ [Altsetting_array i]"

definition config_frees :: "ddk_config \<Rightarrow> desc_block list" where
  "config_frees c =
     (if cfg_interface c = None then []
      else concat (map (interface_frees (interfaces_of c)) [0..<length (interfaces_of c)]) @ [Interface_array])
     @ (if cfg_extra c = None then [] else [Config_extra_bytes])"

lemma for_loop_appends:
  assumes "\<And>k s. i \<le> k \<Longrightarrow> k < i + n \<Longrightarrow> Q k s \<Longrightarrow> body k s = Inr (s @ g k) \<and> Q (Suc k) (s @ g k)"
    and "Q i s"
  shows "for_loop i n body s = Inr (s @ concat (map g [i..<i + n]))"
  using assms
proof (induction n arbitrary: i s)
  case (Suc n)
  have b: "body i s = Inr (s @ g i)" "Q (Suc i) (s @ g i)" using Suc.prems by auto
  have "for_loop (Suc i) n body (s @ g i) = Inr ((s @ g i) @ concat (map g [Suc i..<Suc i + n]))"
    by (rule Suc.IH) (use Suc.prems b in auto)
  then show ?case using b(1) by (simp add: upt_conv_Cons del: upt_Suc)
qed simp

lemmas free_step = read_block_def delete_block_def

text \<open>The blocks of one level lie under it: nothing else of the tree is touched.\<close>

fun block_interface :: "desc_block \<Rightarrow> nat option" where
  "block_interface (Altsetting_array i) = Some i"
| "block_interface (Altsetting_extra i _) = Some i"
| "block_interface (Endpoint_array i _) = Some i"
| "block_interface (Endpoint_extra i _ _) = Some i"
| "block_interface _ = None"

fun block_altsetting :: "desc_block \<Rightarrow> nat option" where
  "block_altsetting (Altsetting_extra _ j) = Some j"
| "block_altsetting (Endpoint_array _ j) = Some j"
| "block_altsetting (Endpoint_extra _ j _) = Some j"
| "block_altsetting _ = None"

lemma endpoint_frees_in: "b \<in> set (endpoint_frees i j eps k) \<Longrightarrow> b = Endpoint_extra i j k"
  by (auto simp: endpoint_frees_def split: if_splits)

lemma altsetting_frees_in:
  "b \<in> set (altsetting_frees i alts j) \<Longrightarrow> block_interface b = Some i \<and> block_altsetting b = Some j"
  by (auto simp: altsetting_frees_def Let_def dest: endpoint_frees_in split: if_splits)

lemma interface_frees_in: "b \<in> set (interface_frees intfs i) \<Longrightarrow> block_interface b = Some i"
  by (auto simp: interface_frees_def dest: altsetting_frees_in)

lemma endpoints_loop:
  assumes "n \<le> length eps" and "Endpoint_array i j \<notin> set freed" and "\<And>k. Endpoint_extra i j k \<notin> set freed"
  shows "for_loop 0 n (\<lambda>k freed. if length eps \<le> k then Inl Oob_read
                                  else ClearEndpoint i j k (eps ! k) freed) freed
    = Inr (freed @ concat (map (endpoint_frees i j eps) [0..<n]))"
proof -
  have "for_loop 0 n (\<lambda>k freed. if length eps \<le> k then Inl Oob_read
                                  else ClearEndpoint i j k (eps ! k) freed) freed
      = Inr (freed @ concat (map (endpoint_frees i j eps) [0..<0 + n]))"
    by (rule for_loop_appends [where Q = "\<lambda>k s. Endpoint_array i j \<notin> set s \<and> (\<forall>l \<ge> k. Endpoint_extra i j l \<notin> set s)"])
       (use assms in \<open>auto simp: ClearEndpoint_def free_step endpoint_frees_def split: option.splits\<close>)
  then show ?thesis by simp
qed

lemma ClearAltsetting_frees:
  assumes "j < length alts" and c: "endpoints_counted (alts ! j)" and "Altsetting_array i \<notin> set freed"
    and f: "\<And>b. b \<in> set freed \<Longrightarrow> \<not> (block_interface b = Some i \<and> block_altsetting b = Some j)"
  shows "ClearAltsetting i alts j freed = Inr (freed @ altsetting_frees i alts j)"
proof -
  have n: "Altsetting_extra i j \<notin> set freed" "Endpoint_array i j \<notin> set freed"
    "Endpoint_extra i j k \<notin> set freed" for k
    using f by force+
  define freed' where "freed' = freed @ (if if_extra (alts ! j) = None then [] else [Altsetting_extra i j])"
  have n': "Endpoint_array i j \<notin> set freed'" "Endpoint_extra i j k \<notin> set freed'" for k
    using n by (auto simp: freed'_def)
  show ?thesis
  proof (cases "endPoint (alts ! j)")
    case None
    then show ?thesis
      using assms(1,3) n by (auto simp: ClearAltsetting_def free_step altsetting_frees_def Let_def split: option.splits)
  next
    case (Some eps)
    let ?m = "unat (id_bNumEndpoints (interfaceDescriptor (alts ! j)))"
    have m: "?m \<le> length eps" using c Some by (simp add: endpoints_counted_def endpoints_of_def Let_def)
    have "Endpoint_array i j \<notin> set (freed' @ concat (map (endpoint_frees i j eps) [0..<?m]))"
      using n' by (auto dest: endpoint_frees_in)
    then show ?thesis
      using assms(1,3) n Some endpoints_loop [OF m n']
      by (auto simp: ClearAltsetting_def free_step altsetting_frees_def Let_def freed'_def endpoints_of_def
          split: option.splits)
  qed
qed

lemma ClearInterface_frees:
  assumes "altsettings_counted (intfs ! i)" and "\<And>b. b \<in> set freed \<Longrightarrow> block_interface b \<noteq> Some i"
  shows "ClearInterface i (intfs ! i) freed = Inr (freed @ interface_frees intfs i)"
proof -
  define u where "u = intfs ! i"
  let ?n = "unat (numAltsetting u)" and ?g = "altsetting_frees i (altsetting u)"
  have u: "?n \<le> length (altsetting u)" "length (altsetting u) \<le> 128"
    "\<And>j. j < ?n \<Longrightarrow> endpoints_counted (altsetting u ! j)"
    using assms(1) by (auto simp: altsettings_counted_def u_def Let_def)
  have a: "Altsetting_array i \<notin> set freed" using assms(2) by force
  have "for_loop 0 ?n (ClearAltsetting i (altsetting u)) freed = Inr (freed @ concat (map ?g [0..<0 + ?n]))"
  proof (rule for_loop_appends [where Q = "\<lambda>j s. Altsetting_array i \<notin> set s
      \<and> (\<forall>b \<in> set s. block_interface b = Some i \<longrightarrow> (\<exists>l < j. block_altsetting b = Some l))"])
    fix j s
    assume j: "j < 0 + ?n" and Q: "Altsetting_array i \<notin> set s
      \<and> (\<forall>b \<in> set s. block_interface b = Some i \<longrightarrow> (\<exists>l < j. block_altsetting b = Some l))"
    have "ClearAltsetting i (altsetting u) j s = Inr (s @ ?g j)"
      by (rule ClearAltsetting_frees) (use j Q u in auto)
    moreover have "Altsetting_array i \<notin> set (s @ ?g j)"
      using Q altsetting_frees_in by force
    moreover have "\<forall>b \<in> set (s @ ?g j). block_interface b = Some i \<longrightarrow> (\<exists>l < Suc j. block_altsetting b = Some l)"
      using Q altsetting_frees_in less_Suc_eq by fastforce
    ultimately show "ClearAltsetting i (altsetting u) j s = Inr (s @ ?g j) \<and> Altsetting_array i \<notin> set (s @ ?g j)
      \<and> (\<forall>b \<in> set (s @ ?g j). block_interface b = Some i \<longrightarrow> (\<exists>l < Suc j. block_altsetting b = Some l))"
      by blast
  qed (use a assms(2) in auto)
  moreover have "Altsetting_array i \<notin> set (concat (map ?g [0..<?n]))"
    using altsetting_frees_in by force
  ultimately show ?thesis
    using u(1,2) a by (simp add: ClearInterface_def interface_frees_def free_step u_def)
qed

lemma RawClearConfiguration_frees:
  assumes "blocks_counted c"
  shows "RawClearConfiguration c [] = Inr (c\<lparr>cfg_interface := None, cfg_extra := None\<rparr>, config_frees c)"
proof (cases "cfg_interface c")
  case None
  then show ?thesis by (auto simp: RawClearConfiguration_def config_frees_def free_step split: option.splits)
next
  case (Some intfs)
  let ?n = "length intfs" and ?g = "interface_frees intfs"
  let ?body = "\<lambda>i freed. bindE (read_block Interface_array freed) (\<lambda>freed.
    if length intfs \<le> i then Inl Oob_read else ClearInterface i (intfs ! i) freed)"
  have c: "unat (cd_bNumInterfaces (configDescriptor c)) = ?n" "\<And>i. i < ?n \<Longrightarrow> altsettings_counted (intfs ! i)"
    using assms Some by (auto simp: blocks_counted_def list_all_length)
  have "for_loop 0 ?n ?body [] = Inr ([] @ concat (map ?g [0..<0 + ?n]))"
  proof (rule for_loop_appends [where Q = "\<lambda>i s. \<forall>b \<in> set s. \<exists>l < i. block_interface b = Some l"])
    fix i s
    assume i: "i < 0 + ?n" and Q: "\<forall>b \<in> set s. \<exists>l < i. block_interface b = Some l"
    have "Interface_array \<notin> set s" using Q by force
    moreover have "ClearInterface i (intfs ! i) s = Inr (s @ ?g i)"
      by (rule ClearInterface_frees) (use i Q c in auto)
    moreover have "\<forall>b \<in> set (s @ ?g i). \<exists>l < Suc i. block_interface b = Some l"
      using Q interface_frees_in less_Suc_eq by fastforce
    ultimately show "?body i s = Inr (s @ ?g i) \<and> (\<forall>b \<in> set (s @ ?g i). \<exists>l < Suc i. block_interface b = Some l)"
      using i by (simp add: read_block_def)
  qed simp
  moreover have "Interface_array \<notin> set (concat (map ?g [0..<?n]))"
    "Config_extra_bytes \<notin> set (concat (map ?g [0..<?n]))"
    using interface_frees_in by force+
  ultimately show ?thesis
    using Some c(1) by (auto simp: RawClearConfiguration_def config_frees_def interfaces_of_def free_step
        split: option.splits)
qed

lemma config_frees_in: "b \<in> set (config_frees c) \<Longrightarrow> b \<noteq> Config_block"
  by (auto simp: config_frees_def dest: interface_frees_in split: if_splits)

lemma FreeUsbConfigDescriptor_frees:
  "blocks_counted c \<Longrightarrow> FreeUsbConfigDescriptor (Some c) = Inr (config_frees c @ [Config_block])"
  using config_frees_in [of Config_block c]
  by (auto simp: FreeUsbConfigDescriptor_def RawClearConfiguration_frees delete_block_def)

text \<open>No block is deleted twice: \<open>delete_block\<close> succeeds only on a block that is still there.\<close>

lemma distinct_delete: "delete_block b s = Inr s' \<Longrightarrow> distinct s \<Longrightarrow> distinct s'"
  by (auto simp: delete_block_def split: if_splits)

lemma distinct_read: "read_block b s = Inr s' \<Longrightarrow> distinct s \<Longrightarrow> distinct s'"
  by (auto simp: read_block_def split: if_splits)

lemma for_loop_distinct:
  assumes "for_loop i n body s = Inr s'" and "distinct s"
    and "\<And>k s s'. body k s = Inr s' \<Longrightarrow> distinct s \<Longrightarrow> distinct s'"
  shows "distinct s'"
  using assms by (induction n arbitrary: i s) (auto simp: bindE_eq_Inr)

lemma distinct_ClearEndpoint: "ClearEndpoint i j k ep s = Inr s' \<Longrightarrow> distinct s \<Longrightarrow> distinct s'"
  by (auto simp: ClearEndpoint_def bindE_eq_Inr dest: distinct_read distinct_delete split: option.splits)

lemma distinct_ClearAltsetting: 
  assumes "ClearAltsetting i alts j s = Inr s'" and "distinct s"
  shows "distinct s'"
proof -
  have e: "distinct t'" if "for_loop 0 n (\<lambda>k freed. if length eps \<le> k then Inl Oob_read
      else ClearEndpoint i j k (eps ! k) freed) t = Inr t'" "distinct t" for n eps t t'
    by (rule for_loop_distinct [OF that]) (auto dest: distinct_ClearEndpoint split: if_splits)
  show ?thesis
    using assms
    by (auto simp: ClearAltsetting_def bindE_eq_Inr Let_def dest!: distinct_read e
        dest: distinct_delete split: option.splits if_splits)
qed

lemma distinct_ClearInterface:
  assumes "ClearInterface i u s = Inr s'" and "distinct s"
  shows "distinct s'"
proof -
  have "distinct t'" if "for_loop 0 n (ClearAltsetting i alts) t = Inr t'" "distinct t" for n alts t t'
    by (rule for_loop_distinct [OF that]) (rule distinct_ClearAltsetting)
  then show ?thesis
    using assms by (auto simp: ClearInterface_def bindE_eq_Inr dest: distinct_delete split: if_splits)
qed

lemma distinct_RawClearConfiguration:
  assumes "RawClearConfiguration c s = Inr (c', s')" and "distinct s"
  shows "distinct s'"
proof -
  have "distinct t'" if "for_loop 0 n (\<lambda>i freed. bindE (read_block Interface_array freed) (\<lambda>freed.
      if length intfs \<le> i then Inl Oob_read else ClearInterface i (intfs ! i) freed)) t = Inr t'"
    "distinct t" for n intfs t t'
    by (rule for_loop_distinct [OF that])
       (auto simp: bindE_eq_Inr dest: distinct_read distinct_ClearInterface split: if_splits)
  then show ?thesis
    using assms by (auto simp: RawClearConfiguration_def bindE_eq_Inr dest: distinct_delete split: option.splits)
qed

lemma distinct_FreeUsbConfigDescriptor: "FreeUsbConfigDescriptor c = Inr s \<Longrightarrow> distinct s"
  by (auto simp: FreeUsbConfigDescriptor_def bindE_eq_Inr dest!: distinct_RawClearConfiguration
      dest: distinct_delete split: option.splits)

text \<open>Under the invariant the deleted blocks are the owned ones.\<close>

lemma counted_endpoints:
  assumes "endpoints_counted d" and "endPoint d \<noteq> None"
  shows "k < unat (id_bNumEndpoints (interfaceDescriptor d)) \<and> ep_extra (endpoints_of d ! k) \<noteq> None
    \<longleftrightarrow> k < length (endpoints_of d) \<and> ep_extra (endpoints_of d ! k) \<noteq> None"
proof -
  have "ep_extra (endpoints_of d ! k) = None"
    if "unat (id_bNumEndpoints (interfaceDescriptor d)) \<le> k" "k < length (endpoints_of d)"
    using assms that by (simp add: endpoints_counted_def Let_def)
  moreover have "unat (id_bNumEndpoints (interfaceDescriptor d)) \<le> length (endpoints_of d)"
    using assms by (simp add: endpoints_counted_def Let_def)
  ultimately show ?thesis by (meson less_le_trans not_less)
qed

lemma counted_altsettings:
  assumes "altsettings_counted u" and "if_extra (altsetting u ! j) \<noteq> None \<or> endPoint (altsetting u ! j) \<noteq> None"
  shows "j < unat (numAltsetting u) \<longleftrightarrow> j < length (altsetting u)"
  using assms by (force simp: altsettings_counted_def Let_def not_less)

lemma mem_altsetting_frees:
  "b \<in> set (altsetting_frees i alts j) \<longleftrightarrow>
     b = Altsetting_extra i j \<and> if_extra (alts ! j) \<noteq> None
     \<or> endPoint (alts ! j) \<noteq> None \<and> (b = Endpoint_array i j
        \<or> (\<exists>k. b = Endpoint_extra i j k \<and> k < unat (id_bNumEndpoints (interfaceDescriptor (alts ! j)))
              \<and> ep_extra (endpoints_of (alts ! j) ! k) \<noteq> None))"
  by (auto simp: altsetting_frees_def endpoint_frees_def Let_def split: if_splits)

lemma mem_interface_frees:
  "b \<in> set (interface_frees intfs i) \<longleftrightarrow> b = Altsetting_array i
     \<or> (\<exists>j < unat (numAltsetting (intfs ! i)). b \<in> set (altsetting_frees i (altsetting (intfs ! i)) j))"
  by (auto simp: interface_frees_def)

lemma mem_config_frees:
  "b \<in> set (config_frees c) \<longleftrightarrow> cfg_interface c \<noteq> None \<and> b = Interface_array
     \<or> cfg_extra c \<noteq> None \<and> b = Config_extra_bytes
     \<or> (\<exists>i < length (interfaces_of c). b \<in> set (interface_frees (interfaces_of c) i))"
  by (auto simp: config_frees_def interfaces_of_def split: if_splits)

lemma mem_counted_altsetting_frees:
  assumes "endpoints_counted (alts ! j)"
  shows "b \<in> set (altsetting_frees i alts j) \<longleftrightarrow>
     b = Altsetting_extra i j \<and> if_extra (alts ! j) \<noteq> None
     \<or> b = Endpoint_array i j \<and> endPoint (alts ! j) \<noteq> None
     \<or> (\<exists>k. b = Endpoint_extra i j k \<and> k < length (endpoints_of (alts ! j))
              \<and> ep_extra (endpoints_of (alts ! j) ! k) \<noteq> None)"
proof (cases "endPoint (alts ! j) = None")
  case True
  then show ?thesis by (auto simp: mem_altsetting_frees endpoints_of_def)
next
  case False
  then show ?thesis unfolding mem_altsetting_frees counted_endpoints [OF assms False] by blast
qed

lemma mem_config_frees_at:
  assumes "block_interface b = Some i" and "block_altsetting b = Some j"
  shows "b \<in> set (config_frees c) \<longleftrightarrow> i < length (interfaces_of c)
    \<and> j < unat (numAltsetting (interfaces_of c ! i))
    \<and> b \<in> set (altsetting_frees i (altsetting (interfaces_of c ! i)) j)"
proof -
  have "b \<noteq> Interface_array" "b \<noteq> Config_extra_bytes" "b \<noteq> Altsetting_array i'" for i'
    using assms by auto
  moreover have "i' = i \<and> j' = j" if "b \<in> set (altsetting_frees i' alts j')" for i' alts j'
    using altsetting_frees_in [OF that] assms by simp
  ultimately show ?thesis unfolding mem_config_frees mem_interface_frees by blast
qed

lemma config_frees_owned:
  assumes "blocks_counted c"
  shows "b \<in> set (config_frees c @ [Config_block]) \<longleftrightarrow> owns c b"
proof -
  have u: "altsettings_counted (interfaces_of c ! i)" if "i < length (interfaces_of c)" for i
    using assms that by (auto simp: blocks_counted_def interfaces_of_def list_all_length split: option.splits)
  have e: "endpoints_counted (altsetting (interfaces_of c ! i) ! j)"
    if "i < length (interfaces_of c)" "j < unat (numAltsetting (interfaces_of c ! i))" for i j
    using u [OF that(1)] that(2) by (auto simp: altsettings_counted_def Let_def)
  note at = mem_config_frees_at altsettings_of_def
  note out = counted_altsettings [OF u]
  show ?thesis
  proof (cases b)
    case (Altsetting_extra i j)
    then show ?thesis
      using out [of i j] e [of i j] by (auto simp: at mem_counted_altsetting_frees)
  next
    case (Endpoint_array i j)
    then show ?thesis
      using out [of i j] e [of i j] by (auto simp: at mem_counted_altsetting_frees)
  next
    case (Endpoint_extra i j k)
    have "endPoint (altsetting (interfaces_of c ! i) ! j) \<noteq> None"
      if "k < length (endpoints_of (altsetting (interfaces_of c ! i) ! j))"
      using that by (auto simp: endpoints_of_def split: option.splits)
    then show ?thesis
      using Endpoint_extra out [of i j] e [of i j] by (auto simp: at mem_counted_altsetting_frees)
  qed (auto simp: mem_config_frees mem_interface_frees interfaces_of_def dest: interface_frees_in altsetting_frees_in)
qed

section \<open>The parser keeps the invariant\<close>

lemma FillExtraDescriptor_nonneg: "FillExtraDescriptor extra l buf n = Inr (r, e, l') \<Longrightarrow> 0 \<le> r"
  by (auto simp: FillExtraDescriptor_def bindE_eq_Inr Let_def split: if_splits)

text \<open>An endpoint that is refused with 0 is left alone.\<close>

lemma ParseEndpoint_zero:
  assumes "ParseEndpoint ep buf sz = Inr (0, ep')"
  shows "ep' = ep"
proof -
  have "uint (buf ! 0) + len \<noteq> 0" if "7 \<le> uint (buf ! 0)" "FindNextDescriptor b z = Inr len" for b z len
    using FindNextDescriptor_nonneg [OF that(2)] that(1) by simp
  then show ?thesis
    using assms by (auto simp: ParseEndpoint_def bindE_eq_Inr Let_def rd_Inr split: if_splits)
qed

lemma ParseEndpoint_nonneg: "ParseEndpoint ep buf sz = Inr (r, ep') \<Longrightarrow> 0 \<le> r"
  by (auto simp: ParseEndpoint_def bindE_eq_Inr Let_def rd_Inr split: if_splits
      dest!: FindNextDescriptor_nonneg FillExtraDescriptor_nonneg)

lemma EndpointLoop_counted:
  "EndpointLoop todo i ret num eps buf sz = Inr (ret', num', eps', buf', sz') \<Longrightarrow>
   length eps = i + todo \<Longrightarrow> length eps < 256 \<Longrightarrow> unat num = length eps \<Longrightarrow>
   (\<And>k. i \<le> k \<Longrightarrow> k < length eps \<Longrightarrow> ep_extra (eps ! k) = None) \<Longrightarrow>
   length eps' = length eps \<and> unat num' \<le> length eps'
   \<and> (\<forall>k. unat num' \<le> k \<and> k < length eps' \<longrightarrow> ep_extra (eps' ! k) = None)"
proof (induction todo arbitrary: i ret eps buf sz)
  case 0
  then show ?case by auto
next
  case (Suc todo)
  obtain r ep where p: "ParseEndpoint (eps ! i) buf sz = Inr (r, ep)"
    using Suc.prems(1) by (auto simp: bindE_eq_Inr)
  show ?case
  proof (cases "r = 0")
    case True
    then have "ep = eps ! i" using p ParseEndpoint_zero by blast
    moreover have "unat (of_nat i :: u8) = i" using Suc.prems(2,3) by (simp add: unat_of_nat)
    ultimately show ?thesis using Suc.prems p True by auto
  next
    case False
    then have "EndpointLoop todo (Suc i) r num (eps[i := ep]) (drop (nat r) buf) (sz - r)
        = Inr (ret', num', eps', buf', sz')"
      using Suc.prems(1) p ParseEndpoint_nonneg [OF p] by (simp split: if_splits)
    from Suc.IH [OF this] show ?thesis using Suc.prems(2-5) by simp
  qed
qed

lemma ParseInterfaceEndpoint_counted:
  assumes "ParseInterfaceEndpoint d buf sz = Inr (ret, d', buf', sz')" and "endPoint d = None"
  shows "endpoints_counted d'"
proof (cases "id_bNumEndpoints (interfaceDescriptor d) > 0")
  case False
  then show ?thesis using assms by (simp add: ParseInterfaceEndpoint_def endpoints_counted_def)
next
  case True
  let ?n = "id_bNumEndpoints (interfaceDescriptor d)"
  obtain num' eps where
    e: "EndpointLoop (unat ?n) 0 USB_DDK_SUCCESS ?n (replicate (unat ?n) zero_endpoint) buf sz
      = Inr (ret, num', eps, buf', sz')"
    and d': "d' = d\<lparr>endPoint := Some eps, interfaceDescriptor := (interfaceDescriptor d)\<lparr>id_bNumEndpoints := num'\<rparr>\<rparr>"
    using assms(1) True by (auto simp: ParseInterfaceEndpoint_def bindE_eq_Inr Let_def)
  have "unat ?n < 2 ^ LENGTH(8)" by (rule unsigned_less)
  then have "unat ?n < 256" by simp
  then have "length eps = unat ?n \<and> unat num' \<le> length eps
      \<and> (\<forall>k. unat num' \<le> k \<and> k < length eps \<longrightarrow> ep_extra (eps ! k) = None)"
    using EndpointLoop_counted [OF e] by (simp add: zero_endpoint_def)
  then show ?thesis by (simp add: d' endpoints_counted_def endpoints_of_def Let_def)
qed

lemma altsettings_counted_uncounted:
  assumes "altsettings_counted u" and "k = unat (numAltsetting u)" and "k < length (altsetting u)"
    and "if_extra d = None" and "endPoint d = None"
  shows "altsettings_counted (u\<lparr>altsetting := (altsetting u)[k := d]\<rparr>)"
  using assms by (auto simp: altsettings_counted_def Let_def nth_list_update)

lemma altsettings_counted_next:
  assumes "altsettings_counted u" and "k = unat (numAltsetting u)" and "k < length (altsetting u)"
    and "endpoints_counted d"
  shows "altsettings_counted (u\<lparr>numAltsetting := numAltsetting u + 1, altsetting := (altsetting u)[k := d]\<rparr>)"
proof -
  have "unat (numAltsetting u) < 128" using assms by (simp add: altsettings_counted_def Let_def)
  then have "unat (numAltsetting u + 1) = Suc k" using unat_Suc_u8 assms(2) by simp
  then show ?thesis using assms by (auto simp: altsettings_counted_def Let_def nth_list_update less_Suc_eq)
qed

lemma altsettings_counted_at:
  assumes "altsettings_counted u" and "k < unat (numAltsetting u)" and "endpoints_counted d"
  shows "altsettings_counted (u\<lparr>altsetting := (altsetting u)[k := d]\<rparr>)"
  using assms by (auto simp: altsettings_counted_def Let_def nth_list_update)

lemma endpoints_counted_None: "endPoint d = None \<Longrightarrow> endpoints_counted d"
  by (simp add: endpoints_counted_def)

lemma endpoints_counted_extra [simp]:
  "endpoints_counted (d\<lparr>if_extra := e, if_extraLength := l\<rparr>) \<longleftrightarrow> endpoints_counted d"
  by (simp add: endpoints_counted_def endpoints_of_def Let_def)

fun step_counted :: "intf_step \<Rightarrow> bool" where
  "step_counted (IReturn _ u) \<longleftrightarrow> altsettings_counted u"
| "step_counted (IAgain u _ _ _ _) \<longleftrightarrow> altsettings_counted u"

lemma ParseInterfaceNext_counted:
  "ParseInterfaceNext u buf sz off n = Inr r \<Longrightarrow> altsettings_counted u \<Longrightarrow> step_counted r"
  by (auto simp: ParseInterfaceNext_def bindE_eq_Inr split: if_splits)

lemma ParseInterfaceAlt_counted:
  assumes "ParseInterfaceAlt u k d buf sz off n = Inr r" and u: "altsettings_counted u"
    and k: "k < unat (numAltsetting u)" and d: "endPoint d = None"
  shows "step_counted r"
proof -
  note at = altsettings_counted_at [OF u k]
  show ?thesis
    using assms(1) d
    by (auto simp: ParseInterfaceAlt_def bindE_eq_Inr Let_def split: if_splits
        dest!: ParseInterfaceNext_counted intro!: at dest: ParseInterfaceEndpoint_counted
        simp: endpoints_counted_None)
qed

lemma ParseInterfaceStep_counted:
  assumes st: "ParseInterfaceStep u buf sz off n = Inr r" and u: "altsettings_counted u"
  shows "step_counted r"
proof -
  let ?k = "unat (numAltsetting u)" and ?alts = "altsetting u"
  obtain ret d where k: "?k < length ?alts"
    and raw: "RawParseDescriptor sz buf USB_DDK_INTERFACE_DESCRIPTOR_TYPE (?alts ! ?k) = Inr (ret, d)"
    using st by (auto simp: ParseInterfaceStep_def bindE_eq_Inr Let_def split: if_splits)
  have own: "if_extra (?alts ! ?k) = None" "endPoint (?alts ! ?k) = None"
    using u k by (auto simp: altsettings_counted_def Let_def)
  then have d: "if_extra d = None" "endPoint d = None"
    using raw by (auto simp: RawParseDescriptor_def bindE_eq_Inr Let_def split: if_splits)
  let ?d = "d\<lparr>if_extra := None, if_extraLength := 0, endPoint := None\<rparr>"
  let ?u = "u\<lparr>numAltsetting := numAltsetting u + 1, altsetting := ?alts[?k := ?d]\<rparr>"
  have c: "altsettings_counted ?u"
    by (rule altsettings_counted_next [OF u refl k]) (simp add: endpoints_counted_def)
  have "?k < 128" using u k by (auto simp: altsettings_counted_def Let_def)
  then have "?k < unat (numAltsetting ?u)" using unat_Suc_u8 by simp
  then have again: "step_counted r" if "ParseInterfaceAlt ?u ?k ?d b z f m = Inr r" for b z f m
    using ParseInterfaceAlt_counted [OF that c] by simp
  have "altsettings_counted (u\<lparr>altsetting := ?alts[?k := d]\<rparr>)"
    using altsettings_counted_uncounted [OF u refl k d] .
  then show ?thesis
    using st k raw again by (auto simp: ParseInterfaceStep_def Let_def split: if_splits)
qed

lemma ParseInterfaceLoop_counted:
  "ParseInterfaceLoop u buf sz off n = Inr (ret, u') \<Longrightarrow> altsettings_counted u \<Longrightarrow> altsettings_counted u'"
proof (induction u buf sz off n rule: ParseInterfaceLoop.induct)
  case (1 u buf sz off n)
  show ?case
  proof (cases "sz < 9")
    case True
    then show ?thesis using 1(2,3) by (simp add: ParseInterfaceLoop.simps)
  next
    case False
    obtain r where r: "ParseInterfaceStep u buf sz off n = Inr r"
      using 1(2) False by (subst (asm) ParseInterfaceLoop.simps) (auto simp: bindE_eq_Inr)
    have s: "step_counted r" using ParseInterfaceStep_counted [OF r 1(3)] .
    show ?thesis
    proof (cases r)
      case (IReturn x v)
      then show ?thesis using 1(2) r s False by (subst (asm) ParseInterfaceLoop.simps) simp
    next
      case (IAgain v b z f m)
      then show ?thesis
        using 1(1) [OF False r IAgain] 1(2) r s False by (subst (asm) ParseInterfaceLoop.simps) simp
    qed
  qed
qed

lemma ParseInterface_counted:
  "ParseInterface u buf sz = Inr (ret, u') \<Longrightarrow> altsettings_counted u \<Longrightarrow> altsettings_counted u'"
  by (auto simp: ParseInterface_def dest: ParseInterfaceLoop_counted split: if_splits)

text \<open>What a result satisfies when it is no fault.\<close>

definition result_in :: "('a \<Rightarrow> bool) \<Rightarrow> 'a res \<Rightarrow> bool" where
  "result_in P m \<longleftrightarrow> (\<forall>x. m = Inr x \<longrightarrow> P x)"

named_theorems result_rules \<open>introduction rules for result_in\<close>

lemma result_in_simps [simp]: "result_in P (Inr x) \<longleftrightarrow> P x" "result_in P (Inl e)"
  by (simp_all add: result_in_def)

lemma result_in_bindE [result_rules]:
  "(\<And>x. m = Inr x \<Longrightarrow> result_in P (f x)) \<Longrightarrow> result_in P (bindE m f)"
  by (cases m) auto

lemma result_in_if [result_rules]:
  "(b \<Longrightarrow> result_in P m) \<Longrightarrow> (\<not> b \<Longrightarrow> result_in P m') \<Longrightarrow> result_in P (if b then m else m')"
  by simp

fun cfg_step_counted :: "cfg_step \<Rightarrow> bool" where
  "cfg_step_counted (CReturn _ c) \<longleftrightarrow> blocks_counted c"
| "cfg_step_counted (CAgain c _ _) \<longleftrightarrow> blocks_counted c"

lemma blocks_counted_at:
  assumes "blocks_counted c" and "cfg_interface c = Some intfs" and "altsettings_counted u"
  shows "blocks_counted (c\<lparr>cfg_interface := Some (intfs[i := u])\<rparr>)"
  using assms by (cases "i < length intfs") (auto simp: blocks_counted_def list_all_length nth_list_update)

lemma blocks_counted_extra [simp]:
  "blocks_counted (c\<lparr>cfg_extra := e, cfg_extraLength := l\<rparr>) \<longleftrightarrow> blocks_counted c"
  by (simp add: blocks_counted_def split: option.split)

lemma blocks_counted_parsed:
  assumes "ParseInterface (intfs ! i) b z = Inr (ret, u)" and "blocks_counted c"
    and "cfg_interface c = Some intfs" and "i < length intfs"
  shows "blocks_counted (c\<lparr>cfg_interface := Some (intfs[i := u])\<rparr>)"
proof -
  have "altsettings_counted (intfs ! i)"
    using assms(2-4) by (simp add: blocks_counted_def list_all_length)
  then have "altsettings_counted u" using assms(1) ParseInterface_counted by blast
  then show ?thesis using blocks_counted_at assms(2,3) by blast
qed

lemma ParseConfigurationStep_post:
  assumes "blocks_counted c"
  shows "result_in cfg_step_counted (ParseConfigurationStep c buf sz nums)"
  unfolding ParseConfigurationStep_def
  by (auto simp: assms Let_def intro!: result_rules blocks_counted_parsed split: option.split)

lemma ParseConfigurationStep_counted:
  "ParseConfigurationStep c buf sz nums = Inr r \<Longrightarrow> blocks_counted c \<Longrightarrow> cfg_step_counted r"
  using ParseConfigurationStep_post [of c buf sz nums] by simp

lemma ParseConfigurationDes_counted:
  "ParseConfigurationDes c buf sz nums = Some r \<Longrightarrow> r = Inr (ret, c') \<Longrightarrow> blocks_counted c \<Longrightarrow> blocks_counted c'"
proof (induction arbitrary: ret c' rule: ParseConfigurationDes.raw_induct [rotated, consumes 1])
  case (1 PCD c buf sz nums r)
  show ?case
  proof (cases "sz < 2")
    case True
    then show ?thesis using 1(2-4) by simp
  next
    case False
    then obtain x where x: "ParseConfigurationStep c buf sz nums = Inr x"
      using 1(2,3) by (cases "ParseConfigurationStep c buf sz nums") auto
    have s: "cfg_step_counted x" using ParseConfigurationStep_counted [OF x 1(4)] .
    show ?thesis
    proof (cases x)
      case (CReturn y d)
      then show ?thesis using 1(2,3) x s False by simp
    next
      case (CAgain d b z)
      then show ?thesis using 1(1) [of d b z nums r] 1(2,3) x s False by simp
    qed
  qed
qed

lemma alloc_interface_counted: "altsettings_counted (alloc_interface a)"
  by (auto simp: altsettings_counted_def alloc_interface_def zero_interface_desc_def Let_def)

lemma ParseConfiguration_counted:
  assumes p: "ParseConfiguration zero_config buf sz = Some (Inr (ret, c))" and s: "sane buf sz"
  shows "blocks_counted c"
proof -
  obtain nums alts where g: "GetInterfaceNumber buf sz [] [] = Inr (nums, alts)" "counts_ok nums alts"
    using GetInterfaceNumber_total [OF s counts_ok_Nil] by blast
  have empty: "blocks_counted (zero_config\<lparr>configDescriptor := d\<rparr>)" "blocks_counted zero_config" for d
    by (simp_all add: blocks_counted_def zero_config_def)
  have full: "blocks_counted (zero_config\<lparr>configDescriptor := d\<lparr>cd_bNumInterfaces := of_nat (length nums)\<rparr>,
      cfg_interface := Some (map alloc_interface alts)\<rparr>)" for d
    using g(2) by (auto simp: blocks_counted_def counts_ok_def unat_of_nat list_all_length alloc_interface_counted)
  show ?thesis
    using p ParseConfigurationDes_counted [OF _ refl full]
    by (auto simp: ParseConfiguration_def g(1) Let_def empty split: if_splits sum.splits)
qed

section \<open>Every block is given back\<close>

text \<open>
  C3: when ParseConfiguration returns, on success or with an error, FreeUsbConfigDescriptor on the
  configuration it built reads no block after deleting it and indexes no array past its end,
  deletes no block twice, and deletes exactly the blocks the configuration owns: nothing that the
  parser allocated is leaked, not even what lies beyond the counters of the descriptors.
\<close>

theorem freeing_releases_every_block:
  assumes "ParseConfiguration zero_config buf (to_i32 (int (length buf))) = Some (Inr (ret, c))"
  shows "\<exists>blocks. FreeUsbConfigDescriptor (Some c) = Inr blocks \<and> distinct blocks
    \<and> (\<forall>b. b \<in> set blocks \<longleftrightarrow> owns c b)"
proof -
  have "sane buf (to_i32 (int (length buf)))" using to_i32_length by (simp add: sane_def)
  then have "blocks_counted c" using ParseConfiguration_counted assms by blast
  then show ?thesis
    using FreeUsbConfigDescriptor_frees distinct_FreeUsbConfigDescriptor config_frees_owned by blast
qed

text \<open>
  One interface with two alternate settings, the first of which announces two endpoints and has
  one; the configuration, the first alternate setting and its endpoint carry extra bytes.
\<close>

definition extras_input :: "u8 list" where
  "extras_input =
     [9,2,43,0,1,1,0,0,0, 3,36,170, 9,4,0,0,2,0,0,0,0, 3,36,187, 7,5,129,2,64,0,1, 3,36,204,
      9,4,0,1,0,0,0,0,0]"

lemma extras_input_parsed:
  "(case ParseConfiguration zero_config extras_input 43 of
      Some (Inr (ret, c)) \<Rightarrow> ret = 0 \<and> owns c (Endpoint_extra 0 0 0) \<and> owns c (Altsetting_extra 0 0)
        \<and> owns c Config_extra_bytes \<and> \<not> owns c (Endpoint_array 0 1)
    | _ \<Rightarrow> False)"
  by code_simp

theorem freeing_releases_every_block_witness:
  "\<exists>c blocks. ParseConfiguration zero_config extras_input 43 = Some (Inr (0, c))
     \<and> FreeUsbConfigDescriptor (Some c) = Inr blocks \<and> distinct blocks
     \<and> (\<forall>b. b \<in> set blocks \<longleftrightarrow> owns c b) \<and> Endpoint_extra 0 0 0 \<in> set blocks"
proof -
  obtain c where "ParseConfiguration zero_config extras_input 43 = Some (Inr (0, c))"
    "owns c (Endpoint_extra 0 0 0)"
    using extras_input_parsed by (auto split: option.splits sum.splits)
  moreover have "to_i32 (int (length extras_input)) = 43" by (simp add: extras_input_def)
  ultimately show ?thesis
    using freeing_releases_every_block [of extras_input 0 c] by auto
qed

end
