(* ===== verification/Ext_Types.thy ===== *)
theory Ext_Types
  imports Usb_Desc_Parser
begin

text \<open>
  The objects every part of the service handles: error codes (src/utils/include/edm_errors.h),
  devices and drivers (src/utils/include/ext_object.h, the USB part of a driver from
  usb_driver_info.h), and the string operations of the standard library that the code uses.
\<close>

unbundle bit_operations_syntax

section \<open>Error codes\<close>

text \<open>
  \<open>EDM_NOK\<close> and its successors are offsets of a constant of another repository; what the code
  relies on is that they differ from \<open>EDM_OK\<close> and from one another. \<open>EXT r\<close> is a non-zero code
  handed through from a system service.
\<close>

datatype UsbErrCode =
    EDM_OK | EDM_NOK | EDM_ERR_GET_SYSTEM_ABILITY_MANAGER_FAILED | EDM_ERR_GET_SERVICE_FAILED
  | EDM_ERR_CONNECTION_FAILED | EDM_ERR_NOT_SUPPORT | EDM_ERR_INVALID_PARAM | EDM_ERR_INVALID_OBJECT
  | EDM_EER_MALLOC_FAIL | EDM_ERR_TIMEOUT | EDM_ERR_DEVICE_BUSY | EDM_ERR_IO | EDM_ERR_NO_PERM
  | EDM_ERR_OUT_OF_RANGE | EDM_ERR_JSON_PARSE_FAIL | EDM_ERR_JSON_OBJ_ERR | EDM_ERR_USB_ERR
  | EDM_ERR_NOT_SYSTEM_APP | EDM_ERR_SERVICE_NOT_ALLOW_ACCESS | EDM_ERR_SERVICE_NOT_BOUND
  | EXT int

text \<open>The \<open>if (ret != 0) return ret; return EDM_OK;\<close> with which the code ends a call of a system service.\<close>

definition of_ext :: "int \<Rightarrow> UsbErrCode" where
  "of_ext r = (if r = 0 then EDM_OK else EXT r)"

lemma of_ext_OK [simp]: "of_ext r = EDM_OK \<longleftrightarrow> r = 0"
  by (simp add: of_ext_def)

section \<open>Devices\<close>

abbreviation (input) BUS_TYPE_INVALID :: u32 where "BUS_TYPE_INVALID \<equiv> 0"
abbreviation (input) BUS_TYPE_USB :: u32 where "BUS_TYPE_USB \<equiv> 1"
abbreviation (input) BUS_TYPE_MAX :: u32 where "BUS_TYPE_MAX \<equiv> 2"
abbreviation (input) BUS_TYPE_TEST :: u32 where "BUS_TYPE_TEST \<equiv> 3"

text \<open>\<open>UsbDeviceInfo\<close> adds the USB fields; a device of another bus has \<open>None\<close>.\<close>

record usb_fields =
  uf_interfaceDescList :: "usb_interface_descriptor list"
  uf_bcdUSB :: u16
  uf_deviceClass :: u8
  uf_idVendor :: u16
  uf_idProduct :: u16
  uf_deviceSubClass :: u8
  uf_deviceProtocol :: u8
  uf_snNum :: string

record device_info =
  di_busType :: u32
  di_busDeviceId :: u32
  di_description :: string
  di_usb :: "usb_fields option"

text \<open>
  The union lays \<open>busType\<close> over the low half of \<open>deviceId\<close> and \<open>busDeviceId\<close> over the high half
  (little-endian host).
\<close>

definition make_device_id :: "u32 \<Rightarrow> u32 \<Rightarrow> u64" where
  "make_device_id busType busDeviceId = push_bit 32 (ucast busDeviceId) OR ucast busType"

definition GetDeviceId :: "device_info \<Rightarrow> u64" where
  "GetDeviceId d = make_device_id (di_busType d) (di_busDeviceId d)"

text \<open>\<open>*reinterpret_cast<BusType *>(&deviceId)\<close>.\<close>

definition bus_of_device_id :: "u64 \<Rightarrow> u32" where
  "bus_of_device_id deviceId = ucast deviceId"

lemma not_bit_u32: "\<not> bit (w :: u32) (32 + n)"
  using bit_imp_le_length [of w "32 + n"] by auto

lemma bus_of_make_device_id [simp]: "bus_of_device_id (make_device_id b d) = b"
  by (auto simp: bus_of_device_id_def make_device_id_def bit_simps intro!: bit_word_eqI)

lemma bus_dev_of_make_device_id [simp]: "ucast (drop_bit 32 (make_device_id b d)) = d"
  by (auto simp: make_device_id_def bit_simps not_bit_u32 intro!: bit_word_eqI)

lemma make_device_id_inject [simp]: "make_device_id b d = make_device_id b' d' \<longleftrightarrow> b = b' \<and> d = d'"
  by (metis bus_of_make_device_id bus_dev_of_make_device_id)

lemma bus_of_GetDeviceId [simp]: "bus_of_device_id (GetDeviceId d) = di_busType d"
  by (simp add: GetDeviceId_def)

section \<open>Drivers\<close>

record usb_driver_ids =
  ud_pids :: "u16 list"
  ud_vids :: "u16 list"

record driver_info =
  dr_bus :: string
  dr_busType :: u32
  dr_driverUid :: string
  dr_userId :: int
  dr_bundleName :: string
  dr_driverName :: string
  dr_vendor :: string
  dr_version :: string
  dr_description :: string
  dr_driverSize :: string
  dr_launchOnBind :: bool
  dr_accessAllowed :: bool
  dr_ext :: "usb_driver_ids option"

definition new_driver_info :: "string \<Rightarrow> string \<Rightarrow> string \<Rightarrow> int \<Rightarrow> driver_info" where
  "new_driver_info bundleName driverName driverUid userId =
     \<lparr> dr_bus = [], dr_busType = 0,
       dr_driverUid = (if driverUid = [] then bundleName @ ''-'' @ driverName else driverUid),
       dr_userId = userId, dr_bundleName = bundleName, dr_driverName = driverName, dr_vendor = [],
       dr_version = [], dr_description = [], dr_driverSize = [], dr_launchOnBind = False,
       dr_accessAllowed = False, dr_ext = None \<rparr>"

section \<open>Strings\<close>

text \<open>\<open>std::string::find\<close>: the position of the first occurrence of \<open>pat\<close>.\<close>

fun str_prefix :: "string \<Rightarrow> string \<Rightarrow> bool" where
  "str_prefix [] s = True"
| "str_prefix (c # pat) [] = False"
| "str_prefix (c # pat) (d # s) = (c = d \<and> str_prefix pat s)"

fun str_find :: "string \<Rightarrow> string \<Rightarrow> nat option" where
  "str_find pat [] = (if pat = [] then Some 0 else None)"
| "str_find pat (c # s) =
     (if str_prefix pat (c # s) then Some 0 else map_option Suc (str_find pat s))"

lemma str_prefix_append [simp]: "str_prefix pat (pat @ s)"
  by (induction pat) auto

lemma str_prefix_iff: "str_prefix pat s \<longleftrightarrow> take (length pat) s = pat"
  by (induction pat s rule: str_prefix.induct) auto

lemma str_find_char: "c \<notin> set s \<Longrightarrow> str_find [c] (s @ [c] @ t) = Some (length s)"
  by (induction s) auto

section \<open>Finite maps with an iteration order\<close>

text \<open>
  An \<open>unordered_map\<close> is an association list whose order is the (unspecified) iteration order;
  \<open>map_of\<close> is its lookup. \<open>al_put\<close> is \<open>m[k] = v\<close>, \<open>al_del\<close> is \<open>erase\<close>.
\<close>

fun al_put :: "'k \<Rightarrow> 'v \<Rightarrow> ('k \<times> 'v) list \<Rightarrow> ('k \<times> 'v) list" where
  "al_put k v [] = [(k, v)]"
| "al_put k v ((k', v') # m) = (if k' = k then (k, v) # m else (k', v') # al_put k v m)"

definition al_del :: "'k \<Rightarrow> ('k \<times> 'v) list \<Rightarrow> ('k \<times> 'v) list" where
  "al_del k m = filter (\<lambda>(k', _). k' \<noteq> k) m"

lemma map_of_al_put [simp]: "map_of (al_put k v m) = (map_of m)(k \<mapsto> v)"
  by (induction k v m rule: al_put.induct) (auto simp: fun_eq_iff)

lemma map_of_al_del [simp]: "map_of (al_del k m) = (map_of m)(k := None)"
  by (induction m) (auto simp: al_del_def fun_eq_iff)

lemma keys_al_put: "fst ` set (al_put k v m) = insert k (fst ` set m)"
  by (induction k v m rule: al_put.induct) auto

lemma distinct_al_put [simp]: "distinct (map fst m) \<Longrightarrow> distinct (map fst (al_put k v m))"
proof (induction k v m rule: al_put.induct)
  case (2 k v k' v' m)
  then show ?case using keys_al_put [of k v m] by (auto simp flip: set_map)
qed simp

lemma distinct_al_del [simp]: "distinct (map fst m) \<Longrightarrow> distinct (map fst (al_del k m))"
  by (auto simp: al_del_def distinct_map_filter)

lemma al_del_set [simp]: "set (al_del k m) = {p \<in> set m. fst p \<noteq> k}"
  by (auto simp: al_del_def)

lemma al_put_set: "set (al_put k v m) \<subseteq> insert (k, v) (set m)"
  by (induction k v m rule: al_put.induct) auto

text \<open>The contract of such a map, for the components that only rely on it.\<close>

locale finite_map =
  fixes lookup :: "'m \<Rightarrow> 'k \<Rightarrow> 'v option"
    and put :: "'k \<Rightarrow> 'v \<Rightarrow> 'm \<Rightarrow> 'm"
    and del :: "'k \<Rightarrow> 'm \<Rightarrow> 'm"
    and wf :: "'m \<Rightarrow> bool"
  assumes lookup_put: "wf m \<Longrightarrow> lookup (put k v m) = (lookup m)(k \<mapsto> v)"
    and lookup_del: "wf m \<Longrightarrow> lookup (del k m) = (lookup m)(k := None)"
    and wf_put: "wf m \<Longrightarrow> wf (put k v m)"
    and wf_del: "wf m \<Longrightarrow> wf (del k m)"
begin

lemma del_after_put: "wf m \<Longrightarrow> lookup m k = None \<Longrightarrow> lookup (del k (put k v m)) = lookup m"
  by (simp add: lookup_put lookup_del wf_put fun_upd_idem)

lemma put_commute: "wf m \<Longrightarrow> k \<noteq> k' \<Longrightarrow> lookup (put k v (put k' v' m)) = lookup (put k' v' (put k v m))"
  by (simp add: lookup_put wf_put fun_upd_twist)

lemma put_other: "wf m \<Longrightarrow> k \<noteq> k' \<Longrightarrow> lookup (put k v m) k' = lookup m k'"
  by (simp add: lookup_put)

lemma del_other: "wf m \<Longrightarrow> k \<noteq> k' \<Longrightarrow> lookup (del k m) k' = lookup m k'"
  by (simp add: lookup_del)

end

interpretation al: finite_map map_of al_put al_del "\<lambda>m. distinct (map fst m)"
  by unfold_locales auto

text \<open>An \<open>unordered_set\<close> is a distinct list.\<close>

definition set_put :: "'a \<Rightarrow> 'a list \<Rightarrow> 'a list" where
  "set_put x xs = (if x \<in> set xs then xs else xs @ [x])"

lemma set_set_put [simp]: "set (set_put x xs) = insert x (set xs)"
  by (auto simp: set_put_def)

lemma distinct_set_put [simp]: "distinct xs \<Longrightarrow> distinct (set_put x xs)"
  by (simp add: set_put_def)

lemma set_put_not_Nil [simp]: "set_put x xs \<noteq> []"
  by (auto simp: set_put_def)

end
