(* ===== verification/Ext_Controller.thy ===== *)
theory Ext_Controller
  imports Ext_Types
begin

text \<open>
  The driver extension controller, device_manager/driver_extension_controller.cpp, and the
  world it acts on: the ability manager and the other system services, which are not part of
  the repository. Their answers are the functions of \<open>env\<close>, which may depend on everything
  that happened before (the trace); what the code tells them is recorded in the trace.
\<close>

section \<open>The world\<close>

datatype ext_event =
    StartExtensionAbility string string
  | StopExtensionAbility string string int
  | ConnectAbility string string u32 nat
  | DisconnectAbility nat
  | AddDeathRecipient nat
  | CbOnConnect nat u64 "nat option" UsbErrCode
  | CbOnUnBind nat u64 UsbErrCode
  | CbOnDisconnect nat u64 UsbErrCode
  | DrvOnMatched driver_info
  | DrvOnRemoved driver_info
  | TimerUnregister u32
  | TimerShutdown
  | TimerSetup
  | TimerRegister u32
  | RegisterBundleCallback

type_synonym trace = "ext_event list"

record env =
  e_amc :: "trace \<Rightarrow> bool"
  e_start :: "trace \<Rightarrow> string \<Rightarrow> string \<Rightarrow> int"
  e_stop :: "trace \<Rightarrow> string \<Rightarrow> string \<Rightarrow> int \<Rightarrow> int"
  e_connect :: "trace \<Rightarrow> string \<Rightarrow> string \<Rightarrow> u32 \<Rightarrow> nat \<Rightarrow> int"
  e_disconnect :: "trace \<Rightarrow> nat \<Rightarrow> int"
  e_death :: "trace \<Rightarrow> nat \<Rightarrow> bool"
  e_timer_setup :: "trace \<Rightarrow> u32"
  e_timer_register :: "trace \<Rightarrow> u32"
  e_samgr :: "trace \<Rightarrow> bool"
  e_bms_sa :: "trace \<Rightarrow> bool"
  e_bms :: "trace \<Rightarrow> bool"
  e_provision :: "trace \<Rightarrow> string \<Rightarrow> int \<Rightarrow> int \<times> string"
  e_hap_token :: "trace \<Rightarrow> u32 \<Rightarrow> (string \<times> int) option"

text \<open>
  \<open>DriverExtensionAbilityConnection\<close>: a weak pointer to the notifier it reports to and the
  remote object of the ability. \<open>DrvExtConnectionInfo\<close> refers to one of them. Objects are
  numbered by \<open>w_next\<close> in the order of their creation.
\<close>

record connection =
  co_callback :: nat
  co_remoteObject :: "nat option"

record conn_info =
  ci_bundleName :: string
  ci_abilityName :: string
  ci_deviceId :: u32
  ci_connectInner :: nat

record notifier =
  nt_id :: nat
  nt_info :: "conn_info option"

record world =
  w_trace :: trace
  w_next :: nat
  w_conns :: "(nat \<times> connection) list"

definition emit :: "ext_event \<Rightarrow> world \<Rightarrow> world" where
  "emit ev w = w\<lparr>w_trace := w_trace w @ [ev]\<rparr>"

lemma emit_simps [simp]:
  "w_trace (emit ev w) = w_trace w @ [ev]" "w_next (emit ev w) = w_next w" "w_conns (emit ev w) = w_conns w"
  by (simp_all add: emit_def)

section \<open>The operations of the controller\<close>

definition StartDriverExtension :: "env \<Rightarrow> string \<Rightarrow> string \<Rightarrow> world \<Rightarrow> UsbErrCode \<times> world" where
  "StartDriverExtension E bundleName abilityName w =
     (if \<not> e_amc E (w_trace w) then (EDM_ERR_INVALID_OBJECT, w)
      else (of_ext (e_start E (w_trace w) bundleName abilityName),
            emit (StartExtensionAbility bundleName abilityName) w))"

definition StopDriverExtension :: "env \<Rightarrow> string \<Rightarrow> string \<Rightarrow> int \<Rightarrow> world \<Rightarrow> UsbErrCode \<times> world" where
  "StopDriverExtension E bundleName abilityName userId w =
     (if \<not> e_amc E (w_trace w) then (EDM_ERR_INVALID_OBJECT, w)
      else (of_ext (e_stop E (w_trace w) bundleName abilityName userId),
            emit (StopExtensionAbility bundleName abilityName userId) w))"

text \<open>The result carries the notifier as well, because the code stores the connection in it.\<close>

definition ConnectDriverExtension ::
  "env \<Rightarrow> string \<Rightarrow> string \<Rightarrow> notifier option \<Rightarrow> u32 \<Rightarrow> world \<Rightarrow> UsbErrCode \<times> notifier option \<times> world" where
  "ConnectDriverExtension E bundleName abilityName callback deviceId w =
     (case callback of
        None \<Rightarrow> (EDM_ERR_INVALID_PARAM, None, w)
      | Some cb \<Rightarrow>
          if nt_info cb \<noteq> None then (EDM_ERR_INVALID_OBJECT, Some cb, w)
          else
            let inner = w_next w;
                cb = cb\<lparr>nt_info := Some \<lparr>ci_bundleName = bundleName, ci_abilityName = abilityName,
                                       ci_deviceId = deviceId, ci_connectInner = inner\<rparr>\<rparr>;
                w = w\<lparr>w_next := Suc inner,
                     w_conns := al_put inner \<lparr>co_callback = nt_id cb, co_remoteObject = None\<rparr> (w_conns w)\<rparr> in
            if \<not> e_amc E (w_trace w) then (EDM_ERR_INVALID_OBJECT, Some cb, w)
            else (of_ext (e_connect E (w_trace w) bundleName abilityName deviceId inner), Some cb,
                  emit (ConnectAbility bundleName abilityName deviceId inner) w))"

definition DisconnectDriverExtension ::
  "env \<Rightarrow> string \<Rightarrow> string \<Rightarrow> notifier option \<Rightarrow> u32 \<Rightarrow> world \<Rightarrow> UsbErrCode \<times> world" where
  "DisconnectDriverExtension E bundleName abilityName callback deviceId w =
     (case callback of
        None \<Rightarrow> (EDM_ERR_INVALID_PARAM, w)
      | Some cb \<Rightarrow>
        (case nt_info cb of
           None \<Rightarrow> (EDM_ERR_INVALID_PARAM, w)
         | Some info \<Rightarrow>
             if ci_bundleName info \<noteq> bundleName \<or> ci_abilityName info \<noteq> abilityName
                \<or> ci_deviceId info \<noteq> deviceId
             then (EDM_ERR_INVALID_OBJECT, w)
             else if \<not> e_amc E (w_trace w) then (EDM_ERR_INVALID_OBJECT, w)
             else (of_ext (e_disconnect E (w_trace w) (ci_connectInner info)),
                   emit (DisconnectAbility (ci_connectInner info)) w)))"

text \<open>\<open>GetRemoteObj\<close> and \<open>IsConnectDone\<close> dereference \<open>info_\<close> without a check.\<close>

definition GetRemoteObj :: "notifier \<Rightarrow> world \<Rightarrow> nat option res" where
  "GetRemoteObj cb w =
     (case nt_info cb of
        None \<Rightarrow> Inl Null_deref
      | Some info \<Rightarrow>
        (case map_of (w_conns w) (ci_connectInner info) of
           None \<Rightarrow> Inl Null_deref
         | Some c \<Rightarrow> Inr (co_remoteObject c)))"

definition IsConnectDone :: "notifier \<Rightarrow> world \<Rightarrow> bool res" where
  "IsConnectDone cb w = bindE (GetRemoteObj cb w) (\<lambda>r. Inr (r \<noteq> None))"

text \<open>
  The reports of the ability manager set or clear the remote object of the connection and tell
  the notifier it points to; the notifier's number is the second result, which the device
  manager resolves.
\<close>

definition OnAbilityConnectDone :: "nat \<Rightarrow> nat option \<Rightarrow> world \<Rightarrow> nat option \<times> world" where
  "OnAbilityConnectDone c remote w =
     (case map_of (w_conns w) c of
        None \<Rightarrow> (None, w)
      | Some co \<Rightarrow> (Some (co_callback co), w\<lparr>w_conns := al_put c (co\<lparr>co_remoteObject := remote\<rparr>) (w_conns w)\<rparr>))"

definition OnAbilityDisconnectDone :: "nat \<Rightarrow> world \<Rightarrow> nat option \<times> world" where
  "OnAbilityDisconnectDone c w =
     (case map_of (w_conns w) c of
        None \<Rightarrow> (None, w)
      | Some co \<Rightarrow> (Some (co_callback co), w\<lparr>w_conns := al_put c (co\<lparr>co_remoteObject := None\<rparr>) (w_conns w)\<rparr>))"

section \<open>Connections are used once\<close>

text \<open>A notifier that holds a connection is never connected again: it has to be cleared or replaced.\<close>

lemma ConnectDriverExtension_used:
  "nt_info cb \<noteq> None \<Longrightarrow> ConnectDriverExtension E b a (Some cb) d w = (EDM_ERR_INVALID_OBJECT, Some cb, w)"
  by (auto simp: ConnectDriverExtension_def)

lemma ConnectDriverExtension_keeps_id:
  "ConnectDriverExtension E b a (Some cb) d w = (r, cb', w') \<Longrightarrow>
   \<exists>n. cb' = Some n \<and> nt_id n = nt_id cb \<and> nt_info n \<noteq> None"
  by (auto simp: ConnectDriverExtension_def Let_def split: if_splits)

lemma ConnectDriverExtension_None_iff [simp]:
  "fst (ConnectDriverExtension E b a None d w) = EDM_ERR_INVALID_PARAM"
  by (simp add: ConnectDriverExtension_def)

lemma ConnectDriverExtension_OK:
  "ConnectDriverExtension E b a cb d w = (EDM_OK, cb', w') \<Longrightarrow>
   w_trace w' = w_trace w @ [ConnectAbility b a d (w_next w)] \<and> w_next w' = Suc (w_next w)"
  by (auto simp: ConnectDriverExtension_def Let_def split: option.splits if_splits)

lemma ConnectDriverExtension_trace:
  "ConnectDriverExtension E b a cb d w = (r, cb', w') \<Longrightarrow>
   \<exists>evs. w_trace w' = w_trace w @ evs \<and> length evs \<le> 1 \<and> w_next w \<le> w_next w'"
  by (auto simp: ConnectDriverExtension_def Let_def split: option.splits if_splits)

end
