(* ===== verification/Device.thy ===== *)
theory Device
  imports Ext_Controller
begin

text \<open>
  One device and its driver extension: device_manager/device.cpp and device.h. A method takes
  the device and the world and returns both updated. A callback of a client is named by its
  remote object (\<open>AsObject()\<close>); the event reports of the methods, which only write to the system
  event log, are left out.
\<close>

section \<open>State\<close>

record device =
  dv_info :: device_info
  dv_bundleInfo :: string
  dv_driverUid :: string
  dv_driverInfo :: "driver_info option"
  dv_drvExtRemote :: "nat option"
  dv_callbacks :: "nat list"
  dv_connectNotifier :: "notifier option"
  dv_isUnRegisted :: bool
  dv_boundCallerInfos :: "(u32 \<times> bool) list"

definition new_device :: "device_info \<Rightarrow> device" where
  "new_device info =
     \<lparr> dv_info = info, dv_bundleInfo = [], dv_driverUid = [], dv_driverInfo = None,
       dv_drvExtRemote = None, dv_callbacks = [], dv_connectNotifier = None,
       dv_isUnRegisted = False, dv_boundCallerInfos = [] \<rparr>"

definition stiching :: string where
  "stiching = ''-''"

section \<open>Accessors\<close>

definition GetBundleName :: "string \<Rightarrow> string" where
  "GetBundleName bundleInfo =
     (case str_find stiching bundleInfo of None \<Rightarrow> [] | Some pos \<Rightarrow> take pos bundleInfo)"

definition GetAbilityName :: "string \<Rightarrow> string" where
  "GetAbilityName bundleInfo =
     (case str_find stiching bundleInfo of
        None \<Rightarrow> [] | Some pos \<Rightarrow> drop (pos + length stiching) bundleInfo)"

definition IsLastCaller :: "u32 \<Rightarrow> device \<Rightarrow> bool" where
  "IsLastCaller caller d =
     (if length (dv_boundCallerInfos d) > 1 then False
      else map_of (dv_boundCallerInfos d) caller \<noteq> None)"

definition IsBindCaller :: "u32 \<Rightarrow> device \<Rightarrow> bool" where
  "IsBindCaller caller d \<longleftrightarrow> map_of (dv_boundCallerInfos d) caller \<noteq> None"

definition HasDriver :: "device \<Rightarrow> bool" where
  "HasDriver d \<longleftrightarrow> dv_bundleInfo d \<noteq> []"

definition GetDriverUid :: "device \<Rightarrow> string" where
  "GetDriverUid d = dv_driverUid d"

definition AddBundleInfo :: "string \<Rightarrow> driver_info option \<Rightarrow> device \<Rightarrow> device" where
  "AddBundleInfo bundleInfo driverInfo d =
     (let d = d\<lparr>dv_bundleInfo := bundleInfo, dv_driverInfo := driverInfo\<rparr> in
      case driverInfo of None \<Rightarrow> d | Some dr \<Rightarrow> d\<lparr>dv_driverUid := dr_driverUid dr\<rparr>)"

definition RemoveBundleInfo :: "device \<Rightarrow> device" where
  "RemoveBundleInfo d = d\<lparr>dv_bundleInfo := [], dv_driverUid := []\<rparr>"

definition RemoveDriverInfoOfDevice :: "device \<Rightarrow> device" where
  "RemoveDriverInfoOfDevice d = d\<lparr>dv_driverInfo := None\<rparr>"

definition ClearDrvExtRemote :: "device \<Rightarrow> device" where
  "ClearDrvExtRemote d = d\<lparr>dv_drvExtRemote := None\<rparr>"

definition UnRegist :: "device \<Rightarrow> device" where
  "UnRegist d = d\<lparr>dv_isUnRegisted := True\<rparr>"

definition RemoveCaller :: "u32 \<Rightarrow> device \<Rightarrow> device" where
  "RemoveCaller callingTokenId d =
     d\<lparr>dv_boundCallerInfos := al_del callingTokenId (dv_boundCallerInfos d)\<rparr>"

definition ClearBoundCallerInfos :: "device \<Rightarrow> device" where
  "ClearBoundCallerInfos d = d\<lparr>dv_boundCallerInfos := []\<rparr>"

text \<open>A fresh notifier: \<open>make_shared<DrvExtConnNotify>\<close>.\<close>

definition UpdateDrvExtConnNotify :: "device \<Rightarrow> world \<Rightarrow> device \<times> world" where
  "UpdateDrvExtConnNotify d w =
     (d\<lparr>dv_connectNotifier := Some \<lparr>nt_id = w_next w, nt_info = None\<rparr>\<rparr>, w\<lparr>w_next := Suc (w_next w)\<rparr>)"

definition AddDrvExtConnNotify :: "device \<Rightarrow> world \<Rightarrow> device \<times> world" where
  "AddDrvExtConnNotify d w =
     (case dv_connectNotifier d of None \<Rightarrow> UpdateDrvExtConnNotify d w | Some _ \<Rightarrow> (d, w))"

definition IsInvalidDrvExtConnectionInfo :: "notifier \<Rightarrow> bool" where
  "IsInvalidDrvExtConnectionInfo n \<longleftrightarrow> nt_info n = None"

definition ClearDrvExtConnectionInfo :: "notifier \<Rightarrow> notifier" where
  "ClearDrvExtConnectionInfo n = n\<lparr>nt_info := None\<rparr>"

section \<open>Callbacks\<close>

text \<open>
  \<open>std::set::insert\<close> adds an element unless one of the elements is equivalent to it, which means
  that neither compares less than the other. \<open>DrvExtMgrCallbackCompare\<close> is the order the code
  gives the set.
\<close>

definition DrvExtMgrCallbackCompare :: "nat \<Rightarrow> nat \<Rightarrow> bool" where
  "DrvExtMgrCallbackCompare lhs rhs = (if lhs \<noteq> rhs then False else lhs < rhs)"

definition std_set_insert :: "('a \<Rightarrow> 'a \<Rightarrow> bool) \<Rightarrow> 'a \<Rightarrow> 'a list \<Rightarrow> 'a list" where
  "std_set_insert lt x xs =
     (if list_ex (\<lambda>y. \<not> lt x y \<and> \<not> lt y x) xs then xs else xs @ [x])"

definition RegisterDrvExtMgrCallback ::
  "env \<Rightarrow> nat option \<Rightarrow> device \<Rightarrow> world \<Rightarrow> UsbErrCode \<times> device \<times> world" where
  "RegisterDrvExtMgrCallback E callback d w =
     (case callback of
        None \<Rightarrow> (EDM_ERR_INVALID_OBJECT, d, w)
      | Some cb \<Rightarrow>
          let d = d\<lparr>dv_callbacks := std_set_insert DrvExtMgrCallbackCompare cb (dv_callbacks d)\<rparr>;
              ok = e_death E (w_trace w) cb;
              w = emit (AddDeathRecipient cb) w in
          if \<not> ok then (EDM_NOK, d, w) else (EDM_OK, d, w))"

definition UnregisterDrvExtMgrCallback :: "nat \<Rightarrow> device \<Rightarrow> device" where
  "UnregisterDrvExtMgrCallback cb d = d\<lparr>dv_callbacks := remove1 cb (dv_callbacks d)\<rparr>"

section \<open>Connecting and disconnecting\<close>

text \<open>
  The retry loop of \<open>Connect()\<close>: at most \<open>todo\<close> more attempts. The notifier exists, because
  \<open>AddDrvExtConnNotify\<close> has just created it.
\<close>

fun ConnectRetry ::
  "env \<Rightarrow> string \<Rightarrow> string \<Rightarrow> u32 \<Rightarrow> nat \<Rightarrow> UsbErrCode \<Rightarrow> device \<Rightarrow> world \<Rightarrow> UsbErrCode \<times> device \<times> world" where
  "ConnectRetry E bundleName abilityName busDevId 0 ret d w = (ret, d, w)"
| "ConnectRetry E bundleName abilityName busDevId (Suc todo) ret d w =
     (if ret = EDM_OK then (ret, d, w)
      else
        let d = d\<lparr>dv_drvExtRemote := None,
                 dv_connectNotifier := map_option ClearDrvExtConnectionInfo (dv_connectNotifier d)\<rparr>;
            (ret, n, w) = ConnectDriverExtension E bundleName abilityName (dv_connectNotifier d) busDevId w in
        ConnectRetry E bundleName abilityName busDevId todo ret (d\<lparr>dv_connectNotifier := n\<rparr>) w)"

abbreviation (input) retryTimes :: nat where "retryTimes \<equiv> 30"

definition ConnectDriver :: "env \<Rightarrow> device \<Rightarrow> world \<Rightarrow> UsbErrCode \<times> device \<times> world" where
  "ConnectDriver E d w =
     (let busDevId = di_busDeviceId (dv_info d);
          bundleInfo = dv_bundleInfo d;
          bundleName = GetBundleName bundleInfo;
          abilityName = GetAbilityName bundleInfo;
          (d, w) = AddDrvExtConnNotify d w;
          (ret, n, w) = ConnectDriverExtension E bundleName abilityName (dv_connectNotifier d) busDevId w in
      ConnectRetry E bundleName abilityName busDevId retryTimes ret (d\<lparr>dv_connectNotifier := n\<rparr>) w)"

text \<open>
  \<open>Connect (connectCallback, callingTokenId)\<close>. When the driver is already connected, the callback
  is called before anything checks that it is not null.
\<close>

definition ConnectClient ::
  "env \<Rightarrow> nat option \<Rightarrow> u32 \<Rightarrow> device \<Rightarrow> world \<Rightarrow> (UsbErrCode \<times> device \<times> world) res" where
  "ConnectClient E connectCallback callingTokenId d w =
     (if dv_drvExtRemote d \<noteq> None then
        (case connectCallback of
           None \<Rightarrow> Inl Null_deref
         | Some cb \<Rightarrow>
             let w = emit (CbOnConnect cb (GetDeviceId (dv_info d)) (dv_drvExtRemote d) EDM_OK) w;
                 (ret, d, w) = RegisterDrvExtMgrCallback E connectCallback d w in
             if ret \<noteq> EDM_OK then Inr (ret, d, w)
             else Inr (ret, d\<lparr>dv_boundCallerInfos := al_put callingTokenId True (dv_boundCallerInfos d)\<rparr>, w))
      else
        let (ret, d, w) = RegisterDrvExtMgrCallback E connectCallback d w in
        if ret \<noteq> EDM_OK then Inr (ret, d, w)
        else
          let (d, w) = UpdateDrvExtConnNotify d w;
              bundleInfo = dv_bundleInfo d;
              bundleName = GetBundleName bundleInfo;
              abilityName = GetAbilityName bundleInfo;
              (d, w) = AddDrvExtConnNotify d w;
              d = d\<lparr>dv_boundCallerInfos := al_put callingTokenId False (dv_boundCallerInfos d)\<rparr>;
              busDevId = di_busDeviceId (dv_info d);
              (ret, n, w) = ConnectDriverExtension E bundleName abilityName (dv_connectNotifier d) busDevId w;
              d = d\<lparr>dv_connectNotifier := n\<rparr> in
          if ret \<noteq> EDM_OK
          then Inr (ret,
                    (case connectCallback of None \<Rightarrow> d | Some cb \<Rightarrow> UnregisterDrvExtMgrCallback cb d)
                      \<lparr>dv_boundCallerInfos := al_del callingTokenId (dv_boundCallerInfos d)\<rparr>, w)
          else Inr (ret, d, w))"

text \<open>\<open>isFromBind\<close> only decides whether an event is reported.\<close>

definition Disconnect :: "env \<Rightarrow> device \<Rightarrow> world \<Rightarrow> UsbErrCode \<times> world" where
  "Disconnect E d w =
     (if (case dv_connectNotifier d of None \<Rightarrow> False | Some n \<Rightarrow> IsInvalidDrvExtConnectionInfo n)
      then (EDM_OK, w)
      else
        let busDevId = di_busDeviceId (dv_info d);
            bundleInfo = dv_bundleInfo d;
            bundleName = GetBundleName bundleInfo;
            abilityName = GetAbilityName bundleInfo in
        DisconnectDriverExtension E bundleName abilityName (dv_connectNotifier d) busDevId w)"

section \<open>Reports of the driver extension\<close>

definition emit_all :: "ext_event list \<Rightarrow> world \<Rightarrow> world" where
  "emit_all evs w = w\<lparr>w_trace := w_trace w @ evs\<rparr>"

definition OnConnect :: "nat option \<Rightarrow> int \<Rightarrow> device \<Rightarrow> world \<Rightarrow> device \<times> world" where
  "OnConnect remote resultCode d w =
     (d\<lparr>dv_drvExtRemote := remote,
        dv_boundCallerInfos := map (\<lambda>(token, _). (token, True)) (dv_boundCallerInfos d)\<rparr>,
      emit_all (map (\<lambda>cb. CbOnConnect cb (GetDeviceId (dv_info d)) remote (of_ext resultCode))
                  (dv_callbacks d)) w)"

text \<open>
  \<open>OnDisconnect\<close> up to the point where the device manager is involved, which finishes it: see
  \<open>OnDisconnectDone\<close> of the device manager.
\<close>

definition OnDisconnect :: "int \<Rightarrow> device \<Rightarrow> world \<Rightarrow> device \<times> world" where
  "OnDisconnect resultCode d w =
     (let devId = GetDeviceId (dv_info d);
          evs = concat (map (\<lambda>cb. [CbOnUnBind cb devId (of_ext resultCode), CbOnDisconnect cb devId (of_ext resultCode)])
                  (dv_callbacks d));
          d = d\<lparr>dv_drvExtRemote := None,
               dv_connectNotifier := map_option ClearDrvExtConnectionInfo (dv_connectNotifier d)\<rparr>;
          d = (ClearBoundCallerInfos d)\<lparr>dv_callbacks := []\<rparr> in
      (d, emit_all evs w))"

definition OnRemoteDied :: "nat \<Rightarrow> device \<Rightarrow> device" where
  "OnRemoteDied remote d = UnregisterDrvExtMgrCallback remote d"

section \<open>Bundle and ability names\<close>

lemma names_of_bundleInfo:
  "CHR ''-'' \<notin> set b \<Longrightarrow> GetBundleName (b @ stiching @ a) = b \<and> GetAbilityName (b @ stiching @ a) = a"
  using str_find_char [of "CHR ''-''" b a]
  by (simp add: GetBundleName_def GetAbilityName_def stiching_def)

section \<open>What never changes\<close>

text \<open>The device information and the unregistered mark are the device manager's business.\<close>

lemma UpdateDrvExtConnNotify_info:
  "UpdateDrvExtConnNotify d w = (d', w') \<Longrightarrow> dv_info d' = dv_info d \<and> dv_callbacks d' = dv_callbacks d
     \<and> dv_isUnRegisted d' = dv_isUnRegisted d \<and> dv_boundCallerInfos d' = dv_boundCallerInfos d
     \<and> dv_drvExtRemote d' = dv_drvExtRemote d \<and> w_trace w' = w_trace w"
  by (auto simp: UpdateDrvExtConnNotify_def)

lemma RegisterDrvExtMgrCallback_info:
  "RegisterDrvExtMgrCallback E cb d w = (r, d', w') \<Longrightarrow> dv_info d' = dv_info d
     \<and> dv_isUnRegisted d' = dv_isUnRegisted d \<and> dv_boundCallerInfos d' = dv_boundCallerInfos d"
  by (auto simp: RegisterDrvExtMgrCallback_def Let_def split: option.splits if_splits)

text \<open>The retry loop touches only the remote object and the notifier of the device.\<close>

lemma ConnectRetry_keeps:
  assumes "ConnectRetry E b a n todo ret d w = (r, d', w')" and "P d"
    and "\<And>d m. P d \<Longrightarrow> P (d\<lparr>dv_drvExtRemote := None, dv_connectNotifier := m\<rparr>)"
  shows "P d'"
  using assms(1,2)
proof (induction todo arbitrary: ret d w)
  case (Suc todo)
  show ?case
  proof (cases "ret = EDM_OK")
    case False
    let ?d = "d\<lparr>dv_drvExtRemote := None,
      dv_connectNotifier := map_option ClearDrvExtConnectionInfo (dv_connectNotifier d)\<rparr>"
    obtain r1 n1 w1 where "ConnectDriverExtension E b a (dv_connectNotifier ?d) n w = (r1, n1, w1)"
      using prod_cases3 by blast
    then have "ConnectRetry E b a n todo r1 (?d\<lparr>dv_connectNotifier := n1\<rparr>) w1 = (r, d', w')"
      using Suc.prems(1) False by simp
    moreover have "P (?d\<lparr>dv_connectNotifier := n1\<rparr>)"
      using assms(3) [OF Suc.prems(2), of n1] by simp
    ultimately show ?thesis by (rule Suc.IH)
  qed (use Suc.prems in simp)
qed simp

definition same_client_view :: "device \<Rightarrow> device \<Rightarrow> bool" where
  "same_client_view d d' \<longleftrightarrow> dv_info d' = dv_info d \<and> dv_isUnRegisted d' = dv_isUnRegisted d
     \<and> dv_callbacks d' = dv_callbacks d \<and> dv_boundCallerInfos d' = dv_boundCallerInfos d
     \<and> dv_bundleInfo d' = dv_bundleInfo d \<and> dv_driverInfo d' = dv_driverInfo d"

lemma ConnectDriver_cases:
  assumes "ConnectDriver E d w = (r, d', w')"
  obtains d1 w1 ret n w2 where "AddDrvExtConnNotify d w = (d1, w1)"
    and "ConnectDriverExtension E (GetBundleName (dv_bundleInfo d)) (GetAbilityName (dv_bundleInfo d))
      (dv_connectNotifier d1) (di_busDeviceId (dv_info d)) w1 = (ret, n, w2)"
    and "ConnectRetry E (GetBundleName (dv_bundleInfo d)) (GetAbilityName (dv_bundleInfo d))
      (di_busDeviceId (dv_info d)) 30 ret (d1\<lparr>dv_connectNotifier := n\<rparr>) w2 = (r, d', w')"
  using assms by (simp add: ConnectDriver_def Let_def split: prod.splits)

lemma AddDrvExtConnNotify_view:
  "AddDrvExtConnNotify d w = (d', w') \<Longrightarrow> same_client_view d d' \<and> w_trace w' = w_trace w
     \<and> dv_connectNotifier d' \<noteq> None"
  by (auto simp: AddDrvExtConnNotify_def UpdateDrvExtConnNotify_def same_client_view_def split: option.splits)

lemma ConnectDriver_view:
  assumes "ConnectDriver E d w = (r, d', w')"
  shows "same_client_view d d'"
proof -
  obtain d1 w1 ret n w2 where s: "AddDrvExtConnNotify d w = (d1, w1)"
    and c: "ConnectRetry E (GetBundleName (dv_bundleInfo d)) (GetAbilityName (dv_bundleInfo d))
      (di_busDeviceId (dv_info d)) 30 ret (d1\<lparr>dv_connectNotifier := n\<rparr>) w2 = (r, d', w')"
    using ConnectDriver_cases [OF assms] by metis
  have "same_client_view d (d1\<lparr>dv_connectNotifier := n\<rparr>)"
    using AddDrvExtConnNotify_view [OF s] by (simp add: same_client_view_def)
  then show ?thesis
    by (rule ConnectRetry_keeps [OF c]) (simp add: same_client_view_def)
qed

section \<open>The retries\<close>

text \<open>The attempts the ability manager has seen.\<close>

definition attempts :: "trace \<Rightarrow> nat" where
  "attempts tr = length (filter (\<lambda>ev. case ev of ConnectAbility _ _ _ _ \<Rightarrow> True | _ \<Rightarrow> False) tr)"

lemma attempts_append [simp]: "attempts (xs @ ys) = attempts xs + attempts ys"
  by (simp add: attempts_def)

lemma attempts_le: "attempts tr \<le> length tr"
  by (simp add: attempts_def)

lemma ConnectRetry_trace:
  "ConnectRetry E b a n todo ret d w = (r, d', w') \<Longrightarrow>
   \<exists>evs. w_trace w' = w_trace w @ evs \<and> length evs \<le> todo"
proof (induction todo arbitrary: ret d w)
  case (Suc todo)
  show ?case
  proof (cases "ret = EDM_OK")
    case False
    let ?d = "d\<lparr>dv_drvExtRemote := None,
      dv_connectNotifier := map_option ClearDrvExtConnectionInfo (dv_connectNotifier d)\<rparr>"
    obtain r1 n1 w1 where c: "ConnectDriverExtension E b a (dv_connectNotifier ?d) n w = (r1, n1, w1)"
      using prod_cases3 by blast
    then have "ConnectRetry E b a n todo r1 (?d\<lparr>dv_connectNotifier := n1\<rparr>) w1 = (r, d', w')"
      using Suc.prems(1) False by simp
    from Suc.IH [OF this] obtain evs where "w_trace w' = w_trace w1 @ evs" "length evs \<le> todo" by blast
    moreover obtain evs1 where "w_trace w1 = w_trace w @ evs1" "length evs1 \<le> 1"
      using ConnectDriverExtension_trace [OF c] by blast
    ultimately show ?thesis by (intro exI [of _ "evs1 @ evs"]) simp
  qed (use Suc.prems in simp)
qed simp

lemma ConnectRetry_stops:
  "ConnectRetry E b a n todo EDM_OK d w = (EDM_OK, d, w)"
  by (cases todo) simp_all

text \<open>The loop gives up only after all its attempts failed: an attempt that succeeds ends it.\<close>

lemma ConnectRetry_failed_attempts:
  assumes "ConnectRetry E b a n todo ret d w = (r, d', w')" and "r \<noteq> EDM_OK"
    and amc: "\<And>tr. e_amc E tr" and nt: "dv_connectNotifier d \<noteq> None"
  shows "attempts (w_trace w') = attempts (w_trace w) + todo"
  using assms(1) nt
proof (induction todo arbitrary: ret d w)
  case (Suc todo)
  have ret: "ret \<noteq> EDM_OK" using Suc.prems(1) assms(2) by auto
  let ?d = "d\<lparr>dv_drvExtRemote := None,
    dv_connectNotifier := map_option ClearDrvExtConnectionInfo (dv_connectNotifier d)\<rparr>"
  obtain m where m: "dv_connectNotifier ?d = Some m" "nt_info m = None"
    using Suc.prems(2) by (auto simp: ClearDrvExtConnectionInfo_def)
  obtain r1 n1 w1 where c: "ConnectDriverExtension E b a (dv_connectNotifier ?d) n w = (r1, n1, w1)"
    using prod_cases3 by blast
  then have rec: "ConnectRetry E b a n todo r1 (?d\<lparr>dv_connectNotifier := n1\<rparr>) w1 = (r, d', w')"
    using Suc.prems(1) ret by simp
  have "attempts (w_trace w1) = Suc (attempts (w_trace w))" "n1 \<noteq> None"
    using c m amc by (auto simp: ConnectDriverExtension_def Let_def attempts_def)
  then show ?case using Suc.IH [OF rec] by simp
qed simp

lemma ConnectDriver_attempts:
  assumes "ConnectDriver E d w = (r, d', w')"
  shows "attempts (w_trace w') \<le> attempts (w_trace w) + 31"
proof -
  obtain d1 w1 ret n w2 where s: "AddDrvExtConnNotify d w = (d1, w1)"
    and c: "ConnectDriverExtension E (GetBundleName (dv_bundleInfo d)) (GetAbilityName (dv_bundleInfo d))
      (dv_connectNotifier d1) (di_busDeviceId (dv_info d)) w1 = (ret, n, w2)"
    and l: "ConnectRetry E (GetBundleName (dv_bundleInfo d)) (GetAbilityName (dv_bundleInfo d))
      (di_busDeviceId (dv_info d)) 30 ret (d1\<lparr>dv_connectNotifier := n\<rparr>) w2 = (r, d', w')"
    using ConnectDriver_cases [OF assms] by metis
  obtain e1 e2 where "w_trace w2 = w_trace w1 @ e1" "length e1 \<le> 1" "w_trace w' = w_trace w2 @ e2" "length e2 \<le> 30"
    using ConnectDriverExtension_trace [OF c] ConnectRetry_trace [OF l] by blast
  then show ?thesis
    using AddDrvExtConnNotify_view [OF s] attempts_le [of e1] attempts_le [of e2] by simp
qed

section \<open>The callbacks of the clients\<close>

text \<open>The comparison never holds, so to the set every two callbacks are equivalent.\<close>

lemma DrvExtMgrCallbackCompare_False [simp]: "\<not> DrvExtMgrCallbackCompare a b"
  by (simp add: DrvExtMgrCallbackCompare_def)

lemma callback_insert: "std_set_insert DrvExtMgrCallbackCompare cb xs = (if xs = [] then [cb] else xs)"
  by (cases xs) (auto simp: std_set_insert_def)

end
