(* ===== verification/Device_Mgr.thy ===== *)
theory Device_Mgr
  imports Device
begin

text \<open>
  The device manager, device_manager/etx_device_mgr.cpp, with the callbacks that feed it
  (bundle_update_callback.cpp, dev_change_callback.cpp) and the reports of driver extensions
  that reach it through the controller and a device.

  \<open>QueryMatchDriver\<close> of the package manager is the argument \<open>query\<close> of the operations that use
  it. The locks only serialise the operations, so each operation is one step. A device lives as
  long as the device map holds it; the weak pointer of a connection to its notifier therefore
  resolves to the device of the map whose notifier has that number, or to nothing. The map
  never holds a null device, so the null checks on its values are left out.
\<close>

section \<open>State\<close>

type_synonym device_table = "(u32 \<times> (u64 \<times> device) list) list"
type_synonym matcher = "device_info \<Rightarrow> driver_info option"

record dm_state =
  dm_world :: world
  dm_deviceMap :: device_table
  dm_bundleMatchMap :: "(string \<times> u64 list) list"
  dm_driverChangeCallback :: bool
  dm_unloadSelftimerId :: u32

definition dm_init :: dm_state where
  "dm_init =
     \<lparr> dm_world = \<lparr>w_trace = [], w_next = 0, w_conns = []\<rparr>, dm_deviceMap = [], dm_bundleMatchMap = [],
       dm_driverChangeCallback = False, dm_unloadSelftimerId = -1 \<rparr>"

definition lookup_device :: "device_table \<Rightarrow> u32 \<Rightarrow> u64 \<Rightarrow> device option" where
  "lookup_device t busType deviceId =
     (case map_of t busType of None \<Rightarrow> None | Some m \<Rightarrow> map_of m deviceId)"

definition put_at :: "u32 \<Rightarrow> u64 \<Rightarrow> device \<Rightarrow> device_table \<Rightarrow> device_table" where
  "put_at busType deviceId d t =
     al_put busType (al_put deviceId d (case map_of t busType of None \<Rightarrow> [] | Some m \<Rightarrow> m)) t"

definition put_device :: "device \<Rightarrow> device_table \<Rightarrow> device_table" where
  "put_device d t = put_at (di_busType (dv_info d)) (GetDeviceId (dv_info d)) d t"

definition erase_device :: "u32 \<Rightarrow> u64 \<Rightarrow> device_table \<Rightarrow> device_table" where
  "erase_device busType deviceId t =
     (case map_of t busType of None \<Rightarrow> t | Some m \<Rightarrow> al_put busType (al_del deviceId m) t)"

lemma lookup_put_at:
  "lookup_device (put_at b k d t) b' k' = (if b' = b \<and> k' = k then Some d else lookup_device t b' k')"
  by (auto simp: lookup_device_def put_at_def split: option.splits)

lemma lookup_erase:
  "lookup_device (erase_device b k t) b' k' = (if b' = b \<and> k' = k then None else lookup_device t b' k')"
  by (auto simp: lookup_device_def erase_device_def split: option.splits)

text \<open>The two-level table is a finite map from a bus and a number to a device.\<close>

interpretation table: finite_map
  "\<lambda>t (b, k). lookup_device t b k" "\<lambda>(b, k). put_at b k" "\<lambda>(b, k). erase_device b k" "\<lambda>_. True"
  by unfold_locales (auto simp: lookup_put_at lookup_erase fun_eq_iff split: if_splits)

text \<open>The devices of the map, in its iteration order.\<close>

definition all_devices :: "device_table \<Rightarrow> device list" where
  "all_devices t = concat (map (\<lambda>(_, m). map snd m) t)"

definition with_world :: "(world \<Rightarrow> world) \<Rightarrow> dm_state \<Rightarrow> dm_state" where
  "with_world f st = st\<lparr>dm_world := f (dm_world st)\<rparr>"

section \<open>Telling the driver change callback\<close>

definition UpdateDriverInfo :: "device \<Rightarrow> dm_state \<Rightarrow> dm_state" where
  "UpdateDriverInfo d st =
     (case dv_driverInfo d of
        None \<Rightarrow> st
      | Some dr \<Rightarrow>
          if \<not> dm_driverChangeCallback st then st else with_world (emit (DrvOnMatched dr)) st)"

definition RemoveDriverInfo :: "device \<Rightarrow> dm_state \<Rightarrow> device \<times> dm_state" where
  "RemoveDriverInfo d st =
     (case dv_driverInfo d of
        None \<Rightarrow> (d, st)
      | Some dr \<Rightarrow>
          if \<not> dm_driverChangeCallback st then (d, st)
          else (RemoveDriverInfoOfDevice d, with_world (emit (DrvOnRemoved dr)) st))"

section \<open>The matching table\<close>

definition AddDevIdOfBundleInfoMap ::
  "env \<Rightarrow> device \<Rightarrow> string \<Rightarrow> dm_state \<Rightarrow> UsbErrCode \<times> device \<times> dm_state" where
  "AddDevIdOfBundleInfoMap E d bundleInfo st =
     (if bundleInfo = [] then (EDM_ERR_INVALID_PARAM, d, st)
      else
        let deviceId = GetDeviceId (dv_info d);
            st = st\<lparr>dm_bundleMatchMap :=
                   (case map_of (dm_bundleMatchMap st) bundleInfo of
                      None \<Rightarrow> al_put bundleInfo [deviceId] (dm_bundleMatchMap st)
                    | Some ids \<Rightarrow> al_put bundleInfo (set_put deviceId ids) (dm_bundleMatchMap st))\<rparr> in
        case dv_driverInfo d of
          None \<Rightarrow> (EDM_NOK, d, st)
        | Some dr \<Rightarrow>
            let st = UpdateDriverInfo d st in
            if dr_launchOnBind dr then (EDM_OK, d, st)
            else
              let (ret, d, w) = ConnectDriver E d (dm_world st);
                  st = st\<lparr>dm_world := w\<rparr> in
              if ret \<noteq> EDM_OK then (EDM_NOK, d, st) else (EDM_OK, d, st))"

definition RemoveDevIdOfBundleInfoMap ::
  "env \<Rightarrow> device \<Rightarrow> string \<Rightarrow> dm_state \<Rightarrow> UsbErrCode \<times> device \<times> dm_state" where
  "RemoveDevIdOfBundleInfoMap E d bundleInfo st =
     (if bundleInfo = [] then (EDM_ERR_INVALID_PARAM, d, st)
      else case map_of (dm_bundleMatchMap st) bundleInfo of
        None \<Rightarrow> (EDM_OK, d, st)
      | Some ids \<Rightarrow>
          if length ids > 1
          then (EDM_OK, d,
                st\<lparr>dm_bundleMatchMap :=
                     al_put bundleInfo (removeAll (GetDeviceId (dv_info d)) ids) (dm_bundleMatchMap st)\<rparr>)
          else
            let st = st\<lparr>dm_bundleMatchMap := al_del bundleInfo (dm_bundleMatchMap st)\<rparr>;
                (ret, w) = Disconnect E d (dm_world st);
                st = st\<lparr>dm_world := w\<rparr> in
            if ret \<noteq> EDM_OK then (ret, d, st)
            else
              let (d, st) = RemoveDriverInfo d st in (EDM_OK, d, st))"

definition RemoveDeviceOfDeviceMap :: "device \<Rightarrow> dm_state \<Rightarrow> dm_state" where
  "RemoveDeviceOfDeviceMap d st =
     st\<lparr>dm_deviceMap := erase_device (di_busType (dv_info d)) (GetDeviceId (dv_info d)) (dm_deviceMap st)\<rparr>"

definition DeleteBundlesOfBundleInfoMap :: "string \<Rightarrow> dm_state \<Rightarrow> u64 list \<times> dm_state" where
  "DeleteBundlesOfBundleInfoMap bundleName st =
     (if bundleName = [] then ([], st\<lparr>dm_bundleMatchMap := []\<rparr>)
      else
        let startStr = bundleName @ stiching;
            hit = (\<lambda>(key, _). length startStr \<le> length key \<and> startStr = take (length startStr) key) in
        (fold set_put (concat (map snd (filter hit (dm_bundleMatchMap st)))) [],
         st\<lparr>dm_bundleMatchMap := filter (\<lambda>e. \<not> hit e) (dm_bundleMatchMap st)\<rparr>))"

section \<open>Matching drivers again\<close>

text \<open>The body of the loops of \<open>MatchDriverInfos\<close>, and the loops over the two levels of the map.\<close>

definition MatchDevice ::
  "env \<Rightarrow> matcher \<Rightarrow> u64 list \<Rightarrow> u64 \<Rightarrow> device \<Rightarrow> dm_state \<Rightarrow> device \<times> dm_state" where
  "MatchDevice E query deviceIds deviceId d st =
     (let (d, st) = (if deviceId \<in> set deviceIds
                     then RemoveDriverInfo (ClearDrvExtRemote (RemoveBundleInfo d)) st else (d, st)) in
      if dv_isUnRegisted d \<or> dv_drvExtRemote d \<noteq> None then (d, st)
      else case query (dv_info d) of
        None \<Rightarrow> (d, st)
      | Some dr \<Rightarrow>
          let bundleInfo = dr_bundleName dr @ stiching @ dr_driverName dr;
              (ret, d, st) = AddDevIdOfBundleInfoMap E (AddBundleInfo bundleInfo (Some dr) d) bundleInfo st in
          (d, st))"

fun over_devices ::
  "(u64 \<Rightarrow> device \<Rightarrow> dm_state \<Rightarrow> device \<times> dm_state) \<Rightarrow> (u64 \<times> device) list \<Rightarrow> dm_state
   \<Rightarrow> (u64 \<times> device) list \<times> dm_state" where
  "over_devices f [] st = ([], st)"
| "over_devices f ((k, d) # ds) st =
     (let (d, st) = f k d st; (ds, st) = over_devices f ds st in ((k, d) # ds, st))"

fun over_buses ::
  "(u64 \<Rightarrow> device \<Rightarrow> dm_state \<Rightarrow> device \<times> dm_state) \<Rightarrow> device_table \<Rightarrow> dm_state \<Rightarrow> device_table \<times> dm_state" where
  "over_buses f [] st = ([], st)"
| "over_buses f ((b, m) # t) st =
     (let (m, st) = over_devices f m st; (t, st) = over_buses f t st in ((b, m) # t, st))"

definition MatchDriverInfos :: "env \<Rightarrow> matcher \<Rightarrow> u64 list \<Rightarrow> dm_state \<Rightarrow> dm_state" where
  "MatchDriverInfos E query deviceIds st =
     (let (t, st') = over_buses (MatchDevice E query deviceIds) (dm_deviceMap st) st in
      st'\<lparr>dm_deviceMap := t\<rparr>)"

definition ClearMatchedDevice :: "env \<Rightarrow> int \<Rightarrow> u64 \<Rightarrow> device \<Rightarrow> dm_state \<Rightarrow> device \<times> dm_state" where
  "ClearMatchedDevice E userId deviceId d st =
     (case dv_driverInfo d of
        None \<Rightarrow> (d, st)
      | Some dr \<Rightarrow>
          if dv_isUnRegisted d \<or> \<not> HasDriver d \<or> dr_userId dr \<noteq> userId then (d, st)
          else
            let bundleInfo = dv_bundleInfo d in
            if map_of (dm_bundleMatchMap st) bundleInfo = None then (d, st)
            else
              let (ret, w) = StopDriverExtension E (dr_bundleName dr) (dr_driverName dr) userId (dm_world st);
                  st = st\<lparr>dm_world := w, dm_bundleMatchMap := al_del bundleInfo (dm_bundleMatchMap st)\<rparr> in
              RemoveDriverInfo (ClearDrvExtRemote (RemoveBundleInfo d)) st)"

definition ClearMatchedDrivers :: "env \<Rightarrow> int \<Rightarrow> dm_state \<Rightarrow> dm_state" where
  "ClearMatchedDrivers E userId st =
     (let (t, st') = over_buses (ClearMatchedDevice E userId) (dm_deviceMap st) st in
      st'\<lparr>dm_deviceMap := t, dm_bundleMatchMap := []\<rparr>)"

section \<open>The unload timer\<close>

definition GetTotalDeviceNum :: "dm_state \<Rightarrow> nat" where
  "GetTotalDeviceNum st = length (filter (\<lambda>d. \<not> dv_isUnRegisted d) (all_devices (dm_deviceMap st)))"

abbreviation (input) UNLOAD_SA_TIMER_INTERVAL :: u32 where "UNLOAD_SA_TIMER_INTERVAL \<equiv> 30000"

definition UnLoadSelf :: "env \<Rightarrow> dm_state \<Rightarrow> dm_state" where
  "UnLoadSelf E st =
     (let st = with_world (emit TimerShutdown \<circ> emit (TimerUnregister (dm_unloadSelftimerId st))) st in
      if GetTotalDeviceNum st \<noteq> 0 then st
      else
        let ret = e_timer_setup E (w_trace (dm_world st));
            st = with_world (emit TimerSetup) st in
        if ret \<noteq> 0 then st
        else
          let timerId = e_timer_register E (w_trace (dm_world st)) in
          (with_world (emit (TimerRegister UNLOAD_SA_TIMER_INTERVAL)) st)\<lparr>dm_unloadSelftimerId := timerId\<rparr>)"

section \<open>Devices come and go\<close>

definition RegisterDevice :: "env \<Rightarrow> matcher \<Rightarrow> device_info \<Rightarrow> dm_state \<Rightarrow> UsbErrCode \<times> dm_state" where
  "RegisterDevice E query devInfo st =
     (let busType = di_busType devInfo;
          deviceId = GetDeviceId devInfo;
          found = lookup_device (dm_deviceMap st) busType deviceId in
      if (case found of None \<Rightarrow> False | Some d \<Rightarrow> dv_drvExtRemote d \<noteq> None) then (EDM_OK, st)
      else
        let d = (case found of None \<Rightarrow> new_device devInfo | Some d \<Rightarrow> d);
            bundleInfo = dv_bundleInfo d;
            (bundleInfo, d) =
              (if bundleInfo = [] then
                 (case query devInfo of
                    None \<Rightarrow> (bundleInfo, d)
                  | Some dr \<Rightarrow>
                      let bundleInfo = dr_bundleName dr @ stiching @ dr_driverName dr in
                      (bundleInfo, AddBundleInfo bundleInfo (Some dr) d))
               else (bundleInfo, d));
            st = with_world (emit (TimerUnregister (dm_unloadSelftimerId st)))
                   (st\<lparr>dm_deviceMap := put_device d (dm_deviceMap st)\<rparr>) in
        if bundleInfo = [] then (EDM_OK, st)
        else
          let (ret, d, st) = AddDevIdOfBundleInfoMap E d bundleInfo st;
              st = st\<lparr>dm_deviceMap := put_device d (dm_deviceMap st)\<rparr> in
          if ret \<noteq> EDM_OK then (EDM_NOK, st) else (ret, st))"

definition UnRegisterDevice :: "env \<Rightarrow> device_info \<Rightarrow> dm_state \<Rightarrow> UsbErrCode \<times> dm_state" where
  "UnRegisterDevice E devInfo st =
     (let busType = di_busType devInfo;
          deviceId = GetDeviceId devInfo in
      case lookup_device (dm_deviceMap st) busType deviceId of
        None \<Rightarrow> (EDM_OK, st)
      | Some d \<Rightarrow>
          let bundleInfo = dv_bundleInfo d;
              keep = (dv_drvExtRemote d \<noteq> None);
              d = (if keep then UnRegist d else d);
              t = (if keep then put_device d (dm_deviceMap st)
                   else erase_device busType deviceId (dm_deviceMap st));
              st = UnLoadSelf E (st\<lparr>dm_deviceMap := t\<rparr>) in
          if bundleInfo = [] then (EDM_OK, st)
          else
            let (ret, d, st) = RemoveDevIdOfBundleInfoMap E d bundleInfo st;
                st = (if keep then st\<lparr>dm_deviceMap := put_device d (dm_deviceMap st)\<rparr> else st) in
            (ret, st))"

section \<open>Queries\<close>

definition QueryDevice :: "u32 \<Rightarrow> dm_state \<Rightarrow> device_info list" where
  "QueryDevice busType st =
     (case map_of (dm_deviceMap st) busType of
        None \<Rightarrow> []
      | Some m \<Rightarrow> map dv_info (filter (\<lambda>d. \<not> dv_isUnRegisted d) (map snd m)))"

definition QueryAllDevices :: "dm_state \<Rightarrow> device list" where
  "QueryAllDevices st = filter (\<lambda>d. \<not> dv_isUnRegisted d) (all_devices (dm_deviceMap st))"

definition QueryDevicesById :: "u64 \<Rightarrow> dm_state \<Rightarrow> device list" where
  "QueryDevicesById deviceId st =
     concat (map (\<lambda>(_, m). map snd (filter (\<lambda>(k, d). deviceId = k \<and> \<not> dv_isUnRegisted d) m)) (dm_deviceMap st))"

definition QueryDeviceByDeviceID :: "u64 \<Rightarrow> dm_state \<Rightarrow> device option" where
  "QueryDeviceByDeviceID deviceId st =
     lookup_device (dm_deviceMap st) (bus_of_device_id deviceId) deviceId"

section \<open>Clients\<close>

definition IsCallerMatchDriverApp :: "env \<Rightarrow> trace \<Rightarrow> string \<Rightarrow> u32 \<Rightarrow> bool" where
  "IsCallerMatchDriverApp E tr driverAppIdentifier callingTokenId =
     (case e_hap_token E tr callingTokenId of
        None \<Rightarrow> False
      | Some (bundleName, userID) \<Rightarrow>
          let (ret, appIdentifier) = e_provision E tr bundleName userID in
          if ret \<noteq> 0 then False else driverAppIdentifier = appIdentifier)"

definition CheckAccessPermission ::
  "env \<Rightarrow> trace \<Rightarrow> driver_info option \<Rightarrow> string list \<Rightarrow> u32 \<Rightarrow> UsbErrCode" where
  "CheckAccessPermission E tr driverInfo accessibleAppIds callingTokenId =
     (case driverInfo of
        None \<Rightarrow> EDM_NOK
      | Some dr \<Rightarrow>
          if \<not> dr_accessAllowed dr then EDM_ERR_SERVICE_NOT_ALLOW_ACCESS
          else if \<not> e_samgr E tr then EDM_NOK
          else if \<not> e_bms_sa E tr then EDM_NOK
          else if \<not> e_bms E tr then EDM_NOK
          else
            let (ret, appIdentifier) = e_provision E tr (dr_bundleName dr) (dr_userId dr) in
            if ret \<noteq> 0 then EDM_ERR_NO_PERM
            else if IsCallerMatchDriverApp E tr appIdentifier callingTokenId then EDM_OK
            else if appIdentifier \<notin> set accessibleAppIds then EDM_ERR_NO_PERM
            else EDM_OK)"

text \<open>The device found is written back after the call of its method.\<close>

definition ConnectFound ::
  "env \<Rightarrow> device \<Rightarrow> u32 \<Rightarrow> nat option \<Rightarrow> dm_state \<Rightarrow> (UsbErrCode \<times> dm_state) res" where
  "ConnectFound E d callingTokenId connectCallback st =
     bindE (ConnectClient E connectCallback callingTokenId d (dm_world st)) (\<lambda>(ret, d, w).
       Inr (ret, st\<lparr>dm_world := w, dm_deviceMap := put_device d (dm_deviceMap st)\<rparr>))"

definition ConnectDevice ::
  "env \<Rightarrow> u64 \<Rightarrow> u32 \<Rightarrow> nat option \<Rightarrow> dm_state \<Rightarrow> (UsbErrCode \<times> dm_state) res" where
  "ConnectDevice E deviceId callingTokenId connectCallback st =
     (case QueryDeviceByDeviceID deviceId st of
        None \<Rightarrow> Inr (EDM_NOK, st)
      | Some d \<Rightarrow> ConnectFound E d callingTokenId connectCallback st)"

text \<open>The common end of the two disconnecting operations.\<close>

definition DisConnectFound :: "env \<Rightarrow> device \<Rightarrow> driver_info \<Rightarrow> u32 \<Rightarrow> dm_state \<Rightarrow> UsbErrCode \<times> dm_state" where
  "DisConnectFound E d dr callingTokenId st =
     (if \<not> dr_launchOnBind dr \<or> \<not> IsLastCaller callingTokenId d
      then (EDM_OK, st\<lparr>dm_deviceMap := put_device (RemoveCaller callingTokenId d) (dm_deviceMap st)\<rparr>)
      else
        let (ret, w) = Disconnect E d (dm_world st) in (ret, st\<lparr>dm_world := w\<rparr>))"

definition DisConnectDevice :: "env \<Rightarrow> u64 \<Rightarrow> u32 \<Rightarrow> dm_state \<Rightarrow> UsbErrCode \<times> dm_state" where
  "DisConnectDevice E deviceId callingTokenId st =
     (case QueryDeviceByDeviceID deviceId st of
        None \<Rightarrow> (EDM_NOK, st)
      | Some d \<Rightarrow>
        (case dv_driverInfo d of
           None \<Rightarrow> (EDM_NOK, st)
         | Some dr \<Rightarrow> DisConnectFound E d dr callingTokenId st))"

definition ConnectDriverWithDeviceId ::
  "env \<Rightarrow> u64 \<Rightarrow> u32 \<Rightarrow> string list \<Rightarrow> nat option \<Rightarrow> dm_state \<Rightarrow> (UsbErrCode \<times> dm_state) res" where
  "ConnectDriverWithDeviceId E deviceId callingTokenId accessibleAppIds connectCallback st =
     (case QueryDeviceByDeviceID deviceId st of
        None \<Rightarrow> Inr (EDM_NOK, st)
      | Some d \<Rightarrow>
          let ret = CheckAccessPermission E (w_trace (dm_world st)) (dv_driverInfo d) accessibleAppIds callingTokenId in
          if ret \<noteq> EDM_OK then Inr (ret, st)
          else ConnectFound E d callingTokenId connectCallback st)"

definition DisConnectDriverWithDeviceId :: "env \<Rightarrow> u64 \<Rightarrow> u32 \<Rightarrow> dm_state \<Rightarrow> UsbErrCode \<times> dm_state" where
  "DisConnectDriverWithDeviceId E deviceId callingTokenId st =
     (case QueryDeviceByDeviceID deviceId st of
        None \<Rightarrow> (EDM_NOK, st)
      | Some d \<Rightarrow>
          if \<not> IsBindCaller callingTokenId d then (EDM_ERR_SERVICE_NOT_BOUND, st)
          else case dv_driverInfo d of
            None \<Rightarrow> (EDM_NOK, st)
          | Some dr \<Rightarrow> DisConnectFound E d dr callingTokenId st)"

definition SetDriverChangeCallback :: "bool \<Rightarrow> dm_state \<Rightarrow> dm_state" where
  "SetDriverChangeCallback nonNull st = st\<lparr>dm_driverChangeCallback := nonNull\<rparr>"

section \<open>Reports that arrive later\<close>

definition find_notifier :: "nat \<Rightarrow> device_table \<Rightarrow> device option" where
  "find_notifier n t =
     List.find (\<lambda>d. case dv_connectNotifier d of None \<Rightarrow> False | Some m \<Rightarrow> nt_id m = n) (all_devices t)"

definition OnConnectDone :: "nat \<Rightarrow> nat option \<Rightarrow> int \<Rightarrow> dm_state \<Rightarrow> UsbErrCode \<times> dm_state" where
  "OnConnectDone n remote resultCode st =
     (case find_notifier n (dm_deviceMap st) of
        None \<Rightarrow> (EDM_ERR_INVALID_OBJECT, st)
      | Some d \<Rightarrow>
          let (d, w) = OnConnect remote resultCode d (dm_world st) in
          (EDM_OK, st\<lparr>dm_world := w, dm_deviceMap := put_device d (dm_deviceMap st)\<rparr>))"

definition OnDisconnectDone :: "env \<Rightarrow> nat \<Rightarrow> int \<Rightarrow> dm_state \<Rightarrow> UsbErrCode \<times> dm_state" where
  "OnDisconnectDone E n resultCode st =
     (case find_notifier n (dm_deviceMap st) of
        None \<Rightarrow> (EDM_ERR_INVALID_OBJECT, st)
      | Some d \<Rightarrow>
          let (d, w) = OnDisconnect resultCode d (dm_world st);
              st = st\<lparr>dm_world := w, dm_deviceMap := put_device d (dm_deviceMap st)\<rparr>;
              st = (if dv_isUnRegisted d then RemoveDeviceOfDeviceMap d st else st);
              bundleInfo = dv_bundleInfo d;
              (ret, w) = StopDriverExtension E (GetBundleName bundleInfo) (GetAbilityName bundleInfo) (-1)
                           (dm_world st) in
          (EDM_OK, st\<lparr>dm_world := w\<rparr>))"

text \<open>The ability manager reports on connection \<open>c\<close>; the client with callback \<open>cb\<close> of a device dies.\<close>

definition AbilityConnected :: "nat \<Rightarrow> nat option \<Rightarrow> int \<Rightarrow> dm_state \<Rightarrow> dm_state" where
  "AbilityConnected c remote resultCode st =
     (let (n, w) = OnAbilityConnectDone c remote (dm_world st);
          st = st\<lparr>dm_world := w\<rparr> in
      case n of None \<Rightarrow> st | Some n \<Rightarrow> snd (OnConnectDone n remote resultCode st))"

definition AbilityDisconnected :: "env \<Rightarrow> nat \<Rightarrow> int \<Rightarrow> dm_state \<Rightarrow> dm_state" where
  "AbilityDisconnected E c resultCode st =
     (let (n, w) = OnAbilityDisconnectDone c (dm_world st);
          st = st\<lparr>dm_world := w\<rparr> in
      case n of None \<Rightarrow> st | Some n \<Rightarrow> snd (OnDisconnectDone E n resultCode st))"

definition ClientDied :: "u64 \<Rightarrow> nat \<Rightarrow> dm_state \<Rightarrow> dm_state" where
  "ClientDied deviceId cb st =
     (case QueryDeviceByDeviceID deviceId st of
        None \<Rightarrow> st
      | Some d \<Rightarrow> st\<lparr>dm_deviceMap := put_device (OnRemoteDied cb d) (dm_deviceMap st)\<rparr>)"

definition OnBundlesUpdated :: "env \<Rightarrow> matcher \<Rightarrow> string \<Rightarrow> dm_state \<Rightarrow> dm_state" where
  "OnBundlesUpdated E query bundleName st =
     (let (deviceIds, st) = DeleteBundlesOfBundleInfoMap bundleName st in
      MatchDriverInfos E query deviceIds st)"

definition OnBundlesReseted :: "env \<Rightarrow> int \<Rightarrow> dm_state \<Rightarrow> dm_state" where
  "OnBundlesReseted E oldUserId st = ClearMatchedDrivers E oldUserId st"

definition OnDeviceAdd :: "env \<Rightarrow> matcher \<Rightarrow> device_info \<Rightarrow> dm_state \<Rightarrow> UsbErrCode \<times> dm_state" where
  "OnDeviceAdd E query devInfo st = RegisterDevice E query devInfo st"

definition OnDeviceRemove :: "env \<Rightarrow> device_info \<Rightarrow> dm_state \<Rightarrow> UsbErrCode \<times> dm_state" where
  "OnDeviceRemove E devInfo st = UnRegisterDevice E devInfo st"

end
