(* ===== verification/Device_Mgr_Props.thy ===== *)
theory Device_Mgr_Props
  imports Device_Mgr
begin

text \<open>
  Correctness of the device manager: its invariant in every reachable state, what a device that
  comes or goes does to the queries, who may connect to a driver and who may not disconnect it.
\<close>

section \<open>The invariant\<close>

definition device_ok :: "device \<Rightarrow> bool" where
  "device_ok d \<longleftrightarrow> length (dv_callbacks d) \<le> 1 \<and> distinct (map fst (dv_boundCallerInfos d))"

definition entry_ok :: "u32 \<Rightarrow> u64 \<times> device \<Rightarrow> bool" where
  "entry_ok b e \<longleftrightarrow> fst e = GetDeviceId (dv_info (snd e)) \<and> b = di_busType (dv_info (snd e)) \<and> device_ok (snd e)"

definition table_ok :: "device_table \<Rightarrow> bool" where
  "table_ok t \<longleftrightarrow> distinct (map fst t)
     \<and> (\<forall>(b, m) \<in> set t. distinct (map fst m) \<and> (\<forall>e \<in> set m. entry_ok b e))"

definition bundles_ok :: "(string \<times> u64 list) list \<Rightarrow> bool" where
  "bundles_ok bm \<longleftrightarrow> distinct (map fst bm)
     \<and> (\<forall>(k, ids) \<in> set bm. k \<noteq> [] \<and> ids \<noteq> [] \<and> distinct ids)"

definition dm_inv :: "dm_state \<Rightarrow> bool" where
  "dm_inv st \<longleftrightarrow> table_ok (dm_deviceMap st) \<and> bundles_ok (dm_bundleMatchMap st)"

lemma dm_init_inv: "dm_inv dm_init"
  by (simp add: dm_inv_def dm_init_def table_ok_def bundles_ok_def)

lemma table_ok_lookup:
  assumes "table_ok t" and "lookup_device t b k = Some d"
  shows "k = GetDeviceId (dv_info d)" and "b = di_busType (dv_info d)" and "device_ok d"
proof -
  obtain m where "(b, m) \<in> set t" "(k, d) \<in> set m"
    using assms(2) by (auto simp: lookup_device_def split: option.splits dest: map_of_SomeD)
  then have "entry_ok b (k, d)" using assms(1) by (auto simp: table_ok_def)
  then show "k = GetDeviceId (dv_info d)" "b = di_busType (dv_info d)" "device_ok d"
    by (auto simp: entry_ok_def)
qed

lemma table_ok_inner:
  "table_ok t \<Longrightarrow> map_of t b = Some m \<Longrightarrow> distinct (map fst m) \<and> (\<forall>e \<in> set m. entry_ok b e)"
  by (auto simp: table_ok_def dest: map_of_SomeD)

lemma table_ok_put:
  assumes t: "table_ok t" and d: "device_ok d"
  shows "table_ok (put_device d t)"
proof -
  let ?b = "di_busType (dv_info d)" and ?k = "GetDeviceId (dv_info d)"
  define m where "m = (case map_of t ?b of None \<Rightarrow> [] | Some m \<Rightarrow> m)"
  have m: "distinct (map fst m)" "\<And>e. e \<in> set m \<Longrightarrow> entry_ok ?b e"
    using table_ok_inner [OF t, of ?b] by (cases "map_of t ?b"; auto simp: m_def)+
  have "entry_ok ?b (?k, d)" using d by (simp add: entry_ok_def)
  then have new: "\<forall>e \<in> set (al_put ?k d m). entry_ok ?b e"
    using al_put_set [of ?k d m] m(2) by blast
  have put: "put_device d t = al_put ?b (al_put ?k d m) t"
    by (simp add: put_device_def put_at_def m_def)
  have "distinct (map fst n) \<and> (\<forall>e \<in> set n. entry_ok b e)" if "(b, n) \<in> set (put_device d t)" for b n
  proof -
    have "(b, n) = (?b, al_put ?k d m) \<or> (b, n) \<in> set t"
      using that al_put_set [of ?b "al_put ?k d m" t] unfolding put by blast
    then show ?thesis using new m(1) t by (auto simp: table_ok_def)
  qed
  then show ?thesis
    using t by (auto simp: table_ok_def put)
qed

lemma table_ok_erase:
  assumes t: "table_ok t"
  shows "table_ok (erase_device b k t)"
proof (cases "map_of t b")
  case None
  then show ?thesis using t by (simp add: erase_device_def)
next
  case (Some m)
  have "\<forall>(b', m') \<in> set (al_put b (al_del k m) t). distinct (map fst m') \<and> (\<forall>e \<in> set m'. entry_ok b' e)"
    using t table_ok_inner [OF t Some] al_put_set [of b "al_del k m" t]
    unfolding table_ok_def by (auto dest!: subsetD)
  then show ?thesis using t Some by (simp add: table_ok_def erase_device_def)
qed

lemma lookup_put:
  "lookup_device (put_device d t) b k =
     (if b = di_busType (dv_info d) \<and> k = GetDeviceId (dv_info d) then Some d else lookup_device t b k)"
  by (simp add: put_device_def lookup_put_at)

section \<open>Every operation keeps it\<close>

text \<open>What an operation may do to a device: everything but changing its identity and breaking \<open>device_ok\<close>.\<close>

definition evolves :: "device \<Rightarrow> device \<Rightarrow> bool" where
  "evolves d d' \<longleftrightarrow> dv_info d' = dv_info d \<and> (device_ok d \<longrightarrow> device_ok d')"

lemma evolves_refl [simp]: "evolves d d"
  by (simp add: evolves_def)

lemma evolves_trans: "evolves d d' \<Longrightarrow> evolves d' d'' \<Longrightarrow> evolves d d''"
  by (simp add: evolves_def)

lemma evolves_simps [simp]:
  "evolves d (RemoveBundleInfo d)" "evolves d (ClearDrvExtRemote d)" "evolves d (RemoveDriverInfoOfDevice d)"
  "evolves d (UnRegist d)" "evolves d (AddBundleInfo b dr d)" "evolves d (RemoveCaller t d)"
  "evolves d (OnRemoteDied cb d)"
  by (auto simp: evolves_def device_ok_def RemoveBundleInfo_def ClearDrvExtRemote_def
      RemoveDriverInfoOfDevice_def UnRegist_def AddBundleInfo_def RemoveCaller_def OnRemoteDied_def
      UnregisterDrvExtMgrCallback_def length_remove1 Let_def split: option.splits)

lemma evolves_view: "same_client_view d d' \<Longrightarrow> evolves d d'"
  by (simp add: evolves_def device_ok_def same_client_view_def)

lemma RemoveDriverInfo_evolves:
  "RemoveDriverInfo d st = (d', st') \<Longrightarrow> evolves d d' \<and> dm_deviceMap st' = dm_deviceMap st
     \<and> dm_bundleMatchMap st' = dm_bundleMatchMap st"
  by (auto simp: RemoveDriverInfo_def with_world_def split: option.splits if_splits)

lemma UpdateDriverInfo_maps [simp]:
  "dm_deviceMap (UpdateDriverInfo d st) = dm_deviceMap st"
  "dm_bundleMatchMap (UpdateDriverInfo d st) = dm_bundleMatchMap st"
  by (auto simp: UpdateDriverInfo_def with_world_def split: option.splits)

lemma bundles_ok_put: "bundles_ok bm \<Longrightarrow> k \<noteq> [] \<Longrightarrow> ids \<noteq> [] \<Longrightarrow> distinct ids \<Longrightarrow> bundles_ok (al_put k ids bm)"
  using al_put_set [of k ids bm] by (fastforce simp: bundles_ok_def)

lemma bundles_ok_del: "bundles_ok bm \<Longrightarrow> bundles_ok (al_del k bm)"
  by (auto simp: bundles_ok_def)

lemma bundles_ok_get: "bundles_ok bm \<Longrightarrow> map_of bm k = Some ids \<Longrightarrow> k \<noteq> [] \<and> ids \<noteq> [] \<and> distinct ids"
  by (auto simp: bundles_ok_def dest!: map_of_SomeD)

lemma AddDevId_keeps:
  assumes "AddDevIdOfBundleInfoMap E d b st = (r, d', st')"
  shows "evolves d d'" and "dm_deviceMap st' = dm_deviceMap st"
    and "bundles_ok (dm_bundleMatchMap st) \<Longrightarrow> bundles_ok (dm_bundleMatchMap st')"
proof -
  show "evolves d d'" "dm_deviceMap st' = dm_deviceMap st"
    using assms
    by (auto simp: AddDevIdOfBundleInfoMap_def Let_def split: if_splits option.splits prod.splits
        dest!: ConnectDriver_view intro!: evolves_view)
  assume ok: "bundles_ok (dm_bundleMatchMap st)"
  show "bundles_ok (dm_bundleMatchMap st')"
  proof (cases "b = []")
    case True
    then show ?thesis using assms ok by (simp add: AddDevIdOfBundleInfoMap_def)
  next
    case False
    let ?id = "GetDeviceId (dv_info d)"
    have "dm_bundleMatchMap st' =
        (case map_of (dm_bundleMatchMap st) b of None \<Rightarrow> al_put b [?id] (dm_bundleMatchMap st)
         | Some ids \<Rightarrow> al_put b (set_put ?id ids) (dm_bundleMatchMap st))"
      using assms False
      by (auto simp: AddDevIdOfBundleInfoMap_def Let_def split: if_splits option.splits prod.splits)
    then show ?thesis
      using ok False bundles_ok_get [OF ok, of b] by (auto intro!: bundles_ok_put split: option.splits)
  qed
qed

lemma RemoveDevId_keeps:
  assumes "RemoveDevIdOfBundleInfoMap E d b st = (r, d', st')"
  shows "evolves d d'" and "dm_deviceMap st' = dm_deviceMap st"
    and "bundles_ok (dm_bundleMatchMap st) \<Longrightarrow> bundles_ok (dm_bundleMatchMap st')"
proof -
  show "evolves d d'" "dm_deviceMap st' = dm_deviceMap st"
    using assms
    by (auto simp: RemoveDevIdOfBundleInfoMap_def Let_def split: if_splits option.splits prod.splits
        dest!: RemoveDriverInfo_evolves)
  assume ok: "bundles_ok (dm_bundleMatchMap st)"
  have some: "distinct ids \<Longrightarrow> 1 < length ids \<Longrightarrow> removeAll x ids \<noteq> []" for ids :: "u64 list" and x
    by (cases ids; cases "tl ids") (auto split: if_splits)
  show "bundles_ok (dm_bundleMatchMap st')"
    using assms ok bundles_ok_get [OF ok, of b] some
    by (auto simp: RemoveDevIdOfBundleInfoMap_def Let_def split: if_splits option.splits prod.splits
        dest!: RemoveDriverInfo_evolves intro!: bundles_ok_put bundles_ok_del simp: distinct_removeAll)
qed

text \<open>A sweep over the table keeps what its body keeps.\<close>

definition sweeps :: "(u64 \<Rightarrow> device \<Rightarrow> dm_state \<Rightarrow> device \<times> dm_state) \<Rightarrow> bool" where
  "sweeps f \<longleftrightarrow> (\<forall>k d st d' st'. f k d st = (d', st') \<longrightarrow>
     evolves d d' \<and> dm_deviceMap st' = dm_deviceMap st
     \<and> (bundles_ok (dm_bundleMatchMap st) \<longrightarrow> bundles_ok (dm_bundleMatchMap st')))"

lemma sweepsD:
  "sweeps f \<Longrightarrow> f k d st = (d', st') \<Longrightarrow> evolves d d' \<and> dm_deviceMap st' = dm_deviceMap st
     \<and> (bundles_ok (dm_bundleMatchMap st) \<longrightarrow> bundles_ok (dm_bundleMatchMap st'))"
  by (auto simp: sweeps_def)

lemma over_devices_keeps:
  "sweeps f \<Longrightarrow> over_devices f m st = (m', st') \<Longrightarrow>
   map fst m' = map fst m \<and> ((\<forall>e \<in> set m. entry_ok b e) \<longrightarrow> (\<forall>e \<in> set m'. entry_ok b e))
   \<and> (bundles_ok (dm_bundleMatchMap st) \<longrightarrow> bundles_ok (dm_bundleMatchMap st'))"
proof (induction m arbitrary: st m' st')
  case (Cons e m)
  obtain k d where e: "e = (k, d)" by fastforce
  obtain d1 st1 where f: "f k d st = (d1, st1)" by fastforce
  obtain m1 st2 where o: "over_devices f m st1 = (m1, st2)" by fastforce
  have r: "m' = (k, d1) # m1" "st' = st2" using Cons.prems(2) by (simp_all add: e f o)
  have "entry_ok b (k, d) \<longrightarrow> entry_ok b (k, d1)"
    using sweepsD [OF Cons.prems(1) f] by (simp add: entry_ok_def evolves_def)
  then show ?case
    using Cons.IH [OF Cons.prems(1) o] sweepsD [OF Cons.prems(1) f] by (auto simp: r e)
qed simp

lemma over_buses_keeps:
  "sweeps f \<Longrightarrow> over_buses f t st = (t', st') \<Longrightarrow>
   map fst t' = map fst t
   \<and> ((\<forall>(b, m) \<in> set t. distinct (map fst m) \<and> (\<forall>e \<in> set m. entry_ok b e)) \<longrightarrow>
      (\<forall>(b, m) \<in> set t'. distinct (map fst m) \<and> (\<forall>e \<in> set m. entry_ok b e)))
   \<and> (bundles_ok (dm_bundleMatchMap st) \<longrightarrow> bundles_ok (dm_bundleMatchMap st'))"
proof (induction t arbitrary: st t' st')
  case (Cons e t)
  obtain b m where e: "e = (b, m)" by fastforce
  obtain m1 st1 where f: "over_devices f m st = (m1, st1)" by fastforce
  obtain t1 st2 where o: "over_buses f t st1 = (t1, st2)" by fastforce
  have r: "t' = (b, m1) # t1" "st' = st2" using Cons.prems(2) by (simp_all add: e f o)
  show ?case
    using Cons.IH [OF Cons.prems(1) o] over_devices_keeps [OF Cons.prems(1) f, of b] by (auto simp: r e)
qed simp

lemma over_buses_inv:
  assumes "sweeps f" and "over_buses f (dm_deviceMap st) st = (t, st')" and "dm_inv st"
  shows "table_ok t \<and> bundles_ok (dm_bundleMatchMap st')"
  using over_buses_keeps [OF assms(1,2)] assms(3) by (simp add: dm_inv_def table_ok_def)

lemma MatchDevice_sweeps: "sweeps (MatchDevice E query ids)"
proof -
  have "evolves d d' \<and> dm_deviceMap st' = dm_deviceMap st
      \<and> (bundles_ok (dm_bundleMatchMap st) \<longrightarrow> bundles_ok (dm_bundleMatchMap st'))"
    if "MatchDevice E query ids k d st = (d', st')" for k d st d' st'
  proof -
    obtain d1 st1 where d1: "(if k \<in> set ids then RemoveDriverInfo (ClearDrvExtRemote (RemoveBundleInfo d)) st
        else (d, st)) = (d1, st1)" by fastforce
    then have e1: "evolves d d1" "dm_deviceMap st1 = dm_deviceMap st" "dm_bundleMatchMap st1 = dm_bundleMatchMap st"
      using RemoveDriverInfo_evolves [of "ClearDrvExtRemote (RemoveBundleInfo d)" st d1 st1]
      by (auto split: if_splits intro: evolves_trans [OF evolves_trans [OF evolves_simps(1) evolves_simps(2)]])
    show ?thesis
      using that e1
      by (auto simp: MatchDevice_def d1 Let_def split: if_splits option.splits prod.splits
          dest: AddDevId_keeps(2,3) intro: evolves_trans [OF e1(1)] evolves_trans [OF evolves_simps(5) AddDevId_keeps(1)])
  qed
  then show ?thesis unfolding sweeps_def by blast
qed

lemma ClearMatchedDevice_sweeps: "sweeps (ClearMatchedDevice E userId)"
proof -
  have "evolves d d' \<and> dm_deviceMap st' = dm_deviceMap st
      \<and> (bundles_ok (dm_bundleMatchMap st) \<longrightarrow> bundles_ok (dm_bundleMatchMap st'))"
    if "ClearMatchedDevice E userId k d st = (d', st')" for k d st d' st'
    using that evolves_trans [OF evolves_trans [OF evolves_simps(1) evolves_simps(2)], of d d']
    by (auto simp: ClearMatchedDevice_def Let_def split: if_splits option.splits prod.splits
        dest!: RemoveDriverInfo_evolves intro: bundles_ok_del)
  then show ?thesis unfolding sweeps_def by blast
qed


lemma RegisterDevice_inv:
  assumes "RegisterDevice E query info st = (r, st')" and "dm_inv st"
  shows "dm_inv st'"
proof -
  let ?found = "lookup_device (dm_deviceMap st) (di_busType info) (GetDeviceId info)"
  let ?d = "case ?found of None \<Rightarrow> new_device info | Some d \<Rightarrow> d"
  have ok: "device_ok ?d"
    using assms(2) table_ok_lookup(3) [of "dm_deviceMap st"]
    by (auto simp: dm_inv_def device_ok_def new_device_def split: option.splits)
  have put: "table_ok (put_device d (dm_deviceMap st))" if "evolves ?d d" for d
    using that ok assms(2) by (intro table_ok_put) (auto simp: evolves_def dm_inv_def)
  have add: "dm_inv (st2\<lparr>dm_deviceMap := put_device d2 (dm_deviceMap st2)\<rparr>)"
    if "AddDevIdOfBundleInfoMap E d b st1 = (r2, d2, st2)" "evolves ?d d" "dm_deviceMap st1 = put_device d (dm_deviceMap st)"
      "dm_bundleMatchMap st1 = dm_bundleMatchMap st" for d b st1 r2 d2 st2
  proof -
    have "device_ok d2"
      using AddDevId_keeps(1) [OF that(1)] that(2) ok by (simp add: evolves_def)
    then show ?thesis
      using AddDevId_keeps(2,3) [OF that(1)] that(3,4) put [OF that(2)] assms(2)
      by (auto simp: dm_inv_def intro: table_ok_put)
  qed
  show ?thesis
    using assms put add
    by (auto simp: RegisterDevice_def Let_def with_world_def dm_inv_def split: if_splits option.splits prod.splits)
qed

lemma UnLoadSelf_maps [simp]:
  "dm_deviceMap (UnLoadSelf E st) = dm_deviceMap st" "dm_bundleMatchMap (UnLoadSelf E st) = dm_bundleMatchMap st"
  by (simp_all add: UnLoadSelf_def Let_def with_world_def)

lemma UnRegisterDevice_inv:
  assumes "UnRegisterDevice E info st = (r, st')" and "dm_inv st"
  shows "dm_inv st'"
proof (cases "lookup_device (dm_deviceMap st) (di_busType info) (GetDeviceId info)")
  case None
  then show ?thesis using assms by (simp add: UnRegisterDevice_def)
next
  case (Some d)
  have ok: "device_ok d" using table_ok_lookup(3) [OF _ Some] assms(2) by (simp add: dm_inv_def)
  let ?keep = "dv_drvExtRemote d \<noteq> None"
  let ?d = "if ?keep then UnRegist d else d"
  let ?t = "if ?keep then put_device ?d (dm_deviceMap st)
            else erase_device (di_busType info) (GetDeviceId info) (dm_deviceMap st)"
  have d: "device_ok ?d" using ok evolves_simps(4) [of d] by (simp add: evolves_def)
  then have t: "table_ok ?t" using assms(2) by (auto simp: dm_inv_def intro: table_ok_put table_ok_erase)
  obtain r1 d1 st1 where rm: "RemoveDevIdOfBundleInfoMap E ?d (dv_bundleInfo d)
      (UnLoadSelf E (st\<lparr>dm_deviceMap := ?t\<rparr>)) = (r1, d1, st1)"
    using prod_cases3 by blast
  note k = RemoveDevId_keeps [OF rm]
  have "device_ok d1" using k(1) d by (simp add: evolves_def)
  then show ?thesis
    using assms Some t k(2,3) rm
    by (auto simp: UnRegisterDevice_def Let_def dm_inv_def intro: table_ok_put split: if_splits)
qed

lemma DeleteBundles_inv:
  "DeleteBundlesOfBundleInfoMap b st = (ids, st') \<Longrightarrow> dm_inv st \<Longrightarrow> dm_inv st'"
  by (auto simp: DeleteBundlesOfBundleInfoMap_def Let_def dm_inv_def bundles_ok_def distinct_map_filter
      split: if_splits)

lemma MatchDriverInfos_inv: "dm_inv st \<Longrightarrow> dm_inv (MatchDriverInfos E query ids st)"
proof -
  assume inv: "dm_inv st"
  obtain t st' where o: "over_buses (MatchDevice E query ids) (dm_deviceMap st) st = (t, st')" by fastforce
  show ?thesis
    using over_buses_inv [OF MatchDevice_sweeps o inv] by (simp add: MatchDriverInfos_def o dm_inv_def)
qed

lemma ClearMatchedDrivers_inv: "dm_inv st \<Longrightarrow> dm_inv (ClearMatchedDrivers E userId st)"
proof -
  assume inv: "dm_inv st"
  obtain t st' where o: "over_buses (ClearMatchedDevice E userId) (dm_deviceMap st) st = (t, st')" by fastforce
  show ?thesis
    using over_buses_inv [OF ClearMatchedDevice_sweeps o inv]
    by (simp add: ClearMatchedDrivers_def o dm_inv_def bundles_ok_def)
qed

lemma RegisterDrvExtMgrCallback_evolves:
  "RegisterDrvExtMgrCallback E cb d w = (r, d', w') \<Longrightarrow> evolves d d'"
  by (auto simp: RegisterDrvExtMgrCallback_def evolves_def device_ok_def callback_insert Let_def
      split: option.splits if_splits)

text \<open>The parts of a device that only \<open>evolves\<close> looks at.\<close>

lemma evolves_fields:
  "dv_info d' = dv_info d \<Longrightarrow> dv_callbacks d' = dv_callbacks d \<Longrightarrow>
   (distinct (map fst (dv_boundCallerInfos d)) \<Longrightarrow> distinct (map fst (dv_boundCallerInfos d'))) \<Longrightarrow> evolves d d'"
  by (simp add: evolves_def device_ok_def)

lemma ConnectClient_evolves:
  assumes "ConnectClient E cb t d w = Inr (r, d', w')"
  shows "evolves d d'"
proof (cases "dv_drvExtRemote d")
  case (Some rem)
  then obtain c where c: "cb = Some c" using assms by (cases cb) (auto simp: ConnectClient_def)
  obtain r1 d1 w1 where reg: "RegisterDrvExtMgrCallback E cb d
      (emit (CbOnConnect c (GetDeviceId (dv_info d)) (dv_drvExtRemote d) EDM_OK) w) = (r1, d1, w1)"
    using prod_cases3 by blast
  have "evolves d1 d'"
    using assms Some c reg by (auto simp: ConnectClient_def Let_def intro!: evolves_fields split: if_splits)
  then show ?thesis using RegisterDrvExtMgrCallback_evolves [OF reg] evolves_trans by blast
next
  case None
  obtain r1 d1 w1 where reg: "RegisterDrvExtMgrCallback E cb d w = (r1, d1, w1)"
    using prod_cases3 by blast
  have "evolves d1 d'"
    using assms None reg
    by (auto simp: ConnectClient_def Let_def UpdateDrvExtConnNotify_def AddDrvExtConnNotify_def evolves_def
        device_ok_def UnregisterDrvExtMgrCallback_def length_remove1
        split: if_splits prod.splits option.splits)
  then show ?thesis using RegisterDrvExtMgrCallback_evolves [OF reg] evolves_trans by blast
qed

lemma put_inv: "dm_inv st \<Longrightarrow> device_ok d \<Longrightarrow> dm_inv (st\<lparr>dm_world := w, dm_deviceMap := put_device d (dm_deviceMap st)\<rparr>)"
  by (simp add: dm_inv_def table_ok_put)

lemma found_ok: "dm_inv st \<Longrightarrow> QueryDeviceByDeviceID k st = Some d \<Longrightarrow> device_ok d"
  by (auto simp: dm_inv_def QueryDeviceByDeviceID_def intro: table_ok_lookup(3))

lemma ConnectFound_inv:
  "ConnectFound E d t cb st = Inr (r, st') \<Longrightarrow> dm_inv st \<Longrightarrow> device_ok d \<Longrightarrow> dm_inv st'"
  by (auto simp: ConnectFound_def bindE_eq_Inr evolves_def intro!: put_inv dest!: ConnectClient_evolves)

lemma DisConnectFound_inv:
  "DisConnectFound E d dr t st = (r, st') \<Longrightarrow> dm_inv st \<Longrightarrow> device_ok d \<Longrightarrow> dm_inv st'"
  using evolves_simps(6) [of d t]
  by (auto simp: DisConnectFound_def dm_inv_def evolves_def table_ok_put split: if_splits prod.splits)

lemma find_notifier_ok:
  assumes "table_ok t" and "find_notifier n t = Some d"
  shows "device_ok d"
proof -
  have "d \<in> set (all_devices t)"
    using assms(2) by (auto simp: find_notifier_def find_Some_iff in_set_conv_nth)
  then obtain b m k where "(b, m) \<in> set t" "(k, d) \<in> set m"
    by (fastforce simp: all_devices_def)
  then have "entry_ok b (k, d)" using assms(1) by (auto simp: table_ok_def)
  then show ?thesis by (simp add: entry_ok_def)
qed

lemma OnConnect_evolves: "OnConnect rem c d w = (d', w') \<Longrightarrow> evolves d d'"
  by (auto simp: OnConnect_def evolves_def device_ok_def comp_def case_prod_beta)

lemma OnDisconnect_evolves: "OnDisconnect c d w = (d', w') \<Longrightarrow> evolves d d'"
  by (auto simp: OnDisconnect_def evolves_def device_ok_def ClearBoundCallerInfos_def Let_def)

lemma OnConnectDone_inv: "OnConnectDone n rem c st = (r, st') \<Longrightarrow> dm_inv st \<Longrightarrow> dm_inv st'"
  using find_notifier_ok [of "dm_deviceMap st" n]
  by (auto simp: OnConnectDone_def evolves_def dm_inv_def intro!: table_ok_put
      dest!: OnConnect_evolves split: option.splits prod.splits)

lemma OnDisconnectDone_inv:
  assumes "OnDisconnectDone E n c st = (r, st')" and "dm_inv st"
  shows "dm_inv st'"
proof (cases "find_notifier n (dm_deviceMap st)")
  case None
  then show ?thesis using assms by (simp add: OnDisconnectDone_def)
next
  case (Some d)
  obtain d1 w1 where o: "OnDisconnect c d (dm_world st) = (d1, w1)" by fastforce
  have "device_ok d1"
    using OnDisconnect_evolves [OF o] find_notifier_ok [OF _ Some] assms(2) by (simp add: dm_inv_def evolves_def)
  then show ?thesis
    using assms Some o
    by (auto simp: OnDisconnectDone_def Let_def dm_inv_def RemoveDeviceOfDeviceMap_def
        intro!: table_ok_put table_ok_erase split: prod.splits if_splits)
qed

lemma with_dm_world_inv [simp]: "dm_inv (st\<lparr>dm_world := w\<rparr>) = dm_inv st"
  by (simp add: dm_inv_def)

section \<open>Reachable states\<close>

text \<open>One step per entry point. The matcher is free in each step, since the package database changes.\<close>

inductive dm_step :: "env \<Rightarrow> dm_state \<Rightarrow> dm_state \<Rightarrow> bool" for E where
  Register: "RegisterDevice E query info st = (r, st') \<Longrightarrow> dm_step E st st'"
| UnRegister: "UnRegisterDevice E info st = (r, st') \<Longrightarrow> dm_step E st st'"
| Connect: "ConnectDevice E k t cb st = Inr (r, st') \<Longrightarrow> dm_step E st st'"
| DisConnect: "DisConnectDevice E k t st = (r, st') \<Longrightarrow> dm_step E st st'"
| ConnectDriver: "ConnectDriverWithDeviceId E k t apps cb st = Inr (r, st') \<Longrightarrow> dm_step E st st'"
| DisConnectDriver: "DisConnectDriverWithDeviceId E k t st = (r, st') \<Longrightarrow> dm_step E st st'"
| BundlesUpdated: "st' = OnBundlesUpdated E query b st \<Longrightarrow> dm_step E st st'"
| BundlesReseted: "st' = OnBundlesReseted E userId st \<Longrightarrow> dm_step E st st'"
| SetCallback: "st' = SetDriverChangeCallback b st \<Longrightarrow> dm_step E st st'"
| Connected: "st' = AbilityConnected c rem code st \<Longrightarrow> dm_step E st st'"
| Disconnected: "st' = AbilityDisconnected E c code st \<Longrightarrow> dm_step E st st'"
| Died: "st' = ClientDied k cb st \<Longrightarrow> dm_step E st st'"

inductive dm_reachable :: "env \<Rightarrow> dm_state \<Rightarrow> bool" for E where
  Init: "dm_reachable E dm_init"
| Step: "dm_reachable E st \<Longrightarrow> dm_step E st st' \<Longrightarrow> dm_reachable E st'"

lemma dm_step_inv: "dm_step E st st' \<Longrightarrow> dm_inv st \<Longrightarrow> dm_inv st'"
proof (induction rule: dm_step.induct)
  case (Register query info st r st')
  then show ?case by (rule RegisterDevice_inv)
next
  case (UnRegister info st r st')
  then show ?case by (rule UnRegisterDevice_inv)
next
  case (Connect k t cb st r st')
  then show ?case by (auto simp: ConnectDevice_def dest: found_ok ConnectFound_inv split: option.splits)
next
  case (DisConnect k t st r st')
  then show ?case by (auto simp: DisConnectDevice_def dest: found_ok DisConnectFound_inv split: option.splits)
next
  case (ConnectDriver k t apps cb st r st')
  then show ?case
    by (auto simp: ConnectDriverWithDeviceId_def Let_def dest: found_ok ConnectFound_inv
        split: option.splits if_splits)
next
  case (DisConnectDriver k t st r st')
  then show ?case
    by (auto simp: DisConnectDriverWithDeviceId_def dest: found_ok DisConnectFound_inv
        split: option.splits if_splits)
next
  case (BundlesUpdated st' query b st)
  then show ?case
    by (auto simp: OnBundlesUpdated_def dest: DeleteBundles_inv intro: MatchDriverInfos_inv split: prod.splits)
next
  case (BundlesReseted st' userId st)
  then show ?case by (simp add: OnBundlesReseted_def ClearMatchedDrivers_inv)
next
  case (SetCallback st' b st)
  then show ?case by (simp add: SetDriverChangeCallback_def dm_inv_def)
next
  case (Connected st' c rem code st)
  then show ?case
    by (auto simp: AbilityConnected_def Let_def split: prod.splits option.splits
        intro!: OnConnectDone_inv [OF surjective_pairing])
next
  case (Disconnected st' c code st)
  then show ?case
    by (auto simp: AbilityDisconnected_def Let_def split: prod.splits option.splits
        intro!: OnDisconnectDone_inv [OF surjective_pairing])
next
  case (Died st' k cb st)
  then show ?case
    using evolves_simps(7) found_ok [of st k]
    by (auto simp: ClientDied_def dm_inv_def evolves_def intro!: table_ok_put split: option.splits)
qed

lemma reachable_inv: "dm_reachable E st \<Longrightarrow> dm_inv st"
  by (induction rule: dm_reachable.induct) (auto intro: dm_init_inv dm_step_inv)

end
