(* ===== verification/Device_Mgr_Claims.thy ===== *)
theory Device_Mgr_Claims
  imports Device_Mgr_Props
begin

text \<open>
  The properties of the device manager, on the invariant of Device_Mgr_Props, and a small
  environment in which the witnesses run it.
\<close>

section \<open>An environment where every service answers\<close>

definition ok_env :: env where
  "ok_env =
     \<lparr> e_amc = \<lambda>_. True, e_start = \<lambda>_ _ _. 0, e_stop = \<lambda>_ _ _ _. 0, e_connect = \<lambda>_ _ _ _ _. 0,
       e_disconnect = \<lambda>_ _. 0, e_death = \<lambda>_ _. True, e_timer_setup = \<lambda>_. 0, e_timer_register = \<lambda>_. 7,
       e_samgr = \<lambda>_. True, e_bms_sa = \<lambda>_. True, e_bms = \<lambda>_. True,
       e_provision = \<lambda>_ b _. (0, b), e_hap_token = \<lambda>_ t. if t = 5 then Some (''app'', 100) else None \<rparr>"

definition a_device :: device_info where
  "a_device = \<lparr>di_busType = 1, di_busDeviceId = 3, di_description = [], di_usb = None\<rparr>"

definition a_driver :: "bool \<Rightarrow> driver_info" where
  "a_driver launchOnBind =
     (new_driver_info ''drv'' ''Ability'' [] 100)\<lparr>dr_launchOnBind := launchOnBind, dr_accessAllowed := True\<rparr>"

definition registered :: "bool \<Rightarrow> dm_state" where
  "registered launchOnBind =
     snd (RegisterDevice ok_env (\<lambda>_. Some (a_driver launchOnBind)) a_device (SetDriverChangeCallback True dm_init))"

lemma registered_reachable: "dm_reachable ok_env (registered b)"
  unfolding registered_def
  by (rule dm_reachable.Step [OF dm_reachable.Step [OF dm_reachable.Init dm_step.SetCallback [OF refl]]
        dm_step.Register [OF surjective_pairing]])

text \<open>The same device with its driver connected, and then unplugged.\<close>

definition connected :: dm_state where
  "connected = AbilityConnected 1 (Some 9) 0 (registered False)"

definition unplugged :: dm_state where
  "unplugged = snd (UnRegisterDevice ok_env a_device connected)"

lemma connected_reachable: "dm_reachable ok_env connected"
  unfolding connected_def by (rule dm_reachable.Step [OF registered_reachable dm_step.Connected [OF refl]])

lemma unplugged_reachable: "dm_reachable ok_env unplugged"
  unfolding unplugged_def
  by (rule dm_reachable.Step [OF connected_reachable dm_step.UnRegister [OF surjective_pairing]])

section \<open>Invariant\<close>

text \<open>
  C4: in every state the device manager can reach, each device is filed under its own bus and
  its own number, no key occurs twice, every entry of the matching table has a name and at least
  one device and no device twice, and no device holds more than one client callback.
\<close>

theorem device_manager_invariant:
  assumes "dm_reachable E st"
  shows "table_ok (dm_deviceMap st) \<and> bundles_ok (dm_bundleMatchMap st)"
  using reachable_inv [OF assms] by (simp add: dm_inv_def)

theorem device_manager_invariant_witness:
  "table_ok (dm_deviceMap unplugged) \<and> bundles_ok (dm_bundleMatchMap unplugged)"
  by (rule device_manager_invariant [OF unplugged_reachable])

section \<open>Devices and queries\<close>

lemma QueryDevice_lookup:
  assumes "table_ok t" and "lookup_device t b k = Some d" and "dm_deviceMap st = t" and "\<not> dv_isUnRegisted d"
  shows "dv_info d \<in> set (QueryDevice b st)"
  using assms by (force simp: lookup_device_def QueryDevice_def dest: map_of_SomeD split: option.splits)

lemma QueryDevice_from:
  assumes "table_ok (dm_deviceMap st)" and "i \<in> set (QueryDevice b st)"
  shows "\<exists>d. lookup_device (dm_deviceMap st) b (GetDeviceId i) = Some d \<and> dv_info d = i \<and> \<not> dv_isUnRegisted d"
proof -
  obtain m k d where m: "map_of (dm_deviceMap st) b = Some m" "(k, d) \<in> set m" "i = dv_info d" "\<not> dv_isUnRegisted d"
    using assms(2) by (force simp: QueryDevice_def split: option.splits)
  have ok: "distinct (map fst m)" "entry_ok b (k, d)"
    using table_ok_inner [OF assms(1) m(1)] m(2) by auto
  then have "map_of m (GetDeviceId i) = Some d" using m(2,3) by (simp add: entry_ok_def)
  then show ?thesis using m by (auto simp: lookup_device_def)
qed

lemma QueryDevicesById_from:
  assumes "table_ok (dm_deviceMap st)" and "d \<in> set (QueryDevicesById k st)"
  shows "QueryDeviceByDeviceID k st = Some d \<and> \<not> dv_isUnRegisted d"
proof -
  obtain b m where m: "(b, m) \<in> set (dm_deviceMap st)" "(k, d) \<in> set m" "\<not> dv_isUnRegisted d"
    using assms(2) by (fastforce simp: QueryDevicesById_def)
  have b: "map_of (dm_deviceMap st) b = Some m"
    using m(1) assms(1) by (auto simp: table_ok_def)
  have ok: "distinct (map fst m)" "entry_ok b (k, d)"
    using table_ok_inner [OF assms(1) b] m(2) by auto
  then have "bus_of_device_id k = b" "map_of m k = Some d"
    using m(2) by (simp_all add: entry_ok_def)
  then show ?thesis using b m(3) by (simp add: QueryDeviceByDeviceID_def lookup_device_def)
qed

lemma AddDevId_unregisted:
  "AddDevIdOfBundleInfoMap E d b st = (r, d', st') \<Longrightarrow> dv_isUnRegisted d' = dv_isUnRegisted d"
  by (auto simp: AddDevIdOfBundleInfoMap_def same_client_view_def Let_def split: if_splits option.splits prod.splits
      dest!: ConnectDriver_view)

lemma RegisterDevice_table:
  assumes "RegisterDevice E query info st = (r, st')"
    and new: "lookup_device (dm_deviceMap st) (di_busType info) (GetDeviceId info) = None"
  shows "\<exists>d. dv_info d = info \<and> \<not> dv_isUnRegisted d
    \<and> (\<forall>b k. lookup_device (dm_deviceMap st') b k =
         (if b = di_busType info \<and> k = GetDeviceId info then Some d else lookup_device (dm_deviceMap st) b k))"
proof -
  have d0: "dv_info (new_device info) = info" "\<not> dv_isUnRegisted (new_device info)" "dv_bundleInfo (new_device info) = []"
    by (simp_all add: new_device_def)
  have add: "dv_info (AddBundleInfo b (Some dr) (new_device info)) = info"
    "\<not> dv_isUnRegisted (AddBundleInfo b (Some dr) (new_device info))" for b dr
    by (simp_all add: AddBundleInfo_def new_device_def)
  have step: "dv_info d2 = info \<and> \<not> dv_isUnRegisted d2"
    if "AddDevIdOfBundleInfoMap E (AddBundleInfo b (Some dr) (new_device info)) b' st1 = (r2, d2, st2)" for b dr b' st1 r2 d2 st2
    using AddDevId_keeps(1) [OF that] AddDevId_unregisted [OF that] add by (simp add: evolves_def)
  have two: "lookup_device (put_device d2 (put_device d1 t)) b k =
      (if b = di_busType info \<and> k = GetDeviceId info then Some d2 else lookup_device t b k)"
    if "dv_info d1 = info" "dv_info d2 = info" for d1 d2 t b k
    using that by (simp add: lookup_put)
  show ?thesis
  proof (cases "query info")
    case None
    then show ?thesis
      using assms d0 by (intro exI [of _ "new_device info"]) (auto simp: RegisterDevice_def Let_def with_world_def lookup_put)
  next
    case (Some dr)
    define b where "b = dr_bundleName dr @ stiching @ dr_driverName dr"
    have b: "b \<noteq> []" by (simp add: b_def stiching_def)
    define d1 where "d1 = AddBundleInfo b (Some dr) (new_device info)"
    define st1 where "st1 = with_world (emit (TimerUnregister (dm_unloadSelftimerId st)))
      (st\<lparr>dm_deviceMap := put_device d1 (dm_deviceMap st)\<rparr>)"
    obtain r2 d2 st2 where a: "AddDevIdOfBundleInfoMap E d1 b st1 = (r2, d2, st2)"
      using prod_cases3 by blast
    have "dm_deviceMap st' = put_device d2 (dm_deviceMap st2)"
      using assms Some b a d0
      by (auto simp: RegisterDevice_def Let_def d1_def [symmetric] b_def [symmetric] st1_def [symmetric] split: if_splits)
    moreover have "dm_deviceMap st2 = put_device d1 (dm_deviceMap st)"
      using AddDevId_keeps(2) [OF a] by (simp add: st1_def with_world_def)
    moreover have i1: "dv_info d1 = info" using add(1) by (simp add: d1_def)
    moreover have i2: "dv_info d2 = info" "\<not> dv_isUnRegisted d2"
      using step [of b dr b st1 r2 d2 st2] a by (simp_all add: d1_def)
    ultimately show ?thesis
      by (intro exI [of _ d2]) (simp add: two [OF i1 i2(1)])
  qed
qed

text \<open>
  a device that was not known is, after RegisterDevice, found under its number and listed for
  its bus, with exactly the information that was registered; no other device changes.
\<close>

theorem register_makes_visible:
  assumes "dm_reachable E st" and "RegisterDevice E query info st = (r, st')"
    and "QueryDeviceByDeviceID (GetDeviceId info) st = None"
  shows "(\<exists>d. QueryDeviceByDeviceID (GetDeviceId info) st' = Some d \<and> dv_info d = info)
    \<and> info \<in> set (QueryDevice (di_busType info) st')
    \<and> (\<forall>k. k \<noteq> GetDeviceId info \<longrightarrow> QueryDeviceByDeviceID k st' = QueryDeviceByDeviceID k st)"
proof -
  have new: "lookup_device (dm_deviceMap st) (di_busType info) (GetDeviceId info) = None"
    using assms(3) by (simp add: QueryDeviceByDeviceID_def)
  obtain d where d: "dv_info d = info" "\<not> dv_isUnRegisted d"
    "\<And>b k. lookup_device (dm_deviceMap st') b k =
       (if b = di_busType info \<and> k = GetDeviceId info then Some d else lookup_device (dm_deviceMap st) b k)"
    using RegisterDevice_table [OF assms(2) new] by blast
  have "table_ok (dm_deviceMap st')"
    using RegisterDevice_inv [OF assms(2) reachable_inv [OF assms(1)]] by (simp add: dm_inv_def)
  then have "info \<in> set (QueryDevice (di_busType info) st')"
    using QueryDevice_lookup [of "dm_deviceMap st'" "di_busType info" "GetDeviceId info" d st'] d by simp
  then show ?thesis using d by (simp add: QueryDeviceByDeviceID_def)
qed

theorem register_makes_visible_witness:
  "a_device \<in> set (QueryDevice 1 (snd (RegisterDevice ok_env (\<lambda>_. Some (a_driver True)) a_device dm_init)))"
  using register_makes_visible [OF dm_reachable.Init surjective_pairing, of a_device ok_env "\<lambda>_. Some (a_driver True)"]
  by (simp add: a_device_def QueryDeviceByDeviceID_def dm_init_def lookup_device_def)

lemma UnRegisterDevice_table:
  assumes "UnRegisterDevice E info st = (r, st')" and ok: "table_ok (dm_deviceMap st)"
  shows "(\<forall>d. lookup_device (dm_deviceMap st') (di_busType info) (GetDeviceId info) = Some d \<longrightarrow> dv_isUnRegisted d)
    \<and> (\<forall>b k. b \<noteq> di_busType info \<or> k \<noteq> GetDeviceId info \<longrightarrow>
         lookup_device (dm_deviceMap st') b k = lookup_device (dm_deviceMap st) b k)"
proof (cases "lookup_device (dm_deviceMap st) (di_busType info) (GetDeviceId info)")
  case None
  then show ?thesis using assms(1) by (simp add: UnRegisterDevice_def)
next
  case (Some d)
  note id = table_ok_lookup(1,2) [OF ok Some]
  let ?keep = "dv_drvExtRemote d \<noteq> None"
  let ?d = "if ?keep then UnRegist d else d"
  let ?t = "if ?keep then put_device ?d (dm_deviceMap st)
            else erase_device (di_busType info) (GetDeviceId info) (dm_deviceMap st)"
  obtain r1 d1 st1 where rm: "RemoveDevIdOfBundleInfoMap E ?d (dv_bundleInfo d)
      (UnLoadSelf E (st\<lparr>dm_deviceMap := ?t\<rparr>)) = (r1, d1, st1)"
    using prod_cases3 by blast
  have ud: "dv_info (UnRegist d) = dv_info d" "dv_isUnRegisted (UnRegist d)" by (simp_all add: UnRegist_def)
  have d1: "dv_info d1 = dv_info d" using RemoveDevId_keeps(1) [OF rm] ud by (simp add: evolves_def split: if_splits)
  have u1: "?keep \<Longrightarrow> dv_isUnRegisted d1"
    using rm ud(2) by (auto simp: RemoveDevIdOfBundleInfoMap_def RemoveDriverInfo_def RemoveDriverInfoOfDevice_def Let_def
        split: if_splits option.splits prod.splits)
  have "dm_deviceMap st' = ?t \<or> (?keep \<and> dm_deviceMap st' = put_device d1 ?t)"
    using assms(1) Some rm RemoveDevId_keeps(2) [OF rm]
    by (auto simp: UnRegisterDevice_def Let_def split: if_splits)
  then show ?thesis
    using id d1 u1 ud by (auto simp: lookup_put lookup_erase split: if_splits)
qed

text \<open>
  after UnRegisterDevice no query shows the device any more, whether its driver is still
  connected (then the entry stays, marked) or not (then it is gone); no other device changes.
\<close>

theorem unregister_hides:
  assumes "dm_reachable E st" and "UnRegisterDevice E info st = (r, st')"
  shows "QueryDevicesById (GetDeviceId info) st' = []
    \<and> info \<notin> set (QueryDevice (di_busType info) st')
    \<and> (\<forall>k. k \<noteq> GetDeviceId info \<longrightarrow> QueryDeviceByDeviceID k st' = QueryDeviceByDeviceID k st)"
proof -
  have inv: "dm_inv st" by (rule reachable_inv [OF assms(1)])
  then have ok: "table_ok (dm_deviceMap st)" by (simp add: dm_inv_def)
  have ok': "table_ok (dm_deviceMap st')" using UnRegisterDevice_inv [OF assms(2) inv] by (simp add: dm_inv_def)
  note t = UnRegisterDevice_table [OF assms(2) ok]
  have "QueryDevicesById (GetDeviceId info) st' = []"
  proof (cases "QueryDevicesById (GetDeviceId info) st'")
    case (Cons d ds)
    then have "QueryDeviceByDeviceID (GetDeviceId info) st' = Some d \<and> \<not> dv_isUnRegisted d"
      using QueryDevicesById_from [OF ok', of d "GetDeviceId info"] by simp
    with t show ?thesis by (simp add: QueryDeviceByDeviceID_def)
  qed
  moreover have "info \<notin> set (QueryDevice (di_busType info) st')"
    using QueryDevice_from [OF ok'] t by blast
  ultimately show ?thesis using t by (simp add: QueryDeviceByDeviceID_def)
qed

theorem unregister_hides_witness: "QueryDevicesById (GetDeviceId a_device) unplugged = []"
  using unregister_hides [OF connected_reachable surjective_pairing, of a_device] by (simp add: unplugged_def)

text \<open>
  a device that was unplugged while its driver was still connected cannot be brought back:
  RegisterDevice reports success and changes nothing, so the device stays hidden from every query.
\<close>

theorem replugged_device_stays_hidden:
  assumes "dm_reachable E st" and "QueryDeviceByDeviceID (GetDeviceId info) st = Some d"
    and "dv_isUnRegisted d" and "dv_drvExtRemote d \<noteq> None"
  shows "RegisterDevice E query info st = (EDM_OK, st) \<and> QueryDevicesById (GetDeviceId info) st = []"
proof -
  have ok: "table_ok (dm_deviceMap st)" using reachable_inv [OF assms(1)] by (simp add: dm_inv_def)
  have "QueryDevicesById (GetDeviceId info) st = []"
  proof (cases "QueryDevicesById (GetDeviceId info) st")
    case (Cons d' ds)
    then show ?thesis using QueryDevicesById_from [OF ok, of d' "GetDeviceId info"] assms(2,3) by simp
  qed
  moreover have "RegisterDevice E query info st = (EDM_OK, st)"
    using assms(2,4) by (simp add: RegisterDevice_def QueryDeviceByDeviceID_def Let_def)
  ultimately show ?thesis by blast
qed

lemma unplugged_device:
  "\<exists>d. QueryDeviceByDeviceID (GetDeviceId a_device) unplugged = Some d \<and> dv_isUnRegisted d \<and> dv_drvExtRemote d \<noteq> None"
proof -
  have "(case QueryDeviceByDeviceID (GetDeviceId a_device) unplugged of None \<Rightarrow> False
      | Some d \<Rightarrow> dv_isUnRegisted d \<and> dv_drvExtRemote d = Some 9)"
    by code_simp
  then show ?thesis by (auto split: option.splits)
qed

theorem replugged_device_stays_hidden_witness:
  "RegisterDevice ok_env (\<lambda>_. Some (a_driver False)) a_device unplugged = (EDM_OK, unplugged)
   \<and> QueryDevicesById (GetDeviceId a_device) unplugged = []"
  using unplugged_device replugged_device_stays_hidden [OF unplugged_reachable] by blast

section \<open>Clients\<close>

text \<open>When a caller may bind: the driver admits callers, and the caller is the driver's own
  application or lists the driver's application identifier in its permission.\<close>

definition may_bind :: "env \<Rightarrow> trace \<Rightarrow> driver_info \<Rightarrow> string list \<Rightarrow> u32 \<Rightarrow> bool" where
  "may_bind E tr dr accessibleAppIds callingTokenId \<longleftrightarrow>
     dr_accessAllowed dr \<and> e_samgr E tr \<and> e_bms_sa E tr \<and> e_bms E tr
     \<and> (\<exists>appId. e_provision E tr (dr_bundleName dr) (dr_userId dr) = (0, appId)
          \<and> (appId \<in> set accessibleAppIds
             \<or> (\<exists>b u. e_hap_token E tr callingTokenId = Some (b, u) \<and> e_provision E tr b u = (0, appId))))"

lemma CheckAccessPermission_iff:
  "CheckAccessPermission E tr driverInfo apps t = EDM_OK \<longleftrightarrow> (\<exists>dr. driverInfo = Some dr \<and> may_bind E tr dr apps t)"
  by (auto simp: CheckAccessPermission_def may_bind_def IsCallerMatchDriverApp_def Let_def
      split: option.splits prod.splits if_splits)

text \<open>
  C5: ConnectDriverWithDeviceId does nothing at all for a caller that may not bind: unless the
  device has a driver and may_bind holds of it, the result is an error and the state, with
  everything that was sent to the services, is unchanged.
\<close>

theorem bind_needs_permission:
  assumes "\<nexists>d dr. QueryDeviceByDeviceID deviceId st = Some d \<and> dv_driverInfo d = Some dr
      \<and> may_bind E (w_trace (dm_world st)) dr accessibleAppIds callingTokenId"
  shows "\<exists>e. e \<noteq> EDM_OK
    \<and> ConnectDriverWithDeviceId E deviceId callingTokenId accessibleAppIds connectCallback st = Inr (e, st)"
proof (cases "QueryDeviceByDeviceID deviceId st")
  case None
  then show ?thesis by (simp add: ConnectDriverWithDeviceId_def)
next
  case (Some d)
  then have "CheckAccessPermission E (w_trace (dm_world st)) (dv_driverInfo d) accessibleAppIds callingTokenId \<noteq> EDM_OK"
    using assms CheckAccessPermission_iff by blast
  with Some show ?thesis by (simp add: ConnectDriverWithDeviceId_def Let_def)
qed

lemma stranger_may_not_bind:
  "\<nexists>d dr. QueryDeviceByDeviceID (GetDeviceId a_device) connected = Some d \<and> dv_driverInfo d = Some dr
      \<and> may_bind ok_env (w_trace (dm_world connected)) dr [''other''] 5"
proof -
  have "(case QueryDeviceByDeviceID (GetDeviceId a_device) connected of None \<Rightarrow> False
      | Some d \<Rightarrow> (case dv_driverInfo d of None \<Rightarrow> False | Some dr \<Rightarrow> dr_bundleName dr = ''drv''))"
    by code_simp
  then show ?thesis by (auto simp: may_bind_def ok_env_def split: option.splits)
qed

theorem bind_needs_permission_witness:
  "\<exists>e. e \<noteq> EDM_OK
    \<and> ConnectDriverWithDeviceId ok_env (GetDeviceId a_device) 5 [''other''] (Some 4) connected = Inr (e, connected)"
  by (rule bind_needs_permission [OF stranger_may_not_bind])

text \<open>
  DisConnectDriverWithDeviceId refuses a caller that is not bound to the device and changes
  nothing.
\<close>

theorem unbind_needs_binding:
  assumes "QueryDeviceByDeviceID deviceId st = Some d" and "callingTokenId \<notin> fst ` set (dv_boundCallerInfos d)"
  shows "DisConnectDriverWithDeviceId E deviceId callingTokenId st = (EDM_ERR_SERVICE_NOT_BOUND, st)"
  using assms by (auto simp: DisConnectDriverWithDeviceId_def IsBindCaller_def map_of_eq_None_iff image_iff)

definition bound :: dm_state where
  "bound = (case ConnectDriverWithDeviceId ok_env (GetDeviceId a_device) 5 [''drv''] (Some 4) (registered True) of
     Inl _ \<Rightarrow> registered True | Inr (_, st) \<Rightarrow> st)"

lemma bound_device:
  "\<exists>d. QueryDeviceByDeviceID (GetDeviceId a_device) bound = Some d \<and> map fst (dv_boundCallerInfos d) = [5]"
proof -
  have "(case QueryDeviceByDeviceID (GetDeviceId a_device) bound of None \<Rightarrow> False
      | Some d \<Rightarrow> map fst (dv_boundCallerInfos d) = [5])"
    by code_simp
  then show ?thesis by (auto split: option.splits)
qed

theorem unbind_needs_binding_witness:
  "DisConnectDriverWithDeviceId ok_env (GetDeviceId a_device) 6 bound = (EDM_ERR_SERVICE_NOT_BOUND, bound)"
proof -
  obtain d where d: "QueryDeviceByDeviceID (GetDeviceId a_device) bound = Some d" "map fst (dv_boundCallerInfos d) = [5]"
    using bound_device by (elim exE conjE) (rule that)
  have "6 \<notin> fst ` set (dv_boundCallerInfos d)"
  proof -
    have "set (map fst (dv_boundCallerInfos d)) = {5}" by (simp only: d(2)) simp
    then show ?thesis by (simp only: set_map) simp
  qed
  then show ?thesis by (rule unbind_needs_binding [OF d(1)])
qed

text \<open>
  C7: a client's disconnect reaches the driver extension only when the driver is launched on
  bind and the caller is the only one bound: otherwise nothing is sent to the ability manager,
  and the caller is only removed.
\<close>

theorem disconnect_only_for_last_caller:
  assumes "DisConnectDriverWithDeviceId E deviceId callingTokenId st = (r, st')"
    and "w_trace (dm_world st') \<noteq> w_trace (dm_world st)"
  shows "\<exists>d dr b. QueryDeviceByDeviceID deviceId st = Some d \<and> dv_driverInfo d = Some dr \<and> dr_launchOnBind dr
    \<and> dv_boundCallerInfos d = [(callingTokenId, b)]"
proof -
  obtain d where d: "QueryDeviceByDeviceID deviceId st = Some d"
    using assms by (auto simp: DisConnectDriverWithDeviceId_def split: option.splits)
  have b: "IsBindCaller callingTokenId d" using assms d by (auto simp: DisConnectDriverWithDeviceId_def split: if_splits)
  obtain dr where dr: "dv_driverInfo d = Some dr"
    using assms d b by (auto simp: DisConnectDriverWithDeviceId_def split: option.splits if_splits)
  have l: "dr_launchOnBind dr" "IsLastCaller callingTokenId d"
    using assms d b dr by (auto simp: DisConnectDriverWithDeviceId_def DisConnectFound_def split: if_splits)
  then obtain e where "dv_boundCallerInfos d = [e]"
    by (cases "dv_boundCallerInfos d"; cases "tl (dv_boundCallerInfos d)") (auto simp: IsLastCaller_def split: if_splits)
  then have "\<exists>b. dv_boundCallerInfos d = [(callingTokenId, b)]"
    using l(2) by (cases e) (auto simp: IsLastCaller_def split: if_splits)
  with d dr l(1) show ?thesis by blast
qed

lemma last_caller_sends:
  "w_trace (dm_world (snd (DisConnectDriverWithDeviceId ok_env (GetDeviceId a_device) 5 bound)))
     = w_trace (dm_world bound) @ [DisconnectAbility 1]"
  by code_simp

theorem disconnect_only_for_last_caller_witness:
  "\<exists>d dr b. QueryDeviceByDeviceID (GetDeviceId a_device) bound = Some d \<and> dv_driverInfo d = Some dr \<and> dr_launchOnBind dr
    \<and> dv_boundCallerInfos d = [(5, b)]"
  by (rule disconnect_only_for_last_caller [where E = ok_env, OF surjective_pairing])
     (simp only: last_caller_sends, simp)

text \<open>
  a second client of the same driver is never told anything: while one callback is
  registered, connecting with another one succeeds, but the set keeps the first alone, so the
  later reports of the driver go to it only.
\<close>

theorem second_callback_dropped:
  assumes "dv_callbacks d = [first]" and "dv_drvExtRemote d = None"
    and "ConnectClient E (Some second) token d w = Inr (EDM_OK, d', w')"
  shows "dv_callbacks d' = [first]
    \<and> w_trace (snd (OnConnect remote code d' w'))
        = w_trace w' @ [CbOnConnect first (GetDeviceId (dv_info d')) remote (of_ext code)]"
proof -
  obtain r1 d1 w1 where reg: "RegisterDrvExtMgrCallback E (Some second) d w = (r1, d1, w1)"
    using prod_cases3 by blast
  have "dv_callbacks d1 = [first]"
    using reg assms(1) by (auto simp: RegisterDrvExtMgrCallback_def callback_insert Let_def split: if_splits)
  then have "dv_callbacks d' = [first]"
    using assms(2,3) reg
    by (auto simp: ConnectClient_def Let_def UpdateDrvExtConnNotify_def AddDrvExtConnNotify_def
        split: if_splits prod.splits)
  then show ?thesis by (simp add: OnConnect_def emit_all_def)
qed

definition first_bound :: "device \<times> world" where
  "first_bound =
     (case ConnectClient ok_env (Some 4) 5 (new_device a_device) (dm_world dm_init) of
        Inl _ \<Rightarrow> (new_device a_device, dm_world dm_init) | Inr (_, d, w) \<Rightarrow> (d, w))"

definition twice_bound :: "(UsbErrCode \<times> device \<times> world) res" where
  "twice_bound = ConnectClient ok_env (Some 8) 6 (fst first_bound) (snd first_bound)"

theorem second_callback_dropped_witness:
  "\<exists>d w. twice_bound = Inr (EDM_OK, d, w) \<and> dv_callbacks d = [4]"
proof -
  have d1: "dv_callbacks (fst first_bound) = [4]" "dv_drvExtRemote (fst first_bound) = None"
    by code_simp+
  have "(case twice_bound of Inl _ \<Rightarrow> False | Inr (r, d, w) \<Rightarrow> r = EDM_OK)" by code_simp
  then obtain d w where dw: "twice_bound = Inr (EDM_OK, d, w)" by (auto split: sum.splits)
  then have "dv_callbacks d = [4]"
    using second_callback_dropped [OF d1, of ok_env 8 6 "snd first_bound" d w None 0] by (simp add: twice_bound_def)
  with dw show ?thesis by blast
qed

section \<open>Drivers\<close>

lemma UpdateDriverInfo_attempts [simp]:
  "attempts (w_trace (dm_world (UpdateDriverInfo d st))) = attempts (w_trace (dm_world st))"
  by (auto simp: UpdateDriverInfo_def with_world_def attempts_def split: option.splits)

lemma AddDevId_attempts:
  assumes "AddDevIdOfBundleInfoMap E d b st = (r, d', st')"
  shows "attempts (w_trace (dm_world st')) \<le> attempts (w_trace (dm_world st)) + 31"
  using assms
  by (auto simp: AddDevIdOfBundleInfoMap_def Let_def split: if_splits option.splits prod.splits
      dest!: ConnectDriver_attempts)

text \<open>
  registering a device asks the ability manager to connect the driver at most 31 times, the
  first attempt and thirty retries, whatever the ability manager answers.
\<close>

theorem register_bounded_attempts:
  "attempts (w_trace (dm_world (snd (RegisterDevice E query info st)))) \<le> attempts (w_trace (dm_world st)) + 31"
proof -
  obtain r st' where reg: "RegisterDevice E query info st = (r, st')" by fastforce
  have ev: "attempts [TimerUnregister x] = 0" for x
    by (simp add: attempts_def)
  have "attempts (w_trace (dm_world st')) \<le> attempts (w_trace (dm_world st)) + 31"
    using reg
    by (auto simp: RegisterDevice_def Let_def with_world_def ev split: if_splits option.splits prod.splits
        dest!: AddDevId_attempts)
  then show ?thesis by (simp add: reg)
qed

text \<open>
  unplugging a device whose driver is launched on bind and was never bound fails: the
  notifier does not exist yet, so UnRegisterDevice returns EDM_ERR_INVALID_PARAM and the driver
  change callback is never told that the driver it was told about has gone.
\<close>

theorem unplug_unbound_driver_fails:
  assumes "QueryDeviceByDeviceID (GetDeviceId info) st = Some d" and "dv_connectNotifier d = None"
    and "dv_drvExtRemote d = None" and "dv_bundleInfo d \<noteq> []"
    and "map_of (dm_bundleMatchMap st) (dv_bundleInfo d) = Some [GetDeviceId info]"
  shows "fst (UnRegisterDevice E info st) = EDM_ERR_INVALID_PARAM
    \<and> (\<forall>dr. DrvOnRemoved dr \<in> set (w_trace (dm_world (snd (UnRegisterDevice E info st))))
         \<longrightarrow> DrvOnRemoved dr \<in> set (w_trace (dm_world st)))"
proof -
  have ul: "DrvOnRemoved dr \<in> set (w_trace (dm_world (UnLoadSelf E st))) \<longleftrightarrow> DrvOnRemoved dr \<in> set (w_trace (dm_world st))"
    for dr st by (auto simp: UnLoadSelf_def Let_def with_world_def)
  show ?thesis
    using assms ul
    by (auto simp: UnRegisterDevice_def QueryDeviceByDeviceID_def RemoveDevIdOfBundleInfoMap_def Disconnect_def
        DisconnectDriverExtension_def Let_def)
qed

theorem unplug_unbound_driver_fails_witness:
  "fst (UnRegisterDevice ok_env a_device (registered True)) = EDM_ERR_INVALID_PARAM"
proof -
  have "(case QueryDeviceByDeviceID (GetDeviceId a_device) (registered True) of None \<Rightarrow> False
      | Some d \<Rightarrow> dv_connectNotifier d = None \<and> dv_drvExtRemote d = None \<and> dv_bundleInfo d \<noteq> []
         \<and> map_of (dm_bundleMatchMap (registered True)) (dv_bundleInfo d) = Some [GetDeviceId a_device])"
    by code_simp
  then show ?thesis
    using unplug_unbound_driver_fails [of a_device "registered True" _ ok_env] by (auto split: option.splits)
qed

end
