(* ===== verification/Ipc_Types.thy ===== *)
theory Ipc_Types
  imports Ext_Types
begin

text \<open>
  The data that crosses the process boundary, src/interfaces/innerkits/driver_ext_mgr_types.h
  and driver_ext_mgr_types.cpp: its marshalling into a parcel and back.

  The parcel is a class of the IPC library. It is the argument \<open>P\<close> of the operations, a record
  of the reads and writes they use; what the code relies on is \<open>parcel_ok\<close>: a write that
  succeeds appends one item, and a read of the kind of the first item removes it.
\<close>

section \<open>The parcel\<close>

datatype item = I32 int | U8 u8 | U16 u16 | U32 u32 | U64 u64 | Bl bool | Str string | V16 "u16 list"

record 'p parcel_ops =
  p_write :: "item \<Rightarrow> 'p \<Rightarrow> 'p option"
  p_i32 :: "'p \<Rightarrow> int option \<times> 'p"
  p_u8 :: "'p \<Rightarrow> u8 option \<times> 'p"
  p_u16 :: "'p \<Rightarrow> u16 option \<times> 'p"
  p_u32 :: "'p \<Rightarrow> u32 option \<times> 'p"
  p_u64 :: "'p \<Rightarrow> u64 option \<times> 'p"
  p_bool :: "'p \<Rightarrow> bool option \<times> 'p"
  p_str :: "'p \<Rightarrow> string option \<times> 'p"
  p_v16 :: "'p \<Rightarrow> u16 list option \<times> 'p"

text \<open>The reads that return the value have a default for a read that fails.\<close>

definition or_default :: "'a \<Rightarrow> 'a option \<times> 'p \<Rightarrow> 'a \<times> 'p" where
  "or_default z r = (case fst r of None \<Rightarrow> z | Some v \<Rightarrow> v, snd r)"

definition reads :: "('p \<Rightarrow> item list) \<Rightarrow> ('a \<Rightarrow> item) \<Rightarrow> ('p \<Rightarrow> 'a option \<times> 'p) \<Rightarrow> bool" where
  "reads c mk rd_op \<longleftrightarrow> (\<forall>p v rest. c p = mk v # rest \<longrightarrow> (\<exists>p'. rd_op p = (Some v, p') \<and> c p' = rest))"

definition parcel_ok :: "'p parcel_ops \<Rightarrow> ('p \<Rightarrow> item list) \<Rightarrow> bool" where
  "parcel_ok P c \<longleftrightarrow>
     (\<forall>i p p'. p_write P i p = Some p' \<longrightarrow> c p' = c p @ [i])
     \<and> reads c I32 (p_i32 P) \<and> reads c U8 (p_u8 P) \<and> reads c U16 (p_u16 P) \<and> reads c U32 (p_u32 P)
     \<and> reads c U64 (p_u64 P) \<and> reads c Bl (p_bool P) \<and> reads c Str (p_str P) \<and> reads c V16 (p_v16 P)"

lemma reads_default:
  "reads c mk rd_op \<Longrightarrow> c p = mk v # rest \<Longrightarrow> \<exists>p'. or_default z (rd_op p) = (v, p') \<and> c p' = rest"
  by (force simp: reads_def or_default_def)

text \<open>The parcel as a queue of items, on which the witnesses run.\<close>

definition queue_parcel :: "item list parcel_ops" where
  "queue_parcel =
     \<lparr> p_write = \<lambda>i p. Some (p @ [i]),
       p_i32 = \<lambda>p. case p of I32 v # r \<Rightarrow> (Some v, r) | _ \<Rightarrow> (None, p),
       p_u8 = \<lambda>p. case p of U8 v # r \<Rightarrow> (Some v, r) | _ \<Rightarrow> (None, p),
       p_u16 = \<lambda>p. case p of U16 v # r \<Rightarrow> (Some v, r) | _ \<Rightarrow> (None, p),
       p_u32 = \<lambda>p. case p of U32 v # r \<Rightarrow> (Some v, r) | _ \<Rightarrow> (None, p),
       p_u64 = \<lambda>p. case p of U64 v # r \<Rightarrow> (Some v, r) | _ \<Rightarrow> (None, p),
       p_bool = \<lambda>p. case p of Bl v # r \<Rightarrow> (Some v, r) | _ \<Rightarrow> (None, p),
       p_str = \<lambda>p. case p of Str v # r \<Rightarrow> (Some v, r) | _ \<Rightarrow> (None, p),
       p_v16 = \<lambda>p. case p of V16 v # r \<Rightarrow> (Some v, r) | _ \<Rightarrow> (None, p) \<rparr>"

lemma queue_write [simp]: "p_write queue_parcel i p = Some (p @ [i])"
  by (simp add: queue_parcel_def)

lemma queue_parcel_ok: "parcel_ok queue_parcel (\<lambda>p. p)"
  by (simp add: parcel_ok_def reads_def queue_parcel_def)

text \<open>A sequence of writes, each of which ends the operation when it fails.\<close>

fun write_all :: "'p parcel_ops \<Rightarrow> item list \<Rightarrow> 'p \<Rightarrow> 'p option" where
  "write_all P [] p = Some p"
| "write_all P (i # is) p = (case p_write P i p of None \<Rightarrow> None | Some p \<Rightarrow> write_all P is p)"

lemma write_all_content:
  "parcel_ok P c \<Longrightarrow> write_all P is p = Some p' \<Longrightarrow> c p' = c p @ is"
  by (induction "is" arbitrary: p) (auto simp: parcel_ok_def split: option.splits)

lemma write_all_append:
  "write_all P (xs @ ys) p = (case write_all P xs p of None \<Rightarrow> None | Some p \<Rightarrow> write_all P ys p)"
  by (induction xs arbitrary: p) (auto split: option.splits)

section \<open>Codecs\<close>

text \<open>
  The contract of a pair of marshalling operations: what is written is \<open>items x\<close>, and reading it
  back from the front of a parcel gives \<open>x\<close> and leaves the rest. A list whose elements have a
  codec has one, given its length.
\<close>

fun enc_list :: "('a \<Rightarrow> 'p \<Rightarrow> 'p option) \<Rightarrow> 'a list \<Rightarrow> 'p \<Rightarrow> 'p option" where
  "enc_list enc [] p = Some p"
| "enc_list enc (x # xs) p = (case enc x p of None \<Rightarrow> None | Some p \<Rightarrow> enc_list enc xs p)"

fun dec_list :: "('p \<Rightarrow> 'a option \<times> 'p) \<Rightarrow> nat \<Rightarrow> 'p \<Rightarrow> 'a list option \<times> 'p" where
  "dec_list dec 0 p = (Some [], p)"
| "dec_list dec (Suc n) p =
     (case dec p of
        (None, p) \<Rightarrow> (None, p)
      | (Some x, p) \<Rightarrow> (case dec_list dec n p of (None, p) \<Rightarrow> (None, p) | (Some xs, p) \<Rightarrow> (Some (x # xs), p)))"

locale codec =
  fixes enc :: "'a \<Rightarrow> 'p \<Rightarrow> 'p option"
    and dec :: "'p \<Rightarrow> 'a option \<times> 'p"
    and items :: "'a \<Rightarrow> item list"
    and content :: "'p \<Rightarrow> item list"
    and valid :: "'a \<Rightarrow> bool"
  assumes enc_content: "enc x p = Some p' \<Longrightarrow> content p' = content p @ items x"
    and dec_content: "valid x \<Longrightarrow> content p = items x @ rest \<Longrightarrow> \<exists>p'. dec p = (Some x, p') \<and> content p' = rest"
begin

lemma roundtrip:
  "valid x \<Longrightarrow> content p = [] \<Longrightarrow> enc x p = Some p' \<Longrightarrow> \<exists>p''. dec p' = (Some x, p'') \<and> content p'' = []"
  using enc_content [of x p p'] dec_content [of x p' "[]"] by simp

lemma enc_list_content: "enc_list enc xs p = Some p' \<Longrightarrow> content p' = content p @ concat (map items xs)"
  by (induction xs arbitrary: p) (auto split: option.splits dest!: enc_content)

lemma dec_list_content:
  "list_all valid xs \<Longrightarrow> content p = concat (map items xs) @ rest \<Longrightarrow>
   \<exists>p'. dec_list dec (length xs) p = (Some xs, p') \<and> content p' = rest"
proof (induction xs arbitrary: p)
  case (Cons x xs)
  then obtain p1 where p1: "dec p = (Some x, p1)" "content p1 = concat (map items xs) @ rest"
    using dec_content [of x p "concat (map items xs) @ rest"] by auto
  then obtain p2 where "dec_list dec (length xs) p1 = (Some xs, p2)" "content p2 = rest"
    using Cons by auto
  with p1 show ?case by simp
qed simp

end

section \<open>Error messages\<close>

record err_msg =
  em_errCode :: int
  em_msg :: string

definition ErrMsg_Marshalling :: "'p parcel_ops \<Rightarrow> err_msg \<Rightarrow> 'p \<Rightarrow> 'p option" where
  "ErrMsg_Marshalling P e p =
     (case p_write P (I32 (em_errCode e)) p of None \<Rightarrow> None
      | Some p \<Rightarrow> (case p_write P (Str (em_msg e)) p of None \<Rightarrow> None | Some p \<Rightarrow> Some p))"

definition ErrMsg_Unmarshalling :: "'p parcel_ops \<Rightarrow> 'p \<Rightarrow> err_msg option \<times> 'p" where
  "ErrMsg_Unmarshalling P p =
     (let (errCode, p) = or_default 0 (p_i32 P p);
          (msg, p) = or_default [] (p_str P p) in
      (Some \<lparr>em_errCode = errCode, em_msg = msg\<rparr>, p))"

section \<open>Devices\<close>

text \<open>\<open>DeviceData\<close> has \<open>None\<close> for the USB fields, \<open>USBDevice\<close> has both identifiers.\<close>

record device_data =
  dd_busType :: u32
  dd_deviceId :: u64
  dd_descripton :: string
  dd_usb :: "(u16 \<times> u16) option"

definition DeviceData_Marshalling :: "'p parcel_ops \<Rightarrow> device_data \<Rightarrow> 'p \<Rightarrow> 'p option" where
  "DeviceData_Marshalling P d p =
     (case p_write P (U32 (dd_busType d)) p of None \<Rightarrow> None
      | Some p \<Rightarrow> (case p_write P (U64 (dd_deviceId d)) p of None \<Rightarrow> None
      | Some p \<Rightarrow> (case p_write P (Str (dd_descripton d)) p of None \<Rightarrow> None
      | Some p \<Rightarrow> Some p)))"

definition USBDevice_Marshalling :: "'p parcel_ops \<Rightarrow> device_data \<Rightarrow> u16 \<times> u16 \<Rightarrow> 'p \<Rightarrow> 'p option" where
  "USBDevice_Marshalling P d ids p =
     (case DeviceData_Marshalling P d p of None \<Rightarrow> None
      | Some p \<Rightarrow> (case p_write P (U16 (fst ids)) p of None \<Rightarrow> None
      | Some p \<Rightarrow> (case p_write P (U16 (snd ids)) p of None \<Rightarrow> None
      | Some p \<Rightarrow> Some p)))"

text \<open>The virtual call.\<close>

definition Device_Marshalling :: "'p parcel_ops \<Rightarrow> device_data \<Rightarrow> 'p \<Rightarrow> 'p option" where
  "Device_Marshalling P d p =
     (case dd_usb d of None \<Rightarrow> DeviceData_Marshalling P d p | Some ids \<Rightarrow> USBDevice_Marshalling P d ids p)"

definition USBDevice_Unmarshalling :: "'p parcel_ops \<Rightarrow> 'p \<Rightarrow> device_data \<times> 'p" where
  "USBDevice_Unmarshalling P p =
     (let (deviceId, p) = or_default 0 (p_u64 P p);
          (descripton, p) = or_default [] (p_str P p);
          (productId, p) = or_default 0 (p_u16 P p);
          (vendorId, p) = or_default 0 (p_u16 P p) in
      (\<lparr>dd_busType = 0, dd_deviceId = deviceId, dd_descripton = descripton,
        dd_usb = Some (productId, vendorId)\<rparr>, p))"

definition DeviceData_Unmarshalling :: "'p parcel_ops \<Rightarrow> 'p \<Rightarrow> device_data option \<times> 'p" where
  "DeviceData_Unmarshalling P p =
     (let (busType, p) = or_default 0 (p_u32 P p) in
      if busType = BUS_TYPE_INVALID then (None, p)
      else if busType = BUS_TYPE_USB then
        let (d, p) = USBDevice_Unmarshalling P p in (Some (d\<lparr>dd_busType := busType\<rparr>), p)
      else (None, p))"

section \<open>Device information\<close>

record usb_interface_desc =
  ui_bInterfaceNumber :: u8
  ui_bClass :: u8
  ui_bSubClass :: u8
  ui_bProtocol :: u8

text \<open>The list of a \<open>USBDeviceInfoData\<close> holds pointers, so an entry may be null.\<close>

record usb_info_data =
  ux_productId :: u16
  ux_vendorId :: u16
  ux_interfaceDescList :: "usb_interface_desc option list"

record device_info_data =
  dx_deviceId :: u64
  dx_isDriverMatched :: bool
  dx_driverUid :: string
  dx_usb :: "usb_info_data option"

abbreviation (input) MAX_INTERFACE_DESC_SIZE :: u64 where "MAX_INTERFACE_DESC_SIZE \<equiv> 512"

definition DeviceInfoData_Marshalling :: "'p parcel_ops \<Rightarrow> device_info_data \<Rightarrow> 'p \<Rightarrow> 'p option" where
  "DeviceInfoData_Marshalling P d p =
     (case p_write P (U64 (dx_deviceId d)) p of None \<Rightarrow> None
      | Some p \<Rightarrow> (case p_write P (Bl (dx_isDriverMatched d)) p of None \<Rightarrow> None
      | Some p \<Rightarrow> (case p_write P (Str (dx_driverUid d)) p of None \<Rightarrow> None
      | Some p \<Rightarrow> Some p)))"

definition USBInterfaceDesc_Marshalling :: "'p parcel_ops \<Rightarrow> usb_interface_desc \<Rightarrow> 'p \<Rightarrow> 'p option" where
  "USBInterfaceDesc_Marshalling P d p =
     (case p_write P (U8 (ui_bInterfaceNumber d)) p of None \<Rightarrow> None
      | Some p \<Rightarrow> (case p_write P (U8 (ui_bClass d)) p of None \<Rightarrow> None
      | Some p \<Rightarrow> (case p_write P (U8 (ui_bSubClass d)) p of None \<Rightarrow> None
      | Some p \<Rightarrow> (case p_write P (U8 (ui_bProtocol d)) p of None \<Rightarrow> None
      | Some p \<Rightarrow> Some p))))"

definition USBDeviceInfoData_Marshalling ::
  "'p parcel_ops \<Rightarrow> device_info_data \<Rightarrow> usb_info_data \<Rightarrow> 'p \<Rightarrow> 'p option" where
  "USBDeviceInfoData_Marshalling P d u p =
     (case DeviceInfoData_Marshalling P d p of None \<Rightarrow> None
      | Some p \<Rightarrow> (case p_write P (U16 (ux_productId u)) p of None \<Rightarrow> None
      | Some p \<Rightarrow> (case p_write P (U16 (ux_vendorId u)) p of None \<Rightarrow> None
      | Some p \<Rightarrow> (case p_write P (U64 (of_nat (length (ux_interfaceDescList u)))) p of None \<Rightarrow> None
      | Some p \<Rightarrow>
          enc_list (\<lambda>desc p. case desc of None \<Rightarrow> None | Some d \<Rightarrow> USBInterfaceDesc_Marshalling P d p)
            (ux_interfaceDescList u) p))))"

definition DeviceInfo_Marshalling :: "'p parcel_ops \<Rightarrow> device_info_data \<Rightarrow> 'p \<Rightarrow> 'p option" where
  "DeviceInfo_Marshalling P d p =
     (case dx_usb d of None \<Rightarrow> DeviceInfoData_Marshalling P d p
      | Some u \<Rightarrow> USBDeviceInfoData_Marshalling P d u p)"

text \<open>The mask is written with fifteen hexadecimal digits, of which the last seven are F: 28 bits.\<close>

definition GetBusTypeByDeviceId :: "u64 \<Rightarrow> u32" where
  "GetBusTypeByDeviceId deviceId = ucast (deviceId AND 0xFFFFFFF)"

definition USBInterfaceDesc_Unmarshalling :: "'p parcel_ops \<Rightarrow> 'p \<Rightarrow> usb_interface_desc option \<times> 'p" where
  "USBInterfaceDesc_Unmarshalling P p =
     (let (n, p) = or_default 0 (p_u8 P p);
          (c, p) = or_default 0 (p_u8 P p);
          (s, p) = or_default 0 (p_u8 P p);
          (r, p) = or_default 0 (p_u8 P p) in
      (Some \<lparr>ui_bInterfaceNumber = n, ui_bClass = c, ui_bSubClass = s, ui_bProtocol = r\<rparr>, p))"

definition USBDeviceInfoData_Unmarshalling :: "'p parcel_ops \<Rightarrow> 'p \<Rightarrow> usb_info_data option \<times> 'p" where
  "USBDeviceInfoData_Unmarshalling P p =
     (let (productId, p) = or_default 0 (p_u16 P p);
          (vendorId, p) = or_default 0 (p_u16 P p);
          (interfaceDescSize, p) = or_default 0 (p_u64 P p) in
      if interfaceDescSize > MAX_INTERFACE_DESC_SIZE then (None, p)
      else case dec_list (USBInterfaceDesc_Unmarshalling P) (unat interfaceDescSize) p of
        (None, p) \<Rightarrow> (None, p)
      | (Some descs, p) \<Rightarrow>
          (Some \<lparr>ux_productId = productId, ux_vendorId = vendorId, ux_interfaceDescList = map Some descs\<rparr>, p))"

definition DeviceInfoData_Unmarshalling :: "'p parcel_ops \<Rightarrow> 'p \<Rightarrow> device_info_data option \<times> 'p" where
  "DeviceInfoData_Unmarshalling P p =
     (case p_u64 P p of
        (None, p) \<Rightarrow> (None, p)
      | (Some deviceId, p) \<Rightarrow>
          let busType = GetBusTypeByDeviceId deviceId in
          if busType \<le> BUS_TYPE_INVALID \<or> busType \<ge> BUS_TYPE_MAX then (None, p)
          else case p_bool P p of
            (None, p) \<Rightarrow> (None, p)
          | (Some isDriverMatched, p) \<Rightarrow>
              case p_str P p of
                (None, p) \<Rightarrow> (None, p)
              | (Some driverUid, p) \<Rightarrow>
                  if busType = BUS_TYPE_USB then
                    (case USBDeviceInfoData_Unmarshalling P p of
                       (None, p) \<Rightarrow> (None, p)
                     | (Some u, p) \<Rightarrow>
                         (Some \<lparr>dx_deviceId = deviceId, dx_isDriverMatched = isDriverMatched,
                                dx_driverUid = driverUid, dx_usb = Some u\<rparr>, p))
                  else (None, p))"

section \<open>Driver information\<close>

record driver_info_data =
  rx_busType :: u32
  rx_driverUid :: string
  rx_driverName :: string
  rx_bundleSize :: string
  rx_version :: string
  rx_description :: string
  rx_usb :: "(u16 list \<times> u16 list) option"

definition DriverInfoData_Marshalling :: "'p parcel_ops \<Rightarrow> driver_info_data \<Rightarrow> 'p \<Rightarrow> 'p option" where
  "DriverInfoData_Marshalling P d p =
     (case p_write P (U32 (rx_busType d)) p of None \<Rightarrow> None
      | Some p \<Rightarrow> (case p_write P (Str (rx_driverUid d)) p of None \<Rightarrow> None
      | Some p \<Rightarrow> (case p_write P (Str (rx_driverName d)) p of None \<Rightarrow> None
      | Some p \<Rightarrow> (case p_write P (Str (rx_bundleSize d)) p of None \<Rightarrow> None
      | Some p \<Rightarrow> (case p_write P (Str (rx_version d)) p of None \<Rightarrow> None
      | Some p \<Rightarrow> (case p_write P (Str (rx_description d)) p of None \<Rightarrow> None
      | Some p \<Rightarrow> Some p))))))"

definition USBDriverInfoData_Marshalling ::
  "'p parcel_ops \<Rightarrow> driver_info_data \<Rightarrow> u16 list \<times> u16 list \<Rightarrow> 'p \<Rightarrow> 'p option" where
  "USBDriverInfoData_Marshalling P d ids p =
     (case DriverInfoData_Marshalling P d p of None \<Rightarrow> None
      | Some p \<Rightarrow> (case p_write P (V16 (fst ids)) p of None \<Rightarrow> None
      | Some p \<Rightarrow> (case p_write P (V16 (snd ids)) p of None \<Rightarrow> None
      | Some p \<Rightarrow> Some p)))"

definition Driver_Marshalling :: "'p parcel_ops \<Rightarrow> driver_info_data \<Rightarrow> 'p \<Rightarrow> 'p option" where
  "Driver_Marshalling P d p =
     (case rx_usb d of None \<Rightarrow> DriverInfoData_Marshalling P d p
      | Some ids \<Rightarrow> USBDriverInfoData_Marshalling P d ids p)"

definition USBDriverInfoData_Unmarshalling :: "'p parcel_ops \<Rightarrow> 'p \<Rightarrow> driver_info_data option \<times> 'p" where
  "USBDriverInfoData_Unmarshalling P p =
     (let (driverUid, p) = or_default [] (p_str P p);
          (driverName, p) = or_default [] (p_str P p);
          (bundleSize, p) = or_default [] (p_str P p);
          (version, p) = or_default [] (p_str P p);
          (description, p) = or_default [] (p_str P p);
          (pids, p) = or_default [] (p_v16 P p);
          (vids, p) = or_default [] (p_v16 P p) in
      (Some \<lparr>rx_busType = BUS_TYPE_USB, rx_driverUid = driverUid, rx_driverName = driverName,
             rx_bundleSize = bundleSize, rx_version = version, rx_description = description,
             rx_usb = Some (pids, vids)\<rparr>, p))"

definition DriverInfoData_Unmarshalling :: "'p parcel_ops \<Rightarrow> 'p \<Rightarrow> driver_info_data option \<times> 'p" where
  "DriverInfoData_Unmarshalling P p =
     (let (busType, p) = or_default 0 (p_u32 P p) in
      if busType = BUS_TYPE_USB then USBDriverInfoData_Unmarshalling P p else (None, p))"

section \<open>Each pair is a codec\<close>

lemma parcel_write: "parcel_ok P c \<Longrightarrow> p_write P i p = Some p' \<Longrightarrow> c p' = c p @ [i]"
  by (simp add: parcel_ok_def)

lemma parcel_reads:
  assumes "parcel_ok P c"
  shows "reads c I32 (p_i32 P)" "reads c U8 (p_u8 P)" "reads c U16 (p_u16 P)" "reads c U32 (p_u32 P)"
    "reads c U64 (p_u64 P)" "reads c Bl (p_bool P)" "reads c Str (p_str P)" "reads c V16 (p_v16 P)"
  using assms by (simp_all add: parcel_ok_def)

lemma ErrMsg_codec:
  assumes ok: "parcel_ok P c"
  shows "codec (ErrMsg_Marshalling P) (ErrMsg_Unmarshalling P) (\<lambda>e. [I32 (em_errCode e), Str (em_msg e)]) c (\<lambda>_. True)"
proof
  fix e :: err_msg and p p' rest
  show "ErrMsg_Marshalling P e p = Some p' \<Longrightarrow> c p' = c p @ [I32 (em_errCode e), Str (em_msg e)]"
    by (auto simp: ErrMsg_Marshalling_def parcel_write [OF ok] split: option.splits)
  assume "c p = [I32 (em_errCode e), Str (em_msg e)] @ rest"
  then show "\<exists>p'. ErrMsg_Unmarshalling P p = (Some e, p') \<and> c p' = rest"
    using reads_default [OF parcel_reads(1) [OF ok], of p "em_errCode e" _ 0]
      reads_default [OF parcel_reads(7) [OF ok], of _ "em_msg e" rest "[]"]
    by (fastforce simp: ErrMsg_Unmarshalling_def)
qed

lemma USBInterfaceDesc_codec:
  assumes ok: "parcel_ok P c"
  shows "codec (USBInterfaceDesc_Marshalling P) (USBInterfaceDesc_Unmarshalling P)
    (\<lambda>d. [U8 (ui_bInterfaceNumber d), U8 (ui_bClass d), U8 (ui_bSubClass d), U8 (ui_bProtocol d)]) c (\<lambda>_. True)"
proof
  fix d :: usb_interface_desc and p p' rest
  show "USBInterfaceDesc_Marshalling P d p = Some p' \<Longrightarrow>
      c p' = c p @ [U8 (ui_bInterfaceNumber d), U8 (ui_bClass d), U8 (ui_bSubClass d), U8 (ui_bProtocol d)]"
    by (auto simp: USBInterfaceDesc_Marshalling_def parcel_write [OF ok] split: option.splits)
  note u8 = reads_default [OF parcel_reads(2) [OF ok], where z = 0]
  assume "c p = [U8 (ui_bInterfaceNumber d), U8 (ui_bClass d), U8 (ui_bSubClass d), U8 (ui_bProtocol d)] @ rest"
  then obtain p1 p2 p3 p4 where
    "or_default 0 (p_u8 P p) = (ui_bInterfaceNumber d, p1)"
    "or_default 0 (p_u8 P p1) = (ui_bClass d, p2)"
    "or_default 0 (p_u8 P p2) = (ui_bSubClass d, p3)"
    "or_default 0 (p_u8 P p3) = (ui_bProtocol d, p4)" "c p4 = rest"
    using u8 by (metis append_Cons append_Nil)
  then show "\<exists>p'. USBInterfaceDesc_Unmarshalling P p = (Some d, p') \<and> c p' = rest"
    by (simp add: USBInterfaceDesc_Unmarshalling_def)
qed

definition device_items :: "device_data \<Rightarrow> item list" where
  "device_items d = [U32 (dd_busType d), U64 (dd_deviceId d), Str (dd_descripton d)]
     @ (case dd_usb d of None \<Rightarrow> [] | Some (p, v) \<Rightarrow> [U16 p, U16 v])"

text \<open>Only USB devices come back: the others marshal, but unmarshal to a null pointer.\<close>

definition device_valid :: "device_data \<Rightarrow> bool" where
  "device_valid d \<longleftrightarrow> dd_busType d = BUS_TYPE_USB \<and> dd_usb d \<noteq> None"

lemma Device_codec:
  assumes ok: "parcel_ok P c"
  shows "codec (Device_Marshalling P) (DeviceData_Unmarshalling P) device_items c device_valid"
proof
  fix d :: device_data and p p' rest
  show "Device_Marshalling P d p = Some p' \<Longrightarrow> c p' = c p @ device_items d"
    by (auto simp: Device_Marshalling_def DeviceData_Marshalling_def USBDevice_Marshalling_def device_items_def
        parcel_write [OF ok] split: option.splits)
  assume v: "device_valid d" and "c p = device_items d @ rest"
  then obtain i j where ids: "dd_usb d = Some (i, j)" "dd_busType d = 1"
    by (auto simp: device_valid_def)
  then have c0: "c p = U32 1 # U64 (dd_deviceId d) # Str (dd_descripton d) # U16 i # U16 j # rest"
    using \<open>c p = device_items d @ rest\<close> by (simp add: device_items_def)
  obtain p1 where r1: "or_default 0 (p_u32 P p) = (1, p1)" and c1: "c p1 = U64 (dd_deviceId d) # Str (dd_descripton d) # U16 (i) # U16 (j) # rest"
    using reads_default [OF parcel_reads(4) [OF ok] c0, of 0] by blast
  obtain p2 where r2: "or_default 0 (p_u64 P p1) = (dd_deviceId d, p2)" and c2: "c p2 = Str (dd_descripton d) # U16 (i) # U16 (j) # rest"
    using reads_default [OF parcel_reads(5) [OF ok] c1, of 0] by blast
  obtain p3 where r3: "or_default [] (p_str P p2) = (dd_descripton d, p3)" and c3: "c p3 = U16 (i) # U16 (j) # rest"
    using reads_default [OF parcel_reads(7) [OF ok] c2, of "[]"] by blast
  obtain p4 where r4: "or_default 0 (p_u16 P p3) = (i, p4)" and c4: "c p4 = U16 (j) # rest"
    using reads_default [OF parcel_reads(3) [OF ok] c3, of 0] by blast
  obtain p5 where r5: "or_default 0 (p_u16 P p4) = (j, p5)" and c5: "c p5 = rest"
    using reads_default [OF parcel_reads(3) [OF ok] c4, of 0] by blast
  from r1 r2 r3 r4 r5 c5 show "\<exists>p'. DeviceData_Unmarshalling P p = (Some d, p') \<and> c p' = rest"
    using ids by (simp add: DeviceData_Unmarshalling_def USBDevice_Unmarshalling_def Let_def)
qed

definition desc_items :: "usb_interface_desc option \<Rightarrow> item list" where
  "desc_items x = (case x of None \<Rightarrow> [] | Some d \<Rightarrow>
     [U8 (ui_bInterfaceNumber d), U8 (ui_bClass d), U8 (ui_bSubClass d), U8 (ui_bProtocol d)])"

definition device_info_items :: "device_info_data \<Rightarrow> item list" where
  "device_info_items d = [U64 (dx_deviceId d), Bl (dx_isDriverMatched d), Str (dx_driverUid d)]
     @ (case dx_usb d of None \<Rightarrow> [] | Some u \<Rightarrow>
          [U16 (ux_productId u), U16 (ux_vendorId u), U64 (of_nat (length (ux_interfaceDescList u)))]
          @ concat (map desc_items (ux_interfaceDescList u)))"

definition device_info_valid :: "device_info_data \<Rightarrow> bool" where
  "device_info_valid d \<longleftrightarrow> GetBusTypeByDeviceId (dx_deviceId d) = BUS_TYPE_USB
     \<and> (case dx_usb d of None \<Rightarrow> False | Some u \<Rightarrow>
          length (ux_interfaceDescList u) \<le> 512 \<and> list_all (\<lambda>x. x \<noteq> None) (ux_interfaceDescList u))"

lemma usb_below_max [simp]: "\<not> BUS_TYPE_MAX \<le> BUS_TYPE_USB"
  by (simp add: word_le_nat_alt)

lemma enc_descs_content:
  assumes ok: "parcel_ok P c"
  shows "enc_list (\<lambda>desc p. case desc of None \<Rightarrow> None | Some d \<Rightarrow> USBInterfaceDesc_Marshalling P d p) xs p = Some p'
    \<Longrightarrow> c p' = c p @ concat (map desc_items xs)"
proof (induction xs arbitrary: p)
  case (Cons x xs)
  then obtain d p1 where d: "x = Some d" "USBInterfaceDesc_Marshalling P d p = Some p1"
    and r: "enc_list (\<lambda>desc p. case desc of None \<Rightarrow> None | Some d \<Rightarrow> USBInterfaceDesc_Marshalling P d p) xs p1 = Some p'"
    by (auto split: option.splits)
  show ?case
    using Cons.IH [OF r] codec.enc_content [OF USBInterfaceDesc_codec [OF ok] d(2)] d(1) by (simp add: desc_items_def)
qed simp

lemma DeviceInfo_codec:
  assumes ok: "parcel_ok P c"
  shows "codec (DeviceInfo_Marshalling P) (DeviceInfoData_Unmarshalling P) device_info_items c device_info_valid"
proof
  fix d :: device_info_data and p p' rest
  show "DeviceInfo_Marshalling P d p = Some p' \<Longrightarrow> c p' = c p @ device_info_items d"
    by (auto simp: DeviceInfo_Marshalling_def DeviceInfoData_Marshalling_def USBDeviceInfoData_Marshalling_def
        device_info_items_def parcel_write [OF ok] dest!: enc_descs_content [OF ok] split: option.splits)
  assume v: "device_info_valid d" and "c p = device_info_items d @ rest"
  then obtain u where u: "dx_usb d = Some u" "length (ux_interfaceDescList u) \<le> 512"
    "list_all (\<lambda>x. x \<noteq> None) (ux_interfaceDescList u)" and bus: "GetBusTypeByDeviceId (dx_deviceId d) = 1"
    by (auto simp: device_info_valid_def split: option.splits)
  define ds where "ds = map the (ux_interfaceDescList u)"
  have ds: "ux_interfaceDescList u = map Some ds"
    using u(3) by (auto simp: ds_def list_all_iff intro!: nth_equalityI [symmetric])
  let ?n = "of_nat (length ds) :: u64"
  have n: "unat ?n = length ds" "\<not> 512 < ?n"
    using u(2) by (simp_all add: ds unat_of_nat word_less_nat_alt)
  let ?items = "concat (map (\<lambda>d. [U8 (ui_bInterfaceNumber d), U8 (ui_bClass d), U8 (ui_bSubClass d), U8 (ui_bProtocol d)]) ds)"
  have "concat (map desc_items (ux_interfaceDescList u)) = ?items"
    by (simp add: ds desc_items_def comp_def)
  then have c0: "c p = U64 (dx_deviceId d) # Bl (dx_isDriverMatched d) # Str (dx_driverUid d)
      # U16 (ux_productId u) # U16 (ux_vendorId u) # U64 ?n # ?items @ rest"
    using \<open>c p = device_info_items d @ rest\<close> u(1) ds by (simp add: device_info_items_def)
  obtain p1 where r1: "p_u64 P p = (Some (dx_deviceId d), p1)" and c1: "c p1 = Bl (dx_isDriverMatched d) # Str (dx_driverUid d) # U16 (ux_productId u) # U16 (ux_vendorId u) # U64 (?n) # ?items @ rest"
    using parcel_reads(5) [OF ok] c0 unfolding reads_def by blast
  obtain p2 where r2: "p_bool P p1 = (Some (dx_isDriverMatched d), p2)" and c2: "c p2 = Str (dx_driverUid d) # U16 (ux_productId u) # U16 (ux_vendorId u) # U64 (?n) # ?items @ rest"
    using parcel_reads(6) [OF ok] c1 unfolding reads_def by blast
  obtain p3 where r3: "p_str P p2 = (Some (dx_driverUid d), p3)" and c3: "c p3 = U16 (ux_productId u) # U16 (ux_vendorId u) # U64 (?n) # ?items @ rest"
    using parcel_reads(7) [OF ok] c2 unfolding reads_def by blast
  obtain p4 where r4: "or_default 0 (p_u16 P p3) = (ux_productId u, p4)" and c4: "c p4 = U16 (ux_vendorId u) # U64 (?n) # ?items @ rest"
    using reads_default [OF parcel_reads(3) [OF ok] c3, of 0] by blast
  obtain p5 where r5: "or_default 0 (p_u16 P p4) = (ux_vendorId u, p5)" and c5: "c p5 = U64 (?n) # ?items @ rest"
    using reads_default [OF parcel_reads(3) [OF ok] c4, of 0] by blast
  obtain p6 where r6: "or_default 0 (p_u64 P p5) = (?n, p6)" and c6: "c p6 = ?items @ rest"
    using reads_default [OF parcel_reads(5) [OF ok] c5, of 0] by blast
  obtain p7 where "dec_list (USBInterfaceDesc_Unmarshalling P) (length ds) p6 = (Some ds, p7)" "c p7 = rest"
    using codec.dec_list_content [OF USBInterfaceDesc_codec [OF ok], of ds p6 rest] c6
    by (auto simp: list_all_iff)
  then show "\<exists>p'. DeviceInfoData_Unmarshalling P p = (Some d, p') \<and> c p' = rest"
    using r1 r2 r3 r4 r5 r6 u(1) bus n ds
    by (simp add: DeviceInfoData_Unmarshalling_def USBDeviceInfoData_Unmarshalling_def Let_def)
qed

definition driver_items :: "driver_info_data \<Rightarrow> item list" where
  "driver_items d = [U32 (rx_busType d), Str (rx_driverUid d), Str (rx_driverName d), Str (rx_bundleSize d),
      Str (rx_version d), Str (rx_description d)]
     @ (case rx_usb d of None \<Rightarrow> [] | Some (p, v) \<Rightarrow> [V16 p, V16 v])"

definition driver_valid :: "driver_info_data \<Rightarrow> bool" where
  "driver_valid d \<longleftrightarrow> rx_busType d = BUS_TYPE_USB \<and> rx_usb d \<noteq> None"

lemma Driver_codec:
  assumes ok: "parcel_ok P c"
  shows "codec (Driver_Marshalling P) (DriverInfoData_Unmarshalling P) driver_items c driver_valid"
proof
  fix d :: driver_info_data and p p' rest
  show "Driver_Marshalling P d p = Some p' \<Longrightarrow> c p' = c p @ driver_items d"
    by (auto simp: Driver_Marshalling_def DriverInfoData_Marshalling_def USBDriverInfoData_Marshalling_def
        driver_items_def parcel_write [OF ok] split: option.splits)
  assume v: "driver_valid d" and "c p = driver_items d @ rest"
  then obtain i j where ids: "rx_usb d = Some (i, j)" "rx_busType d = 1"
    by (auto simp: driver_valid_def)
  then have c0: "c p = U32 1 # Str (rx_driverUid d) # Str (rx_driverName d) # Str (rx_bundleSize d)
      # Str (rx_version d) # Str (rx_description d) # V16 i # V16 j # rest"
    using \<open>c p = driver_items d @ rest\<close> by (simp add: driver_items_def)
  obtain p1 where r1: "or_default 0 (p_u32 P p) = (1, p1)" and c1: "c p1 = Str (rx_driverUid d) # Str (rx_driverName d) # Str (rx_bundleSize d) # Str (rx_version d) # Str (rx_description d) # V16 (i) # V16 (j) # rest"
    using reads_default [OF parcel_reads(4) [OF ok] c0, of 0] by blast
  obtain p2 where r2: "or_default [] (p_str P p1) = (rx_driverUid d, p2)" and c2: "c p2 = Str (rx_driverName d) # Str (rx_bundleSize d) # Str (rx_version d) # Str (rx_description d) # V16 (i) # V16 (j) # rest"
    using reads_default [OF parcel_reads(7) [OF ok] c1, of "[]"] by blast
  obtain p3 where r3: "or_default [] (p_str P p2) = (rx_driverName d, p3)" and c3: "c p3 = Str (rx_bundleSize d) # Str (rx_version d) # Str (rx_description d) # V16 (i) # V16 (j) # rest"
    using reads_default [OF parcel_reads(7) [OF ok] c2, of "[]"] by blast
  obtain p4 where r4: "or_default [] (p_str P p3) = (rx_bundleSize d, p4)" and c4: "c p4 = Str (rx_version d) # Str (rx_description d) # V16 (i) # V16 (j) # rest"
    using reads_default [OF parcel_reads(7) [OF ok] c3, of "[]"] by blast
  obtain p5 where r5: "or_default [] (p_str P p4) = (rx_version d, p5)" and c5: "c p5 = Str (rx_description d) # V16 (i) # V16 (j) # rest"
    using reads_default [OF parcel_reads(7) [OF ok] c4, of "[]"] by blast
  obtain p6 where r6: "or_default [] (p_str P p5) = (rx_description d, p6)" and c6: "c p6 = V16 (i) # V16 (j) # rest"
    using reads_default [OF parcel_reads(7) [OF ok] c5, of "[]"] by blast
  obtain p7 where r7: "or_default [] (p_v16 P p6) = (i, p7)" and c7: "c p7 = V16 (j) # rest"
    using reads_default [OF parcel_reads(8) [OF ok] c6, of "[]"] by blast
  obtain p8 where r8: "or_default [] (p_v16 P p7) = (j, p8)" and c8: "c p8 = rest"
    using reads_default [OF parcel_reads(8) [OF ok] c7, of "[]"] by blast
  from r1 r2 r3 r4 r5 r6 r7 r8 c8 show "\<exists>p'. DriverInfoData_Unmarshalling P p = (Some d, p') \<and> c p' = rest"
    using ids by (simp add: DriverInfoData_Unmarshalling_def USBDriverInfoData_Unmarshalling_def Let_def)
qed

interpretation err_msg_codec: codec "ErrMsg_Marshalling queue_parcel" "ErrMsg_Unmarshalling queue_parcel"
  "\<lambda>e. [I32 (em_errCode e), Str (em_msg e)]" "\<lambda>p. p" "\<lambda>_. True"
  by (rule ErrMsg_codec [OF queue_parcel_ok])

interpretation device_codec: codec "Device_Marshalling queue_parcel" "DeviceData_Unmarshalling queue_parcel"
  device_items "\<lambda>p. p" device_valid
  by (rule Device_codec [OF queue_parcel_ok])

interpretation device_info_codec: codec "DeviceInfo_Marshalling queue_parcel" "DeviceInfoData_Unmarshalling queue_parcel"
  device_info_items "\<lambda>p. p" device_info_valid
  by (rule DeviceInfo_codec [OF queue_parcel_ok])

interpretation driver_codec: codec "Driver_Marshalling queue_parcel" "DriverInfoData_Unmarshalling queue_parcel"
  driver_items "\<lambda>p. p" driver_valid
  by (rule Driver_codec [OF queue_parcel_ok])

section \<open>Properties\<close>

text \<open>
  C8: a message that was marshalled into an empty parcel is unmarshalled unchanged and leaves
  the parcel empty: error messages always, devices, device information and drivers when they are
  USB ones (with at most 512 interface descriptors, none of them null).
\<close>

theorem ipc_roundtrip:
  assumes "parcel_ok P c" and "c p = []"
  shows "(\<forall>e p'. ErrMsg_Marshalling P e p = Some p' \<longrightarrow>
        (\<exists>q. ErrMsg_Unmarshalling P p' = (Some e, q) \<and> c q = []))
    \<and> (\<forall>d p'. device_valid d \<and> Device_Marshalling P d p = Some p' \<longrightarrow>
        (\<exists>q. DeviceData_Unmarshalling P p' = (Some d, q) \<and> c q = []))
    \<and> (\<forall>d p'. device_info_valid d \<and> DeviceInfo_Marshalling P d p = Some p' \<longrightarrow>
        (\<exists>q. DeviceInfoData_Unmarshalling P p' = (Some d, q) \<and> c q = []))
    \<and> (\<forall>d p'. driver_valid d \<and> Driver_Marshalling P d p = Some p' \<longrightarrow>
        (\<exists>q. DriverInfoData_Unmarshalling P p' = (Some d, q) \<and> c q = []))"
  using codec.roundtrip [OF ErrMsg_codec [OF assms(1)] _ assms(2)]
    codec.roundtrip [OF Device_codec [OF assms(1)] _ assms(2)]
    codec.roundtrip [OF DeviceInfo_codec [OF assms(1)] _ assms(2)]
    codec.roundtrip [OF Driver_codec [OF assms(1)] _ assms(2)]
  by blast

definition sample_info :: device_info_data where
  "sample_info =
     \<lparr>dx_deviceId = make_device_id 1 3, dx_isDriverMatched = True, dx_driverUid = ''drv-a'',
      dx_usb = Some \<lparr>ux_productId = 4660, ux_vendorId = 22136, ux_interfaceDescList =
        [Some \<lparr>ui_bInterfaceNumber = 0, ui_bClass = 3, ui_bSubClass = 1, ui_bProtocol = 2\<rparr>,
         Some \<lparr>ui_bInterfaceNumber = 1, ui_bClass = 8, ui_bSubClass = 6, ui_bProtocol = 80\<rparr>]\<rparr>\<rparr>"

theorem ipc_roundtrip_witness:
  "\<exists>p. DeviceInfo_Marshalling queue_parcel sample_info [] = Some p
     \<and> fst (DeviceInfoData_Unmarshalling queue_parcel p) = Some sample_info"
proof -
  have v: "device_info_valid sample_info" by code_simp
  have "(case DeviceInfo_Marshalling queue_parcel sample_info [] of None \<Rightarrow> False | Some p \<Rightarrow> True)" by code_simp
  then obtain p where p: "DeviceInfo_Marshalling queue_parcel sample_info [] = Some p" by (auto split: option.splits)
  with v ipc_roundtrip [OF queue_parcel_ok, of "[]"] have "fst (DeviceInfoData_Unmarshalling queue_parcel p) = Some sample_info"
    by force
  with p show ?thesis by blast
qed

text \<open>
  device information with more than 512 interface descriptors (and fewer than 2^64) is
  written without complaint, but no reader accepts it.
\<close>

theorem too_many_interfaces_lost:
  assumes "parcel_ok P c" and "c p = []" and "dx_usb d = Some u" and "512 < length (ux_interfaceDescList u)"
    and "length (ux_interfaceDescList u) < 18446744073709551616" and "DeviceInfo_Marshalling P d p = Some p'"
  shows "fst (DeviceInfoData_Unmarshalling P p') = None"
proof (cases "GetBusTypeByDeviceId (dx_deviceId d) = 1")
  case False
  have "c p' = U64 (dx_deviceId d) # tl (device_info_items d)"
    using codec.enc_content [OF DeviceInfo_codec [OF assms(1)] assms(6)] assms(2) by (simp add: device_info_items_def)
  then obtain q where "p_u64 P p' = (Some (dx_deviceId d), q)"
    using parcel_reads(5) [OF assms(1)] unfolding reads_def by metis
  with False show ?thesis
    by (auto simp: DeviceInfoData_Unmarshalling_def Let_def split: option.splits prod.splits)
next
  case True
  let ?n = "of_nat (length (ux_interfaceDescList u)) :: u64"
  have big: "512 < ?n" using assms(4,5) by (simp add: word_less_nat_alt unat_of_nat)
  have c0: "c p' = U64 (dx_deviceId d) # Bl (dx_isDriverMatched d) # Str (dx_driverUid d)
      # U16 (ux_productId u) # U16 (ux_vendorId u) # U64 ?n # concat (map desc_items (ux_interfaceDescList u))"
    using codec.enc_content [OF DeviceInfo_codec [OF assms(1)] assms(6)] assms(2,3) by (simp add: device_info_items_def)
  obtain p1 where r1: "p_u64 P p' = (Some (dx_deviceId d), p1)" and c1: "c p1 = Bl (dx_isDriverMatched d) # Str (dx_driverUid d) # U16 (ux_productId u) # U16 (ux_vendorId u) # U64 (?n) # concat (map desc_items (ux_interfaceDescList u))"
    using parcel_reads(5) [OF assms(1)] c0 unfolding reads_def by blast
  obtain p2 where r2: "p_bool P p1 = (Some (dx_isDriverMatched d), p2)" and c2: "c p2 = Str (dx_driverUid d) # U16 (ux_productId u) # U16 (ux_vendorId u) # U64 (?n) # concat (map desc_items (ux_interfaceDescList u))"
    using parcel_reads(6) [OF assms(1)] c1 unfolding reads_def by blast
  obtain p3 where r3: "p_str P p2 = (Some (dx_driverUid d), p3)" and c3: "c p3 = U16 (ux_productId u) # U16 (ux_vendorId u) # U64 (?n) # concat (map desc_items (ux_interfaceDescList u))"
    using parcel_reads(7) [OF assms(1)] c2 unfolding reads_def by blast
  obtain p4 where r4: "or_default 0 (p_u16 P p3) = (ux_productId u, p4)" and c4: "c p4 = U16 (ux_vendorId u) # U64 (?n) # concat (map desc_items (ux_interfaceDescList u))"
    using reads_default [OF parcel_reads(3) [OF assms(1)] c3, of 0] by blast
  obtain p5 where r5: "or_default 0 (p_u16 P p4) = (ux_vendorId u, p5)" and c5: "c p5 = U64 (?n) # concat (map desc_items (ux_interfaceDescList u))"
    using reads_default [OF parcel_reads(3) [OF assms(1)] c4, of 0] by blast
  obtain p6 where r6: "or_default 0 (p_u64 P p5) = (?n, p6)" and c6: "c p6 = concat (map desc_items (ux_interfaceDescList u))"
    using reads_default [OF parcel_reads(5) [OF assms(1)] c5, of 0] by blast
  with r1 r2 r3 r4 r5 True big show ?thesis
    by (simp add: DeviceInfoData_Unmarshalling_def USBDeviceInfoData_Unmarshalling_def Let_def)
qed

definition many_interfaces :: device_info_data where
  "many_interfaces = sample_info\<lparr>dx_usb := Some \<lparr>ux_productId = 1, ux_vendorId = 2, ux_interfaceDescList =
     replicate 513 (Some \<lparr>ui_bInterfaceNumber = 0, ui_bClass = 0, ui_bSubClass = 0, ui_bProtocol = 0\<rparr>)\<rparr>\<rparr>"

lemma enc_list_total:
  "(\<And>x p. x \<in> set xs \<Longrightarrow> enc x p \<noteq> None) \<Longrightarrow> enc_list enc xs p \<noteq> None"
  by (induction xs arbitrary: p) (auto split: option.splits)

theorem too_many_interfaces_lost_witness:
  "\<exists>p. DeviceInfo_Marshalling queue_parcel many_interfaces [] = Some p
     \<and> fst (DeviceInfoData_Unmarshalling queue_parcel p) = None"
proof -
  have "enc_list (\<lambda>desc p. case desc of None \<Rightarrow> None | Some d \<Rightarrow> USBInterfaceDesc_Marshalling queue_parcel d p)
      (replicate 513 (Some d)) p \<noteq> None" for d p
    by (rule enc_list_total) (auto simp: USBInterfaceDesc_Marshalling_def)
  then have "DeviceInfo_Marshalling queue_parcel many_interfaces [] \<noteq> None"
    by (simp add: DeviceInfo_Marshalling_def many_interfaces_def USBDeviceInfoData_Marshalling_def
        DeviceInfoData_Marshalling_def del: not_None_eq)
  then obtain p where "DeviceInfo_Marshalling queue_parcel many_interfaces [] = Some p" by blast
  then show ?thesis
    using too_many_interfaces_lost [OF queue_parcel_ok refl, of many_interfaces] by (auto simp: many_interfaces_def)
qed

end
