(* ===== verification/Bus_Core.thy ===== *)
theory Bus_Core
  imports Ext_Types
begin

text \<open>
  The bus extensions: src/services/native/driver_extension_manager/src/bus_extension/core and
  the USB extension beside it (usb_bus_extension.cpp, usb_driver_info.cpp,
  usb_driver_change_callback.cpp).

  Two libraries are parameters: \<open>lower\<close> is \<open>LowerStr\<close>, and the JSON library is the record \<open>J\<close> of
  the calls the code makes, with what it relies on in \<open>cjson_ok\<close>. A JSON number is represented
  by its integral part, the only thing the code reads of it. \<open>cj_get\<close> is
  \<open>cJSON_GetObjectItem\<close>, \<open>cj_get_exact\<close> is \<open>cJSON_GetObjectItemCaseSensitive\<close>.
\<close>

section \<open>The JSON library\<close>

datatype json_type = JNumber | JString | JBool | JArray | JObject | JOther

record 'j cjson =
  cj_array :: "'j option"
  cj_object :: "'j option"
  cj_number :: "int \<Rightarrow> 'j"
  cj_string :: "string \<Rightarrow> 'j"
  cj_bool :: "bool \<Rightarrow> 'j"
  cj_add_item :: "'j \<Rightarrow> 'j \<Rightarrow> 'j option"
  cj_add_member :: "string \<Rightarrow> 'j \<Rightarrow> 'j \<Rightarrow> 'j option"
  cj_print :: "'j \<Rightarrow> string option"
  cj_parse :: "string \<Rightarrow> 'j option"
  cj_type :: "'j \<Rightarrow> json_type"
  cj_size :: "'j \<Rightarrow> nat"
  cj_nth :: "'j \<Rightarrow> nat \<Rightarrow> 'j option"
  cj_get :: "'j \<Rightarrow> string \<Rightarrow> 'j option"
  cj_get_exact :: "'j \<Rightarrow> string \<Rightarrow> 'j option"
  cj_valuedouble :: "'j \<Rightarrow> int"
  cj_valuestring :: "'j \<Rightarrow> string"
  cj_istrue :: "'j \<Rightarrow> bool"

text \<open>The documented meaning of the calls, over the JSON values \<open>v j\<close> the objects stand for.\<close>

datatype jvalue = VNum int | VStr string | VBool bool | VArr "jvalue list" | VObj "(string \<times> jvalue) list" | VOther

fun type_of_value :: "jvalue \<Rightarrow> json_type" where
  "type_of_value (VNum _) = JNumber"
| "type_of_value (VStr _) = JString"
| "type_of_value (VBool _) = JBool"
| "type_of_value (VArr _) = JArray"
| "type_of_value (VObj _) = JObject"
| "type_of_value VOther = JOther"

definition json_build_ok :: "'j cjson \<Rightarrow> ('j \<Rightarrow> jvalue) \<Rightarrow> bool" where
  "json_build_ok J v \<longleftrightarrow>
     (\<exists>a. cj_array J = Some a \<and> v a = VArr []) \<and> (\<exists>ob. cj_object J = Some ob \<and> v ob = VObj [])
     \<and> (\<forall>n. v (cj_number J n) = VNum n) \<and> (\<forall>s. v (cj_string J s) = VStr s) \<and> (\<forall>b. v (cj_bool J b) = VBool b)
     \<and> (\<forall>a xs x. v a = VArr xs \<longrightarrow> (\<exists>a'. cj_add_item J a x = Some a' \<and> v a' = VArr (xs @ [v x])))
     \<and> (\<forall>ob kvs k x. v ob = VObj kvs \<longrightarrow> (\<exists>ob'. cj_add_member J k x ob = Some ob' \<and> v ob' = VObj (kvs @ [(k, v x)])))"

definition json_read_ok :: "'j cjson \<Rightarrow> ('j \<Rightarrow> jvalue) \<Rightarrow> bool" where
  "json_read_ok J v \<longleftrightarrow>
     (\<forall>j. cj_type J j = type_of_value (v j))
     \<and> (\<forall>j n. v j = VNum n \<longrightarrow> cj_valuedouble J j = n)
     \<and> (\<forall>j s. v j = VStr s \<longrightarrow> cj_valuestring J j = s)
     \<and> (\<forall>j b. v j = VBool b \<longrightarrow> cj_istrue J j = b)
     \<and> (\<forall>j xs. v j = VArr xs \<longrightarrow> cj_size J j = length xs)
     \<and> (\<forall>j xs i. v j = VArr xs \<longrightarrow> i < length xs \<longrightarrow> (\<exists>y. cj_nth J j i = Some y \<and> v y = xs ! i))
     \<and> (\<forall>j kvs. v j = VObj kvs \<longrightarrow> cj_size J j = length kvs)"

text \<open>
  Members are found by name. The library ignores the case of the name; for the objects of this
  code, whose member names are distinct words in lower case, that makes no difference.
\<close>

definition json_get_ok :: "'j cjson \<Rightarrow> ('j \<Rightarrow> jvalue) \<Rightarrow> string list \<Rightarrow> bool" where
  "json_get_ok J v names \<longleftrightarrow>
     (\<forall>j kvs k. v j = VObj kvs \<longrightarrow> map fst kvs = names \<longrightarrow> k \<in> set names \<longrightarrow>
        (\<exists>y. cj_get J j k = Some y \<and> Some (v y) = map_of kvs k))"

text \<open>The text a value is printed to is parsed to that value.\<close>

definition json_text_ok :: "'j cjson \<Rightarrow> ('j \<Rightarrow> jvalue) \<Rightarrow> jvalue \<Rightarrow> bool" where
  "json_text_ok J v x \<longleftrightarrow> 
     (\<forall>j. v j = x \<longrightarrow>
        (\<exists>s j'. cj_print J j = Some s \<and> CHR 0x00 \<notin> set s \<and> cj_parse J s = Some j' \<and> v j' = x))"

section \<open>The identifiers of a USB driver\<close>

text \<open>The library takes C strings, which end at the first NUL.\<close>

definition c_str :: "string \<Rightarrow> string" where
  "c_str s = takeWhile (\<lambda>c. c \<noteq> CHR 0x00) s"

lemma c_str_id [simp]: "CHR 0x00 \<notin> set s \<Longrightarrow> c_str s = s"
  by (auto simp: c_str_def takeWhile_eq_all_conv)

fun add_numbers :: "'j cjson \<Rightarrow> u16 list \<Rightarrow> 'j \<Rightarrow> 'j option" where
  "add_numbers J [] a = Some a"
| "add_numbers J (x # xs) a =
     (case cj_add_item J a (cj_number J (uint x)) of None \<Rightarrow> None | Some a \<Rightarrow> add_numbers J xs a)"

definition SetArrayToObj :: "'j cjson \<Rightarrow> 'j \<Rightarrow> string \<Rightarrow> u16 list \<Rightarrow> 'j option" where
  "SetArrayToObj J ob key arr =
     (case cj_array J of None \<Rightarrow> None
      | Some a \<Rightarrow>
          (case add_numbers J arr a of None \<Rightarrow> None
           | Some a \<Rightarrow> cj_add_member J key a ob))"

text \<open>
  The conversion of a number outside the range of \<open>uint16_t\<close> has no defined result.
\<close>

fun GetItems :: "'j cjson \<Rightarrow> 'j \<Rightarrow> nat \<Rightarrow> nat \<Rightarrow> u16 list \<Rightarrow> u16 list option res" where
  "GetItems J item i 0 arr = Inr (Some arr)"
| "GetItems J item i (Suc n) arr =
     (case cj_nth J item i of None \<Rightarrow> Inr None
      | Some it \<Rightarrow>
          if cj_type J it \<noteq> JNumber then Inr None
          else if cj_valuedouble J it < 0 \<or> cj_valuedouble J it > 65535 then Inl Bad_cast
          else GetItems J item (Suc i) n (arr @ [of_int (cj_valuedouble J it)]))"

definition GetObjectItem :: "'j cjson \<Rightarrow> 'j \<Rightarrow> string \<Rightarrow> u16 list option res" where
  "GetObjectItem J jsonObj key =
     (case cj_get J jsonObj key of None \<Rightarrow> Inr None
      | Some item \<Rightarrow>
          if cj_type J item \<noteq> JArray then Inr None
          else GetItems J item 0 (cj_size J item) [])"

text \<open>The text is assigned to a string without a check for null.\<close>

definition UsbDriverInfo_Serialize :: "'j cjson \<Rightarrow> usb_driver_ids \<Rightarrow> (UsbErrCode \<times> string) res" where
  "UsbDriverInfo_Serialize J d =
     (case cj_object J of None \<Rightarrow> Inr (EDM_ERR_JSON_OBJ_ERR, [])
      | Some root \<Rightarrow>
     (case SetArrayToObj J root ''pids'' (ud_pids d) of None \<Rightarrow> Inr (EDM_ERR_JSON_OBJ_ERR, [])
      | Some root \<Rightarrow>
     (case SetArrayToObj J root ''vids'' (ud_vids d) of None \<Rightarrow> Inr (EDM_ERR_JSON_OBJ_ERR, [])
      | Some root \<Rightarrow>
     (case cj_print J root of None \<Rightarrow> Inl Null_deref
      | Some s \<Rightarrow> Inr (EDM_OK, s)))))"

definition UsbDriverInfo_UnSerialize ::
  "'j cjson \<Rightarrow> string \<Rightarrow> usb_driver_ids \<Rightarrow> (UsbErrCode \<times> usb_driver_ids) res" where
  "UsbDriverInfo_UnSerialize J driverStr d =
     (case cj_parse J (c_str driverStr) of None \<Rightarrow> Inr (EDM_ERR_JSON_PARSE_FAIL, d)
      | Some jsonObj \<Rightarrow>
          if cj_size J jsonObj = 0 then Inr (EDM_ERR_JSON_PARSE_FAIL, d)
          else
            bindE (GetObjectItem J jsonObj ''pids'') (\<lambda>r.
              case r of None \<Rightarrow> Inr (EDM_ERR_JSON_OBJ_ERR, d)
              | Some pids \<Rightarrow>
                  bindE (GetObjectItem J jsonObj ''vids'') (\<lambda>r.
                    case r of None \<Rightarrow> Inr (EDM_ERR_JSON_OBJ_ERR, d)
                    | Some vids \<Rightarrow> Inr (EDM_OK, d\<lparr>ud_pids := pids, ud_vids := vids\<rparr>))))"

section \<open>The identifiers in the metadata of a package\<close>

definition is_space :: "char \<Rightarrow> bool" where
  "is_space c \<longleftrightarrow> (let n = of_char c :: int in n = 32 \<or> (9 \<le> n \<and> n \<le> 13))"

definition hex_digit :: "char \<Rightarrow> int option" where
  "hex_digit c =
     (let n = of_char c :: int in
      if 48 \<le> n \<and> n \<le> 57 then Some (n - 48)
      else if 97 \<le> n \<and> n \<le> 102 then Some (n - 87)
      else if 65 \<le> n \<and> n \<le> 70 then Some (n - 55)
      else None)"

fun hex_value :: "int \<Rightarrow> string \<Rightarrow> int" where
  "hex_value acc [] = acc"
| "hex_value acc (c # s) = (case hex_digit c of None \<Rightarrow> acc | Some d \<Rightarrow> hex_value (16 * acc + d) s)"

text \<open>
  \<open>stream >> num\<close> on an \<open>int\<close> with the flag \<open>hex\<close>: leading white space is skipped; when nothing
  is left the variable keeps its value (None); otherwise it becomes the longest hexadecimal
  prefix with its sign, 0 when there is none, and the nearest bound when it does not fit.
\<close>

definition skip_sign :: "string \<Rightarrow> bool \<times> string" where
  "skip_sign s =
     (case s of [] \<Rightarrow> (False, s)
      | c # r \<Rightarrow> if c = CHR ''-'' then (True, r) else if c = CHR ''+'' then (False, r) else (False, s))"

definition skip_0x :: "string \<Rightarrow> string" where
  "skip_0x s =
     (case s of a # b # r \<Rightarrow> if a = CHR ''0'' \<and> (b = CHR ''x'' \<or> b = CHR ''X'') then r else s | _ \<Rightarrow> s)"

definition clamp_i32 :: "int \<Rightarrow> int" where
  "clamp_i32 v = (if v > 2147483647 then 2147483647 else if v < - 2147483648 then - 2147483648 else v)"

definition read_hex :: "string \<Rightarrow> int option" where
  "read_hex s =
     (let s = dropWhile is_space s in
      if s = [] then None
      else
        let (neg, s) = skip_sign s;
            v = hex_value 0 (skip_0x s) in
        Some (clamp_i32 (if neg then - v else v)))"

text \<open>The lines of \<open>getline\<close> with the separator ','. A final empty one is not delivered.\<close>

fun comma_lines :: "string \<Rightarrow> string list" where
  "comma_lines [] = []"
| "comma_lines (c # s) =
     (if c = CHR '','' then [] # comma_lines s
      else case comma_lines s of [] \<Rightarrow> [[c]] | t # ts \<Rightarrow> (c # t) # ts)"

text \<open>\<open>num\<close> is not initialised: None until the first line that holds something.\<close>

fun ParseLines :: "int option \<Rightarrow> string list \<Rightarrow> u16 list \<Rightarrow> u16 list res" where
  "ParseLines num [] ret = Inr ret"
| "ParseLines num (s # ss) ret =
     (let num = (case read_hex s of None \<Rightarrow> num | Some v \<Rightarrow> Some v) in
      case num of None \<Rightarrow> Inl Uninit_read
      | Some v \<Rightarrow> ParseLines num ss (ret @ [of_int v]))"

definition ParseCommaStrToVectorUint16 :: "string \<Rightarrow> u16 list res" where
  "ParseCommaStrToVectorUint16 str = ParseLines None (comma_lines str) []"

text \<open>The metadata is a \<open>std::map\<close>: a list in the order of its keys.\<close>

fun ParseMetadata :: "(string \<Rightarrow> string) \<Rightarrow> (string \<times> string) list \<Rightarrow> usb_driver_ids \<Rightarrow> usb_driver_ids res" where
  "ParseMetadata lower [] d = Inr d"
| "ParseMetadata lower ((k, x) # metadata) d =
     (if lower k = ''pid'' then
        bindE (ParseCommaStrToVectorUint16 x) (\<lambda>ids. ParseMetadata lower metadata (d\<lparr>ud_pids := ids\<rparr>))
      else if lower k = ''vid'' then
        bindE (ParseCommaStrToVectorUint16 x) (\<lambda>ids. ParseMetadata lower metadata (d\<lparr>ud_vids := ids\<rparr>))
      else ParseMetadata lower metadata d)"

definition no_ids :: usb_driver_ids where
  "no_ids = \<lparr>ud_pids = [], ud_vids = []\<rparr>"

definition ParseDriverInfo :: "(string \<Rightarrow> string) \<Rightarrow> (string \<times> string) list \<Rightarrow> usb_driver_ids res" where
  "ParseDriverInfo lower metadata = ParseMetadata lower metadata no_ids"

section \<open>Matching\<close>

text \<open>
  The device is cast to a USB device after its bus type has been checked. The driver is also
  serialised, into a string that is not used.
\<close>

definition UsbMatchDriver :: "(string \<Rightarrow> string) \<Rightarrow> driver_info \<Rightarrow> device_info \<Rightarrow> bool res" where
  "UsbMatchDriver lower driver device =
     (if lower (dr_bus driver) \<noteq> ''usb'' then Inr False
      else if di_busType device \<noteq> BUS_TYPE_USB then Inr False
      else case dr_ext driver of None \<Rightarrow> Inr False
      | Some ids \<Rightarrow>
          (case di_usb device of None \<Rightarrow> Inl Oob_read
           | Some dev \<Rightarrow>
               if uf_idVendor dev \<notin> set (ud_vids ids) then Inr False
               else if uf_idProduct dev \<notin> set (ud_pids ids) then Inr False
               else Inr True))"

section \<open>The registry of bus extensions\<close>

record 'x bus_core =
  bc_busExtensions :: "(u32 \<times> 'x option) list"

definition MAX_BUS_EXTENSIONS :: nat where "MAX_BUS_EXTENSIONS = 100"

definition Register :: "u32 \<Rightarrow> 'x option \<Rightarrow> 'x bus_core \<Rightarrow> UsbErrCode \<times> 'x bus_core" where
  "Register busType busExtension core =
     (if length (bc_busExtensions core) = MAX_BUS_EXTENSIONS then (EDM_NOK, core)
      else if map_of (bc_busExtensions core) busType \<noteq> None then (EDM_OK, core)
      else (EDM_OK, core\<lparr>bc_busExtensions := bc_busExtensions core @ [(busType, busExtension)]\<rparr>))"

definition busTypeMap :: "(string \<times> u32) list" where
  "busTypeMap = [(''usb'', BUS_TYPE_USB)]"

definition GetBusTypeByName :: "(string \<Rightarrow> string) \<Rightarrow> string \<Rightarrow> u32" where
  "GetBusTypeByName lower busName =
     (case map_of busTypeMap (lower busName) of None \<Rightarrow> BUS_TYPE_INVALID | Some t \<Rightarrow> t)"

definition GetBusExtensionByName :: "(string \<Rightarrow> string) \<Rightarrow> 'x bus_core \<Rightarrow> string \<Rightarrow> 'x option" where
  "GetBusExtensionByName lower core busName =
     (let busType = GetBusTypeByName lower busName in
      if busType \<le> BUS_TYPE_INVALID \<or> busType \<ge> BUS_TYPE_MAX then None
      else case map_of (bc_busExtensions core) busType of None \<Rightarrow> None | Some x \<Rightarrow> x)"

section \<open>The USB extension\<close>

text \<open>
  The extension keeps proxies of the host and of the driver development kit service, which it
  asks for when it needs them; \<open>usb_services\<close> says whether they can be had.
\<close>

record usb_bus_extension =
  ub_subScriber :: bool
  ub_usbInterface :: bool
  ub_recipient :: bool
  ub_iUsbDdk :: bool

definition new_usb_bus_extension :: usb_bus_extension where
  "new_usb_bus_extension =
     \<lparr>ub_subScriber = False, ub_usbInterface = False, ub_recipient = False, ub_iUsbDdk = False\<rparr>"

record usb_services =
  us_passThrough :: bool
  us_usbInterface :: bool
  us_deathRecipient :: bool
  us_iUsbDdk :: bool

text \<open>The result says whether there is a callback object; it holds the proxy of the extension.\<close>

definition UsbAcquireDriverChangeCallback :: "usb_services \<Rightarrow> usb_bus_extension \<Rightarrow> bool \<times> usb_bus_extension" where
  "UsbAcquireDriverChangeCallback S u =
     (if \<not> ub_iUsbDdk u then
        if \<not> us_iUsbDdk S then (False, u) else (True, u\<lparr>ub_iUsbDdk := True\<rparr>)
      else (True, u))"

text \<open>
  The result lists whether the subscriber was bound to the host. In the build without pass
  through the proxy stays set when its death recipient is refused, so that the next call goes on.
\<close>

definition UsbSetDevChangeCallback ::
  "usb_services \<Rightarrow> usb_bus_extension \<Rightarrow> UsbErrCode \<times> bool \<times> usb_bus_extension" where
  "UsbSetDevChangeCallback S u =
     (let host =
        (if ub_usbInterface u then Inr u
         else if \<not> us_usbInterface S then Inl (EDM_ERR_INVALID_OBJECT, u)
         else if us_passThrough S then Inr (u\<lparr>ub_usbInterface := True\<rparr>)
         else
           let u = u\<lparr>ub_usbInterface := True, ub_recipient := True\<rparr> in
           if \<not> us_deathRecipient S then Inl (EDM_NOK, u) else Inr u) in
      case host of Inl (e, u) \<Rightarrow> (e, False, u)
      | Inr u \<Rightarrow>
          if \<not> ub_iUsbDdk u \<and> \<not> us_iUsbDdk S then (EDM_ERR_INVALID_OBJECT, False, u)
          else (EDM_OK, True, u\<lparr>ub_iUsbDdk := True, ub_subScriber := True\<rparr>))"

text \<open>
  The core goes through every extension, whatever the others answer; a null extension would be
  dereferenced.
\<close>

fun InitExtensions ::
  "('x \<Rightarrow> UsbErrCode \<times> 'x) \<Rightarrow> (u32 \<times> 'x option) list \<Rightarrow> UsbErrCode \<Rightarrow> (UsbErrCode \<times> (u32 \<times> 'x option) list) res" where
  "InitExtensions set_cb [] ret = Inr (ret, [])"
| "InitExtensions set_cb ((t, x) # xs) ret =
     (case x of None \<Rightarrow> Inl Null_deref
      | Some u \<Rightarrow>
          (case set_cb u of (r, u) \<Rightarrow>
             bindE (InitExtensions set_cb xs (if r \<noteq> EDM_OK then EDM_NOK else ret))
               (\<lambda>(ret, xs). Inr (ret, (t, Some u) # xs))))"

definition Init :: "('x \<Rightarrow> UsbErrCode \<times> 'x) \<Rightarrow> 'x bus_core \<Rightarrow> (UsbErrCode \<times> 'x bus_core) res" where
  "Init set_cb core =
     bindE (InitExtensions set_cb (bc_busExtensions core) EDM_OK)
       (\<lambda>(ret, xs). Inr (ret, core\<lparr>bc_busExtensions := xs\<rparr>))"

definition AcquireDriverChangeCallback ::
  "('x \<Rightarrow> bool \<times> 'x) \<Rightarrow> u32 \<Rightarrow> 'x bus_core \<Rightarrow> bool \<times> 'x bus_core" where
  "AcquireDriverChangeCallback acquire busType core =
     (case map_of (bc_busExtensions core) busType of
        None \<Rightarrow> (False, core)
      | Some None \<Rightarrow> (False, core)
      | Some (Some u) \<Rightarrow>
          (case acquire u of (cb, u) \<Rightarrow>
             (cb, core\<lparr>bc_busExtensions := al_put busType (Some u) (bc_busExtensions core)\<rparr>)))"

section \<open>The driver change callback\<close>

text \<open>What it tells the driver development kit service.\<close>

datatype ddk_call = DdkUpdateDriverInfo string "u16 list" | DdkRemoveDriverInfo string

definition OnDriverMatched :: "bool \<Rightarrow> driver_info option \<Rightarrow> ddk_call list" where
  "OnDriverMatched iUsbDdk driverInfo =
     (case driverInfo of None \<Rightarrow> []
      | Some d \<Rightarrow>
          if \<not> iUsbDdk then []
          else case dr_ext d of None \<Rightarrow> []
          | Some ids \<Rightarrow> [DdkUpdateDriverInfo (dr_driverUid d) (ud_vids ids)])"

definition OnDriverRemoved :: "bool \<Rightarrow> driver_info option \<Rightarrow> ddk_call list" where
  "OnDriverRemoved iUsbDdk driverInfo =
     (case driverInfo of None \<Rightarrow> []
      | Some d \<Rightarrow> if \<not> iUsbDdk then [] else [DdkRemoveDriverInfo (dr_driverUid d)])"

end
