(* ===== verification/Json_Instance.thy ===== *)
theory Json_Instance
  imports Bus_Core
begin

text \<open>
  An instance of the JSON library on which the witnesses run: the objects are the values
  themselves, and the text is a prefix notation with lengths in unary.
\<close>

definition unary :: "nat \<Rightarrow> string" where
  "unary n = replicate n (CHR ''1'') @ ''0''"

fun print_value :: "jvalue \<Rightarrow> string" where
  "print_value (VNum n) = CHR ''n'' # unary (nat n)"
| "print_value (VStr s) = CHR ''s'' # unary (length s) @ s"
| "print_value (VBool b) = (if b then ''t'' else ''f'')"
| "print_value (VArr xs) = CHR ''a'' # unary (length xs) @ concat (map print_value xs)"
| "print_value (VObj kvs) =
     CHR ''o'' # unary (length kvs) @ concat (map (\<lambda>(k, x). unary (length k) @ k @ print_value x) kvs)"
| "print_value VOther = ''x''"

fun read_unary :: "string \<Rightarrow> nat \<times> string" where
  "read_unary [] = (0, [])"
| "read_unary (c # s) = (if c = CHR ''1'' then (case read_unary s of (n, r) \<Rightarrow> (Suc n, r)) else (0, s))"

fun parse_many :: "(string \<Rightarrow> ('a \<times> string) option) \<Rightarrow> nat \<Rightarrow> string \<Rightarrow> ('a list \<times> string) option" where
  "parse_many p 0 s = Some ([], s)"
| "parse_many p (Suc n) s =
     (case p s of None \<Rightarrow> None
      | Some (x, s) \<Rightarrow> (case parse_many p n s of None \<Rightarrow> None | Some (xs, s) \<Rightarrow> Some (x # xs, s)))"

text \<open>The first argument bounds the depth of the value.\<close>

fun parse_value :: "nat \<Rightarrow> string \<Rightarrow> (jvalue \<times> string) option" where
  "parse_value 0 s = None"
| "parse_value (Suc d) [] = None"
| "parse_value (Suc d) (c # s) =
     (if c = CHR ''n'' then (case read_unary s of (n, s) \<Rightarrow> Some (VNum (int n), s))
      else if c = CHR ''s'' then (case read_unary s of (n, s) \<Rightarrow> Some (VStr (take n s), drop n s))
      else if c = CHR ''t'' then Some (VBool True, s)
      else if c = CHR ''f'' then Some (VBool False, s)
      else if c = CHR ''a'' then
        (case read_unary s of (n, s) \<Rightarrow>
           (case parse_many (parse_value d) n s of None \<Rightarrow> None | Some (xs, s) \<Rightarrow> Some (VArr xs, s)))
      else if c = CHR ''o'' then
        (case read_unary s of (n, s) \<Rightarrow>
           (case parse_many (\<lambda>s. case read_unary s of (k, s) \<Rightarrow>
                    (case parse_value d (drop k s) of None \<Rightarrow> None | Some (x, r) \<Rightarrow> Some ((take k s, x), r))) n s of
              None \<Rightarrow> None | Some (kvs, s) \<Rightarrow> Some (VObj kvs, s)))
      else if c = CHR ''x'' then Some (VOther, s)
      else None)"

definition value_json :: "jvalue cjson" where
  "value_json =
     \<lparr> cj_array = Some (VArr []), cj_object = Some (VObj []), cj_number = VNum, cj_string = VStr, cj_bool = VBool,
       cj_add_item = \<lambda>a x. case a of VArr xs \<Rightarrow> Some (VArr (xs @ [x])) | _ \<Rightarrow> None,
       cj_add_member = \<lambda>k x ob. case ob of VObj kvs \<Rightarrow> Some (VObj (kvs @ [(k, x)])) | _ \<Rightarrow> None,
       cj_print = \<lambda>j. Some (print_value j), cj_parse = \<lambda>s. map_option fst (parse_value 3 s),
       cj_type = type_of_value,
       cj_size = \<lambda>j. case j of VArr xs \<Rightarrow> length xs | VObj kvs \<Rightarrow> length kvs | _ \<Rightarrow> 0,
       cj_nth = \<lambda>j i. case j of VArr xs \<Rightarrow> if i < length xs then Some (xs ! i) else None | _ \<Rightarrow> None,
       cj_get = \<lambda>j k. case j of VObj kvs \<Rightarrow> map_of kvs k | _ \<Rightarrow> None,
       cj_get_exact = \<lambda>j k. case j of VObj kvs \<Rightarrow> map_of kvs k | _ \<Rightarrow> None,
       cj_valuedouble = \<lambda>j. case j of VNum n \<Rightarrow> n | _ \<Rightarrow> 0,
       cj_valuestring = \<lambda>j. case j of VStr s \<Rightarrow> s | _ \<Rightarrow> [],
       cj_istrue = \<lambda>j. j = VBool True \<rparr>"

lemma value_json_build: "json_build_ok value_json (\<lambda>j. j)"
  by (simp add: json_build_ok_def value_json_def)

lemma value_json_read: "json_read_ok value_json (\<lambda>j. j)"
  by (simp add: json_read_ok_def value_json_def)

lemma value_json_get: "json_get_ok value_json (\<lambda>j. j) names"
proof -
  have "\<exists>y. map_of kvs k = Some y" if "map fst kvs = names" "k \<in> set names" for kvs :: "(string \<times> jvalue) list" and k
    using that by (metis image_set map_of_eq_None_iff not_None_eq)
  then show ?thesis unfolding json_get_ok_def value_json_def by (simp, metis)
qed

lemma value_json_text:
  "CHR 0x00 \<notin> set (print_value x) \<Longrightarrow> parse_value 3 (print_value x) = Some (x, []) \<Longrightarrow> json_text_ok value_json (\<lambda>j. j) x"
  by (simp add: json_text_ok_def value_json_def)

text \<open>Lower case of the letters of ASCII.\<close>

definition ascii_lower :: "string \<Rightarrow> string" where
  "ascii_lower = map (\<lambda>c. let n = of_char c :: int in if 65 \<le> n \<and> n \<le> 90 then char_of (n + 32) else c)"

definition usb_core :: "usb_bus_extension bus_core" where
  "usb_core = snd (Register BUS_TYPE_USB (Some new_usb_bus_extension) \<lparr>bc_busExtensions = []\<rparr>)"

lemma usb_core_extensions: "bc_busExtensions usb_core = [(1, Some new_usb_bus_extension)]"
  by (simp add: usb_core_def Register_def MAX_BUS_EXTENSIONS_def)

end
