(* ===== verification/Usb_Match.thy ===== *)
theory Usb_Match
  imports Json_Instance
begin

text \<open>
  From the metadata of a driver package to the devices the driver matches, and the registry of
  bus extensions.
\<close>

section \<open>Written identifiers\<close>

text \<open>An identifier as packages write it: four hexadecimal digits, with or without 0x.\<close>

definition hex_char :: "int \<Rightarrow> char" where
  "hex_char d = char_of (if d < 10 then 48 + d else 87 + d)"

definition hex4 :: "u16 \<Rightarrow> string" where
  "hex4 x =
     [hex_char (uint x div 4096 mod 16), hex_char (uint x div 256 mod 16), hex_char (uint x div 16 mod 16), hex_char (uint x mod 16)]"

definition hex_token :: "bool \<times> u16 \<Rightarrow> string" where
  "hex_token t = (if fst t then ''0x'' else []) @ hex4 (snd t)"

fun join_comma :: "string list \<Rightarrow> string" where
  "join_comma [] = []"
| "join_comma [s] = s"
| "join_comma (s # ss) = s @ CHR '','' # join_comma ss"

definition hex_list :: "(bool \<times> u16) list \<Rightarrow> string" where
  "hex_list ts = join_comma (map hex_token ts)"

lemma below_16_cases:
  assumes "0 \<le> (d::int)" and "d < 16"
  shows "d = 0 \<or> d = 1 \<or> d = 2 \<or> d = 3 \<or> d = 4 \<or> d = 5 \<or> d = 6 \<or> d = 7 \<or> d = 8 \<or> d = 9 \<or> d = 10
    \<or> d = 11 \<or> d = 12 \<or> d = 13 \<or> d = 14 \<or> d = 15"
  using assms by presburger

lemma of_hex_char:
  "0 \<le> d \<Longrightarrow> d < 16 \<Longrightarrow> (of_char (hex_char d) :: int) = (if d < 10 then 48 + d else 87 + d)"
  by (drule (1) below_16_cases) (elim disjE; simp add: hex_char_def)

lemma hex_digit_hex_char [simp]: "0 \<le> d \<Longrightarrow> d < 16 \<Longrightarrow> hex_digit (hex_char d) = Some d"
  by (auto simp: hex_digit_def of_hex_char Let_def)

lemma hex_char_neq:
  assumes "0 \<le> d" and "d < 16"
  shows "hex_char d \<noteq> CHR '',''" "\<not> is_space (hex_char d)" "hex_char d \<noteq> CHR ''-''" "hex_char d \<noteq> CHR ''+''"
    "hex_char d \<noteq> CHR ''x''" "hex_char d \<noteq> CHR ''X''"
proof -
  have o1: "(of_char (hex_char d) :: int) = (if d < 10 then 48 + d else 87 + d)" by (rule of_hex_char [OF assms])
  show "\<not> is_space (hex_char d)" using assms o1 by (auto simp: is_space_def Let_def split: if_splits)
  show "hex_char d \<noteq> CHR '',''" using o1 assms by (auto split: if_splits)
  show "hex_char d \<noteq> CHR ''-''" using o1 assms by (auto split: if_splits)
  show "hex_char d \<noteq> CHR ''+''" using o1 assms by (auto split: if_splits)
  show "hex_char d \<noteq> CHR ''x''" using o1 assms by (auto split: if_splits)
  show "hex_char d \<noteq> CHR ''X''" using o1 assms by (auto split: if_splits)
qed

lemma digit_range: "0 \<le> (n :: int) mod 16" "n mod 16 < 16"
  by simp_all

lemma digits_sum:
  "a * 16 + r0 = n \<Longrightarrow> b * 16 + r1 = a \<Longrightarrow> c * 16 + r2 = b \<Longrightarrow> ((c * 16 + r2) * 16 + r1) * 16 + r0 = (n :: int)"
  by simp

lemma four_digits:
  assumes "0 \<le> (n::int)" and "n < 65536"
  shows "((n div 4096 mod 16 * 16 + n div 256 mod 16) * 16 + n div 16 mod 16) * 16 + n mod 16 = n"
proof -
  have d: "n div 256 = n div 16 div 16" "n div 4096 = n div 16 div 16 div 16"
    by (simp_all flip: zdiv_zmult2_eq)
  have "n div 4096 * 4096 + n mod 4096 = n" "0 \<le> n mod 4096" by simp_all
  then have "n div 4096 < 16" using assms(2) by linarith
  moreover have "0 \<le> n div 4096" using assms by (simp add: pos_imp_zdiv_nonneg_iff)
  ultimately have m: "n div 4096 mod 16 = n div 4096" by simp
  have q: "a div 16 * 16 + a mod 16 = a" for a :: int by simp
  show ?thesis
    unfolding m unfolding d by (rule digits_sum [OF q [of n] q [of "n div 16"] q [of "n div 16 div 16"]])
qed

lemma hex_value_digits:
  assumes "0 \<le> a" "a < 16" "0 \<le> b" "b < 16" "0 \<le> c" "c < 16" "0 \<le> d" "d < 16"
  shows "hex_value 0 [hex_char a, hex_char b, hex_char c, hex_char d] = ((a * 16 + b) * 16 + c) * 16 + d"
  using assms by (simp add: mult.commute)

lemma hex_value_hex4: "hex_value 0 (hex4 x) = uint x"
proof -
  have b: "0 \<le> uint x" "uint x < 65536" using uint_lt2p [of x] by simp_all
  show ?thesis
    unfolding hex4_def hex_value_digits [OF digit_range digit_range digit_range digit_range] by (rule four_digits [OF b])
qed

lemma read_hex_token [simp]: "read_hex (hex_token t) = Some (uint (snd t))"
proof -
  obtain b x where t: "t = (b, x)" by (cases t)
  have "uint x < 65536" using uint_lt2p [of x] by simp
  then have r: "\<not> 2147483647 < uint x" "\<not> uint x < - 2147483648" using uint_nonneg [of x] by linarith+
  obtain c1 c2 c3 c4 where h: "hex4 x = [c1, c2, c3, c4]" "\<not> is_space c1" "c1 \<noteq> CHR ''-''" "c1 \<noteq> CHR ''+''"
    "c2 \<noteq> CHR ''x''" "c2 \<noteq> CHR ''X''"
    using hex_char_neq [OF digit_range] by (simp add: hex4_def)
  have v: "hex_value 0 [c1, c2, c3, c4] = uint x" using hex_value_hex4 [of x] h(1) by simp
  have z: "\<not> is_space (CHR ''0'')" by (simp add: is_space_def)
  show ?thesis
  proof (cases b)
    case True
    then show ?thesis using h v z r
      by (simp add: t hex_token_def read_hex_def skip_sign_def skip_0x_def clamp_i32_def Let_def del: hex_value.simps)
  next
    case False
    then show ?thesis using h v r
      by (simp add: t hex_token_def read_hex_def skip_sign_def skip_0x_def clamp_i32_def Let_def del: hex_value.simps)
  qed
qed

lemma hex_token_comma: "CHR '','' \<notin> set (hex_token t)"
  using hex_char_neq(1) [OF digit_range, THEN not_sym] by (simp add: hex_token_def hex4_def)

lemma hex_token_not_Nil: "hex_token t \<noteq> []"
  by (simp add: hex_token_def hex4_def)

section \<open>Lines\<close>

lemma comma_lines_Cons: "CHR '','' \<notin> set s \<Longrightarrow> comma_lines (s @ CHR '','' # r) = s # comma_lines r"
  by (induction s) auto

lemma comma_lines_single: "CHR '','' \<notin> set s \<Longrightarrow> s \<noteq> [] \<Longrightarrow> comma_lines s = [s]"
proof (induction s)
  case (Cons c s)
  then show ?case by (cases "s = []") auto
qed simp

lemma comma_lines_join:
  "\<forall>s \<in> set ss. CHR '','' \<notin> set s \<and> s \<noteq> [] \<Longrightarrow> comma_lines (join_comma ss) = ss"
  by (induction ss rule: join_comma.induct) (auto simp: comma_lines_single comma_lines_Cons)

lemma ParseLines_tokens: "ParseLines num (map hex_token ts) ret = Inr (ret @ map snd ts)"
  by (induction ts arbitrary: num ret) auto

lemma ParseComma_hex_list [simp]: "ParseCommaStrToVectorUint16 (hex_list ts) = Inr (map snd ts)"
proof -
  have "comma_lines (hex_list ts) = map hex_token ts"
    using hex_token_comma hex_token_not_Nil unfolding hex_list_def by (intro comma_lines_join) auto
  then show ?thesis by (simp add: ParseCommaStrToVectorUint16_def ParseLines_tokens)
qed

section \<open>Metadata\<close>

definition entries :: "(string \<Rightarrow> string) \<Rightarrow> string \<Rightarrow> (string \<times> string) list \<Rightarrow> string list" where
  "entries lower key metadata = map snd (filter (\<lambda>(k, _). lower k = key) metadata)"

lemma ParseMetadata_entries:
  "entries lower ''pid'' md = map hex_list pss \<Longrightarrow> entries lower ''vid'' md = map hex_list vss \<Longrightarrow>
   ParseMetadata lower md d = Inr \<lparr>ud_pids = last (ud_pids d # map (map snd) pss), ud_vids = last (ud_vids d # map (map snd) vss)\<rparr>"
proof (induction lower md d arbitrary: pss vss rule: ParseMetadata.induct)
  case (1 lower d)
  then show ?case by (simp add: entries_def)
next
  case (2 lower k x md d)
  consider "lower k = ''pid''" | "lower k = ''vid''" | "lower k \<noteq> ''pid''" "lower k \<noteq> ''vid''" by blast
  then show ?case
  proof cases
    case 1
    then obtain ts tss where p: "pss = ts # tss" "x = hex_list ts" "entries lower ''pid'' md = map hex_list tss"
      using "2.prems"(1) by (cases pss) (auto simp: entries_def)
    have q: "entries lower ''vid'' md = map hex_list vss" using "2.prems"(2) 1 by (simp add: entries_def)
    have c: "ParseCommaStrToVectorUint16 x = Inr (map snd ts)" using p(2) by simp
    show ?thesis using "2.IH"(1) [OF 1 c p(3) q] 1 c p(1) by simp
  next
    case 2
    then obtain ts tss where p: "vss = ts # tss" "x = hex_list ts" "entries lower ''vid'' md = map hex_list tss"
      using "2.prems"(2) by (cases vss) (auto simp: entries_def)
    have q: "entries lower ''pid'' md = map hex_list pss" using "2.prems"(1) 2 by (simp add: entries_def)
    have n: "lower k \<noteq> ''pid''" using 2 by simp
    have c: "ParseCommaStrToVectorUint16 x = Inr (map snd ts)" using p(2) by simp
    show ?thesis using "2.IH"(2) [OF n 2 c q p(3)] n 2 c p(1) by simp
  next
    case 3
    then show ?thesis using "2.IH"(3) [OF 3] "2.prems" by (simp add: entries_def)
  qed
qed

text \<open>
  C9: a driver whose package lists its product and vendor identifiers, each as hexadecimal
  numbers separated by commas, matches exactly the USB devices whose product is in the one list
  and whose vendor is in the other.
\<close>

theorem metadata_decides_match:
  assumes "entries lower ''pid'' metadata = [hex_list ps]" and "entries lower ''vid'' metadata = [hex_list vs]"
    and "lower (dr_bus driver) = ''usb''" and "di_busType device = BUS_TYPE_USB" and "di_usb device = Some dev"
  shows "\<exists>ids. ParseDriverInfo lower metadata = Inr ids
    \<and> UsbMatchDriver lower (driver\<lparr>dr_ext := Some ids\<rparr>) device
      = Inr (uf_idVendor dev \<in> snd ` set vs \<and> uf_idProduct dev \<in> snd ` set ps)"
proof -
  have "ParseMetadata lower metadata no_ids = Inr \<lparr>ud_pids = map snd ps, ud_vids = map snd vs\<rparr>"
    using ParseMetadata_entries [of lower metadata "[ps]" "[vs]" no_ids] assms(1,2) by simp
  then show ?thesis using assms(3-5) by (simp add: ParseDriverInfo_def UsbMatchDriver_def)
qed

definition sample_usb :: "u16 \<Rightarrow> u16 \<Rightarrow> usb_fields" where
  "sample_usb vid pid =
     \<lparr>uf_interfaceDescList = [], uf_bcdUSB = 0, uf_deviceClass = 0, uf_idVendor = vid, uf_idProduct = pid,
      uf_deviceSubClass = 0, uf_deviceProtocol = 0, uf_snNum = []\<rparr>"

definition sample_usb_device :: "u16 \<Rightarrow> u16 \<Rightarrow> device_info" where
  "sample_usb_device vid pid =
     \<lparr>di_busType = 1, di_busDeviceId = 3, di_description = [], di_usb = Some (sample_usb vid pid)\<rparr>"

definition sample_usb_driver :: driver_info where
  "sample_usb_driver = (new_driver_info ''app'' ''Ext'' [] 100)\<lparr>dr_bus := ''USB''\<rparr>"

lemma sample_entries:
  "entries ascii_lower ''pid'' [(''PID'', ''0x1234,00ab''), (''bus'', ''USB''), (''vid'', ''2207'')]
     = [hex_list [(True, 0x1234), (False, 0xAB)]]"
  "entries ascii_lower ''vid'' [(''PID'', ''0x1234,00ab''), (''bus'', ''USB''), (''vid'', ''2207'')] = [hex_list [(False, 0x2207)]]"
  by code_simp+

theorem metadata_decides_match_witness:
  "\<exists>ids. ParseDriverInfo ascii_lower [(''PID'', ''0x1234,00ab''), (''bus'', ''USB''), (''vid'', ''2207'')] = Inr ids
    \<and> UsbMatchDriver ascii_lower (sample_usb_driver\<lparr>dr_ext := Some ids\<rparr>) (sample_usb_device 0x2207 0xAB) = Inr True"
proof -
  have "ascii_lower (dr_bus sample_usb_driver) = ''usb''" by code_simp
  then show ?thesis
    using metadata_decides_match [OF sample_entries, of sample_usb_driver "sample_usb_device 0x2207 0xAB" "sample_usb 0x2207 0xAB"]
    by (simp add: sample_usb_device_def sample_usb_def)
qed

text \<open>
  a list that starts with a comma makes the code read a variable that was never set, and an
  empty entry later in the list repeats the identifier before it.
\<close>

theorem empty_identifier:
  "ParseCommaStrToVectorUint16 (CHR '','' # s) = Inl Uninit_read
   \<and> ParseCommaStrToVectorUint16 (hex_token t @ '',,'') = Inr [snd t, snd t]"
proof -
  have "comma_lines (hex_token t @ '',,'') = [hex_token t, []]"
    using comma_lines_Cons [OF hex_token_comma [of t], of "'',''"] by simp
  moreover have "read_hex [] = None" by (simp add: read_hex_def)
  ultimately show ?thesis by (simp add: ParseCommaStrToVectorUint16_def)
qed

section \<open>The registry\<close>

lemma map_of_snoc: "t \<notin> fst ` set xs \<Longrightarrow> map_of (xs @ [(t, x)]) = (map_of xs)(t \<mapsto> x)"
  by (induction xs) (auto simp: fun_eq_iff)

definition core_ok :: "'x bus_core \<Rightarrow> bool" where
  "core_ok core \<longleftrightarrow> length (bc_busExtensions core) \<le> MAX_BUS_EXTENSIONS \<and> distinct (map fst (bc_busExtensions core))"

text \<open>
  Registering keeps at most one hundred extensions and one for each bus; the extension that
  was registered first for a bus stays, and no other bus is affected.
\<close>

theorem first_registration_stays:
  assumes "core_ok core"
  shows "core_ok (snd (Register t x core))
    \<and> map_of (bc_busExtensions (snd (Register t x core)))
      = (if map_of (bc_busExtensions core) t = None \<and> length (bc_busExtensions core) < 100
         then (map_of (bc_busExtensions core))(t \<mapsto> x) else map_of (bc_busExtensions core))"
proof (cases "length (bc_busExtensions core) = 100 \<or> map_of (bc_busExtensions core) t \<noteq> None")
  case True
  then show ?thesis using assms by (auto simp: Register_def MAX_BUS_EXTENSIONS_def)
next
  case False
  then have n: "t \<notin> fst ` set (bc_busExtensions core)" by (simp add: map_of_eq_None_iff)
  from False n show ?thesis
    using assms map_of_snoc [OF n] by (auto simp: core_ok_def Register_def MAX_BUS_EXTENSIONS_def simp flip: set_map)
qed

theorem first_registration_stays_witness:
  "map_of (bc_busExtensions (snd (Register 1 None usb_core))) 1 = Some (Some new_usb_bus_extension)"
  using first_registration_stays [of usb_core 1 None]
  by (simp add: core_ok_def usb_core_extensions MAX_BUS_EXTENSIONS_def)

end
