(* ===== verification/Driver_Text.thy ===== *)
theory Driver_Text
  imports Json_Instance
begin

text \<open>
  The text form of a driver, drivers_pkg_manager/driver_info.cpp, and what the text forms of
  drivers and of their identifiers preserve.
\<close>

section \<open>Writing a driver\<close>

text \<open>A member that cannot be added is left out: the result of the call is not looked at.\<close>

definition add_member :: "'j cjson \<Rightarrow> string \<Rightarrow> 'j \<Rightarrow> 'j \<Rightarrow> 'j" where
  "add_member J k x ob = (case cj_add_member J k x ob of None \<Rightarrow> ob | Some ob \<Rightarrow> ob)"

definition AddString :: "'j cjson \<Rightarrow> string \<Rightarrow> string \<Rightarrow> 'j \<Rightarrow> 'j" where
  "AddString J k s = add_member J k (cj_string J (c_str s))"

definition AddBool :: "'j cjson \<Rightarrow> string \<Rightarrow> bool \<Rightarrow> 'j \<Rightarrow> 'j" where
  "AddBool J k b = add_member J k (cj_bool J b)"

definition DriverInfo_Serialize :: "'j cjson \<Rightarrow> driver_info \<Rightarrow> (UsbErrCode \<times> string) res" where
  "DriverInfo_Serialize J d =
     (case dr_ext d of None \<Rightarrow> Inr (EDM_ERR_INVALID_OBJECT, [])
      | Some ext \<Rightarrow>
          bindE (UsbDriverInfo_Serialize J ext) (\<lambda>(_, extInfo).
            case cj_object J of None \<Rightarrow> Inr (EDM_ERR_JSON_OBJ_ERR, [])
            | Some root \<Rightarrow>
                let root = AddString J ''bus'' (dr_bus d) root;
                    root = AddString J ''vendor'' (dr_vendor d) root;
                    root = AddString J ''version'' (dr_version d) root;
                    root = AddString J ''size'' (dr_driverSize d) root;
                    root = AddString J ''description'' (dr_description d) root;
                    root = AddString J ''ext_info'' extInfo root;
                    root = AddBool J ''launch_on_bind'' (dr_launchOnBind d) root;
                    root = AddBool J ''access_allowed'' (dr_accessAllowed d) root in
                case cj_print J root of None \<Rightarrow> Inr (EDM_ERR_JSON_PARSE_FAIL, [])
                | Some str \<Rightarrow> Inr (EDM_OK, str)))"

section \<open>Reading a driver\<close>

definition IsJsonObjValid :: "'j cjson \<Rightarrow> 'j \<Rightarrow> string \<Rightarrow> bool" where
  "IsJsonObjValid J jsonObj member =
     (case cj_get J jsonObj member of None \<Rightarrow> False | Some item \<Rightarrow> cj_type J item = JString)"

definition checkJsonObj :: "'j cjson \<Rightarrow> 'j \<Rightarrow> UsbErrCode" where
  "checkJsonObj J jsonObj =
     (if cj_size J jsonObj = 0 then EDM_ERR_JSON_OBJ_ERR
      else if \<not> IsJsonObjValid J jsonObj ''bus'' \<or> \<not> IsJsonObjValid J jsonObj ''vendor''
        \<or> \<not> IsJsonObjValid J jsonObj ''version'' \<or> \<not> IsJsonObjValid J jsonObj ''ext_info'' then EDM_ERR_JSON_OBJ_ERR
      else EDM_OK)"

definition GetBoolValue :: "'j cjson \<Rightarrow> 'j \<Rightarrow> string \<Rightarrow> bool" where
  "GetBoolValue J jsonObj key =
     (case cj_get J jsonObj key of None \<Rightarrow> False
      | Some item \<Rightarrow> if cj_type J item \<noteq> JBool then False else cj_istrue J item)"

definition GetStringValue :: "'j cjson \<Rightarrow> 'j \<Rightarrow> string \<Rightarrow> string" where
  "GetStringValue J jsonObj key =
     (case cj_get J jsonObj key of None \<Rightarrow> []
      | Some item \<Rightarrow> if cj_type J item \<noteq> JString then [] else cj_valuestring J item)"

text \<open>
  When the identifiers cannot be read the driver keeps the new, empty ones and its other fields
  do not change.
\<close>

definition DriverInfo_UnSerialize ::
  "'j cjson \<Rightarrow> (string \<Rightarrow> string) \<Rightarrow> 'x bus_core \<Rightarrow> string \<Rightarrow> driver_info \<Rightarrow> (UsbErrCode \<times> driver_info) res" where
  "DriverInfo_UnSerialize J lower core str d =
     (case cj_parse J (c_str str) of None \<Rightarrow> Inr (EDM_ERR_JSON_PARSE_FAIL, d)
      | Some jsonObj \<Rightarrow>
          let retCode = checkJsonObj J jsonObj in
          if retCode \<noteq> EDM_OK then Inr (retCode, d)
          else
            let busType = GetStringValue J jsonObj ''bus'' in
            case GetBusExtensionByName lower core (lower busType) of
              None \<Rightarrow> Inr (EDM_ERR_NOT_SUPPORT, d)
            | Some _ \<Rightarrow>
                let extInfo = GetStringValue J jsonObj ''ext_info'' in
                bindE (UsbDriverInfo_UnSerialize J extInfo no_ids) (\<lambda>(ret, ext).
                  if ret \<noteq> EDM_OK then Inr (ret, d\<lparr>dr_ext := Some ext\<rparr>)
                  else
                    Inr (EDM_OK,
                      d\<lparr>dr_ext := Some ext,
                        dr_bus := busType,
                        dr_busType := GetBusTypeByName lower busType,
                        dr_vendor := GetStringValue J jsonObj ''vendor'',
                        dr_version := GetStringValue J jsonObj ''version'',
                        dr_driverSize := GetStringValue J jsonObj ''size'',
                        dr_description := GetStringValue J jsonObj ''description'',
                        dr_launchOnBind := GetBoolValue J jsonObj ''launch_on_bind'',
                        dr_accessAllowed := GetBoolValue J jsonObj ''access_allowed''\<rparr>)))"

section \<open>The identifiers come back\<close>

definition ids_value :: "usb_driver_ids \<Rightarrow> jvalue" where
  "ids_value d =
     VObj [(''pids'', VArr (map (\<lambda>x. VNum (uint x)) (ud_pids d))), (''vids'', VArr (map (\<lambda>x. VNum (uint x)) (ud_vids d)))]"

lemma json_read:
  assumes "json_read_ok J v"
  shows "cj_type J j = type_of_value (v j)"
    and "v j = VNum n \<Longrightarrow> cj_valuedouble J j = n"
    and "v j = VStr s \<Longrightarrow> cj_valuestring J j = s"
    and "v j = VBool b \<Longrightarrow> cj_istrue J j = b"
    and "v j = VArr xs \<Longrightarrow> cj_size J j = length xs"
    and "v j = VArr xs \<Longrightarrow> i < length xs \<Longrightarrow> \<exists>y. cj_nth J j i = Some y \<and> v y = xs ! i"
    and "v j = VObj kvs \<Longrightarrow> cj_size J j = length kvs"
  using assms unfolding json_read_ok_def by blast+

lemma json_get:
  assumes "json_get_ok J v names" and "v j = VObj kvs" and "map fst kvs = names" and "map_of kvs k = Some x"
  shows "\<exists>y. cj_get J j k = Some y \<and> v y = x"
proof -
  have "k \<in> set names" using assms(3,4) by (metis domI dom_map_of_conv_image_fst image_set)
  then show ?thesis using assms unfolding json_get_ok_def by (metis option.inject)
qed

lemma add_numbers_value:
  assumes "json_build_ok J v" and "v a = VArr ys"
  shows "\<exists>a'. add_numbers J xs a = Some a' \<and> v a' = VArr (ys @ map (\<lambda>x. VNum (uint x)) xs)"
  using assms(2)
proof (induction xs arbitrary: a ys)
  case (Cons x xs)
  have "\<exists>a'. cj_add_item J a (cj_number J (uint x)) = Some a' \<and> v a' = VArr (ys @ [v (cj_number J (uint x))])"
    using assms(1) Cons.prems unfolding json_build_ok_def by blast
  then obtain a1 where a1: "cj_add_item J a (cj_number J (uint x)) = Some a1" "v a1 = VArr (ys @ [v (cj_number J (uint x))])"
    by blast
  have "v (cj_number J (uint x)) = VNum (uint x)" using assms(1) by (simp add: json_build_ok_def)
  with Cons.IH [OF a1(2)] a1(1) show ?case by simp
qed simp

lemma SetArrayToObj_value:
  assumes ok: "json_build_ok J v" and obj: "v ob = VObj kvs"
  shows "\<exists>ob'. SetArrayToObj J ob k xs = Some ob' \<and> v ob' = VObj (kvs @ [(k, VArr (map (\<lambda>x. VNum (uint x)) xs))])"
proof -
  obtain a where a: "cj_array J = Some a" "v a = VArr []" using ok unfolding json_build_ok_def by blast
  obtain a' where a': "add_numbers J xs a = Some a'" "v a' = VArr (map (\<lambda>x. VNum (uint x)) xs)"
    using add_numbers_value [OF ok a(2), of xs] by auto
  have "\<exists>ob'. cj_add_member J k a' ob = Some ob' \<and> v ob' = VObj (kvs @ [(k, v a')])"
    using ok obj unfolding json_build_ok_def by blast
  then show ?thesis using a a' by (auto simp: SetArrayToObj_def)
qed

lemma UsbDriverInfo_Serialize_value:
  assumes ok: "json_build_ok J v" and printed: "json_text_ok J v (ids_value d)"
  shows "\<exists>s j. UsbDriverInfo_Serialize J d = Inr (EDM_OK, s) \<and> CHR 0x00 \<notin> set s \<and> cj_parse J s = Some j \<and> v j = ids_value d"
proof -
  obtain ob where ob: "cj_object J = Some ob" "v ob = VObj []" using ok unfolding json_build_ok_def by blast
  obtain ob1 where ob1: "SetArrayToObj J ob ''pids'' (ud_pids d) = Some ob1"
    "v ob1 = VObj [(''pids'', VArr (map (\<lambda>x. VNum (uint x)) (ud_pids d)))]"
    using SetArrayToObj_value [OF ok ob(2)] by auto
  obtain ob2 where ob2: "SetArrayToObj J ob1 ''vids'' (ud_vids d) = Some ob2" "v ob2 = ids_value d"
    using SetArrayToObj_value [OF ok ob1(2)] by (auto simp: ids_value_def)
  obtain s j where "cj_print J ob2 = Some s" "CHR 0x00 \<notin> set s" "cj_parse J s = Some j" "v j = ids_value d"
    using printed ob2(2) unfolding json_text_ok_def by blast
  then show ?thesis using ob ob1 ob2 by (auto simp: UsbDriverInfo_Serialize_def)
qed

lemma GetItems_value:
  assumes ok: "json_read_ok J v" and item: "v item = VArr (map (\<lambda>x. VNum (uint x)) (xs :: u16 list))"
  shows "i + n = length xs \<Longrightarrow> GetItems J item i n arr = Inr (Some (arr @ drop i xs))"
proof (induction n arbitrary: i arr)
  case (Suc n)
  obtain y where y: "cj_nth J item i = Some y" "v y = VNum (uint (xs ! i))"
    using json_read(6) [OF ok item, of i] Suc.prems by auto
  have t: "cj_type J y = JNumber" using json_read(1) [OF ok, of y] y(2) by simp
  have n: "cj_valuedouble J y = uint (xs ! i)" by (rule json_read(2) [OF ok y(2)])
  have b: "\<not> uint (xs ! i) < 0" "\<not> uint (xs ! i) > 65535"
    using uint_lt2p [of "xs ! i"] by simp_all
  have d: "drop i xs = xs ! i # drop (Suc i) xs" using Suc.prems by (simp add: Cons_nth_drop_Suc)
  show ?case using Suc.IH [of "Suc i" "arr @ [xs ! i]"] Suc.prems y t n b d by simp
qed simp

lemma GetObjectItem_value:
  assumes ok: "json_read_ok J v" and get: "cj_get J ob k = Some y" and y: "v y = VArr (map (\<lambda>x. VNum (uint x)) (xs :: u16 list))"
  shows "GetObjectItem J ob k = Inr (Some xs)"
proof -
  have t: "cj_type J y = JArray" using json_read(1) [OF ok, of y] y by simp
  have s: "cj_size J y = length xs" using json_read(5) [OF ok y] by simp
  show ?thesis using GetItems_value [OF ok y, of 0 "length xs" "[]"] get t s by (simp add: GetObjectItem_def)
qed

lemma UsbDriverInfo_UnSerialize_value:
  assumes ok: "json_read_ok J v" "json_get_ok J v [''pids'', ''vids'']"
    and s: "CHR 0x00 \<notin> set s" "cj_parse J s = Some j" "v j = ids_value d"
  shows "UsbDriverInfo_UnSerialize J s d' = Inr (EDM_OK, d)"
proof -
  obtain p where p: "cj_get J j ''pids'' = Some p" "v p = VArr (map (\<lambda>x. VNum (uint x)) (ud_pids d))"
    using json_get [OF ok(2) s(3) [unfolded ids_value_def], of "''pids''"] by auto
  obtain q where q: "cj_get J j ''vids'' = Some q" "v q = VArr (map (\<lambda>x. VNum (uint x)) (ud_vids d))"
    using json_get [OF ok(2) s(3) [unfolded ids_value_def], of "''vids''"] by auto
  have size: "cj_size J j \<noteq> 0"
    using json_read(7) [OF ok(1) s(3) [unfolded ids_value_def]] by simp
  show ?thesis
    using s size GetObjectItem_value [OF ok(1) p] GetObjectItem_value [OF ok(1) q]
    by (simp add: UsbDriverInfo_UnSerialize_def)
qed

section \<open>A driver comes back\<close>

definition driver_value :: "driver_info \<Rightarrow> string \<Rightarrow> jvalue" where
  "driver_value d extInfo =
     VObj [(''bus'', VStr (dr_bus d)), (''vendor'', VStr (dr_vendor d)), (''version'', VStr (dr_version d)),
       (''size'', VStr (dr_driverSize d)), (''description'', VStr (dr_description d)), (''ext_info'', VStr extInfo),
       (''launch_on_bind'', VBool (dr_launchOnBind d)), (''access_allowed'', VBool (dr_accessAllowed d))]"

definition driver_names :: "string list" where
  "driver_names =
     [''bus'', ''vendor'', ''version'', ''size'', ''description'', ''ext_info'', ''launch_on_bind'', ''access_allowed'']"

definition c_strings :: "driver_info \<Rightarrow> bool" where
  "c_strings d \<longleftrightarrow> list_all (\<lambda>s. CHR 0x00 \<notin> set s)
     [dr_bus d, dr_vendor d, dr_version d, dr_driverSize d, dr_description d]"

lemma add_member_value:
  assumes "json_build_ok J v" and "v ob = VObj kvs"
  shows "v (add_member J k x ob) = VObj (kvs @ [(k, v x)])"
proof -
  have "\<exists>ob'. cj_add_member J k x ob = Some ob' \<and> v ob' = VObj (kvs @ [(k, v x)])"
    using assms unfolding json_build_ok_def by blast
  then show ?thesis by (auto simp: add_member_def)
qed

lemma AddString_value:
  assumes "json_build_ok J v" and "v ob = VObj kvs"
  shows "v (AddString J k s ob) = VObj (kvs @ [(k, VStr (c_str s))])"
  using add_member_value [OF assms] assms(1) by (simp add: AddString_def json_build_ok_def)

lemma AddBool_value:
  assumes "json_build_ok J v" and "v ob = VObj kvs"
  shows "v (AddBool J k b ob) = VObj (kvs @ [(k, VBool b)])"
  using add_member_value [OF assms] assms(1) by (simp add: AddBool_def json_build_ok_def)

lemma DriverInfo_Serialize_value:
  assumes ok: "json_build_ok J v" and ext: "dr_ext d = Some ids" and nul: "c_strings d"
    and ids: "UsbDriverInfo_Serialize J ids = Inr (EDM_OK, extInfo)" "CHR 0x00 \<notin> set extInfo"
    and printed: "json_text_ok J v (driver_value d extInfo)"
  shows "\<exists>s j. DriverInfo_Serialize J d = Inr (EDM_OK, s) \<and> CHR 0x00 \<notin> set s
    \<and> cj_parse J s = Some j \<and> v j = driver_value d extInfo"
proof -
  obtain ob where ob: "cj_object J = Some ob" "v ob = VObj []" using ok unfolding json_build_ok_def by blast
  let ?root = "AddBool J ''access_allowed'' (dr_accessAllowed d) (AddBool J ''launch_on_bind'' (dr_launchOnBind d)
    (AddString J ''ext_info'' extInfo (AddString J ''description'' (dr_description d) (AddString J ''size'' (dr_driverSize d)
    (AddString J ''version'' (dr_version d) (AddString J ''vendor'' (dr_vendor d) (AddString J ''bus'' (dr_bus d) ob)))))))"
  have "v ?root = driver_value d extInfo"
    using nul ids(2) by (simp add: AddBool_value [OF ok] AddString_value [OF ok] ob(2) driver_value_def c_strings_def)
  then obtain s j where "cj_print J ?root = Some s" "CHR 0x00 \<notin> set s" "cj_parse J s = Some j" "v j = driver_value d extInfo"
    using printed unfolding json_text_ok_def by blast
  then show ?thesis using ob ids(1) ext by (simp add: DriverInfo_Serialize_def)
qed

lemma GetStringValue_value:
  assumes ok: "json_read_ok J v" "json_get_ok J v names" and j: "v j = VObj kvs" "map fst kvs = names" "map_of kvs k = Some (VStr s)"
  shows "GetStringValue J j k = s" "IsJsonObjValid J j k"
proof -
  obtain y where y: "cj_get J j k = Some y" "v y = VStr s" using json_get [OF ok(2) j] by blast
  then show "GetStringValue J j k = s" "IsJsonObjValid J j k"
    using json_read(1) [OF ok(1), of y] json_read(3) [OF ok(1) y(2)] by (simp_all add: GetStringValue_def IsJsonObjValid_def)
qed

lemma GetBoolValue_value:
  assumes ok: "json_read_ok J v" "json_get_ok J v names" and j: "v j = VObj kvs" "map fst kvs = names" "map_of kvs k = Some (VBool b)"
  shows "GetBoolValue J j k = b"
proof -
  obtain y where y: "cj_get J j k = Some y" "v y = VBool b" using json_get [OF ok(2) j] by blast
  then show ?thesis
    using json_read(1) [OF ok(1), of y] json_read(4) [OF ok(1) y(2)] by (simp add: GetBoolValue_def)
qed

lemma DriverInfo_UnSerialize_value:
  assumes ok: "json_read_ok J v" "json_get_ok J v driver_names" "json_get_ok J v [''pids'', ''vids'']"
    and s: "CHR 0x00 \<notin> set s" "cj_parse J s = Some j" "v j = driver_value d extInfo"
    and e: "CHR 0x00 \<notin> set extInfo" "cj_parse J extInfo = Some je" "v je = ids_value ids"
    and bus: "GetBusExtensionByName lower core (lower (dr_bus d)) = Some x"
  shows "DriverInfo_UnSerialize J lower core s d0 = Inr (EDM_OK,
    d0\<lparr>dr_ext := Some ids, dr_bus := dr_bus d, dr_busType := GetBusTypeByName lower (dr_bus d), dr_vendor := dr_vendor d,
       dr_version := dr_version d, dr_driverSize := dr_driverSize d, dr_description := dr_description d,
       dr_launchOnBind := dr_launchOnBind d, dr_accessAllowed := dr_accessAllowed d\<rparr>)"
proof -
  note obj = s(3) [unfolded driver_value_def]
  note str = GetStringValue_value [OF ok(1,2) obj]
  note bool = GetBoolValue_value [OF ok(1,2) obj]
  have names: "map fst [(''bus'', VStr (dr_bus d)), (''vendor'', VStr (dr_vendor d)), (''version'', VStr (dr_version d)),
       (''size'', VStr (dr_driverSize d)), (''description'', VStr (dr_description d)), (''ext_info'', VStr extInfo),
       (''launch_on_bind'', VBool (dr_launchOnBind d)), (''access_allowed'', VBool (dr_accessAllowed d))] = driver_names"
    by (simp add: driver_names_def)
  note vals = str [OF names, of "''bus''"] str [OF names, of "''vendor''"] str [OF names, of "''version''"]
    str [OF names, of "''size''"] str [OF names, of "''description''"] str [OF names, of "''ext_info''"]
    bool [OF names, of "''launch_on_bind''"] bool [OF names, of "''access_allowed''"]
  have size: "cj_size J j \<noteq> 0" using json_read(7) [OF ok(1) obj] by simp
  have check: "checkJsonObj J j = EDM_OK"
    using size vals by (simp add: checkJsonObj_def)
  show ?thesis
    using s(1,2) check bus vals UsbDriverInfo_UnSerialize_value [OF ok(1,3) e]
    by (simp add: DriverInfo_UnSerialize_def Let_def)
qed

text \<open>
  C10: a driver that is written to its text form and read back into an object with the same
  names is the same driver, given that the JSON library builds, prints and parses the two
  values involved and that the bus of the driver has an extension.
\<close>

theorem driver_text_roundtrip:
  assumes "json_build_ok J v" and "json_read_ok J v" and "json_get_ok J v driver_names" and "json_get_ok J v [''pids'', ''vids'']"
    and "dr_ext d = Some ids" and "json_text_ok J v (ids_value ids)"
    and "UsbDriverInfo_Serialize J ids = Inr (EDM_OK, extInfo)" and "json_text_ok J v (driver_value d extInfo)"
    and "c_strings d" and "dr_driverUid d \<noteq> []" and "dr_busType d = GetBusTypeByName lower (dr_bus d)"
    and "GetBusExtensionByName lower core (lower (dr_bus d)) \<noteq> None"
  shows "\<exists>s. DriverInfo_Serialize J d = Inr (EDM_OK, s)
    \<and> DriverInfo_UnSerialize J lower core s
         (new_driver_info (dr_bundleName d) (dr_driverName d) (dr_driverUid d) (dr_userId d)) = Inr (EDM_OK, d)"
proof -
  obtain je where e: "CHR 0x00 \<notin> set extInfo" "cj_parse J extInfo = Some je" "v je = ids_value ids"
    using UsbDriverInfo_Serialize_value [OF assms(1,6)] assms(7) by auto
  obtain s j where s: "DriverInfo_Serialize J d = Inr (EDM_OK, s)" "CHR 0x00 \<notin> set s" "cj_parse J s = Some j"
      "v j = driver_value d extInfo"
    using DriverInfo_Serialize_value [OF assms(1,5,9,7) e(1) assms(8)] by auto
  obtain x where x: "GetBusExtensionByName lower core (lower (dr_bus d)) = Some x" using assms(12) by blast
  show ?thesis
    using s(1) DriverInfo_UnSerialize_value [OF assms(2-4) s(2-4) e x] assms(5,10,11) by (simp add: new_driver_info_def)
qed

definition text_sample :: driver_info where
  "text_sample =
     (new_driver_info ''app'' ''Ext'' ''Ext-5'' 100)\<lparr>dr_bus := ''USB'', dr_busType := 1, dr_vendor := ''v'',
       dr_version := ''1.0'', dr_driverSize := ''12'', dr_description := ''d'', dr_launchOnBind := True,
       dr_accessAllowed := True, dr_ext := Some \<lparr>ud_pids = [3, 5], ud_vids = [2]\<rparr>\<rparr>"

lemma text_sample_ids: "UsbDriverInfo_Serialize value_json \<lparr>ud_pids = [3, 5], ud_vids = [2]\<rparr>
    = Inr (EDM_OK, print_value (ids_value \<lparr>ud_pids = [3, 5], ud_vids = [2]\<rparr>))"
  by code_simp

lemma text_sample_ok:
  "json_text_ok value_json (\<lambda>j. j) (ids_value \<lparr>ud_pids = [3, 5], ud_vids = [2]\<rparr>)"
  "json_text_ok value_json (\<lambda>j. j) (driver_value text_sample (print_value (ids_value \<lparr>ud_pids = [3, 5], ud_vids = [2]\<rparr>)))"
  by (rule value_json_text; code_simp)+

lemma text_sample_c_strings: "c_strings text_sample"
  by code_simp

lemma text_sample_bus:
  "dr_busType text_sample = GetBusTypeByName ascii_lower (dr_bus text_sample)"
  "GetBusExtensionByName ascii_lower usb_core (ascii_lower (dr_bus text_sample)) \<noteq> None"
  by code_simp+

theorem driver_text_roundtrip_witness:
  "\<exists>s. DriverInfo_Serialize value_json text_sample = Inr (EDM_OK, s)
    \<and> DriverInfo_UnSerialize value_json ascii_lower usb_core s (new_driver_info ''app'' ''Ext'' ''Ext-5'' 100)
      = Inr (EDM_OK, text_sample)"
proof -
  have f: "dr_ext text_sample = Some \<lparr>ud_pids = [3, 5], ud_vids = [2]\<rparr>" "dr_bundleName text_sample = ''app''"
    "dr_driverName text_sample = ''Ext''" "dr_driverUid text_sample = ''Ext-5''" "dr_userId text_sample = 100"
    by (simp_all add: text_sample_def new_driver_info_def)
  show ?thesis
    using driver_text_roundtrip [OF value_json_build value_json_read value_json_get value_json_get f(1) text_sample_ok(1)
        text_sample_ids text_sample_ok(2) text_sample_c_strings _ text_sample_bus]
    by (simp add: f)
qed

end
