(* ===== verification/Usb_Dev.thy ===== *)
theory Usb_Dev
  imports Ext_Types
begin

text \<open>
  The USB device subscriber, bus_extension/usb/usb_dev_subscriber.cpp: what happens between the
  report of a plugged or unplugged device by the USB host and the call of the device manager.

  The USB host and the driver development kit service are not part of the repository: their
  answers are the functions of \<open>usb_host\<close>. What the subscriber asks of others is the list of its
  calls. Reports of system events are left out.
\<close>

section \<open>Numbers of a device\<close>

record usb_dev =
  ue_busNum :: u8
  ue_devAddr :: u8

definition ToBusDeivceId :: "usb_dev \<Rightarrow> u32" where
  "ToBusDeivceId d = push_bit 16 (ucast (ue_busNum d)) + ucast (ue_devAddr d)"

definition ToDdkDeviceId :: "usb_dev \<Rightarrow> u64" where
  "ToDdkDeviceId d = push_bit 32 (ucast (ue_busNum d)) + ucast (ue_devAddr d)"

definition ToExtDevId :: "usb_dev \<Rightarrow> u64" where
  "ToExtDevId d = make_device_id BUS_TYPE_USB (ToBusDeivceId d)"

section \<open>The device descriptor\<close>

record dev_desc =
  sd_bLength :: u8
  sd_bDescriptorType :: u8
  sd_bcdUSB :: u16
  sd_bDeviceClass :: u8
  sd_bDeviceSubClass :: u8
  sd_bDeviceProtocol :: u8
  sd_bMaxPacketSize0 :: u8
  sd_idVendor :: u16
  sd_idProduct :: u16
  sd_bcdDevice :: u16
  sd_iManufacturer :: u8
  sd_iProduct :: u8
  sd_iSerialNumber :: u8
  sd_bNumConfigurations :: u8

definition dev_desc_of_bytes :: "u8 list \<Rightarrow> dev_desc" where
  "dev_desc_of_bytes bs =
     \<lparr> sd_bLength = bs ! 0, sd_bDescriptorType = bs ! 1, sd_bcdUSB = le16 (bs ! 2) (bs ! 3),
       sd_bDeviceClass = bs ! 4, sd_bDeviceSubClass = bs ! 5, sd_bDeviceProtocol = bs ! 6,
       sd_bMaxPacketSize0 = bs ! 7, sd_idVendor = le16 (bs ! 8) (bs ! 9), sd_idProduct = le16 (bs ! 10) (bs ! 11),
       sd_bcdDevice = le16 (bs ! 12) (bs ! 13), sd_iManufacturer = bs ! 14, sd_iProduct = bs ! 15,
       sd_iSerialNumber = bs ! 16, sd_bNumConfigurations = bs ! 17 \<rparr>"

section \<open>The description\<close>

definition hex_upper :: "int \<Rightarrow> char" where
  "hex_upper d = char_of (if d < 10 then 48 + d else 55 + d)"

text \<open>\<open>%02X\<close> of a byte and \<open>%04X\<close> of a 16-bit number.\<close>

definition hex_02X :: "u8 \<Rightarrow> string" where
  "hex_02X w = [hex_upper (uint w div 16), hex_upper (uint w mod 16)]"

definition hex_04X :: "u16 \<Rightarrow> string" where
  "hex_04X w =
     [hex_upper (uint w div 4096), hex_upper (uint w div 256 mod 16), hex_upper (uint w div 16 mod 16), hex_upper (uint w mod 16)]"

definition MAX_DEV_ID_SIZE :: nat where "MAX_DEV_ID_SIZE = 100"

text \<open>\<open>sprintf_s\<close> fails when the text and its NUL do not fit.\<close>

definition ToDeviceDesc :: "usb_dev \<Rightarrow> dev_desc \<Rightarrow> string" where
  "ToDeviceDesc usbDev desc =
     (let text = ''USB&BUS_'' @ hex_02X (ue_busNum usbDev) @ ''&DEV_'' @ hex_02X (ue_devAddr usbDev)
        @ ''&PID_'' @ hex_04X (sd_idProduct desc) @ ''&VID_'' @ hex_04X (sd_idVendor desc)
        @ ''&CLASS_'' @ hex_02X (sd_bDeviceClass desc) in
      if length text < MAX_DEV_ID_SIZE then text else [])"

section \<open>The services\<close>

record usb_host =
  uh_OpenDevice :: "usb_dev \<Rightarrow> int"
  uh_GetDeviceDescriptor :: "usb_dev \<Rightarrow> int \<times> u8 list"
  uh_GetStringDescriptor :: "usb_dev \<Rightarrow> u8 \<Rightarrow> int \<times> u8 list"
  uh_GetConfig :: "usb_dev \<Rightarrow> int \<times> u8"
  uh_GetConfigDescriptor :: "u64 \<Rightarrow> u8 \<Rightarrow> int \<times> u8 list"

record subscriber =
  sb_iusb :: bool
  sb_callback :: bool
  sb_iUsbDdk :: bool

definition SubscriberInit :: "bool \<Rightarrow> bool \<Rightarrow> bool \<Rightarrow> subscriber" where
  "SubscriberInit callback iusb iUsbDdk = \<lparr>sb_iusb = iusb, sb_callback = callback, sb_iUsbDdk = iUsbDdk\<rparr>"

datatype usb_call =
    CallOpen usb_dev
  | CallClose usb_dev
  | CallAppLaunch u16 u16
  | CallDeviceAdd device_info
  | CallDeviceRemove device_info

section \<open>Descriptors of a device\<close>

text \<open>
  The interface array of the parsed configuration is a list; an access past its end, and the
  first alternate setting of an interface without one, are outside the arrays.
\<close>

fun first_settings :: "nat \<Rightarrow> ddk_interface list \<Rightarrow> usb_interface_descriptor list res" where
  "first_settings 0 intfs = Inr []"
| "first_settings (Suc n) [] = Inl Oob_read"
| "first_settings (Suc n) (u # intfs) =
     (case altsetting u of [] \<Rightarrow> Inl Oob_read
      | a # _ \<Rightarrow> bindE (first_settings n intfs) (\<lambda>ds. Inr (interfaceDescriptor a # ds)))"

text \<open>\<open>None\<close>: the parser does not return.\<close>

definition GetInterfaceDescriptor ::
  "usb_host \<Rightarrow> subscriber \<Rightarrow> usb_dev \<Rightarrow> (UsbErrCode \<times> usb_interface_descriptor list) res option" where
  "GetInterfaceDescriptor H s usbDev =
     (if \<not> sb_iusb s \<or> \<not> sb_iUsbDdk s then Some (Inr (EDM_ERR_INVALID_OBJECT, []))
      else case uh_GetConfig H usbDev of (ret, configIndex) \<Rightarrow>
        if ret \<noteq> 0 then Some (Inr (of_ext ret, []))
        else case uh_GetConfigDescriptor H (ToDdkDeviceId usbDev) configIndex of (ret, descriptor) \<Rightarrow>
          if ret \<noteq> 0 then Some (Inr (of_ext ret, []))
          else case ParseUsbConfigDescriptor descriptor of
            None \<Rightarrow> None
          | Some (Inl e) \<Rightarrow> Some (Inl e)
          | Some (Inr (ret, config)) \<Rightarrow>
              if ret \<noteq> 0 then Some (Inr (of_ext ret, []))
              else case config of None \<Rightarrow> Some (Inr (of_ext ret, []))
              | Some config \<Rightarrow>
                  (case cfg_interface config of None \<Rightarrow> Some (Inr (EDM_ERR_INVALID_OBJECT, []))
                   | Some intfs \<Rightarrow>
                       Some (bindE (first_settings (unat (cd_bNumInterfaces (configDescriptor config))) intfs)
                         (\<lambda>ds. Inr (EDM_OK, ds)))))"

text \<open>
  The bytes are read as an 18-byte struct once there is at least one of them.
\<close>

definition GetUsbDeviceDescriptor :: "usb_host \<Rightarrow> usb_dev \<Rightarrow> (UsbErrCode \<times> dev_desc option) res" where
  "GetUsbDeviceDescriptor H usbDev =
     (case uh_GetDeviceDescriptor H usbDev of (ret, descData) \<Rightarrow>
        if ret \<noteq> 0 \<or> descData = [] then Inr (EDM_ERR_IO, None)
        else bindE (rd_bytes descData 18) (\<lambda>bs.
          let d = dev_desc_of_bytes bs in
          if sd_bLength d \<noteq> 18 then Inr (EDM_ERR_USB_ERR, Some d) else Inr (EDM_OK, Some d)))"

section \<open>The serial number\<close>

text \<open>
  \<open>tbuf\<close> holds the bytes after the header, one in each 16-bit cell, and zeroes; it is read as
  32-bit characters, each two cells, up to the first zero one. Reading past the array is a fault.
\<close>

fun wide_chars :: "u16 list \<Rightarrow> u32 list res" where
  "wide_chars (lo # hi # tbuf) =
     (let w = ucast lo OR push_bit 16 (ucast hi) :: u32 in
      if w = 0 then Inr [] else bindE (wide_chars tbuf) (\<lambda>ws. Inr (w # ws)))"
| "wide_chars [_] = Inl Oob_read"
| "wide_chars [] = Inl Oob_read"

definition char_of_wide :: "u32 \<Rightarrow> char" where
  "char_of_wide w = char_of (uint (ucast w :: u8))"

text \<open>\<open>wcslen\<close> reads up to the zero character; the string is then cut at \<open>bufLen\<close>.\<close>

definition GetDevStringVal :: "usb_host \<Rightarrow> usb_dev \<Rightarrow> u8 \<Rightarrow> string res" where
  "GetDevStringVal H usbDev idx =
     (if idx = 0 then Inr '' ''
      else case uh_GetStringDescriptor H usbDev idx of (ret, serial) \<Rightarrow>
        if ret \<noteq> 0 then Inr '' ''
        else if length serial < 2 \<or> serial ! 1 \<noteq> 3 then Inr '' ''
        else
          let tbuf = map ucast (drop 2 serial) @ replicate 3 (0 :: u16);
              bufLen = (length serial - 2) div 2 in
          bindE (wide_chars tbuf) (\<lambda>ws.
            Inr (map char_of_wide (take bufLen ws))))"

section \<open>Events\<close>

definition new_usb_device :: "u32 \<Rightarrow> string \<Rightarrow> device_info" where
  "new_usb_device busDeviceId description =
     \<lparr>di_busType = BUS_TYPE_USB, di_busDeviceId = busDeviceId, di_description = description,
      di_usb = Some \<lparr>uf_interfaceDescList = [], uf_bcdUSB = 0, uf_deviceClass = 0, uf_idVendor = 0,
        uf_idProduct = 0, uf_deviceSubClass = 0, uf_deviceProtocol = 0, uf_snNum = []\<rparr>\<rparr>"

definition SetUsbDevInfoValue :: "dev_desc \<Rightarrow> string \<Rightarrow> device_info \<Rightarrow> device_info" where
  "SetUsbDevInfoValue desc snNum d =
     d\<lparr>di_usb := map_option (\<lambda>u. u\<lparr>uf_bcdUSB := sd_bcdUSB desc, uf_idProduct := sd_idProduct desc,
        uf_idVendor := sd_idVendor desc, uf_deviceClass := sd_bDeviceClass desc,
        uf_deviceSubClass := sd_bDeviceSubClass desc, uf_deviceProtocol := sd_bDeviceProtocol desc,
        uf_snNum := snNum\<rparr>) (di_usb d)\<rparr>"

definition with_interfaces :: "usb_interface_descriptor list \<Rightarrow> device_info \<Rightarrow> device_info" where
  "with_interfaces interfaces d =
     d\<lparr>di_usb := map_option (\<lambda>u. u\<lparr>uf_interfaceDescList := uf_interfaceDescList u @ interfaces\<rparr>) (di_usb d)\<rparr>"

abbreviation (input) USB_CLASS_HUB :: u8 where "USB_CLASS_HUB \<equiv> 9"
abbreviation (input) ROOT_HUB_DEV_ADDR :: u8 where "ROOT_HUB_DEV_ADDR \<equiv> 1"

text \<open>
  The part of \<open>OnDeviceConnect\<close> that follows the device descriptor. \<open>launch\<close>: the build has the app
  launch manager.
\<close>

definition ConnectDescribed ::
  "bool \<Rightarrow> usb_host \<Rightarrow> subscriber \<Rightarrow> usb_dev \<Rightarrow> dev_desc \<Rightarrow> (UsbErrCode \<times> usb_call list) res option" where
  "ConnectDescribed launch H s usbDev desc =
     (case GetDevStringVal H usbDev (sd_iSerialNumber desc) of
        Inl e \<Rightarrow> Some (Inl e)
      | Inr snNum \<Rightarrow>
          let usbDevInfo = SetUsbDevInfoValue desc snNum
                (new_usb_device (ToBusDeivceId usbDev) (ToDeviceDesc usbDev desc));
              calls = (if launch then [CallAppLaunch (sd_idVendor desc) (sd_idProduct desc)] else []) in
          case GetInterfaceDescriptor H s usbDev of
            None \<Rightarrow> None
          | Some (Inl e) \<Rightarrow> Some (Inl e)
          | Some (Inr (ret, interfaces)) \<Rightarrow>
              if ret \<noteq> EDM_OK then Some (Inr (ret, calls @ [CallClose usbDev]))
              else
                Some (Inr (EDM_OK, calls @ [CallClose usbDev]
                  @ (if sb_callback s then [CallDeviceAdd (with_interfaces interfaces usbDevInfo)] else []))))"

definition OnDeviceConnect ::
  "bool \<Rightarrow> usb_host \<Rightarrow> subscriber \<Rightarrow> usb_dev \<Rightarrow> (UsbErrCode \<times> usb_call list) res option" where
  "OnDeviceConnect launch H s usbDev =
     (if \<not> sb_iusb s then Some (Inr (EDM_ERR_INVALID_OBJECT, []))
      else if uh_OpenDevice H usbDev \<noteq> 0 then Some (Inr (EDM_ERR_IO, [CallOpen usbDev]))
      else case GetUsbDeviceDescriptor H usbDev of
        Inl e \<Rightarrow> Some (Inl e)
      | Inr (ret, desc) \<Rightarrow>
          if ret \<noteq> EDM_OK then Some (Inr (ret, [CallOpen usbDev, CallClose usbDev]))
          else case desc of None \<Rightarrow> Some (Inl Uninit_read)
          | Some desc \<Rightarrow>
              if sd_bDeviceClass desc = USB_CLASS_HUB \<and> ue_devAddr usbDev = ROOT_HUB_DEV_ADDR
              then Some (Inr (EDM_OK, [CallOpen usbDev, CallClose usbDev]))
              else
                (case ConnectDescribed launch H s usbDev desc of
                   None \<Rightarrow> None
                 | Some (Inl e) \<Rightarrow> Some (Inl e)
                 | Some (Inr (ret, calls)) \<Rightarrow> Some (Inr (ret, CallOpen usbDev # calls))))"

definition OnDeviceDisconnect :: "subscriber \<Rightarrow> usb_dev \<Rightarrow> UsbErrCode \<times> usb_call list" where
  "OnDeviceDisconnect s usbDev =
     (EDM_OK, if sb_callback s then [CallDeviceRemove (new_usb_device (ToBusDeivceId usbDev) [])] else [])"

definition DeviceEvent ::
  "bool \<Rightarrow> usb_host \<Rightarrow> subscriber \<Rightarrow> usb_dev \<Rightarrow> int \<Rightarrow> (UsbErrCode \<times> usb_call list) res option" where
  "DeviceEvent launch H s usbDev status =
     (if status = 0 then OnDeviceConnect launch H s usbDev
      else if status = 1 then Some (Inr (OnDeviceDisconnect s usbDev))
      else Some (Inr (EDM_OK, [])))"

end
