(* ===== verification/Usb_Dev_Claims.thy ===== *)
theory Usb_Dev_Claims
  imports Usb_Dev Usb_Desc_Roundtrip Usb_Desc_Limits
begin

text \<open>
  What the USB device subscriber guarantees: distinct devices get distinct numbers, a device
  that was opened is closed on every path, only completely described devices are announced, and
  what a device can do to it with the descriptors it sends.
\<close>

section \<open>Numbers\<close>

lemma disjoint_add_32:
  "push_bit 16 (ucast (b :: u8)) + ucast (a :: u8) = (push_bit 16 (ucast b) OR ucast a :: u32)"
  by (rule disjunctive_add) (auto simp: bit_simps dest!: bit_imp_le_length)

lemma disjoint_add_64:
  "push_bit 32 (ucast (b :: u8)) + ucast (a :: u8) = (push_bit 32 (ucast b) OR ucast a :: u64)"
  by (rule disjunctive_add) (auto simp: bit_simps dest!: bit_imp_le_length)

lemma not_bit_byte: "8 \<le> n \<Longrightarrow> \<not> bit (w :: u8) n"
  using bit_imp_le_length [of w n] by auto

lemma addr_of_bus_id: "ucast (ToBusDeivceId d) = ue_devAddr d"
  by (auto simp: ToBusDeivceId_def disjoint_add_32 bit_simps intro!: bit_word_eqI)

lemma bus_of_bus_id: "ucast (drop_bit 16 (ToBusDeivceId d)) = ue_busNum d"
  by (auto simp: ToBusDeivceId_def disjoint_add_32 bit_simps not_bit_byte intro!: bit_word_eqI)

lemma addr_of_ddk_id: "ucast (ToDdkDeviceId d) = ue_devAddr d"
  by (auto simp: ToDdkDeviceId_def disjoint_add_64 bit_simps intro!: bit_word_eqI)

lemma bus_of_ddk_id: "ucast (drop_bit 32 (ToDdkDeviceId d)) = ue_busNum d"
  by (auto simp: ToDdkDeviceId_def disjoint_add_64 bit_simps not_bit_byte intro!: bit_word_eqI)

lemma ToBusDeivceId_inject [simp]: "ToBusDeivceId d = ToBusDeivceId d' \<longleftrightarrow> d = d'"
  by (metis addr_of_bus_id bus_of_bus_id usb_dev.equality unit.exhaust)

lemma ToDdkDeviceId_inject: "ToDdkDeviceId d = ToDdkDeviceId d' \<longleftrightarrow> d = d'"
  by (metis addr_of_ddk_id bus_of_ddk_id usb_dev.equality unit.exhaust)

text \<open>
  two devices get the same number only when they have the same bus and address, under each
  of the three numberings, and the object of a device has the number its events report.
\<close>

theorem device_numbers_distinct:
  "(ToBusDeivceId d = ToBusDeivceId d' \<longleftrightarrow> d = d') \<and> (ToDdkDeviceId d = ToDdkDeviceId d' \<longleftrightarrow> d = d')
   \<and> (ToExtDevId d = ToExtDevId d' \<longleftrightarrow> d = d') \<and> GetDeviceId (new_usb_device (ToBusDeivceId d) s) = ToExtDevId d"
  by (auto simp: ToExtDevId_def ToDdkDeviceId_inject GetDeviceId_def new_usb_device_def)

section \<open>The serial number\<close>

lemma wide_chars_zeroes:
  "even (length xs) \<Longrightarrow> \<exists>ws. wide_chars (xs @ [0, 0, 0]) = Inr ws"
  "odd (length xs) \<Longrightarrow> \<exists>ws. wide_chars (xs @ [0, 0, 0]) = Inr ws"
proof (induction xs rule: wide_chars.induct)
  case (1 lo hi xs)
  {
    case 1
    then show ?case using "1.IH"(1) by (auto simp: Let_def)
  next
    case 2
    then show ?case using "1.IH"(2) by (auto simp: Let_def)
  }
qed (simp_all add: Let_def)

lemma string_val_total: "\<exists>s. GetDevStringVal H usbDev idx = Inr s"
proof -
  obtain ret serial where r: "uh_GetStringDescriptor H usbDev idx = (ret, serial)" by (cases "uh_GetStringDescriptor H usbDev idx")
  obtain ws where "wide_chars (map ucast (drop 2 serial) @ [0, 0, 0]) = Inr ws"
    using wide_chars_zeroes [of "map ucast (drop 2 serial) :: u16 list"] by blast
  moreover have "replicate 3 (0 :: u16) = [0, 0, 0]" by (simp add: numeral_3_eq_3)
  ultimately show ?thesis using r by (simp add: GetDevStringVal_def Let_def)
qed

text \<open>
  whatever a device answers, reading its string stays inside the buffer.
\<close>

theorem serial_read_in_bounds:
  "\<exists>s. GetDevStringVal H usbDev idx = Inr s"
  by (rule string_val_total)

text \<open>The UTF-16 string descriptor of an ASCII text.\<close>

definition utf16_descriptor :: "string \<Rightarrow> u8 list" where
  "utf16_descriptor s = [of_nat (2 + 2 * length s), 3] @ concat (map (\<lambda>c. [of_char c, 0]) s)"

lemma unat_of_char: "unat (of_char c :: u8) = of_char c"
proof -
  have "(of_char c :: u8) = of_nat (of_char c)" by (simp only: of_nat_of_char)
  moreover have "(of_char c :: nat) < 256" by (rule nat_of_char_less_256)
  ultimately show ?thesis by (simp add: unat_of_nat)
qed

lemma ucast_ucast_id_u8: "ucast (ucast (w :: u8) :: u32) = w"
  by (rule bit_word_eqI) (simp add: bit_simps)

lemma char_of_zero: "char_of (0 :: nat) = CHR 0x00"
  by code_simp

lemma wide_chars_text:
  "CHR 0x00 \<notin> set s \<Longrightarrow>
   wide_chars (map ucast (concat (map (\<lambda>c. [of_char c :: u8, 0]) s)) @ [0, 0, 0]) = Inr (map (\<lambda>c. ucast (of_char c :: u8)) s)"
proof (induction s)
  case (Cons c s)
  have "(of_char c :: u8) \<noteq> 0"
  proof
    assume "(of_char c :: u8) = 0"
    then have "(of_char c :: nat) = 0" by (metis unat_of_char unat_0)
    then have "c = CHR 0x00" using char_of_char [of c, where ?'a = nat] char_of_zero by simp
    then show False using Cons.prems by simp
  qed
  moreover have "ucast (ucast (of_char c :: u8) :: u16) = (ucast (of_char c :: u8) :: u32)"
    by (rule bit_word_eqI) (auto simp: bit_simps dest: bit_imp_le_length)
  moreover have "(ucast (of_char c :: u8) :: u32) \<noteq> 0"
    using calculation(1) by (metis ucast_0 ucast_ucast_id_u8)
  ultimately show ?case using Cons by (simp add: Let_def)
qed simp

lemma char_of_wide_char: "char_of_wide (ucast (of_char c :: u8)) = c"
proof -
  have "(ucast (ucast (of_char c :: u8) :: u32) :: u8) = of_char c"
    by (rule bit_word_eqI) (simp add: bit_simps)
  moreover have "uint (of_char c :: u8) = of_char c"
    by (metis of_nat_of_char of_nat_unat unat_of_char)
  ultimately show ?thesis by (simp add: char_of_wide_def)
qed

lemma serial_text:
  assumes "idx \<noteq> 0" and "uh_GetStringDescriptor H usbDev idx = (0, utf16_descriptor s)" and "CHR 0x00 \<notin> set s"
  shows "GetDevStringVal H usbDev idx = Inr s"
proof -
  have l: "length (utf16_descriptor s) = 2 + 2 * length s"
    by (simp add: utf16_descriptor_def length_concat o_def sum_list_triv)
  have d: "drop 2 (utf16_descriptor s) = concat (map (\<lambda>c. [of_char c, 0]) s)" "utf16_descriptor s ! 1 = 3"
    by (simp_all add: utf16_descriptor_def)
  have z: "replicate 3 (0 :: u16) = [0, 0, 0]" by (simp add: numeral_3_eq_3)
  have m: "map char_of_wide (map (\<lambda>c. ucast (of_char c :: u8)) s) = s" by (simp add: o_def char_of_wide_char)
  show ?thesis
    using assms(1,2) l d wide_chars_text [OF assms(3)] m by (simp add: GetDevStringVal_def Let_def z o_def)
qed

text \<open>
  a device that answers with the UTF-16 descriptor of an ASCII text gets that text as its
  serial number.
\<close>

theorem serial_text_decoded:
  assumes "idx \<noteq> 0" and "uh_GetStringDescriptor H usbDev idx = (0, utf16_descriptor s)" and "CHR 0x00 \<notin> set s"
  shows "GetDevStringVal H usbDev idx = Inr s"
  by (rule serial_text [OF assms])

text \<open>The answers of a device, given its descriptors.\<close>

definition answers :: "u8 list \<Rightarrow> u8 list \<Rightarrow> u8 list \<Rightarrow> usb_host" where
  "answers device_bytes serial_bytes config_bytes =
     \<lparr>uh_OpenDevice = \<lambda>_. 0, uh_GetDeviceDescriptor = \<lambda>_. (0, device_bytes),
      uh_GetStringDescriptor = \<lambda>_ _. (0, serial_bytes), uh_GetConfig = \<lambda>_. (0, 1),
      uh_GetConfigDescriptor = \<lambda>_ _. (0, config_bytes)\<rparr>"

definition mouse :: "u8 list" where
  "mouse = [18, 1, 0, 2, 0, 0, 0, 8, 0x07, 0x22, 0x34, 0x12, 0, 1, 1, 2, 3, 1]"

definition all_services :: subscriber where
  "all_services = SubscriberInit True True True"

theorem serial_text_decoded_witness:
  "GetDevStringVal (answers mouse (utf16_descriptor ''SN7'') []) \<lparr>ue_busNum = 1, ue_devAddr = 2\<rparr> 3 = Inr ''SN7''"
  by (rule serial_text_decoded) (simp_all add: answers_def)

section \<open>Opening and closing\<close>

text \<open>What follows an open call: launches, the close, and at most one announcement after it.\<close>

definition closed_run :: "subscriber \<Rightarrow> usb_dev \<Rightarrow> UsbErrCode \<Rightarrow> usb_call list \<Rightarrow> bool" where
  "closed_run s d ret calls \<longleftrightarrow>
     (\<exists>v p infos. calls \<in> {[CallClose d] @ map CallDeviceAdd infos, [CallAppLaunch v p, CallClose d] @ map CallDeviceAdd infos}
        \<and> length infos \<le> 1 \<and> (infos \<noteq> [] \<longrightarrow> ret = EDM_OK \<and> sb_callback s))"

lemma ConnectDescribed_closed:
  assumes "ConnectDescribed launch H s d desc = Some (Inr (ret, calls))"
  shows "closed_run s d ret calls"
proof -
  obtain sn where sn: "GetDevStringVal H d (sd_iSerialNumber desc) = Inr sn" using assms by (auto simp: ConnectDescribed_def split: sum.splits)
  obtain r ds where g: "GetInterfaceDescriptor H s d = Some (Inr (r, ds))"
    using assms sn by (auto simp: ConnectDescribed_def Let_def split: option.splits sum.splits)
  show ?thesis
  proof (cases "r = EDM_OK \<and> sb_callback s")
    case True
    then obtain i where "calls = (if launch then [CallAppLaunch (sd_idVendor desc) (sd_idProduct desc)] else []) @ [CallClose d, CallDeviceAdd i]"
        and "ret = EDM_OK"
      using assms sn g by (auto simp: ConnectDescribed_def Let_def)
    then show ?thesis using True unfolding closed_run_def
      by (intro exI [of _ "sd_idVendor desc"] exI [of _ "sd_idProduct desc"] exI [of _ "[i]"]) auto
  next
    case False
    then have "calls = (if launch then [CallAppLaunch (sd_idVendor desc) (sd_idProduct desc)] else []) @ [CallClose d]"
      using assms sn g by (auto simp: ConnectDescribed_def Let_def split: if_splits)
    then show ?thesis unfolding closed_run_def
      by (intro exI [of _ "sd_idVendor desc"] exI [of _ "sd_idProduct desc"] exI [of _ "[]"]) auto
  qed
qed

lemma closed_run_Nil: "closed_run s d ret [CallClose d]"
  unfolding closed_run_def by (rule exI, rule exI, rule exI [of _ "[]"]) simp

text \<open>
  C12: when plugging in a device returns, the device was closed if it had been opened, and it was
  announced to the device manager at most once, only after it had been closed, and only with the
  result EDM_OK.
\<close>

theorem opened_device_is_closed:
  assumes "OnDeviceConnect launch H s d = Some (Inr (ret, calls))" and "sb_iusb s"
  shows "if uh_OpenDevice H d = 0 then \<exists>rest. calls = CallOpen d # rest \<and> closed_run s d ret rest
    else calls = [CallOpen d] \<and> ret = EDM_ERR_IO"
proof (cases "uh_OpenDevice H d = 0")
  case True
  then obtain r desc where g: "GetUsbDeviceDescriptor H d = Inr (r, desc)"
    using assms by (auto simp: OnDeviceConnect_def split: sum.splits)
  show ?thesis
  proof (cases "r \<noteq> EDM_OK \<or> (\<exists>x. desc = Some x \<and> sd_bDeviceClass x = 9 \<and> ue_devAddr d = 1)")
    case True
    then have "calls = [CallOpen d, CallClose d]"
      using assms g \<open>uh_OpenDevice H d = 0\<close> by (auto simp: OnDeviceConnect_def split: if_splits)
    then show ?thesis using \<open>uh_OpenDevice H d = 0\<close> closed_run_Nil by simp
  next
    case False
    then obtain x rest where "desc = Some x" "ConnectDescribed launch H s d x = Some (Inr (ret, rest))" "calls = CallOpen d # rest"
      using assms g \<open>uh_OpenDevice H d = 0\<close> by (auto simp: OnDeviceConnect_def split: option.splits sum.splits if_splits)
    then show ?thesis using \<open>uh_OpenDevice H d = 0\<close> ConnectDescribed_closed by auto
  qed
qed (use assms in \<open>auto simp: OnDeviceConnect_def\<close>)

definition port_2 :: usb_dev where
  "port_2 = \<lparr>ue_busNum = 1, ue_devAddr = 2\<rparr>"

definition mouse_info :: device_info where
  "mouse_info =
     \<lparr>di_busType = 1, di_busDeviceId = 0x10002, di_description = ''USB&BUS_01&DEV_02&PID_1234&VID_2207&CLASS_00'',
      di_usb = Some \<lparr>uf_interfaceDescList = [interface_of_bytes [9,4,0,0,0,3,0,0,0], interface_of_bytes [9,4,5,0,1,8,6,80,0]],
        uf_bcdUSB = 0x200, uf_deviceClass = 0, uf_idVendor = 0x2207, uf_idProduct = 0x1234,
        uf_deviceSubClass = 0, uf_deviceProtocol = 0, uf_snNum = ''SN7''\<rparr>\<rparr>"

lemma mouse_run:
  "OnDeviceConnect True (answers mouse (utf16_descriptor ''SN7'') (enc_config sample_config)) all_services port_2
   = Some (Inr (EDM_OK, [CallOpen port_2, CallAppLaunch 0x2207 0x1234, CallClose port_2, CallDeviceAdd mouse_info]))"
  by code_simp

theorem opened_device_is_closed_witness:
  "\<exists>rest. [CallOpen port_2, CallAppLaunch 0x2207 0x1234, CallClose port_2, CallDeviceAdd mouse_info] = CallOpen port_2 # rest
    \<and> closed_run all_services port_2 EDM_OK rest"
  using opened_device_is_closed [OF mouse_run]
  by (simp add: answers_def all_services_def SubscriberInit_def)

section \<open>What is announced\<close>

lemma first_settings_map:
  "list_all (\<lambda>u. altsetting u \<noteq> []) us \<Longrightarrow>
   first_settings (length us) us = Inr (map (\<lambda>u. interfaceDescriptor (hd (altsetting u))) us)"
  by (induction us) (auto split: list.splits)

lemma GetInterfaceDescriptor_wf:
  assumes "sb_iusb s" and "sb_iUsbDdk s" and "uh_GetConfig H d = (0, i)"
    and "uh_GetConfigDescriptor H (ToDdkDeviceId d) i = (0, enc_config c)" and wf: "wf_config c"
  shows "GetInterfaceDescriptor H s d
    = Some (Inr (EDM_OK, map (\<lambda>u. interfaceDescriptor (hd (altsetting u))) (intfs_of c)))"
proof -
  obtain us where us: "cfg_interface c = Some us" using wf by (auto simp: wf_config_def)
  have p: "ParseUsbConfigDescriptor (enc_config c) = Some (Inr (0, Some c))"
    using ParseConfiguration_enc [OF wf] wf by (simp add: ParseUsbConfigDescriptor_def wf_config_def)
  have n: "unat (cd_bNumInterfaces (configDescriptor c)) = length us" using wf us by (simp add: wf_config_def intfs_of_def)
  have "list_all (\<lambda>u. altsetting u \<noteq> []) us"
    using wf us by (auto simp: wf_config_def intfs_of_def wf_intf_def list_all_iff)
  then show ?thesis using assms(1-4) p us n first_settings_map [of us]
    by (simp add: GetInterfaceDescriptor_def intfs_of_def)
qed

text \<open>
  C11: a device that answers with an 18-byte device descriptor, the string descriptor of an ASCII
  serial number and a well-formed configuration is announced with its number, its identifiers
  and classes, that serial number, and the first alternate setting of each of its interfaces.
\<close>

theorem plugged_device_is_announced:
  assumes "sb_iusb s" and "sb_iUsbDdk s" and "sb_callback s" and "uh_OpenDevice H d = 0"
    and "uh_GetDeviceDescriptor H d = (0, bs)" and "length bs = 18" and "bs ! 0 = 18" and "bs ! 4 \<noteq> 9" and "bs ! 16 \<noteq> 0"
    and "uh_GetStringDescriptor H d (bs ! 16) = (0, utf16_descriptor sn)" and "CHR 0x00 \<notin> set sn"
    and "uh_GetConfig H d = (0, i)" and "uh_GetConfigDescriptor H (ToDdkDeviceId d) i = (0, enc_config c)" and "wf_config c"
  shows "\<exists>calls info. OnDeviceConnect launch H s d = Some (Inr (EDM_OK, calls @ [CallDeviceAdd info]))
    \<and> GetDeviceId info = ToExtDevId d
    \<and> di_usb info = Some \<lparr>uf_interfaceDescList = map (\<lambda>u. interfaceDescriptor (hd (altsetting u))) (intfs_of c),
          uf_bcdUSB = le16 (bs ! 2) (bs ! 3), uf_deviceClass = bs ! 4, uf_idVendor = le16 (bs ! 8) (bs ! 9),
          uf_idProduct = le16 (bs ! 10) (bs ! 11), uf_deviceSubClass = bs ! 5, uf_deviceProtocol = bs ! 6, uf_snNum = sn\<rparr>"
proof -
  let ?desc = "dev_desc_of_bytes bs"
  have g: "GetUsbDeviceDescriptor H d = Inr (EDM_OK, Some ?desc)"
    using assms(5-7) by (auto simp: GetUsbDeviceDescriptor_def dev_desc_of_bytes_def Let_def)
  have sn: "GetDevStringVal H d (sd_iSerialNumber ?desc) = Inr sn"
    using serial_text [OF assms(9-11)] by (simp add: dev_desc_of_bytes_def)
  let ?calls = "CallOpen d # (if launch then [CallAppLaunch (sd_idVendor ?desc) (sd_idProduct ?desc)] else []) @ [CallClose d]"
  let ?info = "with_interfaces (map (\<lambda>u. interfaceDescriptor (hd (altsetting u))) (intfs_of c))
    (SetUsbDevInfoValue ?desc sn (new_usb_device (ToBusDeivceId d) (ToDeviceDesc d ?desc)))"
  have "OnDeviceConnect launch H s d = Some (Inr (EDM_OK, ?calls @ [CallDeviceAdd ?info]))"
    using g sn assms(1-4,8) GetInterfaceDescriptor_wf [OF assms(1,2,12-14)]
    by (simp add: OnDeviceConnect_def ConnectDescribed_def Let_def) (simp add: dev_desc_of_bytes_def)
  moreover have "GetDeviceId ?info = ToExtDevId d"
    by (simp add: with_interfaces_def SetUsbDevInfoValue_def new_usb_device_def GetDeviceId_def ToExtDevId_def)
  ultimately show ?thesis
    by (intro exI [of _ ?calls] exI [of _ ?info])
       (simp add: with_interfaces_def SetUsbDevInfoValue_def new_usb_device_def dev_desc_of_bytes_def)
qed

theorem plugged_device_is_announced_witness:
  "\<exists>calls info. OnDeviceConnect False (answers mouse (utf16_descriptor ''SN7'') (enc_config sample_config)) all_services port_2
      = Some (Inr (EDM_OK, calls @ [CallDeviceAdd info])) \<and> GetDeviceId info = ToExtDevId port_2"
  using plugged_device_is_announced [of all_services "answers mouse (utf16_descriptor ''SN7'') (enc_config sample_config)"
      port_2 mouse "''SN7''" 1 sample_config False] sample_config_wf
  by (auto simp: answers_def all_services_def SubscriberInit_def mouse_def)

section \<open>Hostile devices\<close>

text \<open>
  a device whose device descriptor is shorter than 18 bytes makes the subscriber read past
  the end of the buffer it was returned in.
\<close>

theorem short_device_descriptor_overread:
  assumes "sb_iusb s" and "uh_OpenDevice H d = 0" and "uh_GetDeviceDescriptor H d = (0, bs)" and "bs \<noteq> []" and "length bs < 18"
  shows "OnDeviceConnect launch H s d = Some (Inl Oob_read)"
  using assms by (auto simp: OnDeviceConnect_def GetUsbDeviceDescriptor_def rd_bytes_def)

theorem short_device_descriptor_overread_witness:
  "OnDeviceConnect False (answers [18, 1] [] []) all_services port_2 = Some (Inl Oob_read)"
  by (rule short_device_descriptor_overread [where bs = "[18, 1]"]) (simp_all add: answers_def all_services_def SubscriberInit_def)

lemma hanging_input_hangs: "ParseUsbConfigDescriptor hanging_input = None"
  unfolding hanging_input_enters_loop
  by (rule ParseConfigurationDes_stuck) code_simp+

text \<open>
  a device that passes the checks of its device descriptor and answers with a configuration
  on which the parser does not return stops the subscriber; there is such a configuration of 22
  bytes.
\<close>

theorem hostile_configuration_hangs:
  assumes "sb_iusb s" and "sb_iUsbDdk s" and "uh_OpenDevice H d = 0"
    and "uh_GetDeviceDescriptor H d = (0, bs)" and "length bs = 18" and "bs ! 0 = 18" and "bs ! 4 \<noteq> 9"
    and "uh_GetConfig H d = (0, i)" and "uh_GetConfigDescriptor H (ToDdkDeviceId d) i = (0, hanging_input)"
  shows "OnDeviceConnect launch H s d = None"
proof -
  let ?desc = "dev_desc_of_bytes bs"
  have g: "GetUsbDeviceDescriptor H d = Inr (EDM_OK, Some ?desc)"
    using assms(4-6) by (auto simp: GetUsbDeviceDescriptor_def dev_desc_of_bytes_def Let_def)
  obtain sn where sn: "GetDevStringVal H d (sd_iSerialNumber ?desc) = Inr sn" using string_val_total by blast
  have "GetInterfaceDescriptor H s d = None"
    using assms(1,2,8,9) hanging_input_hangs by (simp add: GetInterfaceDescriptor_def)
  then show ?thesis
    using g sn assms(1,3,7) by (simp add: OnDeviceConnect_def ConnectDescribed_def Let_def) (simp add: dev_desc_of_bytes_def)
qed

theorem hostile_configuration_hangs_witness:
  "OnDeviceConnect False (answers mouse [] hanging_input) all_services port_2 = None"
  by (rule hostile_configuration_hangs [where bs = mouse and i = 1]) (simp_all add: answers_def all_services_def SubscriberInit_def mouse_def)

end
