(* ===== verification/Pkg_Db.thy ===== *)
theory Pkg_Db
  imports Ext_Types
begin

text \<open>
  The database of driver packages: drivers_pkg_manager/pkg_database.cpp and pkg_db_helper.cpp.

  The relational store is a library. It is the record \<open>R\<close> of the calls the code makes on a store
  whose contents have the type \<open>'s\<close>; what the code relies on is \<open>rdb_ok\<close>. Results of the store are
  its integer codes (0 is E_OK), results of this code are the PKG_ codes below zero, or a count.
\<close>

section \<open>The store\<close>

datatype db_value = DText string | DLong int

type_synonym db_row = "(string \<times> db_value) list"

text \<open>A cursor; \<open>rs_IsEnded i\<close> is its answer when it stands on row \<open>i\<close>.\<close>

record result_set =
  rs_GetRowCount :: "int \<times> int"
  rs_GetColumnIndex :: "string \<Rightarrow> int \<times> int"
  rs_GoToRow :: "int \<Rightarrow> int"
  rs_GetString :: "int \<Rightarrow> int \<Rightarrow> int \<times> string"
  rs_GetLong :: "int \<Rightarrow> int \<Rightarrow> int \<times> int"
  rs_IsEnded :: "int \<Rightarrow> bool"

text \<open>The conditions of a query are equations between columns and texts; the flag is \<open>Distinct\<close>.\<close>

record 's rdb =
  r_open :: "'s \<Rightarrow> bool \<times> int \<times> 's"
  r_begin :: "'s \<Rightarrow> int \<times> 's"
  r_commit :: "'s \<Rightarrow> int \<times> 's"
  r_rollback :: "'s \<Rightarrow> int \<times> 's"
  r_insert :: "db_row \<Rightarrow> 's \<Rightarrow> int \<times> int \<times> 's"
  r_update :: "db_row \<Rightarrow> string \<Rightarrow> string list \<Rightarrow> 's \<Rightarrow> int \<times> 's"
  r_delete :: "string \<Rightarrow> string list \<Rightarrow> 's \<Rightarrow> int \<times> 's"
  r_query :: "(string \<times> string) list \<Rightarrow> bool \<Rightarrow> string list \<Rightarrow> 's \<Rightarrow> result_set option"

section \<open>PkgDataBase\<close>

abbreviation (input) PKG_OK :: int where "PKG_OK \<equiv> 0"
abbreviation (input) PKG_FAILURE :: int where "PKG_FAILURE \<equiv> - 1"
abbreviation (input) PKG_RDB_EXECUTE_FAILTURE :: int where "PKG_RDB_EXECUTE_FAILTURE \<equiv> - 2"
abbreviation (input) PKG_RDB_NO_INIT :: int where "PKG_RDB_NO_INIT \<equiv> - 3"

record 's pkg_db =
  pd_store :: bool
  pd_data :: 's

definition code_of :: "int \<Rightarrow> int" where
  "code_of ret = (if ret \<noteq> 0 then PKG_RDB_EXECUTE_FAILTURE else PKG_OK)"

definition InitDB :: "'s rdb \<Rightarrow> 's pkg_db \<Rightarrow> bool \<times> 's pkg_db" where
  "InitDB R db =
     (case r_open R (pd_data db) of (store, errCode, s) \<Rightarrow>
        (errCode = 0, db\<lparr>pd_store := store, pd_data := s\<rparr>))"

definition BeginTransaction :: "'s rdb \<Rightarrow> 's pkg_db \<Rightarrow> int \<times> 's pkg_db" where
  "BeginTransaction R db =
     (if \<not> pd_store db then (PKG_RDB_NO_INIT, db)
      else case r_begin R (pd_data db) of (ret, s) \<Rightarrow> (code_of ret, db\<lparr>pd_data := s\<rparr>))"

definition Commit :: "'s rdb \<Rightarrow> 's pkg_db \<Rightarrow> int \<times> 's pkg_db" where
  "Commit R db =
     (if \<not> pd_store db then (PKG_RDB_NO_INIT, db)
      else case r_commit R (pd_data db) of (ret, s) \<Rightarrow> (code_of ret, db\<lparr>pd_data := s\<rparr>))"

definition RollBack :: "'s rdb \<Rightarrow> 's pkg_db \<Rightarrow> int \<times> 's pkg_db" where
  "RollBack R db =
     (if \<not> pd_store db then (PKG_RDB_NO_INIT, db)
      else case r_rollback R (pd_data db) of (ret, s) \<Rightarrow> (code_of ret, db\<lparr>pd_data := s\<rparr>))"

text \<open>The row identifier is the result of an insertion.\<close>

definition Insert :: "'s rdb \<Rightarrow> db_row \<Rightarrow> 's pkg_db \<Rightarrow> int \<times> 's pkg_db" where
  "Insert R values db =
     (if \<not> pd_store db then (PKG_RDB_NO_INIT, db)
      else case r_insert R values (pd_data db) of (ret, outRowId, s) \<Rightarrow>
        (if ret \<noteq> 0 then PKG_RDB_EXECUTE_FAILTURE else outRowId, db\<lparr>pd_data := s\<rparr>))"

definition Update :: "'s rdb \<Rightarrow> db_row \<Rightarrow> string \<Rightarrow> string list \<Rightarrow> 's pkg_db \<Rightarrow> int \<times> 's pkg_db" where
  "Update R values whereClause whereArgs db =
     (if \<not> pd_store db then (PKG_RDB_NO_INIT, db)
      else case r_update R values whereClause whereArgs (pd_data db) of (ret, s) \<Rightarrow> (code_of ret, db\<lparr>pd_data := s\<rparr>))"

definition Delete :: "'s rdb \<Rightarrow> string \<Rightarrow> string list \<Rightarrow> 's pkg_db \<Rightarrow> int \<times> 's pkg_db" where
  "Delete R whereClause whereArgs db =
     (if \<not> pd_store db then (PKG_RDB_NO_INIT, db)
      else case r_delete R whereClause whereArgs (pd_data db) of (ret, s) \<Rightarrow> (code_of ret, db\<lparr>pd_data := s\<rparr>))"

definition Query ::
  "'s rdb \<Rightarrow> (string \<times> string) list \<Rightarrow> bool \<Rightarrow> string list \<Rightarrow> 's pkg_db \<Rightarrow> result_set option" where
  "Query R conds dist columns db = (if \<not> pd_store db then None else r_query R conds dist columns (pd_data db))"

section \<open>The helper\<close>

text \<open>
  The singleton is made again as long as opening the database fails. \<open>None\<close>: there is no
  instance yet; otherwise the flag \<open>g_dbInitSucc\<close>.
\<close>

record 's pkg_helper =
  ph_init :: "bool option"
  ph_db :: "'s pkg_db"

definition GetInstance :: "'s rdb \<Rightarrow> 's pkg_helper \<Rightarrow> 's pkg_helper" where
  "GetInstance R h =
     (if ph_init h = Some True then h
      else case InitDB R (ph_db h) of (ok, db) \<Rightarrow> \<lparr>ph_init = Some ok, ph_db = db\<rparr>)"

definition DeleteAndNoOtherOperation ::
  "'s rdb \<Rightarrow> string \<Rightarrow> string list \<Rightarrow> 's pkg_db \<Rightarrow> int \<times> 's pkg_db" where
  "DeleteAndNoOtherOperation R whereClause whereArgs db =
     (case BeginTransaction R db of (ret, db) \<Rightarrow>
      if ret < PKG_OK then (ret, db)
      else case Delete R whereClause whereArgs db of (ret, db) \<Rightarrow>
      if ret < PKG_OK then (ret, snd (RollBack R db))
      else case Commit R db of (ret, db) \<Rightarrow>
      if ret < PKG_OK then (ret, snd (RollBack R db)) else (ret, db))"

definition DeleteRightRecord :: "'s rdb \<Rightarrow> string \<Rightarrow> 's pkg_db \<Rightarrow> int \<times> 's pkg_db" where
  "DeleteRightRecord R bundleName db = DeleteAndNoOtherOperation R ''bundleName = ?'' [bundleName] db"

record pkg_info =
  pk_driverUid :: string
  pk_bundleAbility :: string
  pk_userId :: int
  pk_appIndex :: int
  pk_bundleName :: string
  pk_driverName :: string
  pk_driverInfo :: string

definition values_of :: "pkg_info \<Rightarrow> db_row" where
  "values_of p =
     [(''driverUid'', DText (pk_driverUid p)), (''userId'', DLong (pk_userId p)), (''appIndex'', DLong (pk_appIndex p)),
      (''bundleAbility'', DText (pk_bundleAbility p)), (''bundleName'', DText (pk_bundleName p)),
      (''driverName'', DText (pk_driverName p)), (''driverInfo'', DText (pk_driverInfo p))]"

text \<open>The row identifier is converted to \<open>int32_t\<close> before it is compared with zero.\<close>

fun InsertAll :: "'s rdb \<Rightarrow> pkg_info list \<Rightarrow> int \<Rightarrow> 's pkg_db \<Rightarrow> int \<times> 's pkg_db" where
  "InsertAll R [] ret db = (ret, db)"
| "InsertAll R (p # ps) ret db =
     (case Insert R (values_of p) db of (rowId, db) \<Rightarrow>
      let ret = to_i32 rowId in
      if ret < PKG_OK then (ret, snd (RollBack R db)) else InsertAll R ps ret db)"

definition AddOrUpdatePkgInfo :: "'s rdb \<Rightarrow> pkg_info list \<Rightarrow> string \<Rightarrow> 's pkg_db \<Rightarrow> int \<times> 's pkg_db" where
  "AddOrUpdatePkgInfo R pkgInfos bundleName db =
     (case BeginTransaction R db of (ret, db) \<Rightarrow>
      if ret < PKG_OK then (ret, db)
      else
        let (whereClause, whereArgs) = (if bundleName \<noteq> [] then (''bundleName = ?'', [bundleName]) else ([], [])) in
        case Delete R whereClause whereArgs db of (ret, db) \<Rightarrow>
        if ret < PKG_OK then (ret, snd (RollBack R db))
        else case InsertAll R pkgInfos ret db of (ret, db) \<Rightarrow>
        if ret < PKG_OK then (ret, db)
        else case Commit R db of (ret, db) \<Rightarrow>
        if ret < PKG_OK then (ret, snd (RollBack R db)) else (ret, db))"

text \<open>The error, or whether there is a row for the ability.\<close>

definition CheckIfNeedUpdateEx :: "'s rdb \<Rightarrow> string \<Rightarrow> 's pkg_db \<Rightarrow> int \<times> bool \<times> 's pkg_db" where
  "CheckIfNeedUpdateEx R bundleAbility db =
     (case Query R [(''bundleAbility'', bundleAbility)] False [] db of
        None \<Rightarrow> (PKG_RDB_EXECUTE_FAILTURE, False, snd (RollBack R db))
      | Some rs \<Rightarrow>
          (case rs_GetRowCount rs of (ret, rowCount) \<Rightarrow>
             if ret \<noteq> 0 then (PKG_RDB_EXECUTE_FAILTURE, False, snd (RollBack R db))
             else (PKG_OK, rowCount > 0, db)))"

definition AddOrUpdateRightRecordEx ::
  "'s rdb \<Rightarrow> bool \<Rightarrow> string \<Rightarrow> string \<Rightarrow> string \<Rightarrow> 's pkg_db \<Rightarrow> int \<times> 's pkg_db" where
  "AddOrUpdateRightRecordEx R isUpdate bundleName bundleAbility driverInfo db =
     (let values = [(''bundleName'', DText bundleName), (''bundleAbility'', DText bundleAbility), (''driverInfo'', DText driverInfo)] in
      case (if isUpdate then Update R values ''bundleAbility = ?'' [bundleAbility] db
            else case Insert R values db of (rowId, db) \<Rightarrow> (to_i32 rowId, db)) of (ret, db) \<Rightarrow>
      if ret < PKG_OK then (ret, snd (RollBack R db)) else (ret, db))"

definition AddOrUpdateRightRecord :: "'s rdb \<Rightarrow> string \<Rightarrow> string \<Rightarrow> string \<Rightarrow> 's pkg_db \<Rightarrow> int \<times> 's pkg_db" where
  "AddOrUpdateRightRecord R bundleName bundleAbility driverInfo db =
     (case BeginTransaction R db of (ret, db) \<Rightarrow>
      if ret < PKG_OK then (ret, db)
      else case CheckIfNeedUpdateEx R bundleAbility db of (ret, isUpdate, db) \<Rightarrow>
      if ret < PKG_OK then (ret, db)
      else case AddOrUpdateRightRecordEx R isUpdate bundleName bundleAbility driverInfo db of (ret, db) \<Rightarrow>
      if ret < PKG_OK then (ret, db)
      else case Commit R db of (ret, db) \<Rightarrow>
      if ret < PKG_OK then (ret, snd (RollBack R db)) else (ret, db))"

section \<open>Queries\<close>

text \<open>
  A query runs in a transaction of its own. The result set outlives it: its rows are read after
  the commit.
\<close>

definition QueryInTransaction ::
  "'s rdb \<Rightarrow> (string \<times> string) list \<Rightarrow> bool \<Rightarrow> string list \<Rightarrow> 's pkg_db \<Rightarrow> (int + result_set) \<times> 's pkg_db" where
  "QueryInTransaction R conds dist columns db =
     (case BeginTransaction R db of (ret, db) \<Rightarrow>
      if ret < PKG_OK then (Inl ret, db)
      else case Query R conds dist columns db of
        None \<Rightarrow> (Inl PKG_RDB_EXECUTE_FAILTURE, snd (RollBack R db))
      | Some rs \<Rightarrow>
          (case Commit R db of (ret, db) \<Rightarrow>
           if ret < PKG_OK then (Inl ret, snd (RollBack R db)) else (Inr rs, db)))"

text \<open>The loops over the rows: \<open>n\<close> rows are left from row \<open>i\<close> on.\<close>

fun ReadColumn :: "result_set \<Rightarrow> int \<Rightarrow> int \<Rightarrow> nat \<Rightarrow> string list \<Rightarrow> (int + string list)" where
  "ReadColumn rs columnIndex i 0 vs = Inr vs"
| "ReadColumn rs columnIndex i (Suc n) vs =
     (if rs_GoToRow rs i \<noteq> 0 then Inl PKG_RDB_EXECUTE_FAILTURE
      else
        let vs = (case rs_GetString rs i columnIndex of (ret, s) \<Rightarrow> if ret = 0 then vs @ [s] else vs) in
        if rs_IsEnded rs i then Inr vs else ReadColumn rs columnIndex (i + 1) n vs)"

definition QueryAndGetResultColumnValues ::
  "'s rdb \<Rightarrow> (string \<times> string) list \<Rightarrow> bool \<Rightarrow> string list \<Rightarrow> string \<Rightarrow> 's pkg_db \<Rightarrow> (int + string list) \<times> 's pkg_db" where
  "QueryAndGetResultColumnValues R conds dist columns columnName db =
     (case QueryInTransaction R conds dist columns db of
        (Inl e, db) \<Rightarrow> (Inl e, db)
      | (Inr rs, db) \<Rightarrow>
          (case rs_GetRowCount rs of (ret1, rowCount) \<Rightarrow>
           case rs_GetColumnIndex rs columnName of (ret2, columnIndex) \<Rightarrow>
             if ret1 \<noteq> 0 \<or> ret2 \<noteq> 0 then (Inl PKG_RDB_EXECUTE_FAILTURE, db)
             else (ReadColumn rs columnIndex 0 (nat rowCount) [], db)))"

definition QueryAllDriverInfos :: "'s rdb \<Rightarrow> 's pkg_db \<Rightarrow> (int + string list) \<times> 's pkg_db" where
  "QueryAllDriverInfos R db = QueryAndGetResultColumnValues R [] False [''driverInfo''] ''driverInfo'' db"

definition QueryAllBundleAbilityNames :: "'s rdb \<Rightarrow> string \<Rightarrow> 's pkg_db \<Rightarrow> (int + string list) \<times> 's pkg_db" where
  "QueryAllBundleAbilityNames R bundleName db =
     QueryAndGetResultColumnValues R [(''bundleName'', bundleName)] True [''bundleAbility''] ''bundleAbility'' db"

definition QueryAllSize :: "'s rdb \<Rightarrow> 's pkg_db \<Rightarrow> (int + string list) \<times> 's pkg_db" where
  "QueryAllSize R db = QueryAndGetResultColumnValues R [] False [''bundleAbility''] ''bundleAbility'' db"

definition QueryBundleInfoNames :: "'s rdb \<Rightarrow> string \<Rightarrow> 's pkg_db \<Rightarrow> string \<times> 's pkg_db" where
  "QueryBundleInfoNames R driverInfo db =
     (case QueryInTransaction R [(''driverInfo'', driverInfo)] True [''bundleAbility''] db of
        (Inl e, db) \<Rightarrow> ([], db)
      | (Inr rs, db) \<Rightarrow>
          (case rs_GetRowCount rs of (ret, rowCount) \<Rightarrow>
             if ret \<noteq> 0 \<or> rowCount = 0 then ([], db)
             else if rs_GoToRow rs 0 \<noteq> 0 then ([], db)
             else (case rs_GetString rs 0 0 of (ret, s) \<Rightarrow> if ret \<noteq> 0 then ([], db) else (s, db))))"

text \<open>
  One row of \<open>ParseToPkgInfos\<close>: the columns it reads, in this order. The columns that are not
  selected keep what the declaration leaves in them; nothing reads them.
\<close>

definition ReadPkgInfo :: "result_set \<Rightarrow> int \<Rightarrow> int \<times> int \<times> int \<times> int \<times> int \<Rightarrow> pkg_info option" where
  "ReadPkgInfo rs i cols =
     (case cols of (driverUidIndex, userIdIndex, bundleNameIndex, driverNameIndex, driverInfoIndex) \<Rightarrow>
      case rs_GetString rs i driverUidIndex of (r1, driverUid) \<Rightarrow>
      case rs_GetLong rs i userIdIndex of (r2, userId) \<Rightarrow>
      case rs_GetString rs i bundleNameIndex of (r3, bundleName) \<Rightarrow>
      case rs_GetString rs i driverNameIndex of (r4, driverName) \<Rightarrow>
      case rs_GetString rs i driverInfoIndex of (r5, driverInfo) \<Rightarrow>
        if r1 \<noteq> 0 \<or> r2 \<noteq> 0 \<or> r3 \<noteq> 0 \<or> r4 \<noteq> 0 \<or> r5 \<noteq> 0 then None
        else Some \<lparr>pk_driverUid = driverUid, pk_bundleAbility = [], pk_userId = userId, pk_appIndex = 0,
               pk_bundleName = bundleName, pk_driverName = driverName, pk_driverInfo = driverInfo\<rparr>)"

fun ReadPkgInfos ::
  "result_set \<Rightarrow> int \<times> int \<times> int \<times> int \<times> int \<Rightarrow> int \<Rightarrow> nat \<Rightarrow> pkg_info list \<Rightarrow> pkg_info list option" where
  "ReadPkgInfos rs cols i 0 ps = Some ps"
| "ReadPkgInfos rs cols i (Suc n) ps =
     (if rs_GoToRow rs i \<noteq> 0 then None
      else case ReadPkgInfo rs i cols of None \<Rightarrow> None
      | Some p \<Rightarrow> if rs_IsEnded rs i then Some (ps @ [p]) else ReadPkgInfos rs cols (i + 1) n (ps @ [p]))"

definition ParseToPkgInfos :: "result_set \<Rightarrow> pkg_info list option" where
  "ParseToPkgInfos rs =
     (case rs_GetRowCount rs of (r0, rowCount) \<Rightarrow>
      case rs_GetColumnIndex rs ''driverUid'' of (r1, driverUidIndex) \<Rightarrow>
      case rs_GetColumnIndex rs ''userId'' of (r2, userIdIndex) \<Rightarrow>
      case rs_GetColumnIndex rs ''bundleName'' of (r3, bundleNameIndex) \<Rightarrow>
      case rs_GetColumnIndex rs ''driverName'' of (r4, driverNameIndex) \<Rightarrow>
      case rs_GetColumnIndex rs ''driverInfo'' of (r5, driverInfoIndex) \<Rightarrow>
        if r0 \<noteq> 0 \<or> r1 \<noteq> 0 \<or> r2 \<noteq> 0 \<or> r3 \<noteq> 0 \<or> r4 \<noteq> 0 \<or> r5 \<noteq> 0 then None
        else ReadPkgInfos rs (driverUidIndex, userIdIndex, bundleNameIndex, driverNameIndex, driverInfoIndex) 0 (nat rowCount) [])"

text \<open>The error, or the records, whose number the code returns.\<close>

definition QueryPkgInfosWhere ::
  "'s rdb \<Rightarrow> string \<Rightarrow> string \<Rightarrow> 's pkg_db \<Rightarrow> (int + pkg_info list) \<times> 's pkg_db" where
  "QueryPkgInfosWhere R whereKey whereValue db =
     (let columns = [''driverUid'', ''userId'', ''bundleName'', ''driverName'', ''driverInfo''];
          conds = (if whereKey \<noteq> [] then [(whereKey, whereValue)] else []) in
      case QueryInTransaction R conds False columns db of
        (Inl e, db) \<Rightarrow> (Inl e, db)
      | (Inr rs, db) \<Rightarrow>
          (case ParseToPkgInfos rs of None \<Rightarrow> (Inl PKG_FAILURE, db) | Some ps \<Rightarrow> (Inr ps, db)))"

definition QueryPkgInfosByUid :: "'s rdb \<Rightarrow> bool \<Rightarrow> string \<Rightarrow> 's pkg_db \<Rightarrow> (int + pkg_info list) \<times> 's pkg_db" where
  "QueryPkgInfosByUid R isByDriverUid driverUid db =
     QueryPkgInfosWhere R (if isByDriverUid then ''driverUid'' else []) driverUid db"

definition QueryPkgInfosByBundle :: "'s rdb \<Rightarrow> string \<Rightarrow> 's pkg_db \<Rightarrow> (int + pkg_info list) \<times> 's pkg_db" where
  "QueryPkgInfosByBundle R bundleName db =
     QueryPkgInfosWhere R (if bundleName = [] then [] else ''bundleName'') bundleName db"

end
