(* ===== verification/Pkg_Mgr.thy ===== *)
theory Pkg_Mgr
  imports Driver_Text Pkg_Db
begin

text \<open>
  The driver package manager: drivers_pkg_manager/drv_bundle_state_callback.cpp (package events
  and the refresh of the database), driver_pkg_manager.cpp (queries and matching) and
  driver_os_account_subscriber.cpp.

  The bundle manager, the account manager and the token service are not part of the repository:
  their answers are fields of \<open>pkg_env\<close>, beside the libraries of the components below. Threads
  that the code starts and detaches are queued in \<open>pm_tasks\<close>. The reports of system events
  are in Sys_Event; the locks are left out.
\<close>

section \<open>Services\<close>

text \<open>\<open>ExtensionAbilityInfo\<close>, with the fields of its application that are used.\<close>

record ext_ability =
  xa_isDriver :: bool
  xa_bundleName :: string
  xa_name :: string
  xa_metadata :: "(string \<times> string) list"
  xa_accessTokenId :: u32
  xa_versionName :: string

record ('j, 's) pkg_env =
  pe_json :: "'j cjson"
  pe_lower :: "string \<Rightarrow> string"
  pe_core :: "usb_bus_extension bus_core"
  pe_rdb :: "'s rdb"
  pe_activeUser :: "int option"
  pe_bundleMgr :: bool
  pe_bundleStats :: "string \<Rightarrow> int \<Rightarrow> int list option"
  pe_driverAbilities :: "int \<Rightarrow> ext_ability list"
  pe_bundleInfo :: "string \<Rightarrow> int \<Rightarrow> (ext_ability list \<times> u32 \<times> string) option"
  pe_hapToken :: "u32 \<Rightarrow> (int \<times> int) option"
  pe_subscribe :: bool
  pe_unsubscribe :: bool
  pe_subscribeSwitching :: bool
  pe_subscribeSwitched :: bool

section \<open>State\<close>

datatype pkg_task = TaskBundlesUpdated string | TaskBundlesReseted int | TaskGetAllDriverInfos

record 's pkg_mgr =
  pm_callback :: bool
  pm_monitor :: bool
  pm_pFun :: bool
  pm_updateCallback :: bool
  pm_initOnce :: bool
  pm_bundleMgr :: bool
  pm_helper :: "'s pkg_helper"
  pm_tasks :: "pkg_task list"
  pm_switching :: bool
  pm_switched :: bool

definition with_db :: "('s pkg_db \<Rightarrow> 'a \<times> 's pkg_db) \<Rightarrow> 's pkg_mgr \<Rightarrow> 'a \<times> 's pkg_mgr" where
  "with_db f m =
     (case f (ph_db (pm_helper m)) of (x, db) \<Rightarrow> (x, m\<lparr>pm_helper := (pm_helper m)\<lparr>ph_db := db\<rparr>\<rparr>))"

section \<open>Small services\<close>

abbreviation (input) INVALID_USERID :: int where "INVALID_USERID \<equiv> - 1"

definition GetCurrentActiveUserId :: "('j, 's) pkg_env \<Rightarrow> int" where
  "GetCurrentActiveUserId E = (case pe_activeUser E of None \<Rightarrow> INVALID_USERID | Some localId \<Rightarrow> localId)"

definition IsCurrentUserId :: "('j, 's) pkg_env \<Rightarrow> int \<Rightarrow> bool" where
  "IsCurrentUserId E userId \<longleftrightarrow> GetCurrentActiveUserId E = userId"

text \<open>\<open>pe_bundleMgr\<close>: the proxy can be obtained.\<close>

definition GetBundleMgrProxy :: "('j, 's) pkg_env \<Rightarrow> 's pkg_mgr \<Rightarrow> bool \<times> 's pkg_mgr" where
  "GetBundleMgrProxy E m =
     (if \<not> pm_bundleMgr m then
        if \<not> pe_bundleMgr E then (False, m) else (True, m\<lparr>pm_bundleMgr := True\<rparr>)
      else (True, m))"

definition ResetBundleMgr :: "'s pkg_mgr \<Rightarrow> 's pkg_mgr" where
  "ResetBundleMgr m = m\<lparr>pm_bundleMgr := False\<rparr>"

text \<open>\<open>std::to_string\<close>.\<close>

fun show_nat :: "nat \<Rightarrow> string" where
  "show_nat n = (if n < 10 then [char_of (48 + n)] else show_nat (n div 10) @ [char_of (48 + n mod 10)])"

declare show_nat.simps [simp del]

definition show_int :: "int \<Rightarrow> string" where
  "show_int n = (if n < 0 then CHR ''-'' # show_nat (nat (- n)) else show_nat (nat n))"

definition GetBundleSize :: "('j, 's) pkg_env \<Rightarrow> string \<Rightarrow> 's pkg_mgr \<Rightarrow> string \<times> 's pkg_mgr" where
  "GetBundleSize E bundleName m =
     (let userId = GetCurrentActiveUserId E in
      case GetBundleMgrProxy E m of (ok, m) \<Rightarrow>
      if \<not> ok then ([], m)
      else case pe_bundleStats E bundleName userId of
        None \<Rightarrow> ([], m)
      | Some stats \<Rightarrow> (case stats of [] \<Rightarrow> [] | n # _ \<Rightarrow> show_int n, m))"

section \<open>From abilities to records\<close>

text \<open>\<open>std::map<string, string>\<close>: a list sorted by key; \<open>emplace\<close> keeps an entry that is there.\<close>

fun str_less :: "string \<Rightarrow> string \<Rightarrow> bool" where
  "str_less s [] = False"
| "str_less [] (d # t) = True"
| "str_less (c # s) (d # t) =
     (if (of_char c :: int) < of_char d then True else if c = d then str_less s t else False)"

fun map_emplace :: "string \<Rightarrow> string \<Rightarrow> (string \<times> string) list \<Rightarrow> (string \<times> string) list" where
  "map_emplace k x [] = [(k, x)]"
| "map_emplace k x ((k', x') # m) =
     (if k = k' then (k', x') # m
      else if str_less k k' then (k, x) # (k', x') # m
      else (k', x') # map_emplace k x m)"

definition meta_map :: "(string \<times> string) list \<Rightarrow> (string \<times> string) list" where
  "meta_map metadata = fold (\<lambda>(k, x). map_emplace k x) metadata []"

definition ChangeEntry :: "(string \<Rightarrow> string) \<Rightarrow> string \<times> string \<Rightarrow> driver_info \<Rightarrow> driver_info" where
  "ChangeEntry lower data d =
     (case data of (k, x) \<Rightarrow>
      let d = (if k = ''bus'' then d\<lparr>dr_bus := x, dr_busType := GetBusTypeByName lower x\<rparr> else d);
          d = (if k = ''vendor'' then d\<lparr>dr_vendor := x\<rparr> else d);
          d = (if k = ''description'' then d\<lparr>dr_description := x\<rparr> else d);
          d = (if lower k = ''launchonbind'' then d\<lparr>dr_launchOnBind := (x = ''true'')\<rparr> else d) in
      if k = ''ohos.permission.ACCESS_DDK_ALLOWED'' then d\<lparr>dr_accessAllowed := (x = ''true'')\<rparr> else d)"

definition ChangeValue :: "(string \<Rightarrow> string) \<Rightarrow> (string \<times> string) list \<Rightarrow> driver_info \<Rightarrow> driver_info" where
  "ChangeValue lower metadata d = fold (ChangeEntry lower) metadata d"

definition CreatePkgInfoTable :: "('j, 's) pkg_env \<Rightarrow> ext_ability \<Rightarrow> string \<Rightarrow> pkg_info" where
  "CreatePkgInfoTable E a driverInfoStr =
     (let (userId, appIndex) = (case pe_hapToken E (xa_accessTokenId a) of None \<Rightarrow> (0, 0) | Some t \<Rightarrow> t) in
      \<lparr>pk_driverUid = xa_name a @ ''-'' @ show_int (uint (xa_accessTokenId a)),
       pk_bundleAbility = xa_bundleName a @ ''-'' @ xa_name a,
       pk_userId = userId, pk_appIndex = appIndex,
       pk_bundleName = xa_bundleName a, pk_driverName = xa_name a, pk_driverInfo = driverInfoStr\<rparr>)"

text \<open>
  The loop: \<open>sizes\<close> caches the sizes of the bundles, \<open>ps\<close> and \<open>ds\<close> are the records and the
  drivers so far.
\<close>

fun ParseAbilities ::
  "('j, 's) pkg_env \<Rightarrow> ext_ability list \<Rightarrow> (string \<times> string) list \<Rightarrow> pkg_info list \<Rightarrow> driver_info list \<Rightarrow> 's pkg_mgr \<Rightarrow>
   (pkg_info list \<times> driver_info list \<times> 's pkg_mgr) res" where
  "ParseAbilities E [] sizes ps ds m = Inr (ps, ds, m)"
| "ParseAbilities E (a # as) sizes ps ds m =
     (if \<not> xa_isDriver a \<or> xa_metadata a = [] then ParseAbilities E as sizes ps ds m
      else
        let metaMap = meta_map (xa_metadata a);
            d = ChangeValue (pe_lower E) metaMap (new_driver_info (xa_bundleName a) (xa_name a) [] (- 1)) in
        case GetBusExtensionByName (pe_lower E) (pe_core E) (dr_bus d) of
          None \<Rightarrow> ParseAbilities E as sizes ps ds m
        | Some _ \<Rightarrow>
            bindE (ParseDriverInfo (pe_lower E) metaMap) (\<lambda>ext.
              case (case map_of sizes (xa_bundleName a) of
                      Some s \<Rightarrow> (s, sizes, m)
                    | None \<Rightarrow>
                        (case GetBundleSize E (xa_bundleName a) m of (s, m) \<Rightarrow> (s, (xa_bundleName a, s) # sizes, m)))
              of (bundleSize, sizes, m) \<Rightarrow>
                let d = d\<lparr>dr_ext := Some ext, dr_driverSize := bundleSize, dr_version := xa_versionName a\<rparr> in
                bindE (DriverInfo_Serialize (pe_json E) d) (\<lambda>(ret, driverInfoStr).
                  if ret \<noteq> EDM_OK then ParseAbilities E as sizes ps ds m
                  else
                    let p = CreatePkgInfoTable E a driverInfoStr in
                    ParseAbilities E as sizes (ps @ [p])
                      (ds @ [d\<lparr>dr_driverUid := pk_driverUid p, dr_userId := pk_userId p\<rparr>]) m)))"

definition ParseToPkgInfoTables ::
  "('j, 's) pkg_env \<Rightarrow> ext_ability list \<Rightarrow> 's pkg_mgr \<Rightarrow> (pkg_info list \<times> driver_info list \<times> 's pkg_mgr) res" where
  "ParseToPkgInfoTables E driverInfos m = ParseAbilities E driverInfos [] [] [] m"

section \<open>Refresh\<close>

definition start_task :: "pkg_task \<Rightarrow> 's pkg_mgr \<Rightarrow> 's pkg_mgr" where
  "start_task t m = m\<lparr>pm_tasks := pm_tasks m @ [t]\<rparr>"

definition get_helper :: "('j, 's) pkg_env \<Rightarrow> 's pkg_mgr \<Rightarrow> 's pkg_mgr" where
  "get_helper E m = m\<lparr>pm_helper := GetInstance (pe_rdb E) (pm_helper m)\<rparr>"

definition UpdateToRdb :: "('j, 's) pkg_env \<Rightarrow> ext_ability list \<Rightarrow> string \<Rightarrow> 's pkg_mgr \<Rightarrow> (bool \<times> 's pkg_mgr) res" where
  "UpdateToRdb E driverInfos bundleName m =
     bindE (ParseToPkgInfoTables E driverInfos m) (\<lambda>(pkgInfoTables, _, m).
       case with_db (AddOrUpdatePkgInfo (pe_rdb E) pkgInfoTables bundleName) (get_helper E m) of (ret, m) \<Rightarrow>
       if ret < PKG_OK then Inr (False, m)
       else if pm_updateCallback m then Inr (True, start_task (TaskBundlesUpdated bundleName) m)
       else Inr (True, m))"

definition OnBundleDrvRemoved :: "('j, 's) pkg_env \<Rightarrow> string \<Rightarrow> 's pkg_mgr \<Rightarrow> 's pkg_mgr" where
  "OnBundleDrvRemoved E bundleName m =
     (let m = get_helper E m;
          m = snd (with_db (QueryPkgInfosByBundle (pe_rdb E) bundleName) m) in
      case with_db (DeleteRightRecord (pe_rdb E) bundleName) m of (ret, m) \<Rightarrow>
      if ret < 0 then m
      else if pm_updateCallback m then start_task (TaskBundlesUpdated bundleName) m
      else m)"

text \<open>\<open>None\<close>: the query failed. The abilities get the application of the bundle.\<close>

definition QueryDriverInfos ::
  "('j, 's) pkg_env \<Rightarrow> string \<Rightarrow> int \<Rightarrow> 's pkg_mgr \<Rightarrow> ext_ability list option \<times> 's pkg_mgr" where
  "QueryDriverInfos E bundleName userId m =
     (if bundleName = [] then (None, m)
      else case GetBundleMgrProxy E m of (ok, m) \<Rightarrow>
      if \<not> ok then (None, m)
      else case pe_bundleInfo E bundleName userId of
        None \<Rightarrow> (None, m)
      | Some (extensionInfos, token, version) \<Rightarrow>
          (Some (map (\<lambda>a. a\<lparr>xa_accessTokenId := token, xa_versionName := version\<rparr>) (filter xa_isDriver extensionInfos)), m))"

definition OnBundleAdded :: "('j, 's) pkg_env \<Rightarrow> string \<Rightarrow> int \<Rightarrow> 's pkg_mgr \<Rightarrow> 's pkg_mgr res" where
  "OnBundleAdded E bundleName userId m =
     (if \<not> IsCurrentUserId E userId then Inr m
      else case QueryDriverInfos E bundleName userId m of
        (None, m) \<Rightarrow> Inr m
      | (Some driverInfos, m) \<Rightarrow> bindE (UpdateToRdb E driverInfos bundleName m) (\<lambda>(_, m). Inr m))"

definition OnBundleUpdated :: "('j, 's) pkg_env \<Rightarrow> string \<Rightarrow> int \<Rightarrow> 's pkg_mgr \<Rightarrow> 's pkg_mgr res" where
  "OnBundleUpdated E bundleName userId m =
     (if \<not> IsCurrentUserId E userId then Inr m
      else case QueryDriverInfos E bundleName userId m of
        (None, m) \<Rightarrow> Inr m
      | (Some driverInfos, m) \<Rightarrow>
          if driverInfos = [] then Inr (OnBundleDrvRemoved E bundleName m)
          else bindE (UpdateToRdb E driverInfos bundleName m) (\<lambda>(_, m). Inr m))"

definition OnBundleRemoved :: "('j, 's) pkg_env \<Rightarrow> string \<Rightarrow> int \<Rightarrow> 's pkg_mgr \<Rightarrow> 's pkg_mgr" where
  "OnBundleRemoved E bundleName userId m =
     (if \<not> IsCurrentUserId E userId then m else OnBundleDrvRemoved E bundleName m)"

definition ResetInitOnce :: "'s pkg_mgr \<Rightarrow> 's pkg_mgr" where
  "ResetInitOnce m = m\<lparr>pm_initOnce := False\<rparr>"

definition ResetMatchedBundles :: "int \<Rightarrow> 's pkg_mgr \<Rightarrow> 's pkg_mgr" where
  "ResetMatchedBundles userId m =
     (if \<not> pm_updateCallback m then m else start_task (TaskBundlesReseted userId) m)"

definition GetAllDriverInfos :: "('j, 's) pkg_env \<Rightarrow> 's pkg_mgr \<Rightarrow> (bool \<times> 's pkg_mgr) res" where
  "GetAllDriverInfos E m =
     (if pm_initOnce m then Inr (True, m)
      else
        let userId = GetCurrentActiveUserId E in
        if userId = INVALID_USERID then Inr (False, m)
        else case GetBundleMgrProxy E m of (ok, m) \<Rightarrow>
        if \<not> ok then Inr (False, m)
        else
          bindE (UpdateToRdb E (pe_driverAbilities E userId) [] m) (\<lambda>(ok, m).
            if \<not> ok then Inr (False, m) else Inr (True, m\<lparr>pm_initOnce := True\<rparr>)))"

definition GetAllDriverInfosAsync :: "'s pkg_mgr \<Rightarrow> 's pkg_mgr" where
  "GetAllDriverInfosAsync m = start_task TaskGetAllDriverInfos m"

section \<open>Accounts\<close>

definition OnAccountsSwitched :: "'s pkg_mgr \<Rightarrow> 's pkg_mgr" where
  "OnAccountsSwitched m = (if \<not> pm_callback m then m else GetAllDriverInfosAsync (ResetInitOnce m))"

definition OnAccountsSwitching :: "int \<Rightarrow> 's pkg_mgr \<Rightarrow> 's pkg_mgr" where
  "OnAccountsSwitching oldId m = (if \<not> pm_callback m then m else ResetMatchedBundles oldId m)"

text \<open>
  The two subscriptions; the second is not tried when the first is refused. The subscribers hold
  the callback object of the moment, which \<open>Init\<close> has made before.
\<close>

definition SubscribeOsAccountSwitch :: "('j, 's) pkg_env \<Rightarrow> 's pkg_mgr \<Rightarrow> bool \<times> 's pkg_mgr" where
  "SubscribeOsAccountSwitch E m =
     (if \<not> pe_subscribeSwitching E then (False, m)
      else
        let m = m\<lparr>pm_switching := True\<rparr> in
        if \<not> pe_subscribeSwitched E then (False, m) else (True, m\<lparr>pm_switched := True\<rparr>))"

section \<open>The manager\<close>

text \<open>The two forms of \<open>Init\<close>: the first fetches at once, the second in a thread.\<close>

definition new_callback :: "'s pkg_mgr \<Rightarrow> 's pkg_mgr" where
  "new_callback m =
     m\<lparr>pm_callback := True, pm_pFun := False, pm_updateCallback := False, pm_initOnce := False, pm_bundleMgr := False\<rparr>"

definition PkgMgrInit :: "('j, 's) pkg_env \<Rightarrow> 's pkg_mgr \<Rightarrow> (UsbErrCode \<times> 's pkg_mgr) res" where
  "PkgMgrInit E m = bindE (GetAllDriverInfos E (new_callback m)) (\<lambda>(_, m). Inr (EDM_OK, m))"

definition PkgMgrInitAsync :: "'s pkg_mgr \<Rightarrow> UsbErrCode \<times> 's pkg_mgr" where
  "PkgMgrInitAsync m = (EDM_OK, GetAllDriverInfosAsync (new_callback m))"

text \<open>The loop over the records; the result of reading the text form is not looked at.\<close>

fun MatchStored :: "('j, 's) pkg_env \<Rightarrow> device_info \<Rightarrow> pkg_info list \<Rightarrow> driver_info option res" where
  "MatchStored E dev [] = Inr None"
| "MatchStored E dev (p # ps) =
     bindE (DriverInfo_UnSerialize (pe_json E) (pe_lower E) (pe_core E) (pk_driverInfo p)
              (new_driver_info (pk_bundleName p) (pk_driverName p) (pk_driverUid p) (to_i32 (pk_userId p)))) (\<lambda>(_, d).
       case GetBusExtensionByName (pe_lower E) (pe_core E) (dr_bus d) of
         None \<Rightarrow> MatchStored E dev ps
       | Some _ \<Rightarrow> bindE (UsbMatchDriver (pe_lower E) d dev) (\<lambda>ok. if ok then Inr (Some d) else MatchStored E dev ps))"

definition QueryMatchDriver ::
  "('j, 's) pkg_env \<Rightarrow> device_info \<Rightarrow> 's pkg_mgr \<Rightarrow> (driver_info option \<times> 's pkg_mgr) res" where
  "QueryMatchDriver E devInfo m =
     (if \<not> pm_callback m then Inr (None, m)
      else
        bindE (GetAllDriverInfos E m) (\<lambda>(ok, m).
          if \<not> ok then Inr (None, m)
          else case with_db (QueryPkgInfosByUid (pe_rdb E) False []) (get_helper E m) of
            (Inl _, m) \<Rightarrow> Inr (None, m)
          | (Inr pkgInfos, m) \<Rightarrow> bindE (MatchStored E devInfo pkgInfos) (\<lambda>d. Inr (d, m))))"

fun ReadStored :: "('j, 's) pkg_env \<Rightarrow> pkg_info list \<Rightarrow> driver_info list \<Rightarrow> (UsbErrCode \<times> driver_info list) res" where
  "ReadStored E [] ds = Inr (EDM_OK, ds)"
| "ReadStored E (p # ps) ds =
     bindE (DriverInfo_UnSerialize (pe_json E) (pe_lower E) (pe_core E) (pk_driverInfo p)
              (new_driver_info (pk_bundleName p) (pk_driverName p) (pk_driverUid p) (to_i32 (pk_userId p)))) (\<lambda>(ret, d).
       if ret \<noteq> EDM_OK then Inr (EDM_NOK, ds) else ReadStored E ps (ds @ [d]))"

definition QueryDriverInfo ::
  "('j, 's) pkg_env \<Rightarrow> bool \<Rightarrow> string \<Rightarrow> 's pkg_mgr \<Rightarrow> (UsbErrCode \<times> driver_info list \<times> 's pkg_mgr) res" where
  "QueryDriverInfo E isByDriverUid driverUid m =
     (if \<not> pm_callback m then Inr (EDM_NOK, [], m)
      else
        bindE (GetAllDriverInfos E m) (\<lambda>(ok, m).
          if \<not> ok then Inr (EDM_NOK, [], m)
          else case with_db (QueryPkgInfosByUid (pe_rdb E) isByDriverUid driverUid) (get_helper E m) of
            (Inl _, m) \<Rightarrow> Inr (EDM_NOK, [], m)
          | (Inr pkgInfos, m) \<Rightarrow> bindE (ReadStored E pkgInfos []) (\<lambda>(ret, ds). Inr (ret, ds, m))))"

definition RegisterBundleStatusCallback :: "('j, 's) pkg_env \<Rightarrow> 's pkg_mgr \<Rightarrow> UsbErrCode \<times> 's pkg_mgr" where
  "RegisterBundleStatusCallback E m =
     (if \<not> pm_callback m then (EDM_ERR_INVALID_OBJECT, m)
      else
        let m = m\<lparr>pm_monitor := True\<rparr> in
        if \<not> pe_subscribe E then (EDM_NOK, m) else (EDM_OK, m))"

definition UnRegisterBundleStatusCallback :: "('j, 's) pkg_env \<Rightarrow> 's pkg_mgr \<Rightarrow> UsbErrCode" where
  "UnRegisterBundleStatusCallback E m =
     (if \<not> pm_callback m then EDM_ERR_INVALID_OBJECT
      else if \<not> pm_monitor m then EDM_ERR_INVALID_OBJECT
      else if \<not> pe_unsubscribe E then EDM_NOK
      else EDM_OK)"

definition RegisterOnBundleUpdate :: "bool \<Rightarrow> 's pkg_mgr \<Rightarrow> UsbErrCode \<times> 's pkg_mgr" where
  "RegisterOnBundleUpdate pFun m =
     (if \<not> pFun then (EDM_ERR_INVALID_OBJECT, m)
      else if \<not> pm_callback m then (EDM_ERR_INVALID_OBJECT, m)
      else (EDM_OK, m\<lparr>pm_pFun := True\<rparr>))"

definition RegisterBundleCallback :: "bool \<Rightarrow> 's pkg_mgr \<Rightarrow> UsbErrCode \<times> 's pkg_mgr" where
  "RegisterBundleCallback callback m =
     (if \<not> callback then (EDM_ERR_INVALID_OBJECT, m)
      else if \<not> pm_callback m then (EDM_ERR_INVALID_OBJECT, m)
      else (EDM_OK, m\<lparr>pm_updateCallback := True\<rparr>))"

definition UnRegisterOnBundleUpdate :: "'s pkg_mgr \<Rightarrow> UsbErrCode \<times> 's pkg_mgr" where
  "UnRegisterOnBundleUpdate m =
     (if \<not> pm_callback m then (EDM_ERR_INVALID_OBJECT, m) else (EDM_OK, m\<lparr>pm_pFun := False\<rparr>))"

end
