(* ===== verification/Pkg_Db_Props.thy ===== *)
theory Pkg_Db_Props
  imports Pkg_Db
begin

text \<open>
  What the driver package database guarantees, given that the store below it is a relational
  store with transactions: changes are all or nothing unless a rollback fails, and a query returns the
  rows it asks for.
\<close>

section \<open>The laws of the store\<close>

text \<open>
  \<open>tbl s\<close> are the visible rows, \<open>saved s\<close> the rows to go back to when a transaction is open.
  Opening and ending a transaction leaves the rows as they are; a commit that fails leaves the
  transaction open. A rollback that returns E_OK restores the rows of the beginning. A rollback that
  fails may have restored them or not, and a failing insertion or removal may have changed rows.
\<close>

definition row_matches :: "(string \<times> string) list \<Rightarrow> db_row \<Rightarrow> bool" where
  "row_matches conds row \<longleftrightarrow> list_all (\<lambda>(k, x). map_of row k = Some (DText x)) conds"

definition rdb_transactions :: "'s rdb \<Rightarrow> ('s \<Rightarrow> db_row list) \<Rightarrow> ('s \<Rightarrow> db_row list option) \<Rightarrow> bool" where
  "rdb_transactions R tbl saved \<longleftrightarrow>
     (\<forall>s r s'. r_begin R s = (r, s') \<longrightarrow> tbl s' = tbl s \<and> (r = 0 \<longrightarrow> saved s' = Some (tbl s)))
     \<and> (\<forall>s r s'. r_commit R s = (r, s') \<longrightarrow> tbl s' = tbl s \<and> (r \<noteq> 0 \<longrightarrow> saved s' = saved s))
     \<and> (\<forall>s r s' t. r_rollback R s = (r, s') \<longrightarrow> saved s = Some t \<longrightarrow> tbl s' = t \<or> r \<noteq> 0 \<and> tbl s' = tbl s)"

definition rdb_changes :: "'s rdb \<Rightarrow> ('s \<Rightarrow> db_row list) \<Rightarrow> ('s \<Rightarrow> db_row list option) \<Rightarrow> bool" where
  "rdb_changes R tbl saved \<longleftrightarrow>
     (\<forall>s row r n s'. r_insert R row s = (r, n, s') \<longrightarrow> saved s' = saved s \<and> (r = 0 \<longrightarrow> tbl s' = tbl s @ [row]))
     \<and> (\<forall>s r s'. r_delete R [] [] s = (r, s') \<longrightarrow> saved s' = saved s \<and> (r = 0 \<longrightarrow> tbl s' = []))
     \<and> (\<forall>s b r s'. r_delete R ''bundleName = ?'' [b] s = (r, s') \<longrightarrow>
          saved s' = saved s \<and> (r = 0 \<longrightarrow> tbl s' = filter (\<lambda>row. \<not> row_matches [(''bundleName'', b)] row) (tbl s)))"

text \<open>A cursor over \<open>rows\<close> with the columns \<open>cols\<close>.\<close>

definition cursor_on :: "result_set \<Rightarrow> db_row list \<Rightarrow> string list \<Rightarrow> bool" where
  "cursor_on rs rows cols \<longleftrightarrow>
     rs_GetRowCount rs = (0, int (length rows))
     \<and> (\<forall>i < length cols. rs_GetColumnIndex rs (cols ! i) = (0, int i))
     \<and> (\<forall>i < length rows. rs_GoToRow rs (int i) = 0 \<and> \<not> rs_IsEnded rs (int i))
     \<and> (\<forall>i < length rows. \<forall>c < length cols. \<forall>x. map_of (rows ! i) (cols ! c) = Some (DText x) \<longrightarrow>
          rs_GetString rs (int i) (int c) = (0, x))
     \<and> (\<forall>i < length rows. \<forall>c < length cols. \<forall>n. map_of (rows ! i) (cols ! c) = Some (DLong n) \<longrightarrow>
          rs_GetLong rs (int i) (int c) = (0, n))"

definition rdb_queries :: "'s rdb \<Rightarrow> ('s \<Rightarrow> db_row list) \<Rightarrow> bool" where
  "rdb_queries R tbl \<longleftrightarrow>
     (\<forall>s conds cols rs. r_query R conds False cols s = Some rs \<longrightarrow> distinct cols \<longrightarrow>
        cursor_on rs (filter (row_matches conds) (tbl s)) cols)"

definition rdb_ok :: "'s rdb \<Rightarrow> ('s \<Rightarrow> db_row list) \<Rightarrow> ('s \<Rightarrow> db_row list option) \<Rightarrow> bool" where
  "rdb_ok R tbl saved \<longleftrightarrow> rdb_transactions R tbl saved \<and> rdb_changes R tbl saved \<and> rdb_queries R tbl"

lemma rdb_laws:
  assumes "rdb_ok R tbl saved"
  shows "r_begin R s = (r, s') \<Longrightarrow> tbl s' = tbl s" "r_begin R s = (0, s') \<Longrightarrow> saved s' = Some (tbl s)"
    and "r_commit R s = (r, s') \<Longrightarrow> tbl s' = tbl s" "r_commit R s = (r, s') \<Longrightarrow> r \<noteq> 0 \<Longrightarrow> saved s' = saved s"
    and "saved s = Some t \<Longrightarrow> r_rollback R s = (r, s') \<Longrightarrow> tbl s' = t \<or> r \<noteq> 0 \<and> tbl s' = tbl s"
    and "r_insert R row s = (r, n, s') \<Longrightarrow> saved s' = saved s"
    and "r_insert R row s = (0, n, s') \<Longrightarrow> tbl s' = tbl s @ [row]"
    and "r_delete R [] [] s = (r, s') \<Longrightarrow> saved s' = saved s" "r_delete R [] [] s = (0, s') \<Longrightarrow> tbl s' = []"
    and "r_delete R ''bundleName = ?'' [b] s = (r, s') \<Longrightarrow> saved s' = saved s"
    and "r_delete R ''bundleName = ?'' [b] s = (0, s') \<Longrightarrow>
      tbl s' = filter (\<lambda>row. \<not> row_matches [(''bundleName'', b)] row) (tbl s)"
    and "r_query R conds False cols s = Some rs \<Longrightarrow> distinct cols \<Longrightarrow> cursor_on rs (filter (row_matches conds) (tbl s)) cols"
proof -
  have tx: "rdb_transactions R tbl saved" and ch: "rdb_changes R tbl saved" and qu: "rdb_queries R tbl"
    using assms by (simp_all add: rdb_ok_def)
  show "r_begin R s = (r, s') \<Longrightarrow> tbl s' = tbl s" "r_begin R s = (0, s') \<Longrightarrow> saved s' = Some (tbl s)"
    "r_commit R s = (r, s') \<Longrightarrow> tbl s' = tbl s" "r_commit R s = (r, s') \<Longrightarrow> r \<noteq> 0 \<Longrightarrow> saved s' = saved s"
    "saved s = Some t \<Longrightarrow> r_rollback R s = (r, s') \<Longrightarrow> tbl s' = t \<or> r \<noteq> 0 \<and> tbl s' = tbl s"
    using tx unfolding rdb_transactions_def by metis+
  show "r_insert R row s = (r, n, s') \<Longrightarrow> saved s' = saved s" "r_insert R row s = (0, n, s') \<Longrightarrow> tbl s' = tbl s @ [row]"
    "r_delete R [] [] s = (r, s') \<Longrightarrow> saved s' = saved s" "r_delete R [] [] s = (0, s') \<Longrightarrow> tbl s' = []"
    "r_delete R ''bundleName = ?'' [b] s = (r, s') \<Longrightarrow> saved s' = saved s"
    "r_delete R ''bundleName = ?'' [b] s = (0, s') \<Longrightarrow>
      tbl s' = filter (\<lambda>row. \<not> row_matches [(''bundleName'', b)] row) (tbl s)"
    using ch unfolding rdb_changes_def by metis+
  show "r_query R conds False cols s = Some rs \<Longrightarrow> distinct cols \<Longrightarrow> cursor_on rs (filter (row_matches conds) (tbl s)) cols"
    using qu unfolding rdb_queries_def by metis
qed

section \<open>All or nothing\<close>

text \<open>
  The rows are \<open>old\<close> again, or the last thing that happened is a rollback to \<open>old\<close> that failed. The
  code ignores the result of a rollback.
\<close>

definition undone ::
  "'s rdb \<Rightarrow> ('s \<Rightarrow> db_row list) \<Rightarrow> ('s \<Rightarrow> db_row list option) \<Rightarrow> db_row list \<Rightarrow> 's pkg_db \<Rightarrow> bool" where
  "undone R tbl saved old db \<longleftrightarrow>
     tbl (pd_data db) = old
     \<or> (\<exists>s. saved s = Some old \<and> fst (r_rollback R s) \<noteq> 0 \<and> pd_data db = snd (r_rollback R s))"

lemma undone_refl [simp]: "undone R tbl saved (tbl (pd_data db)) db"
  by (simp add: undone_def)

lemma code_of_simps [simp]: "code_of r < 0 \<longleftrightarrow> r \<noteq> 0" "0 \<le> code_of r \<longleftrightarrow> r = 0"
  by (simp_all add: code_of_def)

lemma BeginTransaction_ok:
  assumes "rdb_ok R tbl saved" and "BeginTransaction R db = (r, db')"
  shows "tbl (pd_data db') = tbl (pd_data db)"
    and "0 \<le> r \<Longrightarrow> pd_store db' \<and> saved (pd_data db') = Some (tbl (pd_data db))"
  using assms(2) rdb_laws(1,2) [OF assms(1)]
  by (auto simp: BeginTransaction_def split: if_splits prod.splits)

lemma RollBack_ok:
  assumes "rdb_ok R tbl saved" and "pd_store db" and "saved (pd_data db) = Some t"
  shows "undone R tbl saved t (snd (RollBack R db))"
proof -
  obtain e s' where rb: "r_rollback R (pd_data db) = (e, s')" by fastforce
  then show ?thesis
    using assms(2,3) rdb_laws(5) [OF assms(1,3) rb]
    by (cases "e = 0") (auto simp: RollBack_def undone_def intro!: exI [of _ "pd_data db"])
qed

lemma RollBack_keeps:
  assumes "rdb_ok R tbl saved" and "saved (pd_data db) = Some (tbl (pd_data db))"
  shows "tbl (pd_data (snd (RollBack R db))) = tbl (pd_data db)"
  using rdb_laws(5) [OF assms] by (auto simp: RollBack_def split: prod.splits)

lemma Commit_ok:
  assumes "rdb_ok R tbl saved" and "pd_store db" and "saved (pd_data db) = Some t" and "Commit R db = (r, db')"
  shows "0 \<le> r \<Longrightarrow> tbl (pd_data db') = tbl (pd_data db)" and "r < 0 \<Longrightarrow> undone R tbl saved t (snd (RollBack R db'))"
    and "r < 0 \<Longrightarrow> t = tbl (pd_data db) \<Longrightarrow> tbl (pd_data (snd (RollBack R db'))) = t"
proof -
  obtain e s' where c: "r_commit R (pd_data db) = (e, s')" by fastforce
  have db': "r = code_of e" "db' = db\<lparr>pd_data := s'\<rparr>" using assms(2,4) c by (auto simp: Commit_def)
  show "0 \<le> r \<Longrightarrow> tbl (pd_data db') = tbl (pd_data db)" using rdb_laws(3) [OF assms(1) c] db' by simp
  assume "r < 0"
  then have "saved (pd_data db') = Some t" using rdb_laws(4) [OF assms(1) c] db' assms(3) by simp
  then show "undone R tbl saved t (snd (RollBack R db'))" using RollBack_ok [OF assms(1)] db' assms(2) by simp
  show "tbl (pd_data (snd (RollBack R db'))) = t" if "t = tbl (pd_data db)"
    using RollBack_keeps [OF assms(1), of db'] \<open>saved (pd_data db') = Some t\<close> rdb_laws(3) [OF assms(1) c] db' that by simp
qed

lemma Delete_ok:
  assumes "rdb_ok R tbl saved" and "pd_store db" and "Delete R whereClause whereArgs db = (r, db')"
    and "(whereClause, whereArgs) = (if b \<noteq> [] then (''bundleName = ?'', [b]) else ([], []))"
  shows "pd_store db'" and "saved (pd_data db') = saved (pd_data db)"
    and "0 \<le> r \<Longrightarrow> tbl (pd_data db') = (if b = [] then [] else filter (\<lambda>row. \<not> row_matches [(''bundleName'', b)] row) (tbl (pd_data db)))"
  using assms(2-4) rdb_laws(8-11) [OF assms(1)]
  by (auto simp: Delete_def split: if_splits prod.splits)

lemma DeleteBundle_ok:
  assumes "rdb_ok R tbl saved" and "pd_store db" and "Delete R ''bundleName = ?'' [b] db = (r, db')"
  shows "pd_store db'" and "saved (pd_data db') = saved (pd_data db)"
    and "0 \<le> r \<Longrightarrow> tbl (pd_data db') = filter (\<lambda>row. \<not> row_matches [(''bundleName'', b)] row) (tbl (pd_data db))"
  using assms(2,3) rdb_laws(10,11) [OF assms(1)]
  by (auto simp: Delete_def split: if_splits prod.splits)

lemma InsertAll_ok:
  assumes "rdb_ok R tbl saved"
  shows "InsertAll R ps ret db = (r, db') \<Longrightarrow> pd_store db \<Longrightarrow> saved (pd_data db) = Some t \<Longrightarrow> 0 \<le> ret \<Longrightarrow>
    (if 0 \<le> r then pd_store db' \<and> saved (pd_data db') = Some t \<and> tbl (pd_data db') = tbl (pd_data db) @ map values_of ps
     else undone R tbl saved t db')"
proof (induction ps arbitrary: ret db)
  case (Cons p ps)
  obtain e n s' where i: "r_insert R (values_of p) (pd_data db) = (e, n, s')" by (metis prod_cases3)
  let ?db = "db\<lparr>pd_data := s'\<rparr>"
  have sv: "saved s' = Some t" using rdb_laws(6) [OF assms i] Cons.prems(3) by simp
  show ?case
  proof (cases "to_i32 (if e \<noteq> 0 then - 2 else n) < 0")
    case True
    then have "r < 0" "db' = snd (RollBack R ?db)"
      using Cons.prems(1,2) i by (auto simp: Insert_def Let_def split: if_splits)
    then show ?thesis using RollBack_ok [OF assms, of ?db t] sv Cons.prems(2) by simp
  next
    case False
    then have e: "e = 0" by (auto split: if_splits)
    have "InsertAll R ps (to_i32 n) ?db = (r, db')"
      using Cons.prems(1,2) i e False by (auto simp: Insert_def Let_def)
    moreover have "pd_store ?db" "saved (pd_data ?db) = Some t" "0 \<le> to_i32 n"
      using sv Cons.prems(2) False e by simp_all
    ultimately have "if 0 \<le> r then pd_store db' \<and> saved (pd_data db') = Some t \<and> tbl (pd_data db') = tbl (pd_data ?db) @ map values_of ps
        else undone R tbl saved t db'"
      by (rule Cons.IH)
    then show ?thesis using rdb_laws(7) [OF assms i [unfolded e]] by (simp split: if_splits)
  qed
qed simp

text \<open>The rows of the other bundles; the empty name stands for all bundles.\<close>

definition other_rows :: "string \<Rightarrow> db_row list \<Rightarrow> db_row list" where
  "other_rows b rows = (if b = [] then [] else filter (\<lambda>row. \<not> row_matches [(''bundleName'', b)] row) rows)"

lemma refresh_all_or_nothing:
  assumes "rdb_ok R tbl saved" and "AddOrUpdatePkgInfo R ps b db = (r, db')"
  shows "if 0 \<le> r then tbl (pd_data db') = other_rows b (tbl (pd_data db)) @ map values_of ps
    else undone R tbl saved (tbl (pd_data db)) db'"
proof -
  obtain r1 db1 where b1: "BeginTransaction R db = (r1, db1)" by fastforce
  note begin_ok = BeginTransaction_ok [OF assms(1) b1]
  show ?thesis
  proof (cases "r1 < 0")
    case True
    then show ?thesis using assms(2) b1 begin_ok(1) by (auto simp: AddOrUpdatePkgInfo_def undone_def)
  next
    case False
    then have db1: "pd_store db1" "saved (pd_data db1) = Some (tbl (pd_data db))" using begin_ok(2) by simp_all
    obtain c args where c: "(c, args) = (if b \<noteq> [] then (''bundleName = ?'', [b]) else ([], []))" by (metis surj_pair)
    obtain r2 db2 where d: "Delete R c args db1 = (r2, db2)" by fastforce
    note del = Delete_ok [OF assms(1) db1(1) d c]
    obtain r3 db3 where i: "InsertAll R ps r2 db2 = (r3, db3)" by fastforce
    obtain r4 db4 where cm: "Commit R db3 = (r4, db4)" by fastforce
    have "AddOrUpdatePkgInfo R ps b db = (if r2 < 0 then (r2, snd (RollBack R db2)) else if r3 < 0 then (r3, db3)
        else if r4 < 0 then (r4, snd (RollBack R db4)) else (r4, db4))"
      unfolding AddOrUpdatePkgInfo_def by (simp only: b1 prod.case if_False False c [symmetric] Let_def d i cm)
    note run = trans [OF assms(2) [symmetric] this]
    consider "r2 < 0" | "0 \<le> r2" "r3 < 0" | "0 \<le> r2" "0 \<le> r3" by linarith
    then show ?thesis
    proof cases
      case 1
      then show ?thesis using run RollBack_ok [OF assms(1) del(1)] del(2) db1 by auto
    next
      case 2
      then show ?thesis using run InsertAll_ok [OF assms(1) i del(1)] del(2) db1 by auto
    next
      case 3
      then have db3: "pd_store db3" "saved (pd_data db3) = Some (tbl (pd_data db))"
          "tbl (pd_data db3) = other_rows b (tbl (pd_data db)) @ map values_of ps"
        using InsertAll_ok [OF assms(1) i del(1)] del(2,3) db1 begin_ok(1) by (auto simp: other_rows_def)
      show ?thesis using run 3 Commit_ok [OF assms(1) db3(1,2) cm] db3(3) by (auto split: if_splits)
    qed
  qed
qed

lemma removal_all_or_nothing:
  assumes "rdb_ok R tbl saved" and "DeleteRightRecord R b db = (r, db')"
  shows "if 0 \<le> r then tbl (pd_data db') = filter (\<lambda>row. \<not> row_matches [(''bundleName'', b)] row) (tbl (pd_data db))
    else undone R tbl saved (tbl (pd_data db)) db'"
proof -
  obtain r1 db1 where b1: "BeginTransaction R db = (r1, db1)" by fastforce
  note begin_ok = BeginTransaction_ok [OF assms(1) b1]
  show ?thesis
  proof (cases "r1 < 0")
    case True
    then show ?thesis using assms(2) b1 begin_ok(1)
      by (auto simp: DeleteRightRecord_def DeleteAndNoOtherOperation_def undone_def)
  next
    case False
    then have db1: "pd_store db1" "saved (pd_data db1) = Some (tbl (pd_data db))" using begin_ok(2) by simp_all
    obtain r2 db2 where d: "Delete R ''bundleName = ?'' [b] db1 = (r2, db2)" by fastforce
    note del = DeleteBundle_ok [OF assms(1) db1(1) d]
    obtain r4 db4 where cm: "Commit R db2 = (r4, db4)" by fastforce
    have "DeleteRightRecord R b db = (if r2 < 0 then (r2, snd (RollBack R db2))
        else if r4 < 0 then (r4, snd (RollBack R db4)) else (r4, db4))"
      by (simp add: DeleteRightRecord_def DeleteAndNoOtherOperation_def b1 False d cm)
    note run = trans [OF assms(2) [symmetric] this]
    show ?thesis
      using run RollBack_ok [OF assms(1) del(1)] Commit_ok [OF assms(1) del(1) _ cm] del(2,3) db1 begin_ok(1)
      by (auto split: if_splits)
  qed
qed

section \<open>Queries\<close>

text \<open>The columns that a query does not select are empty in its result.\<close>

definition read_back :: "pkg_info \<Rightarrow> pkg_info" where
  "read_back p = p\<lparr>pk_bundleAbility := [], pk_appIndex := 0\<rparr>"

definition five_columns :: "string list" where
  "five_columns = [''driverUid'', ''userId'', ''bundleName'', ''driverName'', ''driverInfo'']"

lemma ReadPkgInfo_row:
  assumes cur: "cursor_on rs (map values_of qs) five_columns" and i: "i < length qs"
  shows "ReadPkgInfo rs (int i) (0, 1, 2, 3, 4) = Some (read_back (qs ! i))"
proof -
  have str: "map_of (values_of (qs ! i)) (five_columns ! c) = Some (DText x) \<Longrightarrow> c < 5 \<Longrightarrow> rs_GetString rs (int i) (int c) = (0, x)"
    for c x using cur i unfolding cursor_on_def by (simp add: five_columns_def)
  have long: "map_of (values_of (qs ! i)) (five_columns ! c) = Some (DLong n) \<Longrightarrow> c < 5 \<Longrightarrow> rs_GetLong rs (int i) (int c) = (0, n)"
    for c n using cur i unfolding cursor_on_def by (simp add: five_columns_def)
  have "rs_GetString rs (int i) 0 = (0, pk_driverUid (qs ! i))" "rs_GetLong rs (int i) 1 = (0, pk_userId (qs ! i))"
    "rs_GetString rs (int i) 2 = (0, pk_bundleName (qs ! i))" "rs_GetString rs (int i) 3 = (0, pk_driverName (qs ! i))"
    "rs_GetString rs (int i) 4 = (0, pk_driverInfo (qs ! i))"
    using str [of 0] long [of 1] str [of 2] str [of 3] str [of 4] by (simp_all add: five_columns_def values_of_def)
  then show ?thesis by (simp add: ReadPkgInfo_def read_back_def)
qed

lemma ReadPkgInfos_rows:
  assumes cur: "cursor_on rs (map values_of qs) five_columns"
  shows "i + n = length qs \<Longrightarrow>
    ReadPkgInfos rs (0, 1, 2, 3, 4) (int i) n acc = Some (acc @ map read_back (drop i qs))"
proof (induction n arbitrary: i acc)
  case (Suc n)
  then have i: "i < length qs" by simp
  have "rs_GoToRow rs (int i) = 0" "\<not> rs_IsEnded rs (int i)" using cur i by (simp_all add: cursor_on_def)
  moreover have "drop i qs = qs ! i # drop (Suc i) qs" using i by (simp add: Cons_nth_drop_Suc)
  moreover have "ReadPkgInfos rs (0, 1, 2, 3, 4) (int i + 1) n (acc @ [read_back (qs ! i)])
      = Some ((acc @ [read_back (qs ! i)]) @ map read_back (drop (Suc i) qs))"
    using Suc.IH [of "Suc i" "acc @ [read_back (qs ! i)]"] Suc.prems by (simp add: add.commute)
  ultimately show ?case
    using ReadPkgInfo_row [OF cur i] by simp
qed simp

lemma ParseToPkgInfos_rows:
  assumes cur: "cursor_on rs (map values_of qs) five_columns"
  shows "ParseToPkgInfos rs = Some (map read_back qs)"
proof -
  have idx: "c < 5 \<Longrightarrow> rs_GetColumnIndex rs (five_columns ! c) = (0, int c)" for c
    using cur unfolding cursor_on_def by (simp add: five_columns_def)
  have "rs_GetColumnIndex rs ''driverUid'' = (0, 0)" "rs_GetColumnIndex rs ''userId'' = (0, 1)"
    "rs_GetColumnIndex rs ''bundleName'' = (0, 2)" "rs_GetColumnIndex rs ''driverName'' = (0, 3)"
    "rs_GetColumnIndex rs ''driverInfo'' = (0, 4)"
    using idx [of 0] idx [of 1] idx [of 2] idx [of 3] idx [of 4] by (simp_all add: five_columns_def)
  moreover have "rs_GetRowCount rs = (0, int (length qs))" using cur by (simp add: cursor_on_def)
  ultimately show ?thesis using ReadPkgInfos_rows [OF cur, of 0 "length qs" "[]"] by (simp add: ParseToPkgInfos_def)
qed

lemma QueryInTransaction_ok:
  assumes "rdb_ok R tbl saved" and "QueryInTransaction R conds False cols db = (res, db')" and "distinct cols"
  shows "tbl (pd_data db') = tbl (pd_data db)"
    and "res = Inr rs \<Longrightarrow> cursor_on rs (filter (row_matches conds) (tbl (pd_data db))) cols"
proof -
  obtain r1 db1 where b1: "BeginTransaction R db = (r1, db1)" by fastforce
  note begin_ok = BeginTransaction_ok [OF assms(1) b1]
  have "tbl (pd_data db') = tbl (pd_data db) \<and> (\<forall>rs. res = Inr rs \<longrightarrow> cursor_on rs (filter (row_matches conds) (tbl (pd_data db))) cols)"
  proof (cases "r1 < 0")
    case True
    then show ?thesis using assms(2) b1 begin_ok(1) by (auto simp: QueryInTransaction_def)
  next
    case False
    then have db1: "pd_store db1" "saved (pd_data db1) = Some (tbl (pd_data db))" using begin_ok(2) by simp_all
    show ?thesis
    proof (cases "Query R conds False cols db1")
      case None
      then show ?thesis using assms(2) b1 False RollBack_keeps [OF assms(1), of db1] db1 begin_ok(1) by (auto simp: QueryInTransaction_def)
    next
      case (Some rs)
      obtain r2 db2 where cm: "Commit R db1 = (r2, db2)" by fastforce
      have "QueryInTransaction R conds False cols db = (if r2 < 0 then (Inl r2, snd (RollBack R db2)) else (Inr rs, db2))"
        by (simp add: QueryInTransaction_def b1 False Some cm)
      moreover have "cursor_on rs (filter (row_matches conds) (tbl (pd_data db))) cols"
        using rdb_laws(12) [OF assms(1) _ assms(3), of conds "pd_data db1" rs] Some db1(1) begin_ok(1) by (simp add: Query_def)
      ultimately show ?thesis
        using assms(2) Commit_ok [OF assms(1) db1 cm] begin_ok(1) by (auto split: if_splits)
    qed
  qed
  then show "tbl (pd_data db') = tbl (pd_data db)"
    "res = Inr rs \<Longrightarrow> cursor_on rs (filter (row_matches conds) (tbl (pd_data db))) cols" by blast+
qed

definition asked_for :: "string \<Rightarrow> string \<Rightarrow> pkg_info \<Rightarrow> bool" where
  "asked_for key x q \<longleftrightarrow> key = [] \<or> map_of (values_of q) key = Some (DText x)"

lemma QueryPkgInfosWhere_rows:
  assumes "rdb_ok R tbl saved" and "tbl (pd_data db) = map values_of qs"
    and "QueryPkgInfosWhere R key x db = (res, db')"
  shows "tbl (pd_data db') = map values_of qs" and "res = Inr ps \<Longrightarrow> ps = map read_back (filter (asked_for key x) qs)"
proof -
  let ?conds = "if key \<noteq> [] then [(key, x)] else []"
  obtain q1 db1 where q1: "QueryInTransaction R ?conds False five_columns db = (q1, db1)" by fastforce
  have dist: "distinct five_columns" by (simp add: five_columns_def)
  note q = QueryInTransaction_ok [OF assms(1) q1 dist]
  have fm: "filter (row_matches ?conds) (map values_of qs) = map values_of (filter (asked_for key x) qs)"
    by (cases "key = []") (simp_all add: filter_map o_def row_matches_def asked_for_def [abs_def])
  have run: "(res, db') = (case q1 of Inl e \<Rightarrow> (Inl e, db1)
      | Inr rs \<Rightarrow> (case ParseToPkgInfos rs of None \<Rightarrow> (Inl (- 1), db1) | Some ps \<Rightarrow> (Inr ps, db1)))"
    using assms(3) q1 by (simp add: QueryPkgInfosWhere_def five_columns_def Let_def split: sum.splits)
  then have "db' = db1" by (auto split: sum.splits option.splits)
  then show "tbl (pd_data db') = map values_of qs" using q(1) assms(2) by simp
  assume ps: "res = Inr ps"
  then obtain rs where rs: "q1 = Inr rs" using run by (cases q1) auto
  have "cursor_on rs (map values_of (filter (asked_for key x) qs)) five_columns"
    using q(2) [OF rs] assms(2) fm by simp
  then show "ps = map read_back (filter (asked_for key x) qs)"
    using run rs ps ParseToPkgInfos_rows by simp
qed

section \<open>A store of packages\<close>

text \<open>What the package manager relies on: \<open>contents db qs\<close> says that the records are \<open>qs\<close>.\<close>

locale package_store =
  fixes refresh :: "pkg_info list \<Rightarrow> string \<Rightarrow> 'd \<Rightarrow> int \<times> 'd"
    and remove :: "string \<Rightarrow> 'd \<Rightarrow> int \<times> 'd"
    and find :: "string \<Rightarrow> 'd \<Rightarrow> (int + pkg_info list) \<times> 'd"
    and contents :: "'d \<Rightarrow> pkg_info list \<Rightarrow> bool"
  assumes refresh_ok: "contents db qs \<Longrightarrow> refresh ps b db = (r, db') \<Longrightarrow> 0 \<le> r \<Longrightarrow>
      contents db' (filter (\<lambda>q. b \<noteq> [] \<and> pk_bundleName q \<noteq> b) qs @ ps)"
    and remove_ok: "contents db qs \<Longrightarrow> remove b db = (r, db') \<Longrightarrow> 0 \<le> r \<Longrightarrow>
      contents db' (filter (\<lambda>q. pk_bundleName q \<noteq> b) qs)"
    and find_keeps: "contents db qs \<Longrightarrow> find b db = (res, db') \<Longrightarrow> contents db' qs"
    and find_ok: "contents db qs \<Longrightarrow> find b db = (Inr ps, db') \<Longrightarrow>
      ps = map read_back (filter (\<lambda>q. b = [] \<or> pk_bundleName q = b) qs)"
begin

lemma refresh_then_find:
  assumes "contents db qs" and "refresh ps b db = (r, db')" and "0 \<le> r" and "b \<noteq> []"
    and "list_all (\<lambda>p. pk_bundleName p = b) ps" and "find b' db' = (Inr res, db'')" and "b' \<noteq> []"
  shows "res = (if b' = b then map read_back ps else map read_back (filter (\<lambda>q. pk_bundleName q = b') qs))"
proof -
  have "contents db' (filter (\<lambda>q. pk_bundleName q \<noteq> b) qs @ ps)" using refresh_ok [OF assms(1,2)] assms(3,4) by simp
  then have "res = map read_back (filter (\<lambda>q. pk_bundleName q = b') (filter (\<lambda>q. pk_bundleName q \<noteq> b) qs @ ps))"
    using find_ok assms(6,7) by fastforce
  moreover have "filter (\<lambda>p. pk_bundleName p = b') ps = (if b' = b then ps else [])"
    using assms(5) by (auto simp: list_all_iff filter_empty_conv)
  ultimately show ?thesis by (auto intro!: arg_cong [where f = "map read_back"] filter_cong simp: filter_empty_conv)
qed

lemma remove_then_find:
  assumes "contents db qs" and "remove b db = (r, db')" and "0 \<le> r" and "find b' db' = (Inr res, db'')" and "b' \<noteq> []"
  shows "res = (if b' = b then [] else map read_back (filter (\<lambda>q. pk_bundleName q = b') qs))"
proof -
  have "contents db' (filter (\<lambda>q. pk_bundleName q \<noteq> b) qs)" using remove_ok [OF assms(1,2)] assms(3) by simp
  then have "res = map read_back (filter (\<lambda>q. pk_bundleName q = b') (filter (\<lambda>q. pk_bundleName q \<noteq> b) qs))"
    using find_ok assms(4,5) by fastforce
  then show ?thesis by (auto intro!: arg_cong [where f = "map read_back"] filter_cong simp: filter_empty_conv)
qed

end

lemma values_of_bundle: "row_matches [(''bundleName'', b)] (values_of q) \<longleftrightarrow> pk_bundleName q = b"
  by (simp add: row_matches_def values_of_def)

lemma pkg_db_store:
  assumes ok: "rdb_ok R tbl saved"
  shows "package_store (AddOrUpdatePkgInfo R) (DeleteRightRecord R) (QueryPkgInfosByBundle R)
    (\<lambda>db qs. tbl (pd_data db) = map values_of qs)"
proof
  fix db db' :: "'a pkg_db" and qs ps :: "pkg_info list" and b r
  assume c: "tbl (pd_data db) = map values_of qs"
  show "AddOrUpdatePkgInfo R ps b db = (r, db') \<Longrightarrow> 0 \<le> r \<Longrightarrow>
      tbl (pd_data db') = map values_of (filter (\<lambda>q. b \<noteq> [] \<and> pk_bundleName q \<noteq> b) qs @ ps)"
    using refresh_all_or_nothing [OF ok, of ps b db r db'] c
    by (simp add: other_rows_def filter_map o_def values_of_bundle)
  show "DeleteRightRecord R b db = (r, db') \<Longrightarrow> 0 \<le> r \<Longrightarrow>
      tbl (pd_data db') = map values_of (filter (\<lambda>q. pk_bundleName q \<noteq> b) qs)"
    using removal_all_or_nothing [OF ok, of b db r db'] c by (simp add: filter_map o_def values_of_bundle)
next
  fix db db' :: "'a pkg_db" and qs ps :: "pkg_info list" and b res
  assume c: "tbl (pd_data db) = map values_of qs"
  show "QueryPkgInfosByBundle R b db = (res, db') \<Longrightarrow> tbl (pd_data db') = map values_of qs"
    using QueryPkgInfosWhere_rows(1) [OF ok c] by (simp add: QueryPkgInfosByBundle_def)
  assume "QueryPkgInfosByBundle R b db = (Inr ps, db')"
  then have "ps = map read_back (filter (asked_for (if b = [] then [] else ''bundleName'') b) qs)"
    using QueryPkgInfosWhere_rows(2) [OF ok c] by (simp add: QueryPkgInfosByBundle_def)
  then show "ps = map read_back (filter (\<lambda>q. b = [] \<or> pk_bundleName q = b) qs)"
    by (simp add: asked_for_def values_of_def cong: filter_cong)
qed

end
