(* ===== verification/Pkg_Db_Claims.thy ===== *)
theory Pkg_Db_Claims
  imports Pkg_Db_Props
begin

text \<open>
  The guarantees of the driver package database, and a store held in a list on which the
  witnesses run.
\<close>

section \<open>A store held in a list\<close>

record list_db =
  ld_rows :: "db_row list"
  ld_saved :: "db_row list option"
  ld_next :: int

definition list_cursor :: "db_row list \<Rightarrow> string list \<Rightarrow> result_set" where
  "list_cursor rows cols =
     \<lparr> rs_GetRowCount = (0, int (length rows)),
       rs_GetColumnIndex = \<lambda>c. let i = find_index (\<lambda>x. x = c) cols in if i < length cols then (0, int i) else (1, 0),
       rs_GoToRow = \<lambda>i. if 0 \<le> i \<and> i < int (length rows) then 0 else 1,
       rs_GetString = \<lambda>i c. case map_of (rows ! nat i) (cols ! nat c) of Some (DText x) \<Rightarrow> (0, x) | _ \<Rightarrow> (1, []),
       rs_GetLong = \<lambda>i c. case map_of (rows ! nat i) (cols ! nat c) of Some (DLong n) \<Rightarrow> (0, n) | _ \<Rightarrow> (1, 0),
       rs_IsEnded = \<lambda>i. i \<ge> int (length rows) \<rparr>"

definition list_rdb :: "list_db rdb" where
  "list_rdb =
     \<lparr> r_open = \<lambda>s. (True, 0, s),
       r_begin = \<lambda>s. (0, s\<lparr>ld_saved := Some (ld_rows s)\<rparr>),
       r_commit = \<lambda>s. (0, s\<lparr>ld_saved := None\<rparr>),
       r_rollback = \<lambda>s. case ld_saved s of None \<Rightarrow> (1, s) | Some t \<Rightarrow> (0, s\<lparr>ld_rows := t, ld_saved := None\<rparr>),
       r_insert = \<lambda>row s. (0, ld_next s, s\<lparr>ld_rows := ld_rows s @ [row], ld_next := ld_next s + 1\<rparr>),
       r_update = \<lambda>row whereClause whereArgs s.
         (0, s\<lparr>ld_rows := map (\<lambda>x. if row_matches (map (\<lambda>a. (''bundleAbility'', a)) whereArgs) x then row else x) (ld_rows s)\<rparr>),
       r_delete = \<lambda>whereClause whereArgs s.
         (0, s\<lparr>ld_rows := filter (\<lambda>row. \<not> row_matches (map (\<lambda>a. (''bundleName'', a)) whereArgs) row) (ld_rows s)\<rparr>),
       r_query = \<lambda>conds dist cols s. Some (list_cursor (filter (row_matches conds) (ld_rows s)) cols) \<rparr>"

lemma list_cursor_on: "distinct cols \<Longrightarrow> cursor_on (list_cursor rows cols) rows cols"
  by (auto simp: cursor_on_def list_cursor_def find_index_distinct Let_def)

lemma list_rdb_ok: "rdb_ok list_rdb ld_rows ld_saved"
  unfolding rdb_ok_def rdb_transactions_def rdb_changes_def rdb_queries_def
  by (auto simp: list_rdb_def list_cursor_on row_matches_def)

interpretation list_store: package_store "AddOrUpdatePkgInfo list_rdb" "DeleteRightRecord list_rdb"
  "QueryPkgInfosByBundle list_rdb" "\<lambda>db qs. ld_rows (pd_data db) = map values_of qs"
  by (rule pkg_db_store [OF list_rdb_ok])

definition a_record :: "string \<Rightarrow> string \<Rightarrow> pkg_info" where
  "a_record b name =
     \<lparr>pk_driverUid = name @ ''-5'', pk_bundleAbility = b @ ''-'' @ name, pk_userId = 100, pk_appIndex = 0,
      pk_bundleName = b, pk_driverName = name, pk_driverInfo = ''{}''\<rparr>"

definition a_database :: "int \<Rightarrow> list_db pkg_db" where
  "a_database next_id =
     \<lparr>pd_store = True,
      pd_data = \<lparr>ld_rows = map values_of [a_record ''old'' ''A'', a_record ''other'' ''B''], ld_saved = None, ld_next = next_id\<rparr>\<rparr>"

section \<open>The guarantees\<close>

text \<open>
  C13: after a result that is not negative, storing the drivers of a bundle has made the records of
  the bundle (of every bundle, when no name is given) exactly the new ones and has left those of
  other bundles as they were; after a negative result the records are as before, or the operation
  ended with a rollback that itself failed, whose result the code ignores. The same holds for
  removing a bundle. A rollback that returns E_OK is taken to restore the rows of the beginning of
  the transaction, an insertion or removal that returns E_OK to do what it says; nothing is taken of
  the rows after an insertion or removal that fails.
\<close>

theorem database_all_or_nothing:
  assumes "rdb_ok R tbl saved" and "AddOrUpdatePkgInfo R ps b db = (r, db')" and "DeleteRightRecord R b db = (r2, db2)"
  shows "(if 0 \<le> r then tbl (pd_data db') = other_rows b (tbl (pd_data db)) @ map values_of ps
      else undone R tbl saved (tbl (pd_data db)) db')
    \<and> (if 0 \<le> r2 then tbl (pd_data db2) = filter (\<lambda>row. \<not> row_matches [(''bundleName'', b)] row) (tbl (pd_data db))
      else undone R tbl saved (tbl (pd_data db)) db2)"
  using refresh_all_or_nothing [OF assms(1,2)] removal_all_or_nothing [OF assms(1,3)] by blast

lemma sample_refresh:
  "AddOrUpdatePkgInfo list_rdb [a_record ''old'' ''C''] ''old'' (a_database 3)
   = (0, \<lparr>pd_store = True, pd_data = \<lparr>ld_rows = map values_of [a_record ''other'' ''B'', a_record ''old'' ''C''],
        ld_saved = None, ld_next = 4\<rparr>\<rparr>)"
  by code_simp

theorem database_all_or_nothing_witness:
  "ld_rows (pd_data (snd (AddOrUpdatePkgInfo list_rdb [a_record ''old'' ''C''] ''old'' (a_database 3))))
    = other_rows ''old'' (ld_rows (pd_data (a_database 3))) @ map values_of [a_record ''old'' ''C'']"
  using database_all_or_nothing [OF list_rdb_ok sample_refresh surjective_pairing] by (simp add: sample_refresh)

text \<open>
  A store whose insertions and rollbacks fail keeps the laws, and a failed refresh on it loses the
  records of the bundle: the removal stays, and the caller is told a failure.
\<close>

definition failing_rdb :: "list_db rdb" where
  "failing_rdb = list_rdb\<lparr>r_insert := \<lambda>row s. (1, 0, s), r_rollback := \<lambda>s. (1, s)\<rparr>"

lemma failing_rdb_ok: "rdb_ok failing_rdb ld_rows ld_saved"
  unfolding rdb_ok_def rdb_transactions_def rdb_changes_def rdb_queries_def
  by (auto simp: failing_rdb_def list_rdb_def list_cursor_on row_matches_def)

theorem failed_rollback_loses_records:
  "fst (AddOrUpdatePkgInfo failing_rdb [a_record ''old'' ''C''] ''old'' (a_database 3)) < 0
   \<and> ld_rows (pd_data (snd (AddOrUpdatePkgInfo failing_rdb [a_record ''old'' ''C''] ''old'' (a_database 3))))
       = map values_of [a_record ''other'' ''B'']"
  by code_simp

text \<open>
  C14: after the drivers of a bundle have been stored, a query for that bundle that succeeds
  returns exactly them, and a query for another bundle returns what it returned before.
\<close>

theorem stored_bundle_found:
  assumes "rdb_ok R tbl saved" and "tbl (pd_data db) = map values_of qs"
    and "AddOrUpdatePkgInfo R ps b db = (r, db')" and "0 \<le> r" and "b \<noteq> []" and "list_all (\<lambda>p. pk_bundleName p = b) ps"
    and "QueryPkgInfosByBundle R b' db' = (Inr res, db'')" and "b' \<noteq> []"
  shows "res = (if b' = b then map read_back ps else map read_back (filter (\<lambda>q. pk_bundleName q = b') qs))"
  by (rule package_store.refresh_then_find [OF pkg_db_store [OF assms(1)] assms(2-8)])

lemma sample_find:
  "QueryPkgInfosByBundle list_rdb ''old'' (snd (AddOrUpdatePkgInfo list_rdb [a_record ''old'' ''C''] ''old'' (a_database 3)))
   = (Inr [read_back (a_record ''old'' ''C'')],
      snd (AddOrUpdatePkgInfo list_rdb [a_record ''old'' ''C''] ''old'' (a_database 3)))"
  by code_simp

theorem stored_bundle_found_witness:
  "\<exists>res db. QueryPkgInfosByBundle list_rdb ''old''
      (snd (AddOrUpdatePkgInfo list_rdb [a_record ''old'' ''C''] ''old'' (a_database 3))) = (Inr res, db)
    \<and> res = map read_back [a_record ''old'' ''C'']"
proof -
  have "[read_back (a_record ''old'' ''C'')] = map read_back [a_record ''old'' ''C'']"
    using stored_bundle_found [OF list_rdb_ok _ sample_refresh _ _ _ sample_find [unfolded sample_refresh snd_conv],
        of "[a_record ''old'' ''A'', a_record ''other'' ''B'']"]
    by (simp add: a_database_def a_record_def)
  with sample_find show ?thesis by (intro exI conjI)
qed

text \<open>
  the 64-bit row identifier of an insertion is converted to 32 bits before it is compared
  with zero: once the store hands out identifiers from 2147483648 on, storing a driver fails and
  is rolled back although the store accepted it.
\<close>

theorem large_row_id_refused:
  assumes "rdb_ok R tbl saved" and "pd_store db" and "r_begin R (pd_data db) = (0, s1)"
    and "r_delete R ''bundleName = ?'' [b] s1 = (0, s2)" and "r_insert R (values_of p) s2 = (0, n, s3)"
    and "2147483648 \<le> n" and "n < 4294967296" and "b \<noteq> []" and "r_rollback R s3 = (0, s4)"
  shows "fst (AddOrUpdatePkgInfo R [p] b db) < 0
    \<and> tbl (pd_data (snd (AddOrUpdatePkgInfo R [p] b db))) = tbl (pd_data db)"
proof -
  have s: "n + 2147483648 = (n - 2147483648) + 4294967296" by simp
  have "(n + 2147483648) mod 4294967296 = n - 2147483648"
    unfolding s mod_add_self2 using assms(6,7) by simp
  then have "to_i32 n = n - 4294967296" by (simp add: to_i32_def)
  then have neg: "to_i32 n < 0" using assms(7) by simp
  have run: "AddOrUpdatePkgInfo R [p] b db = (to_i32 n, db\<lparr>pd_data := s4\<rparr>)"
    using assms(2-5,8,9) neg
    by (simp add: AddOrUpdatePkgInfo_def BeginTransaction_def Delete_def Insert_def RollBack_def code_of_def Let_def)
  have "saved s3 = Some (tbl (pd_data db))"
    using rdb_laws(2) [OF assms(1,3)] rdb_laws(10) [OF assms(1,4)] rdb_laws(6) [OF assms(1,5)] by simp
  then have "tbl s4 = tbl (pd_data db)" using rdb_laws(5) [OF assms(1) _ assms(9)] by simp
  then show ?thesis using neg run by simp
qed

theorem large_row_id_refused_witness:
  "fst (AddOrUpdatePkgInfo list_rdb [a_record ''old'' ''C''] ''old'' (a_database 2147483648)) < 0"
  using large_row_id_refused [OF list_rdb_ok, of "a_database 2147483648" _ "''old''" _ "a_record ''old'' ''C''" 2147483648]
  by (simp add: list_rdb_def a_database_def)

end
