(* ===== verification/Pkg_Mgr_Claims.thy ===== *)
theory Pkg_Mgr_Claims
  imports Pkg_Mgr Pkg_Db_Claims Usb_Match
begin

text \<open>
  What the package manager guarantees: which drivers it matches, that a removed package is gone,
  that packages of other users are ignored and that the database is filled once.
\<close>

section \<open>Access to the database\<close>

abbreviation helper_db :: "'s pkg_mgr \<Rightarrow> 's pkg_db" where
  "helper_db m \<equiv> ph_db (pm_helper m)"

lemma with_db_result:
  "with_db f m = (x, m') \<longleftrightarrow> (\<exists>db. f (helper_db m) = (x, db) \<and> m' = m\<lparr>pm_helper := (pm_helper m)\<lparr>ph_db := db\<rparr>\<rparr>)"
  by (auto simp: with_db_def split: prod.splits)

lemma get_helper_ready: "ph_init (pm_helper m) = Some True \<Longrightarrow> get_helper E m = m"
  by (simp add: get_helper_def GetInstance_def)

lemma start_task_simps [simp]:
  "pm_tasks (start_task t m) = pm_tasks m @ [t]" "pm_helper (start_task t m) = pm_helper m"
  "pm_callback (start_task t m) = pm_callback m" "pm_initOnce (start_task t m) = pm_initOnce m"
  by (simp_all add: start_task_def)

lemma GetAllDriverInfos_done: "pm_initOnce m \<Longrightarrow> GetAllDriverInfos E m = Inr (True, m)"
  by (simp add: GetAllDriverInfos_def)

section \<open>Matching\<close>

definition fits :: "(string \<Rightarrow> string) \<Rightarrow> driver_info \<Rightarrow> device_info \<Rightarrow> bool" where
  "fits lower d dev \<longleftrightarrow>
     lower (dr_bus d) = ''usb'' \<and> di_busType dev = BUS_TYPE_USB
     \<and> (case dr_ext d of None \<Rightarrow> False
        | Some ids \<Rightarrow>
            (case di_usb dev of None \<Rightarrow> False
             | Some u \<Rightarrow> uf_idVendor u \<in> set (ud_vids ids) \<and> uf_idProduct u \<in> set (ud_pids ids)))"

lemma UsbMatchDriver_fits: "UsbMatchDriver lower d dev = Inr True \<longleftrightarrow> fits lower d dev"
  by (auto simp: UsbMatchDriver_def fits_def split: option.splits if_splits)

lemma DriverInfo_UnSerialize_names:
  assumes "DriverInfo_UnSerialize J lower core str d = Inr (r, d')"
  shows "dr_bundleName d' = dr_bundleName d \<and> dr_driverName d' = dr_driverName d
    \<and> dr_driverUid d' = dr_driverUid d \<and> dr_userId d' = dr_userId d"
  using assms
  by (auto simp: DriverInfo_UnSerialize_def Let_def bindE_eq_Inr split: option.splits if_splits)

definition made_from :: "driver_info \<Rightarrow> pkg_info \<Rightarrow> bool" where
  "made_from d p \<longleftrightarrow> dr_bundleName d = pk_bundleName p \<and> dr_driverName d = pk_driverName p
     \<and> dr_driverUid d = dr_driverUid (new_driver_info (pk_bundleName p) (pk_driverName p) (pk_driverUid p) 0)
     \<and> dr_userId d = to_i32 (pk_userId p)"

lemma MatchStored_Some:
  "MatchStored E dev ps = Inr (Some d) \<Longrightarrow> fits (pe_lower E) d dev \<and> (\<exists>p \<in> set ps. made_from d p)"
proof (induction ps)
  case (Cons p ps)
  obtain r d1 where u: "DriverInfo_UnSerialize (pe_json E) (pe_lower E) (pe_core E) (pk_driverInfo p)
      (new_driver_info (pk_bundleName p) (pk_driverName p) (pk_driverUid p) (to_i32 (pk_userId p))) = Inr (r, d1)"
    using Cons.prems by (auto simp: bindE_eq_Inr)
  have m: "made_from d1 p" using DriverInfo_UnSerialize_names [OF u] by (simp add: made_from_def new_driver_info_def)
  show ?case
  proof (cases "MatchStored E dev ps = Inr (Some d)")
    case True
    then show ?thesis using Cons.IH by auto
  next
    case False
    then have "UsbMatchDriver (pe_lower E) d1 dev = Inr True \<and> d1 = d"
      using Cons.prems u by (auto simp: bindE_eq_Inr split: option.splits if_splits)
    then show ?thesis using m by (auto simp: UsbMatchDriver_fits)
  qed
qed simp

lemma QueryMatchDriver_stored:
  assumes "QueryMatchDriver E dev m = Inr (Some d, m')"
  obtains m1 ps db where "pm_callback m" and "GetAllDriverInfos E m = Inr (True, m1)"
    and "QueryPkgInfosByUid (pe_rdb E) False [] (helper_db (get_helper E m1)) = (Inr ps, db)"
    and "MatchStored E dev ps = Inr (Some d)"
proof -
  have cb: "pm_callback m" using assms by (auto simp: QueryMatchDriver_def split: if_splits)
  obtain ok m1 where g: "GetAllDriverInfos E m = Inr (ok, m1)" using assms cb by (auto simp: QueryMatchDriver_def bindE_eq_Inr)
  have ok: "ok" using assms cb g by (auto simp: QueryMatchDriver_def split: if_splits)
  obtain res m2 where q: "with_db (QueryPkgInfosByUid (pe_rdb E) False []) (get_helper E m1) = (res, m2)" by fastforce
  obtain ps where ps: "res = Inr ps" using assms cb g ok q by (cases res) (auto simp: QueryMatchDriver_def)
  have "MatchStored E dev ps = Inr (Some d)"
    using assms cb g ok q ps by (auto simp: QueryMatchDriver_def bindE_eq_Inr)
  then show ?thesis using that cb g ok q ps by (auto simp: with_db_result)
qed

text \<open>
  C15: a driver that is matched to a device fits it: it is a driver of the USB bus whose vendor
  and product lists hold those of the device, and its names, its identifier and its user are
  those of a record of the database.
\<close>

theorem matched_driver_fits:
  assumes "rdb_ok (pe_rdb E) tbl saved" and "pm_initOnce m" and "ph_init (pm_helper m) = Some True"
    and "tbl (pd_data (helper_db m)) = map values_of qs" and "QueryMatchDriver E dev m = Inr (Some d, m')"
  shows "fits (pe_lower E) d dev \<and> (\<exists>p \<in> set qs. made_from d p)"
proof -
  obtain m1 ps db where q: "GetAllDriverInfos E m = Inr (True, m1)"
      "QueryPkgInfosByUid (pe_rdb E) False [] (helper_db (get_helper E m1)) = (Inr ps, db)"
      "MatchStored E dev ps = Inr (Some d)"
    using QueryMatchDriver_stored [OF assms(5)] by metis
  have "m1 = m" using q(1) GetAllDriverInfos_done [OF assms(2), where E = E] by simp
  then have w: "QueryPkgInfosWhere (pe_rdb E) [] [] (helper_db m) = (Inr ps, db)"
    using q(2) get_helper_ready [OF assms(3), where E = E] by (simp add: QueryPkgInfosByUid_def)
  have "ps = map read_back qs"
    using QueryPkgInfosWhere_rows(2) [OF assms(1,4) w refl] by (simp add: asked_for_def)
  then show ?thesis using MatchStored_Some [OF q(3)] by (auto simp: made_from_def read_back_def)
qed

section \<open>A package that is installed\<close>

definition an_ability :: ext_ability where
  "an_ability =
     \<lparr>xa_isDriver = True, xa_bundleName = ''app'', xa_name = ''Ext'',
      xa_metadata = [(''vid'', ''2''), (''bus'', ''USB''), (''pid'', ''0x3,5'')], xa_accessTokenId = 0, xa_versionName = []\<rparr>"

definition an_env :: "(jvalue, list_db) pkg_env" where
  "an_env =
     \<lparr>pe_json = value_json, pe_lower = ascii_lower, pe_core = usb_core, pe_rdb = list_rdb, pe_activeUser = Some 100,
      pe_bundleMgr = True, pe_bundleStats = \<lambda>_ _. Some [12], pe_driverAbilities = \<lambda>_. [],
      pe_bundleInfo = \<lambda>b _. if b = ''app'' then Some ([an_ability], 7, ''1.0'') else None,
      pe_hapToken = \<lambda>_. Some (100, 0), pe_subscribe = True, pe_unsubscribe = True,
      pe_subscribeSwitching = True, pe_subscribeSwitched = True\<rparr>"

definition ready_mgr :: "list_db pkg_mgr" where
  "ready_mgr =
     \<lparr>pm_callback = True, pm_monitor = True, pm_pFun = False, pm_updateCallback = True, pm_initOnce = True,
      pm_bundleMgr = False, pm_helper = \<lparr>ph_init = Some True, ph_db = a_database 3\<rparr>, pm_tasks = [],
      pm_switching = True, pm_switched = True\<rparr>"

definition installed :: "list_db pkg_mgr" where
  "installed = (case OnBundleAdded an_env ''app'' 100 ready_mgr of Inl _ \<Rightarrow> ready_mgr | Inr m \<Rightarrow> m)"

definition installed_driver :: driver_info where
  "installed_driver =
     (new_driver_info ''app'' ''Ext'' ''Ext-7'' 100)\<lparr>dr_bus := ''USB'', dr_busType := 1, dr_version := ''1.0'',
       dr_driverSize := ''12'', dr_ext := Some \<lparr>ud_pids = [3, 5], ud_vids = [2]\<rparr>\<rparr>"

lemma installed_state:
  "pm_initOnce installed" "ph_init (pm_helper installed) = Some True" "pm_tasks installed = [TaskBundlesUpdated ''app'']"
  by code_simp+

lemma installed_rows:
  "\<exists>p. ld_rows (pd_data (helper_db installed)) = map values_of [a_record ''old'' ''A'', a_record ''other'' ''B'', p]
    \<and> pk_driverUid p = ''Ext-7''"
proof -
  let ?p = "\<lparr>pk_driverUid = ''Ext-7'', pk_bundleAbility = ''app-Ext'', pk_userId = 100, pk_appIndex = 0,
      pk_bundleName = ''app'', pk_driverName = ''Ext'',
      pk_driverInfo = print_value (driver_value installed_driver (print_value (ids_value \<lparr>ud_pids = [3, 5], ud_vids = [2]\<rparr>)))\<rparr>"
  have "ld_rows (pd_data (helper_db installed)) = map values_of [a_record ''old'' ''A'', a_record ''other'' ''B'', ?p]"
    by code_simp
  then show ?thesis by (intro exI [of _ ?p]) simp
qed

lemma installed_match:
  "QueryMatchDriver an_env (sample_usb_device 2 5) installed = Inr (Some installed_driver, installed)"
  by code_simp

theorem matched_driver_fits_witness:
  "\<exists>p. fits ascii_lower installed_driver (sample_usb_device 2 5) \<and> made_from installed_driver p"
proof -
  have rdb: "rdb_ok (pe_rdb an_env) ld_rows ld_saved" using list_rdb_ok by (simp add: an_env_def)
  obtain p where "ld_rows (pd_data (helper_db installed)) = map values_of [a_record ''old'' ''A'', a_record ''other'' ''B'', p]"
    using installed_rows by blast
  from matched_driver_fits [OF rdb installed_state(1,2) this installed_match]
  show ?thesis by (auto simp: an_env_def)
qed

section \<open>Packages come and go\<close>

text \<open>
  events about packages of a user who is not the active one change nothing.
\<close>

theorem other_users_ignored:
  assumes "pe_activeUser E \<noteq> Some userId" and "userId \<noteq> - 1"
  shows "OnBundleAdded E b userId m = Inr m \<and> OnBundleUpdated E b userId m = Inr m \<and> OnBundleRemoved E b userId m = m"
  using assms
  by (auto simp: OnBundleAdded_def OnBundleUpdated_def OnBundleRemoved_def IsCurrentUserId_def GetCurrentActiveUserId_def
      split: option.splits)

theorem other_users_ignored_witness:
  "OnBundleAdded an_env ''app'' 101 ready_mgr = Inr ready_mgr"
  using other_users_ignored [of an_env 101 "''app''" ready_mgr] by (simp add: an_env_def)

text \<open>
  C16: once the removal of a package has been carried out (the device manager is told), no device
  is matched to a driver of that package any more.
\<close>

theorem removed_package_never_matched:
  assumes "rdb_ok (pe_rdb E) tbl saved" and "pm_initOnce m" and "ph_init (pm_helper m) = Some True"
    and "tbl (pd_data (helper_db m)) = map values_of qs"
    and "TaskBundlesUpdated b \<in> set (pm_tasks (OnBundleRemoved E b userId m))" and "TaskBundlesUpdated b \<notin> set (pm_tasks m)"
    and "QueryMatchDriver E dev (OnBundleRemoved E b userId m) = Inr (Some d, m')"
  shows "dr_bundleName d \<noteq> b"
proof -
  let ?m = "OnBundleRemoved E b userId m"
  obtain res db1 where q: "QueryPkgInfosByBundle (pe_rdb E) b (helper_db m) = (res, db1)" by fastforce
  obtain r db2 where dl: "DeleteRightRecord (pe_rdb E) b db1 = (r, db2)" by fastforce
  have "?m = (if IsCurrentUserId E userId then
      (let m2 = m\<lparr>pm_helper := (pm_helper m)\<lparr>ph_db := db2\<rparr>\<rparr> in
       if r < 0 then m2 else if pm_updateCallback m then start_task (TaskBundlesUpdated b) m2 else m2) else m)"
    using q dl get_helper_ready [OF assms(3), where E = E]
    by (simp add: OnBundleRemoved_def OnBundleDrvRemoved_def with_db_def Let_def)
  then have r: "0 \<le> r" and m: "?m = start_task (TaskBundlesUpdated b) (m\<lparr>pm_helper := (pm_helper m)\<lparr>ph_db := db2\<rparr>\<rparr>)"
    using assms(5,6) by (auto simp: Let_def split: if_splits)
  have t1: "tbl (pd_data db1) = map values_of qs"
    using package_store.find_keeps [OF pkg_db_store [OF assms(1)] assms(4) q] .
  have t2: "tbl (pd_data db2) = map values_of (filter (\<lambda>q. pk_bundleName q \<noteq> b) qs)"
    using package_store.remove_ok [OF pkg_db_store [OF assms(1)] t1 dl] r by simp
  obtain m1 ps db where s: "GetAllDriverInfos E ?m = Inr (True, m1)"
      "QueryPkgInfosByUid (pe_rdb E) False [] (helper_db (get_helper E m1)) = (Inr ps, db)"
      "MatchStored E dev ps = Inr (Some d)"
    using QueryMatchDriver_stored [OF assms(7)] by metis
  have "m1 = ?m" using s(1) GetAllDriverInfos_done [of ?m, where E = E] assms(2) m by simp
  then have "get_helper E m1 = ?m" using get_helper_ready [of ?m, where E = E] assms(3) m by simp
  then have w: "QueryPkgInfosWhere (pe_rdb E) [] [] db2 = (Inr ps, db)"
    using s(2) m by (simp add: QueryPkgInfosByUid_def)
  have "ps = map read_back (filter (\<lambda>q. pk_bundleName q \<noteq> b) qs)"
    using QueryPkgInfosWhere_rows(2) [OF assms(1) t2 w refl] by (simp add: asked_for_def)
  then show ?thesis using MatchStored_Some [OF s(3)] by (auto simp: made_from_def read_back_def)
qed

definition without_old :: "list_db pkg_mgr" where
  "without_old = OnBundleRemoved an_env ''old'' 100 installed"

lemma without_old_facts:
  "TaskBundlesUpdated ''old'' \<in> set (pm_tasks without_old)"
  "QueryMatchDriver an_env (sample_usb_device 2 5) without_old = Inr (Some installed_driver, without_old)"
  by code_simp+

theorem removed_package_never_matched_witness:
  "dr_bundleName installed_driver \<noteq> ''old''"
proof -
  have rdb: "rdb_ok (pe_rdb an_env) ld_rows ld_saved" using list_rdb_ok by (simp add: an_env_def)
  obtain p where "ld_rows (pd_data (helper_db installed)) = map values_of [a_record ''old'' ''A'', a_record ''other'' ''B'', p]"
    using installed_rows by blast
  from removed_package_never_matched [OF rdb installed_state(1,2) this without_old_facts(1) [unfolded without_old_def] _
      without_old_facts(2) [unfolded without_old_def]]
  show ?thesis by (simp add: installed_state(3))
qed

text \<open>
  once the database has been filled it is not filled again until the accounts have been
  switched: further requests succeed and change nothing.
\<close>

theorem filled_once:
  assumes "GetAllDriverInfos E m = Inr (True, m1)"
  shows "GetAllDriverInfos E m1 = Inr (True, m1)
    \<and> (pm_callback m1 \<longrightarrow> \<not> pm_initOnce (OnAccountsSwitched m1) \<and> TaskGetAllDriverInfos \<in> set (pm_tasks (OnAccountsSwitched m1)))"
proof -
  have "pm_initOnce m1"
  proof (cases "pm_initOnce m")
    case True
    then show ?thesis using assms GetAllDriverInfos_done [of m, where E = E] by simp
  next
    case False
    then show ?thesis
      using assms by (auto simp: GetAllDriverInfos_def Let_def bindE_eq_Inr split: if_splits prod.splits)
  qed
  then show ?thesis
    by (simp add: GetAllDriverInfos_done OnAccountsSwitched_def GetAllDriverInfosAsync_def ResetInitOnce_def)
qed

theorem filled_once_witness:
  "GetAllDriverInfos an_env installed = Inr (True, installed)
    \<and> TaskGetAllDriverInfos \<in> set (pm_tasks (OnAccountsSwitched installed))"
proof -
  have g: "GetAllDriverInfos an_env installed = Inr (True, installed)"
    by (rule GetAllDriverInfos_done [OF installed_state(1)])
  have "pm_callback installed" by code_simp
  with filled_once [OF g] show ?thesis by blast
qed

end
