(* ===== verification/Sys_Event.thy ===== *)
theory Sys_Event
  imports Pkg_Mgr_Claims
begin

text \<open>
  What the service writes about its own work: the records of driver_report_sys_event.cpp, the
  reports of the package refresh (ReportPkgsEvent and ReportPkgsDelEvent of
  drv_bundle_state_callback.cpp) and the measurements of utils/src/ext_dev_api_metrics.cpp.

  \<open>HiSysEventWrite\<close> and the histograms belong to other repositories: what they are given is the
  result here. The callers never pass a null event.
\<close>

section \<open>Error codes of events\<close>

datatype EventErrCode =
    EV_SUCCESS | BIND_JS_CALLBACK_FAILED | CONNECT_DRIVER_EXTENSION_FAILED | BIND_ACCESS_NOT_ALLOWED
  | UNBIND_DRIVER_EMPTY | UNBIND_RELATION_NOT_FOUND | DISCONNECT_DRIVER_EXTENSION_FAILED
  | QUERY_DRIVER_EXTENSION_FAILED | UPDATE_DATABASE_FAILED | LIFECYCLE_FUNCTION_FAILED
  | OPEN_DEVICE_FAILED | GET_DEVICE_DESCRIPTOR_FAILED | DEVICE_DESCRIPTOR_LENGTH_INVALID
  | GET_INTERFACE_DESCRIPTOR_FAILED | STOP_DRIVER_EXTENSION_FAILED | QUERY_DRIVER_INFO_FAILED
  | NO_MATCHING_DRIVER_FOUND

text \<open>\<open>static_cast<int32_t>(errCode)\<close>.\<close>

fun event_code :: "EventErrCode \<Rightarrow> int" where
  "event_code EV_SUCCESS = 0"
| "event_code BIND_JS_CALLBACK_FAILED = 10001"
| "event_code CONNECT_DRIVER_EXTENSION_FAILED = 10002"
| "event_code BIND_ACCESS_NOT_ALLOWED = 10003"
| "event_code UNBIND_DRIVER_EMPTY = 20001"
| "event_code UNBIND_RELATION_NOT_FOUND = 20002"
| "event_code DISCONNECT_DRIVER_EXTENSION_FAILED = 20003"
| "event_code QUERY_DRIVER_EXTENSION_FAILED = 30001"
| "event_code UPDATE_DATABASE_FAILED = 30002"
| "event_code LIFECYCLE_FUNCTION_FAILED = 40001"
| "event_code OPEN_DEVICE_FAILED = 50001"
| "event_code GET_DEVICE_DESCRIPTOR_FAILED = 50002"
| "event_code DEVICE_DESCRIPTOR_LENGTH_INVALID = 50003"
| "event_code GET_INTERFACE_DESCRIPTOR_FAILED = 50004"
| "event_code STOP_DRIVER_EXTENSION_FAILED = 60001"
| "event_code QUERY_DRIVER_INFO_FAILED = 70001"
| "event_code NO_MATCHING_DRIVER_FOUND = 70002"

definition ErrMsgs :: "(EventErrCode \<times> string) list" where
  "ErrMsgs =
    [(EV_SUCCESS, ''Success''),
     (BIND_JS_CALLBACK_FAILED, ''Failed to register JS callback''),
     (CONNECT_DRIVER_EXTENSION_FAILED, ''Failed to connect DriverExtensionAbility''),
     (BIND_ACCESS_NOT_ALLOWED, ''Bind access is not allowed''),
     (UNBIND_DRIVER_EMPTY, ''No driver matched for the device''),
     (UNBIND_RELATION_NOT_FOUND, ''Binding relationship between client and driver not found''),
     (DISCONNECT_DRIVER_EXTENSION_FAILED, ''Failed to disconnect DriverExtensionAbility''),
     (QUERY_DRIVER_EXTENSION_FAILED, ''Failed to query DriverExtensionAbility''),
     (UPDATE_DATABASE_FAILED, ''Failed to update database''),
     (LIFECYCLE_FUNCTION_FAILED, ''Lifecycle function execution failed''),
     (OPEN_DEVICE_FAILED, ''Failed to open device''),
     (GET_DEVICE_DESCRIPTOR_FAILED, ''Failed to get device descriptor''),
     (DEVICE_DESCRIPTOR_LENGTH_INVALID, ''Device descriptor length is invalid''),
     (GET_INTERFACE_DESCRIPTOR_FAILED, ''Failed to get interface descriptor''),
     (STOP_DRIVER_EXTENSION_FAILED, ''Failed to stop DriverExtensionAbility''),
     (QUERY_DRIVER_INFO_FAILED, ''Failed to query driver information''),
     (NO_MATCHING_DRIVER_FOUND, ''No matching driver found for the device'')]"

section \<open>Events\<close>

datatype EXTDEV_EXP_EVENT =
    DRIVER_BIND | DRIVER_UNBIND | DRIVER_PACKAGE_DATA_REFRESH | DRIVER_PACKAGE_CYCLE_MANAGE
  | GET_DEVICE_INFO | CHANGE_FUNC | DRIVER_DEVICE_MATCH

record ext_dev_event =
  ev_deviceClass :: int
  ev_deviceSubClass :: int
  ev_deviceProtocol :: int
  ev_snNum :: string
  ev_vendorId :: int
  ev_productId :: int
  ev_deviceId :: u64
  ev_driverUid :: string
  ev_driverName :: string
  ev_versionCode :: string
  ev_vids :: string
  ev_pids :: string
  ev_userId :: int
  ev_bundleName :: string
  ev_operatType :: EXTDEV_EXP_EVENT
  ev_interfaceName :: string
  ev_message :: string
  ev_errCode :: int

definition new_event :: "string \<Rightarrow> EXTDEV_EXP_EVENT \<Rightarrow> u64 \<Rightarrow> ext_dev_event" where
  "new_event interfaceName operatType deviceId =
     \<lparr> ev_deviceClass = 0, ev_deviceSubClass = 0, ev_deviceProtocol = 0, ev_snNum = [],
       ev_vendorId = 0, ev_productId = 0, ev_deviceId = deviceId, ev_driverUid = [],
       ev_driverName = [], ev_versionCode = [], ev_vids = [], ev_pids = [], ev_userId = 0,
       ev_bundleName = [], ev_operatType = operatType, ev_interfaceName = interfaceName,
       ev_message = [], ev_errCode = 0 \<rparr>"

text \<open>The record that is written: the event with at most five characters of the serial number.\<close>

definition WriteEvent :: "ext_dev_event \<Rightarrow> ext_dev_event" where
  "WriteEvent e =
     (let snNum = (if length (ev_snNum e) > 5 then drop (length (ev_snNum e) - 5) (ev_snNum e) else [])
      in e\<lparr>ev_snNum := snNum\<rparr>)"

text \<open>The event as it is afterwards, and the record that is written.\<close>

definition ReportExternalDeviceEvent :: "ext_dev_event \<Rightarrow> EventErrCode \<Rightarrow> ext_dev_event \<times> ext_dev_event" where
  "ReportExternalDeviceEvent e errCode =
     (let e = e\<lparr>ev_errCode := event_code errCode\<rparr>;
          e = (case map_of ErrMsgs errCode of None \<Rightarrow> e | Some msg \<Rightarrow> e\<lparr>ev_message := msg\<rparr>)
      in (e, WriteEvent e))"

text \<open>
  The iterator \<open>it\<close> is never advanced, so \<open>it + 1 == ids.end ()\<close> holds in every round or in none.
\<close>

definition ParseIdVector :: "u16 list \<Rightarrow> string" where
  "ParseIdVector ids =
     (if length ids < 1 then []
      else concat (map (\<lambda>id. if 0 + 1 = length ids then show_nat (unat id)
                            else show_nat (unat id) @ '','') ids))"

text \<open>\<open>static_pointer_cast\<close> of an object that is no USB device is \<open>Bad_cast\<close>.\<close>

definition ParseDeviceToEvent :: "device_info option \<Rightarrow> ext_dev_event \<Rightarrow> ext_dev_event res" where
  "ParseDeviceToEvent deviceInfo e =
     (case deviceInfo of None \<Rightarrow> Inr e
      | Some d \<Rightarrow>
          if di_busType d = BUS_TYPE_USB then
            (case di_usb d of None \<Rightarrow> Inl Bad_cast
             | Some u \<Rightarrow>
                 Inr (e\<lparr>ev_deviceId := GetDeviceId d, ev_deviceClass := uint (uf_deviceClass u),
                       ev_deviceSubClass := uint (uf_deviceSubClass u),
                       ev_deviceProtocol := uint (uf_deviceProtocol u), ev_snNum := uf_snNum u,
                       ev_vendorId := uint (uf_idVendor u), ev_productId := uint (uf_idProduct u)\<rparr>))
          else Inr e)"

definition ParseDriverToEvent :: "driver_info option \<Rightarrow> ext_dev_event \<Rightarrow> ext_dev_event res" where
  "ParseDriverToEvent driverInfo e =
     (case driverInfo of None \<Rightarrow> Inr e
      | Some d \<Rightarrow>
          if dr_busType d = BUS_TYPE_USB then
            (case dr_ext d of None \<Rightarrow> Inl Null_deref
             | Some ids \<Rightarrow>
                 Inr (e\<lparr>ev_vids := ParseIdVector (ud_vids ids), ev_pids := ParseIdVector (ud_pids ids),
                       ev_driverUid := dr_driverUid d, ev_userId := dr_userId d,
                       ev_driverName := dr_driverName d, ev_versionCode := dr_version d,
                       ev_bundleName := dr_bundleName d\<rparr>))
          else Inr e)"

definition ParseToExtDevEvent ::
  "device_info option \<Rightarrow> driver_info option \<Rightarrow> ext_dev_event \<Rightarrow> ext_dev_event res" where
  "ParseToExtDevEvent deviceInfo driverInfo e =
     bindE (ParseDeviceToEvent deviceInfo e) (ParseDriverToEvent driverInfo)"

section \<open>Reports of a package refresh\<close>

text \<open>One event object serves all drivers of a list. The result is the list of the records written.\<close>

fun ReportDrivers :: "EventErrCode \<Rightarrow> driver_info list \<Rightarrow> ext_dev_event \<Rightarrow> ext_dev_event list res" where
  "ReportDrivers errCode [] e = Inr []"
| "ReportDrivers errCode (d # ds) e =
     bindE (ParseDriverToEvent (Some d) e) (\<lambda>e.
       case ReportExternalDeviceEvent e errCode of (e, written) \<Rightarrow>
       bindE (ReportDrivers errCode ds e) (\<lambda>more. Inr (written # more)))"

definition ReportPkgsEvent :: "driver_info list \<Rightarrow> string \<Rightarrow> EventErrCode \<Rightarrow> ext_dev_event list res" where
  "ReportPkgsEvent driverObjs interfaceName errCode =
     ReportDrivers errCode driverObjs (new_event interfaceName DRIVER_PACKAGE_DATA_REFRESH 0)"

fun ReportRecords ::
  "('j, 's) pkg_env \<Rightarrow> EventErrCode \<Rightarrow> pkg_info list \<Rightarrow> ext_dev_event \<Rightarrow> ext_dev_event list res" where
  "ReportRecords E errCode [] e = Inr []"
| "ReportRecords E errCode (p # ps) e =
     bindE (DriverInfo_UnSerialize (pe_json E) (pe_lower E) (pe_core E) (pk_driverInfo p)
              (new_driver_info (pk_bundleName p) (pk_driverName p) (pk_driverUid p) (to_i32 (pk_userId p))))
       (\<lambda>(_, d). bindE (ParseDriverToEvent (Some d) e) (\<lambda>e.
       case ReportExternalDeviceEvent e errCode of (e, written) \<Rightarrow>
       bindE (ReportRecords E errCode ps e) (\<lambda>more. Inr (written # more))))"

definition ReportPkgsDelEvent ::
  "('j, 's) pkg_env \<Rightarrow> pkg_info list \<Rightarrow> string \<Rightarrow> EventErrCode \<Rightarrow> ext_dev_event list res" where
  "ReportPkgsDelEvent E pkgInfos interfaceName errCode =
     ReportRecords E errCode pkgInfos (new_event interfaceName DRIVER_PACKAGE_DATA_REFRESH 0)"

text \<open>The records that \<open>UpdateToRdb\<close> of Pkg_Mgr writes on the way.\<close>

definition UpdateToRdb_events ::
  "('j, 's) pkg_env \<Rightarrow> ext_ability list \<Rightarrow> string \<Rightarrow> string \<Rightarrow> 's pkg_mgr \<Rightarrow> ext_dev_event list res" where
  "UpdateToRdb_events E driverInfos bundleName interfaceName m =
     bindE (ParseToPkgInfoTables E driverInfos m) (\<lambda>(pkgInfoTables, driverObjs, m).
       case with_db (AddOrUpdatePkgInfo (pe_rdb E) pkgInfoTables bundleName) (get_helper E m) of (ret, m) \<Rightarrow>
       if ret < PKG_OK then ReportPkgsEvent driverObjs interfaceName UPDATE_DATABASE_FAILED
       else ReportPkgsEvent driverObjs interfaceName EV_SUCCESS)"

section \<open>Measurements\<close>

text \<open>\<open>g_errorVector\<close>; its last element lies behind the boundary.\<close>

definition ERROR_CODE_BOUNDARY :: nat where "ERROR_CODE_BOUNDARY = 8"

definition g_errorVector :: "int list" where
  "g_errorVector = [0, 201, 202, 401, 22900001, 26300001, 26300002, 26300003, 99999999]"

text \<open>\<open>startTime_\<close> is a number of seconds and of microseconds.\<close>

record api_metrics =
  am_metricsName :: string
  am_startTime :: "int \<times> int"
  am_errorCode :: int

definition ExtDevApiMetrics :: "string \<Rightarrow> int \<times> int \<Rightarrow> api_metrics" where
  "ExtDevApiMetrics name now = \<lparr>am_metricsName = name, am_startTime = now, am_errorCode = 0\<rparr>"

definition SetErrorCode :: "int \<Rightarrow> api_metrics \<Rightarrow> api_metrics" where
  "SetErrorCode err m =
     m\<lparr>am_errorCode := int (find_index (\<lambda>x. err = x) (take ERROR_CODE_BOUNDARY g_errorVector))\<rparr>"

datatype histogram =
    HISTOGRAM_BOOLEAN string int
  | HISTOGRAM_TIMES string int
  | HISTOGRAM_ENUMERATION string int int

text \<open>The destructor, in the build with the metrics; the division of C++ rounds towards zero.\<close>

definition metrics_destroyed :: "int \<times> int \<Rightarrow> api_metrics \<Rightarrow> histogram list" where
  "metrics_destroyed endTime m =
     (let usec = snd endTime - snd (am_startTime m);
          runTime = to_i32 ((fst endTime - fst (am_startTime m)) * 1000 + sgn usec * (\<bar>usec\<bar> div 1000))
      in [HISTOGRAM_BOOLEAN (am_metricsName m @ ''.Boolean'') (if am_errorCode m = 0 then 1 else 0),
          HISTOGRAM_TIMES (am_metricsName m @ ''.Time'') runTime,
          HISTOGRAM_ENUMERATION (am_metricsName m @ ''.Enum'') (am_errorCode m) (int ERROR_CODE_BOUNDARY)])"

section \<open>Facts\<close>

text \<open>Every code has a message of its own, and no two codes have the same number.\<close>

lemma event_code_inject: "event_code a = event_code b \<longleftrightarrow> a = b"
  by (cases a; cases b; simp)

lemma message_of_code: "\<exists>msg. map_of ErrMsgs c = Some msg \<and> (\<forall>c'. map_of ErrMsgs c' = Some msg \<longrightarrow> c' = c)"
proof -
  have "distinct (map snd ErrMsgs)" by (simp add: ErrMsgs_def)
  moreover obtain msg where "map_of ErrMsgs c = Some msg" by (cases c) (auto simp: ErrMsgs_def)
  ultimately show ?thesis
    by (metis (no_types, lifting) distinct_map in_set_conv_nth map_of_SomeD nth_eq_iff_index_eq snd_conv
        inj_on_def prod.inject)
qed

lemma Report_fields [simp]:
  "ev_errCode (snd (ReportExternalDeviceEvent e c)) = event_code c"
  "ev_driverUid (snd (ReportExternalDeviceEvent e c)) = ev_driverUid e"
  "ev_snNum (fst (ReportExternalDeviceEvent e c)) = ev_snNum e"
  by (simp_all add: ReportExternalDeviceEvent_def WriteEvent_def Let_def split: option.split)

text \<open>A record shows at most the last five characters of a serial number, and none of a short one.\<close>

theorem serial_number_is_cut:
  "length (ev_snNum (snd (ReportExternalDeviceEvent e c))) \<le> 5
   \<and> (\<exists>hidden. ev_snNum e = hidden @ ev_snNum (snd (ReportExternalDeviceEvent e c))
        \<and> (ev_snNum e \<noteq> [] \<longrightarrow> hidden \<noteq> []))"
proof -
  have "ev_snNum (snd (ReportExternalDeviceEvent e c))
      = (if length (ev_snNum e) > 5 then drop (length (ev_snNum e) - 5) (ev_snNum e) else [])"
    by (simp add: ReportExternalDeviceEvent_def WriteEvent_def Let_def split: option.split)
  then show ?thesis
    by (cases "length (ev_snNum e) > 5")
       (auto intro!: exI [of _ "take (length (ev_snNum e) - 5) (ev_snNum e)"])
qed

text \<open>
  the list of identifiers that a record shows separates them by commas, but ends in one as soon
  as there are two: the iterator that should find the last element stays on the first.
\<close>

theorem id_list_ends_in_comma:
  "ParseIdVector [] = [] \<and> ParseIdVector [i] = show_nat (unat i)
   \<and> (2 \<le> length ids \<longrightarrow> ParseIdVector ids = concat (map (\<lambda>i. show_nat (unat i) @ '','') ids)
        \<and> last (ParseIdVector ids) = CHR '','')"
proof -
  have "ParseIdVector ids = concat (map (\<lambda>i. show_nat (unat i) @ '','') ids)" if "2 \<le> length ids"
    using that by (simp add: ParseIdVector_def)
  moreover have "last (concat (map (\<lambda>i. show_nat (unat i) @ '','') ids)) = CHR '',''" if "2 \<le> length ids"
    using that by (cases ids rule: rev_cases) simp_all
  ultimately show ?thesis by (simp add: ParseIdVector_def)
qed

text \<open>A measurement is filed under one of nine values, 0 exactly for success; unknown errors share the last.\<close>

theorem error_code_filed:
  "(am_errorCode (SetErrorCode err m) = 0 \<longleftrightarrow> err = 0)
   \<and> 0 \<le> am_errorCode (SetErrorCode err m) \<and> am_errorCode (SetErrorCode err m) \<le> 8
   \<and> (err \<notin> set (take 8 g_errorVector) \<longleftrightarrow> am_errorCode (SetErrorCode err m) = 8)"
  by (simp add: SetErrorCode_def g_errorVector_def ERROR_CODE_BOUNDARY_def)

section \<open>A refresh is reported\<close>

lemma extension_is_usb:
  assumes "GetBusExtensionByName lower core busName = Some x"
  shows "GetBusTypeByName lower busName = BUS_TYPE_USB"
  using assms
  by (auto simp: GetBusExtensionByName_def GetBusTypeByName_def busTypeMap_def Let_def split: if_splits)

lemma ChangeEntry_bus:
  "dr_busType d = GetBusTypeByName lower (dr_bus d) \<Longrightarrow>
   dr_busType (ChangeEntry lower e d) = GetBusTypeByName lower (dr_bus (ChangeEntry lower e d))"
  by (auto simp: ChangeEntry_def Let_def split: prod.split)

lemma ChangeValue_bus:
  "dr_busType d = GetBusTypeByName lower (dr_bus d) \<Longrightarrow>
   dr_busType (ChangeValue lower metadata d) = GetBusTypeByName lower (dr_bus (ChangeValue lower metadata d))"
  unfolding ChangeValue_def by (induction metadata arbitrary: d) (auto intro: ChangeEntry_bus)

text \<open>Every driver that is stored is a USB driver with identifiers, and its record has its name.\<close>

definition drivers_of_records :: "pkg_info list \<Rightarrow> driver_info list \<Rightarrow> bool" where
  "drivers_of_records ps ds \<longleftrightarrow>
     list_all2 (\<lambda>p d. dr_driverUid d = pk_driverUid p \<and> dr_busType d = BUS_TYPE_USB \<and> dr_ext d \<noteq> None) ps ds"

lemma drivers_of_records_snoc [simp]:
  "drivers_of_records ps ds \<Longrightarrow> drivers_of_records (ps @ [p]) (ds @ [d]) \<longleftrightarrow>
     dr_driverUid d = pk_driverUid p \<and> dr_busType d = BUS_TYPE_USB \<and> dr_ext d \<noteq> None"
  by (auto simp: drivers_of_records_def list_all2_append list_all2_lengthD intro!: list_all2_appendI)

lemma ParseAbilities_lists:
  assumes "pe_lower E [] = []"
  shows "ParseAbilities E as sizes ps ds m = Inr (ps', ds', m') \<Longrightarrow> drivers_of_records ps ds
    \<Longrightarrow> drivers_of_records ps' ds'"
proof (induction as arbitrary: sizes ps ds m)
  case Nil
  then show ?case by simp
next
  case (Cons a as)
  let ?d = "ChangeValue (pe_lower E) (meta_map (xa_metadata a)) (new_driver_info (xa_bundleName a) (xa_name a) [] (- 1))"
  have "GetBusTypeByName (pe_lower E) [] = 0"
    using assms by (simp add: GetBusTypeByName_def busTypeMap_def)
  then have b: "dr_busType ?d = GetBusTypeByName (pe_lower E) (dr_bus ?d)"
    by (intro ChangeValue_bus) (simp add: new_driver_info_def)
  have usb: "dr_busType ?d = BUS_TYPE_USB"
    if "GetBusExtensionByName (pe_lower E) (pe_core E) (dr_bus ?d) = Some x" for x
    using extension_is_usb [OF that] b by simp
  show ?case
    using Cons.prems usb
    by (auto simp: Let_def bindE_eq_Inr dest!: Cons.IH split: if_splits option.splits prod.splits)
qed

lemma ReportDrivers_records:
  "drivers_of_records ps ds \<Longrightarrow> \<exists>evs. ReportDrivers c ds e = Inr evs
     \<and> map ev_driverUid evs = map pk_driverUid ps \<and> (\<forall>ev \<in> set evs. ev_errCode ev = event_code c)"
  unfolding drivers_of_records_def
proof (induction ps ds arbitrary: e rule: list_all2_induct)
  case Nil
  then show ?case by simp
next
  case (Cons p ps d ds)
  obtain ids where ids: "dr_ext d = Some ids" using Cons.hyps by auto
  obtain e1 where e1: "ParseDriverToEvent (Some d) e = Inr e1" "ev_driverUid e1 = pk_driverUid p"
    using Cons.hyps ids by (simp add: ParseDriverToEvent_def)
  obtain e2 w where r: "ReportExternalDeviceEvent e1 c = (e2, w)" by (cases "ReportExternalDeviceEvent e1 c")
  then have w: "ev_errCode w = event_code c" "ev_driverUid w = pk_driverUid p"
    using Report_fields [of e1 c] e1(2) by auto
  obtain evs where "ReportDrivers c ds e2 = Inr evs" "map ev_driverUid evs = map pk_driverUid ps"
    "\<forall>ev \<in> set evs. ev_errCode ev = event_code c"
    using Cons.IH by blast
  then show ?case using e1(1) r w by simp
qed

text \<open>
  C17: a refresh of the driver packages writes one record for each driver it stores, in their
  order and under the identifier each is stored with, and every record says whether the database
  took them: 0 when UpdateToRdb returns true and 30002 when it returns false. Reading the driver
  for the record never follows a null pointer.
\<close>

theorem refresh_is_reported:
  assumes "pe_lower E [] = []"
    and "ParseToPkgInfoTables E driverInfos m = Inr (tables, drivers, m1)"
    and "UpdateToRdb E driverInfos bundleName m = Inr (ok, m2)"
  shows "\<exists>evs. UpdateToRdb_events E driverInfos bundleName name m = Inr evs
    \<and> map ev_driverUid evs = map pk_driverUid tables
    \<and> (\<forall>ev \<in> set evs. ev_errCode ev = (if ok then 0 else 30002))"
proof -
  have "drivers_of_records tables drivers"
    using ParseAbilities_lists [OF assms(1)] assms(2)
    by (auto simp: ParseToPkgInfoTables_def drivers_of_records_def)
  note r = ReportDrivers_records [OF this]
  show ?thesis
    using assms(2,3) r [of EV_SUCCESS] r [of UPDATE_DATABASE_FAILED]
    by (auto simp: UpdateToRdb_def UpdateToRdb_events_def ReportPkgsEvent_def split: if_splits prod.splits)
qed

text \<open>The package of Pkg_Mgr_Claims, installed into a database that takes it.\<close>

lemma installation_run:
  "(case ParseToPkgInfoTables an_env [an_ability] ready_mgr of
      Inr (tables, _) \<Rightarrow> map pk_driverUid tables = [''Ext-0''] | _ \<Rightarrow> False)"
  "(case UpdateToRdb an_env [an_ability] ''app'' ready_mgr of Inr (ok, _) \<Rightarrow> ok | _ \<Rightarrow> False)"
  by code_simp+

theorem refresh_is_reported_witness:
  "\<exists>evs. UpdateToRdb_events an_env [an_ability] ''app'' ''OnBundleAdded'' ready_mgr = Inr evs
     \<and> map ev_driverUid evs = [''Ext-0''] \<and> (\<forall>ev \<in> set evs. ev_errCode ev = 0)"
proof -
  obtain tables drivers m1 where t: "ParseToPkgInfoTables an_env [an_ability] ready_mgr = Inr (tables, drivers, m1)"
    "map pk_driverUid tables = [''Ext-0'']"
    using installation_run(1) by (auto split: sum.splits prod.splits)
  obtain m2 where u: "UpdateToRdb an_env [an_ability] ''app'' ready_mgr = Inr (True, m2)"
    using installation_run(2) by (auto split: sum.splits prod.splits)
  have "pe_lower an_env [] = []" by (simp add: an_env_def ascii_lower_def)
  from refresh_is_reported [OF this t(1) u, of "''OnBundleAdded''"] show ?thesis using t(2) by simp
qed

end
