(* ===== verification/Faults.thy ===== *)
theory Faults
  imports Bus_Core
begin

text \<open>
  Faults of peripherals: event_config.cpp (which faults are configured), the notification texts
  of device_notification/notification_locale.cpp and the notification itself,
  device_notification/notification_peripheral.cpp.

  The file system is the argument \<open>fs\<close>: the content of the files that can be accessed. The
  notification service and the image library are parameters of the operations that use them.
\<close>

type_synonym files = "string \<Rightarrow> string option"

section \<open>The configured faults\<close>

record fault_info =
  fi_faultName :: string
  fi_type :: string
  fi_title :: string
  fi_msg :: string
  fi_uri :: string

type_synonym faults_map = "(string \<times> fault_info list) list"

definition no_fault_info :: fault_info where
  "no_fault_info = \<lparr>fi_faultName = [], fi_type = [], fi_title = [], fi_msg = [], fi_uri = []\<rparr>"

definition GetFaultsInfoByDomain :: "string \<Rightarrow> faults_map \<Rightarrow> fault_info list" where
  "GetFaultsInfoByDomain domain m = (case map_of m domain of None \<Rightarrow> [] | Some faults \<Rightarrow> faults)"

text \<open>A member that is a non-empty text.\<close>

definition text_member :: "'j cjson \<Rightarrow> 'j \<Rightarrow> string \<Rightarrow> string option" where
  "text_member J item key =
     (case cj_get_exact J item key of None \<Rightarrow> None
      | Some x \<Rightarrow> if cj_type J x = JString \<and> cj_valuestring J x \<noteq> [] then Some (cj_valuestring J x) else None)"

definition ExtractFaultInfo :: "'j cjson \<Rightarrow> 'j \<Rightarrow> fault_info" where
  "ExtractFaultInfo J faultItem =
     (let f = no_fault_info;
          f = (case text_member J faultItem ''faultName'' of None \<Rightarrow> f | Some s \<Rightarrow> f\<lparr>fi_faultName := s\<rparr>);
          f = (case text_member J faultItem ''type'' of None \<Rightarrow> f | Some s \<Rightarrow> f\<lparr>fi_type := s\<rparr>);
          f = (case text_member J faultItem ''title'' of None \<Rightarrow> f | Some s \<Rightarrow> f\<lparr>fi_title := s\<rparr>);
          f = (case text_member J faultItem ''msg'' of None \<Rightarrow> f | Some s \<Rightarrow> f\<lparr>fi_msg := s\<rparr>);
          f = (case text_member J faultItem ''uri'' of None \<Rightarrow> f | Some s \<Rightarrow> f\<lparr>fi_uri := s\<rparr>) in f)"

text \<open>\<open>cJSON_ArrayForEach\<close>.\<close>

definition elements :: "'j cjson \<Rightarrow> 'j \<Rightarrow> 'j list" where
  "elements J a = List.map_filter (cj_nth J a) [0 ..< cj_size J a]"

text \<open>The loop over the domains; what has been entered stays when a later one is invalid.\<close>

fun ParseDomains :: "'j cjson \<Rightarrow> 'j list \<Rightarrow> faults_map \<Rightarrow> bool \<times> faults_map" where
  "ParseDomains J [] m = (True, m)"
| "ParseDomains J (item # items) m =
     (case text_member J item ''domain'' of None \<Rightarrow> (False, m)
      | Some domain \<Rightarrow>
          (case cj_get_exact J item ''fault'' of None \<Rightarrow> (False, m)
           | Some faultArray \<Rightarrow>
               if cj_type J faultArray \<noteq> JArray then (False, m)
               else ParseDomains J items (al_put domain (map (ExtractFaultInfo J) (elements J faultArray)) m)))"

definition ParseFaultsFile :: "'j cjson \<Rightarrow> files \<Rightarrow> string \<Rightarrow> faults_map \<Rightarrow> bool \<times> faults_map" where
  "ParseFaultsFile J fs targetPath m =
     (case fs targetPath of None \<Rightarrow> (False, m)
      | Some content \<Rightarrow>
          (case cj_parse J (c_str content) of None \<Rightarrow> (False, m)
           | Some root \<Rightarrow> if cj_type J root \<noteq> JArray then (False, m) else ParseDomains J (elements J root) m))"

definition MatchFaults :: "fault_info list \<Rightarrow> fault_info list \<Rightarrow> fault_info list" where
  "MatchFaults ccmFaults localFaults =
     List.map_filter (\<lambda>c. List.find (\<lambda>l. fi_faultName l = fi_faultName c) localFaults) ccmFaults"

text \<open>The loop over the domains of the first map: \<open>resMap\<close> so far and \<open>tempMap\<close>, what is left of the second.\<close>

fun FillDomains :: "faults_map \<Rightarrow> faults_map \<Rightarrow> faults_map \<Rightarrow> faults_map" where
  "FillDomains [] resMap tempMap = resMap"
| "FillDomains ((domain, ccmFaults) # ccmMap) resMap tempMap =
     (case map_of tempMap domain of None \<Rightarrow> FillDomains ccmMap resMap tempMap
      | Some localFaults \<Rightarrow>
          let matchedFaults = MatchFaults ccmFaults localFaults in
          FillDomains ccmMap (if matchedFaults \<noteq> [] then al_put domain matchedFaults resMap else resMap)
            (al_del domain tempMap))"

definition FillFaultsMap :: "faults_map \<Rightarrow> faults_map \<Rightarrow> faults_map" where
  "FillFaultsMap ccmMap localMap = FillDomains ccmMap [] localMap"

definition SYSTEM_FAULT_CONFIG_PATH :: string where
  "SYSTEM_FAULT_CONFIG_PATH = ''/system/etc/peripheral/peripheral_fault_notifier_config.json''"

definition SYS_PROD_FAULT_CONFIG_PATH :: string where
  "SYS_PROD_FAULT_CONFIG_PATH = ''/sys_prod/etc/peripheral/peripheral_fault_notifier_config.json''"

text \<open>The result and the new contents of \<open>peripheralFaultsMap_\<close>.\<close>

definition EventConfig_ParseJsonFile :: "'j cjson \<Rightarrow> files \<Rightarrow> bool \<times> faults_map" where
  "EventConfig_ParseJsonFile J fs =
     (case ParseFaultsFile J fs SYS_PROD_FAULT_CONFIG_PATH [] of (bRet, ccmMap) \<Rightarrow>
      if \<not> bRet \<or> length ccmMap = 0 then (False, [])
      else case ParseFaultsFile J fs SYSTEM_FAULT_CONFIG_PATH [] of (bRet, localMap) \<Rightarrow>
      if \<not> bRet \<or> length localMap = 0 then (False, [])
      else
        let m = FillFaultsMap ccmMap localMap in
        if m = [] then (False, m) else (True, m))"

definition GetFaultInfo :: "string \<Rightarrow> string \<Rightarrow> faults_map \<Rightarrow> fault_info" where
  "GetFaultInfo domain faultName m =
     (case map_of m domain of None \<Rightarrow> no_fault_info
      | Some faults \<Rightarrow>
          (case List.find (\<lambda>f. fi_faultName f = faultName) faults of None \<Rightarrow> no_fault_info | Some f \<Rightarrow> f))"

section \<open>Texts in the language of the system\<close>

text \<open>\<open>find_first_of\<close> over the forbidden characters.\<close>

definition IsPathValid :: "string \<Rightarrow> bool" where
  "IsPathValid path \<longleftrightarrow>
     str_find ''..'' path = None
     \<and> \<not> (path \<noteq> [] \<and> (hd path = CHR ''/'' \<or> hd path = CHR 0x5C))
     \<and> list_all (\<lambda>c. c \<notin> {CHR 0x5C, CHR '':'', CHR ''*'', CHR ''?'', CHR 0x22, CHR ''<'', CHR ''>'', CHR ''|''}) path"

record locale_state =
  lc_languageMap :: "(string \<times> string) list"
  lc_stringMap :: "(string \<times> string) list"
  lc_localeBaseName :: string
  lc_islanguageMapInit :: bool

text \<open>\<open>insert\<close> keeps an entry that is there.\<close>

definition al_insert :: "'k \<Rightarrow> 'v \<Rightarrow> ('k \<times> 'v) list \<Rightarrow> ('k \<times> 'v) list" where
  "al_insert k x m = (if map_of m k = None then al_put k x m else m)"

definition InsertText :: "'j cjson \<Rightarrow> 'j \<Rightarrow> (string \<times> string) list \<Rightarrow> (string \<times> string) list" where
  "InsertText J conf container =
     (case (text_member J conf ''name'', text_member J conf ''value'') of
        (Some name, Some val) \<Rightarrow> al_insert name val container
      | _ \<Rightarrow> container)"

definition ParseTextsFile ::
  "'j cjson \<Rightarrow> files \<Rightarrow> string \<Rightarrow> (string \<times> string) list \<Rightarrow> bool \<times> (string \<times> string) list" where
  "ParseTextsFile J fs targetPath container =
     (case fs targetPath of None \<Rightarrow> (False, container)
      | Some fileStr \<Rightarrow>
          (case cj_parse J (c_str fileStr) of None \<Rightarrow> (False, container)
           | Some root \<Rightarrow>
               if cj_type J root \<noteq> JObject then (False, container)
               else case cj_get_exact J root ''string'' of None \<Rightarrow> (False, container)
               | Some stringConf \<Rightarrow>
                   if cj_type J stringConf \<noteq> JArray then (False, container)
                   else (True, fold (InsertText J) (elements J stringConf) container)))"

definition LOCALE_CONFIG_PATH :: string where
  "LOCALE_CONFIG_PATH = ''/system/etc/peripheral/resources/locale_path.json''"

definition SYSTEM_PERIPHERAL_RESOURCE_PATH :: string where
  "SYSTEM_PERIPHERAL_RESOURCE_PATH = ''/system/etc/peripheral/resources/''"

definition ParseLocaleCfg :: "'j cjson \<Rightarrow> files \<Rightarrow> locale_state \<Rightarrow> locale_state" where
  "ParseLocaleCfg J fs st =
     (if lc_islanguageMapInit st then st
      else case ParseTextsFile J fs LOCALE_CONFIG_PATH [] of (ok, m) \<Rightarrow>
        let st = st\<lparr>lc_languageMap := m\<rparr> in
        if ok then st\<lparr>lc_islanguageMapInit := True\<rparr> else st)"

definition resource_path :: "string \<Rightarrow> string" where
  "resource_path language = SYSTEM_PERIPHERAL_RESOURCE_PATH @ language @ ''/element/string.json''"

text \<open>\<open>curBaseName\<close> is the base name of the locale of the system.\<close>

definition UpdateStringMap :: "'j cjson \<Rightarrow> files \<Rightarrow> string \<Rightarrow> locale_state \<Rightarrow> locale_state" where
  "UpdateStringMap J fs curBaseName st =
     (if lc_localeBaseName st = curBaseName then st
      else
        let st = st\<lparr>lc_localeBaseName := curBaseName\<rparr>;
            language = (case map_of (lc_languageMap st) curBaseName of None \<Rightarrow> ''base'' | Some l \<Rightarrow> l);
            language = (if \<not> IsPathValid language then ''base'' else language);
            st = st\<lparr>lc_stringMap := []\<rparr>;
            resourcePath = resource_path language in
        if str_find ''/../'' resourcePath \<noteq> None then st
        else st\<lparr>lc_stringMap := snd (ParseTextsFile J fs resourcePath (lc_stringMap st))\<rparr>)"

definition GetValueByKey :: "string \<Rightarrow> locale_state \<Rightarrow> string" where
  "GetValueByKey key st = (case map_of (lc_stringMap st) key of None \<Rightarrow> [] | Some s \<Rightarrow> s)"

section \<open>The notification\<close>

definition FillNotificationCfg :: "fault_info \<Rightarrow> locale_state \<Rightarrow> fault_info" where
  "FillNotificationCfg faultInfo st =
     faultInfo\<lparr>fi_title := GetValueByKey (fi_title faultInfo) st, fi_msg := GetValueByKey (fi_msg faultInfo) st\<rparr>"

text \<open>
  \<open>icon\<close>: the file of the icon exists and an image source can be made of it. The result, and the
  title, text and address that are published.
\<close>

definition PeripheralDeviceNotification :: "bool \<Rightarrow> fault_info \<Rightarrow> bool \<times> (string \<times> string \<times> string) option" where
  "PeripheralDeviceNotification icon faultInfo =
     (if \<not> icon then (False, None)
      else (True, Some (fi_title faultInfo, fi_msg faultInfo, fi_uri faultInfo)))"

definition HandleNotification ::
  "'j cjson \<Rightarrow> files \<Rightarrow> string \<Rightarrow> bool \<Rightarrow> fault_info \<Rightarrow> locale_state \<Rightarrow>
   bool \<times> (string \<times> string \<times> string) option \<times> locale_state" where
  "HandleNotification J fs curBaseName icon faultInfo st =
     (let st = UpdateStringMap J fs curBaseName (ParseLocaleCfg J fs st);
          notifCfg = FillNotificationCfg faultInfo st in
      if fi_title notifCfg = [] \<or> fi_msg notifCfg = [] then (False, None, st)
      else case PeripheralDeviceNotification icon notifCfg of (ok, sent) \<Rightarrow> (ok, sent, st))"

end
