(* ===== verification/Service.thy ===== *)
theory Service
  imports Device_Mgr Pkg_Mgr Faults Ipc_Types
begin

text \<open>
  The service that clients call: driver_ext_mgr.cpp, and the checks of the caller in
  ext_permission_manager.cpp. It owns the components: its state holds theirs.

  The caller of an operation is the argument \<open>C\<close>, what the token services say of it. Every
  operation writes a result into \<open>errorCode\<close> and returns a second code of the transport; the
  model returns the pair.
\<close>

section \<open>The caller\<close>

record ipc_caller =
  cl_token :: u32
  cl_granted :: "string \<Rightarrow> bool"
  cl_systemApp :: bool
  cl_native :: bool
  cl_reqPermission :: "string \<Rightarrow> int \<times> string"

definition Trim :: "string \<Rightarrow> string" where
  "Trim str = rev (dropWhile is_space (rev (dropWhile is_space str)))"

definition VerifyPermission :: "ipc_caller \<Rightarrow> string \<Rightarrow> bool" where
  "VerifyPermission C permissionName \<longleftrightarrow> cl_granted C permissionName"

definition IsSystemAppOrSa :: "ipc_caller \<Rightarrow> bool" where
  "IsSystemAppOrSa C \<longleftrightarrow> (if cl_systemApp C then True else if cl_native C then True else False)"

definition GetPermissionValues :: "'j cjson \<Rightarrow> ipc_caller \<Rightarrow> string \<Rightarrow> bool \<times> string list" where
  "GetPermissionValues J C permissionName =
     (case cl_reqPermission C permissionName of (ret, appIds) \<Rightarrow>
      if ret \<noteq> 0 \<or> appIds = [] then (False, [])
      else case cj_parse J (c_str appIds) of None \<Rightarrow> (False, [])
      | Some jsonObj \<Rightarrow>
          (case cj_get J jsonObj ''appIds'' of None \<Rightarrow> (False, [])
           | Some jsonItem \<Rightarrow>
               if cj_type J jsonItem \<noteq> JString then (False, [])
               else
                 let permissionValues =
                   fold (\<lambda>appId. set_put (Trim appId)) (comma_lines (cj_valuestring J jsonItem)) [] in
                 (permissionValues \<noteq> [], permissionValues)))"

section \<open>State\<close>

datatype sa_id = SA_ACCOUNT | SA_BUNDLE_MGR | SA_COMMON_EVENT | SA_OTHER int

record 's service =
  sv_dm :: dm_state
  sv_pkg :: "'s pkg_mgr"
  sv_core :: "usb_bus_extension bus_core"
  sv_faults :: faults_map
  sv_locale :: locale_state
  sv_accountPromiseUsed :: bool
  sv_bmsPromiseUsed :: bool
  sv_cesPromiseUsed :: bool
  sv_promises :: "sa_id list"

definition ACCESS_EXTENSIONAL :: string where
  "ACCESS_EXTENSIONAL = ''ohos.permission.ACCESS_EXTENSIONAL_DEVICE_DRIVER''"

definition ACCESS_DDK_DRIVERS :: string where
  "ACCESS_DDK_DRIVERS = ''ohos.permission.ACCESS_DDK_DRIVERS''"

section \<open>Start\<close>

definition ExtDeviceManager_Init :: "'s pkg_mgr \<Rightarrow> UsbErrCode \<times> 's pkg_mgr" where
  "ExtDeviceManager_Init m =
     (case RegisterBundleCallback True m of (ret, m) \<Rightarrow> if ret \<noteq> EDM_OK then (EDM_NOK, m) else (EDM_OK, m))"

text \<open>
  The loading of the bus extension libraries is the argument \<open>load\<close>, \<open>publish\<close> is the answer of
  the ability manager. No failure of a component stops the start.
\<close>

definition OnStart ::
  "('j, 's) pkg_env \<Rightarrow> usb_services \<Rightarrow> files \<Rightarrow> (usb_bus_extension bus_core \<Rightarrow> usb_bus_extension bus_core) \<Rightarrow> bool
   \<Rightarrow> 's service \<Rightarrow> 's service res" where
  "OnStart P S fs load publish sv =
     (case AcquireDriverChangeCallback (UsbAcquireDriverChangeCallback S) BUS_TYPE_USB (load (sv_core sv)) of (cb, core) \<Rightarrow>
      let dm = SetDriverChangeCallback cb (sv_dm sv);
          (ret, pkg) = PkgMgrInitAsync (sv_pkg sv);
          (ret, pkg) = ExtDeviceManager_Init pkg in
      bindE (Init (\<lambda>u. case UsbSetDevChangeCallback S u of (r, _, u) \<Rightarrow> (r, u)) core) (\<lambda>(ret, core).
        let sv = sv\<lparr>sv_dm := dm, sv_pkg := pkg, sv_core := core\<rparr> in
        if \<not> publish then Inr sv
        else case EventConfig_ParseJsonFile (pe_json P) fs of (ok, m) \<Rightarrow> Inr (sv\<lparr>sv_faults := m\<rparr>)))"

text \<open>The promises that start the pending threads; setting one a second time would throw.\<close>

definition OnAddSystemAbility :: "('j, 's) pkg_env \<Rightarrow> sa_id \<Rightarrow> 's service \<Rightarrow> 's service" where
  "OnAddSystemAbility P systemAbilityId sv =
     (case systemAbilityId of
        SA_ACCOUNT \<Rightarrow>
          if \<not> sv_accountPromiseUsed sv then
            (case SubscribeOsAccountSwitch P (sv_pkg sv) of (_, pkg) \<Rightarrow>
               sv\<lparr>sv_pkg := pkg, sv_promises := sv_promises sv @ [SA_ACCOUNT], sv_accountPromiseUsed := True\<rparr>)
          else sv
      | SA_BUNDLE_MGR \<Rightarrow>
          if \<not> sv_bmsPromiseUsed sv
          then sv\<lparr>sv_promises := sv_promises sv @ [SA_BUNDLE_MGR], sv_bmsPromiseUsed := True\<rparr>
          else sv
      | SA_COMMON_EVENT \<Rightarrow>
          (case RegisterBundleStatusCallback P (sv_pkg sv) of (_, pkg) \<Rightarrow>
           let sv = sv\<lparr>sv_pkg := pkg\<rparr> in
           if \<not> sv_cesPromiseUsed sv
           then sv\<lparr>sv_promises := sv_promises sv @ [SA_COMMON_EVENT], sv_cesPromiseUsed := True\<rparr>
           else sv)
      | SA_OTHER _ \<Rightarrow> sv)"

section \<open>Queries\<close>

text \<open>A device of the USB bus is cast to \<open>UsbDeviceInfo\<close> without a check.\<close>

fun ToDeviceDatas :: "device_info list \<Rightarrow> device_data list \<Rightarrow> device_data list res" where
  "ToDeviceDatas [] devices = Inr devices"
| "ToDeviceDatas (i # is) devices =
     (if di_busType i = BUS_TYPE_USB then
        (case di_usb i of None \<Rightarrow> Inl Bad_cast
         | Some u \<Rightarrow>
             ToDeviceDatas is
               (devices @ [\<lparr>dd_busType = di_busType i, dd_deviceId = GetDeviceId i, dd_descripton = di_description i,
                  dd_usb = Some (uf_idProduct u, uf_idVendor u)\<rparr>]))
      else ToDeviceDatas is devices)"

definition DriverExtMgr_QueryDevice ::
  "ipc_caller \<Rightarrow> u32 \<Rightarrow> 's service \<Rightarrow> (UsbErrCode \<times> UsbErrCode \<times> device_data list) res" where
  "DriverExtMgr_QueryDevice C busType sv =
     (if \<not> VerifyPermission C ACCESS_EXTENSIONAL then Inr (EDM_OK, EDM_ERR_NO_PERM, [])
      else if busType = BUS_TYPE_INVALID then Inr (EDM_OK, EDM_ERR_INVALID_PARAM, [])
      else bindE (ToDeviceDatas (QueryDevice busType (sv_dm sv)) []) (\<lambda>devices. Inr (EDM_OK, EDM_OK, devices)))"

definition ParseToDeviceInfoData :: "device \<Rightarrow> device_info_data option res" where
  "ParseToDeviceInfoData d =
     (let i = dv_info d;
          busType = di_busType i in
      if busType \<le> BUS_TYPE_INVALID \<or> busType \<ge> BUS_TYPE_MAX then Inr None
      else if busType = BUS_TYPE_USB then
        (case di_usb i of None \<Rightarrow> Inl Bad_cast
         | Some u \<Rightarrow>
             let x = \<lparr>ux_productId = uf_idProduct u, ux_vendorId = uf_idVendor u,
                      ux_interfaceDescList =
                        map (\<lambda>desc. Some \<lparr>ui_bInterfaceNumber = id_bInterfaceNumber desc, ui_bClass = id_bInterfaceClass desc,
                               ui_bSubClass = id_bInterfaceSubClass desc, ui_bProtocol = id_bInterfaceProtocol desc\<rparr>)
                          (uf_interfaceDescList u)\<rparr>;
                 matched = HasDriver d in
             Inr (Some \<lparr>dx_deviceId = GetDeviceId i, dx_isDriverMatched = matched,
                        dx_driverUid = (if matched then GetDriverUid d else []), dx_usb = Some x\<rparr>))
      else Inr None)"

fun ParseDevices :: "device list \<Rightarrow> device_info_data list \<Rightarrow> device_info_data list res" where
  "ParseDevices [] xs = Inr xs"
| "ParseDevices (d # ds) xs =
     bindE (ParseToDeviceInfoData d) (\<lambda>x. ParseDevices ds (case x of None \<Rightarrow> xs | Some x \<Rightarrow> xs @ [x]))"

definition DriverExtMgr_QueryDeviceInfo ::
  "ipc_caller \<Rightarrow> bool \<Rightarrow> u64 \<Rightarrow> 's service \<Rightarrow> (UsbErrCode \<times> UsbErrCode \<times> device_info_data list) res" where
  "DriverExtMgr_QueryDeviceInfo C isByDeviceId deviceId sv =
     (if \<not> IsSystemAppOrSa C then Inr (EDM_OK, EDM_ERR_NOT_SYSTEM_APP, [])
      else if \<not> VerifyPermission C ACCESS_EXTENSIONAL then Inr (EDM_OK, EDM_ERR_NO_PERM, [])
      else
        let devices = (if isByDeviceId then QueryDevicesById deviceId (sv_dm sv) else QueryAllDevices (sv_dm sv)) in
        bindE (ParseDevices devices []) (\<lambda>xs. Inr (EDM_OK, EDM_OK, xs)))"

text \<open>The extension of a driver of the USB bus is a \<open>UsbDriverInfo\<close>, the only kind there is.\<close>

definition ParseToDriverInfoData :: "driver_info \<Rightarrow> driver_info_data option" where
  "ParseToDriverInfoData d =
     (case dr_ext d of None \<Rightarrow> None
      | Some ids \<Rightarrow>
          let busType = dr_busType d in
          if busType \<le> BUS_TYPE_INVALID \<or> busType \<ge> BUS_TYPE_MAX then None
          else if busType = BUS_TYPE_USB then
            Some \<lparr>rx_busType = busType, rx_driverUid = dr_driverUid d, rx_driverName = dr_driverName d,
                  rx_bundleSize = dr_driverSize d, rx_version = dr_version d, rx_description = dr_description d,
                  rx_usb = Some (ud_pids ids, ud_vids ids)\<rparr>
          else None)"

definition DriverExtMgr_QueryDriverInfo ::
  "('j, 's) pkg_env \<Rightarrow> ipc_caller \<Rightarrow> bool \<Rightarrow> string \<Rightarrow> 's service
   \<Rightarrow> (UsbErrCode \<times> UsbErrCode \<times> driver_info_data list \<times> 's service) res" where
  "DriverExtMgr_QueryDriverInfo P C isByDriverUid driverUid sv =
     (if \<not> IsSystemAppOrSa C then Inr (EDM_OK, EDM_ERR_NOT_SYSTEM_APP, [], sv)
      else if \<not> VerifyPermission C ACCESS_EXTENSIONAL then Inr (EDM_OK, EDM_ERR_NO_PERM, [], sv)
      else
        bindE (QueryDriverInfo P isByDriverUid driverUid (sv_pkg sv)) (\<lambda>(ret, ds, pkg).
          let sv = sv\<lparr>sv_pkg := pkg\<rparr> in
          if ret \<noteq> EDM_OK then Inr (EDM_OK, ret, [], sv)
          else Inr (EDM_OK, EDM_OK, List.map_filter ParseToDriverInfoData ds, sv)))"

section \<open>Binding\<close>

definition DriverExtMgr_BindDevice ::
  "env \<Rightarrow> ipc_caller \<Rightarrow> u64 \<Rightarrow> nat option \<Rightarrow> 's service \<Rightarrow> (UsbErrCode \<times> UsbErrCode \<times> 's service) res" where
  "DriverExtMgr_BindDevice E C deviceId connectCallback sv =
     (if \<not> VerifyPermission C ACCESS_EXTENSIONAL then Inr (EDM_OK, EDM_ERR_NO_PERM, sv)
      else
        bindE (ConnectDevice E deviceId (cl_token C) connectCallback (sv_dm sv)) (\<lambda>(ret, dm).
          Inr (EDM_OK, ret, sv\<lparr>sv_dm := dm\<rparr>)))"

definition DriverExtMgr_UnBindDevice ::
  "env \<Rightarrow> ipc_caller \<Rightarrow> u64 \<Rightarrow> 's service \<Rightarrow> UsbErrCode \<times> UsbErrCode \<times> 's service" where
  "DriverExtMgr_UnBindDevice E C deviceId sv =
     (if \<not> VerifyPermission C ACCESS_EXTENSIONAL then (EDM_OK, EDM_ERR_NO_PERM, sv)
      else case DisConnectDevice E deviceId (cl_token C) (sv_dm sv) of (ret, dm) \<Rightarrow> (EDM_OK, ret, sv\<lparr>sv_dm := dm\<rparr>))"

text \<open>A caller without application identifiers goes on with an empty set.\<close>

definition BindDriverWithDeviceId ::
  "'j cjson \<Rightarrow> env \<Rightarrow> ipc_caller \<Rightarrow> u64 \<Rightarrow> nat option \<Rightarrow> 's service \<Rightarrow> (UsbErrCode \<times> UsbErrCode \<times> 's service) res" where
  "BindDriverWithDeviceId J E C deviceId connectCallback sv =
     (if \<not> VerifyPermission C ACCESS_DDK_DRIVERS then Inr (EDM_OK, EDM_ERR_NO_PERM, sv)
      else case GetPermissionValues J C ACCESS_DDK_DRIVERS of (_, accessibleAppIds) \<Rightarrow>
        bindE (ConnectDriverWithDeviceId E deviceId (cl_token C) accessibleAppIds connectCallback (sv_dm sv)) (\<lambda>(ret, dm).
          Inr (EDM_OK, ret, sv\<lparr>sv_dm := dm\<rparr>)))"

definition UnBindDriverWithDeviceId ::
  "env \<Rightarrow> ipc_caller \<Rightarrow> u64 \<Rightarrow> 's service \<Rightarrow> UsbErrCode \<times> UsbErrCode \<times> 's service" where
  "UnBindDriverWithDeviceId E C deviceId sv =
     (if \<not> VerifyPermission C ACCESS_DDK_DRIVERS then (EDM_OK, EDM_ERR_NO_PERM, sv)
      else case DisConnectDriverWithDeviceId E deviceId (cl_token C) (sv_dm sv) of (ret, dm) \<Rightarrow>
        (EDM_OK, ret, sv\<lparr>sv_dm := dm\<rparr>))"

section \<open>Faults\<close>

text \<open>The notification that is sent, if any.\<close>

definition NotifyUsbPeripheralFault ::
  "'j cjson \<Rightarrow> files \<Rightarrow> string \<Rightarrow> bool \<Rightarrow> ipc_caller \<Rightarrow> string \<Rightarrow> string \<Rightarrow> 's service
   \<Rightarrow> UsbErrCode \<times> (string \<times> string \<times> string) option \<times> 's service" where
  "NotifyUsbPeripheralFault J fs base icon C domain faultName sv =
     (if \<not> IsSystemAppOrSa C then (EDM_ERR_NOT_SYSTEM_APP, None, sv)
      else if domain = [] \<or> faultName = [] then (EDM_ERR_INVALID_PARAM, None, sv)
      else
        let f = GetFaultInfo domain faultName (sv_faults sv) in
        if fi_faultName f = [] \<or> fi_type f = [] \<or> fi_title f = [] \<or> fi_msg f = [] then (EDM_ERR_INVALID_PARAM, None, sv)
        else case HandleNotification J fs base icon f (sv_locale sv) of (ok, sent, locale) \<Rightarrow>
          let sv = sv\<lparr>sv_locale := locale\<rparr> in
          if \<not> ok then (EDM_NOK, sent, sv) else (EDM_OK, sent, sv))"

section \<open>What connects the components\<close>

text \<open>
  The matcher that the device manager calls: the answer of the package manager in its current
  state. A fault of the query has no answer.
\<close>

definition matcher_of :: "('j, 's) pkg_env \<Rightarrow> 's pkg_mgr \<Rightarrow> matcher" where
  "matcher_of P m info = (case QueryMatchDriver P info m of Inl _ \<Rightarrow> None | Inr (d, _) \<Rightarrow> d)"

text \<open>A thread that the package manager has started.\<close>

definition RunTask :: "env \<Rightarrow> ('j, 's) pkg_env \<Rightarrow> pkg_task \<Rightarrow> 's service \<Rightarrow> 's service res" where
  "RunTask E P t sv =
     (case t of
        TaskBundlesUpdated b \<Rightarrow> Inr (sv\<lparr>sv_dm := OnBundlesUpdated E (matcher_of P (sv_pkg sv)) b (sv_dm sv)\<rparr>)
      | TaskBundlesReseted u \<Rightarrow> Inr (sv\<lparr>sv_dm := OnBundlesReseted E u (sv_dm sv)\<rparr>)
      | TaskGetAllDriverInfos \<Rightarrow> bindE (GetAllDriverInfos P (sv_pkg sv)) (\<lambda>(_, pkg). Inr (sv\<lparr>sv_pkg := pkg\<rparr>)))"

end
