(* ===== verification/Device_Law.thy ===== *)
theory Device_Law
  imports Device_Mgr_Props
begin

text \<open>
  Properties of single devices that every operation of the device manager keeps. The contract is
  a locale: a property that survives when a device loses its driver or callers, when it gets a
  driver that is good for it, and when a caller that may bind is added.
\<close>

section \<open>What the operations do to a device\<close>

definition callers :: "device \<Rightarrow> u32 set" where
  "callers d = fst ` set (dv_boundCallerInfos d)"

lemma keys_al_del: "fst ` set (al_del k m) = fst ` set m - {k}"
  by (auto simp: al_del_def)

lemma callers_simps [simp]:
  "callers (d\<lparr>dv_boundCallerInfos := []\<rparr>) = {}"
  "callers (d\<lparr>dv_boundCallerInfos := al_put t x (dv_boundCallerInfos d)\<rparr>) = insert t (callers d)"
  "callers (d\<lparr>dv_boundCallerInfos := al_del t (dv_boundCallerInfos d)\<rparr>) = callers d - {t}"
  "callers (d\<lparr>dv_bundleInfo := b, dv_driverUid := u\<rparr>) = callers d" "callers (d\<lparr>dv_drvExtRemote := r\<rparr>) = callers d"
  "callers (d\<lparr>dv_driverInfo := dr\<rparr>) = callers d" "callers (d\<lparr>dv_isUnRegisted := z\<rparr>) = callers d"
  "callers (d\<lparr>dv_callbacks := c\<rparr>) = callers d"
  by (simp_all add: callers_def keys_al_put keys_al_del del: al_del_set)

definition shrinks :: "device \<Rightarrow> device \<Rightarrow> bool" where
  "shrinks d d' \<longleftrightarrow> dv_info d' = dv_info d \<and> (dv_driverInfo d' = dv_driverInfo d \<or> dv_driverInfo d' = None)
     \<and> callers d' \<subseteq> callers d"

lemma shrinks_refl [simp]: "shrinks d d"
  by (simp add: shrinks_def)

lemma shrinks_trans: "shrinks d d' \<Longrightarrow> shrinks d' d'' \<Longrightarrow> shrinks d d''"
  unfolding shrinks_def by (metis subset_trans)

lemma shrinks_simps [simp]:
  "shrinks d (RemoveBundleInfo d)" "shrinks d (ClearDrvExtRemote d)" "shrinks d (RemoveDriverInfoOfDevice d)"
  "shrinks d (UnRegist d)" "shrinks d (RemoveCaller t d)" "shrinks d (OnRemoteDied cb d)"
  by (auto simp: shrinks_def RemoveBundleInfo_def ClearDrvExtRemote_def RemoveDriverInfoOfDevice_def UnRegist_def
      RemoveCaller_def OnRemoteDied_def UnregisterDrvExtMgrCallback_def)

lemma shrinks_view: "same_client_view d d' \<Longrightarrow> shrinks d d'"
  by (simp add: same_client_view_def shrinks_def callers_def)

lemma RemoveDriverInfo_shrinks: "RemoveDriverInfo d st = (d', st') \<Longrightarrow> shrinks d d'"
  by (auto simp: RemoveDriverInfo_def with_world_def split: option.splits if_splits)

lemma AddDevId_shrinks: "AddDevIdOfBundleInfoMap E d b st = (r, d', st') \<Longrightarrow> shrinks d d'"
  by (auto simp: AddDevIdOfBundleInfoMap_def Let_def split: if_splits option.splits prod.splits
      dest!: ConnectDriver_view intro!: shrinks_view)

lemma RemoveDevId_shrinks: "RemoveDevIdOfBundleInfoMap E d b st = (r, d', st') \<Longrightarrow> shrinks d d'"
  by (auto simp: RemoveDevIdOfBundleInfoMap_def Let_def split: if_splits option.splits prod.splits
      dest!: RemoveDriverInfo_shrinks)

lemma ClearMatchedDevice_shrinks:
  assumes "ClearMatchedDevice E u k d st = (d', st')"
  shows "shrinks d d'"
proof -
  have "shrinks d (ClearDrvExtRemote (RemoveBundleInfo d))"
    by (rule shrinks_trans [OF shrinks_simps(1,2)])
  then show ?thesis
    using assms
    by (auto simp: ClearMatchedDevice_def Let_def split: option.splits if_splits prod.splits
        dest!: RemoveDriverInfo_shrinks intro: shrinks_trans)
qed

lemma OnConnect_shrinks: "OnConnect remote c d w = (d', w') \<Longrightarrow> shrinks d d'"
  by (auto simp: OnConnect_def shrinks_def callers_def image_image case_prod_beta)

lemma OnDisconnect_shrinks: "OnDisconnect c d w = (d', w') \<Longrightarrow> shrinks d d'"
  by (auto simp: OnDisconnect_def ClearBoundCallerInfos_def shrinks_def callers_def Let_def)

text \<open>Connecting a client adds that client at most.\<close>

lemma RegisterCallback_view:
  "RegisterDrvExtMgrCallback E cb d w = (r, d', w') \<Longrightarrow>
   dv_info d' = dv_info d \<and> dv_driverInfo d' = dv_driverInfo d \<and> callers d' = callers d"
  by (auto simp: RegisterDrvExtMgrCallback_def callers_def Let_def split: option.splits if_splits)

lemma ConnectClient_callers:
  assumes "ConnectClient E cb t d w = Inr (r, d', w')"
  shows "dv_info d' = dv_info d \<and> dv_driverInfo d' = dv_driverInfo d \<and> callers d' \<subseteq> insert t (callers d)"
proof (cases "dv_drvExtRemote d")
  case (Some rem)
  then obtain c where c: "cb = Some c" using assms by (cases cb) (auto simp: ConnectClient_def)
  obtain r1 d1 w1 where reg: "RegisterDrvExtMgrCallback E cb d
      (emit (CbOnConnect c (GetDeviceId (dv_info d)) (dv_drvExtRemote d) EDM_OK) w) = (r1, d1, w1)"
    using prod_cases3 by blast
  note v = RegisterCallback_view [OF reg]
  have "d' = d1 \<or> d' = d1\<lparr>dv_boundCallerInfos := al_put t True (dv_boundCallerInfos d1)\<rparr>"
    using assms Some c reg by (auto simp: ConnectClient_def Let_def split: if_splits)
  then have "callers d' \<subseteq> insert t (callers d1) \<and> dv_info d' = dv_info d1 \<and> dv_driverInfo d' = dv_driverInfo d1"
    by (elim disjE) (simp_all add: callers_def keys_al_put subset_insertI)
  then show ?thesis using v by simp
next
  case None
  obtain r1 d1 w1 where reg: "RegisterDrvExtMgrCallback E cb d w = (r1, d1, w1)"
    using prod_cases3 by blast
  note v = RegisterCallback_view [OF reg]
  have keys: "callers x \<subseteq> insert t (callers d)"
    if "dv_boundCallerInfos x = dv_boundCallerInfos d1 \<or> dv_boundCallerInfos x = al_put t False (dv_boundCallerInfos d1)
      \<or> dv_boundCallerInfos x = al_del t (al_put t False (dv_boundCallerInfos d1))" for x
    using that v by (elim disjE) (simp_all add: callers_def keys_al_put keys_al_del subset_insertI del: al_del_set, blast)
  have "(dv_boundCallerInfos d' = dv_boundCallerInfos d1 \<or> dv_boundCallerInfos d' = al_put t False (dv_boundCallerInfos d1)
      \<or> dv_boundCallerInfos d' = al_del t (al_put t False (dv_boundCallerInfos d1)))
      \<and> dv_info d' = dv_info d1 \<and> dv_driverInfo d' = dv_driverInfo d1"
    using assms None reg
    by (auto simp: ConnectClient_def Let_def UpdateDrvExtConnNotify_def AddDrvExtConnNotify_def
        UnregisterDrvExtMgrCallback_def split: if_splits prod.splits option.splits)
  then show ?thesis using v keys [of d'] by metis
qed

section \<open>Tables\<close>

definition table_all :: "(device \<Rightarrow> bool) \<Rightarrow> device_table \<Rightarrow> bool" where
  "table_all Q t \<longleftrightarrow> (\<forall>(b, m) \<in> set t. \<forall>(k, d) \<in> set m. Q d)"

lemma table_allD: "table_all Q t \<Longrightarrow> (b, m) \<in> set t \<Longrightarrow> (k, d) \<in> set m \<Longrightarrow> Q d"
  by (fastforce simp: table_all_def)

lemma table_all_Nil [simp]: "table_all Q []"
  by (simp add: table_all_def)

lemma table_all_lookup: "table_all Q t \<Longrightarrow> lookup_device t b k = Some d \<Longrightarrow> Q d"
  by (auto simp: lookup_device_def split: option.splits dest!: map_of_SomeD intro: table_allD)

lemma table_all_member: "table_all Q t \<Longrightarrow> d \<in> set (all_devices t) \<Longrightarrow> Q d"
  by (auto simp: all_devices_def intro: table_allD)

lemma table_all_put:
  assumes t: "table_all Q t" and d: "Q d"
  shows "table_all Q (put_device d t)"
proof -
  let ?b = "di_busType (dv_info d)" and ?k = "GetDeviceId (dv_info d)"
  define m where "m = (case map_of t ?b of None \<Rightarrow> [] | Some m \<Rightarrow> m)"
  have old: "Q x" if "(k, x) \<in> set m" for k x
    using that table_allD [OF t map_of_SomeD] by (cases "map_of t ?b") (auto simp: m_def)
  have new: "Q x" if "(k, x) \<in> set (al_put ?k d m)" for k x
    using that al_put_set [of ?k d m] d old by auto
  have "put_device d t = al_put ?b (al_put ?k d m) t"
    by (simp add: put_device_def put_at_def m_def)
  then show ?thesis
    using al_put_set [of ?b "al_put ?k d m" t] new t by (fastforce simp: table_all_def)
qed

lemma table_all_erase:
  assumes t: "table_all Q t"
  shows "table_all Q (erase_device b k t)"
proof (cases "map_of t b")
  case None
  then show ?thesis using t by (simp add: erase_device_def)
next
  case (Some m)
  have "Q x" if "(k', x) \<in> set (al_del k m)" for k' x
    using that table_allD [OF t map_of_SomeD [OF Some]] by auto
  then show ?thesis
    using al_put_set [of b "al_del k m" t] t Some by (fastforce simp: table_all_def erase_device_def)
qed

lemma find_notifier_member: "find_notifier n t = Some d \<Longrightarrow> d \<in> set (all_devices t)"
  by (auto simp: find_notifier_def find_Some_iff)

lemma over_devices_all:
  assumes f: "\<And>k d st d' st'. Q d \<Longrightarrow> f k d st = (d', st') \<Longrightarrow> Q d'"
  shows "over_devices f m st = (m', st') \<Longrightarrow> \<forall>(k, d) \<in> set m. Q d \<Longrightarrow> \<forall>(k, d) \<in> set m'. Q d"
proof (induction m arbitrary: st m' st')
  case (Cons e m)
  obtain k d where e: "e = (k, d)" by fastforce
  obtain d1 st1 where d1: "f k d st = (d1, st1)" by fastforce
  obtain m1 st2 where m1: "over_devices f m st1 = (m1, st2)" by fastforce
  have "\<forall>(k, d) \<in> set m1. Q d" by (rule Cons.IH [OF m1]) (use Cons.prems(2) in simp)
  moreover have "Q d1" by (rule f [OF _ d1]) (use Cons.prems(2) in \<open>simp add: e\<close>)
  moreover have "m' = (k, d1) # m1" using Cons.prems(1) by (simp add: e d1 m1)
  ultimately show ?case by simp
qed simp

lemma over_buses_all:
  assumes f: "\<And>k d st d' st'. Q d \<Longrightarrow> f k d st = (d', st') \<Longrightarrow> Q d'"
  shows "over_buses f t st = (t', st') \<Longrightarrow> table_all Q t \<Longrightarrow> table_all Q t'"
proof (induction t arbitrary: st t' st')
  case (Cons e t)
  obtain b m where e: "e = (b, m)" by fastforce
  obtain m1 st1 where m1: "over_devices f m st = (m1, st1)" by fastforce
  obtain t1 st2 where t1: "over_buses f t st1 = (t1, st2)" by fastforce
  have "table_all Q t1" by (rule Cons.IH [OF t1]) (use Cons.prems(2) in \<open>simp add: table_all_def\<close>)
  moreover have "\<forall>(k, d) \<in> set m1. Q d"
    by (rule over_devices_all [OF f m1]) (use Cons.prems(2) in \<open>simp_all add: e table_all_def\<close>)
  moreover have "t' = (b, m1) # t1" using Cons.prems(1) by (simp add: e m1 t1)
  ultimately show ?case by (simp add: table_all_def)
qed simp

section \<open>The contract\<close>

text \<open>
  \<open>good i dr\<close>: the driver may be given to a device with that information; \<open>may t\<close>: the caller
  may be bound; \<open>known i\<close>: the information of a device that is plugged in.
\<close>

locale device_law =
  fixes Q :: "device \<Rightarrow> bool"
    and good :: "device_info \<Rightarrow> driver_info \<Rightarrow> bool"
    and may :: "u32 \<Rightarrow> bool"
    and known :: "device_info \<Rightarrow> bool"
  assumes shrink: "Q d \<Longrightarrow> shrinks d d' \<Longrightarrow> Q d'"
    and match: "Q d \<Longrightarrow> good (dv_info d) dr \<Longrightarrow> Q (AddBundleInfo b (Some dr) d)"
    and bind: "Q d \<Longrightarrow> may t \<Longrightarrow> dv_info d' = dv_info d \<Longrightarrow> dv_driverInfo d' = dv_driverInfo d \<Longrightarrow>
      callers d' \<subseteq> insert t (callers d) \<Longrightarrow> Q d'"
    and fresh: "known i \<Longrightarrow> Q (new_device i)"
    and same: "Q d \<Longrightarrow> known i \<Longrightarrow> GetDeviceId i = GetDeviceId (dv_info d) \<Longrightarrow> dv_info d = i"
begin

definition lawful :: "dm_state \<Rightarrow> bool" where
  "lawful st \<longleftrightarrow> table_all Q (dm_deviceMap st)"

definition good_query :: "matcher \<Rightarrow> bool" where
  "good_query q \<longleftrightarrow> (\<forall>i dr. q i = Some dr \<longrightarrow> good i dr)"

lemma put_lawful: "lawful st \<Longrightarrow> Q d \<Longrightarrow> table_all Q (put_device d (dm_deviceMap st))"
  by (simp add: lawful_def table_all_put)

lemma lawful_init: "lawful dm_init"
  by (simp add: lawful_def dm_init_def)

lemma Register_lawful:
  assumes "RegisterDevice E q info st = (r, st')" and "lawful st" and "dm_inv st" and "good_query q" and "known info"
  shows "lawful st'"
proof -
  let ?found = "lookup_device (dm_deviceMap st) (di_busType info) (GetDeviceId info)"
  let ?d = "case ?found of None \<Rightarrow> new_device info | Some d \<Rightarrow> d"
  have di: "Q ?d \<and> dv_info ?d = info"
  proof (cases ?found)
    case None
    then show ?thesis using fresh [OF assms(5)] by (simp add: new_device_def)
  next
    case (Some d)
    have "Q d" using table_all_lookup [OF _ Some] assms(2) by (simp add: lawful_def)
    moreover have "GetDeviceId info = GetDeviceId (dv_info d)"
      using table_ok_lookup(1) [OF _ Some] assms(3) by (simp add: dm_inv_def)
    ultimately have "dv_info d = info" using same assms(5) by blast
    then show ?thesis using \<open>Q d\<close> Some by simp
  qed
  then have d: "Q ?d" and i: "dv_info ?d = info" by blast+
  have m: "Q (AddBundleInfo b (Some dr) ?d)" if "q info = Some dr" for b dr
    using match [OF d] i assms(4) that by (simp add: good_query_def)
  have add: "table_all Q (put_device d2 (dm_deviceMap st2))"
    if "AddDevIdOfBundleInfoMap E d1 b st1 = (r2, d2, st2)" "Q d1" "dm_deviceMap st1 = put_device d1 (dm_deviceMap st)"
    for d1 b st1 r2 d2 st2
    using AddDevId_keeps(2) [OF that(1)] shrink [OF that(2) AddDevId_shrinks [OF that(1)]] that(2,3) assms(2)
    by (simp add: lawful_def table_all_put)
  show ?thesis
    using assms(1,2) d m add
    by (auto simp: RegisterDevice_def Let_def with_world_def lawful_def table_all_put split: if_splits option.splits prod.splits)
qed

lemma UnRegister_lawful:
  assumes "UnRegisterDevice E info st = (r, st')" and "lawful st"
  shows "lawful st'"
proof (cases "lookup_device (dm_deviceMap st) (di_busType info) (GetDeviceId info)")
  case None
  then show ?thesis using assms by (simp add: UnRegisterDevice_def)
next
  case (Some d)
  let ?keep = "dv_drvExtRemote d \<noteq> None"
  let ?d = "if ?keep then UnRegist d else d"
  let ?t = "if ?keep then put_device ?d (dm_deviceMap st)
            else erase_device (di_busType info) (GetDeviceId info) (dm_deviceMap st)"
  have "Q d" using table_all_lookup [OF _ Some] assms(2) by (simp add: lawful_def)
  then have d: "Q ?d" using shrink [of d "UnRegist d"] by simp
  have t: "table_all Q ?t"
    using assms(2) table_all_put [where Q = Q and d = ?d and t = "dm_deviceMap st"] d
    by (cases ?keep) (simp_all add: lawful_def table_all_erase)
  obtain r1 d1 st1 where rm: "RemoveDevIdOfBundleInfoMap E ?d (dv_bundleInfo d)
      (UnLoadSelf E (st\<lparr>dm_deviceMap := ?t\<rparr>)) = (r1, d1, st1)"
    using prod_cases3 by blast
  have "Q d1" by (rule shrink [OF d RemoveDevId_shrinks [OF rm]])
  then show ?thesis
    using assms Some t RemoveDevId_keeps(2) [OF rm] rm
    by (auto simp: UnRegisterDevice_def Let_def lawful_def intro: table_all_put split: if_splits)
qed

lemma Match_lawful:
  assumes q: "good_query q" and st: "lawful st"
  shows "lawful (MatchDriverInfos E q ids st)"
proof -
  have "Q d'" if "Q d" "MatchDevice E q ids k d s = (d', s')" for k d s d' s'
  proof -
    obtain d1 s1 where d1: "(if k \<in> set ids then RemoveDriverInfo (ClearDrvExtRemote (RemoveBundleInfo d)) s
        else (d, s)) = (d1, s1)" by fastforce
    then have "shrinks d d1"
      using RemoveDriverInfo_shrinks [of "ClearDrvExtRemote (RemoveBundleInfo d)" s d1 s1]
      by (auto split: if_splits intro: shrinks_trans [OF shrinks_trans [OF shrinks_simps(1) shrinks_simps(2)]])
    then have Q1: "Q d1" using shrink that(1) by blast
    have "d' = d1 \<or> (\<exists>dr b r s2. q (dv_info d1) = Some dr
        \<and> AddDevIdOfBundleInfoMap E (AddBundleInfo b (Some dr) d1) b s1 = (r, d', s2))"
      using that(2) by (auto simp: MatchDevice_def d1 Let_def split: if_splits option.splits prod.splits)
    then show ?thesis
      using Q1 match [OF Q1] q AddDevId_shrinks shrink unfolding good_query_def by blast
  qed
  then show ?thesis
    using st over_buses_all [where Q = Q and f = "MatchDevice E q ids" and t = "dm_deviceMap st" and st = st]
    by (auto simp: MatchDriverInfos_def lawful_def split: prod.splits)
qed

lemma Clear_lawful:
  assumes st: "lawful st"
  shows "lawful (ClearMatchedDrivers E u st)"
  using st shrink ClearMatchedDevice_shrinks
    over_buses_all [where Q = Q and f = "ClearMatchedDevice E u" and t = "dm_deviceMap st" and st = st]
  by (auto simp: ClearMatchedDrivers_def lawful_def split: prod.splits)

lemma Delete_lawful: "DeleteBundlesOfBundleInfoMap b st = (ids, st') \<Longrightarrow> lawful st \<Longrightarrow> lawful st'"
  by (auto simp: DeleteBundlesOfBundleInfoMap_def Let_def lawful_def split: if_splits)

lemma Updated_lawful: "good_query q \<Longrightarrow> lawful st \<Longrightarrow> lawful (OnBundlesUpdated E q b st)"
  by (auto simp: OnBundlesUpdated_def dest: Delete_lawful intro: Match_lawful split: prod.splits)

lemma found: "lawful st \<Longrightarrow> QueryDeviceByDeviceID k st = Some d \<Longrightarrow> Q d"
  by (auto simp: lawful_def QueryDeviceByDeviceID_def intro: table_all_lookup)

lemma ConnectFound_lawful:
  assumes "ConnectFound E d t cb st = Inr (r, st')" and "lawful st" and "Q d" and "may t"
  shows "lawful st'"
proof -
  obtain d' w where c: "ConnectClient E cb t d (dm_world st) = Inr (r, d', w)"
      "st' = st\<lparr>dm_world := w, dm_deviceMap := put_device d' (dm_deviceMap st)\<rparr>"
    using assms(1) by (auto simp: ConnectFound_def bindE_eq_Inr)
  have "Q d'" using bind [OF assms(3,4)] ConnectClient_callers [OF c(1)] by blast
  then show ?thesis using c(2) assms(2) by (simp add: lawful_def table_all_put)
qed

lemma Connect_lawful: "ConnectDevice E k t cb st = Inr (r, st') \<Longrightarrow> lawful st \<Longrightarrow> may t \<Longrightarrow> lawful st'"
  by (auto simp: ConnectDevice_def dest: found ConnectFound_lawful split: option.splits)

lemma ConnectDriver_lawful:
  "ConnectDriverWithDeviceId E k t apps cb st = Inr (r, st') \<Longrightarrow> lawful st \<Longrightarrow> may t \<Longrightarrow> lawful st'"
  by (auto simp: ConnectDriverWithDeviceId_def Let_def dest: found ConnectFound_lawful split: option.splits if_splits)

lemma DisConnectFound_lawful: "DisConnectFound E d dr t st = (r, st') \<Longrightarrow> lawful st \<Longrightarrow> Q d \<Longrightarrow> lawful st'"
  using shrink [of d "RemoveCaller t d"]
  by (auto simp: DisConnectFound_def lawful_def table_all_put split: if_splits prod.splits)

lemma DisConnect_lawful: "DisConnectDevice E k t st = (r, st') \<Longrightarrow> lawful st \<Longrightarrow> lawful st'"
  by (auto simp: DisConnectDevice_def dest: found DisConnectFound_lawful split: option.splits)

lemma DisConnectDriver_lawful: "DisConnectDriverWithDeviceId E k t st = (r, st') \<Longrightarrow> lawful st \<Longrightarrow> lawful st'"
  by (auto simp: DisConnectDriverWithDeviceId_def dest: found DisConnectFound_lawful split: option.splits if_splits)

lemma notified: "lawful st \<Longrightarrow> find_notifier n (dm_deviceMap st) = Some d \<Longrightarrow> Q d"
  by (auto simp: lawful_def dest: find_notifier_member table_all_member)

lemma Connected_lawful: "lawful st \<Longrightarrow> lawful (AbilityConnected c remote code st)"
proof -
  assume st: "lawful st"
  have "lawful (snd (OnConnectDone n remote code st'))" if "lawful st'" for n st'
    using that notified [OF that, of n] shrink OnConnect_shrinks
    by (auto simp: OnConnectDone_def lawful_def intro!: table_all_put split: option.splits prod.splits)
  then show ?thesis using st by (auto simp: AbilityConnected_def Let_def lawful_def split: prod.splits option.splits)
qed

lemma Disconnected_lawful: "lawful st \<Longrightarrow> lawful (AbilityDisconnected E c code st)"
proof -
  assume st: "lawful st"
  have "lawful (snd (OnDisconnectDone E n code st'))" if "lawful st'" for n st'
    using that notified [OF that, of n] shrink OnDisconnect_shrinks
    by (auto simp: OnDisconnectDone_def Let_def lawful_def RemoveDeviceOfDeviceMap_def
        intro!: table_all_put table_all_erase split: option.splits prod.splits)
  then show ?thesis using st by (auto simp: AbilityDisconnected_def Let_def lawful_def split: prod.splits option.splits)
qed

lemma Died_lawful: "lawful st \<Longrightarrow> lawful (ClientDied k cb st)"
  using found [of st k] shrink
  by (auto simp: ClientDied_def lawful_def intro!: table_all_put split: option.splits)

end

end
