(* ===== verification/Faults_Claims.thy ===== *)
theory Faults_Claims
  imports Faults Json_Instance
begin

text \<open>
  What the fault configuration and the notification texts guarantee: which faults can be
  notified, and which files the texts come from.
\<close>

section \<open>The configured faults\<close>

lemma MatchFaults_Nil [simp]: "MatchFaults [] ls = []"
  by (simp add: MatchFaults_def)

lemma MatchFaults_Cons:
  "MatchFaults (c # cs) ls =
     (case List.find (\<lambda>l. fi_faultName l = fi_faultName c) ls of None \<Rightarrow> MatchFaults cs ls | Some l \<Rightarrow> l # MatchFaults cs ls)"
  by (simp add: MatchFaults_def split: option.splits)

lemma find_named: "List.find (\<lambda>l. fi_faultName l = n) ls = Some l \<Longrightarrow> fi_faultName l = n"
  by (auto simp: find_Some_iff)

lemma find_MatchFaults:
  "List.find (\<lambda>f. fi_faultName f = n) (MatchFaults cs ls)
   = (if n \<in> fi_faultName ` set cs then List.find (\<lambda>f. fi_faultName f = n) ls else None)"
proof (induction cs)
  case (Cons c cs)
  show ?case
  proof (cases "List.find (\<lambda>l. fi_faultName l = fi_faultName c) ls")
    case None
    then show ?thesis using Cons.IH by (auto simp: MatchFaults_Cons)
  next
    case (Some l)
    then show ?thesis using Cons.IH find_named [OF Some] by (auto simp: MatchFaults_Cons)
  qed
qed simp

lemma map_of_FillDomains:
  "distinct (map fst ccm) \<Longrightarrow>
   map_of (FillDomains ccm res temp) d =
     (case (map_of ccm d, map_of temp d) of
        (Some cs, Some ls) \<Rightarrow> if MatchFaults cs ls \<noteq> [] then Some (MatchFaults cs ls) else map_of res d
      | _ \<Rightarrow> map_of res d)"
proof (induction ccm arbitrary: res temp)
  case (Cons e ccm)
  obtain domain cs where e: "e = (domain, cs)" by fastforce
  have new: "map_of ccm domain = None" and dist: "distinct (map fst ccm)"
    using Cons.prems by (simp_all add: e map_of_eq_None_iff)
  show ?case
  proof (cases "d = domain")
    case True
    then have e: "e = (d, cs)" and new: "map_of ccm d = None" using e new by simp_all
    show ?thesis
      using new by (simp add: e Cons.IH [OF dist] Let_def split: option.splits)
  next
    case False
    then show ?thesis
      by (simp add: e Cons.IH [OF dist] Let_def split: option.splits)
  qed
qed simp

lemma GetFaultInfo_Fill:
  assumes "distinct (map fst ccm)"
  shows "GetFaultInfo d n (FillFaultsMap ccm loc)
    = (if n \<in> fi_faultName ` set (GetFaultsInfoByDomain d ccm) then GetFaultInfo d n loc else no_fault_info)"
proof -
  have nil: "n \<notin> fi_faultName ` set cs \<or> List.find (\<lambda>f. fi_faultName f = n) ls = None" if "MatchFaults cs ls = []" for cs ls
    using find_MatchFaults [of n cs ls] that by auto
  show ?thesis
    using nil
    by (fastforce simp: GetFaultInfo_def GetFaultsInfoByDomain_def FillFaultsMap_def map_of_FillDomains [OF assms] find_MatchFaults
        split: option.splits)
qed

lemma ParseDomains_distinct:
  "ParseDomains J items m = (ok, m') \<Longrightarrow> distinct (map fst m) \<Longrightarrow> distinct (map fst m')"
  by (induction J items m rule: ParseDomains.induct) (auto split: option.splits if_splits)

lemma ParseFaultsFile_distinct: "ParseFaultsFile J fs path [] = (ok, m) \<Longrightarrow> distinct (map fst m)"
  by (auto simp: ParseFaultsFile_def split: option.splits if_splits dest: ParseDomains_distinct)

text \<open>
  C20: the faults that can be looked up after the configuration has been read are those that the
  product file lists for the domain, each as the system file describes it; a fault that one of
  the files does not have is looked up as empty.
\<close>

theorem fault_needs_both_files:
  assumes "ParseFaultsFile J fs SYS_PROD_FAULT_CONFIG_PATH [] = (True, ccm)"
    and "ParseFaultsFile J fs SYSTEM_FAULT_CONFIG_PATH [] = (True, loc)" and "EventConfig_ParseJsonFile J fs = (ok, m)"
  shows "GetFaultInfo d n m
    = (if n \<in> fi_faultName ` set (GetFaultsInfoByDomain d ccm) then GetFaultInfo d n loc else no_fault_info)"
proof -
  have "m = (if ccm = [] \<or> loc = [] then [] else FillFaultsMap ccm loc)"
    using assms by (auto simp: EventConfig_ParseJsonFile_def Let_def split: if_splits)
  then show ?thesis
    using GetFaultInfo_Fill [OF ParseFaultsFile_distinct [OF assms(1)]]
    by (auto simp: GetFaultInfo_def GetFaultsInfoByDomain_def)
qed

text \<open>The library with a deeper parser, and two files.\<close>

definition deep_json :: "jvalue cjson" where
  "deep_json = value_json\<lparr>cj_parse := \<lambda>s. map_option fst (parse_value 6 s)\<rparr>"

definition fault_value :: "string \<Rightarrow> string \<Rightarrow> jvalue" where
  "fault_value name title =
     VObj [(''faultName'', VStr name), (''type'', VStr ''t''), (''title'', VStr title), (''msg'', VStr ''m'')]"

definition config_files :: files where
  "config_files path =
     (if path = SYS_PROD_FAULT_CONFIG_PATH then
        Some (print_value (VArr [VObj [(''domain'', VStr ''usb''), (''fault'', VArr [fault_value ''a'' ''x''])]]))
      else if path = SYSTEM_FAULT_CONFIG_PATH then
        Some (print_value (VArr [VObj [(''domain'', VStr ''usb''), (''fault'', VArr [fault_value ''b'' ''z'', fault_value ''a'' ''y''])]]))
      else None)"

definition a_fault :: "string \<Rightarrow> string \<Rightarrow> fault_info" where
  "a_fault name title = \<lparr>fi_faultName = name, fi_type = ''t'', fi_title = title, fi_msg = ''m'', fi_uri = []\<rparr>"

lemma config_files_read:
  "ParseFaultsFile deep_json config_files SYS_PROD_FAULT_CONFIG_PATH [] = (True, [(''usb'', [a_fault ''a'' ''x''])])"
  "ParseFaultsFile deep_json config_files SYSTEM_FAULT_CONFIG_PATH []
   = (True, [(''usb'', [a_fault ''b'' ''z'', a_fault ''a'' ''y''])])"
  "EventConfig_ParseJsonFile deep_json config_files = (True, [(''usb'', [a_fault ''a'' ''y''])])"
  by code_simp+

theorem fault_needs_both_files_witness:
  "\<exists>m. EventConfig_ParseJsonFile deep_json config_files = (True, m)
    \<and> GetFaultInfo ''usb'' ''a'' m = a_fault ''a'' ''y'' \<and> GetFaultInfo ''usb'' ''b'' m = no_fault_info"
proof -
  note f = fault_needs_both_files [OF config_files_read]
  have "GetFaultInfo ''usb'' ''a'' [(''usb'', [a_fault ''a'' ''y''])] = a_fault ''a'' ''y''"
    using f [of "''usb''" "''a''"] by (simp add: GetFaultsInfoByDomain_def GetFaultInfo_def a_fault_def)
  moreover have "GetFaultInfo ''usb'' ''b'' [(''usb'', [a_fault ''a'' ''y''])] = no_fault_info"
    using f [of "''usb''" "''b''"] by (simp add: GetFaultsInfoByDomain_def a_fault_def)
  ultimately show ?thesis using config_files_read(3) by blast
qed

section \<open>The texts\<close>

text \<open>Two dots in a row are on one side of a slash.\<close>

lemma str_find_slash:
  "str_find ''..'' (xs @ CHR ''/'' # ys) = None \<longleftrightarrow> str_find ''..'' xs = None \<and> str_find ''..'' ys = None"
proof (induction xs)
  case (Cons x xs)
  have "str_prefix ''..'' (x # xs @ CHR ''/'' # ys) \<longleftrightarrow> str_prefix ''..'' (x # xs)"
    by (cases xs) auto
  then show ?case using Cons.IH by auto
qed simp

lemma valid_path_confined:
  assumes "IsPathValid language"
  shows "str_find ''..'' (resource_path language) = None"
proof -
  have r: "resource_path language = ''/system/etc/peripheral/resources'' @ CHR ''/'' # (language @ CHR ''/'' # ''element/string.json'')"
    by (simp add: resource_path_def SYSTEM_PERIPHERAL_RESOURCE_PATH_def)
  show ?thesis
    unfolding r str_find_slash using assms by (simp add: IsPathValid_def)
qed

lemma ParseTextsFile_cong: "fs path = fs' path \<Longrightarrow> ParseTextsFile J fs path m = ParseTextsFile J fs' path m"
  by (simp add: ParseTextsFile_def)

text \<open>
  C21: whatever the file of the languages says, the texts of a notification depend on no file but
  that one and files below the resource directory: a path that is opened is the resource
  directory followed by a language that passed the check, and holds no two dots in a row.
\<close>

theorem texts_are_confined:
  assumes "fs LOCALE_CONFIG_PATH = fs' LOCALE_CONFIG_PATH"
    and "\<forall>language. IsPathValid language \<and> str_find ''..'' (resource_path language) = None
      \<longrightarrow> fs (resource_path language) = fs' (resource_path language)"
  shows "HandleNotification J fs base icon f st = HandleNotification J fs' base icon f st"
proof -
  have "ParseLocaleCfg J fs st = ParseLocaleCfg J fs' st"
    by (simp add: ParseLocaleCfg_def ParseTextsFile_cong [where fs = fs and fs' = fs' and path = LOCALE_CONFIG_PATH, OF assms(1)])
  moreover have "UpdateStringMap J fs base st' = UpdateStringMap J fs' base st'" for st'
  proof -
    have valid: "IsPathValid ''base''" by code_simp
    have "fs (resource_path l) = fs' (resource_path l)" if "IsPathValid l" for l
      using assms(2) that valid_path_confined by blast
    then have "ParseTextsFile J fs (resource_path l) m = ParseTextsFile J fs' (resource_path l) m" if "IsPathValid l" for l m
      using that by (intro ParseTextsFile_cong) simp
    then show ?thesis using valid by (simp add: UpdateStringMap_def Let_def)
  qed
  ultimately show ?thesis by (simp add: HandleNotification_def)
qed

text \<open>A file of languages that tries to leave the directory.\<close>

definition evil_files :: files where
  "evil_files path =
     (if path = LOCALE_CONFIG_PATH then
        Some (print_value (VObj [(''string'', VArr [VObj [(''name'', VStr ''zh''), (''value'', VStr ''../../data'')]])]))
      else if path = resource_path ''../../data'' then
        Some (print_value (VObj [(''string'', VArr [VObj [(''name'', VStr ''x''), (''value'', VStr ''evil'')]])]))
      else if path = resource_path ''base'' then
        Some (print_value (VObj [(''string'', VArr [VObj [(''name'', VStr ''y''), (''value'', VStr ''fault'')],
          VObj [(''name'', VStr ''m''), (''value'', VStr ''text'')]])]))
      else None)"

definition no_locale :: locale_state where
  "no_locale = \<lparr>lc_languageMap = [], lc_stringMap = [], lc_localeBaseName = [], lc_islanguageMapInit = False\<rparr>"

lemma evil_run:
  "fst (snd (HandleNotification deep_json evil_files ''zh'' True (a_fault ''a'' ''y'') no_locale)) = Some (''fault'', ''text'', [])"
  by code_simp

lemma resource_path_inject: "resource_path l = resource_path l' \<longleftrightarrow> l = l'"
  by (simp add: resource_path_def)

theorem texts_are_confined_witness:
  "fst (snd (HandleNotification deep_json (evil_files(resource_path ''../../data'' := None)) ''zh'' True
      (a_fault ''a'' ''y'') no_locale)) = Some (''fault'', ''text'', [])"
proof -
  have n: "LOCALE_CONFIG_PATH \<noteq> resource_path ''../../data''" by code_simp
  have "HandleNotification deep_json evil_files ''zh'' True (a_fault ''a'' ''y'') no_locale
      = HandleNotification deep_json (evil_files(resource_path ''../../data'' := None)) ''zh'' True (a_fault ''a'' ''y'') no_locale"
    by (rule texts_are_confined) (use n in \<open>auto simp: resource_path_inject IsPathValid_def\<close>)
  then show ?thesis using evil_run by simp
qed

text \<open>
  When the file of the language is missing the texts stay empty until the locale changes; there
  is no second try with the base language.
\<close>

lemma missing_language_no_texts:
  assumes "lc_localeBaseName st \<noteq> base" and "map_of (lc_languageMap st) base = Some l" and "IsPathValid l"
    and "fs (resource_path l) = None"
  shows "GetValueByKey key (UpdateStringMap J fs base st) = []
    \<and> UpdateStringMap J fs' base (UpdateStringMap J fs base st) = UpdateStringMap J fs base st"
  using assms by (simp add: UpdateStringMap_def Let_def GetValueByKey_def ParseTextsFile_def)

end
