(* ===== verification/System.thy ===== *)
theory System
  imports Service Device_Law Pkg_Mgr_Claims Device_Mgr_Claims Faults_Claims
begin

text \<open>
  The running service: its steps, and what holds of every device in every state it can reach,
  whatever happens in the package manager, on the bus and at the clients.
\<close>

section \<open>Steps\<close>

text \<open>
  \<open>dev_at k\<close> is the device that is plugged in under the number \<open>k\<close>: a number is not given to
  another device. \<open>granted t\<close> are the permissions of the caller with token \<open>t\<close>. The queries
  without an effect have no step.
\<close>

definition is_caller :: "(u32 \<Rightarrow> string \<Rightarrow> bool) \<Rightarrow> ipc_caller \<Rightarrow> bool" where
  "is_caller granted C \<longleftrightarrow> cl_granted C = granted (cl_token C)"

definition with_pkg :: "('s pkg_mgr \<Rightarrow> 's pkg_mgr) \<Rightarrow> 's service \<Rightarrow> 's service" where
  "with_pkg f sv = sv\<lparr>sv_pkg := f (sv_pkg sv)\<rparr>"

inductive sys_step ::
  "env \<Rightarrow> ('j, 's) pkg_env \<Rightarrow> (u64 \<Rightarrow> device_info) \<Rightarrow> (u32 \<Rightarrow> string \<Rightarrow> bool) \<Rightarrow> 's service \<Rightarrow> 's service \<Rightarrow> bool"
  for E P dev_at granted where
  Start: "OnStart P S fs load publish sv = Inr sv' \<Longrightarrow> sys_step E P dev_at granted sv sv'"
| Ability: "sv' = OnAddSystemAbility P said sv \<Longrightarrow> sys_step E P dev_at granted sv sv'"
| Plug: "dev_at (GetDeviceId info) = info \<Longrightarrow> OnDeviceAdd E (matcher_of P (sv_pkg sv)) info (sv_dm sv) = (r, dm) \<Longrightarrow>
    sys_step E P dev_at granted sv (sv\<lparr>sv_dm := dm\<rparr>)"
| Unplug: "OnDeviceRemove E info (sv_dm sv) = (r, dm) \<Longrightarrow> sys_step E P dev_at granted sv (sv\<lparr>sv_dm := dm\<rparr>)"
| Lookup: "QueryMatchDriver P info (sv_pkg sv) = Inr (d, m) \<Longrightarrow> sys_step E P dev_at granted sv (sv\<lparr>sv_pkg := m\<rparr>)"
| Added: "OnBundleAdded P b u (sv_pkg sv) = Inr m \<Longrightarrow> sys_step E P dev_at granted sv (sv\<lparr>sv_pkg := m\<rparr>)"
| Updated: "OnBundleUpdated P b u (sv_pkg sv) = Inr m \<Longrightarrow> sys_step E P dev_at granted sv (sv\<lparr>sv_pkg := m\<rparr>)"
| Removed: "sv' = with_pkg (OnBundleRemoved P b u) sv \<Longrightarrow> sys_step E P dev_at granted sv sv'"
| Switched: "sv' = with_pkg OnAccountsSwitched sv \<Longrightarrow> sys_step E P dev_at granted sv sv'"
| Switching: "sv' = with_pkg (OnAccountsSwitching u) sv \<Longrightarrow> sys_step E P dev_at granted sv sv'"
| Task: "t \<in> set (pm_tasks (sv_pkg sv)) \<Longrightarrow>
    RunTask E P t (with_pkg (\<lambda>m. m\<lparr>pm_tasks := remove1 t (pm_tasks m)\<rparr>) sv) = Inr sv' \<Longrightarrow>
    sys_step E P dev_at granted sv sv'"
| Bind: "is_caller granted C \<Longrightarrow> DriverExtMgr_BindDevice E C k cb sv = Inr (e, r, sv') \<Longrightarrow> sys_step E P dev_at granted sv sv'"
| Unbind: "is_caller granted C \<Longrightarrow> DriverExtMgr_UnBindDevice E C k sv = (e, r, sv') \<Longrightarrow> sys_step E P dev_at granted sv sv'"
| BindDriver: "is_caller granted C \<Longrightarrow> BindDriverWithDeviceId (pe_json P) E C k cb sv = Inr (e, r, sv') \<Longrightarrow>
    sys_step E P dev_at granted sv sv'"
| UnbindDriver: "is_caller granted C \<Longrightarrow> UnBindDriverWithDeviceId E C k sv = (e, r, sv') \<Longrightarrow>
    sys_step E P dev_at granted sv sv'"
| QueryDrivers: "DriverExtMgr_QueryDriverInfo P C byUid uid sv = Inr (e, r, ds, sv') \<Longrightarrow> sys_step E P dev_at granted sv sv'"
| Notify: "NotifyUsbPeripheralFault (pe_json P) fs base icon C domain name sv = (r, sent, sv') \<Longrightarrow>
    sys_step E P dev_at granted sv sv'"
| Connected: "sv' = sv\<lparr>sv_dm := AbilityConnected c remote code (sv_dm sv)\<rparr> \<Longrightarrow> sys_step E P dev_at granted sv sv'"
| Disconnected: "sv' = sv\<lparr>sv_dm := AbilityDisconnected E c code (sv_dm sv)\<rparr> \<Longrightarrow> sys_step E P dev_at granted sv sv'"
| Died: "sv' = sv\<lparr>sv_dm := ClientDied k c (sv_dm sv)\<rparr> \<Longrightarrow> sys_step E P dev_at granted sv sv'"

inductive sys_reachable ::
  "env \<Rightarrow> ('j, 's) pkg_env \<Rightarrow> (u64 \<Rightarrow> device_info) \<Rightarrow> (u32 \<Rightarrow> string \<Rightarrow> bool) \<Rightarrow> 's service \<Rightarrow> bool"
  for E P dev_at granted where
  Init: "sv_dm sv = dm_init \<Longrightarrow> sys_reachable E P dev_at granted sv"
| Step: "sys_reachable E P dev_at granted sv \<Longrightarrow> sys_step E P dev_at granted sv sv' \<Longrightarrow> sys_reachable E P dev_at granted sv'"

section \<open>The law of the devices\<close>

definition permitted :: "(u32 \<Rightarrow> string \<Rightarrow> bool) \<Rightarrow> u32 \<Rightarrow> bool" where
  "permitted granted t \<longleftrightarrow> granted t ACCESS_EXTENSIONAL \<or> granted t ACCESS_DDK_DRIVERS"

definition sound ::
  "(string \<Rightarrow> string) \<Rightarrow> (u64 \<Rightarrow> device_info) \<Rightarrow> (u32 \<Rightarrow> string \<Rightarrow> bool) \<Rightarrow> device \<Rightarrow> bool" where
  "sound lower dev_at granted d \<longleftrightarrow> dv_info d = dev_at (GetDeviceId (dv_info d))
     \<and> (case dv_driverInfo d of None \<Rightarrow> True | Some dr \<Rightarrow> fits lower dr (dv_info d))
     \<and> callers d \<subseteq> Collect (permitted granted)"

interpretation sys: device_law "sound lower dev_at granted" "\<lambda>i dr. fits lower dr i" "permitted granted"
  "\<lambda>i. dev_at (GetDeviceId i) = i"
proof
  fix d d' :: device and dr b t i
  show "sound lower dev_at granted d \<Longrightarrow> shrinks d d' \<Longrightarrow> sound lower dev_at granted d'"
    by (auto simp: sound_def shrinks_def split: option.splits)
  show "sound lower dev_at granted d \<Longrightarrow> fits lower dr (dv_info d) \<Longrightarrow> sound lower dev_at granted (AddBundleInfo b (Some dr) d)"
    by (simp add: sound_def AddBundleInfo_def callers_def)
  show "sound lower dev_at granted d \<Longrightarrow> permitted granted t \<Longrightarrow> dv_info d' = dv_info d \<Longrightarrow> dv_driverInfo d' = dv_driverInfo d \<Longrightarrow>
      callers d' \<subseteq> insert t (callers d) \<Longrightarrow> sound lower dev_at granted d'"
    unfolding sound_def by (metis insert_subset mem_Collect_eq subset_trans)
  show "dev_at (GetDeviceId i) = i \<Longrightarrow> sound lower dev_at granted (new_device i)"
    by (simp add: sound_def new_device_def callers_def)
  show "sound lower dev_at granted d \<Longrightarrow> dev_at (GetDeviceId i) = i \<Longrightarrow> GetDeviceId i = GetDeviceId (dv_info d) \<Longrightarrow> dv_info d = i"
    by (metis sound_def)
qed

lemma matcher_fits: "matcher_of P m i = Some d \<Longrightarrow> fits (pe_lower P) d i"
  by (auto simp: matcher_of_def split: sum.splits elim!: QueryMatchDriver_stored dest: MatchStored_Some)

lemma matcher_good: "sys.good_query (pe_lower P) (matcher_of P m)"
  by (simp add: sys.good_query_def matcher_fits)

abbreviation sys_ok :: "('j, 's) pkg_env \<Rightarrow> (u64 \<Rightarrow> device_info) \<Rightarrow> (u32 \<Rightarrow> string \<Rightarrow> bool) \<Rightarrow> 's service \<Rightarrow> bool" where
  "sys_ok P dev_at granted sv \<equiv> dm_inv (sv_dm sv) \<and> sys.lawful (pe_lower P) dev_at granted (sv_dm sv)"


section \<open>Every step keeps it\<close>

text \<open>What a step does to the device manager is one of the steps proved there, or nothing.\<close>

lemma OnStart_dm:
  assumes "OnStart P S fs load publish sv = Inr sv'"
  shows "\<exists>b. sv_dm sv' = SetDriverChangeCallback b (sv_dm sv)"
proof -
  obtain cb core where a: "AcquireDriverChangeCallback (UsbAcquireDriverChangeCallback S) BUS_TYPE_USB (load (sv_core sv)) = (cb, core)"
    by fastforce
  obtain r1 p1 where i: "PkgMgrInitAsync (sv_pkg sv) = (r1, p1)" by fastforce
  obtain r2 p2 where x: "ExtDeviceManager_Init p1 = (r2, p2)" by fastforce
  obtain ok m where e: "EventConfig_ParseJsonFile (pe_json P) fs = (ok, m)" by fastforce
  show ?thesis using assms by (auto simp: OnStart_def a i x e Let_def bindE_eq_Inr split: if_splits)
qed

lemma OnAddSystemAbility_dm: "sv_dm (OnAddSystemAbility P i sv) = sv_dm sv"
  by (auto simp: OnAddSystemAbility_def Let_def split: sa_id.splits prod.splits)

lemma SetCallback_ok: "sys_ok P dev_at granted sv \<Longrightarrow> sv_dm sv' = SetDriverChangeCallback b (sv_dm sv) \<Longrightarrow> sys_ok P dev_at granted sv'"
  by (simp add: SetDriverChangeCallback_def dm_inv_def sys.lawful_def)

lemma same_dm_ok: "sys_ok P dev_at granted sv \<Longrightarrow> sv_dm sv' = sv_dm sv \<Longrightarrow> sys_ok P dev_at granted sv'"
  by simp

lemma Plug_ok:
  "sys_ok P dev_at granted sv \<Longrightarrow> dev_at (GetDeviceId info) = info \<Longrightarrow>
   RegisterDevice E (matcher_of P m) info (sv_dm sv) = (r, dm) \<Longrightarrow> sys_ok P dev_at granted (sv\<lparr>sv_dm := dm\<rparr>)"
  by (auto intro: sys.Register_lawful [OF _ _ _ matcher_good] RegisterDevice_inv)

lemma Unplug_ok:
  "sys_ok P dev_at granted sv \<Longrightarrow> UnRegisterDevice E info (sv_dm sv) = (r, dm) \<Longrightarrow>
   sys_ok P dev_at granted (sv\<lparr>sv_dm := dm\<rparr>)"
  by (auto intro: sys.UnRegister_lawful UnRegisterDevice_inv)

lemma RunTask_ok:
  assumes "RunTask E P t sv = Inr sv'" and "sys_ok P dev_at granted sv"
  shows "sys_ok P dev_at granted sv'"
proof (cases t)
  case (TaskBundlesUpdated b)
  then have "sv_dm sv' = OnBundlesUpdated E (matcher_of P (sv_pkg sv)) b (sv_dm sv)" using assms(1) by (auto simp: RunTask_def)
  then show ?thesis
    using assms(2) sys.Updated_lawful [OF matcher_good [of P "sv_pkg sv"]] dm_step_inv [OF dm_step.BundlesUpdated [OF refl]]
    by metis
next
  case (TaskBundlesReseted u)
  then have "sv_dm sv' = OnBundlesReseted E u (sv_dm sv)" using assms(1) by (auto simp: RunTask_def)
  then show ?thesis
    using assms(2) sys.Clear_lawful dm_step_inv [OF dm_step.BundlesReseted [OF refl]] by (simp add: OnBundlesReseted_def)
next
  case TaskGetAllDriverInfos
  then show ?thesis using assms by (auto simp: RunTask_def bindE_eq_Inr)
qed

lemma Bind_ok:
  assumes "DriverExtMgr_BindDevice E C k cb sv = Inr (e, r, sv')" and "is_caller granted C" and ok: "sys_ok P dev_at granted sv"
  shows "sys_ok P dev_at granted sv'"
proof (cases "VerifyPermission C ACCESS_EXTENSIONAL")
  case True
  then obtain dm where dm: "ConnectDevice E k (cl_token C) cb (sv_dm sv) = Inr (r, dm)" "sv' = sv\<lparr>sv_dm := dm\<rparr>"
    using assms(1) by (auto simp: DriverExtMgr_BindDevice_def bindE_eq_Inr)
  have "permitted granted (cl_token C)" using True assms(2) by (simp add: permitted_def is_caller_def VerifyPermission_def)
  then show ?thesis
    using ok dm sys.Connect_lawful [OF dm(1)] dm_step_inv [OF dm_step.Connect [OF dm(1)]] by simp
qed (use assms in \<open>auto simp: DriverExtMgr_BindDevice_def\<close>)

lemma BindDriver_ok:
  assumes "BindDriverWithDeviceId J E C k cb sv = Inr (e, r, sv')" and "is_caller granted C" and ok: "sys_ok P dev_at granted sv"
  shows "sys_ok P dev_at granted sv'"
proof (cases "VerifyPermission C ACCESS_DDK_DRIVERS")
  case True
  then obtain apps dm where dm: "ConnectDriverWithDeviceId E k (cl_token C) apps cb (sv_dm sv) = Inr (r, dm)"
      "sv' = sv\<lparr>sv_dm := dm\<rparr>"
    using assms(1) by (auto simp: BindDriverWithDeviceId_def bindE_eq_Inr split: prod.splits)
  have "permitted granted (cl_token C)" using True assms(2) by (simp add: permitted_def is_caller_def VerifyPermission_def)
  then show ?thesis
    using ok dm sys.ConnectDriver_lawful [OF dm(1)] dm_step_inv [OF dm_step.ConnectDriver [OF dm(1)]] by simp
qed (use assms in \<open>auto simp: BindDriverWithDeviceId_def\<close>)

lemma Unbind_ok:
  assumes "DriverExtMgr_UnBindDevice E C k sv = (e, r, sv')" and ok: "sys_ok P dev_at granted sv"
  shows "sys_ok P dev_at granted sv'"
proof (cases "VerifyPermission C ACCESS_EXTENSIONAL")
  case True
  then obtain dm where dm: "DisConnectDevice E k (cl_token C) (sv_dm sv) = (r, dm)" "sv' = sv\<lparr>sv_dm := dm\<rparr>"
    using assms(1) by (auto simp: DriverExtMgr_UnBindDevice_def split: prod.splits)
  then show ?thesis
    using ok sys.DisConnect_lawful [OF dm(1)] dm_step_inv [OF dm_step.DisConnect [OF dm(1)]] by simp
qed (use assms in \<open>auto simp: DriverExtMgr_UnBindDevice_def\<close>)

lemma UnbindDriver_ok:
  assumes "UnBindDriverWithDeviceId E C k sv = (e, r, sv')" and ok: "sys_ok P dev_at granted sv"
  shows "sys_ok P dev_at granted sv'"
proof (cases "VerifyPermission C ACCESS_DDK_DRIVERS")
  case True
  then obtain dm where dm: "DisConnectDriverWithDeviceId E k (cl_token C) (sv_dm sv) = (r, dm)" "sv' = sv\<lparr>sv_dm := dm\<rparr>"
    using assms(1) by (auto simp: UnBindDriverWithDeviceId_def split: prod.splits)
  then show ?thesis
    using ok sys.DisConnectDriver_lawful [OF dm(1)] dm_step_inv [OF dm_step.DisConnectDriver [OF dm(1)]] by simp
qed (use assms in \<open>auto simp: UnBindDriverWithDeviceId_def\<close>)

lemma QueryDrivers_dm: "DriverExtMgr_QueryDriverInfo P C b u sv = Inr (e, r, ds, sv') \<Longrightarrow> sv_dm sv' = sv_dm sv"
  by (auto simp: DriverExtMgr_QueryDriverInfo_def Let_def bindE_eq_Inr split: if_splits)

lemma Notify_dm: "NotifyUsbPeripheralFault J fs base icon C domain name sv = (r, sent, sv') \<Longrightarrow> sv_dm sv' = sv_dm sv"
  by (auto simp: NotifyUsbPeripheralFault_def Let_def split: if_splits prod.splits)

lemma sys_step_ok:
  assumes "sys_step E P dev_at granted sv sv'" and ok: "sys_ok P dev_at granted sv"
  shows "sys_ok P dev_at granted sv'"
  using assms(1)
proof (cases rule: sys_step.cases)
  case Start
  then show ?thesis using OnStart_dm SetCallback_ok [OF ok] by blast
next
  case Ability
  then show ?thesis using ok by (simp add: OnAddSystemAbility_dm)
next
  case Plug
  then show ?thesis using Plug_ok [OF ok] by (simp add: OnDeviceAdd_def)
next
  case Unplug
  then show ?thesis using Unplug_ok [OF ok] by (simp add: OnDeviceRemove_def)
next
  case Task
  have "sys_ok P dev_at granted (with_pkg f sv)" for f using ok by (simp add: with_pkg_def)
  then show ?thesis using RunTask_ok Task by blast
next
  case Bind
  then show ?thesis using Bind_ok ok by blast
next
  case Unbind
  then show ?thesis using Unbind_ok ok by blast
next
  case BindDriver
  then show ?thesis using BindDriver_ok ok by blast
next
  case UnbindDriver
  then show ?thesis using UnbindDriver_ok ok by blast
next
  case QueryDrivers
  then show ?thesis using same_dm_ok [OF ok] QueryDrivers_dm by blast
next
  case Notify
  then show ?thesis using same_dm_ok [OF ok] Notify_dm by blast
next
  case (Connected c remote code)
  then show ?thesis using ok sys.Connected_lawful dm_step_inv [OF dm_step.Connected [OF refl]] by simp
next
  case (Disconnected c code)
  then show ?thesis using ok sys.Disconnected_lawful dm_step_inv [OF dm_step.Disconnected [OF refl]] by simp
next
  case (Died k c)
  then show ?thesis using ok sys.Died_lawful dm_step_inv [OF dm_step.Died [OF refl]] by simp
qed (use ok in \<open>simp_all add: with_pkg_def\<close>)

lemma sys_reachable_ok: "sys_reachable E P dev_at granted sv \<Longrightarrow> sys_ok P dev_at granted sv"
proof (induction rule: sys_reachable.induct)
  case (Init sv)
  then show ?case by (simp add: dm_init_inv sys.lawful_init)
next
  case (Step sv sv')
  then show ?case using sys_step_ok by blast
qed

lemma reachable_sound:
  "sys_reachable E P dev_at granted sv \<Longrightarrow> lookup_device (dm_deviceMap (sv_dm sv)) b k = Some d \<Longrightarrow>
   sound (pe_lower P) dev_at granted d \<and> GetDeviceId (dv_info d) = k"
  using sys_reachable_ok table_all_lookup table_ok_lookup(1) by (metis dm_inv_def sys.lawful_def)

end
