(* ===== verification/System_Claims.thy ===== *)
theory System_Claims
  imports System
begin

text \<open>
  What the running service guarantees: the drivers its devices have, the callers that are bound
  to them, and the answers clients can read.
\<close>

section \<open>A service with a device\<close>

definition idle_service :: "list_db service" where
  "idle_service =
     \<lparr>sv_dm = dm_init, sv_pkg = installed, sv_core = usb_core, sv_faults = [], sv_locale = no_locale,
      sv_accountPromiseUsed = False, sv_bmsPromiseUsed = False, sv_cesPromiseUsed = False, sv_promises = []\<rparr>"

definition a_usb_device :: device_info where
  "a_usb_device = sample_usb_device 2 5"

definition plugged_service :: "list_db service" where
  "plugged_service =
     idle_service\<lparr>sv_dm := snd (OnDeviceAdd ok_env (matcher_of an_env (sv_pkg idle_service)) a_usb_device (sv_dm idle_service))\<rparr>"

definition only_five :: "u32 \<Rightarrow> string \<Rightarrow> bool" where
  "only_five t p \<longleftrightarrow> t = 5"

definition caller_five :: ipc_caller where
  "caller_five =
     \<lparr>cl_token = 5, cl_granted = \<lambda>_. True, cl_systemApp = True, cl_native = False, cl_reqPermission = \<lambda>_. (1, [])\<rparr>"

definition bound_service :: "list_db service" where
  "bound_service =
     (case DriverExtMgr_BindDevice ok_env caller_five (GetDeviceId a_usb_device) (Some 9) plugged_service of
        Inl _ \<Rightarrow> plugged_service | Inr (_, _, sv) \<Rightarrow> sv)"

lemma plugged_reachable: "sys_reachable ok_env an_env (\<lambda>_. a_usb_device) only_five plugged_service"
proof (rule sys_reachable.Step [OF sys_reachable.Init])
  show "sv_dm idle_service = dm_init" by (simp add: idle_service_def)
  show "sys_step ok_env an_env (\<lambda>_. a_usb_device) only_five idle_service plugged_service"
    unfolding plugged_service_def by (rule sys_step.Plug [OF refl surjective_pairing])
qed

lemma bound_ok:
  "\<exists>e r. DriverExtMgr_BindDevice ok_env caller_five (GetDeviceId a_usb_device) (Some 9) plugged_service = Inr (e, r, bound_service)"
proof -
  have "\<not> isl (DriverExtMgr_BindDevice ok_env caller_five (GetDeviceId a_usb_device) (Some 9) plugged_service)"
    by code_simp
  then show ?thesis by (auto simp: bound_service_def isl_def split: sum.splits)
qed

lemma bound_reachable: "sys_reachable ok_env an_env (\<lambda>_. a_usb_device) only_five bound_service"
proof -
  have "is_caller only_five caller_five" by (simp add: is_caller_def only_five_def caller_five_def fun_eq_iff)
  with bound_ok show ?thesis using sys_reachable.Step [OF plugged_reachable sys_step.Bind] by blast
qed

lemma bound_service_device:
  "\<exists>d x. lookup_device (dm_deviceMap (sv_dm bound_service)) 1 (GetDeviceId a_usb_device) = Some d
    \<and> dv_driverInfo d = Some installed_driver \<and> (5, x) \<in> set (dv_boundCallerInfos d)"
proof -
  have "case lookup_device (dm_deviceMap (sv_dm bound_service)) 1 (GetDeviceId a_usb_device) of None \<Rightarrow> False
    | Some d \<Rightarrow> dv_driverInfo d = Some installed_driver \<and> map fst (dv_boundCallerInfos d) = [5]"
    by code_simp
  then show ?thesis by (fastforce split: option.splits)
qed

section \<open>Drivers and callers\<close>

text \<open>
  C18: in every state the service can reach, a driver that a device has fits the device that is
  plugged in under that number: vendor and product of the device are in the lists of the driver.
  This holds whatever packages are installed, updated or removed, devices plugged and unplugged,
  users switched, and clients bound in between.
\<close>

theorem devices_have_fitting_drivers:
  assumes "sys_reachable E P dev_at granted sv" and "lookup_device (dm_deviceMap (sv_dm sv)) b k = Some d"
    and "dv_driverInfo d = Some dr"
  shows "dv_info d = dev_at k \<and> fits (pe_lower P) dr (dev_at k)"
  using reachable_sound [OF assms(1,2)] assms(3) by (auto simp: sound_def)

theorem devices_have_fitting_drivers_witness: "fits ascii_lower installed_driver a_usb_device"
proof -
  obtain d where "lookup_device (dm_deviceMap (sv_dm bound_service)) 1 (GetDeviceId a_usb_device) = Some d"
      "dv_driverInfo d = Some installed_driver"
    using bound_service_device by blast
  from devices_have_fitting_drivers [OF bound_reachable this] show ?thesis by (simp add: an_env_def)
qed

text \<open>
  C19: in every state the service can reach, every caller that is bound to a device holds one of
  the two permissions that the service asks for.
\<close>

theorem only_permitted_callers_bound:
  assumes "sys_reachable E P dev_at granted sv" and "lookup_device (dm_deviceMap (sv_dm sv)) b k = Some d"
    and "(t, x) \<in> set (dv_boundCallerInfos d)"
  shows "granted t ACCESS_EXTENSIONAL \<or> granted t ACCESS_DDK_DRIVERS"
proof -
  have "t \<in> callers d" unfolding callers_def by (rule rev_image_eqI [OF assms(3)]) simp
  then show ?thesis using reachable_sound [OF assms(1,2)] by (auto simp: sound_def permitted_def)
qed

theorem only_permitted_callers_bound_witness:
  "\<exists>d x. lookup_device (dm_deviceMap (sv_dm bound_service)) 1 (GetDeviceId a_usb_device) = Some d
    \<and> (5, x) \<in> set (dv_boundCallerInfos d) \<and> (only_five 5 ACCESS_EXTENSIONAL \<or> only_five 5 ACCESS_DDK_DRIVERS)"
  using bound_service_device only_permitted_callers_bound [OF bound_reachable] by blast

section \<open>Answers\<close>

text \<open>A device that the USB subscriber announces, with as many interfaces as a message may hold.\<close>

definition usb_ready :: "device \<Rightarrow> bool" where
  "usb_ready d \<longleftrightarrow> di_busType (dv_info d) = BUS_TYPE_USB
     \<and> (case di_usb (dv_info d) of None \<Rightarrow> False | Some u \<Rightarrow> length (uf_interfaceDescList u) \<le> 512)"

text \<open>What an answer says of a device.\<close>

definition tells :: "device_info_data \<Rightarrow> device \<Rightarrow> bool" where
  "tells x d \<longleftrightarrow> dx_deviceId x = GetDeviceId (dv_info d) \<and> dx_isDriverMatched x = HasDriver d
     \<and> dx_driverUid x = (if HasDriver d then dv_driverUid d else [])
     \<and> (case (dx_usb x, di_usb (dv_info d)) of
          (Some ux, Some u) \<Rightarrow> ux_productId ux = uf_idProduct u \<and> ux_vendorId ux = uf_idVendor u
            \<and> map (map_option (\<lambda>x. (ui_bInterfaceNumber x, ui_bClass x, ui_bSubClass x, ui_bProtocol x))) (ux_interfaceDescList ux)
              = map (\<lambda>s. Some (id_bInterfaceNumber s, id_bInterfaceClass s, id_bInterfaceSubClass s, id_bInterfaceProtocol s))
                  (uf_interfaceDescList u)
        | _ \<Rightarrow> False)"

lemma bus_masked: "GetBusTypeByDeviceId (GetDeviceId i) = di_busType i AND 0xFFFFFFF"
proof -
  have m: "(0xFFFFFFF :: u64) = mask 28" "(0xFFFFFFF :: u32) = mask 28"
    by (simp_all add: mask_eq_exp_minus_1)
  have "GetBusTypeByDeviceId k = bus_of_device_id k AND 0xFFFFFFF" for k
    unfolding GetBusTypeByDeviceId_def bus_of_device_id_def m by (rule bit_word_eqI) (auto simp: bit_simps)
  then show ?thesis by simp
qed

lemma ParseToDeviceInfoData_ready:
  assumes "usb_ready d"
  shows "\<exists>x. ParseToDeviceInfoData d = Inr (Some x) \<and> tells x d \<and> device_info_valid x"
proof -
  obtain u where u: "di_usb (dv_info d) = Some u" "length (uf_interfaceDescList u) \<le> 512" "di_busType (dv_info d) = 1"
    using assms by (auto simp: usb_ready_def split: option.splits)
  have "GetBusTypeByDeviceId (GetDeviceId (dv_info d)) = 1" using bus_masked [of "dv_info d"] u(3) by simp
  then show ?thesis
    using u by (auto simp: ParseToDeviceInfoData_def tells_def device_info_valid_def GetDriverUid_def Let_def list_all_iff)
qed

lemma ParseDevices_ready:
  "list_all usb_ready ds \<Longrightarrow>
   \<exists>ys. ParseDevices ds xs = Inr (xs @ ys) \<and> list_all2 tells ys ds \<and> list_all device_info_valid ys"
proof (induction ds arbitrary: xs)
  case (Cons d ds)
  obtain x where x: "ParseToDeviceInfoData d = Inr (Some x)" "tells x d" "device_info_valid x"
    using ParseToDeviceInfoData_ready Cons.prems by auto
  obtain ys where "ParseDevices ds (xs @ [x]) = Inr ((xs @ [x]) @ ys)" "list_all2 tells ys ds" "list_all device_info_valid ys"
    using Cons.IH [of "xs @ [x]"] Cons.prems by auto
  then show ?case using x by (intro exI [of _ "x # ys"]) simp
qed simp

text \<open>
  a system application with the permission that asks for all devices gets one entry for each
  visible device, in order, with its number, its USB identifiers, its interfaces and its driver,
  and every entry that is marshalled is read back unchanged by the client.
\<close>

theorem query_answer_is_read:
  assumes "IsSystemAppOrSa C" and "VerifyPermission C ACCESS_EXTENSIONAL"
    and "list_all usb_ready (QueryAllDevices (sv_dm sv))" and "parcel_ok Q c" and "c p = []"
  shows "\<exists>xs. DriverExtMgr_QueryDeviceInfo C False k sv = Inr (EDM_OK, EDM_OK, xs)
    \<and> list_all2 tells xs (QueryAllDevices (sv_dm sv))
    \<and> (\<forall>x \<in> set xs. \<forall>p'. DeviceInfo_Marshalling Q x p = Some p' \<longrightarrow>
        (\<exists>q. DeviceInfoData_Unmarshalling Q p' = (Some x, q) \<and> c q = []))"
proof -
  obtain ys where ys: "ParseDevices (QueryAllDevices (sv_dm sv)) [] = Inr ys"
      "list_all2 tells ys (QueryAllDevices (sv_dm sv))" "list_all device_info_valid ys"
    using ParseDevices_ready [OF assms(3), of "[]"] by auto
  have "\<exists>q. DeviceInfoData_Unmarshalling Q p' = (Some x, q) \<and> c q = []"
    if "x \<in> set ys" "DeviceInfo_Marshalling Q x p = Some p'" for x p'
    using codec.roundtrip [OF DeviceInfo_codec [OF assms(4)] _ assms(5) that(2)] ys(3) that(1) by (simp add: list_all_iff)
  then show ?thesis using assms(1,2) ys by (simp add: DriverExtMgr_QueryDeviceInfo_def)
qed

lemma plugged_visible:
  obtains d where "QueryAllDevices (sv_dm plugged_service) = [d]" and "HasDriver d" and "dv_driverUid d = ''Ext-7''"
    and "dv_info d = a_usb_device"
proof -
  have "map (\<lambda>d. (HasDriver d, dv_driverUid d, dv_info d)) (QueryAllDevices (sv_dm plugged_service)) = [(True, ''Ext-7'', a_usb_device)]"
    by code_simp
  then show ?thesis using that by auto
qed

lemma plugged_ready: "list_all usb_ready (QueryAllDevices (sv_dm plugged_service))"
  by (rule plugged_visible) (simp add: usb_ready_def a_usb_device_def sample_usb_device_def sample_usb_def)

lemma caller_five_ok: "IsSystemAppOrSa caller_five" "VerifyPermission caller_five ACCESS_EXTENSIONAL"
  by (simp_all add: caller_five_def IsSystemAppOrSa_def VerifyPermission_def)

theorem query_answer_is_read_witness:
  "\<exists>x. DriverExtMgr_QueryDeviceInfo caller_five False 0 plugged_service = Inr (EDM_OK, EDM_OK, [x])
    \<and> dx_isDriverMatched x \<and> dx_driverUid x = ''Ext-7'' \<and> dx_deviceId x = GetDeviceId a_usb_device"
proof -
  obtain d where d: "QueryAllDevices (sv_dm plugged_service) = [d]" "HasDriver d" "dv_driverUid d = ''Ext-7''" "dv_info d = a_usb_device"
    by (rule plugged_visible)
  from query_answer_is_read [OF caller_five_ok plugged_ready queue_parcel_ok, of "[]" 0]
  obtain xs where xs: "DriverExtMgr_QueryDeviceInfo caller_five False 0 plugged_service = Inr (EDM_OK, EDM_OK, xs)"
      "list_all2 tells xs (QueryAllDevices (sv_dm plugged_service))"
    by auto
  from xs(2) obtain x where "xs = [x]" "tells x d" by (auto simp: d(1) list_all2_Cons2)
  then show ?thesis using xs(1) d by (auto simp: tells_def)
qed

end
