(* ===== verification/Service_Libs.thy ===== *)
theory Service_Libs
  imports Service Pkg_Mgr_Claims
begin

text \<open>
  What the service does with the libraries it runs on: it loads the bus extension library
  (LoadBusExtensionLibs of bus_extension_core.cpp, the constructor function at the end of
  usb_bus_extension.cpp), takes it down again, creates the table of its database
  (PkgDataBaseCallBack of pkg_database.cpp) and fills the request of a notification
  (notification_peripheral.cpp).

  The dynamic loader, the relational store, the account and the notification service answer
  through parameters.
\<close>

section \<open>The bus extension library\<close>

text \<open>
  \<open>ld_dlopen\<close> gives a handle and says whether the call ran the constructor functions of the library,
  which happens when the library was not loaded before.
\<close>

record loader =
  ld_aarch64 :: bool
  ld_realpath :: "string \<Rightarrow> string option"
  ld_dlopen :: "string \<Rightarrow> (nat \<times> bool) option"

record bus_libs =
  bl_core :: "usb_bus_extension bus_core"
  bl_handleArr :: "nat option list"

definition new_bus_libs :: bus_libs where
  "new_bus_libs = \<lparr>bl_core = \<lparr>bc_busExtensions = []\<rparr>, bl_handleArr = replicate (unat BUS_TYPE_MAX) None\<rparr>"

definition BUS_EXTENSION_SO_PATH :: "loader \<Rightarrow> string" where
  "BUS_EXTENSION_SO_PATH L = (if ld_aarch64 L then ''/system/lib64'' else ''/system/lib'')"

definition RegBusExtension :: "usb_bus_extension bus_core \<Rightarrow> usb_bus_extension bus_core" where
  "RegBusExtension core = snd (Register BUS_TYPE_USB (Some new_usb_bus_extension) core)"

text \<open>One round of the loop over the bus types.\<close>

definition LoadBusExtensionLib :: "loader \<Rightarrow> u32 \<Rightarrow> bus_libs \<Rightarrow> bus_libs res" where
  "LoadBusExtensionLib L i s =
     (let libPath = BUS_EXTENSION_SO_PATH L @ ''/'' @ ''lib'' in
      if i \<noteq> BUS_TYPE_USB then Inr s
      else
        let libPath = libPath @ ''driver_extension_usb_bus'' @ ''.z.so'' in
        case ld_realpath L libPath of None \<Rightarrow> Inr s
        | Some realPath \<Rightarrow>
            (case ld_dlopen L realPath of None \<Rightarrow> Inr s
             | Some (handler, constructed) \<Rightarrow>
                 let s = (if constructed then s\<lparr>bl_core := RegBusExtension (bl_core s)\<rparr> else s) in
                 if length (bl_handleArr s) \<le> unat i then Inl Oob_write
                 else Inr (s\<lparr>bl_handleArr := (bl_handleArr s)[unat i := Some handler]\<rparr>)))"

fun LoadLoop :: "loader \<Rightarrow> u32 list \<Rightarrow> bus_libs \<Rightarrow> bus_libs res" where
  "LoadLoop L [] s = Inr s"
| "LoadLoop L (i # is) s = bindE (LoadBusExtensionLib L i s) (LoadLoop L is)"

definition LoadBusExtensionLibs :: "loader \<Rightarrow> bus_libs \<Rightarrow> bus_libs res" where
  "LoadBusExtensionLibs L s = LoadLoop L (map of_nat [unat BUS_TYPE_USB..<unat BUS_TYPE_MAX]) s"

text \<open>The handles that the destructor of the core closes, in order.\<close>

definition BusExtensionCore_destroyed :: "bus_libs \<Rightarrow> nat list \<times> bus_libs" where
  "BusExtensionCore_destroyed s =
     (List.map_filter (\<lambda>h. h) (take (unat BUS_TYPE_MAX) (bl_handleArr s)),
      s\<lparr>bl_handleArr := map (\<lambda>_. None) (take (unat BUS_TYPE_MAX) (bl_handleArr s))
          @ drop (unat BUS_TYPE_MAX) (bl_handleArr s)\<rparr>)"

subsection \<open>The end of the USB extension\<close>

datatype host_call = UnbindSubscriber | RemoveDeathRecipient

definition UsbBusExtension_destroyed :: "usb_services \<Rightarrow> usb_bus_extension \<Rightarrow> host_call list" where
  "UsbBusExtension_destroyed S u =
     (if us_passThrough S then
        if ub_usbInterface u \<and> ub_subScriber u then [UnbindSubscriber] else []
      else
        if ub_usbInterface u \<and> ub_subScriber u \<and> ub_recipient u
        then [UnbindSubscriber, RemoveDeathRecipient] else [])"

definition SetUsbInferface :: "bool \<Rightarrow> usb_bus_extension \<Rightarrow> usb_bus_extension" where
  "SetUsbInferface iusb u = u\<lparr>ub_usbInterface := iusb\<rparr>"

definition SetUsbDdk :: "bool \<Rightarrow> usb_bus_extension \<Rightarrow> usb_bus_extension" where
  "SetUsbDdk iUsbDdk u = u\<lparr>ub_iUsbDdk := iUsbDdk\<rparr>"

definition GetNewDriverInfoExtObject :: usb_driver_ids where
  "GetNewDriverInfoExtObject = no_ids"

text \<open>When the USB service dies the device manager is unloaded: \<open>unload\<close> is the answer, if there is an ability manager.\<close>

definition OnUsbdDied :: "bool \<Rightarrow> string list" where
  "OnUsbdDied samgrProxy = (if \<not> samgrProxy then [] else [''UnloadSystemAbility''])"

section \<open>The table of the database\<close>

definition CREATE_PKG_TABLE :: string where
  "CREATE_PKG_TABLE =
     ''CREATE TABLE IF NOT EXISTS [pkgInfoTable]('' @ ''[id] INTEGER PRIMARY KEY AUTOINCREMENT, '' @
     ''[driverUid] TEXT,'' @ ''[userId] INTEGER,'' @ ''[appIndex] INTEGER,'' @ ''[bundleAbility] TEXT,'' @
     ''[bundleName] TEXT,'' @ ''[driverName] TEXT,'' @ ''[driverInfo] TEXT );''"

text \<open>\<open>exec\<close> is \<open>ExecuteSql\<close> of the store.\<close>

definition PkgDb_OnCreate :: "(string \<Rightarrow> 's \<Rightarrow> int \<times> 's) \<Rightarrow> 's \<Rightarrow> int \<times> 's" where
  "PkgDb_OnCreate exec s = (case exec CREATE_PKG_TABLE s of (ret, s) \<Rightarrow> (code_of ret, s))"

definition PkgDb_OnUpgrade :: "'s \<Rightarrow> int \<Rightarrow> int \<Rightarrow> int \<times> 's" where
  "PkgDb_OnUpgrade s oldVersion newVersion = (PKG_OK, s)"

definition PkgDb_OnDowngrade :: "'s \<Rightarrow> int \<Rightarrow> int \<Rightarrow> int \<times> 's" where
  "PkgDb_OnDowngrade s oldVersion newVersion = (PKG_OK, s)"

text \<open>\<open>Update\<close> with predicates; \<open>update\<close> is the call of the store.\<close>

definition UpdateByPredicates ::
  "(db_row \<Rightarrow> (string \<times> string) list \<Rightarrow> 's \<Rightarrow> int \<times> 's) \<Rightarrow> db_row \<Rightarrow> (string \<times> string) list \<Rightarrow> 's pkg_db \<Rightarrow> int \<times> 's pkg_db" where
  "UpdateByPredicates update values conds db =
     (if \<not> pd_store db then (PKG_RDB_NO_INIT, db)
      else case update values conds (pd_data db) of (ret, s) \<Rightarrow> (code_of ret, db\<lparr>pd_data := s\<rparr>))"

text \<open>The names in brackets of an SQL text.\<close>

fun bracketed :: "string \<Rightarrow> string list" where
  "bracketed [] = []"
| "bracketed (c # s) =
     (if c = CHR ''['' then takeWhile (\<lambda>c. c \<noteq> CHR '']'') s # bracketed s else bracketed s)"

section \<open>The request of a notification\<close>

text \<open>\<open>nr_littleIcon\<close>: an icon is set, with the style of a badge.\<close>

record notification_request =
  nr_id :: int
  nr_title :: string
  nr_text :: string
  nr_littleIcon :: bool
  nr_creatorUid :: int
  nr_creatorPid :: int
  nr_creatorUserId :: int
  nr_inProgress :: bool
  nr_unremovable :: bool
  nr_tapDismissed :: bool
  nr_slotType :: string
  nr_controlFlags :: u32
  nr_wantAction :: string
  nr_wantUri :: string
  nr_wantEntities :: "string list"

text \<open>
  \<open>ne_icon\<close>: \<open>None\<close> when the file or the image source is missing, else whether it was decoded.
  \<open>ne_userOf\<close> leaves the user 0 when the account service has no answer.
\<close>

record notify_env =
  ne_icon :: "string \<Rightarrow> bool option"
  ne_hash :: "string \<Rightarrow> u64"
  ne_userOf :: "int \<Rightarrow> int option"
  ne_pid :: int

definition Fault_GetPixelMap :: "notify_env \<Rightarrow> string \<Rightarrow> bool \<times> bool" where
  "Fault_GetPixelMap N path = (case ne_icon N path of None \<Rightarrow> (False, False) | Some decoded \<Rightarrow> (True, decoded))"

definition NOTIFICATION_SERVICE_SYS_ABILITY_ID :: int where "NOTIFICATION_SERVICE_SYS_ABILITY_ID = 3085"

definition NOTIFICATION_CONTROL_DIALOG_FLAG :: u32 where "NOTIFICATION_CONTROL_DIALOG_FLAG = push_bit 9 1"

definition PERIPHERAL_ICON_PATH :: string where
  "PERIPHERAL_ICON_PATH = ''system/etc/peripheral/resources/peripheral_fault_icon.png''"

definition Fault_SetBasicOption :: "notify_env \<Rightarrow> notification_request \<Rightarrow> notification_request" where
  "Fault_SetBasicOption N r =
     r\<lparr>nr_creatorUid := NOTIFICATION_SERVICE_SYS_ABILITY_ID, nr_creatorPid := ne_pid N,
       nr_creatorUserId := (case ne_userOf N NOTIFICATION_SERVICE_SYS_ABILITY_ID of None \<Rightarrow> 0 | Some u \<Rightarrow> u),
       nr_inProgress := True, nr_unremovable := True, nr_tapDismissed := True,
       nr_slotType := ''SOCIAL_COMMUNICATION'', nr_controlFlags := NOTIFICATION_CONTROL_DIALOG_FLAG\<rparr>"

definition Fault_SetWantAgent :: "string \<Rightarrow> notification_request \<Rightarrow> notification_request" where
  "Fault_SetWantAgent uri r =
     r\<lparr>nr_wantAction := ''ohos.want.action.viewData'', nr_wantUri := uri,
       nr_wantEntities := [''entity.system.browsable'']\<rparr>"

text \<open>A request of which nothing is set yet: every field below is what the code has set.\<close>

definition new_request :: "int \<Rightarrow> notification_request" where
  "new_request n =
     \<lparr>nr_id = n, nr_title = [], nr_text = [], nr_littleIcon = False, nr_creatorUid = 0, nr_creatorPid = 0,
      nr_creatorUserId = 0, nr_inProgress = False, nr_unremovable = False, nr_tapDismissed = False,
      nr_slotType = [], nr_controlFlags = 0, nr_wantAction = [], nr_wantUri = [], nr_wantEntities = []\<rparr>"

text \<open>The result and the request that is published.\<close>

definition PublishFault :: "notify_env \<Rightarrow> fault_info \<Rightarrow> bool \<times> notification_request option" where
  "PublishFault N faultInfo =
     (case Fault_GetPixelMap N PERIPHERAL_ICON_PATH of (ok, icon) \<Rightarrow>
      if \<not> ok then (False, None)
      else
        let r = new_request (to_i32 (uint (ne_hash N (fi_title faultInfo))));
            r = (if icon then r\<lparr>nr_littleIcon := True\<rparr> else r);
            r = r\<lparr>nr_title := fi_title faultInfo, nr_text := fi_msg faultInfo\<rparr> in
        (True, Some (Fault_SetWantAgent (fi_uri faultInfo) (Fault_SetBasicOption N r))))"

section \<open>Odds and ends\<close>

text \<open>
  Functions that nothing in the repository calls, of drv_bundle_state_callback.cpp, and one that hands
  a call through, of ext_permission_manager.cpp. \<open>api\<close> and \<open>permission\<close> are answers of the bundle manager.
\<close>

definition CheckBundleMgrProxyPermission ::
  "('j, 's) pkg_env \<Rightarrow> bool \<Rightarrow> bool \<Rightarrow> 's pkg_mgr \<Rightarrow> bool \<times> 's pkg_mgr" where
  "CheckBundleMgrProxyPermission E api permission m =
     (case GetBundleMgrProxy E m of (ok, m) \<Rightarrow>
      if \<not> ok then (False, m)
      else if \<not> api then (False, m)
      else if \<not> permission then (False, m)
      else (True, m))"

definition ClearDriverInfo :: "driver_info \<Rightarrow> driver_info" where
  "ClearDriverInfo d = d\<lparr>dr_bus := [], dr_vendor := [], dr_version := [], dr_ext := None\<rparr>"

definition GetHapTokenInfo :: "(u32 \<Rightarrow> int \<times> 'h) \<Rightarrow> u32 \<Rightarrow> bool \<times> 'h" where
  "GetHapTokenInfo kit tokenId = (case kit tokenId of (ret, hapTokenInfo) \<Rightarrow> (ret = 0, hapTokenInfo))"

section \<open>Facts\<close>

lemma default_request_fields:
  "PublishFault N f = (ok, Some r) \<Longrightarrow>
   nr_creatorUid r = 3085 \<and> nr_controlFlags r = 512 \<and> nr_unremovable r \<and> nr_wantEntities r = [''entity.system.browsable'']"
  by (auto simp: PublishFault_def Fault_SetWantAgent_def Fault_SetBasicOption_def NOTIFICATION_SERVICE_SYS_ABILITY_ID_def
      NOTIFICATION_CONTROL_DIALOG_FLAG_def Let_def split: prod.splits if_splits)

text \<open>The short form of Faults is what the request shows.\<close>

theorem request_refines_short_form:
  "map_prod id (map_option (\<lambda>r. (nr_title r, nr_text r, nr_wantUri r))) (PublishFault N f)
   = PeripheralDeviceNotification (ne_icon N PERIPHERAL_ICON_PATH \<noteq> None) f"
  by (auto simp: PublishFault_def PeripheralDeviceNotification_def Fault_GetPixelMap_def Fault_SetWantAgent_def Fault_SetBasicOption_def
      Let_def split: option.split)

text \<open>Every column that the service writes or reads is in the table it creates.\<close>

theorem columns_are_created:
  "bracketed CREATE_PKG_TABLE = ''pkgInfoTable'' # ''id'' # map fst (values_of p)"
  by (simp add: CREATE_PKG_TABLE_def values_of_def)

section \<open>With and without the library\<close>

text \<open>The library can be found, is loaded and runs its constructor function.\<close>

definition library_path :: "loader \<Rightarrow> string" where
  "library_path L = BUS_EXTENSION_SO_PATH L @ ''/libdriver_extension_usb_bus.z.so''"

definition library_constructed :: "loader \<Rightarrow> bool" where
  "library_constructed L \<longleftrightarrow>
     (case ld_realpath L (library_path L) of None \<Rightarrow> False
      | Some p \<Rightarrow> (case ld_dlopen L p of None \<Rightarrow> False | Some (_, c) \<Rightarrow> c))"

lemma LoadBusExtensionLibs_once: "LoadBusExtensionLibs L s = LoadBusExtensionLib L BUS_TYPE_USB s"
proof -
  have "[unat BUS_TYPE_USB..<unat BUS_TYPE_MAX] = [1]" by (simp add: upt_rec)
  then show ?thesis by (cases "LoadBusExtensionLib L BUS_TYPE_USB s") (simp_all add: LoadBusExtensionLibs_def)
qed

text \<open>
  loading writes no handle outside the array, and afterwards there is an extension for a
  bus exactly when the library ran its constructor function and the bus is called usb, in any
  case of letters.
\<close>

theorem library_provides_usb:
  "\<exists>s. LoadBusExtensionLibs L new_bus_libs = Inr s
     \<and> (\<forall>lower name x. GetBusExtensionByName lower (bl_core s) name = Some x
          \<longleftrightarrow> library_constructed L \<and> lower name = ''usb'' \<and> x = new_usb_bus_extension)"
proof -
  have reg: "GetBusExtensionByName lower (RegBusExtension \<lparr>bc_busExtensions = []\<rparr>) name = Some x
      \<longleftrightarrow> lower name = ''usb'' \<and> x = new_usb_bus_extension" for lower name x
    by (auto simp: GetBusExtensionByName_def GetBusTypeByName_def busTypeMap_def RegBusExtension_def Register_def
        MAX_BUS_EXTENSIONS_def Let_def)
  have none: "GetBusExtensionByName lower \<lparr>bc_busExtensions = []\<rparr> name = None" for lower name
    by (simp add: GetBusExtensionByName_def Let_def)
  show ?thesis
    unfolding LoadBusExtensionLibs_once
    by (auto simp: LoadBusExtensionLib_def new_bus_libs_def library_constructed_def library_path_def Let_def reg none
        split: option.splits)
qed

lemma MatchStored_no_core:
  assumes "\<And>name. GetBusExtensionByName (pe_lower E) (pe_core E) name = None"
  shows "MatchStored E dev ps = Inr r \<Longrightarrow> r = None"
  using assms by (induction ps) (auto simp: bindE_eq_Inr split: prod.splits)

text \<open>
  without the library no device is ever matched to a driver, whatever is stored.
\<close>

theorem no_library_no_driver:
  assumes "\<not> library_constructed L" and "LoadBusExtensionLibs L new_bus_libs = Inr s" and "pe_core E = bl_core s"
    and "QueryMatchDriver E dev m = Inr (r, m')"
  shows "r = None"
proof -
  have "GetBusExtensionByName (pe_lower E) (pe_core E) name = None" for name
    using library_provides_usb [of L] assms(1-3)
    by (cases "GetBusExtensionByName (pe_lower E) (pe_core E) name") auto
  then show ?thesis
    using assms(4) MatchStored_no_core [of E]
    by (auto simp: QueryMatchDriver_def bindE_eq_Inr split: if_splits prod.splits sum.splits)
qed

text \<open>The device of Pkg_Mgr_Claims that is matched with the library is not matched without it.\<close>

lemma no_library_run:
  "QueryMatchDriver (an_env\<lparr>pe_core := \<lparr>bc_busExtensions = []\<rparr>\<rparr>) (sample_usb_device 2 5) installed = Inr (None, installed)"
  by code_simp

theorem no_library_no_driver_witness:
  "\<exists>m'. QueryMatchDriver (an_env\<lparr>pe_core := \<lparr>bc_busExtensions = []\<rparr>\<rparr>) (sample_usb_device 2 5) installed = Inr (None, m')"
proof -
  let ?L = "\<lparr>ld_aarch64 = True, ld_realpath = \<lambda>_. None, ld_dlopen = \<lambda>_. None\<rparr>"
  have n: "\<not> library_constructed ?L" "LoadBusExtensionLibs ?L new_bus_libs = Inr new_bus_libs"
    by (simp_all add: library_constructed_def LoadBusExtensionLibs_once LoadBusExtensionLib_def Let_def)
  have "pe_core (an_env\<lparr>pe_core := \<lparr>bc_busExtensions = []\<rparr>\<rparr>) = bl_core new_bus_libs"
    by (simp add: new_bus_libs_def)
  from no_library_no_driver [OF n this] no_library_run show ?thesis by blast
qed

end
