(* ===== verification/Scsi_Ddk.thy ===== *)
theory Scsi_Ddk
  imports Edm_Prelude
begin

text \<open>
  The SCSI part of the driver development kit, src/frameworks/ddk/scsi/scsi_ddk_api.cpp, in the
  build with ENABLE_EXTERNAL_DEVICE_DDK_SERVICE.

  The service behind it is another process; its answers to one call are the record \<open>H\<close>. Pointers
  that may be null are options; what a call writes through a pointer is in its result. Error
  codes are the integers of scsi_peripheral_types.h.
\<close>

unbundle bit_operations_syntax

section \<open>Types\<close>

abbreviation (input) SCSI_INVALID_PARAMETER :: int where "SCSI_INVALID_PARAMETER \<equiv> 401"
abbreviation (input) SCSI_SUCCESS :: int where "SCSI_SUCCESS \<equiv> 31700000"
abbreviation (input) SCSI_MEMORY_ERROR :: int where "SCSI_MEMORY_ERROR \<equiv> 31700001"
abbreviation (input) SCSI_IO_ERROR :: int where "SCSI_IO_ERROR \<equiv> 31700003"
abbreviation (input) SCSI_INIT_ERROR :: int where "SCSI_INIT_ERROR \<equiv> 31700005"
abbreviation (input) SCSI_SERVICE_ERROR :: int where "SCSI_SERVICE_ERROR \<equiv> 31700006"

abbreviation (input) MAX_SENSE_DATA_LEN :: nat where "MAX_SENSE_DATA_LEN \<equiv> 252"
abbreviation (input) MAX_CMD_DESC_BLOCK_LEN :: nat where "MAX_CMD_DESC_BLOCK_LEN \<equiv> 16"

text \<open>
  The requests of the service are types of another repository. Their fields are the ones the code
  sets; a size is kept at the width it has here.

  The mapped memory is the list of its bytes, \<open>None\<close> when the address is null.\<close>

record mem_map =
  mm_address :: "u8 list option"
  mm_size :: u64
  mm_offset :: u32
  mm_bufferLength :: u32
  mm_transferredLength :: u32

record scsi_response =
  sr_senseData :: "u8 list"
  sr_status :: int
  sr_maskedStatus :: u8
  sr_msgStatus :: u8
  sr_sbLenWr :: u8
  sr_hostStatus :: u16
  sr_driverStatus :: u16
  sr_resId :: int
  sr_duration :: u32

text \<open>The answer of the service has the same fields and the length of the transfer.\<close>

record hdi_response = scsi_response +
  hr_transferredLength :: int

record scsi_device =
  sd_impl :: nat
  sd_memMapFd :: int

record io_request =
  io_lbAddress :: u32
  io_transferLength :: u16
  io_control :: u8
  io_byte1 :: u8
  io_byte6 :: u8
  io_data :: "mem_map option"
  io_timeout :: u32

record hdi_io_request =
  hio_lbAddress :: u32
  hio_transferLength :: u16
  hio_control :: u8
  hio_byte1 :: u8
  hio_byte6 :: u8
  hio_memMapSize :: u64
  hio_timeout :: u32

record inquiry_request =
  iq_pageCode :: u8
  iq_allocationLength :: u16
  iq_control :: u8
  iq_byte1 :: u8
  iq_timeout :: u32

record hdi_inquiry_request = inquiry_request +
  hiq_memMapSize :: u64

record inquiry_info =
  ii_deviceType :: u8
  ii_idVendor :: "u8 list"
  ii_idProduct :: "u8 list"
  ii_revProduct :: "u8 list"
  ii_data :: "mem_map option"

record hdi_inquiry_info =
  hii_deviceType :: u8
  hii_idVendor :: "u8 list"
  hii_idProduct :: "u8 list"
  hii_revProduct :: "u8 list"

record verify_request =
  vr_lbAddress :: u32
  vr_verificationLength :: u16
  vr_control :: u8
  vr_byte1 :: u8
  vr_byte6 :: u8
  vr_timeout :: u32

record cdb_request =
  cr_commandDescriptorBlock :: "u8 list"
  cr_cdbLength :: u8
  cr_dataTransferDirection :: int
  cr_data :: "mem_map option"
  cr_timeout :: u32

record hdi_cdb_request =
  hcr_commandDescriptorBlock :: "u8 list"
  hcr_dataTransferDirection :: int
  hcr_memMapSize :: u64
  hcr_timeout :: u32

record small_request =
  sq_allocationLength :: u8
  sq_control :: u8
  sq_byte1 :: u8
  sq_timeout :: u32

record capacity_request =
  cq_lbAddress :: u32
  cq_control :: u8
  cq_byte8 :: u8
  cq_timeout :: u32

record capacity_info =
  ci_lbAddress :: u32
  ci_lbLength :: u32

section \<open>The service\<close>

text \<open>
  The commands that move data see the mapped memory and may change it. \<open>h_ipc_error\<close>: the code
  is one of the transport; \<open>h_rsize_max\<close> is the largest object the bounds-checking functions
  accept, \<open>h_empty_null\<close> says whether the data pointer of an empty vector is null.
\<close>

record scsi_hdi =
  h_get :: bool
  h_addDeathRecipient :: bool
  h_init :: int
  h_release :: int
  h_open :: "u64 \<Rightarrow> u8 \<Rightarrow> int \<times> scsi_device"
  h_close :: "nat \<Rightarrow> int"
  h_closeFd :: "int \<Rightarrow> bool"
  h_testUnitReady :: "nat \<Rightarrow> u8 \<times> u32 \<Rightarrow> int \<times> hdi_response"
  h_requestSense :: "nat \<Rightarrow> small_request \<Rightarrow> int \<times> hdi_response"
  h_readCapacity10 :: "nat \<Rightarrow> capacity_request \<Rightarrow> int \<times> capacity_info \<times> hdi_response"
  h_verify10 :: "nat \<Rightarrow> verify_request \<Rightarrow> int \<times> hdi_response"
  h_inquiry :: "nat \<Rightarrow> hdi_inquiry_request \<Rightarrow> u8 list \<Rightarrow> int \<times> hdi_inquiry_info \<times> hdi_response \<times> u8 list"
  h_read10 :: "nat \<Rightarrow> hdi_io_request \<Rightarrow> u8 list \<Rightarrow> int \<times> hdi_response \<times> u8 list"
  h_write10 :: "nat \<Rightarrow> hdi_io_request \<Rightarrow> u8 list \<Rightarrow> int \<times> hdi_response \<times> u8 list"
  h_sendByCdb :: "nat \<Rightarrow> hdi_cdb_request \<Rightarrow> u8 list \<Rightarrow> int \<times> hdi_response \<times> u8 list"
  h_mmap :: "int \<Rightarrow> u64 \<Rightarrow> u8 list option"
  h_munmap :: "u8 list option \<Rightarrow> u64 \<Rightarrow> bool"
  h_ipc_error :: "int \<Rightarrow> bool"
  h_rsize_max :: nat
  h_empty_null :: bool

record scsi_ddk =
  sg_ddk :: bool
  sg_recipient :: bool

definition TransToDdkErrCode :: "scsi_hdi \<Rightarrow> int \<Rightarrow> int" where
  "TransToDdkErrCode H ret =
     (if ret = 0 then SCSI_SUCCESS else if h_ipc_error H ret then SCSI_SERVICE_ERROR else ret)"

section \<open>The mapped memory\<close>

text \<open>
  \<open>memmove_s (buf + dst, destMax, buf + src, count)\<close> of C11 Annex K. When it refuses to copy it
  clears the destination.
\<close>

definition memmove_s :: "nat \<Rightarrow> nat \<Rightarrow> nat \<Rightarrow> nat \<Rightarrow> nat \<Rightarrow> u8 list \<Rightarrow> (bool \<times> u8 list) res" where
  "memmove_s rmax dst destMax src count buf =
     (if destMax = 0 \<or> rmax < destMax then Inr (False, buf)
      else if destMax < count
      then if length buf < dst + destMax then Inl Oob_write else Inr (False, write_at buf dst (replicate destMax 0))
      else if length buf < dst + count then Inl Oob_write
      else bindE (rd_bytes (drop src buf) count) (\<lambda>bs. Inr (True, write_at buf dst bs)))"

definition ValidateMemMap :: "mem_map option \<Rightarrow> int" where
  "ValidateMemMap data =
     (case data of None \<Rightarrow> SCSI_INVALID_PARAMETER
      | Some m \<Rightarrow>
          if mm_address m = None then SCSI_INVALID_PARAMETER
          else if ucast (mm_offset m) > mm_size m \<or> ucast (mm_bufferLength m) > mm_size m - ucast (mm_offset m)
          then SCSI_INVALID_PARAMETER
          else if mm_bufferLength m = 0 then SCSI_INVALID_PARAMETER
          else SCSI_SUCCESS)"

definition NormalizeMemMap :: "scsi_hdi \<Rightarrow> mem_map \<Rightarrow> (int \<times> mem_map) res" where
  "NormalizeMemMap H m =
     (let ret = ValidateMemMap (Some m) in
      if ret \<noteq> SCSI_SUCCESS then Inr (ret, m)
      else if mm_offset m \<noteq> 0 \<and> mm_bufferLength m > 0 then
        (case mm_address m of None \<Rightarrow> Inl Null_deref
         | Some buf \<Rightarrow>
             bindE (memmove_s (h_rsize_max H) 0 (unat (mm_size m)) (unat (mm_offset m)) (unat (mm_bufferLength m)) buf)
               (\<lambda>(ok, buf). Inr (if \<not> ok then SCSI_MEMORY_ERROR else SCSI_SUCCESS, m\<lparr>mm_address := Some buf\<rparr>)))
      else Inr (SCSI_SUCCESS, m))"

definition RestoreMemMap :: "scsi_hdi \<Rightarrow> u32 \<Rightarrow> mem_map \<Rightarrow> mem_map res" where
  "RestoreMemMap H transferredLength m =
     (case mm_address m of None \<Rightarrow> Inr m
      | Some buf \<Rightarrow>
          if mm_offset m = 0 \<or> transferredLength = 0 then Inr m
          else
            let room = mm_size m - ucast (mm_offset m);
                len = (if ucast transferredLength > room then ucast room else transferredLength) in
            bindE (memmove_s (h_rsize_max H) (unat (mm_offset m)) (unat room) 0 (unat len) buf)
              (\<lambda>(ok, buf). Inr (m\<lparr>mm_address := Some buf\<rparr>)))"

text \<open>\<open>static_cast<uint32_t>\<close> of a signed length.\<close>

definition to_u32 :: "int \<Rightarrow> u32" where
  "to_u32 n = of_int n"

section \<open>Answers\<close>

text \<open>\<open>arrLen\<close> is the length of the array; a null array cannot occur.\<close>

definition CopyDataToArray :: "u8 list \<Rightarrow> u8 list \<Rightarrow> bool \<times> u8 list" where
  "CopyDataToArray data arr =
     (if length data > length arr then (False, arr)
      else (True, (write_at arr 0 data)[length arr - 1 := 0]))"

definition CopyResponse :: "scsi_hdi \<Rightarrow> hdi_response \<Rightarrow> scsi_response \<Rightarrow> (int \<times> scsi_response) res" where
  "CopyResponse H src des =
     bindE (memcpy_vec (h_empty_null H) (sr_senseData des) MAX_SENSE_DATA_LEN (sr_senseData src) (length (sr_senseData src))) (\<lambda>(ok, bs).
       if \<not> ok then Inr (SCSI_MEMORY_ERROR, des\<lparr>sr_senseData := bs\<rparr>)
       else Inr (SCSI_SUCCESS,
              \<lparr>sr_senseData = bs, sr_status = sr_status src, sr_maskedStatus = sr_maskedStatus src,
               sr_msgStatus = sr_msgStatus src, sr_sbLenWr = sr_sbLenWr src, sr_hostStatus = sr_hostStatus src,
               sr_driverStatus = sr_driverStatus src, sr_resId = sr_resId src, sr_duration = sr_duration src\<rparr>))"

definition ToHdi :: "io_request \<Rightarrow> mem_map \<Rightarrow> hdi_io_request" where
  "ToHdi request m =
     \<lparr>hio_lbAddress = io_lbAddress request, hio_transferLength = io_transferLength request,
      hio_control = io_control request, hio_byte1 = io_byte1 request, hio_byte6 = io_byte6 request,
      hio_memMapSize = mm_size m, hio_timeout = io_timeout request\<rparr>"

section \<open>Opening and closing\<close>

definition OH_ScsiPeripheral_Init :: "scsi_hdi \<Rightarrow> scsi_ddk \<Rightarrow> int \<times> scsi_ddk" where
  "OH_ScsiPeripheral_Init H g =
     (let g = g\<lparr>sg_ddk := h_get H\<rparr> in
      if \<not> sg_ddk g then (SCSI_INIT_ERROR, g)
      else
        let g = g\<lparr>sg_recipient := True\<rparr> in
        if \<not> h_addDeathRecipient H then (SCSI_INIT_ERROR, g)
        else (TransToDdkErrCode H (h_init H), g))"

definition ScsiPeripheral_OnRemoteDied :: "scsi_ddk \<Rightarrow> scsi_ddk" where
  "ScsiPeripheral_OnRemoteDied g = (if \<not> sg_ddk g then g else g\<lparr>sg_recipient := False, sg_ddk := False\<rparr>)"

definition OH_ScsiPeripheral_Release :: "scsi_hdi \<Rightarrow> scsi_ddk \<Rightarrow> int \<times> scsi_ddk" where
  "OH_ScsiPeripheral_Release H g =
     (if \<not> sg_ddk g then (SCSI_INIT_ERROR, g)
      else (TransToDdkErrCode H (h_release H), g\<lparr>sg_ddk := False\<rparr>))"

text \<open>The last result is what \<open>*dev\<close> holds afterwards, when it was written.\<close>

definition OH_ScsiPeripheral_Open ::
  "scsi_hdi \<Rightarrow> scsi_ddk \<Rightarrow> u64 \<Rightarrow> u8 \<Rightarrow> bool \<Rightarrow> int \<times> scsi_device option" where
  "OH_ScsiPeripheral_Open H g deviceId interfaceIndex devGiven =
     (if \<not> sg_ddk g then (SCSI_INIT_ERROR, None)
      else if \<not> devGiven then (SCSI_INVALID_PARAMETER, None)
      else case h_open H deviceId interfaceIndex of (ret, dev) \<Rightarrow> (TransToDdkErrCode H ret, Some dev))"

text \<open>The result lists what is left in \<open>*dev\<close>.\<close>

definition OH_ScsiPeripheral_Close ::
  "scsi_hdi \<Rightarrow> scsi_ddk \<Rightarrow> scsi_device option option \<Rightarrow> int \<times> scsi_device option option" where
  "OH_ScsiPeripheral_Close H g dev =
     (if \<not> sg_ddk g then (SCSI_INIT_ERROR, dev)
      else case dev of None \<Rightarrow> (SCSI_INVALID_PARAMETER, dev)
      | Some None \<Rightarrow> (SCSI_INVALID_PARAMETER, dev)
      | Some (Some d) \<Rightarrow>
          let ret = TransToDdkErrCode H (h_close H (sd_impl d));
              ret = (if \<not> h_closeFd H (sd_memMapFd d) then (if ret = SCSI_SUCCESS then SCSI_IO_ERROR else ret) else ret) in
          (ret, Some None))"

section \<open>Commands without data\<close>

definition OH_ScsiPeripheral_TestUnitReady ::
  "scsi_hdi \<Rightarrow> scsi_ddk \<Rightarrow> scsi_device option \<Rightarrow> (u8 \<times> u32) option \<Rightarrow> scsi_response option
   \<Rightarrow> (int \<times> scsi_response option) res" where
  "OH_ScsiPeripheral_TestUnitReady H g dev request response =
     (if \<not> sg_ddk g then Inr (SCSI_INIT_ERROR, response)
      else case (dev, request, response) of
        (Some d, Some q, Some resp) \<Rightarrow>
          (case h_testUnitReady H (sd_impl d) q of (ret, hdiResponse) \<Rightarrow>
           let ret = TransToDdkErrCode H ret in
           if ret \<noteq> SCSI_SUCCESS then Inr (ret, response)
           else bindE (CopyResponse H hdiResponse resp) (\<lambda>(ret, resp). Inr (ret, Some resp)))
      | _ \<Rightarrow> Inr (SCSI_INVALID_PARAMETER, response))"

definition OH_ScsiPeripheral_ReadCapacity10 ::
  "scsi_hdi \<Rightarrow> scsi_ddk \<Rightarrow> scsi_device option \<Rightarrow> capacity_request option \<Rightarrow> capacity_info option \<Rightarrow> scsi_response option
   \<Rightarrow> (int \<times> capacity_info option \<times> scsi_response option) res" where
  "OH_ScsiPeripheral_ReadCapacity10 H g dev request capacityInfo response =
     (if \<not> sg_ddk g then Inr (SCSI_INIT_ERROR, capacityInfo, response)
      else case (dev, request, capacityInfo, response) of
        (Some d, Some q, Some _, Some resp) \<Rightarrow>
          (case h_readCapacity10 H (sd_impl d) q of (ret, info, hdiResponse) \<Rightarrow>
           let ret = TransToDdkErrCode H ret in
           if ret \<noteq> SCSI_SUCCESS then Inr (ret, capacityInfo, response)
           else bindE (CopyResponse H hdiResponse resp) (\<lambda>(ret, resp). Inr (ret, Some info, Some resp)))
      | _ \<Rightarrow> Inr (SCSI_INVALID_PARAMETER, capacityInfo, response))"

definition OH_ScsiPeripheral_RequestSense ::
  "scsi_hdi \<Rightarrow> scsi_ddk \<Rightarrow> scsi_device option \<Rightarrow> small_request option \<Rightarrow> scsi_response option
   \<Rightarrow> (int \<times> scsi_response option) res" where
  "OH_ScsiPeripheral_RequestSense H g dev request response =
     (if \<not> sg_ddk g then Inr (SCSI_INIT_ERROR, response)
      else case (dev, request, response) of
        (Some d, Some q, Some resp) \<Rightarrow>
          (case h_requestSense H (sd_impl d) q of (ret, hdiResponse) \<Rightarrow>
           let ret = TransToDdkErrCode H ret in
           if ret \<noteq> SCSI_SUCCESS then Inr (ret, response)
           else bindE (CopyResponse H hdiResponse resp) (\<lambda>(ret, resp). Inr (ret, Some resp)))
      | _ \<Rightarrow> Inr (SCSI_INVALID_PARAMETER, response))"

definition OH_ScsiPeripheral_Verify10 ::
  "scsi_hdi \<Rightarrow> scsi_ddk \<Rightarrow> scsi_device option \<Rightarrow> verify_request option \<Rightarrow> scsi_response option
   \<Rightarrow> (int \<times> scsi_response option) res" where
  "OH_ScsiPeripheral_Verify10 H g dev request response =
     (if \<not> sg_ddk g then Inr (SCSI_INIT_ERROR, response)
      else case (dev, request, response) of
        (Some d, Some q, Some resp) \<Rightarrow>
          (case h_verify10 H (sd_impl d) q of (ret, hdiResponse) \<Rightarrow>
           let ret = TransToDdkErrCode H ret in
           if ret \<noteq> SCSI_SUCCESS then Inr (ret, response)
           else bindE (CopyResponse H hdiResponse resp) (\<lambda>(ret, resp). Inr (ret, Some resp)))
      | _ \<Rightarrow> Inr (SCSI_INVALID_PARAMETER, response))"

section \<open>Commands that move data\<close>

text \<open>
  What the data commands share: the used part of the memory is moved to its start, the service
  runs \<open>call\<close> on the memory, and what was transferred is moved back. The memory is shared with
  the service, so the result holds its new contents on every path.
\<close>

definition Transfer ::
  "scsi_hdi \<Rightarrow> (mem_map \<Rightarrow> u8 list \<Rightarrow> (int \<times> 'x \<times> hdi_response \<times> u8 list) res) \<Rightarrow> mem_map
   \<Rightarrow> (int \<times> ('x \<times> hdi_response) option \<times> mem_map) res" where
  "Transfer H call m =
     bindE (NormalizeMemMap H m) (\<lambda>(ret, m).
       if ret \<noteq> SCSI_SUCCESS then Inr (ret, None, m)
       else case mm_address m of None \<Rightarrow> Inl Null_deref
       | Some buf \<Rightarrow>
           bindE (call m buf) (\<lambda>(ret, x, hdiResponse, buf).
            let ret = TransToDdkErrCode H ret;
                m = m\<lparr>mm_address := Some buf\<rparr> in
            if ret \<noteq> SCSI_SUCCESS then Inr (ret, None, m)
            else bindE (RestoreMemMap H (to_u32 (hr_transferredLength hdiResponse)) m) (\<lambda>m.
              Inr (ret, Some (x, hdiResponse), m))))"

definition set_transferred :: "hdi_response \<Rightarrow> mem_map \<Rightarrow> mem_map" where
  "set_transferred r m = m\<lparr>mm_transferredLength := to_u32 (hr_transferredLength r)\<rparr>"

definition OH_ScsiPeripheral_Inquiry ::
  "scsi_hdi \<Rightarrow> scsi_ddk \<Rightarrow> scsi_device option \<Rightarrow> inquiry_request option \<Rightarrow> inquiry_info option \<Rightarrow> scsi_response option
   \<Rightarrow> (int \<times> inquiry_info option \<times> scsi_response option) res" where
  "OH_ScsiPeripheral_Inquiry H g dev request inquiryInfo response =
     (if \<not> sg_ddk g then Inr (SCSI_INIT_ERROR, inquiryInfo, response)
      else case (dev, request, inquiryInfo, response) of
        (Some d, Some q, Some info, Some resp) \<Rightarrow>
          (case ii_data info of None \<Rightarrow> Inr (SCSI_INVALID_PARAMETER, inquiryInfo, response)
           | Some m \<Rightarrow>
               bindE (Transfer H (\<lambda>m buf. Inr (h_inquiry H (sd_impl d)
                   \<lparr>iq_pageCode = iq_pageCode q, iq_allocationLength = iq_allocationLength q, iq_control = iq_control q,
                    iq_byte1 = iq_byte1 q, iq_timeout = iq_timeout q, hiq_memMapSize = mm_size m\<rparr> buf)) m) (\<lambda>(ret, answer, m).
                 case answer of None \<Rightarrow> Inr (ret, Some (info\<lparr>ii_data := Some m\<rparr>), response)
                 | Some (hi, hdiResponse) \<Rightarrow>
                     let info = info\<lparr>ii_data := Some m, ii_deviceType := hii_deviceType hi\<rparr> in
                     (case CopyDataToArray (hii_idVendor hi) (ii_idVendor info) of (ok, arr) \<Rightarrow>
                      let info = info\<lparr>ii_idVendor := arr\<rparr> in
                      if \<not> ok then Inr (SCSI_MEMORY_ERROR, Some info, response)
                      else case CopyDataToArray (hii_idProduct hi) (ii_idProduct info) of (ok, arr) \<Rightarrow>
                      let info = info\<lparr>ii_idProduct := arr\<rparr> in
                      if \<not> ok then Inr (SCSI_MEMORY_ERROR, Some info, response)
                      else case CopyDataToArray (hii_revProduct hi) (ii_revProduct info) of (ok, arr) \<Rightarrow>
                      let info = info\<lparr>ii_revProduct := arr\<rparr> in
                      if \<not> ok then Inr (SCSI_MEMORY_ERROR, Some info, response)
                      else bindE (CopyResponse H hdiResponse resp) (\<lambda>(ret, resp).
                        Inr (ret, Some (info\<lparr>ii_data := Some (set_transferred hdiResponse m)\<rparr>), Some resp)))))
      | _ \<Rightarrow> Inr (SCSI_INVALID_PARAMETER, inquiryInfo, response))"

text \<open>\<open>Read10\<close> and \<open>Write10\<close> differ in the call of the service only; \<open>call\<close> is that call.\<close>

definition DataCommand ::
  "scsi_hdi \<Rightarrow> (nat \<Rightarrow> hdi_io_request \<Rightarrow> u8 list \<Rightarrow> int \<times> hdi_response \<times> u8 list) \<Rightarrow> scsi_ddk
   \<Rightarrow> scsi_device option \<Rightarrow> io_request option \<Rightarrow> scsi_response option
   \<Rightarrow> (int \<times> io_request option \<times> scsi_response option) res" where
  "DataCommand H call g dev request response =
     (if \<not> sg_ddk g then Inr (SCSI_INIT_ERROR, request, response)
      else case (dev, request, response) of
        (Some d, Some q, Some resp) \<Rightarrow>
          (case io_data q of None \<Rightarrow> Inr (SCSI_INVALID_PARAMETER, request, response)
           | Some m \<Rightarrow>
               bindE (Transfer H (\<lambda>m buf. case call (sd_impl d) (ToHdi q m) buf of (ret, r, buf) \<Rightarrow> Inr (ret, (), r, buf)) m)
                 (\<lambda>(ret, answer, m).
                   case answer of None \<Rightarrow> Inr (ret, Some (q\<lparr>io_data := Some m\<rparr>), response)
                   | Some (_, hdiResponse) \<Rightarrow>
                       bindE (CopyResponse H hdiResponse resp) (\<lambda>(ret, resp).
                         Inr (ret, Some (q\<lparr>io_data := Some (set_transferred hdiResponse m)\<rparr>), Some resp))))
      | _ \<Rightarrow> Inr (SCSI_INVALID_PARAMETER, request, response))"

definition OH_ScsiPeripheral_Read10 ::
  "scsi_hdi \<Rightarrow> scsi_ddk \<Rightarrow> scsi_device option \<Rightarrow> io_request option \<Rightarrow> scsi_response option
   \<Rightarrow> (int \<times> io_request option \<times> scsi_response option) res" where
  "OH_ScsiPeripheral_Read10 H = DataCommand H (h_read10 H)"

definition OH_ScsiPeripheral_Write10 ::
  "scsi_hdi \<Rightarrow> scsi_ddk \<Rightarrow> scsi_device option \<Rightarrow> io_request option \<Rightarrow> scsi_response option
   \<Rightarrow> (int \<times> io_request option \<times> scsi_response option) res" where
  "OH_ScsiPeripheral_Write10 H = DataCommand H (h_write10 H)"

text \<open>The command block is an array of 16 bytes; \<open>cdbLength\<close> is not compared with that.\<close>

definition OH_ScsiPeripheral_SendRequestByCdb ::
  "scsi_hdi \<Rightarrow> scsi_ddk \<Rightarrow> scsi_device option \<Rightarrow> cdb_request option \<Rightarrow> scsi_response option
   \<Rightarrow> (int \<times> cdb_request option \<times> scsi_response option) res" where
  "OH_ScsiPeripheral_SendRequestByCdb H g dev request response =
     (if \<not> sg_ddk g then Inr (SCSI_INIT_ERROR, request, response)
      else case (dev, request, response) of
        (Some d, Some q, Some resp) \<Rightarrow>
          (case cr_data q of None \<Rightarrow> Inr (SCSI_INVALID_PARAMETER, request, response)
           | Some m \<Rightarrow>
               if cr_cdbLength q = 0 then Inr (SCSI_INVALID_PARAMETER, request, response)
               else
                 bindE (Transfer H (\<lambda>m buf.
                     bindE (rd_bytes (cr_commandDescriptorBlock q) (unat (cr_cdbLength q))) (\<lambda>block.
                       case h_sendByCdb H (sd_impl d)
                           \<lparr>hcr_commandDescriptorBlock = block, hcr_dataTransferDirection = cr_dataTransferDirection q,
                            hcr_memMapSize = ucast (mm_bufferLength m), hcr_timeout = cr_timeout q\<rparr> buf of
                         (ret, r, buf) \<Rightarrow> Inr (ret, (), r, buf))) m)
                   (\<lambda>(ret, answer, m).
                     case answer of None \<Rightarrow> Inr (ret, Some (q\<lparr>cr_data := Some m\<rparr>), response)
                     | Some (_, hdiResponse) \<Rightarrow>
                         bindE (CopyResponse H hdiResponse resp) (\<lambda>(ret, resp).
                           Inr (ret, Some (q\<lparr>cr_data := Some (set_transferred hdiResponse m)\<rparr>), Some resp))))
      | _ \<Rightarrow> Inr (SCSI_INVALID_PARAMETER, request, response))"

section \<open>Mapping memory\<close>

text \<open>
  \<open>h_mmap\<close> sets the size of the file and maps it, \<open>None\<close> when that fails. The used length is the
  size converted to \<open>uint32_t\<close>.
\<close>

definition OH_ScsiPeripheral_CreateDeviceMemMap ::
  "scsi_hdi \<Rightarrow> scsi_device option \<Rightarrow> u64 \<Rightarrow> bool \<Rightarrow> int \<times> mem_map option" where
  "OH_ScsiPeripheral_CreateDeviceMemMap H dev sz devMmapGiven =
     (case dev of None \<Rightarrow> (SCSI_INVALID_PARAMETER, None)
      | Some d \<Rightarrow>
          if \<not> devMmapGiven then (SCSI_INVALID_PARAMETER, None)
          else if sd_memMapFd d < 0 then (SCSI_INVALID_PARAMETER, None)
          else case h_mmap H (sd_memMapFd d) sz of None \<Rightarrow> (SCSI_MEMORY_ERROR, None)
          | Some buffer \<Rightarrow>
              (SCSI_SUCCESS,
               Some \<lparr>mm_address = Some buffer, mm_size = sz, mm_offset = 0, mm_bufferLength = ucast sz,
                     mm_transferredLength = 0\<rparr>))"

text \<open>The result says whether the object was deleted.\<close>

definition OH_ScsiPeripheral_DestroyDeviceMemMap :: "scsi_hdi \<Rightarrow> mem_map option \<Rightarrow> int \<times> bool" where
  "OH_ScsiPeripheral_DestroyDeviceMemMap H devMmap =
     (case devMmap of None \<Rightarrow> (SCSI_INVALID_PARAMETER, False)
      | Some m \<Rightarrow>
          if \<not> h_munmap H (mm_address m) (mm_size m) then (SCSI_MEMORY_ERROR, False) else (SCSI_SUCCESS, True))"

end
