(* ===== verification/Scsi_Sense.thy ===== *)
theory Scsi_Sense
  imports Scsi_Ddk
begin

text \<open>
  Sense data, the error reports of a SCSI device: the parsers of scsi_ddk_api.cpp, and what the
  standard formats mean. \<open>senseData\<close> is the list of the bytes from the pointer to the end of its
  buffer, \<open>senseDataLen\<close> the length the caller gives.
\<close>

section \<open>The parsers\<close>

record sense_info =
  si_responseCode :: u8
  si_valid :: bool
  si_information :: u64
  si_commandSpecific :: u64
  si_sksv :: bool
  si_senseKeySpecific :: u32

definition GetUint24 :: "u8 list \<Rightarrow> nat \<Rightarrow> u32 res" where
  "GetUint24 buf start =
     bindE (rd buf start) (\<lambda>b0. bindE (rd buf (start + 1)) (\<lambda>b1. bindE (rd buf (start + 2)) (\<lambda>b2.
       Inr (push_bit 16 (ucast b0) OR push_bit 8 (ucast b1) OR ucast b2))))"

definition GetUint32 :: "u8 list \<Rightarrow> nat \<Rightarrow> u32 res" where
  "GetUint32 buf start =
     bindE (rd buf start) (\<lambda>b0. bindE (rd buf (start + 1)) (\<lambda>b1. bindE (rd buf (start + 2)) (\<lambda>b2.
     bindE (rd buf (start + 3)) (\<lambda>b3.
       Inr (push_bit 24 (ucast b0) OR push_bit 16 (ucast b1) OR push_bit 8 (ucast b2) OR ucast b3)))))"

definition GetUint64 :: "u8 list \<Rightarrow> nat \<Rightarrow> u64 res" where
  "GetUint64 buf start =
     bindE (rd buf start) (\<lambda>b0. bindE (rd buf (start + 1)) (\<lambda>b1. bindE (rd buf (start + 2)) (\<lambda>b2.
     bindE (rd buf (start + 3)) (\<lambda>b3. bindE (rd buf (start + 4)) (\<lambda>b4. bindE (rd buf (start + 5)) (\<lambda>b5.
     bindE (rd buf (start + 6)) (\<lambda>b6. bindE (rd buf (start + 7)) (\<lambda>b7.
       Inr (push_bit 56 (ucast b0) OR push_bit 48 (ucast b1) OR push_bit 40 (ucast b2) OR push_bit 32 (ucast b3)
         OR push_bit 24 (ucast b4) OR push_bit 16 (ucast b5) OR push_bit 8 (ucast b6) OR ucast b7)))))))))"

definition high_bit :: "u8 \<Rightarrow> bool" where
  "high_bit b \<longleftrightarrow> b AND 0x80 \<noteq> 0"

text \<open>The \<open>switch\<close> in the loop.\<close>

definition ApplyDescriptor :: "u8 list \<Rightarrow> nat \<Rightarrow> u8 \<Rightarrow> u8 \<Rightarrow> sense_info \<Rightarrow> sense_info res" where
  "ApplyDescriptor senseData idx descType descLen senseInfo =
     (if descType = 0x00 then
        (if descLen = 0x0A then
           bindE (rd senseData (idx + 2)) (\<lambda>b. bindE (GetUint64 senseData (idx + 4)) (\<lambda>x.
             Inr (senseInfo\<lparr>si_valid := high_bit b, si_information := x\<rparr>)))
         else Inr senseInfo)
      else if descType = 0x01 then
        (if descLen = 0x0A then
           bindE (GetUint64 senseData (idx + 4)) (\<lambda>x. Inr (senseInfo\<lparr>si_commandSpecific := x\<rparr>))
         else Inr senseInfo)
      else if descType = 0x02 then
        (if descLen = 0x06 then
           bindE (rd senseData (idx + 4)) (\<lambda>b. bindE (GetUint24 senseData (idx + 4)) (\<lambda>x.
             Inr (senseInfo\<lparr>si_sksv := high_bit b, si_senseKeySpecific := x AND 0x007FFFFF\<rparr>)))
         else Inr senseInfo)
      else Inr senseInfo)"

text \<open>
  The loop. \<open>idx\<close> is a \<open>uint8_t\<close>, but the bound in the loop is computed as an \<open>int\<close>, so the sum that
  \<open>idx\<close> is advanced to fits.
\<close>

lemma idx_advance:
  fixes idx dl len :: u8
  assumes "\<not> uint len < uint idx + uint dl + 2"
  shows "unat (idx + (dl + 2)) = unat idx + unat dl + 2"
proof -
  have "int (unat idx + unat dl + 2) \<le> int (unat len)" using assms by simp
  then have "unat idx + unat dl + 2 \<le> unat len" by (simp only: of_nat_le_iff)
  moreover have "unat len < 256" using unsigned_less [where ?'a = nat, of len] by simp
  ultimately have b: "unat idx + unat dl + 2 < 256" by simp
  have two: "unat (dl + 2) = unat dl + 2" using unat_add_lem [of dl 2] b by simp
  show ?thesis using unat_add_lem [of idx "dl + 2"] b unfolding two by simp
qed

function DescriptorLoop :: "u8 list \<Rightarrow> u8 \<Rightarrow> u8 \<Rightarrow> sense_info \<Rightarrow> sense_info res" where
  "DescriptorLoop senseData senseDataLen idx senseInfo =
     (if \<not> idx < senseDataLen then Inr senseInfo
      else
        bindE (rd senseData (unat idx)) (\<lambda>descType.
        bindE (rd senseData (unat idx + 1)) (\<lambda>descLen.
          if uint idx + uint descLen + 2 > uint senseDataLen then Inr senseInfo
          else bindE (ApplyDescriptor senseData (unat idx) descType descLen senseInfo) (\<lambda>senseInfo.
            DescriptorLoop senseData senseDataLen (idx + (descLen + 2)) senseInfo))))"
  by pat_completeness auto

termination
proof (relation "measure (\<lambda>(_, len, idx, _). unat len - unat idx)")
  show "wf (measure (\<lambda>(_ :: u8 list, len :: u8, idx :: u8, _ :: sense_info). unat len - unat idx))" by simp
next
  fix s :: "u8 list" and len idx dl :: u8 and i info :: sense_info
  assume "\<not> \<not> idx < len" and "\<not> uint len < uint idx + uint dl + 2"
  then show "((s, len, idx + (dl + 2), info), s, len, idx, i) \<in> measure (\<lambda>(_, len, idx, _). unat len - unat idx)"
    using idx_advance [of len idx dl] by (simp add: word_less_nat_alt)
qed

declare DescriptorLoop.simps [simp del]

definition ParseDescriptorFormatSense :: "u8 list \<Rightarrow> u8 \<Rightarrow> sense_info \<Rightarrow> (int \<times> sense_info) res" where
  "ParseDescriptorFormatSense senseData senseDataLen senseInfo =
     (if senseDataLen < 8 then Inr (SCSI_INVALID_PARAMETER, senseInfo)
      else
        bindE (rd senseData 7) (\<lambda>additionalSenseLen.
          let senseDataLen = (if uint senseDataLen > uint additionalSenseLen + 8
                              then word_of_int (uint additionalSenseLen + 8) else senseDataLen) in
          bindE (DescriptorLoop senseData senseDataLen 8 senseInfo) (\<lambda>senseInfo. Inr (SCSI_SUCCESS, senseInfo))))"

definition ParseFixedFormatSense :: "u8 list \<Rightarrow> u8 \<Rightarrow> sense_info \<Rightarrow> (int \<times> sense_info) res" where
  "ParseFixedFormatSense senseData senseDataLen senseInfo =
     (if senseDataLen < 18 then Inr (SCSI_INVALID_PARAMETER, senseInfo)
      else
        bindE (rd senseData 0) (\<lambda>b.
        let senseInfo = senseInfo\<lparr>si_valid := high_bit b\<rparr> in
        bindE (if si_valid senseInfo
               then bindE (GetUint32 senseData 3) (\<lambda>x. Inr (senseInfo\<lparr>si_information := ucast x\<rparr>))
               else Inr senseInfo) (\<lambda>senseInfo.
        bindE (GetUint32 senseData 8) (\<lambda>x.
        let senseInfo = senseInfo\<lparr>si_commandSpecific := ucast x\<rparr> in
        bindE (rd senseData 15) (\<lambda>b.
        bindE (GetUint24 senseData 15) (\<lambda>x.
          Inr (SCSI_SUCCESS, senseInfo\<lparr>si_sksv := high_bit b, si_senseKeySpecific := x AND 0x007FFFFF\<rparr>)))))))"

definition OH_ScsiPeripheral_ParseBasicSenseInfo ::
  "u8 list option \<Rightarrow> u8 \<Rightarrow> sense_info option \<Rightarrow> (int \<times> sense_info option) res" where
  "OH_ScsiPeripheral_ParseBasicSenseInfo senseData senseDataLen senseInfo =
     (case (senseData, senseInfo) of
        (Some s, Some i) \<Rightarrow>
          bindE (rd s 0) (\<lambda>b.
            let i = i\<lparr>si_responseCode := b AND 0x7F\<rparr>;
                done = (\<lambda>r. bindE r (\<lambda>(ret, i). Inr (ret, Some i))) in
            if si_responseCode i = 0x70 \<or> si_responseCode i = 0x71 then done (ParseFixedFormatSense s senseDataLen i)
            else if si_responseCode i = 0x72 \<or> si_responseCode i = 0x73
            then done (ParseDescriptorFormatSense s senseDataLen i)
            else Inr (SCSI_INVALID_PARAMETER, Some i))
      | _ \<Rightarrow> Inr (SCSI_INVALID_PARAMETER, senseInfo))"

end
