(* ===== verification/Scsi_Claims.thy ===== *)
theory Scsi_Claims
  imports Scsi_Sense
begin

text \<open>
  What the SCSI commands and the sense parsers guarantee, and where they go wrong.
\<close>

section \<open>Big-endian numbers\<close>

definition be24 :: "u32 \<Rightarrow> u8 list" where
  "be24 x = [ucast (drop_bit 16 x), ucast (drop_bit 8 x), ucast x]"

definition be64 :: "u64 \<Rightarrow> u8 list" where
  "be64 x = [ucast (drop_bit 56 x), ucast (drop_bit 48 x), ucast (drop_bit 40 x), ucast (drop_bit 32 x),
             ucast (drop_bit 24 x), ucast (drop_bit 16 x), ucast (drop_bit 8 x), ucast x]"

lemma length_be [simp]: "length (be24 y) = 3" "length (be64 x) = 8"
  by (simp_all add: be24_def be64_def)

lemma rd_shift: "rd (pre @ xs) (length pre + k) = rd xs k"
  by (simp add: rd_def nth_append)

lemma byte_at:
  fixes x :: "'a::len word"
  shows "push_bit k (ucast (ucast (drop_bit k x) :: u8)) = x AND push_bit k (mask 8)"
  by (rule bit_word_eqI) (auto simp: bit_simps)

lemma join64: "x AND push_bit 56 (mask 8) OR x AND push_bit 48 (mask 8) OR x AND push_bit 40 (mask 8) OR x AND push_bit 32 (mask 8)
    OR x AND push_bit 24 (mask 8) OR x AND push_bit 16 (mask 8) OR x AND push_bit 8 (mask 8) OR x AND mask 8 = (x :: u64)"
proof -
  have "(push_bit 56 (mask 8) OR push_bit 48 (mask 8) OR push_bit 40 (mask 8) OR push_bit 32 (mask 8)
      OR push_bit 24 (mask 8) OR push_bit 16 (mask 8) OR push_bit 8 (mask 8) OR mask 8 :: u64) = - 1"
    by (simp add: mask_eq_exp_minus_1 push_bit_eq_mult)
  then show ?thesis by (simp flip: bit.conj_disj_distrib)
qed

lemma GetUint64_be: "GetUint64 (pre @ be64 x @ rest) (length pre) = Inr x"
proof -
  have low: "ucast (ucast x :: u8) = x AND mask 8" using byte_at [of 0 x] by simp
  have r: "rd (pre @ be64 x @ rest) (length pre + k) = Inr (be64 x ! k)" if "k < 8" for k
    using that by (simp add: rd_shift nth_append)
  show ?thesis
    using r [of 0] r [of 1] r [of 2] r [of 3] r [of 4] r [of 5] r [of 6] r [of 7] join64 [of x]
    by (simp add: GetUint64_def be64_def byte_at low)
qed

section \<open>The descriptors of sense data\<close>

definition sksv_bit :: "bool \<Rightarrow> u32" where
  "sksv_bit k = (if k then push_bit 23 1 else 0)"

lemma bit_sksv_bit: "bit (sksv_bit k) n \<longleftrightarrow> k \<and> n = 23"
  unfolding sksv_bit_def by (cases k) (auto simp only: if_True if_False bit_push_bit_iff bit_1_iff bit_0_eq, auto)

text \<open>Descriptors as the standard has them. \<open>OtherDesc\<close> is one that the parser passes over.\<close>

datatype sense_desc =
  Information bool u64 | CommandSpecific u64 | SenseKeySpecific bool u32 | OtherDesc u8 "u8 list"

fun enc_desc :: "sense_desc \<Rightarrow> u8 list" where
  "enc_desc (Information v x) = [0, 10, if v then 0x80 else 0, 0] @ be64 x"
| "enc_desc (CommandSpecific x) = [1, 10, 0, 0] @ be64 x"
| "enc_desc (SenseKeySpecific k x) = [2, 6, 0, 0] @ be24 (sksv_bit k OR x) @ [0]"
| "enc_desc (OtherDesc t body) = [t, of_nat (length body)] @ body"

fun wf_desc :: "sense_desc \<Rightarrow> bool" where
  "wf_desc (SenseKeySpecific k x) \<longleftrightarrow> x AND mask 23 = x"
| "wf_desc (OtherDesc t body) \<longleftrightarrow> t \<notin> {0, 1, 2} \<and> length body < 256"
| "wf_desc _ \<longleftrightarrow> True"

fun meaning :: "sense_desc \<Rightarrow> sense_info \<Rightarrow> sense_info" where
  "meaning (Information v x) i = i\<lparr>si_valid := v, si_information := x\<rparr>"
| "meaning (CommandSpecific x) i = i\<lparr>si_commandSpecific := x\<rparr>"
| "meaning (SenseKeySpecific k x) i = i\<lparr>si_sksv := k, si_senseKeySpecific := x\<rparr>"
| "meaning (OtherDesc _ _) i = i"

lemma high_bit_iff: "high_bit b \<longleftrightarrow> bit b 7"
proof -
  have "(0x80 :: u8) = 2 ^ 7" by simp
  then show ?thesis by (simp only: high_bit_def and_exp_eq_0_iff_not_bit) simp
qed

lemma GetUint24_be:
  assumes "y AND mask 24 = y"
  shows "GetUint24 (pre @ be24 y @ rest) (length pre) = Inr y"
proof -
  have r: "rd (pre @ be24 y @ rest) (length pre + k) = Inr (be24 y ! k)" if "k < 3" for k
    using that by (simp add: rd_shift nth_append)
  have low: "ucast (ucast y :: u8) = y AND mask 8" using byte_at [of 0 y] by simp
  have "(push_bit 16 (mask 8) OR push_bit 8 (mask 8) OR mask 8 :: u32) = mask 24"
    by (simp add: mask_eq_exp_minus_1 push_bit_eq_mult)
  then have "y AND push_bit 16 (mask 8) OR y AND push_bit 8 (mask 8) OR y AND mask 8 = y"
    using assms by (simp flip: bit.conj_disj_distrib)
  then show ?thesis using r [of 0] r [of 1] r [of 2] by (simp add: GetUint24_def be24_def byte_at low)
qed

lemma sks_bits:
  fixes x :: u32 and k :: bool
  assumes "x AND mask 23 = x"
  defines "y \<equiv> sksv_bit k OR x"
  shows "y AND mask 24 = y" and "y AND 0x007FFFFF = x" and "bit (ucast (drop_bit 16 y) :: u8) 7 = k"
proof -
  have x: "bit x n \<Longrightarrow> n < 23" for n using assms(1) by (metis bit_and_iff bit_mask_iff)
  have m: "(0x007FFFFF :: u32) = mask 23" by (simp add: mask_eq_exp_minus_1)
  show "y AND mask 24 = y" by (rule bit_word_eqI) (auto simp: y_def bit_simps bit_sksv_bit dest: x)
  show "y AND 0x007FFFFF = x" unfolding m by (rule bit_word_eqI) (auto simp: y_def bit_simps bit_sksv_bit dest: x)
  have "\<not> bit x 23" using x by blast
  then show "bit (ucast (drop_bit 16 y) :: u8) 7 = k" by (simp add: y_def bit_simps bit_sksv_bit)
qed

lemma length_enc_desc: "wf_desc d \<Longrightarrow> length (enc_desc d) = unat (enc_desc d ! 1) + 2 \<and> 2 \<le> length (enc_desc d)"
  by (cases d) (auto simp: unat_of_nat)

lemma ApplyDescriptor_enc:
  assumes "wf_desc d"
  shows "ApplyDescriptor (pre @ enc_desc d @ rest) (length pre) (enc_desc d ! 0) (enc_desc d ! 1) i = Inr (meaning d i)"
proof (cases d)
  case (Information v x)
  have "rd (pre @ enc_desc d @ rest) (length pre + 2) = Inr (if v then 0x80 else 0)"
    unfolding rd_shift by (simp add: Information)
  moreover have "GetUint64 (pre @ enc_desc d @ rest) (length pre + 4) = Inr x"
    using GetUint64_be [of "pre @ [0, 10, if v then 0x80 else 0, 0]" x rest] by (simp add: Information eval_nat_numeral)
  moreover have "high_bit (if v then 0x80 else 0) = v" by (simp add: high_bit_def)
  ultimately show ?thesis by (simp add: Information ApplyDescriptor_def)
next
  case (CommandSpecific x)
  have "GetUint64 (pre @ enc_desc d @ rest) (length pre + 4) = Inr x"
    using GetUint64_be [of "pre @ [1, 10, 0, 0]" x rest] by (simp add: CommandSpecific eval_nat_numeral)
  then show ?thesis by (simp add: CommandSpecific ApplyDescriptor_def)
next
  case (SenseKeySpecific k x)
  let ?y = "sksv_bit k OR x"
  have x: "x AND mask 23 = x" using assms by (simp add: SenseKeySpecific)
  have "rd (pre @ enc_desc d @ rest) (length pre + 4) = Inr (ucast (drop_bit 16 ?y))"
    unfolding rd_shift by (simp add: SenseKeySpecific be24_def)
  moreover have "GetUint24 (pre @ enc_desc d @ rest) (length pre + 4) = Inr ?y"
    using GetUint24_be [OF sks_bits(1) [OF x, of k], of "pre @ [2, 6, 0, 0]" "[0] @ rest"] by (simp add: SenseKeySpecific eval_nat_numeral)
  ultimately show ?thesis
    using sks_bits(2,3) [OF x, of k] by (simp add: SenseKeySpecific ApplyDescriptor_def high_bit_iff)
next
  case (OtherDesc t body)
  then show ?thesis using assms by (auto simp: ApplyDescriptor_def)
qed

section \<open>Sense data in descriptor format\<close>

lemma DescriptorLoop_step:
  assumes d: "wf_desc d" and idx: "unat idx = length pre" and len: "unat len \<ge> length pre + length (enc_desc d)"
  shows "DescriptorLoop (pre @ enc_desc d @ rest) len idx i
    = DescriptorLoop ((pre @ enc_desc d) @ rest) len (idx + (enc_desc d ! 1 + 2)) (meaning d i)"
    and "unat (idx + (enc_desc d ! 1 + 2)) = length (pre @ enc_desc d)"
proof -
  note l = length_enc_desc [OF d]
  have "int (unat idx) + int (unat (enc_desc d ! 1)) + 2 \<le> int (unat len)" using idx len l by linarith
  then have fit: "\<not> uint len < uint idx + uint (enc_desc d ! 1) + 2" by simp
  have lt: "idx < len" using idx len l by (simp add: word_less_nat_alt)
  have r: "rd (pre @ enc_desc d @ rest) (unat idx) = Inr (enc_desc d ! 0)"
    "rd (pre @ enc_desc d @ rest) (unat idx + 1) = Inr (enc_desc d ! 1)"
    using rd_shift [of pre "enc_desc d @ rest" 0] rd_shift [of pre "enc_desc d @ rest" 1] l idx by (simp_all add: nth_append)
  show "DescriptorLoop (pre @ enc_desc d @ rest) len idx i
    = DescriptorLoop ((pre @ enc_desc d) @ rest) len (idx + (enc_desc d ! 1 + 2)) (meaning d i)"
    using fit lt r ApplyDescriptor_enc [OF d, of pre rest i] idx
    by (subst DescriptorLoop.simps) simp
  show "unat (idx + (enc_desc d ! 1 + 2)) = length (pre @ enc_desc d)"
    using idx_advance [OF fit] idx l by simp
qed

lemma DescriptorLoop_enc:
  "list_all wf_desc ds \<Longrightarrow> unat idx = length pre \<Longrightarrow> unat len \<ge> length pre + length (concat (map enc_desc ds)) \<Longrightarrow>
   \<exists>idx'. unat idx' = length pre + length (concat (map enc_desc ds))
     \<and> DescriptorLoop (pre @ concat (map enc_desc ds) @ rest) len idx i
       = DescriptorLoop (pre @ concat (map enc_desc ds) @ rest) len idx' (fold meaning ds i)"
proof (induction ds arbitrary: pre idx i)
  case (Cons d ds)
  let ?rest = "concat (map enc_desc ds) @ rest"
  have d: "wf_desc d" "unat len \<ge> length pre + length (enc_desc d)" using Cons.prems by simp_all
  note s = DescriptorLoop_step [OF d(1) Cons.prems(2) d(2)]
  have "\<exists>idx'. unat idx' = length (pre @ enc_desc d) + length (concat (map enc_desc ds))
      \<and> DescriptorLoop ((pre @ enc_desc d) @ ?rest) len (idx + (enc_desc d ! 1 + 2)) (meaning d i)
        = DescriptorLoop ((pre @ enc_desc d) @ ?rest) len idx' (fold meaning ds (meaning d i))"
    by (rule Cons.IH) (use Cons.prems s(2) in simp_all)
  then show ?case using s(1) [of ?rest i] by (simp add: add.assoc)
qed auto

definition sense_header :: "u8 list \<Rightarrow> nat \<Rightarrow> bool" where
  "sense_header h n \<longleftrightarrow> length h = 8 \<and> (h ! 0 AND 0x7F = 0x72 \<or> h ! 0 AND 0x7F = 0x73) \<and> unat (h ! 7) = n"

lemma Parse_format:
  assumes "rd s 0 = Inr b"
  shows "c = b AND 0x7F \<Longrightarrow> c = 0x72 \<or> c = 0x73 \<Longrightarrow> OH_ScsiPeripheral_ParseBasicSenseInfo (Some s) len (Some i)
      = bindE (ParseDescriptorFormatSense s len (i\<lparr>si_responseCode := c\<rparr>)) (\<lambda>(ret, i). Inr (ret, Some i))"
    and "c = b AND 0x7F \<Longrightarrow> c = 0x70 \<or> c = 0x71 \<Longrightarrow> OH_ScsiPeripheral_ParseBasicSenseInfo (Some s) len (Some i)
      = bindE (ParseFixedFormatSense s len (i\<lparr>si_responseCode := c\<rparr>)) (\<lambda>(ret, i). Inr (ret, Some i))"
    and "c = b AND 0x7F \<Longrightarrow> c \<notin> {0x70, 0x71, 0x72, 0x73} \<Longrightarrow>
      OH_ScsiPeripheral_ParseBasicSenseInfo (Some s) len (Some i) = Inr (SCSI_INVALID_PARAMETER, Some (i\<lparr>si_responseCode := c\<rparr>))"
  using assms by (auto simp: OH_ScsiPeripheral_ParseBasicSenseInfo_def)

lemmas Parse_descriptor_format = Parse_format(1) [OF _ refl]

lemma bindE_to_pair: "bindE (bindE m (\<lambda>x. Inr (ret, x))) (\<lambda>(ret, i). Inr (ret, Some i)) = bindE m (\<lambda>i. Inr (ret, Some i))"
  by (cases m) simp_all

lemma Parse_header:
  assumes h: "sense_header h n" and len: "unat len \<ge> 8 + n"
  shows "OH_ScsiPeripheral_ParseBasicSenseInfo (Some (h @ xs)) len (Some i) =
    bindE (DescriptorLoop (h @ xs) (of_nat (8 + n)) 8 (i\<lparr>si_responseCode := h ! 0 AND 0x7F\<rparr>)) (\<lambda>i. Inr (SCSI_SUCCESS, Some i))"
    and "unat (of_nat (8 + n) :: u8) = 8 + n"
proof -
  have b: "8 + n < 256" using len unsigned_less [where ?'a = nat, of len] by simp
  then show n: "unat (of_nat (8 + n) :: u8) = 8 + n" by (subst unat_of_nat) simp
  have r: "rd (h @ xs) 0 = Inr (h ! 0)" "rd (h @ xs) 7 = Inr (h ! 7)"
    using h by (simp_all add: sense_header_def rd_def nth_append)
  have len8: "\<not> len < 8" using len by (simp add: word_less_nat_alt)
  have c: "(if uint len > uint (h ! 7) + 8 then word_of_int (uint (h ! 7) + 8) else len) = of_nat (8 + n)"
  proof (cases "uint len > uint (h ! 7) + 8")
    case True
    have "int (unat (h ! 7)) = int n" using h by (simp only: sense_header_def)
    then have u: "uint (h ! 7) = int n" by simp
    show ?thesis using True unfolding u by (simp add: add.commute)
  next
    case False
    then have "int (unat len) \<le> int (unat (h ! 7)) + 8" by simp
    then have "unat len \<le> unat (h ! 7) + 8" by linarith
    then have "unat len = 8 + n" using len h by (simp add: sense_header_def)
    then have "unat (of_nat (8 + n) :: u8) = unat len" using n by simp
    then have "of_nat (8 + n) = len" by (rule word_unat_eq_iff [THEN iffD2])
    then show ?thesis using False by simp
  qed
  have code: "h ! 0 AND 0x7F = 0x72 \<or> h ! 0 AND 0x7F = 0x73" using h by (simp add: sense_header_def)
  show "OH_ScsiPeripheral_ParseBasicSenseInfo (Some (h @ xs)) len (Some i) =
    bindE (DescriptorLoop (h @ xs) (of_nat (8 + n)) 8 (i\<lparr>si_responseCode := h ! 0 AND 0x7F\<rparr>)) (\<lambda>i. Inr (SCSI_SUCCESS, Some i))"
    unfolding Parse_descriptor_format [OF r(1) code] ParseDescriptorFormatSense_def if_not_P [OF len8] r(2) bindE_Inr Let_def c
    by (rule bindE_to_pair)
qed

text \<open>
  C22: sense data in descriptor format is decoded as the standard has it: after the header come
  descriptors, and each information, command-specific and sense-key-specific descriptor sets its
  fields, in order; others are passed over. What follows the described area is not looked at.
\<close>

theorem sense_descriptors_decoded:
  assumes "list_all wf_desc ds" and "sense_header h (length (concat (map enc_desc ds)))"
    and "unat len \<ge> 8 + length (concat (map enc_desc ds))"
  shows "OH_ScsiPeripheral_ParseBasicSenseInfo (Some (h @ concat (map enc_desc ds) @ rest)) len (Some i)
    = Inr (SCSI_SUCCESS, Some (fold meaning ds (i\<lparr>si_responseCode := h ! 0 AND 0x7F\<rparr>)))"
proof -
  let ?n = "length (concat (map enc_desc ds))"
  note p = Parse_header(1) [OF assms(2,3), of "concat (map enc_desc ds) @ rest" i] Parse_header(2) [OF assms(2,3)]
  obtain idx' where "unat idx' = length h + ?n" and
    "DescriptorLoop (h @ concat (map enc_desc ds) @ rest) (of_nat (8 + ?n)) 8 (i\<lparr>si_responseCode := h ! 0 AND 0x7F\<rparr>)
      = DescriptorLoop (h @ concat (map enc_desc ds) @ rest) (of_nat (8 + ?n)) idx' (fold meaning ds (i\<lparr>si_responseCode := h ! 0 AND 0x7F\<rparr>))"
    using DescriptorLoop_enc [OF assms(1), of 8 h "of_nat (8 + ?n)" rest] assms(2) p(2) by (auto simp: sense_header_def)
  moreover from this have "\<not> idx' < of_nat (8 + ?n)" using assms(2) p(2) by (simp add: word_less_nat_alt sense_header_def)
  ultimately show ?thesis using p(1) by (simp add: DescriptorLoop.simps)
qed

definition a_header :: "u8 \<Rightarrow> u8 list" where
  "a_header n = [0x72, 5, 0, 0, 0, 0, 0, n]"

definition some_sense :: "sense_desc list" where
  "some_sense = [Information True 0x1122334455667788, OtherDesc 3 [7, 7], SenseKeySpecific True 0x4000AB]"

definition no_sense :: sense_info where
  "no_sense = \<lparr>si_responseCode = 0, si_valid = False, si_information = 0, si_commandSpecific = 0, si_sksv = False, si_senseKeySpecific = 0\<rparr>"

lemma some_sense_ok:
  "list_all wf_desc some_sense" "length (concat (map enc_desc some_sense)) = 24" "sense_header (a_header 24) 24"
  by (simp_all add: some_sense_def sense_header_def a_header_def mask_eq_exp_minus_1)

theorem sense_descriptors_decoded_witness:
  "OH_ScsiPeripheral_ParseBasicSenseInfo (Some (a_header 24 @ concat (map enc_desc some_sense) @ [9, 9])) 252 (Some no_sense)
    = Inr (SCSI_SUCCESS, Some \<lparr>si_responseCode = 0x72, si_valid = True, si_information = 0x1122334455667788,
        si_commandSpecific = 0, si_sksv = True, si_senseKeySpecific = 0x4000AB\<rparr>)"
  using sense_descriptors_decoded [OF some_sense_ok(1), of "a_header 24" 252 "[9, 9]" no_sense] some_sense_ok(2,3)
  by (simp add: some_sense_def no_sense_def a_header_def)

lemma GetUint_total:
  "start + 3 \<le> length buf \<Longrightarrow> \<exists>x. GetUint24 buf start = Inr x"
  "start + 4 \<le> length buf \<Longrightarrow> \<exists>x. GetUint32 buf start = Inr x"
  "start + 8 \<le> length buf \<Longrightarrow> \<exists>y. GetUint64 buf start = Inr y"
  by (simp_all add: GetUint24_def GetUint32_def GetUint64_def)

lemma ApplyDescriptor_total:
  assumes "idx + unat dl + 2 \<le> length s"
  shows "\<exists>i'. ApplyDescriptor s idx ty dl i = Inr i'"
proof -
  have a: "dl = 10 \<Longrightarrow> idx + 12 \<le> length s" "dl = 6 \<Longrightarrow> idx + 8 \<le> length s" using assms by auto
  show ?thesis
    using GetUint_total(3) [of "idx + 4" s] GetUint_total(1) [of "idx + 4" s] a
    by (auto simp: ApplyDescriptor_def)
qed

lemma DescriptorLoop_total: "unat len < length s \<Longrightarrow> \<exists>i'. DescriptorLoop s len idx i = Inr i'"
proof (induction s len idx i rule: DescriptorLoop.induct)
  case (1 s len idx i)
  show ?case
  proof (cases "idx < len")
    case True
    then have u: "unat idx < unat len" by (simp add: word_less_nat_alt)
    obtain ty dl where r: "rd s (unat idx) = Inr ty" "rd s (unat idx + 1) = Inr dl" using u "1.prems" by simp
    show ?thesis
    proof (cases "uint len < uint idx + uint dl + 2")
      case True
      then show ?thesis using r by (subst DescriptorLoop.simps) simp
    next
      case False
      have "int (unat idx + unat dl + 2) \<le> int (unat len)" using False by simp
      then have "unat idx + unat dl + 2 \<le> length s" using "1.prems" by linarith
      then obtain i' where i': "ApplyDescriptor s (unat idx) ty dl i = Inr i'" using ApplyDescriptor_total by blast
      have "\<exists>x. DescriptorLoop s len (idx + (dl + 2)) i' = Inr x"
        using "1.IH" [OF _ r False i' "1.prems"] \<open>idx < len\<close> by simp
      then show ?thesis using False r i' \<open>idx < len\<close> by (subst DescriptorLoop.simps) simp
    qed
  qed (simp add: DescriptorLoop.simps)
qed

lemma Parse_total:
  assumes len: "unat len < length s"
  shows "\<exists>r. OH_ScsiPeripheral_ParseBasicSenseInfo (Some s) len (Some i) = Inr r"
proof -
  have "0 < length s" using len by linarith
  then have r0: "\<exists>b. rd s 0 = Inr b" by simp
  have f: "\<exists>r. ParseFixedFormatSense s len j = Inr r" for j
  proof (cases "len < 18")
    case False
    then have "18 \<le> unat len" by (simp add: word_less_nat_alt)
    then have l: "18 < length s" using len by simp
    obtain x y z b where g: "GetUint32 s 3 = Inr x" "GetUint32 s 8 = Inr y" "GetUint24 s 15 = Inr z" "rd s 15 = Inr b"
      using GetUint_total(1) [of 15 s] GetUint_total(2) [of 3 s] GetUint_total(2) [of 8 s] l by force
    show ?thesis using False r0 g by (auto simp: ParseFixedFormatSense_def Let_def)
  qed (simp add: ParseFixedFormatSense_def)
  have d: "\<exists>r. ParseDescriptorFormatSense s len j = Inr r" for j
  proof (cases "len < 8")
    case False
    then have "8 \<le> unat len" by (simp add: word_less_nat_alt)
    then obtain a where a: "rd s 7 = Inr a" using len by simp
    let ?l = "if uint len > uint a + 8 then word_of_int (uint a + 8) else len"
    have "?l \<le> len"
    proof (cases "uint len > uint a + 8")
      case True
      have "uint (word_of_int (uint a + 8) :: u8) = (uint a + 8) mod 256" by (simp only: uint_word_of_int) simp
      also have "\<dots> \<le> uint a + 8" by (rule zmod_le_nonneg_dividend) simp
      finally have "uint (word_of_int (uint a + 8) :: u8) \<le> uint len" using True by linarith
      then show ?thesis using True by (simp add: word_le_def)
    qed simp
    then have "unat ?l < length s" using len by (simp add: word_le_nat_alt del: if_split)
    then obtain x where "DescriptorLoop s ?l 8 j = Inr x" using DescriptorLoop_total by blast
    then show ?thesis using False a by (simp add: ParseDescriptorFormatSense_def Let_def)
  qed (simp add: ParseDescriptorFormatSense_def)
  obtain b where b: "rd s 0 = Inr b" using r0 by blast
  define c where "c = b AND 0x7F"
  obtain r1 i1 r2 i2 where fd: "ParseFixedFormatSense s len (i\<lparr>si_responseCode := c\<rparr>) = Inr (r1, i1)"
    "ParseDescriptorFormatSense s len (i\<lparr>si_responseCode := c\<rparr>) = Inr (r2, i2)"
    using f d by (metis surj_pair)
  note F = Parse_format [OF b c_def, of len i]
  consider "c = 0x72 \<or> c = 0x73" | "c = 0x70 \<or> c = 0x71" | "c \<notin> {0x70, 0x71, 0x72, 0x73}" by auto
  then show ?thesis using F fd by cases simp_all
qed

text \<open>
  when the described area ends with the first byte of a descriptor, the byte behind it is
  read, even where the buffer ends there; with one byte more in the buffer than the length says,
  the parser never leaves the buffer.
\<close>

theorem sense_reads_one_byte_more:
  assumes "list_all wf_desc ds" and "sense_header h (length (concat (map enc_desc ds)) + 1)"
    and "unat len \<ge> 9 + length (concat (map enc_desc ds))"
  shows "OH_ScsiPeripheral_ParseBasicSenseInfo (Some (h @ concat (map enc_desc ds) @ [b])) len (Some i) = Inl Oob_read
    \<and> (\<forall>s l. unat l < length s \<longrightarrow> (\<exists>r. OH_ScsiPeripheral_ParseBasicSenseInfo (Some s) l (Some i) = Inr r))"
proof -
  let ?n = "length (concat (map enc_desc ds))" and ?s = "h @ concat (map enc_desc ds) @ [b]"
  have len: "unat len \<ge> 8 + (?n + 1)" using assms(3) by simp
  note p = Parse_header(1) [OF assms(2) len, of "concat (map enc_desc ds) @ [b]" i] Parse_header(2) [OF assms(2) len]
  have h8: "length h = 8" using assms(2) by (simp add: sense_header_def)
  have "\<exists>idx'. unat idx' = length h + ?n \<and> DescriptorLoop ?s (of_nat (8 + (?n + 1))) 8 (i\<lparr>si_responseCode := h ! 0 AND 0x7F\<rparr>)
      = DescriptorLoop ?s (of_nat (8 + (?n + 1))) idx' (fold meaning ds (i\<lparr>si_responseCode := h ! 0 AND 0x7F\<rparr>))"
    by (rule DescriptorLoop_enc) (use assms(1) h8 p(2) in simp_all)
  then obtain idx' j where idx': "unat idx' = 8 + ?n" and
    e: "DescriptorLoop ?s (of_nat (8 + (?n + 1))) 8 (i\<lparr>si_responseCode := h ! 0 AND 0x7F\<rparr>) = DescriptorLoop ?s (of_nat (8 + (?n + 1))) idx' j"
    unfolding h8 by blast
  have "idx' < of_nat (8 + (?n + 1))" using idx' p(2) by (simp add: word_less_nat_alt)
  moreover have "rd ?s (unat idx') = Inr b" "rd ?s (unat idx' + 1) = Inl Oob_read"
    using h8 idx' by (simp_all add: rd_def nth_append)
  ultimately have "DescriptorLoop ?s (of_nat (8 + (?n + 1))) idx' j = Inl Oob_read" by (subst DescriptorLoop.simps) simp
  then show ?thesis using p(1) e Parse_total by simp
qed

theorem sense_reads_one_byte_more_witness:
  "OH_ScsiPeripheral_ParseBasicSenseInfo (Some (a_header 1 @ [0])) 9 (Some no_sense) = Inl Oob_read"
  using sense_reads_one_byte_more [of "[]" "a_header 1" 9 0 no_sense] by (simp add: sense_header_def a_header_def)

end
