(* ===== verification/Scsi_Data.thy ===== *)
theory Scsi_Data
  imports Scsi_Ddk
begin

text \<open>
  The data of the SCSI commands: where a read puts it, what a write sends, and what a failed
  command leaves in the memory. A caller uses a part of the mapped memory, given by an offset and
  a length; the service always works at the start of the memory.
\<close>

section \<open>The used part of the memory\<close>

definition used_part :: "mem_map \<Rightarrow> u8 list" where
  "used_part m = (case mm_address m of None \<Rightarrow> [] | Some buf \<Rightarrow> take (unat (mm_bufferLength m)) (drop (unat (mm_offset m)) buf))"

definition mapped :: "scsi_hdi \<Rightarrow> mem_map \<Rightarrow> u8 list \<Rightarrow> bool" where
  "mapped H m buf \<longleftrightarrow> mm_address m = Some buf \<and> length buf = unat (mm_size m) \<and> unat (mm_size m) \<le> h_rsize_max H
    \<and> ValidateMemMap (Some m) = SCSI_SUCCESS"

definition normalized :: "mem_map \<Rightarrow> u8 list \<Rightarrow> u8 list" where
  "normalized m buf = write_at buf 0 (used_part m)"

lemma unat_u32_u64: "unat (ucast (x :: u32) :: u64) = unat x"
  using unsigned_less [where ?'a = nat, of x] by (simp add: unsigned_ucast_eq take_bit_nat_eq_self)

lemma mapped_bounds:
  assumes "mapped H m buf"
  shows "unat (mm_offset m) + unat (mm_bufferLength m) \<le> length buf" "0 < unat (mm_bufferLength m)"
    "mm_address m = Some buf" "length buf = unat (mm_size m)" "length buf \<le> h_rsize_max H"
    "unat (mm_size m - ucast (mm_offset m)) = length buf - unat (mm_offset m)"
proof -
  have v: "ucast (mm_offset m) \<le> mm_size m" "ucast (mm_bufferLength m) \<le> mm_size m - ucast (mm_offset m)" "mm_bufferLength m \<noteq> 0"
    using assms by (auto simp: mapped_def ValidateMemMap_def not_less split: if_splits)
  note u = unat_u32_u64
  have s: "unat (mm_size m - ucast (mm_offset m)) = unat (mm_size m) - unat (mm_offset m)"
    using v(1) by (simp add: unat_sub u)
  then show "unat (mm_size m - ucast (mm_offset m)) = length buf - unat (mm_offset m)" using assms by (simp add: mapped_def)
  show "unat (mm_offset m) + unat (mm_bufferLength m) \<le> length buf"
    using v(1,2) s assms by (simp add: word_le_nat_alt u mapped_def)
  show "0 < unat (mm_bufferLength m)" using v(3) by (simp add: unat_gt_0)
qed (use assms in \<open>auto simp: mapped_def\<close>)

lemma length_used_part: "mapped H m buf \<Longrightarrow> length (used_part m) = unat (mm_bufferLength m)"
  using mapped_bounds [of H m buf] by (simp add: used_part_def)

lemma length_normalized [simp]: "mapped H m buf \<Longrightarrow> length (normalized m buf) = length buf"
  using mapped_bounds [of H m buf] by (simp add: normalized_def length_used_part)

lemma NormalizeMemMap_ok:
  assumes m: "mapped H m buf"
  shows "NormalizeMemMap H m = Inr (SCSI_SUCCESS, m\<lparr>mm_address := Some (normalized m buf)\<rparr>)"
proof (cases "mm_offset m = 0")
  case True
  then have "normalized m buf = buf" using mapped_bounds [OF m] by (simp add: normalized_def used_part_def write_at_def)
  then show ?thesis using True m by (simp add: NormalizeMemMap_def mapped_def)
next
  case False
  moreover have "0 < mm_bufferLength m" using mapped_bounds(2) [OF m] by (simp add: word_greater_zero_iff unat_gt_0)
  ultimately show ?thesis
    using mapped_bounds [OF m] m by (simp add: NormalizeMemMap_def mapped_def memmove_s_def normalized_def used_part_def)
qed

lemma RestoreMemMap_ok:
  assumes m: "mapped H m buf" and l: "length b = length buf"
  shows "RestoreMemMap H t (m\<lparr>mm_address := Some b\<rparr>)
    = Inr (m\<lparr>mm_address := Some (write_at b (unat (mm_offset m)) (take (min (unat t) (length b - unat (mm_offset m))) b))\<rparr>)"
proof (cases "mm_offset m = 0 \<or> t = 0")
  case True
  then show ?thesis by (auto simp: RestoreMemMap_def write_at_def)
next
  case False
  let ?room = "mm_size m - ucast (mm_offset m)"
  note b = mapped_bounds [OF m]
  have len: "unat (if ucast t > ?room then ucast ?room else t) = min (unat t) (unat ?room)"
  proof (cases "ucast t > ?room")
    case True
    then have "unat ?room < unat t" by (simp add: word_less_nat_alt unat_u32_u64)
    moreover from this have "unat (ucast ?room :: u32) = unat ?room"
      using unsigned_less [where ?'a = nat, of t] by (simp add: unsigned_ucast_eq take_bit_nat_eq_self)
    ultimately show ?thesis using True by simp
  next
    case False
    then have "unat t \<le> unat ?room" by (simp add: not_less word_le_nat_alt unat_u32_u64)
    then show ?thesis using False by simp
  qed
  have "memmove_s (h_rsize_max H) (unat (mm_offset m)) (unat ?room) 0 (min (unat t) (unat ?room)) b
      = Inr (True, write_at b (unat (mm_offset m)) (take (min (unat t) (unat ?room)) b))"
    using b l by (auto simp: memmove_s_def)
  then show ?thesis using False b(6) l len by (simp add: RestoreMemMap_def Let_def)
qed

section \<open>One transfer\<close>

text \<open>\<open>call\<close> is what the service does with the normalised memory.\<close>

lemma Transfer_done:
  assumes m: "mapped H m buf"
    and c: "call (m\<lparr>mm_address := Some (normalized m buf)\<rparr>) (normalized m buf) = Inr (ret, x, r, b)" "length b = length buf"
  shows "TransToDdkErrCode H ret \<noteq> SCSI_SUCCESS \<Longrightarrow>
      Transfer H call m = Inr (TransToDdkErrCode H ret, None, m\<lparr>mm_address := Some b\<rparr>)"
    and "TransToDdkErrCode H ret = SCSI_SUCCESS \<Longrightarrow>
      Transfer H call m = Inr (SCSI_SUCCESS, Some (x, r), m\<lparr>mm_address := Some (write_at b (unat (mm_offset m))
        (take (min (unat (to_u32 (hr_transferredLength r))) (length b - unat (mm_offset m))) b))\<rparr>)"
  using NormalizeMemMap_ok [OF m] c RestoreMemMap_ok [OF m c(2)] by (simp_all add: Transfer_def)

lemma CopyResponse_ok:
  assumes "length (sr_senseData des) = MAX_SENSE_DATA_LEN" and "length (sr_senseData src) \<le> MAX_SENSE_DATA_LEN"
    and "sr_senseData src \<noteq> []"
  shows "\<exists>resp. CopyResponse H src des = Inr (SCSI_SUCCESS, resp) \<and> sr_status resp = sr_status src
    \<and> take (length (sr_senseData src)) (sr_senseData resp) = sr_senseData src"
  using assms by (simp add: CopyResponse_def memcpy_vec_ok)

lemma CopyResponse_Inr:
  assumes "length (sr_senseData des) = MAX_SENSE_DATA_LEN"
  shows "\<exists>e resp. CopyResponse H src des = Inr (e, resp)"
proof -
  obtain ok bs where "memcpy_vec (h_empty_null H) (sr_senseData des) MAX_SENSE_DATA_LEN (sr_senseData src) (length (sr_senseData src)) = Inr (ok, bs)"
    using memcpy_vec_Inr [of MAX_SENSE_DATA_LEN "sr_senseData des" "length (sr_senseData src)" "sr_senseData src" "h_empty_null H"] assms by auto
  then show ?thesis by (simp add: CopyResponse_def)
qed

lemma DataCommand_eq:
  assumes "sg_ddk g" and "io_data q = Some m"
  shows "DataCommand H call g (Some d) (Some q) (Some resp) =
    bindE (Transfer H (\<lambda>m buf. case call (sd_impl d) (ToHdi q m) buf of (ret, r, buf) \<Rightarrow> Inr (ret, (), r, buf)) m)
      (\<lambda>(ret, answer, m).
        case answer of None \<Rightarrow> Inr (ret, Some (q\<lparr>io_data := Some m\<rparr>), Some resp)
        | Some (_, hdiResponse) \<Rightarrow>
            bindE (CopyResponse H hdiResponse resp) (\<lambda>(ret, resp).
              Inr (ret, Some (q\<lparr>io_data := Some (set_transferred hdiResponse m)\<rparr>), Some resp)))"
  using assms by (simp add: DataCommand_def split_def)

lemma ToHdi_address [simp]: "ToHdi q (m\<lparr>mm_address := a\<rparr>) = ToHdi q m"
  by (simp add: ToHdi_def)

lemma to_u32_of_nat [simp]: "n < 4294967296 \<Longrightarrow> unat (to_u32 (int n)) = n"
  by (simp add: to_u32_def unat_of_nat)

section \<open>Reading and writing\<close>

text \<open>
  C23: data that the device delivers for a read is found at the start of the used part of the
  memory, and its length is reported.
\<close>

theorem read_data_lands_in_used_part:
  assumes m: "mapped H m buf" and q: "io_data q = Some m" "sg_ddk g"
    and service: "h_read10 H (sd_impl d) (ToHdi q m) (normalized m buf) = (0, r, write_at (normalized m buf) 0 data)"
    and data: "hr_transferredLength r = int (length data)" "length data \<le> unat (mm_bufferLength m)"
    and sense: "length (sr_senseData r) \<le> MAX_SENSE_DATA_LEN" "sr_senseData r \<noteq> []" "length (sr_senseData resp) = MAX_SENSE_DATA_LEN"
  shows "\<exists>m' resp'. OH_ScsiPeripheral_Read10 H g (Some d) (Some q) (Some resp) = Inr (SCSI_SUCCESS, Some (q\<lparr>io_data := Some m'\<rparr>), Some resp')
    \<and> take (length data) (used_part m') = data \<and> unat (mm_transferredLength m') = length data
    \<and> sr_status resp' = sr_status r \<and> take (length (sr_senseData r)) (sr_senseData resp') = sr_senseData r"
proof -
  note b = mapped_bounds [OF m]
  have n: "length data < 4294967296" using data(2) unsigned_less [where ?'a = nat, of "mm_bufferLength m"] by simp
  let ?b = "write_at (normalized m buf) 0 data"
  have l: "length ?b = length buf" using b(1) data(2) m by simp
  have min: "min (unat (to_u32 (hr_transferredLength r))) (length ?b - unat (mm_offset m)) = length data"
    unfolding data(1) to_u32_of_nat [OF n] l using b(1) data(2) by simp
  let ?m = "m\<lparr>mm_address := Some (write_at ?b (unat (mm_offset m)) data)\<rparr>"
  have t: "Transfer H (\<lambda>m buf. case h_read10 H (sd_impl d) (ToHdi q m) buf of (ret, r, buf) \<Rightarrow> Inr (ret, (), r, buf)) m
      = Inr (SCSI_SUCCESS, Some ((), r), ?m)"
    using Transfer_done(2) [OF m, of "\<lambda>m buf. case h_read10 H (sd_impl d) (ToHdi q m) buf of (ret, r, buf) \<Rightarrow> Inr (ret, (), r, buf)"
        0 "()" r ?b] service l unfolding min by (simp add: TransToDdkErrCode_def) (simp add: write_at_def)
  obtain resp' where r: "CopyResponse H r resp = Inr (SCSI_SUCCESS, resp')" "sr_status resp' = sr_status r"
    "take (length (sr_senseData r)) (sr_senseData resp') = sr_senseData r"
    using CopyResponse_ok [OF sense(3,1,2)] by blast
  have u: "take (length data) (used_part (set_transferred r ?m)) = data"
    using b(1) data(2) l by (simp add: used_part_def set_transferred_def write_at_def)
  have "unat (mm_transferredLength (set_transferred r ?m)) = length data" using n data(1) by (simp add: set_transferred_def)
  then show ?thesis using r u t DataCommand_eq [OF q(2,1), of H "h_read10 H" d resp]
    by (simp add: OH_ScsiPeripheral_Read10_def) blast
qed

text \<open>A service for examples: commands succeed, a read delivers two bytes, a write is refused.\<close>

definition no_answer :: hdi_response where
  "no_answer = \<lparr>sr_senseData = [0x70], sr_status = 0, sr_maskedStatus = 0, sr_msgStatus = 0, sr_sbLenWr = 0, sr_hostStatus = 0,
     sr_driverStatus = 0, sr_resId = 0, sr_duration = 0, hr_transferredLength = 2\<rparr>"

definition example_hdi :: scsi_hdi where
  "example_hdi = \<lparr>h_get = True, h_addDeathRecipient = True, h_init = 0, h_release = 0,
     h_open = (\<lambda>_ _. (0, \<lparr>sd_impl = 1, sd_memMapFd = 1\<rparr>)), h_close = (\<lambda>_. 0), h_closeFd = (\<lambda>_. True),
     h_testUnitReady = (\<lambda>_ _. (0, no_answer)), h_requestSense = (\<lambda>_ _. (0, no_answer)),
     h_readCapacity10 = (\<lambda>_ _. (0, \<lparr>ci_lbAddress = 0, ci_lbLength = 512\<rparr>, no_answer)), h_verify10 = (\<lambda>_ _. (0, no_answer)),
     h_inquiry = (\<lambda>_ _ b. (0, \<lparr>hii_deviceType = 0, hii_idVendor = [], hii_idProduct = [], hii_revProduct = []\<rparr>, no_answer, b)),
     h_read10 = (\<lambda>_ _ b. (0, no_answer, write_at b 0 [7, 8])), h_write10 = (\<lambda>_ _ b. (SCSI_IO_ERROR, no_answer, b)),
     h_sendByCdb = (\<lambda>_ _ b. (0, no_answer, b)), h_mmap = (\<lambda>_ n. Some (replicate (unat n) 0)), h_munmap = (\<lambda>_ _. True),
     h_ipc_error = (\<lambda>_. False), h_rsize_max = 1000, h_empty_null = True\<rparr>"

definition example_map :: mem_map where
  "example_map = \<lparr>mm_address = Some [1, 2, 3, 4], mm_size = 4, mm_offset = 1, mm_bufferLength = 3, mm_transferredLength = 0\<rparr>"

definition example_request :: io_request where
  "example_request = \<lparr>io_lbAddress = 5, io_transferLength = 1, io_control = 0, io_byte1 = 0, io_byte6 = 0,
     io_data = Some example_map, io_timeout = 1\<rparr>"

definition example_response :: scsi_response where
  "example_response = \<lparr>sr_senseData = replicate 252 0, sr_status = 9, sr_maskedStatus = 0, sr_msgStatus = 0, sr_sbLenWr = 0,
     sr_hostStatus = 0, sr_driverStatus = 0, sr_resId = 0, sr_duration = 0\<rparr>"

definition example_device :: scsi_device where
  "example_device = \<lparr>sd_impl = 1, sd_memMapFd = 1\<rparr>"

definition example_ddk :: scsi_ddk where
  "example_ddk = \<lparr>sg_ddk = True, sg_recipient = True\<rparr>"

lemma example_simps:
  "sg_ddk example_ddk" "io_data example_request = Some example_map" "mm_offset example_map = 1" "mm_bufferLength example_map = 3"
  "h_read10 example_hdi i q b = (0, no_answer, write_at b 0 [7, 8])" "h_write10 example_hdi i q b = (SCSI_IO_ERROR, no_answer, b)"
  "h_sendByCdb example_hdi i c b = (0, no_answer, b)" "\<not> h_ipc_error example_hdi e"
  "hr_transferredLength no_answer = 2" "sr_senseData no_answer = [0x70]" "length (sr_senseData example_response) = 252"
  "used_part example_map = [2, 3, 4]"
  by (simp_all add: example_ddk_def example_request_def example_map_def example_hdi_def no_answer_def example_response_def used_part_def)

lemma example_mapped: "mapped example_hdi example_map [1, 2, 3, 4]"
  by (simp add: mapped_def example_map_def example_hdi_def ValidateMemMap_def)

theorem read_data_lands_in_used_part_witness:
  "\<exists>m' resp'. OH_ScsiPeripheral_Read10 example_hdi example_ddk (Some example_device)
      (Some example_request) (Some example_response) = Inr (SCSI_SUCCESS, Some (example_request\<lparr>io_data := Some m'\<rparr>), Some resp')
    \<and> take 2 (used_part m') = [7, 8]"
  using read_data_lands_in_used_part [OF example_mapped, of example_request example_ddk example_device no_answer "[7, 8]" example_response]
  by (simp add: example_simps) (auto simp: numeral_2_eq_2)

text \<open>
  a write hands the service the used part at the start of the memory. When the service
  fails, the memory is left that way: where the used part overlaps its copy, a second attempt with
  the same request would send other bytes, the used part without its first \<open>offset\<close> bytes and with
  its last \<open>offset\<close> bytes twice.
\<close>

theorem failed_write_shifts_data:
  assumes m: "mapped H m buf" and q: "io_data q = Some m" "sg_ddk g"
    and service: "h_write10 H (sd_impl d) (ToHdi q m) (used_part m @ drop (unat (mm_bufferLength m)) buf)
      = (ret, r, used_part m @ drop (unat (mm_bufferLength m)) buf)" "TransToDdkErrCode H ret \<noteq> SCSI_SUCCESS"
    and overlap: "unat (mm_offset m) \<le> unat (mm_bufferLength m)"
  shows "\<exists>m'. OH_ScsiPeripheral_Write10 H g (Some d) (Some q) (Some resp)
      = Inr (TransToDdkErrCode H ret, Some (q\<lparr>io_data := Some m'\<rparr>), Some resp)
    \<and> used_part m' = drop (unat (mm_offset m)) (used_part m)
        @ drop (unat (mm_bufferLength m) - unat (mm_offset m)) (used_part m)"
proof -
  note b = mapped_bounds [OF m] and u = length_used_part [OF m]
  have n: "used_part m @ drop (unat (mm_bufferLength m)) buf = normalized m buf"
    by (simp add: normalized_def write_at_def u)
  let ?m = "m\<lparr>mm_address := Some (normalized m buf)\<rparr>"
  have t: "Transfer H (\<lambda>m buf. case h_write10 H (sd_impl d) (ToHdi q m) buf of (ret, r, buf) \<Rightarrow> Inr (ret, (), r, buf)) m
      = Inr (TransToDdkErrCode H ret, None, ?m)"
    using Transfer_done(1) [OF m, of "\<lambda>m buf. case h_write10 H (sd_impl d) (ToHdi q m) buf of (ret, r, buf) \<Rightarrow> Inr (ret, (), r, buf)"
        ret "()" r "normalized m buf"] service m unfolding n by simp
  have "used_part ?m = drop (unat (mm_offset m)) (used_part m) @ drop (unat (mm_bufferLength m) - unat (mm_offset m)) (used_part m)"
    using b(1) overlap u b(3) unfolding n [symmetric] by (simp add: used_part_def drop_take add.commute)
  then show ?thesis using t DataCommand_eq [OF q(2,1), of H "h_write10 H" d resp]
    by (simp add: OH_ScsiPeripheral_Write10_def) blast
qed

theorem failed_write_shifts_data_witness:
  "used_part example_map = [2, 3, 4] \<and>
   (\<exists>m'. OH_ScsiPeripheral_Write10 example_hdi example_ddk (Some example_device)
      (Some example_request) (Some example_response) = Inr (SCSI_IO_ERROR, Some (example_request\<lparr>io_data := Some m'\<rparr>), Some example_response)
    \<and> used_part m' = [3, 4, 4])"
  using failed_write_shifts_data [OF example_mapped, of example_request example_ddk example_device SCSI_IO_ERROR no_answer example_response]
  by (simp add: example_simps TransToDdkErrCode_def)

text \<open>
  C24: sending a command block of the caller's choice stays in its buffers exactly when the given
  length is at most 16, the size of the block in the request; it is not checked.
\<close>

theorem cdb_length_decides:
  assumes m: "mapped H m buf" and q: "cr_data q = Some m" "sg_ddk g" "cr_cdbLength q \<noteq> 0"
    "length (cr_commandDescriptorBlock q) = MAX_CMD_DESC_BLOCK_LEN"
    and service: "\<forall>i h b. \<exists>ret r b'. h_sendByCdb H i h b = (ret, r, b') \<and> length b' = length b"
    and sense: "length (sr_senseData resp) = MAX_SENSE_DATA_LEN"
  shows "(\<exists>x. OH_ScsiPeripheral_SendRequestByCdb H g (Some d) (Some q) (Some resp) = Inr x) \<longleftrightarrow> unat (cr_cdbLength q) \<le> MAX_CMD_DESC_BLOCK_LEN"
proof (cases "unat (cr_cdbLength q) \<le> MAX_CMD_DESC_BLOCK_LEN")
  case False
  then have "rd_bytes (cr_commandDescriptorBlock q) (unat (cr_cdbLength q)) = Inl Oob_read" using q(4) by (simp add: rd_bytes_def)
  then show ?thesis using False NormalizeMemMap_ok [OF m] q
    by (simp add: OH_ScsiPeripheral_SendRequestByCdb_def Transfer_def)
next
  case True
  let ?block = "take (unat (cr_cdbLength q)) (cr_commandDescriptorBlock q)"
  let ?h = "\<lparr>hcr_commandDescriptorBlock = ?block, hcr_dataTransferDirection = cr_dataTransferDirection q,
    hcr_memMapSize = ucast (mm_bufferLength m), hcr_timeout = cr_timeout q\<rparr>"
  obtain ret r b where s: "h_sendByCdb H (sd_impl d) ?h (normalized m buf) = (ret, r, b)"
    "length b = length buf"
    using service m by (metis length_normalized)
  have blk: "rd_bytes (cr_commandDescriptorBlock q) (unat (cr_cdbLength q)) = Inr ?block" using True q(4) by simp
  obtain e resp' where r: "CopyResponse H r resp = Inr (e, resp')" using CopyResponse_Inr [OF sense, of H r] by blast
  let ?call = "\<lambda>m buf. bindE (rd_bytes (cr_commandDescriptorBlock q) (unat (cr_cdbLength q))) (\<lambda>block.
      case h_sendByCdb H (sd_impl d) \<lparr>hcr_commandDescriptorBlock = block, hcr_dataTransferDirection = cr_dataTransferDirection q,
        hcr_memMapSize = ucast (mm_bufferLength m), hcr_timeout = cr_timeout q\<rparr> buf of (ret, r, buf) \<Rightarrow> Inr (ret, (), r, buf))"
  note T = Transfer_done [OF m, of ?call ret "()" r b]
  have "\<exists>m' a. Transfer H ?call m = Inr (TransToDdkErrCode H ret, a, m') \<and> (a = None \<or> a = Some ((), r))"
    using T s(1,2) blk by (cases "TransToDdkErrCode H ret = SCSI_SUCCESS") simp_all
  then show ?thesis using True q r by (auto simp: OH_ScsiPeripheral_SendRequestByCdb_def split_def)
qed

definition example_cdb :: "u8 \<Rightarrow> cdb_request" where
  "example_cdb n = \<lparr>cr_commandDescriptorBlock = replicate 16 0, cr_cdbLength = n, cr_dataTransferDirection = 0,
     cr_data = Some example_map, cr_timeout = 1\<rparr>"

theorem cdb_length_decides_witness:
  "\<not> (\<exists>x. OH_ScsiPeripheral_SendRequestByCdb example_hdi example_ddk (Some example_device)
      (Some (example_cdb 17)) (Some example_response) = Inr x)"
  using cdb_length_decides [OF example_mapped, of "example_cdb 17" example_ddk example_response example_device]
  by (simp add: example_cdb_def example_simps)

end
