(* ===== verification/Hid_Ddk.thy ===== *)
theory Hid_Ddk
  imports Ext_Types
begin

text \<open>
  Emulated input devices of the HID part of the driver development kit: the first half of
  src/frameworks/ddk/hid/input_emit_event.cpp, in the build with
  ENABLE_EXTERNAL_DEVICE_DDK_SERVICE.

  The service is another process with a state \<open>'s\<close> of its own; the record \<open>H\<close> holds what each of its
  calls does to that state and answers. The kit caches the devices it created, to create them
  again when the service was restarted.
\<close>

section \<open>Types\<close>

abbreviation (input) HID_SUCCESS :: int where "HID_SUCCESS \<equiv> 0"
abbreviation (input) HID_NO_PERM :: int where "HID_NO_PERM \<equiv> 201"
abbreviation (input) HID_INVALID_PARAMETER :: int where "HID_INVALID_PARAMETER \<equiv> 401"
abbreviation (input) HID_FAILURE :: int where "HID_FAILURE \<equiv> 27300001"
abbreviation (input) HID_INVALID_OPERATION :: int where "HID_INVALID_OPERATION \<equiv> 27300003"
abbreviation (input) HID_INIT_ERROR :: int where "HID_INIT_ERROR \<equiv> 27300005"
abbreviation (input) HID_SERVICE_ERROR :: int where "HID_SERVICE_ERROR \<equiv> 27300006"
abbreviation (input) HID_MEMORY_ERROR :: int where "HID_MEMORY_ERROR \<equiv> 27300007"

abbreviation (input) MAX_EMIT_ITEM_NUM :: nat where "MAX_EMIT_ITEM_NUM \<equiv> 20"
abbreviation (input) MAX_HID_DEVICE_PROP_LEN :: nat where "MAX_HID_DEVICE_PROP_LEN \<equiv> 7"
abbreviation (input) MAX_HID_EVENT_TYPES_LEN :: nat where "MAX_HID_EVENT_TYPES_LEN \<equiv> 5"
abbreviation (input) MAX_HID_KEYS_LEN :: nat where "MAX_HID_KEYS_LEN \<equiv> 100"
abbreviation (input) MAX_HID_ABS_LEN :: nat where "MAX_HID_ABS_LEN \<equiv> 26"
abbreviation (input) MAX_HID_REL_BITS_LEN :: nat where "MAX_HID_REL_BITS_LEN \<equiv> 13"
abbreviation (input) MAX_HID_MISC_EVENT_LEN :: nat where "MAX_HID_MISC_EVENT_LEN \<equiv> 6"
abbreviation (input) MAX_NAME_LENGTH :: nat where "MAX_NAME_LENGTH \<equiv> 80"

text \<open>An array given by a pointer and a length. Codes of events, keys and axes are numbers.\<close>

record code_array =
  ca_codes :: "u32 list option"
  ca_length :: u16

record emit_item =
  ei_type :: u16
  ei_code :: u16
  ei_value :: u32

record hid_device =
  hd_deviceName :: "string option"
  hd_vendorId :: u16
  hd_productId :: u16
  hd_version :: u16
  hd_bustype :: u16
  hd_properties :: code_array

record hid_event_properties =
  he_hidEventTypes :: code_array
  he_hidKeys :: code_array
  he_hidAbs :: code_array
  he_hidRelBits :: code_array
  he_hidMiscellaneous :: code_array
  he_hidAbsMax :: "int list"
  he_hidAbsMin :: "int list"
  he_hidAbsFuzz :: "int list"
  he_hidAbsFlat :: "int list"

text \<open>The service's own types for the two, with vectors in place of the arrays.\<close>

record hdi_device =
  xd_deviceName :: string
  xd_vendorId :: u16
  xd_productId :: u16
  xd_version :: u16
  xd_bustype :: u16
  xd_properties :: "u32 list"

record hdi_event_properties =
  xe_hidEventTypes :: "u32 list"
  xe_hidKeys :: "u32 list"
  xe_hidAbs :: "u32 list"
  xe_hidRelBits :: "u32 list"
  xe_hidMiscellaneous :: "u32 list"
  xe_hidAbsMax :: "int list"
  xe_hidAbsMin :: "int list"
  xe_hidAbsFuzz :: "int list"
  xe_hidAbsFlat :: "int list"

record temp_device =
  td_tempDevice :: hdi_device
  td_tempProperties :: hdi_event_properties
  td_realId :: u32

record hid_ddk =
  hg_ddk :: bool
  hg_recipient :: bool
  hg_deviceMap :: "(int \<times> temp_device) list"

text \<open>
  The calls of the service that the emulated devices use. \<open>hs_createDevice\<close> gets the number that
  its result parameter holds before the call. \<open>hs_order\<close> is the order in which the iteration over
  the table of devices goes, \<open>hs_NOPERM\<close> the code of a refused permission.
\<close>

record 's hid_service =
  hs_get :: "'s \<Rightarrow> bool \<times> 's"
  hs_addDeathRecipient :: "'s \<Rightarrow> bool \<times> 's"
  hs_init :: "'s \<Rightarrow> int \<times> 's"
  hs_release :: "'s \<Rightarrow> int \<times> 's"
  hs_createDevice :: "hdi_device \<Rightarrow> hdi_event_properties \<Rightarrow> u32 \<Rightarrow> 's \<Rightarrow> (int \<times> u32) \<times> 's"
  hs_emitEvent :: "u32 \<Rightarrow> emit_item list \<Rightarrow> 's \<Rightarrow> int \<times> 's"
  hs_destroyDevice :: "u32 \<Rightarrow> 's \<Rightarrow> int \<times> 's"
  hs_order :: "int list \<Rightarrow> int list"
  hs_NOPERM :: int
  hs_ipc_error :: "int \<Rightarrow> bool"

section \<open>Connecting to the service\<close>

definition TransToHidCode :: "'s hid_service \<Rightarrow> int \<Rightarrow> int" where
  "TransToHidCode H ret = (if hs_ipc_error H ret then HID_SERVICE_ERROR else ret)"

definition HidDeathRecipient_OnRemoteDied :: "hid_ddk \<Rightarrow> hid_ddk" where
  "HidDeathRecipient_OnRemoteDied g = (if hg_ddk g then g\<lparr>hg_recipient := False, hg_ddk := False\<rparr> else g)"

definition GetRealDeviceId :: "hid_ddk \<Rightarrow> int \<Rightarrow> u32" where
  "GetRealDeviceId g deviceId =
     (case map_of (hg_deviceMap g) deviceId of Some t \<Rightarrow> td_realId t | None \<Rightarrow> word_of_int deviceId)"

text \<open>The loop of \<open>Connect\<close>: every cached device is created again, its number is overwritten.\<close>

fun CreateAgain :: "'s hid_service \<Rightarrow> int list \<Rightarrow> (int \<times> temp_device) list \<Rightarrow> 's \<Rightarrow> (int \<times> temp_device) list \<times> 's" where
  "CreateAgain H [] m s = (m, s)"
| "CreateAgain H (k # ks) m s =
     (case map_of m k of None \<Rightarrow> CreateAgain H ks m s
      | Some t \<Rightarrow>
          (case hs_createDevice H (td_tempDevice t) (td_tempProperties t) (td_realId t) s of ((_, realId), s) \<Rightarrow>
           CreateAgain H ks (al_put k (t\<lparr>td_realId := realId\<rparr>) m) s))"

definition HidConnect :: "'s hid_service \<Rightarrow> hid_ddk \<Rightarrow> 's \<Rightarrow> int \<times> hid_ddk \<times> 's" where
  "HidConnect H g s =
     (if \<not> hg_ddk g then
        (case hs_get H s of (ok, s) \<Rightarrow>
         let g = g\<lparr>hg_ddk := ok\<rparr> in
         if \<not> ok then (HID_FAILURE, g, s)
         else
           case CreateAgain H (hs_order H (map fst (hg_deviceMap g))) (hg_deviceMap g) s of (m, s) \<Rightarrow>
           let g = g\<lparr>hg_deviceMap := m, hg_recipient := True\<rparr> in
           case hs_addDeathRecipient H s of (ok, s) \<Rightarrow>
           if \<not> ok then (HID_FAILURE, g, s) else (HID_SUCCESS, g, s))
      else (HID_SUCCESS, g, s))"

section \<open>Descriptions of devices\<close>

text \<open>Copying an array; reading past its end is a fault.\<close>

definition copy_array :: "code_array \<Rightarrow> u32 list res" where
  "copy_array a =
     (case ca_codes a of None \<Rightarrow> Inr []
      | Some codes \<Rightarrow> if length codes < unat (ca_length a) then Inl Oob_read else Inr (take (unat (ca_length a)) codes))"

definition ParseHidDevice :: "hid_device \<Rightarrow> hdi_device res" where
  "ParseHidDevice d =
     (case hd_deviceName d of None \<Rightarrow> Inl Null_deref
      | Some name \<Rightarrow>
          bindE (copy_array (hd_properties d)) (\<lambda>properties.
            Inr \<lparr>xd_deviceName = name, xd_vendorId = hd_vendorId d, xd_productId = hd_productId d,
                 xd_version = hd_version d, xd_bustype = hd_bustype d, xd_properties = properties\<rparr>))"

definition ParseHidEventProperties :: "hid_event_properties \<Rightarrow> hdi_event_properties res" where
  "ParseHidEventProperties p =
     bindE (copy_array (he_hidEventTypes p)) (\<lambda>types.
     bindE (copy_array (he_hidKeys p)) (\<lambda>keys.
     bindE (copy_array (he_hidAbs p)) (\<lambda>abs.
     bindE (copy_array (he_hidRelBits p)) (\<lambda>rel.
     bindE (copy_array (he_hidMiscellaneous p)) (\<lambda>misc.
       Inr \<lparr>xe_hidEventTypes = types, xe_hidKeys = keys, xe_hidAbs = abs, xe_hidRelBits = rel, xe_hidMiscellaneous = misc,
            xe_hidAbsMax = he_hidAbsMax p, xe_hidAbsMin = he_hidAbsMin p, xe_hidAbsFuzz = he_hidAbsFuzz p,
            xe_hidAbsFlat = he_hidAbsFlat p\<rparr>)))))"

definition CacheDeviceInfor :: "hdi_device \<Rightarrow> hdi_event_properties \<Rightarrow> u32 \<Rightarrow> hid_ddk \<Rightarrow> int \<times> hid_ddk" where
  "CacheDeviceInfor tempDevice tempProperties deviceId g =
     (let i = to_i32 (uint deviceId) in
      (i, g\<lparr>hg_deviceMap := al_put i \<lparr>td_tempDevice = tempDevice, td_tempProperties = tempProperties, td_realId = deviceId\<rparr>
            (hg_deviceMap g)\<rparr>))"

definition CheckHidDevice :: "hid_device option \<Rightarrow> bool" where
  "CheckHidDevice hidDevice =
     (case hidDevice of None \<Rightarrow> False
      | Some d \<Rightarrow>
          if unat (ca_length (hd_properties d)) > MAX_HID_DEVICE_PROP_LEN then False
          else case hd_deviceName d of None \<Rightarrow> False
          | Some name \<Rightarrow> \<not> (length name = 0 \<or> length name > MAX_NAME_LENGTH - 1))"

section \<open>Operations\<close>

definition OH_Hid_CreateDevice ::
  "'s hid_service \<Rightarrow> hid_device option \<Rightarrow> hid_event_properties option \<Rightarrow> hid_ddk \<Rightarrow> 's \<Rightarrow> (int \<times> hid_ddk \<times> 's) res" where
  "OH_Hid_CreateDevice H hidDevice hidEventProperties g s =
     (case HidConnect H g s of (ret, g, s) \<Rightarrow>
      if ret \<noteq> HID_SUCCESS then Inr (HID_INVALID_OPERATION, g, s)
      else if \<not> CheckHidDevice hidDevice then Inr (HID_INVALID_PARAMETER, g, s)
      else case (hidDevice, hidEventProperties) of
        (Some d, Some p) \<Rightarrow>
          if unat (ca_length (he_hidEventTypes p)) > MAX_HID_EVENT_TYPES_LEN then Inr (HID_INVALID_PARAMETER, g, s)
          else if unat (ca_length (he_hidKeys p)) > MAX_HID_KEYS_LEN then Inr (HID_INVALID_PARAMETER, g, s)
          else if unat (ca_length (he_hidAbs p)) > MAX_HID_ABS_LEN then Inr (HID_INVALID_PARAMETER, g, s)
          else if unat (ca_length (he_hidRelBits p)) > MAX_HID_REL_BITS_LEN then Inr (HID_INVALID_PARAMETER, g, s)
          else if unat (ca_length (he_hidMiscellaneous p)) > MAX_HID_MISC_EVENT_LEN then Inr (HID_INVALID_PARAMETER, g, s)
          else
            bindE (ParseHidDevice d) (\<lambda>tempDevice. bindE (ParseHidEventProperties p) (\<lambda>tempEventProperties.
              case hs_createDevice H tempDevice tempEventProperties 0 s of ((ret, deviceId), s) \<Rightarrow>
              let ret = (if ret = hs_NOPERM H then HID_NO_PERM else ret) in
              if ret \<noteq> HID_SUCCESS then Inr (ret, g, s)
              else case CacheDeviceInfor tempDevice tempEventProperties deviceId g of (i, g) \<Rightarrow> Inr (i, g, s)))
      | _ \<Rightarrow> Inr (HID_INVALID_PARAMETER, g, s))"

definition OH_Hid_EmitEvent ::
  "'s hid_service \<Rightarrow> int \<Rightarrow> emit_item list option \<Rightarrow> u16 \<Rightarrow> hid_ddk \<Rightarrow> 's \<Rightarrow> (int \<times> hid_ddk \<times> 's) res" where
  "OH_Hid_EmitEvent H deviceId items n g s =
     (case HidConnect H g s of (ret, g, s) \<Rightarrow>
      if ret \<noteq> HID_SUCCESS then Inr (HID_INVALID_OPERATION, g, s)
      else if deviceId < 0 then Inr (HID_INVALID_PARAMETER, g, s)
      else if unat n > MAX_EMIT_ITEM_NUM then Inr (HID_INVALID_PARAMETER, g, s)
      else case items of None \<Rightarrow> Inr (HID_INVALID_PARAMETER, g, s)
      | Some xs \<Rightarrow>
          if length xs < unat n then Inl Oob_read
          else case hs_emitEvent H (GetRealDeviceId g deviceId) (take (unat n) xs) s of (ret, s) \<Rightarrow>
            let ret = (if ret = hs_NOPERM H then HID_NO_PERM else ret) in
            if ret \<noteq> HID_SUCCESS then Inr (ret, g, s) else Inr (HID_SUCCESS, g, s))"

definition OH_Hid_DestroyDevice :: "'s hid_service \<Rightarrow> int \<Rightarrow> hid_ddk \<Rightarrow> 's \<Rightarrow> int \<times> hid_ddk \<times> 's" where
  "OH_Hid_DestroyDevice H deviceId g s =
     (case HidConnect H g s of (ret, g, s) \<Rightarrow>
      if ret \<noteq> HID_SUCCESS then (HID_INVALID_OPERATION, g, s)
      else case hs_destroyDevice H (GetRealDeviceId g deviceId) s of (ret, s) \<Rightarrow>
        let ret = (if ret = hs_NOPERM H then HID_NO_PERM else ret) in
        if ret \<noteq> HID_SUCCESS then (ret, g, s)
        else (HID_SUCCESS, g\<lparr>hg_deviceMap := al_del deviceId (hg_deviceMap g)\<rparr>, s))"

definition OH_Hid_Init :: "'s hid_service \<Rightarrow> hid_ddk \<Rightarrow> 's \<Rightarrow> int \<times> hid_ddk \<times> 's" where
  "OH_Hid_Init H g s =
     (case hs_get H s of (ok, s) \<Rightarrow>
      let g = g\<lparr>hg_ddk := ok\<rparr> in
      if \<not> ok then (HID_INIT_ERROR, g, s)
      else case hs_init H s of (ret, s) \<Rightarrow> (TransToHidCode H ret, g, s))"

definition OH_Hid_Release :: "'s hid_service \<Rightarrow> hid_ddk \<Rightarrow> 's \<Rightarrow> int \<times> hid_ddk \<times> 's" where
  "OH_Hid_Release H g s =
     (if \<not> hg_ddk g then (HID_INIT_ERROR, g, s)
      else case hs_release H s of (ret, s) \<Rightarrow> (TransToHidCode H ret, g\<lparr>hg_ddk := False\<rparr>, s))"

end
