(* ===== verification/Hid_Raw.thy ===== *)
theory Hid_Raw
  imports Hid_Ddk
begin

text \<open>
  Access to HID devices in the driver development kit: the second half of
  src/frameworks/ddk/hid/input_emit_event.cpp. The answers of the service to one call are the record
  \<open>R\<close>; buffers the caller passes are lists of their bytes, in and out.
\<close>

section \<open>The service\<close>

abbreviation (input) HID_MAX_REPORT_BUFFER_SIZE :: nat where "HID_MAX_REPORT_BUFFER_SIZE \<equiv> 16383"

record hid_handle =
  hh_fd :: int
  hh_nonBlock :: int

record hid_raw_info =
  ri_busType :: u32
  ri_vendor :: u16
  ri_product :: u16

text \<open>
  \<open>hr_empty_null\<close>: the data pointer of an empty vector is null. A call that fills a vector gives its
  new contents, which need not have the length that was asked for.
\<close>

record hid_raw =
  hr_open :: "u64 \<Rightarrow> u8 \<Rightarrow> int \<times> hid_handle"
  hr_close :: "hid_handle \<Rightarrow> int"
  hr_write :: "hid_handle \<Rightarrow> u8 list \<Rightarrow> int \<times> u32"
  hr_readTimeout :: "hid_handle \<Rightarrow> u32 \<Rightarrow> int \<Rightarrow> int \<times> u8 list \<times> u32"
  hr_setNonBlocking :: "hid_handle \<Rightarrow> int \<Rightarrow> int \<times> hid_handle"
  hr_getRawInfo :: "hid_handle \<Rightarrow> int \<times> hid_raw_info"
  hr_getRawName :: "hid_handle \<Rightarrow> u32 \<Rightarrow> int \<times> u8 list"
  hr_getPhysicalAddress :: "hid_handle \<Rightarrow> u32 \<Rightarrow> int \<times> u8 list"
  hr_getRawUniqueId :: "hid_handle \<Rightarrow> u32 \<Rightarrow> int \<times> u8 list"
  hr_sendReport :: "hid_handle \<Rightarrow> int \<Rightarrow> u8 list \<Rightarrow> int"
  hr_getReport :: "hid_handle \<Rightarrow> int \<Rightarrow> u8 \<Rightarrow> u32 \<Rightarrow> int \<times> u8 list"
  hr_getReportDescriptor :: "hid_handle \<Rightarrow> u32 \<Rightarrow> int \<times> u8 list \<times> u32"
  hr_ipc_error :: "int \<Rightarrow> bool"
  hr_empty_null :: bool

definition ToHidCode :: "hid_raw \<Rightarrow> int \<Rightarrow> int" where
  "ToHidCode R ret = (if hr_ipc_error R ret then HID_SERVICE_ERROR else ret)"

text \<open>The checks that the calls with a buffer share, and the copy of the answer into it.\<close>

definition good_length :: "u32 \<Rightarrow> bool" where
  "good_length n \<longleftrightarrow> \<not> (n = 0 \<or> unat n > HID_MAX_REPORT_BUFFER_SIZE)"

definition copy_out :: "hid_raw \<Rightarrow> u8 list \<Rightarrow> nat \<Rightarrow> u8 list \<Rightarrow> nat \<Rightarrow> (int \<times> u8 list) res" where
  "copy_out R data destMax src count =
     bindE (memcpy_vec (hr_empty_null R) data destMax src count) (\<lambda>(ok, data).
       Inr (if \<not> ok then HID_MEMORY_ERROR else HID_SUCCESS, data))"

section \<open>Opening and closing\<close>

text \<open>The second result is what \<open>*dev\<close> holds afterwards, when it was written.\<close>

definition OH_Hid_Open :: "hid_raw \<Rightarrow> hid_ddk \<Rightarrow> u64 \<Rightarrow> u8 \<Rightarrow> bool \<Rightarrow> int \<times> hid_handle option" where
  "OH_Hid_Open R g deviceId interfaceIndex devGiven =
     (if \<not> hg_ddk g then (HID_INIT_ERROR, None)
      else if \<not> devGiven then (HID_INVALID_PARAMETER, None)
      else case hr_open R deviceId interfaceIndex of (ret, impl) \<Rightarrow> (ToHidCode R ret, Some impl))"

definition OH_Hid_Close :: "hid_raw \<Rightarrow> hid_ddk \<Rightarrow> hid_handle option option \<Rightarrow> int \<times> hid_handle option option" where
  "OH_Hid_Close R g dev =
     (if \<not> hg_ddk g then (HID_INIT_ERROR, dev)
      else case dev of Some (Some d) \<Rightarrow> (ToHidCode R (hr_close R d), Some None)
      | _ \<Rightarrow> (HID_INVALID_PARAMETER, dev))"

section \<open>Reading and writing\<close>

definition OH_Hid_Write ::
  "hid_raw \<Rightarrow> hid_ddk \<Rightarrow> hid_handle option \<Rightarrow> u8 list option \<Rightarrow> u32 \<Rightarrow> u32 option \<Rightarrow> (int \<times> u32 option) res" where
  "OH_Hid_Write R g dev data n bytesWritten =
     (if \<not> hg_ddk g then Inr (HID_INIT_ERROR, bytesWritten)
      else case (dev, data, bytesWritten) of
        (Some d, Some bs, Some _) \<Rightarrow>
          if \<not> good_length n then Inr (HID_INVALID_PARAMETER, bytesWritten)
          else bindE (rd_bytes bs (unat n)) (\<lambda>writeData.
            case hr_write R d writeData of (ret, written) \<Rightarrow>
            let ret = ToHidCode R ret in
            if ret \<noteq> HID_SUCCESS then Inr (ret, Some 0) else Inr (HID_SUCCESS, Some written))
      | _ \<Rightarrow> Inr (HID_INVALID_PARAMETER, bytesWritten))"

definition OH_Hid_ReadTimeout ::
  "hid_raw \<Rightarrow> hid_ddk \<Rightarrow> hid_handle option \<Rightarrow> u8 list option \<Rightarrow> u32 \<Rightarrow> int \<Rightarrow> u32 option
   \<Rightarrow> (int \<times> u8 list option \<times> u32 option) res" where
  "OH_Hid_ReadTimeout R g dev data bufSize timeout bytesRead =
     (if \<not> hg_ddk g then Inr (HID_INIT_ERROR, data, bytesRead)
      else case (dev, data, bytesRead) of
        (Some d, Some bs, Some _) \<Rightarrow>
          if \<not> good_length bufSize then Inr (HID_INVALID_PARAMETER, data, bytesRead)
          else (case hr_readTimeout R d bufSize timeout of (ret, readData, n) \<Rightarrow>
            let ret = ToHidCode R ret in
            if ret \<noteq> HID_SUCCESS then Inr (ret, data, Some n)
            else bindE (copy_out R bs (unat bufSize) readData (unat n)) (\<lambda>(ret, bs). Inr (ret, Some bs, Some n)))
      | _ \<Rightarrow> Inr (HID_INVALID_PARAMETER, data, bytesRead))"

definition OH_Hid_Read ::
  "hid_raw \<Rightarrow> hid_ddk \<Rightarrow> hid_handle option \<Rightarrow> u8 list option \<Rightarrow> u32 \<Rightarrow> u32 option
   \<Rightarrow> (int \<times> u8 list option \<times> u32 option) res" where
  "OH_Hid_Read R g dev data bufSize bytesRead =
     (if \<not> hg_ddk g then Inr (HID_INIT_ERROR, data, bytesRead)
      else case (dev, data, bytesRead) of
        (Some d, Some bs, Some _) \<Rightarrow>
          if \<not> good_length bufSize then Inr (HID_INVALID_PARAMETER, data, bytesRead)
          else (case hr_readTimeout R d bufSize (if hh_nonBlock d \<noteq> 0 then 0 else - 1) of (ret, readData, n) \<Rightarrow>
            let ret = ToHidCode R ret in
            if ret \<noteq> HID_SUCCESS then Inr (ret, data, Some n)
            else bindE (copy_out R bs (unat bufSize) readData (unat n)) (\<lambda>(ret, bs). Inr (ret, Some bs, Some n)))
      | _ \<Rightarrow> Inr (HID_INVALID_PARAMETER, data, bytesRead))"

definition OH_Hid_SetNonBlocking ::
  "hid_raw \<Rightarrow> hid_ddk \<Rightarrow> hid_handle option \<Rightarrow> int \<Rightarrow> int \<times> hid_handle option" where
  "OH_Hid_SetNonBlocking R g dev nonBlock =
     (if \<not> hg_ddk g then (HID_INIT_ERROR, dev)
      else case dev of None \<Rightarrow> (HID_INVALID_PARAMETER, dev)
      | Some d \<Rightarrow>
          if \<not> (nonBlock = 0 \<or> nonBlock = 1) then (HID_INVALID_PARAMETER, dev)
          else case hr_setNonBlocking R d nonBlock of (ret, d) \<Rightarrow>
            (ToHidCode R ret, Some (if ret = HID_SUCCESS then d\<lparr>hh_nonBlock := nonBlock\<rparr> else d)))"

section \<open>What a device says about itself\<close>

definition OH_Hid_GetRawInfo ::
  "hid_raw \<Rightarrow> hid_ddk \<Rightarrow> hid_handle option \<Rightarrow> hid_raw_info option \<Rightarrow> int \<times> hid_raw_info option" where
  "OH_Hid_GetRawInfo R g dev rawDevInfo =
     (if \<not> hg_ddk g then (HID_INIT_ERROR, rawDevInfo)
      else case (dev, rawDevInfo) of
        (Some d, Some _) \<Rightarrow>
          (case hr_getRawInfo R d of (ret, info) \<Rightarrow>
           let ret = ToHidCode R ret in
           if ret \<noteq> HID_SUCCESS then (ret, rawDevInfo) else (HID_SUCCESS, Some info))
      | _ \<Rightarrow> (HID_INVALID_PARAMETER, rawDevInfo))"

text \<open>
  \<open>GetRawName\<close> and \<open>GetPhysicalAddress\<close> differ in the call of the service only, \<open>call\<close>.
\<close>

definition GetText ::
  "hid_raw \<Rightarrow> (hid_handle \<Rightarrow> u32 \<Rightarrow> int \<times> u8 list) \<Rightarrow> hid_ddk \<Rightarrow> hid_handle option \<Rightarrow> u8 list option \<Rightarrow> u32
   \<Rightarrow> (int \<times> u8 list option) res" where
  "GetText R call g dev data bufSize =
     (if \<not> hg_ddk g then Inr (HID_INIT_ERROR, data)
      else case (dev, data) of
        (Some d, Some bs) \<Rightarrow>
          if \<not> good_length bufSize then Inr (HID_INVALID_PARAMETER, data)
          else (case call d bufSize of (ret, tmpData) \<Rightarrow>
            let ret = ToHidCode R ret in
            if ret \<noteq> HID_SUCCESS then Inr (ret, data)
            else bindE (copy_out R bs (unat bufSize) tmpData (length tmpData)) (\<lambda>(ret, bs). Inr (ret, Some bs)))
      | _ \<Rightarrow> Inr (HID_INVALID_PARAMETER, data))"

definition OH_Hid_GetRawName ::
  "hid_raw \<Rightarrow> hid_ddk \<Rightarrow> hid_handle option \<Rightarrow> u8 list option \<Rightarrow> u32 \<Rightarrow> (int \<times> u8 list option) res" where
  "OH_Hid_GetRawName R = GetText R (hr_getRawName R)"

definition OH_Hid_GetPhysicalAddress ::
  "hid_raw \<Rightarrow> hid_ddk \<Rightarrow> hid_handle option \<Rightarrow> u8 list option \<Rightarrow> u32 \<Rightarrow> (int \<times> u8 list option) res" where
  "OH_Hid_GetPhysicalAddress R = GetText R (hr_getPhysicalAddress R)"

text \<open>The limit given to the copy is the length of the answer, not \<open>bufSize\<close>.\<close>

definition OH_Hid_GetRawUniqueId ::
  "hid_raw \<Rightarrow> hid_ddk \<Rightarrow> hid_handle option \<Rightarrow> u8 list option \<Rightarrow> u32 \<Rightarrow> (int \<times> u8 list option) res" where
  "OH_Hid_GetRawUniqueId R g dev data bufSize =
     (if \<not> hg_ddk g then Inr (HID_INIT_ERROR, data)
      else case (dev, data) of
        (Some d, Some bs) \<Rightarrow>
          if \<not> good_length bufSize then Inr (HID_INVALID_PARAMETER, data)
          else (case hr_getRawUniqueId R d bufSize of (ret, tmpData) \<Rightarrow>
            let ret = ToHidCode R ret in
            if ret \<noteq> HID_SUCCESS then Inr (ret, data)
            else bindE (copy_out R bs (length tmpData) tmpData (length tmpData)) (\<lambda>(ret, bs). Inr (ret, Some bs)))
      | _ \<Rightarrow> Inr (HID_INVALID_PARAMETER, data))"

section \<open>Reports\<close>

definition OH_Hid_SendReport ::
  "hid_raw \<Rightarrow> hid_ddk \<Rightarrow> hid_handle option \<Rightarrow> int \<Rightarrow> u8 list option \<Rightarrow> u32 \<Rightarrow> int res" where
  "OH_Hid_SendReport R g dev reportType data n =
     (if \<not> hg_ddk g then Inr HID_INIT_ERROR
      else case (dev, data) of
        (Some d, Some bs) \<Rightarrow>
          if \<not> good_length n then Inr HID_INVALID_PARAMETER
          else bindE (rd_bytes bs (unat n)) (\<lambda>tmpData. Inr (ToHidCode R (hr_sendReport R d reportType tmpData)))
      | _ \<Rightarrow> Inr HID_INVALID_PARAMETER)"

text \<open>The first byte of the buffer is the number of the report.\<close>

definition OH_Hid_GetReport ::
  "hid_raw \<Rightarrow> hid_ddk \<Rightarrow> hid_handle option \<Rightarrow> int \<Rightarrow> u8 list option \<Rightarrow> u32 \<Rightarrow> (int \<times> u8 list option) res" where
  "OH_Hid_GetReport R g dev reportType data bufSize =
     (if \<not> hg_ddk g then Inr (HID_INIT_ERROR, data)
      else case (dev, data) of
        (Some d, Some bs) \<Rightarrow>
          if \<not> good_length bufSize then Inr (HID_INVALID_PARAMETER, data)
          else bindE (rd bs 0) (\<lambda>reportNumber.
            case hr_getReport R d reportType reportNumber bufSize of (ret, tmpData) \<Rightarrow>
            let ret = ToHidCode R ret in
            if ret \<noteq> HID_SUCCESS then Inr (ret, data)
            else bindE (copy_out R bs (unat bufSize) tmpData (length tmpData)) (\<lambda>(ret, bs). Inr (ret, Some bs)))
      | _ \<Rightarrow> Inr (HID_INVALID_PARAMETER, data))"

definition OH_Hid_GetReportDescriptor ::
  "hid_raw \<Rightarrow> hid_ddk \<Rightarrow> hid_handle option \<Rightarrow> u8 list option \<Rightarrow> u32 \<Rightarrow> u32 option
   \<Rightarrow> (int \<times> u8 list option \<times> u32 option) res" where
  "OH_Hid_GetReportDescriptor R g dev buf bufSize bytesRead =
     (if \<not> hg_ddk g then Inr (HID_INIT_ERROR, buf, bytesRead)
      else case (dev, buf, bytesRead) of
        (Some d, Some bs, Some _) \<Rightarrow>
          if \<not> good_length bufSize then Inr (HID_INVALID_PARAMETER, buf, bytesRead)
          else (case hr_getReportDescriptor R d bufSize of (ret, tmpBuf, n) \<Rightarrow>
            let ret = ToHidCode R ret in
            if ret \<noteq> HID_SUCCESS then Inr (ret, buf, Some n)
            else bindE (copy_out R bs (unat bufSize) tmpBuf (unat n)) (\<lambda>(ret, bs). Inr (ret, Some bs, Some n)))
      | _ \<Rightarrow> Inr (HID_INVALID_PARAMETER, buf, bytesRead))"

end
