(* ===== verification/Hid_Claims.thy ===== *)
theory Hid_Claims
  imports Hid_Raw
begin

text \<open>
  Emulated input devices across restarts of the service, and the buffers of the calls that read from
  HID devices.
\<close>

section \<open>The service that the kit relies on\<close>

type_synonym described = "hdi_device \<times> hdi_event_properties"

definition desc :: "temp_device \<Rightarrow> described" where
  "desc t = (td_tempDevice t, td_tempProperties t)"

text \<open>
  \<open>dv s\<close> are the devices the service holds, by number, and \<open>used s\<close> the numbers it ever gave out. A
  failed call leaves the result parameter alone, a successful creation gives a number that was never
  used before.
\<close>

definition quiet :: "('s \<Rightarrow> u32 \<Rightarrow> described option) \<Rightarrow> ('s \<Rightarrow> u32 set) \<Rightarrow> 's \<Rightarrow> 's \<Rightarrow> bool" where
  "quiet dv used s s' \<longleftrightarrow> dv s' = dv s \<and> used s' = used s"

definition created :: "('s \<Rightarrow> u32 \<Rightarrow> described option) \<Rightarrow> ('s \<Rightarrow> u32 set) \<Rightarrow> described \<Rightarrow> u32 \<Rightarrow> 's \<Rightarrow> (int \<times> u32) \<times> 's \<Rightarrow> bool" where
  "created dv used d old s r \<longleftrightarrow>
     (case r of ((ret, i), s') \<Rightarrow>
        if ret = 0 then i \<notin> used s \<and> used s' = insert i (used s) \<and> dv s' = (dv s)(i \<mapsto> d)
        else i = old \<and> quiet dv used s s')"

definition hid_law :: "'s hid_service \<Rightarrow> ('s \<Rightarrow> u32 \<Rightarrow> described option) \<Rightarrow> ('s \<Rightarrow> u32 set) \<Rightarrow> bool" where
  "hid_law H dv used \<longleftrightarrow> hs_NOPERM H \<noteq> 0 \<and>
     (\<forall>s. quiet dv used s (snd (hs_get H s)) \<and> quiet dv used s (snd (hs_addDeathRecipient H s))) \<and>
     (\<forall>i items s. quiet dv used s (snd (hs_emitEvent H i items s))) \<and>
     (\<forall>d p old s. created dv used (d, p) old s (hs_createDevice H d p old s)) \<and>
     (\<forall>i s. used (snd (hs_destroyDevice H i s)) = used s \<and> dv (snd (hs_destroyDevice H i s)) \<in> {dv s, (dv s)(i := None)})"

lemma hid_lawD:
  assumes "hid_law H dv used"
  shows "hs_get H s = (a, s') \<Longrightarrow> quiet dv used s s'" "hs_addDeathRecipient H s = (a, s') \<Longrightarrow> quiet dv used s s'"
    and "hs_emitEvent H i items s = (r, s') \<Longrightarrow> quiet dv used s s'"
    and "hs_createDevice H d p old s = x \<Longrightarrow> created dv used (d, p) old s x"
    and "hs_destroyDevice H i s = (r, s') \<Longrightarrow> used s' = used s \<and> dv s' \<in> {dv s, (dv s)(i := None)}"
    and "hs_NOPERM H \<noteq> 0"
  using assms by (auto simp: hid_law_def dest: spec) (metis snd_conv)+

section \<open>The table of devices\<close>

text \<open>
  The number under which the kit knows a device belongs to a device of that description or to none,
  and it was given out by the service, as was its handle.
\<close>

definition entry_fits :: "('s \<Rightarrow> u32 \<Rightarrow> described option) \<Rightarrow> ('s \<Rightarrow> u32 set) \<Rightarrow> 's \<Rightarrow> int \<Rightarrow> temp_device \<Rightarrow> bool" where
  "entry_fits dv used s k t \<longleftrightarrow> dv s (td_realId t) \<in> {None, Some (desc t)} \<and> td_realId t \<in> used s
     \<and> k \<in> (\<lambda>i. to_i32 (uint i)) ` used s"

definition table_fits :: "('s \<Rightarrow> u32 \<Rightarrow> described option) \<Rightarrow> ('s \<Rightarrow> u32 set) \<Rightarrow> 's \<Rightarrow> (int \<times> temp_device) list \<Rightarrow> bool" where
  "table_fits dv used s m \<longleftrightarrow> (\<forall>k t. map_of m k = Some t \<longrightarrow> entry_fits dv used s k t)"

lemma table_fits_quiet: "quiet dv used s s' \<Longrightarrow> table_fits dv used s' m = table_fits dv used s m"
  by (simp add: table_fits_def entry_fits_def quiet_def)

lemma table_fits_new:
  assumes "table_fits dv used s m" and "i \<notin> used s" and "used s' = insert i (used s)" and "dv s' = (dv s)(i \<mapsto> desc t)"
    and "td_realId t = i" and "k \<in> (\<lambda>i. to_i32 (uint i)) ` insert i (used s)"
  shows "table_fits dv used s' (al_put k t m)"
proof -
  have "td_realId t' \<noteq> i" if "map_of m k' = Some t'" for k' t'
    using assms(1,2) that by (auto simp: table_fits_def entry_fits_def)
  then show ?thesis using assms by (auto simp: table_fits_def entry_fits_def)
qed

lemma CreateAgain_fits:
  assumes law: "hid_law H dv used"
  shows "table_fits dv used s m \<Longrightarrow> CreateAgain H ks m s = (m', s') \<Longrightarrow>
    table_fits dv used s' m' \<and> (\<forall>k. map_option desc (map_of m' k) = map_option desc (map_of m k))"
proof (induction ks arbitrary: m s)
  case (Cons k ks)
  show ?case
  proof (cases "map_of m k")
    case None
    then show ?thesis using Cons by simp
  next
    case (Some t)
    obtain ret i s1 where c: "hs_createDevice H (td_tempDevice t) (td_tempProperties t) (td_realId t) s = ((ret, i), s1)"
      by (metis surj_pair)
    note l = hid_lawD(4) [OF law c]
    let ?t = "t\<lparr>td_realId := i\<rparr>"
    have d: "desc ?t = desc t" by (simp add: desc_def)
    have e: "entry_fits dv used s k t" using Cons.prems(1) Some by (simp add: table_fits_def)
    have f: "table_fits dv used s1 (al_put k ?t m)"
    proof (cases "ret = 0")
      case True
      then show ?thesis using l e by (intro table_fits_new [OF Cons.prems(1)]) (auto simp: created_def d entry_fits_def desc_def)
    next
      case False
      then have "i = td_realId t" and q: "quiet dv used s s1" using l by (simp_all add: created_def)
      then have "entry_fits dv used s k ?t" using e by (simp add: entry_fits_def d)
      then show ?thesis using Cons.prems(1) unfolding table_fits_quiet [OF q] by (auto simp: table_fits_def)
    qed
    have "CreateAgain H ks (al_put k ?t m) s1 = (m', s')" using Cons.prems(2) Some c by simp
    from Cons.IH [OF f this] show ?thesis using d Some by auto
  qed
qed simp

lemma HidConnect_fits:
  assumes law: "hid_law H dv used" and g: "table_fits dv used s (hg_deviceMap g)" and c: "HidConnect H g s = (ret, g', s')"
  shows "table_fits dv used s' (hg_deviceMap g')"
    and "map_option desc (map_of (hg_deviceMap g') k) = map_option desc (map_of (hg_deviceMap g) k)"
proof -
  have "table_fits dv used s' (hg_deviceMap g') \<and>
    (\<forall>k. map_option desc (map_of (hg_deviceMap g') k) = map_option desc (map_of (hg_deviceMap g) k))"
  proof (cases "hg_ddk g")
    case False
    obtain ok s1 where s1: "hs_get H s = (ok, s1)" by force
    have f1: "table_fits dv used s1 (hg_deviceMap g)" using g table_fits_quiet [OF hid_lawD(1) [OF law s1]] by simp
    obtain m s2 where a: "CreateAgain H (hs_order H (map fst (hg_deviceMap g))) (hg_deviceMap g) s1 = (m, s2)" by force
    note f2 = CreateAgain_fits [OF law f1 a]
    obtain ok' s3 where s3: "hs_addDeathRecipient H s2 = (ok', s3)" by force
    have f3: "table_fits dv used s3 m" using f2 table_fits_quiet [OF hid_lawD(2) [OF law s3]] by simp
    show ?thesis using c False s1 a s3 f1 f2 f3
      by (cases ok; cases ok') (auto simp: HidConnect_def)
  qed (use c g in \<open>simp add: HidConnect_def\<close>)
  then show "table_fits dv used s' (hg_deviceMap g')"
    "map_option desc (map_of (hg_deviceMap g') k) = map_option desc (map_of (hg_deviceMap g) k)" by auto
qed

section \<open>Runs\<close>

text \<open>
  Calls of the driver in any order; the service may die at any moment, is then without devices, and
  the kit learns of it when it had registered for that.
\<close>

inductive hid_step :: "'s hid_service \<Rightarrow> ('s \<Rightarrow> 's \<Rightarrow> bool) \<Rightarrow> hid_ddk \<times> 's \<Rightarrow> hid_ddk \<times> 's \<Rightarrow> bool" for H died where
  create: "OH_Hid_CreateDevice H d p g s = Inr (r, g', s') \<Longrightarrow> hid_step H died (g, s) (g', s')"
| emit: "OH_Hid_EmitEvent H k items n g s = Inr (r, g', s') \<Longrightarrow> hid_step H died (g, s) (g', s')"
| destroy: "OH_Hid_DestroyDevice H k g s = (r, g', s') \<Longrightarrow> hid_step H died (g, s) (g', s')"
| died: "died s s' \<Longrightarrow> hid_step H died (g, s) (if hg_recipient g then HidDeathRecipient_OnRemoteDied g else g, s')"

inductive hid_reachable :: "'s hid_service \<Rightarrow> ('s \<Rightarrow> 's \<Rightarrow> bool) \<Rightarrow> 's \<Rightarrow> hid_ddk \<times> 's \<Rightarrow> bool" for H died s0 where
  start: "hid_reachable H died s0 (\<lparr>hg_ddk = False, hg_recipient = False, hg_deviceMap = []\<rparr>, s0)"
| step: "hid_reachable H died s0 x \<Longrightarrow> hid_step H died x y \<Longrightarrow> hid_reachable H died s0 y"

lemma OH_Hid_CreateDevice_cases:
  assumes "OH_Hid_CreateDevice H d p g s = Inr (r, g', s')"
  obtains (refused) ret where "HidConnect H g s = (ret, g', s')"
  | (failed) ret g1 s1 xd xp e i where "HidConnect H g s = (ret, g1, s1)" "hs_createDevice H xd xp 0 s1 = ((e, i), s')" "g' = g1"
      "(if e = hs_NOPERM H then HID_NO_PERM else e) \<noteq> 0"
  | (made) ret g1 s1 xd xp i where "HidConnect H g s = (ret, g1, s1)" "hs_createDevice H xd xp 0 s1 = ((0, i), s')"
      "r = to_i32 (uint i)" "hs_NOPERM H \<noteq> 0"
      "g' = g1\<lparr>hg_deviceMap := al_put r \<lparr>td_tempDevice = xd, td_tempProperties = xp, td_realId = i\<rparr> (hg_deviceMap g1)\<rparr>"
proof -
  obtain ret g1 s1 where c: "HidConnect H g s = (ret, g1, s1)" by (metis surj_pair)
  show ?thesis
  proof (cases "g' = g1 \<and> s' = s1")
    case True
    then show ?thesis using c refused by simp
  next
    case False
    then obtain hd hp xd xp where x: "ParseHidDevice hd = Inr xd" "ParseHidEventProperties hp = Inr xp"
      "(case hs_createDevice H xd xp 0 s1 of ((ret, deviceId), s) \<Rightarrow>
              let ret = (if ret = hs_NOPERM H then HID_NO_PERM else ret) in
              if ret \<noteq> HID_SUCCESS then Inr (ret, g1, s)
              else case CacheDeviceInfor xd xp deviceId g1 of (i, g) \<Rightarrow> Inr (i, g, s)) = (Inr (r, g', s') :: (int \<times> hid_ddk \<times> 'a) res)"
      using assms c by (auto simp: OH_Hid_CreateDevice_def bindE_eq_Inr split: option.splits if_splits)
    obtain e i s2 where y: "hs_createDevice H xd xp 0 s1 = ((e, i), s2)" by (metis surj_pair)
    show ?thesis
    proof (cases "(if e = hs_NOPERM H then HID_NO_PERM else e) \<noteq> 0")
      case True
      then show ?thesis using x y c failed by (simp add: Let_def)
    next
      case False
      then show ?thesis using x y c made [of ret g1 s1 xd xp i] by (auto simp: CacheDeviceInfor_def Let_def split: if_splits)
    qed
  qed
qed

lemma OH_Hid_EmitEvent_cases:
  assumes "OH_Hid_EmitEvent H k items n g s = Inr (r, g', s')"
  obtains (refused) ret where "HidConnect H g s = (ret, g', s')"
  | (sent) ret s1 xs e where "HidConnect H g s = (ret, g', s1)" "hs_emitEvent H (GetRealDeviceId g' k) xs s1 = (e, s')"
proof -
  obtain ret g1 s1 where c: "HidConnect H g s = (ret, g1, s1)" by (metis surj_pair)
  obtain e s2 where y: "hs_emitEvent H (GetRealDeviceId g1 k) (take (unat n) (the items)) s1 = (e, s2)" by (metis surj_pair)
  show ?thesis using assms c y refused [of ret] sent [of ret s1 "take (unat n) (the items)" e]
    by (auto simp: OH_Hid_EmitEvent_def Let_def split: option.splits if_splits)
qed

lemma OH_Hid_DestroyDevice_cases:
  assumes "OH_Hid_DestroyDevice H k g s = (r, g', s')"
  obtains (refused) ret where "HidConnect H g s = (ret, g', s')"
  | (failed) ret s1 e where "HidConnect H g s = (ret, g', s1)" "hs_destroyDevice H (GetRealDeviceId g' k) s1 = (e, s')"
  | (gone) ret g1 s1 e where "HidConnect H g s = (ret, g1, s1)" "hs_destroyDevice H (GetRealDeviceId g1 k) s1 = (e, s')"
      "g' = g1\<lparr>hg_deviceMap := al_del k (hg_deviceMap g1)\<rparr>"
proof -
  obtain ret g1 s1 where c: "HidConnect H g s = (ret, g1, s1)" by (metis surj_pair)
  obtain e s2 where y: "hs_destroyDevice H (GetRealDeviceId g1 k) s1 = (e, s2)" by (metis surj_pair)
  show ?thesis using assms c y refused [of ret] failed [of ret s1 e] gone [of ret g1 s1 e]
    by (auto simp: OH_Hid_DestroyDevice_def Let_def split: if_splits)
qed

text \<open>The service forgets its devices when it dies, not the numbers it gave out.\<close>

definition forgets :: "('s \<Rightarrow> u32 \<Rightarrow> described option) \<Rightarrow> ('s \<Rightarrow> u32 set) \<Rightarrow> ('s \<Rightarrow> 's \<Rightarrow> bool) \<Rightarrow> bool" where
  "forgets dv used died \<longleftrightarrow> (\<forall>s s'. died s s' \<longrightarrow> dv s' = Map.empty \<and> used s' = used s)"

lemma to_i32_uint_inj:
  fixes i j :: u32
  assumes "to_i32 (uint i) = to_i32 (uint j)"
  shows "i = j"
proof -
  have r: "word_of_int (to_i32 (uint x)) = x" for x :: u32
  proof (rule word_uint_eqI)
    have "(to_i32 (uint x)) mod 4294967296 = uint x mod 4294967296"
      unfolding to_i32_def by (simp only: mod_diff_left_eq) simp
    also have "\<dots> = uint x" using unsigned_less [where ?'a = int, of x] by (intro mod_pos_pos_trivial) simp_all
    finally show "uint (word_of_int (to_i32 (uint x)) :: u32) = uint x" by (simp only: uint_word_of_int) simp
  qed
  show ?thesis using r [of i] r [of j] assms by metis
qed

text \<open>What the calls of the kit guarantee about the table they leave behind.\<close>

definition keeps :: "(int \<times> temp_device) list \<Rightarrow> (int \<times> temp_device) list \<Rightarrow> bool" where
  "keeps m m' \<longleftrightarrow> (\<forall>k t. map_of m k = Some t \<longrightarrow> map_of m' k = None \<or> map_option desc (map_of m' k) = Some (desc t))"

lemma keepsI: "(\<And>k. map_option desc (map_of m' k) = map_option desc (map_of m k)) \<Longrightarrow> keeps m m'"
  unfolding keeps_def by (metis option.simps(9))

lemma keeps_put: "keeps m m' \<Longrightarrow> map_of m r = None \<Longrightarrow> keeps m (al_put r t m')"
  by (auto simp: keeps_def)

lemma keeps_del: "keeps m m' \<Longrightarrow> keeps m (al_del r m')"
  by (auto simp: keeps_def)

lemma create_fits:
  assumes law: "hid_law H dv used" and fits: "table_fits dv used s (hg_deviceMap g)"
    and run: "OH_Hid_CreateDevice H d p g s = Inr (r, g', s')"
  shows "table_fits dv used s' (hg_deviceMap g') \<and> keeps (hg_deviceMap g) (hg_deviceMap g')"
  using run
proof (cases rule: OH_Hid_CreateDevice_cases)
  case (refused ret)
  then show ?thesis using HidConnect_fits [OF law fits refused] keepsI by blast
next
  case (failed ret g1 s1 xd xp e i)
  have "e \<noteq> 0" using failed(4) hid_lawD(6) [OF law] by auto
  then have q: "quiet dv used s1 s'" using hid_lawD(4) [OF law failed(2)] by (simp add: created_def)
  show ?thesis using HidConnect_fits [OF law fits failed(1)] keepsI unfolding failed(3) table_fits_quiet [OF q] by blast
next
  case (made ret g1 s1 xd xp i)
  note f = HidConnect_fits [OF law fits made(1)]
  let ?t = "\<lparr>td_tempDevice = xd, td_tempProperties = xp, td_realId = i\<rparr>"
  have l: "i \<notin> used s1" "used s' = insert i (used s1)" "dv s' = (dv s1)(i \<mapsto> desc ?t)"
    using hid_lawD(4) [OF law made(2)] by (simp_all add: created_def desc_def)
  have "map_of (hg_deviceMap g1) r = None"
  proof (rule ccontr)
    assume "map_of (hg_deviceMap g1) r \<noteq> None"
    then obtain j where "j \<in> used s1" "to_i32 (uint i) = to_i32 (uint j)"
      using f(1) made(3) by (auto simp: table_fits_def entry_fits_def)
    then show False using l(1) to_i32_uint_inj by blast
  qed
  then have "map_of (hg_deviceMap g) r = None" using f(2) [of r] by simp
  moreover have "table_fits dv used s' (al_put r ?t (hg_deviceMap g1))"
    using table_fits_new [OF f(1) l(1,2,3), of r] made(3) by simp
  moreover have "keeps (hg_deviceMap g) (hg_deviceMap g1)" using f(2) keepsI by blast
  ultimately show ?thesis using made(5) keeps_put by simp
qed

lemma emit_fits:
  assumes law: "hid_law H dv used" and fits: "table_fits dv used s (hg_deviceMap g)"
    and run: "OH_Hid_EmitEvent H k items n g s = Inr (r, g', s')"
  shows "table_fits dv used s' (hg_deviceMap g') \<and> keeps (hg_deviceMap g) (hg_deviceMap g')"
  using run
proof (cases rule: OH_Hid_EmitEvent_cases)
  case (refused ret)
  then show ?thesis using HidConnect_fits [OF law fits refused] keepsI by blast
next
  case (sent ret s1 xs e)
  show ?thesis using HidConnect_fits [OF law fits sent(1)] keepsI
    unfolding table_fits_quiet [OF hid_lawD(3) [OF law sent(2)]] by blast
qed

lemma table_fits_less:
  assumes "table_fits dv used s m" and "used s' = used s" and "dv s' \<in> {dv s, (dv s)(i := None)}"
  shows "table_fits dv used s' m"
  unfolding table_fits_def
proof (intro allI impI)
  fix k t
  assume "map_of m k = Some t"
  then have "entry_fits dv used s k t" using assms(1) by (simp add: table_fits_def)
  moreover have "dv s' (td_realId t) \<in> {None, dv s (td_realId t)}" using assms(3) by (cases "td_realId t = i") auto
  ultimately show "entry_fits dv used s' k t" using assms(2) by (auto simp: entry_fits_def)
qed

lemma destroy_fits:
  assumes law: "hid_law H dv used" and fits: "table_fits dv used s (hg_deviceMap g)"
    and run: "OH_Hid_DestroyDevice H k g s = (r, g', s')"
  shows "table_fits dv used s' (hg_deviceMap g') \<and> keeps (hg_deviceMap g) (hg_deviceMap g')"
  using run
proof (cases rule: OH_Hid_DestroyDevice_cases)
  case (refused ret)
  then show ?thesis using HidConnect_fits [OF law fits refused] keepsI by blast
next
  case (failed ret s1 e)
  note f = HidConnect_fits [OF law fits failed(1)] and d = hid_lawD(5) [OF law failed(2)]
  show ?thesis using table_fits_less [OF f(1) d [THEN conjunct1] d [THEN conjunct2]] f(2) keepsI by blast
next
  case (gone ret g1 s1 e)
  note f = HidConnect_fits [OF law fits gone(1)] and d = hid_lawD(5) [OF law gone(2)]
  have "table_fits dv used s' (hg_deviceMap g1)" by (rule table_fits_less [OF f(1) d [THEN conjunct1] d [THEN conjunct2]])
  then have "table_fits dv used s' (al_del k (hg_deviceMap g1))" by (simp add: table_fits_def)
  moreover have "keeps (hg_deviceMap g) (hg_deviceMap g1)" using f(2) keepsI by blast
  ultimately show ?thesis using gone(3) keeps_del by simp
qed

lemma hid_step_fits:
  assumes law: "hid_law H dv used" and died: "forgets dv used died"
    and step: "hid_step H died (g, s) (g', s')" and fits: "table_fits dv used s (hg_deviceMap g)"
  shows "table_fits dv used s' (hg_deviceMap g') \<and> keeps (hg_deviceMap g) (hg_deviceMap g')"
  using step
proof cases
  case died': died
  have "dv s' = Map.empty" "used s' = used s" using died died'(2) by (auto simp: forgets_def)
  then have "table_fits dv used s' (hg_deviceMap g)" using fits by (auto simp: table_fits_def entry_fits_def)
  then show ?thesis using died'(1) by (auto simp: HidDeathRecipient_OnRemoteDied_def intro: keepsI)
qed (use create_fits [OF law fits] emit_fits [OF law fits] destroy_fits [OF law fits] in blast)+

lemma hid_reachable_fits:
  assumes "hid_law H dv used" and "forgets dv used died"
  shows "hid_reachable H died s0 x \<Longrightarrow> table_fits dv used (snd x) (hg_deviceMap (fst x))"
proof (induction rule: hid_reachable.induct)
  case start
  then show ?case by (simp add: table_fits_def)
next
  case (step x y)
  then show ?case using hid_step_fits [OF assms, of "fst x" "snd x" "fst y" "snd y"] by simp
qed

section \<open>Handles and devices\<close>

text \<open>A service that numbers its devices one after the other, and devices for examples.\<close>

type_synonym numbered = "nat \<times> (u32 \<times> described) list"

definition numbering :: "numbered hid_service" where
  "numbering = \<lparr>hs_get = (\<lambda>s. (True, s)), hs_addDeathRecipient = (\<lambda>s. (True, s)), hs_init = (\<lambda>s. (0, s)), hs_release = (\<lambda>s. (0, s)),
     hs_createDevice = (\<lambda>d p old (n, m). if n < 4294967296 then ((0, of_nat n), (n + 1, (of_nat n, (d, p)) # m)) else ((- 1, old), (n, m))),
     hs_emitEvent = (\<lambda>i items (n, m). (if map_of m i = None then - 1 else 0, (n, m))),
     hs_destroyDevice = (\<lambda>i (n, m). if map_of m i = None then (- 1, (n, m)) else (0, (n, al_del i m))),
     hs_order = (\<lambda>ks. ks), hs_NOPERM = - 8, hs_ipc_error = (\<lambda>_. False)\<rparr>"

definition numbered_devices :: "numbered \<Rightarrow> u32 \<Rightarrow> described option" where
  "numbered_devices s = map_of (snd s)"

definition numbers_used :: "numbered \<Rightarrow> u32 set" where
  "numbers_used s = {i. unat i < fst s}"

lemma numbering_law: "hid_law numbering numbered_devices numbers_used"
proof -
  have "n < 4294967296 \<Longrightarrow> {i :: u32. unat i < n + 1} = insert (of_nat n) {i. unat i < n}" for n
  proof -
    assume n: "n < 4294967296"
    have "unat i < n + 1 \<longleftrightarrow> i = of_nat n \<or> unat i < n" for i :: u32
      using n by (auto simp: unat_of_nat less_Suc_eq word_unat_eq_iff)
    then show ?thesis by auto
  qed
  then show ?thesis
    by (auto simp: hid_law_def numbering_def quiet_def created_def numbered_devices_def numbers_used_def unat_of_nat)
qed

text \<open>Its death: the devices are gone; either the count goes on, or it starts again.\<close>

definition dies_counting :: "numbered \<Rightarrow> numbered \<Rightarrow> bool" where
  "dies_counting s s' \<longleftrightarrow> s' = (fst s, [])"

lemma dies_counting_forgets: "forgets numbered_devices numbers_used dies_counting"
  by (auto simp: forgets_def dies_counting_def numbered_devices_def numbers_used_def)

definition no_codes :: code_array where
  "no_codes = \<lparr>ca_codes = None, ca_length = 0\<rparr>"

definition named :: "string \<Rightarrow> hid_device" where
  "named n = \<lparr>hd_deviceName = Some n, hd_vendorId = 1, hd_productId = 2, hd_version = 3, hd_bustype = 4, hd_properties = no_codes\<rparr>"

definition no_events :: hid_event_properties where
  "no_events = \<lparr>he_hidEventTypes = no_codes, he_hidKeys = no_codes, he_hidAbs = no_codes, he_hidRelBits = no_codes,
     he_hidMiscellaneous = no_codes, he_hidAbsMax = [], he_hidAbsMin = [], he_hidAbsFuzz = [], he_hidAbsFlat = []\<rparr>"

definition cached :: "string \<Rightarrow> u32 \<Rightarrow> temp_device" where
  "cached n i = \<lparr>td_tempDevice = \<lparr>xd_deviceName = n, xd_vendorId = 1, xd_productId = 2, xd_version = 3, xd_bustype = 4, xd_properties = []\<rparr>,
     td_tempProperties = \<lparr>xe_hidEventTypes = [], xe_hidKeys = [], xe_hidAbs = [], xe_hidRelBits = [], xe_hidMiscellaneous = [],
       xe_hidAbsMax = [], xe_hidAbsMin = [], xe_hidAbsFuzz = [], xe_hidAbsFlat = []\<rparr>, td_realId = i\<rparr>"

definition described_as :: "string \<Rightarrow> described" where
  "described_as n = desc (cached n 0)"

lemma cached_simps [simp]: "td_realId (cached n i) = i" "(cached n i)\<lparr>td_realId := j\<rparr> = cached n j" "desc (cached n i) = described_as n"
  by (simp_all add: cached_def desc_def described_as_def)

definition unconnected :: "(int \<times> temp_device) list \<Rightarrow> hid_ddk" where
  "unconnected m = \<lparr>hg_ddk = False, hg_recipient = False, hg_deviceMap = m\<rparr>"

definition on_line :: "(int \<times> temp_device) list \<Rightarrow> hid_ddk" where
  "on_line m = \<lparr>hg_ddk = True, hg_recipient = True, hg_deviceMap = m\<rparr>"

lemma create_named:
  assumes "0 < length n" and "length n < 80" and "c < 4294967296"
    and "g = on_line m \<or> g = unconnected [] \<and> m = []"
  shows "OH_Hid_CreateDevice numbering (Some (named n)) (Some no_events) g (c, ds)
    = Inr (to_i32 (int c), on_line (al_put (to_i32 (int c)) (cached n (of_nat c)) m), (c + 1, (of_nat c, described_as n) # ds))"
proof -
  have "uint (of_nat c :: u32) = int c" using assms(3) by (simp add: uint_nat unat_of_nat del: uint_word_of_int_eq)
  then show ?thesis using assms
    by (auto simp: OH_Hid_CreateDevice_def HidConnect_def numbering_def on_line_def unconnected_def CheckHidDevice_def named_def
        no_codes_def no_events_def ParseHidDevice_def ParseHidEventProperties_def copy_array_def CacheDeviceInfor_def
        cached_def described_as_def desc_def Let_def)
qed

lemma connect_named:
  assumes "c < 4294967296"
  shows "HidConnect numbering (unconnected [(k, cached n i)]) (c, ds)
    = (0, on_line [(k, cached n (of_nat c))], (c + 1, (of_nat c, described_as n) # ds))"
  using assms by (simp add: HidConnect_def numbering_def unconnected_def on_line_def cached_def described_as_def desc_def)

lemma connect_on_line: "HidConnect H (on_line m) s = (0, on_line m, s)"
  by (simp add: HidConnect_def on_line_def)

lemma create_after_connect:
  "HidConnect H g s = HidConnect H g' s' \<Longrightarrow> OH_Hid_CreateDevice H d p g s = OH_Hid_CreateDevice H d p g' s'"
  by (simp add: OH_Hid_CreateDevice_def)

lemma died_named: "HidDeathRecipient_OnRemoteDied (on_line m) = unconnected m"
  by (simp add: HidDeathRecipient_OnRemoteDied_def on_line_def unconnected_def)

lemma one_device_then_death:
  "hid_reachable numbering dies_counting (0, []) (unconnected [(0, cached ''pen'' 0)], (1, []))"
proof -
  have "hid_reachable numbering dies_counting (0, []) (unconnected [], (0, []))"
    unfolding unconnected_def by (rule hid_reachable.start)
  moreover have "hid_step numbering dies_counting (unconnected [], (0, [])) (on_line [(0, cached ''pen'' 0)], (1, [(0, described_as ''pen'')]))"
    using create_named [of "''pen''" 0 "unconnected []" "[]" "[]"] hid_step.create [of numbering] by force
  moreover have "hid_step numbering dies_counting (on_line [(0, cached ''pen'' 0)], (1, [(0, described_as ''pen'')]))
      (unconnected [(0, cached ''pen'' 0)], (1, []))"
    using hid_step.died [of dies_counting "(1, [(0, described_as ''pen'')])" "(1, [])" numbering "on_line [(0, cached ''pen'' 0)]"]
    unfolding died_named by (simp add: dies_counting_def on_line_def)
  ultimately show ?thesis by (meson hid_reachable.step)
qed

text \<open>
  C25: as long as the service never gives out a number twice, a handle stands for the same device
  from its creation to its destruction, whatever the driver does and however often the service
  dies: each step keeps the description under a handle or removes the handle.
\<close>

theorem handles_keep_their_device:
  assumes "hid_law H dv used" and "forgets dv used died" and "hid_reachable H died s0 (g, s)"
    and "hid_step H died (g, s) (g', s')" and "map_of (hg_deviceMap g) k = Some t"
  shows "map_of (hg_deviceMap g') k = None \<or> map_option desc (map_of (hg_deviceMap g') k) = Some (desc t)"
  using hid_step_fits [OF assms(1,2,4)] hid_reachable_fits [OF assms(1-3)] assms(5) by (simp add: keeps_def)

theorem handles_keep_their_device_witness:
  "map_of (hg_deviceMap (on_line [(0, cached ''pen'' 1), (2, cached ''mouse'' 2)])) 0 = None \<or>
   map_option desc (map_of (hg_deviceMap (on_line [(0, cached ''pen'' 1), (2, cached ''mouse'' 2)])) 0) = Some (desc (cached ''pen'' 0))"
proof (rule handles_keep_their_device [OF numbering_law dies_counting_forgets one_device_then_death, where k = 0])
  have "OH_Hid_CreateDevice numbering (Some (named ''mouse'')) (Some no_events) (unconnected [(0, cached ''pen'' 0)]) (1, []) =
      Inr (2, on_line [(0, cached ''pen'' 1), (2, cached ''mouse'' 2)], (3, [(2, described_as ''mouse''), (1, described_as ''pen'')]))"
    using create_after_connect [of numbering "unconnected [(0, cached ''pen'' 0)]" "(1, [])" "on_line [(0, cached ''pen'' 1)]"
        "(2, [(1, described_as ''pen'')])" "Some (named ''mouse'')" "Some no_events"]
      connect_named [of 1 0 "''pen''" 0 "[]"]
      create_named [of "''mouse''" 2 "on_line [(0, cached ''pen'' 1)]" "[(0, cached ''pen'' 1)]" "[(1, described_as ''pen'')]"]
    by (simp add: connect_on_line)
  then show "hid_step numbering dies_counting (unconnected [(0, cached ''pen'' 0)], (1, []))
      (on_line [(0, cached ''pen'' 1), (2, cached ''mouse'' 2)], (3, [(2, described_as ''mouse''), (1, described_as ''pen'')]))"
    by (rule hid_step.create)
qed (simp add: unconnected_def)

text \<open>
  C26: the events that a driver sends to a handle are given to the service with the number of a
  device of the description that the handle was created with, or with a number without a device;
  after the service died, that is the device that was created again.
\<close>

theorem events_reach_their_device:
  assumes "hid_law H dv used" and "forgets dv used died" and "hid_reachable H died s0 (g, s)"
    and "map_of (hg_deviceMap g) k = Some t" and "HidConnect H g s = (HID_SUCCESS, g', s')"
    and "0 \<le> k" and "unat n \<le> MAX_EMIT_ITEM_NUM" and "length items = unat n"
  shows "\<exists>i. OH_Hid_EmitEvent H k (Some items) n g s =
      (case hs_emitEvent H i items s' of (e, s'') \<Rightarrow> Inr (if e = hs_NOPERM H then HID_NO_PERM else e, g', s''))
    \<and> dv s' i \<in> {None, Some (desc t)}"
proof -
  have "table_fits dv used s (hg_deviceMap g)" using hid_reachable_fits [OF assms(1-3)] by simp
  note f = HidConnect_fits [OF assms(1) this assms(5)]
  obtain t' where t': "map_of (hg_deviceMap g') k = Some t'" "desc t' = desc t" using f(2) [of k] assms(4) by auto
  have "dv s' (GetRealDeviceId g' k) \<in> {None, Some (desc t)}"
    using f(1) t' by (simp add: table_fits_def GetRealDeviceId_def) (metis (no_types, lifting) entry_fits_def insert_iff singletonD)
  moreover have "OH_Hid_EmitEvent H k (Some items) n g s =
      (case hs_emitEvent H (GetRealDeviceId g' k) items s' of (e, s'') \<Rightarrow> Inr (if e = hs_NOPERM H then HID_NO_PERM else e, g', s''))"
    using assms(5-8) by (simp add: OH_Hid_EmitEvent_def Let_def split: prod.splits)
  ultimately show ?thesis by blast
qed

theorem events_reach_their_device_witness:
  "\<exists>i. OH_Hid_EmitEvent numbering 0 (Some []) 0 (unconnected [(0, cached ''pen'' 0)]) (1, []) =
      (case hs_emitEvent numbering i [] (2, [(1, described_as ''pen'')]) of (e, s'') \<Rightarrow>
        Inr (if e = hs_NOPERM numbering then HID_NO_PERM else e, on_line [(0, cached ''pen'' 1)], s''))
    \<and> numbered_devices (2, [(1, described_as ''pen'')]) i \<in> {None, Some (desc (cached ''pen'' 0))}"
proof (rule events_reach_their_device [OF numbering_law dies_counting_forgets one_device_then_death])
  show "HidConnect numbering (unconnected [(0, cached ''pen'' 0)]) (1, []) = (HID_SUCCESS, on_line [(0, cached ''pen'' 1)], (2, [(1, described_as ''pen'')]))"
    using connect_named [of 1 0 "''pen''" 0 "[]"] by simp
qed (simp_all add: unconnected_def)

text \<open>
  when the restarted service numbers its devices from the beginning again, the handle of a
  living device is given out a second time: of two devices the first is destroyed, the service
  dies, and the next device gets the handle of the second, whose entry is lost.
\<close>

theorem handle_taken_over:
  assumes "0 < length a" "length a < 80" "0 < length b" "length b < 80" "0 < length c" "length c < 80"
  shows "\<exists>g1 s1 g2 s2 g3 s3 g4 s4.
      OH_Hid_CreateDevice numbering (Some (named a)) (Some no_events) (unconnected []) (0, []) = Inr (0, g1, s1)
    \<and> OH_Hid_CreateDevice numbering (Some (named b)) (Some no_events) g1 s1 = Inr (1, g2, s2)
    \<and> OH_Hid_DestroyDevice numbering 0 g2 s2 = (HID_SUCCESS, g3, s3)
    \<and> OH_Hid_CreateDevice numbering (Some (named c)) (Some no_events) (HidDeathRecipient_OnRemoteDied g3) (0, []) = Inr (1, g4, s4)
    \<and> map_option desc (map_of (hg_deviceMap g3) 1) = Some (described_as b)
    \<and> map_option desc (map_of (hg_deviceMap g4) 1) = Some (described_as c)"
proof -
  have d: "OH_Hid_DestroyDevice numbering 0 (on_line [(0, cached a 0), (1, cached b 1)]) (2, [(1, described_as b), (0, described_as a)])
      = (HID_SUCCESS, on_line [(1, cached b 1)], (2, [(1, described_as b)]))"
    by (simp add: OH_Hid_DestroyDevice_def HidConnect_def on_line_def numbering_def GetRealDeviceId_def al_del_def)
  have e: "OH_Hid_CreateDevice numbering (Some (named c)) (Some no_events) (unconnected [(1, cached b 1)]) (0, []) =
      OH_Hid_CreateDevice numbering (Some (named c)) (Some no_events) (on_line [(1, cached b 0)]) (1, [(0, described_as b)])"
    by (rule create_after_connect) (use connect_named [of 0 1 b 1 "[]"] in \<open>simp add: connect_on_line\<close>)
  show ?thesis
    using create_named [of a 0 "unconnected []" "[]" "[]"] d e
      create_named [of b 1 "on_line [(0, cached a 0)]" "[(0, cached a 0)]" "[(0, described_as a)]"]
      create_named [of c 1 "on_line [(1, cached b 0)]" "[(1, cached b 0)]" "[(0, described_as b)]"] assms
    by (simp add: died_named numeral_2_eq_2 Suc_1 [symmetric] del: Suc_1) (simp add: on_line_def)
qed

theorem handle_taken_over_witness:
  "\<exists>g1 s1 g2 s2 g3 s3 g4 s4.
      OH_Hid_CreateDevice numbering (Some (named ''pen'')) (Some no_events) (unconnected []) (0, []) = Inr (0, g1, s1)
    \<and> OH_Hid_CreateDevice numbering (Some (named ''mouse'')) (Some no_events) g1 s1 = Inr (1, g2, s2)
    \<and> OH_Hid_DestroyDevice numbering 0 g2 s2 = (HID_SUCCESS, g3, s3)
    \<and> OH_Hid_CreateDevice numbering (Some (named ''pad'')) (Some no_events) (HidDeathRecipient_OnRemoteDied g3) (0, []) = Inr (1, g4, s4)
    \<and> map_option desc (map_of (hg_deviceMap g3) 1) = Some (described_as ''mouse'')
    \<and> map_option desc (map_of (hg_deviceMap g4) 1) = Some (described_as ''pad'')"
  by (rule handle_taken_over) simp_all

text \<open>
  the error codes are positive, like the numbers of devices, so a driver cannot tell them
  apart: the device with the number 401 is reported by the value that reports an invalid parameter.
\<close>

theorem device_number_or_error:
  assumes "HidConnect H g s = (HID_SUCCESS, g1, s1)" and "hs_createDevice H xd xp 0 s1 = ((0, 401), s2)" and "hs_NOPERM H \<noteq> 0"
    and "CheckHidDevice (Some d)" and "ParseHidDevice d = Inr xd" and "ParseHidEventProperties p = Inr xp"
    and "unat (ca_length (he_hidEventTypes p)) \<le> MAX_HID_EVENT_TYPES_LEN" "unat (ca_length (he_hidKeys p)) \<le> MAX_HID_KEYS_LEN"
      "unat (ca_length (he_hidAbs p)) \<le> MAX_HID_ABS_LEN" "unat (ca_length (he_hidRelBits p)) \<le> MAX_HID_REL_BITS_LEN"
      "unat (ca_length (he_hidMiscellaneous p)) \<le> MAX_HID_MISC_EVENT_LEN"
  shows "\<exists>g2. OH_Hid_CreateDevice H (Some d) (Some p) g s = Inr (HID_INVALID_PARAMETER, g2, s2)
      \<and> map_option desc (map_of (hg_deviceMap g2) 401) = Some (xd, xp)
    \<and> OH_Hid_CreateDevice H None (Some p) g s = Inr (HID_INVALID_PARAMETER, g1, s1)"
  using assms by (simp add: OH_Hid_CreateDevice_def CacheDeviceInfor_def desc_def CheckHidDevice_def [of None])

theorem device_number_or_error_witness:
  "\<exists>g2. OH_Hid_CreateDevice numbering (Some (named ''pen'')) (Some no_events) (on_line []) (401, [])
        = Inr (HID_INVALID_PARAMETER, g2, (402, [(401, described_as ''pen'')]))
      \<and> map_option desc (map_of (hg_deviceMap g2) 401) = Some (described_as ''pen'')
    \<and> OH_Hid_CreateDevice numbering None (Some no_events) (on_line []) (401, []) = Inr (HID_INVALID_PARAMETER, on_line [], (401, []))"
  using device_number_or_error [of numbering "on_line []" "(401, [])" "on_line []" "(401, [])" "td_tempDevice (cached ''pen'' 0)"
      "td_tempProperties (cached ''pen'' 0)" "(402, [(401, described_as ''pen'')])" "named ''pen''" no_events]
  by (simp add: connect_on_line numbering_def CheckHidDevice_def named_def no_codes_def no_events_def ParseHidDevice_def
      ParseHidEventProperties_def copy_array_def cached_def described_as_def desc_def)

section \<open>Buffers\<close>

lemma copy_out_fits:
  assumes "destMax \<le> length data" and "count \<le> length src \<or> destMax < count"
  shows "\<exists>e bs. copy_out R data destMax src count = Inr (e, bs) \<and> length bs = length data"
  using memcpy_vec_Inr [OF assms, of "hr_empty_null R"] by (auto simp: copy_out_def)

definition honest_counts :: "hid_raw \<Rightarrow> bool" where
  "honest_counts R \<longleftrightarrow> (\<forall>d n timeout. case hr_readTimeout R d n timeout of (_, v, c) \<Rightarrow> unat c \<le> length v)
    \<and> (\<forall>d n. case hr_getReportDescriptor R d n of (_, v, c) \<Rightarrow> unat c \<le> length v)"

lemma GetText_fits:
  assumes "length bs = unat n"
  shows "\<exists>r b. GetText R call g (Some d) (Some bs) n = Inr (r, Some b) \<and> length b = length bs"
proof -
  obtain ret v where v: "call d n = (ret, v)" by force
  show ?thesis using copy_out_fits [of "unat n" bs "length v" v R] assms v by (auto simp: GetText_def Let_def)
qed

lemma ReadTimeout_fits:
  assumes "length bs = unat n" and "honest_counts R"
  shows "\<exists>r b c. OH_Hid_ReadTimeout R g (Some d) (Some bs) n timeout (Some c0) = Inr (r, Some b, c) \<and> length b = length bs"
proof -
  obtain ret v c where v: "hr_readTimeout R d n timeout = (ret, v, c)" by (metis surj_pair)
  have "unat c \<le> length v" using assms(2) v unfolding honest_counts_def by (metis (no_types, lifting) case_prod_conv)
  then show ?thesis using copy_out_fits [of "unat n" bs "unat c" v R] assms(1) v by (auto simp: OH_Hid_ReadTimeout_def Let_def)
qed

lemma Read_is_ReadTimeout:
  "OH_Hid_Read R g (Some d) data n c = OH_Hid_ReadTimeout R g (Some d) data n (if hh_nonBlock d \<noteq> 0 then 0 else - 1) c"
  by (simp add: OH_Hid_Read_def OH_Hid_ReadTimeout_def)

lemma GetReport_fits:
  assumes "length bs = unat n"
  shows "\<exists>r b. OH_Hid_GetReport R g (Some d) ty (Some bs) n = Inr (r, Some b) \<and> length b = length bs"
proof (cases "good_length n")
  case True
  then have "unat n \<noteq> 0" by (auto simp: good_length_def unsigned_eq_0_iff)
  then have r: "rd bs 0 = Inr (bs ! 0)" using assms by simp
  obtain ret v where v: "hr_getReport R d ty (bs ! 0) n = (ret, v)" by force
  show ?thesis using copy_out_fits [of "unat n" bs "length v" v R] assms r v by (auto simp: OH_Hid_GetReport_def Let_def)
qed (simp add: OH_Hid_GetReport_def)

lemma GetReportDescriptor_fits:
  assumes "length bs = unat n" and "honest_counts R"
  shows "\<exists>r b c. OH_Hid_GetReportDescriptor R g (Some d) (Some bs) n (Some c0) = Inr (r, Some b, c) \<and> length b = length bs"
proof -
  obtain ret v c where v: "hr_getReportDescriptor R d n = (ret, v, c)" by (metis surj_pair)
  have "unat c \<le> length v" using assms(2) v unfolding honest_counts_def by (metis (no_types, lifting) case_prod_conv)
  then show ?thesis using copy_out_fits [of "unat n" bs "unat c" v R] assms(1) v by (auto simp: OH_Hid_GetReportDescriptor_def Let_def)
qed

text \<open>
  C27: OH_Hid_Read, OH_Hid_ReadTimeout, OH_Hid_GetReport, OH_Hid_GetReportDescriptor, OH_Hid_GetRawName
  and OH_Hid_GetPhysicalAddress stay within the buffer of the driver, when its length is the one the
  driver passes and the service counts no more bytes than it delivers (honest_counts; only the reads and
  the report descriptor come with a count). The data itself may have any length. The remaining call that reads
  into a buffer, OH_Hid_GetRawUniqueId, is not among them: it writes past the buffer (unique_id_overflow below).
\<close>

theorem hid_reads_stay_in_buffer:
  assumes "length bs = unat n" and "honest_counts R"
  shows "(\<exists>r b c. OH_Hid_Read R g (Some d) (Some bs) n (Some c0) = Inr (r, Some b, c) \<and> length b = length bs)
    \<and> (\<exists>r b c. OH_Hid_ReadTimeout R g (Some d) (Some bs) n timeout (Some c0) = Inr (r, Some b, c) \<and> length b = length bs)
    \<and> (\<exists>r b. OH_Hid_GetReport R g (Some d) ty (Some bs) n = Inr (r, Some b) \<and> length b = length bs)
    \<and> (\<exists>r b c. OH_Hid_GetReportDescriptor R g (Some d) (Some bs) n (Some c0) = Inr (r, Some b, c) \<and> length b = length bs)
    \<and> (\<exists>r b. OH_Hid_GetRawName R g (Some d) (Some bs) n = Inr (r, Some b) \<and> length b = length bs)
    \<and> (\<exists>r b. OH_Hid_GetPhysicalAddress R g (Some d) (Some bs) n = Inr (r, Some b) \<and> length b = length bs)"
  unfolding Read_is_ReadTimeout OH_Hid_GetRawName_def OH_Hid_GetPhysicalAddress_def
  by (intro conjI ReadTimeout_fits GetReport_fits GetReportDescriptor_fits GetText_fits assms)

text \<open>A service for examples: every text is three bytes long, whatever was asked for.\<close>

definition three_bytes :: hid_raw where
  "three_bytes = \<lparr>hr_open = (\<lambda>_ _. (0, \<lparr>hh_fd = 3, hh_nonBlock = 0\<rparr>)), hr_close = (\<lambda>_. 0), hr_write = (\<lambda>_ bs. (0, of_nat (length bs))),
     hr_readTimeout = (\<lambda>_ _ _. (0, [1, 2, 3], 3)), hr_setNonBlocking = (\<lambda>d n. (0, d)),
     hr_getRawInfo = (\<lambda>_. (0, \<lparr>ri_busType = 3, ri_vendor = 1, ri_product = 2\<rparr>)), hr_getRawName = (\<lambda>_ _. (0, [1, 2, 3])),
     hr_getPhysicalAddress = (\<lambda>_ _. (0, [1, 2, 3])), hr_getRawUniqueId = (\<lambda>_ _. (0, [1, 2, 3])), hr_sendReport = (\<lambda>_ _ _. 0),
     hr_getReport = (\<lambda>_ _ _ _. (0, [1, 2, 3])), hr_getReportDescriptor = (\<lambda>_ _. (0, [1, 2, 3], 3)),
     hr_ipc_error = (\<lambda>_. False), hr_empty_null = True\<rparr>"

theorem hid_reads_stay_in_buffer_witness:
  "\<exists>r b. OH_Hid_GetRawName three_bytes (on_line []) (Some \<lparr>hh_fd = 3, hh_nonBlock = 0\<rparr>) (Some [9, 9]) 2 = Inr (r, Some b) \<and> length b = length [9, 9 :: u8]"
proof -
  have "honest_counts three_bytes" by (simp add: honest_counts_def three_bytes_def)
  then show ?thesis
    using hid_reads_stay_in_buffer [of "[9, 9]" 2 three_bytes "on_line []" "\<lparr>hh_fd = 3, hh_nonBlock = 0\<rparr>"] by auto
qed

text \<open>
  the exception is the unique identifier: an answer longer than the buffer is written past its
  end, where the call for the name, given the same answer, refuses it and clears the buffer.
\<close>

theorem unique_id_overflow:
  assumes "hg_ddk g" and "good_length n" and "length bs = unat n" and "\<not> hr_ipc_error R 0"
    and "hr_getRawUniqueId R d n = (0, v)" and "hr_getRawName R d n = (0, v)" and "unat n < length v"
  shows "OH_Hid_GetRawUniqueId R g (Some d) (Some bs) n = Inl Oob_write
    \<and> OH_Hid_GetRawName R g (Some d) (Some bs) n = Inr (HID_MEMORY_ERROR, Some (replicate (length bs) 0))"
proof -
  have "unat n \<noteq> 0" using assms(2) by (auto simp: good_length_def unsigned_eq_0_iff)
  moreover have "v \<noteq> []" using assms(7) by auto
  ultimately show ?thesis using assms
    by (simp add: OH_Hid_GetRawUniqueId_def OH_Hid_GetRawName_def GetText_def copy_out_def memcpy_vec_def memcpy_s_def write_at_def
        ToHidCode_def)
qed

theorem unique_id_overflow_witness:
  "OH_Hid_GetRawUniqueId three_bytes (on_line []) (Some \<lparr>hh_fd = 3, hh_nonBlock = 0\<rparr>) (Some [9, 9]) 2 = Inl Oob_write"
  using unique_id_overflow [of "on_line []" 2 "[9, 9]" three_bytes "\<lparr>hh_fd = 3, hh_nonBlock = 0\<rparr>" "[1, 2, 3]"]
  by (simp add: on_line_def good_length_def three_bytes_def)

end
