(* ===== verification/Usb_Ddk.thy ===== *)
theory Usb_Ddk
  imports Ext_Types
begin

text \<open>
  The USB part of the driver development kit, src/frameworks/ddk/usb/usb_ddk_api.cpp, and the shared
  memory of src/frameworks/ddk/base/ddk_api.cpp, in the build with ENABLE_EXTERNAL_DEVICE_DDK_SERVICE.

  The answers of the service and of the system to one call are the record \<open>U\<close>. Pointers that may be
  null are options; what a call writes through a pointer is in its result.
\<close>

section \<open>Types\<close>

abbreviation (input) USB_DDK_NO_PERM :: int where "USB_DDK_NO_PERM \<equiv> 201"
abbreviation (input) USB_DDK_IO_FAILED :: int where "USB_DDK_IO_FAILED \<equiv> 27400003"
abbreviation (input) USB_DDK_TIMEOUT :: int where "USB_DDK_TIMEOUT \<equiv> 27400004"

record usb_setup =
  us_bmRequestType :: u8
  us_bRequest :: u8
  us_wValue :: u16
  us_wIndex :: u16
  us_wLength :: u16

record usb_device_descriptor =
  ud_bLength :: u8
  ud_bDescriptorType :: u8
  ud_bcdUSB :: u16
  ud_bDeviceClass :: u8
  ud_bDeviceSubClass :: u8
  ud_bDeviceProtocol :: u8
  ud_bMaxPacketSize0 :: u8
  ud_idVendor :: u16
  ud_idProduct :: u16
  ud_bcdDevice :: u16
  ud_iManufacturer :: u8
  ud_iProduct :: u8
  ud_iSerialNumber :: u8
  ud_bNumConfigurations :: u8

record usb_pipe =
  up_interfaceHandle :: u64
  up_timeout :: u32
  up_endpoint :: u8

text \<open>The kit never looks into the mapped memory, so its address is all that is kept of it.\<close>

record usb_mem_map =
  um_address :: "nat option"
  um_size :: u64
  um_offset :: u32
  um_bufferLength :: u32
  um_transferedLength :: u32

record ddk_ashmem =
  am_ashmemFd :: int
  am_address :: "u8 list option"
  am_size :: u32
  am_offset :: u32
  am_bufferLength :: u32
  am_transferredLength :: u32

record usb_id_array =
  ia_ids :: "u64 list option"
  ia_num :: u32

record usb_ddk =
  ug_ddk :: bool
  ug_fdMap :: "(nat \<times> int) list"

text \<open>
  The codes of the driver foundation are constants of another repository; zero is success.
  \<open>u_mmap\<close> sets the size of the file and maps it. \<open>u_empty_null\<close>: the data pointer of an empty vector
  is null.
\<close>

record usb_service =
  u_get :: bool
  u_init :: int
  u_release :: int
  u_getDeviceDescriptor :: "u64 \<Rightarrow> int \<times> usb_device_descriptor"
  u_getConfigDescriptor :: "u64 \<Rightarrow> u8 \<Rightarrow> int \<times> u8 list"
  u_claimInterface :: "u64 \<Rightarrow> u8 \<Rightarrow> int \<times> u64"
  u_releaseInterface :: "u64 \<Rightarrow> int"
  u_selectInterfaceSetting :: "u64 \<Rightarrow> u8 \<Rightarrow> int"
  u_getCurrentInterfaceSetting :: "u64 \<Rightarrow> int \<times> u8"
  u_sendControlReadRequest :: "u64 \<Rightarrow> usb_setup \<Rightarrow> u32 \<Rightarrow> int \<times> u8 list"
  u_sendControlWriteRequest :: "u64 \<Rightarrow> usb_setup \<Rightarrow> u32 \<Rightarrow> u8 list \<Rightarrow> int"
  u_sendPipeRequest :: "usb_pipe \<Rightarrow> u64 \<Rightarrow> u32 \<Rightarrow> u32 \<Rightarrow> int \<times> u32"
  u_sendPipeRequestWithAshmem :: "usb_pipe \<Rightarrow> ddk_ashmem \<Rightarrow> u8 list \<Rightarrow> int \<times> u32"
  u_getDeviceMemMapFd :: "u64 \<Rightarrow> int \<times> int"
  u_getDevices :: "int \<times> u64 list"
  u_controlTransfer :: "u64 \<Rightarrow> usb_setup \<Rightarrow> u32 \<Rightarrow> u8 list \<Rightarrow> int \<times> u8 list \<times> u32"
  u_getNonRootHubs :: "int \<times> u64 list"
  u_mmap :: "int \<Rightarrow> u64 \<Rightarrow> nat option"
  u_munmap :: "nat option \<Rightarrow> u64 \<Rightarrow> bool"
  u_NOT_SUPPORT :: int
  u_FAILURE :: int
  u_INVALID_PARAM :: int
  u_BAD_FD :: int
  u_NOPERM :: int
  u_NO_MEMORY :: int
  u_OUT_OF_RANGE :: int
  u_IO :: int
  u_TIMEOUT :: int
  u_empty_null :: bool

section \<open>Error codes\<close>

definition g_errorMap :: "usb_service \<Rightarrow> (int \<times> int) list" where
  "g_errorMap U =
     [(0, USB_DDK_SUCCESS),
      (u_NOT_SUPPORT U, USB_DDK_INVALID_OPERATION),
      (u_FAILURE U, USB_DDK_INVALID_OPERATION),
      (u_INVALID_PARAM U, USB_DDK_INVALID_PARAMETER),
      (u_BAD_FD U, USB_DDK_INVALID_PARAMETER),
      (u_NOPERM U, USB_DDK_NO_PERM),
      (u_NO_MEMORY U, USB_DDK_MEMORY_ERROR),
      (u_OUT_OF_RANGE U, USB_DDK_MEMORY_ERROR),
      (u_IO U, USB_DDK_IO_FAILED),
      (u_TIMEOUT U, USB_DDK_TIMEOUT)]"

definition TransToUsbCode :: "usb_service \<Rightarrow> int \<Rightarrow> int \<Rightarrow> int" where
  "TransToUsbCode U ret defaultCode =
     (case map_of (g_errorMap U) ret of Some c \<Rightarrow> c
      | None \<Rightarrow> if defaultCode \<noteq> USB_DDK_SUCCESS then defaultCode else ret)"

abbreviation (input) Trans :: "usb_service \<Rightarrow> int \<Rightarrow> int" where
  "Trans U ret \<equiv> TransToUsbCode U ret USB_DDK_SUCCESS"

section \<open>Start and end\<close>

definition OH_Usb_Init :: "usb_service \<Rightarrow> usb_ddk \<Rightarrow> int \<times> usb_ddk" where
  "OH_Usb_Init U g =
     (let g = g\<lparr>ug_ddk := u_get U\<rparr> in
      if \<not> ug_ddk g then (USB_DDK_INVALID_OPERATION, g) else (Trans U (u_init U), g))"

text \<open>The last result lists the file descriptors that were closed.\<close>

definition CloseAll :: "(nat \<times> int) list \<Rightarrow> int list" where
  "CloseAll fdMap = filter (\<lambda>fd. fd \<noteq> - 1) (map snd fdMap)"

definition OH_Usb_Release :: "usb_ddk \<Rightarrow> usb_ddk \<times> int list" where
  "OH_Usb_Release g =
     (if \<not> ug_ddk g then (g, []) else (g\<lparr>ug_fdMap := [], ug_ddk := False\<rparr>, CloseAll (ug_fdMap g)))"

definition OH_Usb_ReleaseResource :: "usb_service \<Rightarrow> usb_ddk \<Rightarrow> int \<times> usb_ddk \<times> int list" where
  "OH_Usb_ReleaseResource U g =
     (if \<not> ug_ddk g then (USB_DDK_INVALID_OPERATION, g, [])
      else (Trans U (u_release U), g\<lparr>ug_fdMap := [], ug_ddk := False\<rparr>, CloseAll (ug_fdMap g)))"

section \<open>Descriptors and interfaces\<close>

definition OH_Usb_GetDeviceDescriptor ::
  "usb_service \<Rightarrow> usb_ddk \<Rightarrow> u64 \<Rightarrow> usb_device_descriptor option \<Rightarrow> int \<times> usb_device_descriptor option" where
  "OH_Usb_GetDeviceDescriptor U g deviceId desc =
     (if \<not> ug_ddk g then (USB_DDK_INVALID_OPERATION, desc)
      else case desc of None \<Rightarrow> (USB_DDK_INVALID_PARAMETER, desc)
      | Some _ \<Rightarrow> (case u_getDeviceDescriptor U deviceId of (ret, d) \<Rightarrow> (Trans U ret, Some d)))"

text \<open>The outer option is that of the parser, which need not return.\<close>

definition OH_Usb_GetConfigDescriptor ::
  "usb_service \<Rightarrow> usb_ddk \<Rightarrow> u64 \<Rightarrow> u8 \<Rightarrow> bool \<Rightarrow> (int \<times> ddk_config option) res option" where
  "OH_Usb_GetConfigDescriptor U g deviceId configIndex configGiven =
     (if \<not> ug_ddk g then Some (Inr (USB_DDK_INVALID_OPERATION, None))
      else if \<not> configGiven then Some (Inr (USB_DDK_INVALID_PARAMETER, None))
      else case u_getConfigDescriptor U deviceId configIndex of (ret, configBytes) \<Rightarrow>
        let ret = Trans U ret in
        if ret \<noteq> USB_DDK_SUCCESS then Some (Inr (ret, None)) else ParseUsbConfigDescriptor configBytes)"

definition OH_Usb_ClaimInterface :: "usb_service \<Rightarrow> usb_ddk \<Rightarrow> u64 \<Rightarrow> u8 \<Rightarrow> u64 option \<Rightarrow> int \<times> u64 option" where
  "OH_Usb_ClaimInterface U g deviceId interfaceIndex interfaceHandle =
     (if \<not> ug_ddk g then (USB_DDK_INVALID_OPERATION, interfaceHandle)
      else case interfaceHandle of None \<Rightarrow> (USB_DDK_INVALID_PARAMETER, None)
      | Some _ \<Rightarrow> (case u_claimInterface U deviceId interfaceIndex of (ret, h) \<Rightarrow> (Trans U ret, Some h)))"

definition OH_Usb_ReleaseInterface :: "usb_service \<Rightarrow> usb_ddk \<Rightarrow> u64 \<Rightarrow> int" where
  "OH_Usb_ReleaseInterface U g interfaceHandle =
     (if \<not> ug_ddk g then USB_DDK_INVALID_OPERATION else Trans U (u_releaseInterface U interfaceHandle))"

definition OH_Usb_SelectInterfaceSetting :: "usb_service \<Rightarrow> usb_ddk \<Rightarrow> u64 \<Rightarrow> u8 \<Rightarrow> int" where
  "OH_Usb_SelectInterfaceSetting U g interfaceHandle settingIndex =
     (if \<not> ug_ddk g then USB_DDK_INVALID_OPERATION
      else Trans U (u_selectInterfaceSetting U interfaceHandle settingIndex))"

definition OH_Usb_GetCurrentInterfaceSetting :: "usb_service \<Rightarrow> usb_ddk \<Rightarrow> u64 \<Rightarrow> u8 option \<Rightarrow> int \<times> u8 option" where
  "OH_Usb_GetCurrentInterfaceSetting U g interfaceHandle settingIndex =
     (if \<not> ug_ddk g then (USB_DDK_INVALID_OPERATION, settingIndex)
      else case settingIndex of None \<Rightarrow> (USB_DDK_INVALID_PARAMETER, None)
      | Some _ \<Rightarrow> (case u_getCurrentInterfaceSetting U interfaceHandle of (ret, i) \<Rightarrow> (Trans U ret, Some i)))"

section \<open>Transfers\<close>

definition OH_Usb_SendControlReadRequest ::
  "usb_service \<Rightarrow> usb_ddk \<Rightarrow> u64 \<Rightarrow> usb_setup option \<Rightarrow> u32 \<Rightarrow> u8 list option \<Rightarrow> u32 option
   \<Rightarrow> (int \<times> u8 list option \<times> u32 option) res" where
  "OH_Usb_SendControlReadRequest U g interfaceHandle setup timeout data dataLen =
     (if \<not> ug_ddk g then Inr (USB_DDK_INVALID_OPERATION, data, dataLen)
      else case (setup, data, dataLen) of
        (Some q, Some bs, Some n) \<Rightarrow>
          (case u_sendControlReadRequest U interfaceHandle q timeout of (ret, dataTmp) \<Rightarrow>
           let ret = Trans U ret in
           if ret \<noteq> 0 then Inr (ret, data, dataLen)
           else if unat n < length dataTmp then Inr (USB_DDK_INVALID_PARAMETER, data, dataLen)
           else bindE (memcpy_vec (u_empty_null U) bs (unat n) dataTmp (length dataTmp)) (\<lambda>(ok, bs).
             if \<not> ok then Inr (USB_DDK_MEMORY_ERROR, Some bs, dataLen)
             else Inr (USB_DDK_SUCCESS, Some bs, Some (of_nat (length dataTmp)))))
      | _ \<Rightarrow> Inr (USB_DDK_INVALID_PARAMETER, data, dataLen))"

definition OH_Usb_SendControlWriteRequest ::
  "usb_service \<Rightarrow> usb_ddk \<Rightarrow> u64 \<Rightarrow> usb_setup option \<Rightarrow> u32 \<Rightarrow> u8 list option \<Rightarrow> u32 \<Rightarrow> int res" where
  "OH_Usb_SendControlWriteRequest U g interfaceHandle setup timeout data dataLen =
     (if \<not> ug_ddk g then Inr USB_DDK_INVALID_OPERATION
      else case (setup, data) of
        (Some q, Some bs) \<Rightarrow>
          bindE (rd_bytes bs (unat dataLen)) (\<lambda>dataTmp.
            Inr (Trans U (u_sendControlWriteRequest U interfaceHandle q timeout dataTmp)))
      | _ \<Rightarrow> Inr USB_DDK_INVALID_PARAMETER)"

text \<open>The result has the new transferred length.\<close>

definition OH_Usb_SendPipeRequest ::
  "usb_service \<Rightarrow> usb_ddk \<Rightarrow> usb_pipe option \<Rightarrow> usb_mem_map option \<Rightarrow> int \<times> usb_mem_map option" where
  "OH_Usb_SendPipeRequest U g pipe devMmap =
     (if \<not> ug_ddk g then (USB_DDK_INVALID_OPERATION, devMmap)
      else case (pipe, devMmap) of
        (Some p, Some m) \<Rightarrow>
          if um_address m = None then (USB_DDK_INVALID_PARAMETER, devMmap)
          else if ucast (um_offset m) > um_size m \<or> ucast (um_bufferLength m) > um_size m - ucast (um_offset m)
          then (USB_DDK_INVALID_PARAMETER, devMmap)
          else (case u_sendPipeRequest U p (um_size m) (um_offset m) (um_bufferLength m) of (ret, n) \<Rightarrow>
            (Trans U ret, Some (m\<lparr>um_transferedLength := n\<rparr>)))
      | _ \<Rightarrow> (USB_DDK_INVALID_PARAMETER, devMmap))"

definition OH_Usb_SendPipeRequestWithAshmem ::
  "usb_service \<Rightarrow> usb_ddk \<Rightarrow> usb_pipe option \<Rightarrow> ddk_ashmem option \<Rightarrow> (int \<times> ddk_ashmem option) res" where
  "OH_Usb_SendPipeRequestWithAshmem U g pipe ashmem =
     (if \<not> ug_ddk g then Inr (USB_DDK_INVALID_OPERATION, ashmem)
      else case (pipe, ashmem) of
        (Some p, Some m) \<Rightarrow>
          (case am_address m of None \<Rightarrow> Inr (USB_DDK_INVALID_PARAMETER, ashmem)
           | Some bs \<Rightarrow>
               if am_offset m > am_size m \<or> am_bufferLength m > am_size m - am_offset m
               then Inr (USB_DDK_INVALID_PARAMETER, ashmem)
               else bindE (rd_bytes bs (unat (am_size m))) (\<lambda>address.
                 case u_sendPipeRequestWithAshmem U p (m\<lparr>am_transferredLength := 0\<rparr>) address of (ret, n) \<Rightarrow>
                   Inr (Trans U ret, Some (m\<lparr>am_transferredLength := n\<rparr>))))
      | _ \<Rightarrow> Inr (USB_DDK_INVALID_PARAMETER, ashmem))"

text \<open>The error codes and the number of transferred bytes share the result.\<close>

definition OH_Usb_ControlTransfer ::
  "usb_service \<Rightarrow> usb_ddk \<Rightarrow> u64 \<Rightarrow> usb_setup option \<Rightarrow> u8 list option \<Rightarrow> u32 \<Rightarrow> (int \<times> u8 list option) res" where
  "OH_Usb_ControlTransfer U g deviceID setupPacket data timeout =
     (if \<not> ug_ddk g then Inr (USB_DDK_INVALID_OPERATION, data)
      else case (setupPacket, data) of
        (Some q, Some bs) \<Rightarrow>
          bindE (rd_bytes bs (unat (us_wLength q))) (\<lambda>dataTmp.
            case u_controlTransfer U deviceID q timeout dataTmp of (ret, dataTmp, transferredLength) \<Rightarrow>
            let ret = TransToUsbCode U ret USB_DDK_IO_FAILED in
            if ret \<noteq> USB_DDK_SUCCESS then Inr (ret, data)
            else if length dataTmp > 0 then
              bindE (memcpy_vec (u_empty_null U) bs (unat (us_wLength q)) dataTmp (length dataTmp)) (\<lambda>(ok, bs).
                if \<not> ok then Inr (USB_DDK_MEMORY_ERROR, Some bs) else Inr (to_i32 (uint transferredLength), Some bs))
            else Inr (to_i32 (uint transferredLength), data))
      | _ \<Rightarrow> Inr (USB_DDK_INVALID_PARAMETER, data))"

section \<open>Mapped memory\<close>

text \<open>The result says what \<open>*devMmap\<close> was set to, and which file descriptors were closed.\<close>

definition OH_Usb_CreateDeviceMemMap ::
  "usb_service \<Rightarrow> usb_ddk \<Rightarrow> u64 \<Rightarrow> u64 \<Rightarrow> bool \<Rightarrow> (int \<times> usb_mem_map option \<times> usb_ddk \<times> int list) res" where
  "OH_Usb_CreateDeviceMemMap U g deviceId sz devMmapGiven =
     (if \<not> devMmapGiven then Inr (USB_DDK_INVALID_PARAMETER, None, g, [])
      else if \<not> ug_ddk g then Inl Null_deref
      else case u_getDeviceMemMapFd U deviceId of (ret, fd) \<Rightarrow>
        let ret = Trans U ret in
        if ret \<noteq> USB_DDK_SUCCESS then Inr (ret, None, g, [])
        else case u_mmap U fd sz of None \<Rightarrow> Inr (USB_DDK_MEMORY_ERROR, None, g, [])
        | Some buffer \<Rightarrow>
            let closed = (case map_of (ug_fdMap g) buffer of None \<Rightarrow> [] | Some old \<Rightarrow> if old \<noteq> - 1 then [old] else []) in
            Inr (USB_DDK_SUCCESS,
                 Some \<lparr>um_address = Some buffer, um_size = sz, um_offset = 0, um_bufferLength = ucast sz, um_transferedLength = 0\<rparr>,
                 g\<lparr>ug_fdMap := al_put buffer fd (ug_fdMap g)\<rparr>, closed))"

text \<open>The second result says whether the object was deleted.\<close>

definition OH_Usb_DestroyDeviceMemMap :: "usb_service \<Rightarrow> usb_ddk \<Rightarrow> usb_mem_map option \<Rightarrow> usb_ddk \<times> bool \<times> int list" where
  "OH_Usb_DestroyDeviceMemMap U g devMmap =
     (case devMmap of None \<Rightarrow> (g, False, [])
      | Some m \<Rightarrow>
          if \<not> u_munmap U (um_address m) (um_size m) then (g, False, [])
          else case um_address m of None \<Rightarrow> (g, True, [])
          | Some buffer \<Rightarrow>
              (case map_of (ug_fdMap g) buffer of None \<Rightarrow> (g, True, [])
               | Some fd \<Rightarrow> (g\<lparr>ug_fdMap := al_del buffer (ug_fdMap g)\<rparr>, True, if fd \<noteq> - 1 then [fd] else [])))"

section \<open>Lists of devices\<close>

text \<open>The caller's array has no length: \<open>num\<close> is only written.\<close>

definition FillIds :: "u64 list \<Rightarrow> usb_id_array \<Rightarrow> usb_id_array res" where
  "FillIds ids a =
     (let a = a\<lparr>ia_num := of_nat (length ids)\<rparr> in
      if ids = [] then Inr a
      else case ia_ids a of None \<Rightarrow> Inl Null_deref
      | Some arr \<Rightarrow> if length arr < length ids then Inl Oob_write else Inr (a\<lparr>ia_ids := Some (write_at arr 0 ids)\<rparr>))"

definition OH_Usb_GetDevices :: "usb_service \<Rightarrow> usb_ddk \<Rightarrow> usb_id_array option \<Rightarrow> (int \<times> usb_id_array option) res" where
  "OH_Usb_GetDevices U g devices =
     (if \<not> ug_ddk g then Inr (USB_DDK_INVALID_OPERATION, devices)
      else case devices of None \<Rightarrow> Inr (USB_DDK_INVALID_PARAMETER, devices)
      | Some a \<Rightarrow>
          (case u_getDevices U of (ret, ids) \<Rightarrow>
           let ret = Trans U ret in
           if ret \<noteq> USB_DDK_SUCCESS then Inr (ret, devices)
           else bindE (FillIds ids a) (\<lambda>a. Inr (USB_DDK_SUCCESS, Some a))))"

definition OH_Usb_GetNonRootHubs :: "usb_service \<Rightarrow> usb_ddk \<Rightarrow> usb_id_array option \<Rightarrow> (int \<times> usb_id_array option) res" where
  "OH_Usb_GetNonRootHubs U g nonRootHub =
     (if \<not> ug_ddk g then Inr (USB_DDK_INVALID_OPERATION, nonRootHub)
      else case nonRootHub of None \<Rightarrow> Inr (USB_DDK_INVALID_PARAMETER, nonRootHub)
      | Some a \<Rightarrow>
          (case u_getNonRootHubs U of (ret, ids) \<Rightarrow>
           let ret = Trans U ret in
           if ret \<noteq> USB_DDK_SUCCESS then Inr (ret, nonRootHub)
           else bindE (FillIds ids a) (\<lambda>a. Inr (USB_DDK_SUCCESS, Some a))))"

section \<open>Shared memory\<close>

abbreviation (input) DDK_SUCCESS :: int where "DDK_SUCCESS \<equiv> 0"
abbreviation (input) DDK_FAILURE :: int where "DDK_FAILURE \<equiv> 28600001"
abbreviation (input) DDK_INVALID_PARAMETER :: int where "DDK_INVALID_PARAMETER \<equiv> 28600002"
abbreviation (input) DDK_INVALID_OPERATION :: int where "DDK_INVALID_OPERATION \<equiv> 28600003"
abbreviation (input) DDK_NULL_PTR :: int where "DDK_NULL_PTR \<equiv> 28600004"
abbreviation (input) PORT_MAX :: nat where "PORT_MAX \<equiv> 7"

text \<open>
  The objects of the system are numbered; \<open>sm_create\<close> gives an object and its file descriptor,
  \<open>sm_read\<close> the mapped contents.
\<close>

record share_mem =
  sm_create :: "string \<Rightarrow> u32 \<Rightarrow> (nat \<times> int) option"
  sm_map :: "nat \<Rightarrow> u8 \<Rightarrow> bool"
  sm_read :: "nat \<Rightarrow> u32 \<Rightarrow> u8 list option"

type_synonym base_ddk = "(int \<times> nat) list"

definition OH_DDK_CreateAshmem ::
  "share_mem \<Rightarrow> base_ddk \<Rightarrow> string option \<Rightarrow> u32 \<Rightarrow> bool \<Rightarrow> int \<times> ddk_ashmem option \<times> base_ddk" where
  "OH_DDK_CreateAshmem S g name sz ashmemGiven =
     (case name of None \<Rightarrow> (DDK_INVALID_PARAMETER, None, g)
      | Some n \<Rightarrow>
          if sz = 0 then (DDK_INVALID_PARAMETER, None, g)
          else if \<not> ashmemGiven then (DDK_INVALID_PARAMETER, None, g)
          else case sm_create S n sz of None \<Rightarrow> (DDK_FAILURE, None, g)
          | Some (obj, fd) \<Rightarrow>
              (DDK_SUCCESS,
               Some \<lparr>am_ashmemFd = fd, am_address = None, am_size = sz, am_offset = 0, am_bufferLength = sz, am_transferredLength = 0\<rparr>,
               al_put fd obj g))"

definition AshmemValidityCheck :: "base_ddk \<Rightarrow> ddk_ashmem option \<Rightarrow> int" where
  "AshmemValidityCheck g ashmem =
     (case ashmem of None \<Rightarrow> DDK_NULL_PTR
      | Some m \<Rightarrow> if map_of g (am_ashmemFd m) = None then DDK_FAILURE else DDK_SUCCESS)"

definition OH_DDK_MapAshmem :: "share_mem \<Rightarrow> base_ddk \<Rightarrow> ddk_ashmem option \<Rightarrow> u8 \<Rightarrow> int \<times> ddk_ashmem option" where
  "OH_DDK_MapAshmem S g ashmem ashmemMapType =
     (let ret = AshmemValidityCheck g ashmem in
      if ret \<noteq> DDK_SUCCESS then (ret, ashmem)
      else if unat ashmemMapType > PORT_MAX then (DDK_INVALID_OPERATION, ashmem)
      else case ashmem of None \<Rightarrow> (DDK_NULL_PTR, ashmem)
      | Some m \<Rightarrow>
          let obj = the (map_of g (am_ashmemFd m)) in
          if \<not> sm_map S obj ashmemMapType then (DDK_INVALID_OPERATION, ashmem)
          else (DDK_SUCCESS, Some (m\<lparr>am_address := sm_read S obj (am_size m)\<rparr>)))"

definition OH_DDK_UnmapAshmem :: "base_ddk \<Rightarrow> ddk_ashmem option \<Rightarrow> int \<times> ddk_ashmem option" where
  "OH_DDK_UnmapAshmem g ashmem =
     (let ret = AshmemValidityCheck g ashmem in
      if ret \<noteq> DDK_SUCCESS then (ret, ashmem)
      else (DDK_SUCCESS, map_option (\<lambda>m. m\<lparr>am_address := None\<rparr>) ashmem))"

text \<open>The result says whether the object was deleted.\<close>

definition OH_DDK_DestroyAshmem :: "base_ddk \<Rightarrow> ddk_ashmem option \<Rightarrow> int \<times> bool \<times> base_ddk" where
  "OH_DDK_DestroyAshmem g ashmem =
     (let ret = AshmemValidityCheck g ashmem in
      if ret \<noteq> DDK_SUCCESS then (ret, False, g)
      else case ashmem of None \<Rightarrow> (DDK_NULL_PTR, False, g)
      | Some m \<Rightarrow> (DDK_SUCCESS, True, al_del (am_ashmemFd m) g))"

end
