(* ===== verification/Usb_Ddk_Claims.thy ===== *)
theory Usb_Ddk_Claims
  imports Usb_Ddk
begin

text \<open>
  The file descriptors of the mapped memory, and the results of transfers and lists in the USB part
  of the driver development kit.
\<close>

section \<open>File descriptors\<close>

text \<open>
  A run of the calls that open or close file descriptors. Beside the kit's state it has the
  descriptors the system holds open for them, and those that were left open because the memory
  could not be mapped. A step lists what it closes. The service opens a descriptor that is not open.
\<close>

type_synonym fd_state = "usb_ddk \<times> int set \<times> int set"

inductive fd_step :: "fd_state \<Rightarrow> int list \<Rightarrow> fd_state \<Rightarrow> bool" where
  fd_init: "OH_Usb_Init U g = (r, g') \<Longrightarrow> fd_step (g, opened, left) [] (g', opened, left)"
| fd_release: "OH_Usb_Release g = (g', cl) \<Longrightarrow> fd_step (g, opened, left) cl (g', opened - set cl, left)"
| fd_release_resource: "OH_Usb_ReleaseResource U g = (r, g', cl) \<Longrightarrow> fd_step (g, opened, left) cl (g', opened - set cl, left)"
| fd_create: "OH_Usb_CreateDeviceMemMap U g dev n True = Inr (r, m, g', cl) \<Longrightarrow> u_getDeviceMemMapFd U dev = (e, fd) \<Longrightarrow>
    TransToUsbCode U e 0 = USB_DDK_SUCCESS \<Longrightarrow> 0 \<le> fd \<Longrightarrow> fd \<notin> opened \<Longrightarrow>
    fd_step (g, opened, left) cl (g', insert fd (opened - set cl), if r = USB_DDK_SUCCESS then left else insert fd left)"
| fd_refused: "OH_Usb_CreateDeviceMemMap U g dev n given = Inr (r, m, g', cl) \<Longrightarrow>
    \<not> given \<or> TransToUsbCode U (fst (u_getDeviceMemMapFd U dev)) 0 \<noteq> USB_DDK_SUCCESS \<Longrightarrow>
    fd_step (g, opened, left) cl (g', opened - set cl, left)"
| fd_destroy: "OH_Usb_DestroyDeviceMemMap U g m = (g', deleted, cl) \<Longrightarrow> fd_step (g, opened, left) cl (g', opened - set cl, left)"

inductive fd_reachable :: "fd_state \<Rightarrow> bool" where
  fd_start: "fd_reachable (\<lparr>ug_ddk = False, ug_fdMap = []\<rparr>, {}, {})"
| fd_next: "fd_reachable x \<Longrightarrow> fd_step x cl y \<Longrightarrow> fd_reachable y"

definition fd_inv :: "fd_state \<Rightarrow> bool" where
  "fd_inv x = (case x of (g, opened, left) \<Rightarrow>
     distinct (map fst (ug_fdMap g)) \<and> inj_on (map_of (ug_fdMap g)) (dom (map_of (ug_fdMap g)))
     \<and> - 1 \<notin> ran (map_of (ug_fdMap g)) \<and> - 1 \<notin> left \<and> opened = ran (map_of (ug_fdMap g)) \<union> left \<and> ran (map_of (ug_fdMap g)) \<inter> left = {})"

lemma distinct_values:
  assumes "distinct (map fst m)" and "inj_on (map_of m) (dom (map_of m))"
  shows "distinct (map snd m)"
proof -
  have "k = k'" if "(k, v) \<in> set m" "(k', v) \<in> set m" for k k' v
    using that assms by (metis domI inj_onD map_of_is_SomeI)
  then have "inj_on snd (set m)" by (auto simp: inj_on_def)
  then show ?thesis using assms(1) by (simp add: distinct_map)
qed

lemma CloseAll_eq:
  assumes "fd_inv (g, opened, left)"
  shows "distinct (CloseAll (ug_fdMap g))" and "set (CloseAll (ug_fdMap g)) = ran (map_of (ug_fdMap g))"
proof -
  have i: "distinct (map fst (ug_fdMap g))" "inj_on (map_of (ug_fdMap g)) (dom (map_of (ug_fdMap g)))"
    "- 1 \<notin> ran (map_of (ug_fdMap g))"
    using assms by (auto simp: fd_inv_def)
  show "distinct (CloseAll (ug_fdMap g))" using distinct_values [OF i(1,2)] by (simp add: CloseAll_def)
  show "set (CloseAll (ug_fdMap g)) = ran (map_of (ug_fdMap g))"
    using i(3) ran_distinct [OF i(1)] by (force simp: CloseAll_def)
qed

text \<open>One descriptor leaves the table or is replaced.\<close>

lemma fd_inv_del:
  assumes "fd_inv (g, opened, left)" and "map_of (ug_fdMap g) b = Some fd"
  shows "fd_inv (g\<lparr>ug_fdMap := al_del b (ug_fdMap g)\<rparr>, opened - {fd}, left)"
    and "fd \<in> opened" and "fd \<noteq> - 1"
proof -
  let ?m = "map_of (ug_fdMap g)"
  have i: "distinct (map fst (ug_fdMap g))" "inj_on ?m (dom ?m)" "- 1 \<notin> opened" "opened = ran ?m \<union> left" "ran ?m \<inter> left = {}"
    using assms(1) by (auto simp: fd_inv_def)
  have fd: "fd \<in> ran ?m" using assms(2) by (rule ranI)
  then show "fd \<in> opened" "fd \<noteq> - 1" using i by auto
  have r: "ran (?m(b := None)) = ran ?m - {fd}"
  proof (intro set_eqI iffI)
    fix v
    assume "v \<in> ran (?m(b := None))"
    then obtain k where k: "k \<noteq> b" "?m k = Some v" by (auto simp: ran_def split: if_splits)
    then have "v \<noteq> fd" using i(2) assms(2) by (metis domI inj_onD)
    then show "v \<in> ran ?m - {fd}" using k by (auto simp: ran_def)
  next
    fix v
    assume "v \<in> ran ?m - {fd}"
    then obtain k where "?m k = Some v" "v \<noteq> fd" by (auto simp: ran_def)
    moreover from this have "k \<noteq> b" using assms(2) by auto
    ultimately show "v \<in> ran (?m(b := None))" by (auto simp: ran_def)
  qed
  have "inj_on (?m(b := None)) (dom (?m(b := None)))" using i(2) by (auto simp: inj_on_def dom_def)
  moreover have "opened - {fd} = (ran ?m - {fd}) \<union> left" using i(4,5) fd by auto
  ultimately show "fd_inv (g\<lparr>ug_fdMap := al_del b (ug_fdMap g)\<rparr>, opened - {fd}, left)"
    using i r by (auto simp: fd_inv_def)
qed

lemma fd_inv_put:
  assumes "fd_inv (g, opened, left)" and "map_of (ug_fdMap g) b = None" and "fd \<notin> opened" and "0 \<le> fd"
  shows "fd_inv (g\<lparr>ug_fdMap := al_put b fd (ug_fdMap g)\<rparr>, insert fd opened, left)"
proof -
  let ?m = "map_of (ug_fdMap g)"
  have i: "distinct (map fst (ug_fdMap g))" "inj_on ?m (dom ?m)" "- 1 \<notin> opened" "opened = ran ?m \<union> left" "ran ?m \<inter> left = {}"
    using assms(1) by (auto simp: fd_inv_def)
  have "?m k \<noteq> Some fd" for k using assms(3) i(4) by (auto simp: ran_def)
  then have "inj_on (?m(b \<mapsto> fd)) (dom (?m(b \<mapsto> fd)))" using i(2) by (auto simp: inj_on_def)
  moreover have "ran (?m(b \<mapsto> fd)) = insert fd (ran ?m)" using assms(2) by (rule ran_map_upd)
  ultimately show ?thesis using i assms(3,4) by (auto simp: fd_inv_def)
qed

lemma al_put_al_del: "map_of (al_put b fd (al_del b m)) = map_of (al_put b fd m)"
  by simp

lemma fd_inv_cong:
  "map_of (ug_fdMap g') = map_of (ug_fdMap g) \<Longrightarrow> distinct (map fst (ug_fdMap g')) \<Longrightarrow> fd_inv (g, opened, left) \<Longrightarrow> fd_inv (g', opened, left)"
  by (simp add: fd_inv_def)

lemma fd_inv_create:
  assumes inv: "fd_inv (g, opened, left)" and run: "OH_Usb_CreateDeviceMemMap U g dev n True = Inr (r, m, g', cl)"
    and fd: "u_getDeviceMemMapFd U dev = (e, fd)" "TransToUsbCode U e 0 = USB_DDK_SUCCESS" "0 \<le> fd" "fd \<notin> opened"
  shows "fd_inv (g', insert fd (opened - set cl), if r = USB_DDK_SUCCESS then left else insert fd left)
    \<and> distinct cl \<and> set cl \<subseteq> opened"
proof (cases "u_mmap U fd n")
  case None
  then have "r \<noteq> USB_DDK_SUCCESS" "g' = g" "cl = []"
    using run fd by (auto simp: OH_Usb_CreateDeviceMemMap_def split: if_splits)
  then show ?thesis using inv fd(3,4) by (auto simp: fd_inv_def)
next
  case (Some b)
  have d: "distinct (map fst (ug_fdMap g))" using inv by (simp add: fd_inv_def)
  show ?thesis
  proof (cases "map_of (ug_fdMap g) b")
    case None
    then have "r = USB_DDK_SUCCESS" "g' = g\<lparr>ug_fdMap := al_put b fd (ug_fdMap g)\<rparr>" "cl = []"
      using run fd Some by (auto simp: OH_Usb_CreateDeviceMemMap_def split: if_splits)
    then show ?thesis using fd_inv_put [OF inv None fd(4,3)] by simp
  next
    case old: (Some old)
    note e = fd_inv_del [OF inv old]
    have r: "r = USB_DDK_SUCCESS" "g' = g\<lparr>ug_fdMap := al_put b fd (ug_fdMap g)\<rparr>" "cl = [old]"
      using run fd Some old e(3) by (auto simp: OH_Usb_CreateDeviceMemMap_def split: if_splits)
    have "fd_inv (g\<lparr>ug_fdMap := al_put b fd (al_del b (ug_fdMap g))\<rparr>, insert fd (opened - {old}), left)"
      using fd_inv_put [OF e(1), of b fd] fd(3,4) by simp
    then have "fd_inv (g', insert fd (opened - {old}), left)" using d r(2) by (elim fd_inv_cong [rotated 2]) simp_all
    then show ?thesis using r e(2) by simp
  qed
qed

lemma fd_inv_step: "fd_step x cl y \<Longrightarrow> fd_inv x \<Longrightarrow> fd_inv y \<and> distinct cl \<and> set cl \<subseteq> fst (snd x)"
proof (induction rule: fd_step.induct)
  case (fd_init U g r g' opened left)
  then have "ug_fdMap g' = ug_fdMap g" by (auto simp: OH_Usb_Init_def Let_def split: if_splits)
  then show ?case using fd_init by (simp add: fd_inv_def)
next
  case (fd_release g g' cl opened left)
  note c = CloseAll_eq [OF fd_release(2)]
  show ?case using fd_release c by (auto simp: OH_Usb_Release_def fd_inv_def split: if_splits)
next
  case (fd_release_resource U g r g' cl opened left)
  note c = CloseAll_eq [OF fd_release_resource(2)]
  show ?case using fd_release_resource c by (auto simp: OH_Usb_ReleaseResource_def fd_inv_def split: if_splits)
next
  case (fd_create U g dev n r m g' cl e fd opened left)
  then show ?case using fd_inv_create by simp
next
  case (fd_refused U g dev n given r m g' cl opened left)
  then have "g' = g" "cl = []" by (auto simp: OH_Usb_CreateDeviceMemMap_def split: if_splits prod.splits)
  then show ?case using fd_refused by simp
next
  case (fd_destroy U g m g' deleted cl opened left)
  show ?case
  proof (cases "\<exists>b fd. map_of (ug_fdMap g) b = Some fd \<and> g' = g\<lparr>ug_fdMap := al_del b (ug_fdMap g)\<rparr> \<and> cl = (if fd \<noteq> - 1 then [fd] else [])")
    case True
    then obtain b fd where b: "map_of (ug_fdMap g) b = Some fd" "g' = g\<lparr>ug_fdMap := al_del b (ug_fdMap g)\<rparr>"
      "cl = (if fd \<noteq> - 1 then [fd] else [])" by blast
    show ?thesis using fd_inv_del [OF fd_destroy(2) b(1)] b(2,3) by simp
  next
    case False
    then have "g' = g" "cl = []" using fd_destroy(1)
      by (auto simp: OH_Usb_DestroyDeviceMemMap_def split: option.splits if_splits)
    then show ?thesis using fd_destroy(2) by simp
  qed
qed

lemma fd_reachable_inv: "fd_reachable x \<Longrightarrow> fd_inv x"
proof (induction rule: fd_reachable.induct)
  case fd_start
  then show ?case by (simp add: fd_inv_def)
qed (use fd_inv_step in blast)

text \<open>
  C28: in every run of the kit, a call closes only descriptors that are open, each once; and whenever
  the table is empty, as after releasing the kit, the descriptors still open are those whose memory
  could not be mapped.
\<close>

theorem descriptors_closed_once:
  assumes "fd_reachable x" and "fd_step x cl y"
  shows "distinct cl \<and> set cl \<subseteq> fst (snd x) \<and> (ug_fdMap (fst y) = [] \<longrightarrow> fst (snd y) = snd (snd y))"
proof -
  have "fd_inv y \<and> distinct cl \<and> set cl \<subseteq> fst (snd x)" using fd_inv_step [OF assms(2) fd_reachable_inv [OF assms(1)]] .
  then show ?thesis by (cases y) (simp add: fd_inv_def)
qed

text \<open>A service for examples. Its devices transfer all they are asked for, or nothing at all when read.\<close>

definition example_usb :: usb_service where
  "example_usb = \<lparr>u_get = True, u_init = 0, u_release = 0,
     u_getDeviceDescriptor = (\<lambda>_. (0, \<lparr>ud_bLength = 18, ud_bDescriptorType = 1, ud_bcdUSB = 0x200, ud_bDeviceClass = 0,
       ud_bDeviceSubClass = 0, ud_bDeviceProtocol = 0, ud_bMaxPacketSize0 = 64, ud_idVendor = 1, ud_idProduct = 2, ud_bcdDevice = 1,
       ud_iManufacturer = 0, ud_iProduct = 0, ud_iSerialNumber = 0, ud_bNumConfigurations = 1\<rparr>)),
     u_getConfigDescriptor = (\<lambda>_ _. (0, [])), u_claimInterface = (\<lambda>_ _. (0, 1)), u_releaseInterface = (\<lambda>_. 0),
     u_selectInterfaceSetting = (\<lambda>_ _. 0), u_getCurrentInterfaceSetting = (\<lambda>_. (0, 0)),
     u_sendControlReadRequest = (\<lambda>_ _ _. (0, [])), u_sendControlWriteRequest = (\<lambda>_ _ _ _. 0),
     u_sendPipeRequest = (\<lambda>_ _ _ n. (0, n)), u_sendPipeRequestWithAshmem = (\<lambda>_ m _. (0, am_bufferLength m)),
     u_getDeviceMemMapFd = (\<lambda>_. (0, 7)), u_getDevices = (0, [11, 12]),
     u_controlTransfer = (\<lambda>_ q _ bs. (0, bs, ucast (us_wLength q))), u_getNonRootHubs = (0, []),
     u_mmap = (\<lambda>_ _. Some 4096), u_munmap = (\<lambda>_ _. True), u_NOT_SUPPORT = - 2, u_FAILURE = - 1, u_INVALID_PARAM = - 3, u_BAD_FD = - 9,
     u_NOPERM = - 8, u_NO_MEMORY = - 207, u_OUT_OF_RANGE = - 19, u_IO = - 6, u_TIMEOUT = - 10, u_empty_null = True\<rparr>"

definition usb_on :: "(nat \<times> int) list \<Rightarrow> usb_ddk" where
  "usb_on m = \<lparr>ug_ddk = True, ug_fdMap = m\<rparr>"

lemma Trans_0 [simp]: "TransToUsbCode U 0 c = 0"
  by (simp add: TransToUsbCode_def g_errorMap_def)

lemma one_mapping: "fd_reachable (usb_on [(4096, 7)], {7}, {})"
proof -
  have "fd_step (\<lparr>ug_ddk = False, ug_fdMap = []\<rparr>, {}, {}) [] (usb_on [], {}, {})"
    by (rule fd_init [of example_usb _ 0]) (simp add: OH_Usb_Init_def example_usb_def usb_on_def)
  moreover have "fd_step (usb_on [], {}, {}) [] (usb_on [(4096, 7)], {7}, {})"
    using fd_create [of example_usb "usb_on []" 1 64 0 "Some \<lparr>um_address = Some 4096, um_size = 64, um_offset = 0, um_bufferLength = 64, um_transferedLength = 0\<rparr>"
        "usb_on [(4096, 7)]" "[]" 0 7 "{}" "{}"]
    by (simp add: OH_Usb_CreateDeviceMemMap_def example_usb_def usb_on_def)
  ultimately show ?thesis by (meson fd_reachable.intros)
qed

theorem descriptors_closed_once_witness:
  "fd_step (usb_on [(4096, 7)], {7}, {}) [7] (\<lparr>ug_ddk = False, ug_fdMap = []\<rparr>, {}, {}) \<and> distinct [7 :: int]"
proof -
  have s: "fd_step (usb_on [(4096, 7)], {7}, {}) [7] (\<lparr>ug_ddk = False, ug_fdMap = []\<rparr>, {7} - set [7], {})"
    by (rule fd_release) (simp add: OH_Usb_Release_def CloseAll_def usb_on_def)
  then show ?thesis using descriptors_closed_once [OF one_mapping s] by simp
qed

section \<open>Transfers\<close>

text \<open>
  a control transfer of 201 or 401 bytes that succeeds has the same result as a refused
  permission or an invalid parameter.
\<close>

theorem control_result_ambiguous:
  assumes "ug_ddk g" and "unat (us_wLength q) \<in> {201, 401}" and "length bs = unat (us_wLength q)"
    and "u_controlTransfer U dev q t bs = (0, v, ucast (us_wLength q))" and "length v = length bs"
  shows "OH_Usb_ControlTransfer U g dev (Some q) (Some bs) t = Inr (int (unat (us_wLength q)), Some v)
    \<and> int (unat (us_wLength q)) \<in> {USB_DDK_NO_PERM, USB_DDK_INVALID_PARAMETER}
    \<and> OH_Usb_ControlTransfer U g dev None (Some bs) t = Inr (USB_DDK_INVALID_PARAMETER, Some bs)"
proof -
  have "uint (ucast (us_wLength q) :: u32) = uint (us_wLength q)" by (rule uint_up_ucast) (simp add: is_up)
  moreover have "uint (us_wLength q) < 65536" using unsigned_less [where ?'a = int, of "us_wLength q"] by simp
  then have "to_i32 (uint (us_wLength q)) = uint (us_wLength q)"
    using unsigned_greater_eq [where ?'a = int, of "us_wLength q"] by (intro to_i32_id) linarith+
  ultimately have t: "to_i32 (uint (ucast (us_wLength q) :: u32)) = uint (us_wLength q)" by simp
  have "v \<noteq> []" using assms(2,3,5) by auto
  then have m: "memcpy_vec (u_empty_null U) bs (unat (us_wLength q)) v (length v) = Inr (True, v)"
    using memcpy_vec_ok [of v "unat (us_wLength q)" bs "length v"] assms(2,3,5) by auto
  have "OH_Usb_ControlTransfer U g dev (Some q) (Some bs) t = Inr (uint (us_wLength q), Some v)"
    using assms m t \<open>v \<noteq> []\<close> by (simp add: OH_Usb_ControlTransfer_def)
  moreover have "int (unat (us_wLength q)) \<in> {USB_DDK_NO_PERM, USB_DDK_INVALID_PARAMETER}"
    using assms(2) by (metis insert_iff of_nat_numeral singletonD)
  ultimately show ?thesis using assms(1) by (simp add: OH_Usb_ControlTransfer_def)
qed

definition setup_of :: "u16 \<Rightarrow> usb_setup" where
  "setup_of n = \<lparr>us_bmRequestType = 0x80, us_bRequest = 6, us_wValue = 0, us_wIndex = 0, us_wLength = n\<rparr>"

theorem control_result_ambiguous_witness:
  "OH_Usb_ControlTransfer example_usb (usb_on []) 1 (Some (setup_of 401)) (Some (replicate 401 0)) 0
    = Inr (USB_DDK_INVALID_PARAMETER, Some (replicate 401 0))"
  using control_result_ambiguous [of "usb_on []" "setup_of 401" "replicate 401 0" example_usb 1 0 "replicate 401 0"]
  by (simp add: usb_on_def setup_of_def example_usb_def)

text \<open>
  a control read that succeeds without data is reported as a memory error, and the buffer is
  cleared, when the data pointer of an empty vector is null; it is so for a buffer of length zero
  in any case.
\<close>

theorem empty_control_read_fails:
  assumes "ug_ddk g" and "u_sendControlReadRequest U h q t = (0, [])" and "length bs = unat n" and "u_empty_null U \<or> n = 0"
  shows "OH_Usb_SendControlReadRequest U g h (Some q) t (Some bs) (Some n) = Inr (USB_DDK_MEMORY_ERROR, Some (replicate (unat n) 0), Some n)"
  using assms by (cases "n = 0")
    (auto simp: OH_Usb_SendControlReadRequest_def memcpy_vec_def memcpy_s_def write_at_def unsigned_eq_0_iff)

theorem empty_control_read_fails_witness:
  "OH_Usb_SendControlReadRequest example_usb (usb_on []) 1 (Some (setup_of 0)) 0 (Some [9, 9]) (Some 2)
    = Inr (USB_DDK_MEMORY_ERROR, Some (replicate 2 0), Some 2)"
  using empty_control_read_fails [of "usb_on []" example_usb 1 "setup_of 0" 0 "[9, 9]" 2]
  by (simp add: usb_on_def example_usb_def)

section \<open>Lists\<close>

text \<open>
  the list of devices is written as long as the service gives it, so it stays in the caller's
  array exactly when that is long enough, which the caller cannot say; then the array starts with the
  devices and their number is given.
\<close>

theorem device_list_has_no_bound:
  assumes "ug_ddk g" and "u_getDevices U = (0, ids)" and "ia_ids a = Some arr" and "ids \<noteq> []"
  shows "OH_Usb_GetDevices U g (Some a) =
    (if length ids \<le> length arr
     then Inr (USB_DDK_SUCCESS, Some (a\<lparr>ia_num := of_nat (length ids), ia_ids := Some (ids @ drop (length ids) arr)\<rparr>))
     else Inl Oob_write)"
  using assms by (simp add: OH_Usb_GetDevices_def FillIds_def write_at_def)

theorem device_list_has_no_bound_witness:
  "OH_Usb_GetDevices example_usb (usb_on []) (Some \<lparr>ia_ids = Some [0], ia_num = 1\<rparr>) = Inl Oob_write"
  using device_list_has_no_bound [of "usb_on []" example_usb "[11, 12]" "\<lparr>ia_ids = Some [0], ia_num = 1\<rparr>" "[0]"]
  by (simp add: usb_on_def example_usb_def)

end
