(* ===== verification/Serial_Ddk.thy ===== *)
theory Serial_Ddk
  imports Edm_Prelude
begin

text \<open>
  The USB serial part of the driver development kit,
  src/frameworks/ddk/usb_serial/usb_serial_ddk_api.cpp, in the build with
  ENABLE_EXTERNAL_DEVICE_DDK_SERVICE. The answers of the service to one call are the record \<open>S\<close>.
\<close>

section \<open>Types\<close>

abbreviation (input) SERIAL_INVALID_PARAMETER :: int where "SERIAL_INVALID_PARAMETER \<equiv> 401"
abbreviation (input) SERIAL_SUCCESS :: int where "SERIAL_SUCCESS \<equiv> 31600000"
abbreviation (input) SERIAL_INIT_ERROR :: int where "SERIAL_INIT_ERROR \<equiv> 31600002"
abbreviation (input) SERIAL_SERVICE_ERROR :: int where "SERIAL_SERVICE_ERROR \<equiv> 31600003"
abbreviation (input) SERIAL_MEMORY_ERROR :: int where "SERIAL_MEMORY_ERROR \<equiv> 31600004"

abbreviation (input) MAX_BUFFER_SIZE :: u32 where "MAX_BUFFER_SIZE \<equiv> 4096"

datatype serial_flow_control = NO_FLOW_CONTROL | SOFTWARE_FLOW_CONTROL | HARDWARE_FLOW_CONTROL

record serial_params =
  sp_baudRate :: u32
  sp_nDataBits :: u8
  sp_nStopBits :: u8
  sp_parity :: u8

record serial_device =
  sv_fd :: int

record serial_ddk =
  sl_ddk :: bool
  sl_recipient :: bool

record serial_service =
  sr_get :: bool
  sr_addDeathRecipient :: bool
  sr_init :: int
  sr_release :: int
  sr_open :: "u64 \<Rightarrow> u8 \<Rightarrow> int \<times> serial_device"
  sr_close :: "serial_device \<Rightarrow> int"
  sr_read :: "serial_device \<Rightarrow> u32 \<Rightarrow> int \<times> u8 list"
  sr_write :: "serial_device \<Rightarrow> u8 list \<Rightarrow> int \<times> u32"
  sr_setBaudRate :: "serial_device \<Rightarrow> u32 \<Rightarrow> int"
  sr_setParams :: "serial_device \<Rightarrow> serial_params \<Rightarrow> int"
  sr_setTimeout :: "serial_device \<Rightarrow> int \<Rightarrow> int"
  sr_setFlowControl :: "serial_device \<Rightarrow> serial_flow_control \<Rightarrow> int"
  sr_flush :: "serial_device \<Rightarrow> int"
  sr_flushInput :: "serial_device \<Rightarrow> int"
  sr_flushOutput :: "serial_device \<Rightarrow> int"
  sr_ipc_error :: "int \<Rightarrow> bool"

definition TransToUsbSerialCode :: "serial_service \<Rightarrow> int \<Rightarrow> int" where
  "TransToUsbSerialCode S ret =
     (if ret = 0 then SERIAL_SUCCESS else if sr_ipc_error S ret then SERIAL_SERVICE_ERROR else ret)"

section \<open>Opening and closing\<close>

definition UsbSerial_OnRemoteDied :: "serial_ddk \<Rightarrow> serial_ddk" where
  "UsbSerial_OnRemoteDied g = (if \<not> sl_ddk g then g else g\<lparr>sl_recipient := False, sl_ddk := False\<rparr>)"

definition OH_UsbSerial_Init :: "serial_service \<Rightarrow> serial_ddk \<Rightarrow> int \<times> serial_ddk" where
  "OH_UsbSerial_Init S g =
     (let g = g\<lparr>sl_ddk := sr_get S\<rparr> in
      if \<not> sl_ddk g then (SERIAL_INIT_ERROR, g)
      else
        let g = g\<lparr>sl_recipient := True\<rparr> in
        if \<not> sr_addDeathRecipient S then (SERIAL_INIT_ERROR, g)
        else (TransToUsbSerialCode S (sr_init S), g))"

definition OH_UsbSerial_Release :: "serial_service \<Rightarrow> serial_ddk \<Rightarrow> int \<times> serial_ddk" where
  "OH_UsbSerial_Release S g =
     (if \<not> sl_ddk g then (SERIAL_INIT_ERROR, g)
      else (TransToUsbSerialCode S (sr_release S), g\<lparr>sl_ddk := False\<rparr>))"

text \<open>The second result is what \<open>*dev\<close> holds afterwards, when it was written.\<close>

definition OH_UsbSerial_Open :: "serial_service \<Rightarrow> serial_ddk \<Rightarrow> u64 \<Rightarrow> u8 \<Rightarrow> bool \<Rightarrow> int \<times> serial_device option" where
  "OH_UsbSerial_Open S g deviceId interfaceIndex devGiven =
     (if \<not> sl_ddk g then (SERIAL_INIT_ERROR, None)
      else if \<not> devGiven then (SERIAL_INVALID_PARAMETER, None)
      else case sr_open S deviceId interfaceIndex of (ret, impl) \<Rightarrow> (TransToUsbSerialCode S ret, Some impl))"

definition OH_UsbSerial_Close ::
  "serial_service \<Rightarrow> serial_ddk \<Rightarrow> serial_device option option \<Rightarrow> int \<times> serial_device option option" where
  "OH_UsbSerial_Close S g dev =
     (if \<not> sl_ddk g then (SERIAL_INIT_ERROR, dev)
      else case dev of Some (Some d) \<Rightarrow> (TransToUsbSerialCode S (sr_close S d), Some None)
      | _ \<Rightarrow> (SERIAL_INVALID_PARAMETER, dev))"

section \<open>Reading and writing\<close>

text \<open>The number of bytes is written before they are copied.\<close>

definition OH_UsbSerial_Read ::
  "serial_service \<Rightarrow> serial_ddk \<Rightarrow> serial_device option \<Rightarrow> u8 list option \<Rightarrow> u32 \<Rightarrow> u32 option
   \<Rightarrow> (int \<times> u8 list option \<times> u32 option) res" where
  "OH_UsbSerial_Read S g dev buff bufferSize bytesRead =
     (if \<not> sl_ddk g then Inr (SERIAL_INIT_ERROR, buff, bytesRead)
      else case (dev, buff, bytesRead) of
        (Some d, Some bs, Some _) \<Rightarrow>
          if bufferSize = 0 then Inr (SERIAL_INVALID_PARAMETER, buff, bytesRead)
          else
            let readBufferSize = (if bufferSize > MAX_BUFFER_SIZE then MAX_BUFFER_SIZE else bufferSize) in
            (case sr_read S d readBufferSize of (ret, readBuff) \<Rightarrow>
             if ret \<noteq> 0 then Inr (TransToUsbSerialCode S ret, buff, bytesRead)
             else
               let bytesRead = Some (of_nat (length readBuff)) in
               if readBuff = [] then Inr (SERIAL_SUCCESS, buff, bytesRead)
               else bindE (memcpy_s bs 0 (unat bufferSize) readBuff (length readBuff)) (\<lambda>(ok, bs).
                 if \<not> ok then Inr (SERIAL_MEMORY_ERROR, Some bs, bytesRead)
                 else Inr (SERIAL_SUCCESS, Some bs, bytesRead)))
      | _ \<Rightarrow> Inr (SERIAL_INVALID_PARAMETER, buff, bytesRead))"

definition OH_UsbSerial_Write ::
  "serial_service \<Rightarrow> serial_ddk \<Rightarrow> serial_device option \<Rightarrow> u8 list option \<Rightarrow> u32 \<Rightarrow> u32 option \<Rightarrow> (int \<times> u32 option) res" where
  "OH_UsbSerial_Write S g dev buff bufferSize bytesWritten =
     (if \<not> sl_ddk g then Inr (SERIAL_INIT_ERROR, bytesWritten)
      else case (dev, buff, bytesWritten) of
        (Some d, Some bs, Some _) \<Rightarrow>
          if bufferSize = 0 then Inr (SERIAL_INVALID_PARAMETER, bytesWritten)
          else bindE (rd_bytes bs (unat bufferSize)) (\<lambda>writeBuff.
            case sr_write S d writeBuff of (ret, n) \<Rightarrow>
              if ret \<noteq> 0 then Inr (TransToUsbSerialCode S ret, Some 0) else Inr (SERIAL_SUCCESS, Some n))
      | _ \<Rightarrow> Inr (SERIAL_INVALID_PARAMETER, bytesWritten))"

section \<open>Settings\<close>

text \<open>What the calls without a buffer share: the checks, and the call of the service.\<close>

definition with_serial_device :: "serial_service \<Rightarrow> (serial_device \<Rightarrow> int) \<Rightarrow> serial_ddk \<Rightarrow> serial_device option \<Rightarrow> int" where
  "with_serial_device S call g dev =
     (if \<not> sl_ddk g then SERIAL_INIT_ERROR
      else case dev of None \<Rightarrow> SERIAL_INVALID_PARAMETER | Some d \<Rightarrow> TransToUsbSerialCode S (call d))"

definition OH_UsbSerial_SetBaudRate :: "serial_service \<Rightarrow> serial_ddk \<Rightarrow> serial_device option \<Rightarrow> u32 \<Rightarrow> int" where
  "OH_UsbSerial_SetBaudRate S g dev baudRate = with_serial_device S (\<lambda>d. sr_setBaudRate S d baudRate) g dev"

definition OH_UsbSerial_SetParams :: "serial_service \<Rightarrow> serial_ddk \<Rightarrow> serial_device option \<Rightarrow> serial_params option \<Rightarrow> int" where
  "OH_UsbSerial_SetParams S g dev params =
     (if \<not> sl_ddk g then SERIAL_INIT_ERROR
      else case (dev, params) of (Some d, Some p) \<Rightarrow> TransToUsbSerialCode S (sr_setParams S d p)
      | _ \<Rightarrow> SERIAL_INVALID_PARAMETER)"

definition OH_UsbSerial_SetTimeout :: "serial_service \<Rightarrow> serial_ddk \<Rightarrow> serial_device option \<Rightarrow> int \<Rightarrow> int" where
  "OH_UsbSerial_SetTimeout S g dev timeout = with_serial_device S (\<lambda>d. sr_setTimeout S d timeout) g dev"

definition OH_UsbSerial_SetFlowControl ::
  "serial_service \<Rightarrow> serial_ddk \<Rightarrow> serial_device option \<Rightarrow> serial_flow_control \<Rightarrow> int" where
  "OH_UsbSerial_SetFlowControl S g dev flowControl = with_serial_device S (\<lambda>d. sr_setFlowControl S d flowControl) g dev"

definition OH_UsbSerial_Flush :: "serial_service \<Rightarrow> serial_ddk \<Rightarrow> serial_device option \<Rightarrow> int" where
  "OH_UsbSerial_Flush S = with_serial_device S (sr_flush S)"

definition OH_UsbSerial_FlushInput :: "serial_service \<Rightarrow> serial_ddk \<Rightarrow> serial_device option \<Rightarrow> int" where
  "OH_UsbSerial_FlushInput S = with_serial_device S (sr_flushInput S)"

definition OH_UsbSerial_FlushOutput :: "serial_service \<Rightarrow> serial_ddk \<Rightarrow> serial_device option \<Rightarrow> int" where
  "OH_UsbSerial_FlushOutput S = with_serial_device S (sr_flushOutput S)"

section \<open>What a read delivers\<close>

text \<open>
  A read delivers what the service read, to the start of the buffer, with its length. Data
  that does not fit is refused; the buffer is then cleared, and the number of bytes that is given
  exceeds it.
\<close>

lemma serial_read_delivers:
  assumes "sl_ddk g" and "bufferSize \<noteq> 0" and "length bs = unat bufferSize"
    and "sr_read S d (if bufferSize > MAX_BUFFER_SIZE then MAX_BUFFER_SIZE else bufferSize) = (0, data)"
  shows "OH_UsbSerial_Read S g (Some d) (Some bs) bufferSize (Some n) =
    (if length data \<le> length bs then Inr (SERIAL_SUCCESS, Some (data @ drop (length data) bs), Some (of_nat (length data)))
     else Inr (SERIAL_MEMORY_ERROR, Some (replicate (length bs) 0), Some (of_nat (length data))))"
proof -
  have nz: "unat bufferSize \<noteq> 0" using assms(2) by (simp add: unsigned_eq_0_iff)
  have "OH_UsbSerial_Read S g (Some d) (Some bs) bufferSize (Some n) =
    (if data = [] then Inr (SERIAL_SUCCESS, Some bs, Some (of_nat (length data)))
     else bindE (memcpy_s bs 0 (unat bufferSize) data (length data)) (\<lambda>(ok, bs).
       if \<not> ok then Inr (SERIAL_MEMORY_ERROR, Some bs, Some (of_nat (length data)))
       else Inr (SERIAL_SUCCESS, Some bs, Some (of_nat (length data)))))"
    using assms by (simp add: OH_UsbSerial_Read_def Let_def del: if_split)
  then show ?thesis using nz assms(3) by (simp add: memcpy_s_def write_at_def)
qed

end
