(* ===== verification/App_Launch.thy ===== *)
theory App_Launch
  imports Service
begin

text \<open>
  Starting an application for a plugged device: app_launch_config.cpp (which application belongs
  to which device), app_launch_launcher.cpp, app_launch_notifier.cpp,
  app_launch_param_subscriber.cpp and app_launch_manager.cpp, which owns the four.

  The file system and the JSON library are the arguments \<open>fs\<close> and \<open>J\<close>, as in the theory Faults. The
  system services at the time of a call are the record \<open>launch_env\<close>. Two values that the C
  standard leaves to the implementation are the record \<open>clib\<close>.
\<close>

section \<open>The versions of the two configurations\<close>

definition PRESET_CONFIG_DATA_PATH :: string where
  "PRESET_CONFIG_DATA_PATH = ''/system/etc/UsbWirelessDisplayAdapterApp/generic/''"

definition CONFIG_DATA_PATH :: string where
  "CONFIG_DATA_PATH =
     ''/data/service/el1/public/update/param_service/install/system/etc/UsbWirelessDisplayAdapterApp/generic/''"

definition CONFIG_FILE_NAME :: string where
  "CONFIG_FILE_NAME = ''app_launch_config.json''"

definition VERSION_FILE_NAME :: string where
  "VERSION_FILE_NAME = ''version.txt''"

definition VERSION_LEN :: nat where
  "VERSION_LEN = 4"

definition MAX_VERSION_FILE_LEN :: nat where
  "MAX_VERSION_FILE_LEN = 1024 * 5"

definition MAX_CONFIG_FILE_LEN :: nat where
  "MAX_CONFIG_FILE_LEN = 1024 * 1024"

definition AppLaunch_Trim :: "string \<Rightarrow> string" where
  "AppLaunch_Trim inputStr =
     (if inputStr = [] then inputStr
      else rev (dropWhile is_space (rev (dropWhile is_space inputStr))))"

definition is_digit :: "char \<Rightarrow> bool" where
  "is_digit c \<longleftrightarrow> (let n = of_char c :: nat in 48 \<le> n \<and> n \<le> 57)"

definition IsNumber :: "string \<Rightarrow> bool" where
  "IsNumber str \<longleftrightarrow> str \<noteq> [] \<and> list_all is_digit str"

text \<open>\<open>getline\<close> delivers the text after the last separator only when it is not empty.\<close>

fun SplitString :: "string \<Rightarrow> char \<Rightarrow> string list" where
  "SplitString [] pat = []"
| "SplitString (c # s) pat =
     (if c = pat then [] # SplitString s pat
      else case SplitString s pat of [] \<Rightarrow> [[c]] | t # ts \<Rightarrow> (c # t) # ts)"

text \<open>A file that can be examined can be opened; its size is that of its content.\<close>

definition GetVersionNums :: "files \<Rightarrow> string \<Rightarrow> string list" where
  "GetVersionNums fs filePath =
     (case fs filePath of None \<Rightarrow> []
      | Some content \<Rightarrow>
          if length content = 0 \<or> length content > MAX_VERSION_FILE_LEN then []
          else
            let line = takeWhile (\<lambda>c. c \<noteq> CHR 0x0A) content in
            if line = [] then []
            else
              let versionStr = SplitString line (CHR ''='') in
              if length versionStr \<noteq> 2 then []
              else if versionStr ! 1 = [] then []
              else SplitString (AppLaunch_Trim (versionStr ! 1)) (CHR ''.''))"

text \<open>\<open>strtol\<close> on a text of digits, before it is limited to a long.\<close>

fun dec_value :: "nat \<Rightarrow> string \<Rightarrow> nat" where
  "dec_value acc [] = acc"
| "dec_value acc (c # s) = (if is_digit c then dec_value (10 * acc + (of_char c - 48)) s else acc)"

text \<open>
  A value above \<open>INT32_MAX\<close> is refused, whether or not a long can hold it: None. A text of digits
  has no negative value.
\<close>

definition segment_value :: "string \<Rightarrow> nat option" where
  "segment_value s = (let v = dec_value 0 s in if v > 2147483647 then None else Some v)"

text \<open>The segments at the first index at which the two differ decide.\<close>

fun CompareSegments :: "string list \<Rightarrow> string list \<Rightarrow> bool" where
  "CompareSegments (l # ls) (c # cs) =
     (if l \<noteq> c then
        if \<not> IsNumber l \<or> \<not> IsNumber c then False
        else case segment_value l of None \<Rightarrow> False
          | Some localValue \<Rightarrow>
              (case segment_value c of None \<Rightarrow> False
               | Some cloudValue \<Rightarrow> localValue < cloudValue)
      else CompareSegments ls cs)"
| "CompareSegments _ _ = True"

definition CompareVersion :: "string list \<Rightarrow> string list \<Rightarrow> bool" where
  "CompareVersion localVersion cloudVersion =
     (if length localVersion \<noteq> VERSION_LEN \<or> length cloudVersion \<noteq> VERSION_LEN then False
      else CompareSegments localVersion cloudVersion)"

definition GetHigherVersionPath :: "files \<Rightarrow> string" where
  "GetHigherVersionPath fs =
     (let localVersionNums = GetVersionNums fs (PRESET_CONFIG_DATA_PATH @ VERSION_FILE_NAME);
          cloudVersionNums = GetVersionNums fs (CONFIG_DATA_PATH @ VERSION_FILE_NAME);
          localValid = (length localVersionNums = VERSION_LEN);
          cloudValid = (length cloudVersionNums = VERSION_LEN) in
      if \<not> localValid \<and> cloudValid then CONFIG_DATA_PATH
      else if localValid \<and> \<not> cloudValid then PRESET_CONFIG_DATA_PATH
      else if \<not> localValid \<and> \<not> cloudValid then CONFIG_DATA_PATH
      else if CompareVersion localVersionNums cloudVersionNums then CONFIG_DATA_PATH
      else PRESET_CONFIG_DATA_PATH)"

section \<open>The configuration\<close>

record app_entry =
  ae_vid :: u16
  ae_pid :: u16
  ae_bundleName :: string
  ae_abilityName :: string
  ae_appStoreUri :: string

type_synonym entry_map = "(string \<times> app_entry) list"

definition MakeKey :: "u16 \<Rightarrow> u16 \<Rightarrow> string" where
  "MakeKey vid pid = show_nat (unat vid) @ ''_'' @ show_nat (unat pid)"

definition FindEntry :: "u16 \<Rightarrow> u16 \<Rightarrow> entry_map \<Rightarrow> app_entry option" where
  "FindEntry vid pid m = map_of m (MakeKey vid pid)"

definition ParseJsonRoot :: "'j cjson \<Rightarrow> files \<Rightarrow> string \<Rightarrow> 'j option" where
  "ParseJsonRoot J fs filePath =
     (case fs filePath of None \<Rightarrow> None
      | Some content \<Rightarrow>
          if length content = 0 \<or> length content > MAX_CONFIG_FILE_LEN then None
          else case cj_parse J (c_str content) of None \<Rightarrow> None
            | Some root \<Rightarrow> if cj_type J root \<noteq> JArray then None else Some root)"

definition ParseStringField :: "'j cjson \<Rightarrow> 'j \<Rightarrow> string \<Rightarrow> string option" where
  "ParseStringField J parent fieldName =
     (case cj_get_exact J parent fieldName of None \<Rightarrow> None
      | Some ob \<Rightarrow>
          if cj_type J ob = JString then
            let val = AppLaunch_Trim (cj_valuestring J ob) in
            if val \<noteq> [] then Some val else None
          else None)"

text \<open>
  \<open>strtoul\<close> in base 16: the value, or None when it sets \<open>errno\<close>. A minus sign negates the value
  in the unsigned type. Whether a text without digits is an error is left to the implementation.
\<close>

record clib =
  lb_ULONG_MAX :: int
  lb_no_digits_is_error :: bool

definition strtoul_hex :: "clib \<Rightarrow> string \<Rightarrow> int option" where
  "strtoul_hex L s =
     (let (neg, s) = skip_sign (dropWhile is_space s) in
      if s = [] \<or> hex_digit (hd s) = None then (if lb_no_digits_is_error L then None else Some 0)
      else
        let v = hex_value 0 (skip_0x s) in
        if v > lb_ULONG_MAX L then None
        else Some (if neg then (- v) mod (lb_ULONG_MAX L + 1) else v))"

text \<open>A text that \<open>strtoul\<close> takes and that fits 16 bits.\<close>

definition device_number :: "clib \<Rightarrow> string \<Rightarrow> u16 option" where
  "device_number L s =
     (case strtoul_hex L s of None \<Rightarrow> None | Some v \<Rightarrow> if v > 65535 then None else Some (of_int v))"

definition string_member :: "'j cjson \<Rightarrow> 'j \<Rightarrow> string \<Rightarrow> string option" where
  "string_member J item key =
     (case cj_get_exact J item key of None \<Rightarrow> None
      | Some x \<Rightarrow> if cj_type J x = JString then Some (cj_valuestring J x) else None)"

text \<open>The entry that one element of the file describes.\<close>

definition DeviceItem :: "clib \<Rightarrow> 'j cjson \<Rightarrow> 'j \<Rightarrow> app_entry option" where
  "DeviceItem L J deviceItem =
     (case string_member J deviceItem ''vid'' of None \<Rightarrow> None | Some vidText \<Rightarrow>
      case string_member J deviceItem ''pid'' of None \<Rightarrow> None | Some pidText \<Rightarrow>
      case device_number L vidText of None \<Rightarrow> None | Some vid \<Rightarrow>
      case device_number L pidText of None \<Rightarrow> None | Some pid \<Rightarrow>
      case ParseStringField J deviceItem ''bundleName'' of None \<Rightarrow> None | Some bundleName \<Rightarrow>
      case ParseStringField J deviceItem ''abilityName'' of None \<Rightarrow> None | Some abilityName \<Rightarrow>
      case ParseStringField J deviceItem ''appStoreUri'' of None \<Rightarrow> None | Some appStoreUri \<Rightarrow>
      Some \<lparr>ae_vid = vid, ae_pid = pid, ae_bundleName = bundleName, ae_abilityName = abilityName,
            ae_appStoreUri = appStoreUri\<rparr>)"

definition ParseDeviceItemTo :: "clib \<Rightarrow> 'j cjson \<Rightarrow> 'j \<Rightarrow> entry_map \<Rightarrow> bool \<times> entry_map" where
  "ParseDeviceItemTo L J deviceItem outMap =
     (case DeviceItem L J deviceItem of None \<Rightarrow> (False, outMap)
      | Some entry \<Rightarrow> (True, al_put (MakeKey (ae_vid entry) (ae_pid entry)) entry outMap))"

definition ParseConfigFileTo :: "clib \<Rightarrow> 'j cjson \<Rightarrow> files \<Rightarrow> string \<Rightarrow> entry_map \<Rightarrow> bool \<times> entry_map" where
  "ParseConfigFileTo L J fs filePath outMap =
     (case ParseJsonRoot J fs filePath of None \<Rightarrow> (False, outMap)
      | Some devicesArray \<Rightarrow>
          (True, fold (\<lambda>deviceItem m. snd (ParseDeviceItemTo L J deviceItem m)) (elements J devicesArray) outMap))"

definition config_path :: "files \<Rightarrow> string" where
  "config_path fs = GetHigherVersionPath fs @ CONFIG_FILE_NAME"

definition AppLaunchConfig_LoadConfig :: "clib \<Rightarrow> 'j cjson \<Rightarrow> files \<Rightarrow> entry_map \<Rightarrow> bool \<times> entry_map" where
  "AppLaunchConfig_LoadConfig L J fs entryMap =
     (case ParseConfigFileTo L J fs (config_path fs) [] of (ok, newMap) \<Rightarrow>
      if \<not> ok then (False, entryMap) else (True, newMap))"

section \<open>The system services\<close>

text \<open>
  The answers of the system services at the time of a call. \<open>le_foreground\<close> and \<open>le_account\<close> are the
  code and the identifier of \<open>GetForegroundOsAccountLocalId\<close> and of \<open>GetOsAccountLocalIdFromUid\<close>;
  \<open>le_image\<close> is what becomes of the file of an icon.
\<close>

datatype 'p image = No_file | No_source | No_pixels | Pixels 'p

record 'p app_notification =
  an_id :: int
  an_littleIcon :: "'p option"
  an_title :: string
  an_text :: string
  an_creatorUid :: int
  an_creatorPid :: int
  an_creatorUserId :: int
  an_inProgress :: bool
  an_unremovable :: bool
  an_tapDismissed :: bool
  an_controlFlags :: u32
  an_action :: string
  an_uri :: string
  an_displayId :: int

record 'p launch_env =
  le_bundleMgr :: bool
  le_foreground :: "int \<times> int"
  le_bundleInfo :: "string \<Rightarrow> int \<Rightarrow> bool"
  le_abilityManager :: bool
  le_startAbility :: "string \<Rightarrow> string \<Rightarrow> int \<Rightarrow> int"
  le_baseName :: string
  le_hash :: "string \<Rightarrow> int"
  le_image :: "string \<Rightarrow> 'p image"
  le_uid :: int
  le_pid :: int
  le_account :: "int \<Rightarrow> int \<times> int"
  le_wantAgent :: "string \<Rightarrow> bool"
  le_publish :: "'p app_notification \<Rightarrow> int"

text \<open>What an operation has a system service do.\<close>

datatype 'p launch_call = Start_ability string string int | Publish "'p app_notification"

section \<open>Starting an application\<close>

definition LaunchApp :: "'p launch_env \<Rightarrow> string \<Rightarrow> string \<Rightarrow> UsbErrCode \<times> 'p launch_call list" where
  "LaunchApp E bundleName abilityName =
     (if bundleName = [] \<or> abilityName = [] then (EDM_ERR_INVALID_PARAM, [])
      else if \<not> le_abilityManager E then (EDM_ERR_INVALID_OBJECT, [])
      else
        let calls = [Start_ability bundleName abilityName 0] in
        if le_startAbility E bundleName abilityName 0 \<noteq> 0 then (EDM_NOK, calls) else (EDM_OK, calls))"

section \<open>The notification\<close>

definition APP_LAUNCH_ICON_PATH :: string where
  "APP_LAUNCH_ICON_PATH = ''system/etc/peripheral/resources/peripheral_fault_icon.png''"

text \<open>\<open>iconPixelMap_\<close> is the second argument and result. A failed decoding keeps the last icon.\<close>

definition GetPixelMap :: "'p launch_env \<Rightarrow> string \<Rightarrow> 'p option \<Rightarrow> bool \<times> 'p option" where
  "GetPixelMap E path icon =
     (case le_image E path of No_file \<Rightarrow> (False, None)
      | No_source \<Rightarrow> (False, None)
      | No_pixels \<Rightarrow> (False, icon)
      | Pixels p \<Rightarrow> (True, Some p))"

definition new_request :: "int \<Rightarrow> 'p app_notification" where
  "new_request notificationId =
     \<lparr>an_id = notificationId, an_littleIcon = None, an_title = [], an_text = [], an_creatorUid = 0,
      an_creatorPid = 0, an_creatorUserId = 0, an_inProgress = False, an_unremovable = False,
      an_tapDismissed = False, an_controlFlags = 0, an_action = [], an_uri = [], an_displayId = 0\<rparr>"

definition SetBasicOption :: "'p launch_env \<Rightarrow> 'p app_notification \<Rightarrow> bool \<times> 'p app_notification" where
  "SetBasicOption E request =
     (let uid = le_uid E;
          request = request\<lparr>an_creatorUid := uid\<rparr> in
      case le_account E uid of (ret, userId) \<Rightarrow>
      if ret \<noteq> 0 then (False, request)
      else (True, request\<lparr>an_creatorPid := le_pid E, an_creatorUserId := userId, an_inProgress := True,
                          an_unremovable := True, an_tapDismissed := True, an_controlFlags := push_bit 9 1\<rparr>))"

definition SetWantAgent :: "'p launch_env \<Rightarrow> 'p app_notification \<Rightarrow> string \<Rightarrow> bool \<times> 'p app_notification" where
  "SetWantAgent E request uri =
     (if \<not> le_wantAgent E uri then (False, request)
      else (True, request\<lparr>an_action := ''ohos.want.action.appdetail'', an_uri := uri, an_displayId := 0\<rparr>))"

definition SendNotification ::
  "'p launch_env \<Rightarrow> 'j cjson \<Rightarrow> files \<Rightarrow> app_entry \<Rightarrow> locale_state \<Rightarrow> 'p option
   \<Rightarrow> UsbErrCode \<times> 'p launch_call list \<times> locale_state \<times> 'p option" where
  "SendNotification E J fs entry st icon =
     (let st = UpdateStringMap J fs (le_baseName E) (ParseLocaleCfg J fs st);
          title = GetValueByKey ''usb_app_launch_title'' st;
          msg = GetValueByKey ''usb_app_launch_message'' st in
      if title = [] \<or> msg = [] then (EDM_NOK, [], st, icon)
      else
        let request = new_request (le_hash E (ae_bundleName entry)) in
        case GetPixelMap E APP_LAUNCH_ICON_PATH icon of (found, icon) \<Rightarrow>
        let request = (if found \<and> icon \<noteq> None then request\<lparr>an_littleIcon := icon\<rparr> else request);
            request = request\<lparr>an_title := title, an_text := msg\<rparr> in
        case SetBasicOption E request of (ok, request) \<Rightarrow>
        if \<not> ok then (EDM_NOK, [], st, icon)
        else case SetWantAgent E request (ae_appStoreUri entry) of (ok, request) \<Rightarrow>
        if \<not> ok then (EDM_NOK, [], st, icon)
        else if le_publish E request \<noteq> 0 then (EDM_NOK, [Publish request], st, icon)
        else (EDM_OK, [Publish request], st, icon))"

section \<open>The manager\<close>

datatype AppInstallStatus = INSTALLED | NOT_INSTALLED | ACCOUNT_NOT_READY

text \<open>
  \<open>la_subscriber\<close> and \<open>la_updateCallback\<close> tell whether the two pointers of the subscriber are set;
  \<open>la_locale\<close> is the state of the singleton that the notifications of faults use as well.
\<close>

record 'p app_launch =
  la_entryMap :: entry_map
  la_bundleMgr :: bool
  la_subscriber :: bool
  la_updateCallback :: bool
  la_locale :: locale_state
  la_icon :: "'p option"

definition LaunchManager_LoadConfig :: "clib \<Rightarrow> 'j cjson \<Rightarrow> files \<Rightarrow> 'p app_launch \<Rightarrow> 'p app_launch" where
  "LaunchManager_LoadConfig L J fs a =
     a\<lparr>la_entryMap := snd (AppLaunchConfig_LoadConfig L J fs (la_entryMap a))\<rparr>"

definition LaunchManager_GetBundleMgrProxy :: "'p launch_env \<Rightarrow> 'p app_launch \<Rightarrow> bool \<times> 'p app_launch" where
  "LaunchManager_GetBundleMgrProxy E a =
     (if la_bundleMgr a then (True, a)
      else if \<not> le_bundleMgr E then (False, a)
      else (True, a\<lparr>la_bundleMgr := True\<rparr>))"

definition CheckAppInstallStatus ::
  "'p launch_env \<Rightarrow> string \<Rightarrow> 'p app_launch \<Rightarrow> AppInstallStatus \<times> 'p app_launch" where
  "CheckAppInstallStatus E bundleName a =
     (case LaunchManager_GetBundleMgrProxy E a of (ok, a) \<Rightarrow>
      if \<not> ok then (NOT_INSTALLED, a)
      else case le_foreground E of (ret, userId) \<Rightarrow>
      if ret \<noteq> 0 then (ACCOUNT_NOT_READY, a)
      else if \<not> le_bundleInfo E bundleName userId then (NOT_INSTALLED, a)
      else (INSTALLED, a))"

definition OnDeviceConnected ::
  "'p launch_env \<Rightarrow> 'j cjson \<Rightarrow> files \<Rightarrow> u16 \<Rightarrow> u16 \<Rightarrow> 'p app_launch \<Rightarrow> 'p launch_call list \<times> 'p app_launch" where
  "OnDeviceConnected E J fs vid pid a =
     (case FindEntry vid pid (la_entryMap a) of None \<Rightarrow> ([], a)
      | Some entry \<Rightarrow>
          (case CheckAppInstallStatus E (ae_bundleName entry) a of (status, a) \<Rightarrow>
           case status of
             INSTALLED \<Rightarrow> (snd (LaunchApp E (ae_bundleName entry) (ae_abilityName entry)), a)
           | NOT_INSTALLED \<Rightarrow>
               (case SendNotification E J fs entry (la_locale a) (la_icon a) of (ret, calls, st, icon) \<Rightarrow>
                (calls, a\<lparr>la_locale := st, la_icon := icon\<rparr>))
           | ACCOUNT_NOT_READY \<Rightarrow> ([], a)))"

section \<open>The event of an updated configuration\<close>

definition EVENT_ACTION :: string where
  "EVENT_ACTION = ''usual.event.DUE_SA_CFG_UPDATED''"

definition RETRY_SUBSCRIBER :: nat where
  "RETRY_SUBSCRIBER = 3"

text \<open>\<open>answers retry\<close> is the result of the attempt number \<open>retry\<close>.\<close>

fun subscribe_attempts :: "(nat \<Rightarrow> bool) \<Rightarrow> nat \<Rightarrow> nat \<Rightarrow> bool" where
  "subscribe_attempts answers retry 0 = False"
| "subscribe_attempts answers retry (Suc n) = (if answers retry then True else subscribe_attempts answers (Suc retry) n)"

definition SubscribeEvent :: "(nat \<Rightarrow> bool) \<Rightarrow> 'p app_launch \<Rightarrow> 'p app_launch" where
  "SubscribeEvent answers a =
     (if la_subscriber a then a
      else
        let a = a\<lparr>la_updateCallback := True, la_subscriber := True\<rparr> in
        if subscribe_attempts answers 0 RETRY_SUBSCRIBER then a else a\<lparr>la_subscriber := False\<rparr>)"

definition UnsubscribeEvent :: "'p app_launch \<Rightarrow> 'p app_launch" where
  "UnsubscribeEvent a = a\<lparr>la_subscriber := False, la_updateCallback := False\<rparr>"

definition HandleParamUpdate ::
  "clib \<Rightarrow> 'j cjson \<Rightarrow> files \<Rightarrow> string \<Rightarrow> string \<Rightarrow> 'p app_launch \<Rightarrow> 'p app_launch" where
  "HandleParamUpdate L J fs type subtype a =
     (if type \<noteq> ''UsbWirelessDisplayAdapterApp'' \<or> subtype \<noteq> ''generic'' then a
      else if la_updateCallback a then LaunchManager_LoadConfig L J fs a
      else a)"

text \<open>The event comes with its action and the two parameters that the handler reads.\<close>

definition Launch_OnReceiveEvent ::
  "clib \<Rightarrow> 'j cjson \<Rightarrow> files \<Rightarrow> string \<Rightarrow> string \<Rightarrow> string \<Rightarrow> 'p app_launch \<Rightarrow> 'p app_launch" where
  "Launch_OnReceiveEvent L J fs action type subtype a =
     (if action \<noteq> EVENT_ACTION then a else HandleParamUpdate L J fs type subtype a)"

section \<open>Steps\<close>

text \<open>The manager is a singleton, empty when it is made. Files and services may change between steps.\<close>

definition new_app_launch :: "'p app_launch" where
  "new_app_launch =
     \<lparr>la_entryMap = [], la_bundleMgr = False, la_subscriber = False, la_updateCallback = False,
      la_locale = \<lparr>lc_languageMap = [], lc_stringMap = [], lc_localeBaseName = [], lc_islanguageMapInit = False\<rparr>,
      la_icon = None\<rparr>"

inductive launch_step ::
  "clib \<Rightarrow> 'j cjson \<Rightarrow> 'p app_launch \<Rightarrow> 'p launch_call list \<Rightarrow> 'p app_launch \<Rightarrow> bool" for L J where
  load: "launch_step L J a [] (LaunchManager_LoadConfig L J fs a)"
| subscribe: "launch_step L J a [] (SubscribeEvent answers a)"
| uninit: "launch_step L J a [] (UnsubscribeEvent a)"
| event: "launch_step L J a [] (Launch_OnReceiveEvent L J fs action type subtype a)"
| connected: "OnDeviceConnected E J fs vid pid a = (calls, a') \<Longrightarrow> launch_step L J a calls a'"

text \<open>The singleton of the texts is changed by the notifications of faults, too.\<close>

inductive launch_reach :: "clib \<Rightarrow> 'j cjson \<Rightarrow> 'p app_launch \<Rightarrow> bool" for L J where
  start: "launch_reach L J (new_app_launch\<lparr>la_locale := st\<rparr>)"
| step: "launch_reach L J a \<Longrightarrow> launch_step L J a calls a' \<Longrightarrow> launch_reach L J a'"
| texts: "launch_reach L J a \<Longrightarrow> launch_reach L J (a\<lparr>la_locale := st\<rparr>)"

inductive_cases launch_stepE: "launch_step L J a calls a'"

end
