(* ===== verification/App_Launch_Claims.thy ===== *)
theory App_Launch_Claims
  imports App_Launch Faults_Claims "HOL-Library.List_Lexorder"
begin

text \<open>
  What the app launch manager guarantees: the newer of the two configurations is used, an entry is
  found for exactly the devices the file lists, and only listed applications are started.
\<close>

section \<open>Numbers as text\<close>

lemma is_digit_char [simp]: "d < 10 \<Longrightarrow> is_digit (char_of (48 + d :: nat))"
  by (simp add: is_digit_def Let_def)

lemma show_nat_digits: "list_all is_digit (show_nat n)"
proof (induction n rule: show_nat.induct)
  case (1 n)
  then show ?case by (subst show_nat.simps) simp
qed

lemma show_nat_not_Nil [simp]: "show_nat n \<noteq> []"
  by (subst show_nat.simps) simp

lemma digit_in_show_nat: "c \<in> set (show_nat n) \<Longrightarrow> is_digit c"
  using show_nat_digits [of n] by (auto simp: list_all_iff)

lemma dec_value_append: "list_all is_digit s \<Longrightarrow> dec_value acc (s @ t) = dec_value (dec_value acc s) t"
  by (induction acc s rule: dec_value.induct) auto

lemma dec_value_show_nat [simp]: "dec_value 0 (show_nat n) = n"
proof (induction n rule: show_nat.induct)
  case (1 n)
  show ?case
  proof (cases "n < 10")
    case True
    then show ?thesis by (subst show_nat.simps) simp
  next
    case False
    then have "show_nat n = show_nat (n div 10) @ [char_of (48 + n mod 10)]" by (subst show_nat.simps) simp
    then show ?thesis using 1 False by (simp add: dec_value_append show_nat_digits)
  qed
qed

lemma show_nat_eq [simp]: "show_nat m = show_nat n \<longleftrightarrow> m = n"
  by (metis dec_value_show_nat)

lemma IsNumber_show_nat [simp]: "IsNumber (show_nat n)"
  by (simp add: IsNumber_def show_nat_digits)

lemma segment_value_show_nat [simp]: "segment_value (show_nat n) = (if n > 2147483647 then None else Some n)"
  by (simp add: segment_value_def)

section \<open>The version files\<close>

lemma SplitString_single: "pat \<notin> set s \<Longrightarrow> s \<noteq> [] \<Longrightarrow> SplitString s pat = [s]"
proof (induction s)
  case (Cons c s)
  then show ?case by (cases "s = []") auto
qed simp

lemma SplitString_first: "pat \<notin> set s \<Longrightarrow> SplitString (s @ pat # t) pat = s # SplitString t pat"
  by (induction s) auto

text \<open>A version as text, and the first line of a version file.\<close>

fun version_text :: "nat list \<Rightarrow> string" where
  "version_text [] = []"
| "version_text [n] = show_nat n"
| "version_text (n # m # ns) = show_nat n @ CHR ''.'' # version_text (m # ns)"

definition version_line :: "string \<Rightarrow> string \<Rightarrow> nat list \<Rightarrow> string \<Rightarrow> string" where
  "version_line key b ns b' = key @ CHR ''='' # b @ version_text ns @ b'"

definition line_ok :: "string \<Rightarrow> string \<Rightarrow> string \<Rightarrow> bool" where
  "line_ok key b b' \<longleftrightarrow>
     CHR ''='' \<notin> set key \<and> CHR 0x0A \<notin> set (key @ b @ b') \<and> list_all is_space (b @ b')"

lemma not_digits [simp]: "\<not> is_digit (CHR ''.'')" "\<not> is_digit (CHR ''='')" "\<not> is_digit (CHR 0x0A)" "\<not> is_digit (CHR ''_'')"
  by (simp_all add: is_digit_def Let_def)

lemma not_spaces [simp]: "\<not> is_space (CHR ''.'')" "\<not> is_space (CHR ''='')"
  by (simp_all add: is_space_def Let_def)

lemma digit_not_space: "is_digit c \<Longrightarrow> \<not> is_space c"
proof -
  have "(of_char c :: int) = int (of_char c)" by (simp only: of_nat_of_char)
  then show "is_digit c \<Longrightarrow> \<not> is_space c" unfolding is_digit_def is_space_def Let_def by linarith
qed

lemma SplitString_version: "SplitString (version_text ns) (CHR ''.'') = map show_nat ns"
proof (induction ns rule: version_text.induct)
  case (2 n)
  then show ?case by (auto intro!: SplitString_single dest: digit_in_show_nat)
next
  case (3 n m ns)
  have "CHR ''.'' \<notin> set (show_nat n)" by (auto dest: digit_in_show_nat)
  then show ?case using 3 by (simp add: SplitString_first)
qed simp

lemma version_chars: "c \<in> set (version_text ns) \<Longrightarrow> is_digit c \<or> c = CHR ''.''"
  by (induction ns rule: version_text.induct) (auto dest: digit_in_show_nat)

lemma version_no_space: "c \<in> set (version_text ns) \<Longrightarrow> \<not> is_space c"
  using version_chars [of c ns] digit_not_space by auto

lemma version_text_Nil [simp]: "version_text ns = [] \<longleftrightarrow> ns = []"
  by (cases ns rule: version_text.cases) auto

lemma not_in_blank: "list_all is_space b \<Longrightarrow> \<not> is_space c \<Longrightarrow> c \<notin> set b"
  by (auto simp: list_all_iff)

lemma dropWhile_blank: "list_all p b \<Longrightarrow> dropWhile p (b @ s) = dropWhile p s"
  by (induction b) auto

lemma Trim_blanks:
  assumes "list_all is_space b" and "list_all is_space b'" and "\<forall>c\<in>set s. \<not> is_space c"
  shows "AppLaunch_Trim (b @ s @ b') = s"
proof -
  have nosp: "dropWhile is_space s = s" "dropWhile is_space (rev s) = rev s"
    using assms(3) by (auto simp: dropWhile_eq_self_iff hd_rev)
  have rb: "list_all is_space (rev b')" using assms(2) by simp
  have "rev (dropWhile is_space (rev (dropWhile is_space (s @ b')))) = s"
  proof (cases "s = []")
    case True
    have "dropWhile is_space b' = []" using dropWhile_blank [OF assms(2), of "[]"] by simp
    then show ?thesis by (simp only: True append_Nil dropWhile.simps rev.simps)
  next
    case False
    then have "dropWhile is_space (s @ b') = s @ b'"
      using assms(3) by (cases s) auto
    then show ?thesis using dropWhile_blank [OF rb, of "rev s"] nosp by simp
  qed
  then show ?thesis by (auto simp: AppLaunch_Trim_def dropWhile_blank [OF assms(1)])
qed

lemma GetVersionNums_line:
  assumes "fs path = Some (version_line key b ns b' @ rest)" and "rest = [] \<or> hd rest = CHR 0x0A"
    and "line_ok key b b'" and "ns \<noteq> []" and "length (version_line key b ns b' @ rest) \<le> MAX_VERSION_FILE_LEN"
  shows "GetVersionNums fs path = map show_nat ns"
proof -
  let ?v = "b @ version_text ns @ b'"
  have nl: "CHR 0x0A \<notin> set (version_line key b ns b')"
    using assms(3) version_chars [of "CHR 0x0A" ns] by (auto simp: version_line_def line_ok_def)
  then have "takeWhile (\<lambda>c. c \<noteq> CHR 0x0A) (version_line key b ns b' @ rest) = version_line key b ns b'"
    using assms(2) by (cases rest) (auto simp: takeWhile_append takeWhile_eq_all_conv)
  moreover have "CHR ''='' \<notin> set b" "CHR ''='' \<notin> set b'" "CHR ''='' \<notin> set (version_text ns)"
    using assms(3) version_chars [of "CHR ''=''" ns] not_in_blank [OF _ not_spaces(2)] by (auto simp: line_ok_def)
  then have eq: "CHR ''='' \<notin> set ?v" by simp
  have "SplitString (version_line key b ns b') (CHR ''='') = [key, ?v]"
    using assms(3,4) SplitString_single [OF eq] by (simp add: version_line_def line_ok_def SplitString_first)
  moreover have "AppLaunch_Trim ?v = version_text ns"
    using assms(3) by (intro Trim_blanks) (auto simp: line_ok_def dest: version_no_space)
  moreover have "version_line key b ns b' \<noteq> []" by (simp add: version_line_def)
  ultimately show ?thesis
    using assms(1,4,5) by (simp add: GetVersionNums_def Let_def SplitString_version)
qed

lemma CompareSegments_lexicographic:
  "length ns = length ms \<Longrightarrow> list_all (\<lambda>n. n < 2 ^ 31) ns \<Longrightarrow> list_all (\<lambda>n. n < 2 ^ 31) ms \<Longrightarrow>
   CompareSegments (map show_nat ns) (map show_nat ms) \<longleftrightarrow> ns \<le> ms"
  by (induction ns ms rule: list_induct2) auto

text \<open>
  C29: when both version files are readable, no longer than the limit, and their first lines hold four numbers below 2 ^ 31 in
  canonical decimal form, without leading zeros, with any blanks around the version, the configuration
  of the update service is read if its version, as a sequence of numbers in lexicographic order, is at
  least that of the preset one, and the preset one is read otherwise. Nothing is said of other files:
  with a missing or malformed file other branches of GetHigherVersionPath decide, and with leading zeros
  the order is not the one of the numbers (leading_zero_hides_update below).
\<close>

theorem newer_configuration_used:
  assumes "fs (PRESET_CONFIG_DATA_PATH @ VERSION_FILE_NAME) = Some (version_line k1 b1 ns b1' @ r1)"
    and "fs (CONFIG_DATA_PATH @ VERSION_FILE_NAME) = Some (version_line k2 b2 ms b2' @ r2)"
    and "line_ok k1 b1 b1'" and "line_ok k2 b2 b2'"
    and "r1 = [] \<or> hd r1 = CHR 0x0A" and "r2 = [] \<or> hd r2 = CHR 0x0A"
    and "length ns = 4" and "length ms = 4"
    and "list_all (\<lambda>n. n < 2 ^ 31) ns" and "list_all (\<lambda>n. n < 2 ^ 31) ms"
    and "length (version_line k1 b1 ns b1' @ r1) \<le> MAX_VERSION_FILE_LEN"
    and "length (version_line k2 b2 ms b2' @ r2) \<le> MAX_VERSION_FILE_LEN"
  shows "config_path fs = (if ns \<le> ms then CONFIG_DATA_PATH else PRESET_CONFIG_DATA_PATH) @ CONFIG_FILE_NAME"
proof -
  have "ns \<noteq> []" "ms \<noteq> []" using assms(7,8) by auto
  then have "GetVersionNums fs (PRESET_CONFIG_DATA_PATH @ VERSION_FILE_NAME) = map show_nat ns"
    and "GetVersionNums fs (CONFIG_DATA_PATH @ VERSION_FILE_NAME) = map show_nat ms"
    using GetVersionNums_line assms by blast+
  then show ?thesis
    using assms(7-10)
    by (simp add: config_path_def GetHigherVersionPath_def Let_def CompareVersion_def VERSION_LEN_def CompareSegments_lexicographic)
qed

theorem newer_configuration_used_witness:
  "config_path ((\<lambda>_. None)
     (PRESET_CONFIG_DATA_PATH @ VERSION_FILE_NAME \<mapsto> version_line ''version'' [] [1, 0, 9, 2] '' '' @ [CHR 0x0A],
      CONFIG_DATA_PATH @ VERSION_FILE_NAME \<mapsto> version_line ''version'' '' '' [1, 0, 10, 0] []))
   = CONFIG_DATA_PATH @ CONFIG_FILE_NAME"
proof -
  have paths: "PRESET_CONFIG_DATA_PATH @ VERSION_FILE_NAME \<noteq> CONFIG_DATA_PATH @ VERSION_FILE_NAME" by code_simp
  have sizes: "length (version_line ''version'' [] [1, 0, 9, 2] '' '' @ [CHR 0x0A]) \<le> MAX_VERSION_FILE_LEN"
    "length (version_line ''version'' '' '' [1, 0, 10, 0] [] @ []) \<le> MAX_VERSION_FILE_LEN" by code_simp+
  have lines: "line_ok ''version'' [] '' ''" "line_ok ''version'' '' '' []" by code_simp+
  show ?thesis
    by (subst newer_configuration_used [OF _ _ lines _ _ _ _ _ _ sizes]) (use paths in \<open>simp_all add: fun_upd_def\<close>)
qed

text \<open>
  Two segments that differ as texts but not as numbers decide against the update, whatever
  follows them: with a leading zero, a newer version is not taken for one.
\<close>

lemma leading_zero_hides_update:
  "dec_value 0 l = dec_value 0 c \<Longrightarrow> l \<noteq> c \<Longrightarrow> \<not> CompareVersion (l # ls) (c # cs)"
  by (simp add: CompareVersion_def segment_value_def Let_def)

lemma leading_zero_example: "\<not> CompareVersion [''01'', ''0'', ''0'', ''0''] [''1'', ''9'', ''0'', ''0'']"
  by (rule leading_zero_hides_update) code_simp+

section \<open>The entries\<close>

lemma MakeKey_eq [simp]: "MakeKey v p = MakeKey v' p' \<longleftrightarrow> v = v' \<and> p = p'"
proof
  have key: "takeWhile is_digit (MakeKey a b) = show_nat (unat a)" for a b
    using show_nat_digits [of "unat a"] by (auto simp: MakeKey_def takeWhile_append list_all_iff)
  assume eq: "MakeKey v p = MakeKey v' p'"
  then have "show_nat (unat v) = show_nat (unat v')" using key by metis
  then show "v = v' \<and> p = p'" using eq by (simp add: MakeKey_def word_unat_eq_iff)
qed simp

lemma snd_ParseDeviceItemTo:
  "snd (ParseDeviceItemTo L J item m) =
     (case DeviceItem L J item of None \<Rightarrow> m | Some e \<Rightarrow> al_put (MakeKey (ae_vid e) (ae_pid e)) e m)"
  by (simp add: ParseDeviceItemTo_def split: option.splits)

definition is_for :: "u16 \<Rightarrow> u16 \<Rightarrow> app_entry \<Rightarrow> bool" where
  "is_for vid pid e \<longleftrightarrow> ae_vid e = vid \<and> ae_pid e = pid"

lemma map_of_items:
  "map_of (fold (\<lambda>item m. snd (ParseDeviceItemTo L J item m)) items m) (MakeKey vid pid)
   = (case filter (is_for vid pid) (List.map_filter (DeviceItem L J) items) of
        [] \<Rightarrow> map_of m (MakeKey vid pid) | e # es \<Rightarrow> Some (last (e # es)))"
  by (induction items arbitrary: m)
    (auto simp: snd_ParseDeviceItemTo is_for_def split: option.splits list.splits)

text \<open>
  after the configuration has been read, the application of a device is that of the last
  valid element of the file with the two numbers of the device, and there is none when no
  valid element has them. A configuration that cannot be read changes nothing.
\<close>

theorem last_entry_of_file_found:
  "FindEntry vid pid (snd (AppLaunchConfig_LoadConfig L J fs m)) =
     (case ParseJsonRoot J fs (config_path fs) of None \<Rightarrow> FindEntry vid pid m
      | Some root \<Rightarrow>
          (case filter (is_for vid pid) (List.map_filter (DeviceItem L J) (elements J root)) of
             [] \<Rightarrow> None | e # es \<Rightarrow> Some (last (e # es))))"
  by (auto simp: AppLaunchConfig_LoadConfig_def ParseConfigFileTo_def FindEntry_def map_of_items split: option.splits list.splits)

section \<open>What is started\<close>

text \<open>
  Every entry of the table stands under its own key and names an application, an ability and an
  address.
\<close>

definition entry_ok :: "string \<times> app_entry \<Rightarrow> bool" where
  "entry_ok ke \<longleftrightarrow> fst ke = MakeKey (ae_vid (snd ke)) (ae_pid (snd ke))
     \<and> ae_bundleName (snd ke) \<noteq> [] \<and> ae_abilityName (snd ke) \<noteq> [] \<and> ae_appStoreUri (snd ke) \<noteq> []"

definition entries_ok :: "entry_map \<Rightarrow> bool" where
  "entries_ok m \<longleftrightarrow> (\<forall>ke\<in>set m. entry_ok ke)"

lemma ParseStringField_not_Nil: "ParseStringField J item key = Some s \<Longrightarrow> s \<noteq> []"
  by (auto simp: ParseStringField_def Let_def split: option.splits if_splits)

lemma DeviceItem_ok: "DeviceItem L J item = Some e \<Longrightarrow> entry_ok (MakeKey (ae_vid e) (ae_pid e), e)"
  by (auto simp: DeviceItem_def entry_ok_def dest: ParseStringField_not_Nil split: option.splits)

lemma set_al_put: "set (al_put k v m) \<subseteq> insert (k, v) (set m)"
  by (induction k v m rule: al_put.induct) auto

lemma ParseDeviceItemTo_ok: "entries_ok m \<Longrightarrow> entries_ok (snd (ParseDeviceItemTo L J item m))"
  using set_al_put DeviceItem_ok [of L J item]
  by (fastforce simp: snd_ParseDeviceItemTo entries_ok_def split: option.splits)

lemma LoadConfig_ok: "entries_ok m \<Longrightarrow> entries_ok (snd (AppLaunchConfig_LoadConfig L J fs m))"
proof -
  have "entries_ok m' \<Longrightarrow> entries_ok (fold (\<lambda>item m. snd (ParseDeviceItemTo L J item m)) items m')" for items m'
    by (induction items arbitrary: m') (simp_all add: ParseDeviceItemTo_ok)
  from this [of "[]"] show "entries_ok m \<Longrightarrow> ?thesis"
    by (auto simp: AppLaunchConfig_LoadConfig_def ParseConfigFileTo_def entries_ok_def [of "[]"] split: option.splits)
qed

lemma CheckAppInstallStatus_entries: "CheckAppInstallStatus E b a = (s, a') \<Longrightarrow> la_entryMap a' = la_entryMap a"
  by (auto simp: CheckAppInstallStatus_def LaunchManager_GetBundleMgrProxy_def split: if_splits prod.splits)

lemma OnDeviceConnected_entries: "OnDeviceConnected E J fs vid pid a = (calls, a') \<Longrightarrow> la_entryMap a' = la_entryMap a"
  by (auto simp: OnDeviceConnected_def dest: CheckAppInstallStatus_entries split: option.splits prod.splits AppInstallStatus.splits)

lemma launch_step_entries: "launch_step L J a calls a' \<Longrightarrow> entries_ok (la_entryMap a) \<Longrightarrow> entries_ok (la_entryMap a')"
  by (erule launch_stepE)
    (auto simp: LaunchManager_LoadConfig_def SubscribeEvent_def UnsubscribeEvent_def Launch_OnReceiveEvent_def
      HandleParamUpdate_def Let_def LoadConfig_ok dest: OnDeviceConnected_entries split: if_splits)

lemma launch_reach_entries: "launch_reach L J a \<Longrightarrow> entries_ok (la_entryMap a)"
  by (induction rule: launch_reach.induct)
    (simp_all add: launch_step_entries new_app_launch_def entries_ok_def [of "[]"])

text \<open>What the calls of one plugged device may be, for the entry \<open>e\<close> of the device.\<close>

definition call_ok :: "'p launch_env \<Rightarrow> bool \<Rightarrow> app_entry \<Rightarrow> 'p launch_call \<Rightarrow> bool" where
  "call_ok E cached e c =
     (let found = (cached \<or> le_bundleMgr E); installed = le_bundleInfo E (ae_bundleName e) (snd (le_foreground E)) in
      case c of
        Start_ability b n d \<Rightarrow>
          b = ae_bundleName e \<and> n = ae_abilityName e \<and> b \<noteq> [] \<and> n \<noteq> [] \<and> d = 0
          \<and> found \<and> fst (le_foreground E) = 0 \<and> installed
      | Publish r \<Rightarrow>
          an_uri r = ae_appStoreUri e \<and> an_uri r \<noteq> [] \<and> an_title r \<noteq> [] \<and> an_text r \<noteq> []
          \<and> (\<not> found \<or> fst (le_foreground E) = 0 \<and> \<not> installed))"

lemma CheckAppInstallStatus_result:
  "fst (CheckAppInstallStatus E b a) =
     (if \<not> (la_bundleMgr a \<or> le_bundleMgr E) then NOT_INSTALLED
      else if fst (le_foreground E) \<noteq> 0 then ACCOUNT_NOT_READY
      else if le_bundleInfo E b (snd (le_foreground E)) then INSTALLED else NOT_INSTALLED)"
  by (simp add: CheckAppInstallStatus_def LaunchManager_GetBundleMgrProxy_def split_def)

lemma LaunchApp_calls: "set (snd (LaunchApp E b n)) \<subseteq> (if b = [] \<or> n = [] then {} else {Start_ability b n 0})"
  by (simp add: LaunchApp_def Let_def)

lemma SendNotification_calls:
  assumes "SendNotification E J fs e st icon = (ret, calls, st', icon')" and "c \<in> set calls"
  shows "\<exists>r. c = Publish r \<and> an_uri r = ae_appStoreUri e \<and> an_title r \<noteq> [] \<and> an_text r \<noteq> []"
  using assms
  by (auto simp: SendNotification_def Let_def SetBasicOption_def SetWantAgent_def split: if_splits prod.splits)

text \<open>
  C30: in every reachable state of the manager, a plugged device makes it start only the ability
  that the configuration lists for exactly this device, and only when the application is installed
  for the user in the foreground; or show a notification with the address of that application,
  and only when it is not installed or the bundle manager cannot be reached.
\<close>

theorem only_configured_application_started:
  assumes "launch_reach L J a" and "OnDeviceConnected E J fs vid pid a = (calls, a')" and "c \<in> set calls"
  shows "\<exists>e. FindEntry vid pid (la_entryMap a) = Some e \<and> is_for vid pid e \<and> call_ok E (la_bundleMgr a) e c"
proof -
  obtain e where e: "FindEntry vid pid (la_entryMap a) = Some e"
    using assms(2,3) by (auto simp: OnDeviceConnected_def split: option.splits)
  have "(MakeKey vid pid, e) \<in> set (la_entryMap a)" using map_of_SomeD e by (simp add: FindEntry_def)
  then have ok: "entry_ok (MakeKey vid pid, e)"
    using launch_reach_entries [OF assms(1)] by (auto simp: entries_ok_def)
  obtain s a1 where s: "CheckAppInstallStatus E (ae_bundleName e) a = (s, a1)" by fastforce
  have "call_ok E (la_bundleMgr a) e c"
    using assms(2,3) e s ok CheckAppInstallStatus_result [of E "ae_bundleName e" a]
      LaunchApp_calls [of E "ae_bundleName e" "ae_abilityName e"]
    by (cases s) (auto simp: OnDeviceConnected_def call_ok_def entry_ok_def Let_def
        dest!: SendNotification_calls split: prod.splits if_splits)
  moreover have "is_for vid pid e" using ok by (simp add: entry_ok_def is_for_def)
  ultimately show ?thesis using e by blast
qed

text \<open>One device whose application is installed.\<close>

definition launch_clib :: clib where
  "launch_clib = \<lparr>lb_ULONG_MAX = 2 ^ 64 - 1, lb_no_digits_is_error = True\<rparr>"

definition launch_element :: jvalue where
  "launch_element = VObj [(''vid'', VStr ''0x12D1''), (''pid'', VStr ''10''), (''bundleName'', VStr '' b ''),
     (''abilityName'', VStr ''a''), (''appStoreUri'', VStr ''u'')]"

definition launch_text :: string where
  "launch_text = print_value (VArr [VNum 1, launch_element])"

definition launch_files :: files where
  "launch_files = (\<lambda>_. None)(CONFIG_DATA_PATH @ CONFIG_FILE_NAME \<mapsto> launch_text)"

definition launch_entry :: app_entry where
  "launch_entry = \<lparr>ae_vid = 0x12D1, ae_pid = 0x10, ae_bundleName = ''b'', ae_abilityName = ''a'', ae_appStoreUri = ''u''\<rparr>"

definition a_launch_env :: "unit launch_env" where
  "a_launch_env = \<lparr>le_bundleMgr = True, le_foreground = (0, 100), le_bundleInfo = \<lambda>b u. b = ''b'' \<and> u = 100,
     le_abilityManager = True, le_startAbility = \<lambda>_ _ _. 0, le_baseName = ''zh'', le_hash = \<lambda>_. 7, le_image = \<lambda>_. No_file,
     le_uid = 1, le_pid = 2, le_account = \<lambda>_. (0, 100), le_wantAgent = \<lambda>_. True, le_publish = \<lambda>_. 0\<rparr>"

lemma launch_files_loaded:
  "AppLaunchConfig_LoadConfig launch_clib deep_json launch_files [] = (True, [(MakeKey 0x12D1 0x10, launch_entry)])"
proof -
  have path: "config_path launch_files = CONFIG_DATA_PATH @ CONFIG_FILE_NAME" by code_simp
  have content: "launch_files (CONFIG_DATA_PATH @ CONFIG_FILE_NAME) = Some launch_text" by (simp add: launch_files_def)
  have len: "length launch_text < 200" "launch_text \<noteq> []" by code_simp+
  have parsed: "cj_parse deep_json (c_str launch_text) = Some (VArr [VNum 1, launch_element])" by code_simp
  have array: "cj_type deep_json (VArr [VNum 1, launch_element]) = JArray"
    "elements deep_json (VArr [VNum 1, launch_element]) = [VNum 1, launch_element]" by code_simp+
  have items: "DeviceItem launch_clib deep_json (VNum 1) = None" 
    "DeviceItem launch_clib deep_json launch_element = Some launch_entry" by code_simp+
  have root: "ParseJsonRoot deep_json launch_files (CONFIG_DATA_PATH @ CONFIG_FILE_NAME) = Some (VArr [VNum 1, launch_element])"
    using len by (simp add: ParseJsonRoot_def content parsed array MAX_CONFIG_FILE_LEN_def)
  show ?thesis
    by (simp add: AppLaunchConfig_LoadConfig_def path ParseConfigFileTo_def root array snd_ParseDeviceItemTo items)
      (simp add: launch_entry_def)
qed

lemma launch_entry_of_device: "OnDeviceConnected a_launch_env deep_json launch_files 0x12D1 0x10
    (LaunchManager_LoadConfig launch_clib deep_json launch_files new_app_launch)
  = ([Start_ability ''b'' ''a'' 0],
     (LaunchManager_LoadConfig launch_clib deep_json launch_files new_app_launch)\<lparr>la_bundleMgr := True\<rparr>)"
  by (simp add: OnDeviceConnected_def LaunchManager_LoadConfig_def new_app_launch_def launch_files_loaded FindEntry_def
      launch_entry_def CheckAppInstallStatus_def LaunchManager_GetBundleMgrProxy_def a_launch_env_def LaunchApp_def)

theorem only_configured_application_started_witness:
  "\<exists>e. FindEntry 0x12D1 0x10 (la_entryMap (LaunchManager_LoadConfig launch_clib deep_json launch_files
         (new_app_launch :: unit app_launch))) = Some e
     \<and> is_for 0x12D1 0x10 e \<and> call_ok a_launch_env False e (Start_ability ''b'' ''a'' 0)"
proof -
  have "launch_reach launch_clib deep_json (LaunchManager_LoadConfig launch_clib deep_json launch_files (new_app_launch :: unit app_launch))"
    using launch_reach.step [OF launch_reach.start [of launch_clib deep_json "la_locale new_app_launch"]
        launch_step.load [where fs = launch_files]]
    by (simp add: new_app_launch_def)
  from only_configured_application_started [OF this launch_entry_of_device]
  show ?thesis by (simp add: LaunchManager_LoadConfig_def new_app_launch_def)
qed

end
