(* ===== verification/Edm_Client.thy ===== *)
theory Edm_Client
  imports Ipc_Types
begin

text \<open>
  The library through which other processes reach the service: frameworks/native/driver_ext_mgr_client.cpp,
  in the build with the service.

  The proxy is generated from an interface description: it is the argument \<open>X\<close>, a record of the
  calls the client makes. A call gives the code of the transport, the result that the service has
  written, and the data it has written; \<open>'w\<close> is what the calls change, the state of the service.
\<close>

section \<open>The proxy\<close>

record ('w, 'cb) edm_proxy =
  px_QueryDevice :: "u32 \<Rightarrow> 'w \<Rightarrow> (UsbErrCode \<times> UsbErrCode \<times> device_data list \<times> 'w) res"
  px_BindDevice :: "u64 \<Rightarrow> 'cb \<Rightarrow> 'w \<Rightarrow> (UsbErrCode \<times> UsbErrCode \<times> unit \<times> 'w) res"
  px_UnBindDevice :: "u64 \<Rightarrow> 'w \<Rightarrow> (UsbErrCode \<times> UsbErrCode \<times> unit \<times> 'w) res"
  px_BindDriverWithDeviceId :: "u64 \<Rightarrow> 'cb \<Rightarrow> 'w \<Rightarrow> (UsbErrCode \<times> UsbErrCode \<times> unit \<times> 'w) res"
  px_UnBindDriverWithDeviceId :: "u64 \<Rightarrow> 'w \<Rightarrow> (UsbErrCode \<times> UsbErrCode \<times> unit \<times> 'w) res"
  px_QueryDeviceInfo :: "bool \<Rightarrow> u64 \<Rightarrow> 'w \<Rightarrow> (UsbErrCode \<times> UsbErrCode \<times> device_info_data list \<times> 'w) res"
  px_QueryDriverInfo :: "bool \<Rightarrow> string \<Rightarrow> 'w \<Rightarrow> (UsbErrCode \<times> UsbErrCode \<times> driver_info_data list \<times> 'w) res"
  px_NotifyUsbPeripheralFault :: "string \<Rightarrow> string \<Rightarrow> 'w \<Rightarrow> (UsbErrCode \<times> 'w) res"

text \<open>
  The answers of the system while a connection is made. A remote object is a number. The two error
  codes of the IPC library that the client translates are fields as well.
\<close>

record client_env =
  ce_sam :: bool
  ce_remote :: "nat option"
  ce_isProxy :: "nat \<Rightarrow> bool"
  ce_addDeath :: "nat \<Rightarrow> bool"
  ce_cast :: "nat \<Rightarrow> bool"
  ce_ERR_INVALID_VALUE :: int
  ce_ERR_INVALID_DATA :: int

section \<open>The connection\<close>

text \<open>
  \<open>ec_deathRecipient\<close> is the number of the last recipient that was made, \<open>ec_registered\<close> what the
  remote objects have registered.
\<close>

record edm_client =
  ec_proxy :: "nat option"
  ec_deathRecipient :: "nat option"
  ec_registered :: "(nat \<times> nat) list"
  ec_next :: nat

definition new_client :: edm_client where
  "new_client = \<lparr>ec_proxy = None, ec_deathRecipient = None, ec_registered = [], ec_next = 0\<rparr>"

definition Connect :: "client_env \<Rightarrow> edm_client \<Rightarrow> UsbErrCode \<times> edm_client" where
  "Connect E c =
     (if ec_proxy c \<noteq> None then (EDM_OK, c)
      else if \<not> ce_sam E then (EDM_ERR_GET_SYSTEM_ABILITY_MANAGER_FAILED, c)
      else case ce_remote E of None \<Rightarrow> (EDM_ERR_GET_SERVICE_FAILED, c)
      | Some remote \<Rightarrow>
          let recipient = ec_next c;
              c = c\<lparr>ec_deathRecipient := Some recipient, ec_next := Suc recipient\<rparr> in
          if ce_isProxy E remote \<and> \<not> ce_addDeath E remote then (EDM_ERR_NOT_SUPPORT, c)
          else
            let c = (if ce_isProxy E remote then c\<lparr>ec_registered := (remote, recipient) # ec_registered c\<rparr> else c) in
            if \<not> ce_cast E remote then (EDM_ERR_GET_SERVICE_FAILED, c)
            else (EDM_OK, c\<lparr>ec_proxy := Some remote\<rparr>))"

text \<open>The remote object that died is a weak pointer, which may have become null.\<close>

definition DisConnect :: "nat option \<Rightarrow> edm_client \<Rightarrow> edm_client" where
  "DisConnect remote c =
     (case ec_proxy c of None \<Rightarrow> c
      | Some serviceRemote \<Rightarrow>
          if Some serviceRemote = remote
          then c\<lparr>ec_registered := filter (\<lambda>e. \<not> (fst e = serviceRemote \<and> Some (snd e) = ec_deathRecipient c)) (ec_registered c),
                 ec_proxy := None\<rparr>
          else c)"

text \<open>\<open>OnRemoteDied\<close>: a null argument is refused; what it points to may still be gone.\<close>

definition Client_OnRemoteDied :: "nat option option \<Rightarrow> edm_client \<Rightarrow> edm_client" where
  "Client_OnRemoteDied remote c = (case remote of None \<Rightarrow> c | Some r \<Rightarrow> DisConnect r c)"

definition ProxyRetTranslate :: "client_env \<Rightarrow> UsbErrCode \<Rightarrow> UsbErrCode" where
  "ProxyRetTranslate E proxyRet =
     (if proxyRet = EXT (ce_ERR_INVALID_VALUE E) then EDM_ERR_INVALID_OBJECT
      else if proxyRet = EXT (ce_ERR_INVALID_DATA E) then EDM_ERR_INVALID_PARAM
      else proxyRet)"

section \<open>The calls\<close>

text \<open>
  Every call connects, lets go of the lock, and uses the proxy. \<open>deaths\<close> are the notices of dead
  objects that arrive between the two. The data that the caller has passed is not touched when the
  client does not get to the service: None.
\<close>

definition client_call ::
  "client_env \<Rightarrow> nat option option list \<Rightarrow> ('w \<Rightarrow> (UsbErrCode \<times> UsbErrCode \<times> 'a \<times> 'w) res)
   \<Rightarrow> edm_client \<Rightarrow> 'w \<Rightarrow> (UsbErrCode \<times> 'a option \<times> edm_client \<times> 'w) res" where
  "client_call E deaths call c w =
     (case Connect E c of (ret, c) \<Rightarrow>
      if ret \<noteq> EDM_OK then Inr (EDM_ERR_CONNECTION_FAILED, None, c, w)
      else
        let c = fold Client_OnRemoteDied deaths c in
        case ec_proxy c of None \<Rightarrow> Inl Null_deref
        | Some _ \<Rightarrow>
            bindE (call w) (\<lambda>(proxyRet, ret, a, w).
              if proxyRet \<noteq> EDM_OK then Inr (ProxyRetTranslate E proxyRet, Some a, c, w)
              else Inr (ret, Some a, c, w)))"

definition Client_QueryDevice ::
  "client_env \<Rightarrow> nat option option list \<Rightarrow> ('w, 'cb) edm_proxy \<Rightarrow> u32 \<Rightarrow> edm_client \<Rightarrow> 'w
   \<Rightarrow> (UsbErrCode \<times> device_data list option \<times> edm_client \<times> 'w) res" where
  "Client_QueryDevice E deaths X busType = client_call E deaths (px_QueryDevice X busType)"

definition Client_BindDevice ::
  "client_env \<Rightarrow> nat option option list \<Rightarrow> ('w, 'cb) edm_proxy \<Rightarrow> u64 \<Rightarrow> 'cb \<Rightarrow> edm_client \<Rightarrow> 'w
   \<Rightarrow> (UsbErrCode \<times> unit option \<times> edm_client \<times> 'w) res" where
  "Client_BindDevice E deaths X deviceId connectCallback = client_call E deaths (px_BindDevice X deviceId connectCallback)"

definition Client_UnBindDevice ::
  "client_env \<Rightarrow> nat option option list \<Rightarrow> ('w, 'cb) edm_proxy \<Rightarrow> u64 \<Rightarrow> edm_client \<Rightarrow> 'w
   \<Rightarrow> (UsbErrCode \<times> unit option \<times> edm_client \<times> 'w) res" where
  "Client_UnBindDevice E deaths X deviceId = client_call E deaths (px_UnBindDevice X deviceId)"

definition Client_BindDriverWithDeviceId ::
  "client_env \<Rightarrow> nat option option list \<Rightarrow> ('w, 'cb) edm_proxy \<Rightarrow> u64 \<Rightarrow> 'cb \<Rightarrow> edm_client \<Rightarrow> 'w
   \<Rightarrow> (UsbErrCode \<times> unit option \<times> edm_client \<times> 'w) res" where
  "Client_BindDriverWithDeviceId E deaths X deviceId connectCallback =
     client_call E deaths (px_BindDriverWithDeviceId X deviceId connectCallback)"

definition Client_UnbindDriverWithDeviceId ::
  "client_env \<Rightarrow> nat option option list \<Rightarrow> ('w, 'cb) edm_proxy \<Rightarrow> u64 \<Rightarrow> edm_client \<Rightarrow> 'w
   \<Rightarrow> (UsbErrCode \<times> unit option \<times> edm_client \<times> 'w) res" where
  "Client_UnbindDriverWithDeviceId E deaths X deviceId = client_call E deaths (px_UnBindDriverWithDeviceId X deviceId)"

text \<open>The two overloads of each query: for all, and for one.\<close>

definition Client_QueryAllDeviceInfo ::
  "client_env \<Rightarrow> nat option option list \<Rightarrow> ('w, 'cb) edm_proxy \<Rightarrow> edm_client \<Rightarrow> 'w
   \<Rightarrow> (UsbErrCode \<times> device_info_data list option \<times> edm_client \<times> 'w) res" where
  "Client_QueryAllDeviceInfo E deaths X = client_call E deaths (px_QueryDeviceInfo X False 0)"

definition Client_QueryDeviceInfo ::
  "client_env \<Rightarrow> nat option option list \<Rightarrow> ('w, 'cb) edm_proxy \<Rightarrow> u64 \<Rightarrow> edm_client \<Rightarrow> 'w
   \<Rightarrow> (UsbErrCode \<times> device_info_data list option \<times> edm_client \<times> 'w) res" where
  "Client_QueryDeviceInfo E deaths X deviceId = client_call E deaths (px_QueryDeviceInfo X True deviceId)"

definition Client_QueryAllDriverInfo ::
  "client_env \<Rightarrow> nat option option list \<Rightarrow> ('w, 'cb) edm_proxy \<Rightarrow> edm_client \<Rightarrow> 'w
   \<Rightarrow> (UsbErrCode \<times> driver_info_data list option \<times> edm_client \<times> 'w) res" where
  "Client_QueryAllDriverInfo E deaths X = client_call E deaths (px_QueryDriverInfo X False [])"

definition Client_QueryDriverInfo ::
  "client_env \<Rightarrow> nat option option list \<Rightarrow> ('w, 'cb) edm_proxy \<Rightarrow> string \<Rightarrow> edm_client \<Rightarrow> 'w
   \<Rightarrow> (UsbErrCode \<times> driver_info_data list option \<times> edm_client \<times> 'w) res" where
  "Client_QueryDriverInfo E deaths X driverUid = client_call E deaths (px_QueryDriverInfo X True driverUid)"

text \<open>The call has no result of its own; a transport that succeeds is a success.\<close>

definition Client_NotifyUsbPeripheralFault ::
  "client_env \<Rightarrow> nat option option list \<Rightarrow> ('w, 'cb) edm_proxy \<Rightarrow> string \<Rightarrow> string \<Rightarrow> edm_client \<Rightarrow> 'w
   \<Rightarrow> (UsbErrCode \<times> unit option \<times> edm_client \<times> 'w) res" where
  "Client_NotifyUsbPeripheralFault E deaths X domain faultName =
     client_call E deaths (\<lambda>w. bindE (px_NotifyUsbPeripheralFault X domain faultName w) (\<lambda>(r, w). Inr (r, EDM_OK, (), w)))"

text \<open>The destructor.\<close>

definition delete_client :: "edm_client \<Rightarrow> edm_client" where
  "delete_client c =
     (case ec_proxy c of None \<Rightarrow> c
      | Some remote \<Rightarrow>
          c\<lparr>ec_registered := filter (\<lambda>e. \<not> (fst e = remote \<and> Some (snd e) = ec_deathRecipient c)) (ec_registered c)\<rparr>)"

end
