(* ===== verification/Edm_Client_Claims.thy ===== *)
theory Edm_Client_Claims
  imports Edm_Client System_Claims
begin

text \<open>
  What the client library guarantees: when a call can fail on a lost connection, that it connects
  again, and what a caller gets from the service through it. The service is the model of the
  theory Service behind a proxy that hands every call through.
\<close>

section \<open>The connection\<close>

lemma DisConnect_other: "ec_proxy c \<noteq> r \<Longrightarrow> DisConnect r c = c"
  by (auto simp: DisConnect_def split: option.splits)

lemma died_other: "d \<noteq> Some (ec_proxy c) \<Longrightarrow> Client_OnRemoteDied d c = c"
  using DisConnect_other by (cases d) (auto simp: Client_OnRemoteDied_def)

lemma died_None: "ec_proxy c = None \<Longrightarrow> Client_OnRemoteDied d c = c"
  by (simp add: Client_OnRemoteDied_def DisConnect_def split: option.splits)

lemma fold_died_None: "ec_proxy c = None \<Longrightarrow> fold Client_OnRemoteDied ds c = c"
  by (induction ds) (simp_all add: died_None)

lemma fold_died:
  "ec_proxy c = Some r \<Longrightarrow>
   ec_proxy (fold Client_OnRemoteDied ds c) = (if Some (Some r) \<in> set ds then None else Some r)"
proof (induction ds arbitrary: c)
  case (Cons d ds)
  show ?case
  proof (cases "d = Some (Some r)")
    case True
    then have "ec_proxy (Client_OnRemoteDied d c) = None"
      using Cons.prems by (simp add: Client_OnRemoteDied_def DisConnect_def)
    then show ?thesis using True by (simp add: fold_died_None)
  next
    case False
    then have "Client_OnRemoteDied d c = c" using Cons.prems by (intro died_other) simp
    then show ?thesis using Cons False by auto
  qed
qed simp

lemma Connect_OK: "Connect E c = (EDM_OK, c') \<Longrightarrow> ec_proxy c' \<noteq> None"
  by (auto simp: Connect_def Let_def split: if_splits option.splits)

text \<open>
  a call of the client library dereferences null exactly when the notice that the service has
  died arrives between the check of the connection and the use of the proxy, which the lock does
  not cover.
\<close>

theorem lost_proxy_dereferenced:
  assumes "Connect E c = (EDM_OK, c1)" and "ec_proxy c1 = Some r" and "call w \<noteq> Inl Null_deref"
  shows "client_call E deaths call c w = Inl Null_deref \<longleftrightarrow> Some (Some r) \<in> set deaths"
  using assms fold_died [OF assms(2), of deaths]
  by (cases "call w") (auto simp: client_call_def Let_def split: option.splits if_splits prod.splits)

text \<open>An example: the service is the object 3 and dies during the call.\<close>

definition a_client_env :: client_env where
  "a_client_env = \<lparr>ce_sam = True, ce_remote = Some 3, ce_isProxy = \<lambda>_. True, ce_addDeath = \<lambda>_. True, ce_cast = \<lambda>_. True,
     ce_ERR_INVALID_VALUE = 22, ce_ERR_INVALID_DATA = 5\<rparr>"

definition connected_client :: edm_client where
  "connected_client = \<lparr>ec_proxy = Some 3, ec_deathRecipient = Some 0, ec_registered = [(3, 0)], ec_next = 1\<rparr>"

lemma example_connect: "Connect a_client_env new_client = (EDM_OK, connected_client)"
  by (simp add: Connect_def a_client_env_def new_client_def connected_client_def)

theorem lost_proxy_dereferenced_witness:
  "client_call a_client_env [Some (Some 3)] (\<lambda>w. Inr (EDM_OK, EDM_OK, (), w)) new_client (0 :: nat) = Inl Null_deref
   \<and> client_call a_client_env [Some (Some 4)] (\<lambda>w. Inr (EDM_OK, EDM_OK, (), w)) new_client (0 :: nat) \<noteq> Inl Null_deref"
  using lost_proxy_dereferenced [OF example_connect, of 3 "\<lambda>w. Inr (EDM_OK, EDM_OK, (), w)" "0 :: nat" "[Some (Some 3)]"]
    lost_proxy_dereferenced [OF example_connect, of 3 "\<lambda>w. Inr (EDM_OK, EDM_OK, (), w)" "0 :: nat" "[Some (Some 4)]"]
  by (simp add: connected_client_def)

section \<open>What is registered\<close>

text \<open>A client with a proxy is told when the object behind it dies.\<close>

definition watches :: "(nat \<Rightarrow> bool) \<Rightarrow> edm_client \<Rightarrow> bool" where
  "watches isProxy c \<longleftrightarrow>
     (\<forall>r. ec_proxy c = Some r \<longrightarrow> isProxy r \<longrightarrow> (\<exists>d. ec_deathRecipient c = Some d \<and> (r, d) \<in> set (ec_registered c)))"

inductive client_reach :: "(nat \<Rightarrow> bool) \<Rightarrow> edm_client \<Rightarrow> bool" for isProxy where
  start: "client_reach isProxy new_client"
| conn: "client_reach isProxy c \<Longrightarrow> ce_isProxy E = isProxy \<Longrightarrow> client_reach isProxy (snd (Connect E c))"
| died: "client_reach isProxy c \<Longrightarrow> client_reach isProxy (Client_OnRemoteDied d c)"

lemma Connect_watches: "watches (ce_isProxy E) c \<Longrightarrow> watches (ce_isProxy E) (snd (Connect E c))"
  by (auto simp: Connect_def watches_def Let_def split: if_splits option.splits)

lemma died_watches: "watches p c \<Longrightarrow> watches p (Client_OnRemoteDied d c)"
  by (auto simp: Client_OnRemoteDied_def DisConnect_def watches_def split: option.splits)

lemma client_watches: "client_reach isProxy c \<Longrightarrow> watches isProxy c"
  by (induction rule: client_reach.induct)
    (auto simp: new_client_def watches_def [of _ "\<lparr>ec_proxy = _, ec_deathRecipient = _, ec_registered = _, ec_next = _\<rparr>"]
      intro: Connect_watches died_watches)

section \<open>The service behind the proxy\<close>

text \<open>The caller of every operation is \<open>C\<close>, the process of the client.\<close>

definition service_proxy ::
  "('j, 's) pkg_env \<Rightarrow> env \<Rightarrow> files \<Rightarrow> string \<Rightarrow> bool \<Rightarrow> ipc_caller \<Rightarrow> ('s service, nat option) edm_proxy" where
  "service_proxy P E fs base icon C =
     \<lparr>px_QueryDevice = \<lambda>busType sv. bindE (DriverExtMgr_QueryDevice C busType sv) (\<lambda>(r, e, ds). Inr (r, e, ds, sv)),
      px_BindDevice = \<lambda>deviceId cb sv. bindE (DriverExtMgr_BindDevice E C deviceId cb sv) (\<lambda>(r, e, sv). Inr (r, e, (), sv)),
      px_UnBindDevice = \<lambda>deviceId sv. (case DriverExtMgr_UnBindDevice E C deviceId sv of (r, e, sv) \<Rightarrow> Inr (r, e, (), sv)),
      px_BindDriverWithDeviceId = \<lambda>deviceId cb sv.
        bindE (BindDriverWithDeviceId (pe_json P) E C deviceId cb sv) (\<lambda>(r, e, sv). Inr (r, e, (), sv)),
      px_UnBindDriverWithDeviceId = \<lambda>deviceId sv. (case UnBindDriverWithDeviceId E C deviceId sv of (r, e, sv) \<Rightarrow> Inr (r, e, (), sv)),
      px_QueryDeviceInfo = \<lambda>byId deviceId sv.
        bindE (DriverExtMgr_QueryDeviceInfo C byId deviceId sv) (\<lambda>(r, e, xs). Inr (r, e, xs, sv)),
      px_QueryDriverInfo = \<lambda>byUid uid sv.
        bindE (DriverExtMgr_QueryDriverInfo P C byUid uid sv) (\<lambda>(r, e, xs, sv). Inr (r, e, xs, sv)),
      px_NotifyUsbPeripheralFault = \<lambda>domain faultName sv.
        (case NotifyUsbPeripheralFault (pe_json P) fs base icon C domain faultName sv of (r, _, sv) \<Rightarrow> Inr (r, sv))\<rparr>"

text \<open>
  The contract of a service that checks its callers: \<open>ext\<close> and \<open>ddk\<close> tell whether the caller has
  the two permissions.
\<close>

locale guarded_service =
  fixes X :: "('w, 'cb) edm_proxy" and ext :: bool and ddk :: bool
  assumes query_guarded: "\<not> ext \<Longrightarrow> px_QueryDevice X busType w = Inr (EDM_OK, EDM_ERR_NO_PERM, [], w)"
    and bind_guarded: "\<not> ext \<Longrightarrow> px_BindDevice X deviceId cb w = Inr (EDM_OK, EDM_ERR_NO_PERM, (), w)"
    and unbind_guarded: "\<not> ext \<Longrightarrow> px_UnBindDevice X deviceId w = Inr (EDM_OK, EDM_ERR_NO_PERM, (), w)"
    and bind_driver_guarded: "\<not> ddk \<Longrightarrow> px_BindDriverWithDeviceId X deviceId cb w = Inr (EDM_OK, EDM_ERR_NO_PERM, (), w)"
    and unbind_driver_guarded: "\<not> ddk \<Longrightarrow> px_UnBindDriverWithDeviceId X deviceId w = Inr (EDM_OK, EDM_ERR_NO_PERM, (), w)"
begin

lemma ext_refused:
  assumes "Connect E c = (EDM_OK, c1)" and "\<not> ext"
  shows "Client_QueryDevice E [] X busType c w = Inr (EDM_ERR_NO_PERM, Some [], c1, w)"
    and "Client_BindDevice E [] X deviceId cb c w = Inr (EDM_ERR_NO_PERM, Some (), c1, w)"
    and "Client_UnBindDevice E [] X deviceId c w = Inr (EDM_ERR_NO_PERM, Some (), c1, w)"
  using Connect_OK [OF assms(1)] assms
  by (auto simp: Client_QueryDevice_def Client_BindDevice_def Client_UnBindDevice_def client_call_def
      query_guarded bind_guarded unbind_guarded split: option.splits)

lemma ddk_refused:
  assumes "Connect E c = (EDM_OK, c1)" and "\<not> ddk"
  shows "Client_BindDriverWithDeviceId E [] X deviceId cb c w = Inr (EDM_ERR_NO_PERM, Some (), c1, w)"
    and "Client_UnbindDriverWithDeviceId E [] X deviceId c w = Inr (EDM_ERR_NO_PERM, Some (), c1, w)"
  using Connect_OK [OF assms(1)] assms
  by (auto simp: Client_BindDriverWithDeviceId_def Client_UnbindDriverWithDeviceId_def client_call_def
      bind_driver_guarded unbind_driver_guarded split: option.splits)

end

interpretation edm: guarded_service "service_proxy P E fs base icon C"
  "VerifyPermission C ACCESS_EXTENSIONAL" "VerifyPermission C ACCESS_DDK_DRIVERS"
  by unfold_locales
    (simp_all add: service_proxy_def DriverExtMgr_QueryDevice_def DriverExtMgr_BindDevice_def DriverExtMgr_UnBindDevice_def
      BindDriverWithDeviceId_def UnBindDriverWithDeviceId_def)

text \<open>
  a process without the permission for external devices gets the refusal of the service
  through the client library from the three calls for devices, and a process without the permission
  for drivers from the two calls for drivers; the state of the service does not change.
\<close>

theorem refusal_reaches_client:
  assumes "Connect E c = (EDM_OK, c1)"
  shows "(\<not> VerifyPermission C ACCESS_EXTENSIONAL \<longrightarrow>
      Client_QueryDevice E [] (service_proxy P V fs base icon C) busType c sv = Inr (EDM_ERR_NO_PERM, Some [], c1, sv)
      \<and> Client_BindDevice E [] (service_proxy P V fs base icon C) deviceId cb c sv = Inr (EDM_ERR_NO_PERM, Some (), c1, sv)
      \<and> Client_UnBindDevice E [] (service_proxy P V fs base icon C) deviceId c sv = Inr (EDM_ERR_NO_PERM, Some (), c1, sv))
    \<and> (\<not> VerifyPermission C ACCESS_DDK_DRIVERS \<longrightarrow>
      Client_BindDriverWithDeviceId E [] (service_proxy P V fs base icon C) deviceId cb c sv = Inr (EDM_ERR_NO_PERM, Some (), c1, sv)
      \<and> Client_UnbindDriverWithDeviceId E [] (service_proxy P V fs base icon C) deviceId c sv = Inr (EDM_ERR_NO_PERM, Some (), c1, sv))"
  by (simp add: edm.ext_refused [OF assms] edm.ddk_refused [OF assms])

definition powerless_caller :: ipc_caller where
  "powerless_caller = caller_five\<lparr>cl_granted := \<lambda>_. False\<rparr>"

theorem refusal_reaches_client_witness:
  "Client_QueryDevice a_client_env [] (service_proxy an_env ok_env (\<lambda>_. None) ''zh'' True powerless_caller) 1 new_client plugged_service
   = Inr (EDM_ERR_NO_PERM, Some [], connected_client, plugged_service)"
  using refusal_reaches_client [OF example_connect, of powerless_caller an_env ok_env] 
  by (simp add: powerless_caller_def VerifyPermission_def)

text \<open>
  C36: after the service has died and come back, the next query of a permitted system application
  connects to the new object, is told when that one dies, and gets the visible devices.
\<close>

theorem restarted_service_is_queried:
  assumes "ec_proxy c = Some r" and "ce_sam F" and "ce_remote F = Some r'" and "ce_isProxy F r' \<and> ce_addDeath F r'"
    and "ce_cast F r'" and "IsSystemAppOrSa C" and "VerifyPermission C ACCESS_EXTENSIONAL"
    and "list_all usb_ready (QueryAllDevices (sv_dm sv))"
  shows "\<exists>xs c'. Client_QueryAllDeviceInfo F [] (service_proxy P V fs base icon C) (Client_OnRemoteDied (Some (Some r)) c) sv
        = Inr (EDM_OK, Some xs, c', sv)
      \<and> ec_proxy c' = Some r' \<and> (\<exists>d. ec_deathRecipient c' = Some d \<and> (r', d) \<in> set (ec_registered c'))
      \<and> list_all2 tells xs (QueryAllDevices (sv_dm sv))"
proof -
  let ?c = "Client_OnRemoteDied (Some (Some r)) c"
  have "ec_proxy ?c = None" using assms(1) by (simp add: Client_OnRemoteDied_def DisConnect_def)
  then obtain c' where c': "Connect F ?c = (EDM_OK, c')" "ec_proxy c' = Some r'"
      "\<exists>d. ec_deathRecipient c' = Some d \<and> (r', d) \<in> set (ec_registered c')"
    using assms(2-5) by (simp add: Connect_def Let_def)
  obtain xs where "ParseDevices (QueryAllDevices (sv_dm sv)) [] = Inr xs" "list_all2 tells xs (QueryAllDevices (sv_dm sv))"
    using ParseDevices_ready [OF assms(8), of "[]"] by auto
  then show ?thesis
    using c' assms(6,7)
    by (simp add: Client_QueryAllDeviceInfo_def client_call_def service_proxy_def DriverExtMgr_QueryDeviceInfo_def)
qed

theorem restarted_service_is_queried_witness:
  "\<exists>x c'. Client_QueryAllDeviceInfo a_client_env [] (service_proxy an_env ok_env (\<lambda>_. None) ''zh'' True caller_five)
      (Client_OnRemoteDied (Some (Some 3)) connected_client) plugged_service = Inr (EDM_OK, Some [x], c', plugged_service)
    \<and> dx_deviceId x = GetDeviceId a_usb_device \<and> ec_proxy c' = Some 3"
proof -
  obtain d where d: "QueryAllDevices (sv_dm plugged_service) = [d]" "dv_info d = a_usb_device" by (rule plugged_visible)
  have "ec_proxy connected_client = Some 3" "ce_sam a_client_env" "ce_remote a_client_env = Some 3"
      "ce_isProxy a_client_env 3 \<and> ce_addDeath a_client_env 3" "ce_cast a_client_env 3"
    by (simp_all add: connected_client_def a_client_env_def)
  from restarted_service_is_queried [OF this caller_five_ok plugged_ready]
  obtain xs c' where xs: "Client_QueryAllDeviceInfo a_client_env [] (service_proxy an_env ok_env (\<lambda>_. None) ''zh'' True caller_five)
      (Client_OnRemoteDied (Some (Some 3)) connected_client) plugged_service = Inr (EDM_OK, Some xs, c', plugged_service)"
      "ec_proxy c' = Some 3" "list_all2 tells xs [d]"
    unfolding d(1) by blast
  then obtain x where "xs = [x]" "tells x d" by (auto simp: list_all2_Cons2)
  then show ?thesis using xs(1,2) d(2) by (auto simp: tells_def)
qed

end
