(* ===== verification/Js_Values.thy ===== *)
theory Js_Values
  imports Edm_Client Bus_Core
begin

text \<open>
  The module deviceManager for scripts, frameworks/js/napi/device_manager/device_manager_middle.cpp:
  how values cross between the script and the client library, and the queries.

  The engine is external: it is the argument \<open>N\<close>, a record of the Node-API calls that the code makes.
  A call that fails is None; the macro \<open>NAPI_CALL\<close> then returns a null value from the function, which
  is None as well. A value the code is building is updated by the calls that set its members. What the
  code relies on is \<open>napi_ok\<close>.
\<close>

section \<open>The engine\<close>

datatype js_type = Ty_undefined | Ty_null | Ty_boolean | Ty_number | Ty_bigint | Ty_string | Ty_object | Ty_function

record 'v napi =
  nv_typeof :: "'v \<Rightarrow> js_type"
  nv_undefined :: 'v
  nv_boolean :: "bool \<Rightarrow> 'v option"
  nv_int32 :: "int \<Rightarrow> 'v option"
  nv_uint32 :: "u32 \<Rightarrow> 'v option"
  nv_int64 :: "int \<Rightarrow> 'v option"
  nv_bigint :: "u64 \<Rightarrow> 'v option"
  nv_string :: "string \<Rightarrow> 'v option"
  nv_object :: "'v option"
  nv_array :: "'v option"
  nv_error :: "'v \<Rightarrow> 'v"
  nv_remote :: "nat \<Rightarrow> 'v"
  nv_set :: "string \<Rightarrow> 'v \<Rightarrow> 'v \<Rightarrow> 'v option"
  nv_set_element :: "nat \<Rightarrow> 'v \<Rightarrow> 'v \<Rightarrow> 'v option"
  nv_get_int32 :: "'v \<Rightarrow> int option"
  nv_get_int64 :: "'v \<Rightarrow> int option"
  nv_get_bigint :: "'v \<Rightarrow> u64 option"
  nv_get_string :: "'v \<Rightarrow> string option"

section \<open>Errors\<close>

abbreviation (input) PERMISSION_DENIED :: int where "PERMISSION_DENIED \<equiv> 201"
abbreviation (input) PERMISSION_NOT_SYSTEM_APP :: int where "PERMISSION_NOT_SYSTEM_APP \<equiv> 202"
abbreviation (input) PARAMETER_ERROR :: int where "PARAMETER_ERROR \<equiv> 401"
abbreviation (input) SERVICE_EXCEPTION :: int where "SERVICE_EXCEPTION \<equiv> 22900001"
abbreviation (input) SERVICE_EXCEPTION_NEW :: int where "SERVICE_EXCEPTION_NEW \<equiv> 26300001"
abbreviation (input) SERVICE_NOT_ALLOW_ACCESS :: int where "SERVICE_NOT_ALLOW_ACCESS \<equiv> 26300002"
abbreviation (input) SERVICE_NOT_BOUND :: int where "SERVICE_NOT_BOUND \<equiv> 26300003"

definition ERROR_MESSAGES :: "(int \<times> string) list" where
  "ERROR_MESSAGES =
    [(SERVICE_EXCEPTION, ''ExternalDeviceManager service exception.''),
     (PERMISSION_DENIED, ''Permission verification failed. The application does not have the permission required to call the API.''),
     (PERMISSION_NOT_SYSTEM_APP, ''Permission denied. A non-system application cannot call a system API.''),
     (PARAMETER_ERROR, ''Parameter error. Possible causes: 1. Mandatory parameters are left unspecified; 2. Incorrect parameter types; 3. Parameter verification failed.''),
     (SERVICE_EXCEPTION_NEW, ''ExternalDeviceManager service exception.''),
     (SERVICE_NOT_ALLOW_ACCESS, ''Driver does not allow application access.''),
     (SERVICE_NOT_BOUND, ''There is no binding relationship between the application and the driver.'')]"

definition GetNapiError :: "int \<Rightarrow> string option" where
  "GetNapiError errorCode = map_of ERROR_MESSAGES errorCode"

text \<open>What a function of the module does: it returns a value, a null value, or throws an error of a code.\<close>

datatype 'v js_result = JReturn 'v | JNull | JThrow int

definition of_value :: "'v option \<Rightarrow> 'v js_result" where
  "of_value v = (case v of None \<Rightarrow> JNull | Some v \<Rightarrow> JReturn v)"

text \<open>A code without a message is not thrown.\<close>

definition ThrowErr :: "int \<Rightarrow> 'v js_result" where
  "ThrowErr errCode = (case GetNapiError errCode of None \<Rightarrow> JNull | Some msg \<Rightarrow> JThrow errCode)"

text \<open>The status of the last calls is not looked at: a member that cannot be set is missing.\<close>

definition set_or_keep :: "'v napi \<Rightarrow> string \<Rightarrow> 'v \<Rightarrow> 'v \<Rightarrow> 'v" where
  "set_or_keep N name v ob = (case nv_set N name v ob of None \<Rightarrow> ob | Some ob \<Rightarrow> ob)"

definition CreateBusinessError :: "'v napi \<Rightarrow> int \<Rightarrow> string \<Rightarrow> 'v option" where
  "CreateBusinessError N errCode errMessage =
     (case nv_int32 N errCode of None \<Rightarrow> None
      | Some code \<Rightarrow>
          (case nv_string N (c_str errMessage) of None \<Rightarrow> None
           | Some msg \<Rightarrow> Some (set_or_keep N ''message'' msg (set_or_keep N ''code'' code (nv_error N msg)))))"

text \<open>\<open>isOk\<close>: the error code of the message is \<open>EDM_OK\<close>. Every other code becomes the same error.\<close>

definition ConvertToBusinessError :: "'v napi \<Rightarrow> bool \<Rightarrow> 'v option" where
  "ConvertToBusinessError N isOk =
     (if isOk then Some (nv_undefined N)
      else case GetNapiError SERVICE_EXCEPTION of None \<Rightarrow> Some (nv_undefined N)
      | Some msgString \<Rightarrow> CreateBusinessError N SERVICE_EXCEPTION msgString)"

section \<open>Numbers of devices\<close>

definition MAX_JS_NUMBER :: u64 where
  "MAX_JS_NUMBER = 9007199254740991"

definition ConvertToJsDeviceId :: "'v napi \<Rightarrow> u64 \<Rightarrow> 'v option" where
  "ConvertToJsDeviceId N deviceId =
     (if deviceId > MAX_JS_NUMBER then nv_bigint N deviceId else nv_int64 N (uint deviceId))"

text \<open>Whether a large integer lost bits is not looked at.\<close>

definition ParseDeviceId :: "'v napi \<Rightarrow> 'v \<Rightarrow> u64 option" where
  "ParseDeviceId N v =
     (if nv_typeof N v = Ty_bigint then nv_get_bigint N v
      else if nv_typeof N v = Ty_number then map_option word_of_int (nv_get_int64 N v)
      else None)"

definition IsMatchType :: "'v napi \<Rightarrow> 'v \<Rightarrow> js_type \<Rightarrow> bool" where
  "IsMatchType N v type \<longleftrightarrow> nv_typeof N v = type"

section \<open>Objects for the script\<close>

text \<open>
  Members are set one after the other, each from a value that has just been made; the first failure
  gives up.
\<close>

fun set_members :: "'v napi \<Rightarrow> (string \<times> 'v option) list \<Rightarrow> 'v \<Rightarrow> 'v option" where
  "set_members N [] ob = Some ob"
| "set_members N ((name, v) # vs) ob =
     (case v of None \<Rightarrow> None
      | Some v \<Rightarrow> (case nv_set N name v ob of None \<Rightarrow> None | Some ob \<Rightarrow> set_members N vs ob))"

definition new_object :: "'v napi \<Rightarrow> (string \<times> 'v option) list \<Rightarrow> 'v option" where
  "new_object N vs = (case nv_object N of None \<Rightarrow> None | Some ob \<Rightarrow> set_members N vs ob)"

text \<open>An element that is null cannot be set.\<close>

fun set_elements :: "'v napi \<Rightarrow> nat \<Rightarrow> 'v option list \<Rightarrow> 'v \<Rightarrow> 'v option" where
  "set_elements N i [] a = Some a"
| "set_elements N i (v # vs) a =
     (case v of None \<Rightarrow> None
      | Some v \<Rightarrow> (case nv_set_element N i v a of None \<Rightarrow> None | Some a \<Rightarrow> set_elements N (Suc i) vs a))"

definition js_array :: "'v napi \<Rightarrow> 'v option list \<Rightarrow> 'v option" where
  "js_array N vs = (case nv_array N of None \<Rightarrow> None | Some a \<Rightarrow> set_elements N 0 vs a)"

text \<open>An object whose bus type is USB is cast to the USB class without a check.\<close>

definition ConvertDeviceToJsDevice :: "'v napi \<Rightarrow> device_data \<Rightarrow> 'v option res" where
  "ConvertDeviceToJsDevice N device =
     (let base =
       [(''busType'', nv_int32 N (sint (dd_busType device))),
        (''deviceId'', ConvertToJsDeviceId N (dd_deviceId device)),
        (''description'', nv_string N (dd_descripton device))] in
      if dd_busType device = BUS_TYPE_USB then
        (case dd_usb device of None \<Rightarrow> Inl Bad_cast
         | Some (productId, vendorId) \<Rightarrow>
             Inr (new_object N (base @
               [(''vendorId'', nv_uint32 N (ucast vendorId)), (''productId'', nv_uint32 N (ucast productId))])))
      else Inr (new_object N base))"

definition ConvertToJsUSBInterfaceDesc :: "'v napi \<Rightarrow> usb_interface_desc option \<Rightarrow> 'v option" where
  "ConvertToJsUSBInterfaceDesc N desc =
     (case desc of None \<Rightarrow> None
      | Some d \<Rightarrow> new_object N
          [(''bInterfaceNumber'', nv_uint32 N (ucast (ui_bInterfaceNumber d))),
           (''bClass'', nv_uint32 N (ucast (ui_bClass d))),
           (''bSubClass'', nv_uint32 N (ucast (ui_bSubClass d))),
           (''bProtocol'', nv_uint32 N (ucast (ui_bProtocol d)))])"

definition ConvertToJsDeviceInfo :: "'v napi \<Rightarrow> device_info_data \<Rightarrow> 'v option res" where
  "ConvertToJsDeviceInfo N deviceInfo =
     (let base =
       [(''deviceId'', ConvertToJsDeviceId N (dx_deviceId deviceInfo)),
        (''isDriverMatched'', nv_boolean N (dx_isDriverMatched deviceInfo))]
       @ (if dx_isDriverMatched deviceInfo then [(''driverUid'', nv_string N (dx_driverUid deviceInfo))] else []) in
      if GetBusTypeByDeviceId (dx_deviceId deviceInfo) = BUS_TYPE_USB then
        (case dx_usb deviceInfo of None \<Rightarrow> Inl Bad_cast
         | Some u \<Rightarrow>
             Inr (new_object N (base @
               [(''vendorId'', nv_uint32 N (ucast (ux_vendorId u))), (''productId'', nv_uint32 N (ucast (ux_productId u))),
                (''interfaceDescList'', js_array N (map (ConvertToJsUSBInterfaceDesc N) (ux_interfaceDescList u)))])))
      else Inr (new_object N base))"

definition js_numbers :: "'v napi \<Rightarrow> u16 list \<Rightarrow> 'v option" where
  "js_numbers N xs = js_array N (map (\<lambda>x. nv_uint32 N (ucast x)) xs)"

definition ConvertToJsDriverInfo :: "'v napi \<Rightarrow> driver_info_data \<Rightarrow> 'v option res" where
  "ConvertToJsDriverInfo N driverInfo =
     (let base =
       [(''busType'', nv_int32 N (sint (rx_busType driverInfo))),
        (''driverUid'', nv_string N (rx_driverUid driverInfo)),
        (''driverName'', nv_string N (rx_driverName driverInfo)),
        (''driverSize'', nv_string N (rx_bundleSize driverInfo)),
        (''driverVersion'', nv_string N (rx_version driverInfo)),
        (''description'', nv_string N (rx_description driverInfo))] in
      if rx_busType driverInfo = BUS_TYPE_USB then
        (case rx_usb driverInfo of None \<Rightarrow> Inl Bad_cast
         | Some (pids, vids) \<Rightarrow>
             Inr (new_object N (base @ [(''productIdList'', js_numbers N pids), (''vendorIdList'', js_numbers N vids)])))
      else Inr (new_object N base))"

text \<open>The first argument of a connection: null when there is no remote object.\<close>

definition GetCallbackResult :: "'v napi \<Rightarrow> u64 \<Rightarrow> nat option \<Rightarrow> 'v option" where
  "GetCallbackResult N deviceId drvExtObj =
     (case nv_object N of None \<Rightarrow> None
      | Some result \<Rightarrow>
          let result = (case ConvertToJsDeviceId N deviceId of None \<Rightarrow> result | Some i \<Rightarrow> set_or_keep N ''deviceId'' i result) in
          Some (set_or_keep N ''remote'' (case drvExtObj of None \<Rightarrow> nv_undefined N | Some r \<Rightarrow> nv_remote N r) result))"

section \<open>The queries\<close>

fun convert_all :: "('a \<Rightarrow> 'v option res) \<Rightarrow> 'a list \<Rightarrow> 'v option list res" where
  "convert_all f [] = Inr []"
| "convert_all f (x # xs) = bindE (f x) (\<lambda>v. bindE (convert_all f xs) (\<lambda>vs. Inr (v # vs)))"

text \<open>
  \<open>args\<close> are the arguments of the script, at most as many as the function declares, \<open>deaths\<close> the
  notices of dead objects that reach the client library during its call. The result is what the
  script gets, with the new state of the client and of the service.
\<close>

definition QueryDevices ::
  "client_env \<Rightarrow> nat option option list \<Rightarrow> ('w, 'cb) edm_proxy \<Rightarrow> 'v napi \<Rightarrow> 'v list \<Rightarrow> edm_client \<Rightarrow> 'w \<Rightarrow> ('v js_result \<times> edm_client \<times> 'w) res" where
  "QueryDevices E deaths X N args c w =
     (case (case args of [] \<Rightarrow> Some 1
            | a # _ \<Rightarrow> if IsMatchType N a Ty_number then nv_get_int32 N a else Some 1) of
        None \<Rightarrow> Inr (JNull, c, w)
      | Some busType \<Rightarrow>
          bindE (Client_QueryDevice E deaths X (word_of_int busType) c w) (\<lambda>(retCode, devices, c, w).
            if retCode \<noteq> EDM_OK then
              Inr (if retCode = EDM_ERR_NO_PERM then ThrowErr PERMISSION_DENIED else ThrowErr SERVICE_EXCEPTION, c, w)
            else
              bindE (convert_all (ConvertDeviceToJsDevice N) (case devices of None \<Rightarrow> [] | Some ds \<Rightarrow> ds)) (\<lambda>vs.
                Inr (of_value (js_array N vs), c, w))))"

text \<open>The three errors of the queries for systems applications.\<close>

definition query_error :: "UsbErrCode \<Rightarrow> int" where
  "query_error ret =
     (if ret = EDM_ERR_NOT_SYSTEM_APP then PERMISSION_NOT_SYSTEM_APP
      else if ret = EDM_ERR_NO_PERM then PERMISSION_DENIED
      else SERVICE_EXCEPTION_NEW)"

definition Js_QueryDeviceInfo ::
  "client_env \<Rightarrow> nat option option list \<Rightarrow> ('w, 'cb) edm_proxy \<Rightarrow> 'v napi \<Rightarrow> 'v list \<Rightarrow> edm_client \<Rightarrow> 'w \<Rightarrow> ('v js_result \<times> edm_client \<times> 'w) res" where
  "Js_QueryDeviceInfo E deaths X N args c w =
     (let finish = (\<lambda>(ret, infos, c, w).
        if ret \<noteq> EDM_OK then Inr (ThrowErr (query_error ret), c, w)
        else bindE (convert_all (ConvertToJsDeviceInfo N) (case infos of None \<Rightarrow> [] | Some xs \<Rightarrow> xs)) (\<lambda>vs.
          Inr (of_value (js_array N vs), c, w))) in
      case args of [] \<Rightarrow> bindE (Client_QueryAllDeviceInfo E deaths X c w) finish
      | a # _ \<Rightarrow>
          (case ParseDeviceId N a of None \<Rightarrow> Inr (ThrowErr PARAMETER_ERROR, c, w)
           | Some deviceId \<Rightarrow> bindE (Client_QueryDeviceInfo E deaths X deviceId c w) finish))"

definition Js_QueryDriverInfo ::
  "client_env \<Rightarrow> nat option option list \<Rightarrow> ('w, 'cb) edm_proxy \<Rightarrow> 'v napi \<Rightarrow> 'v list \<Rightarrow> edm_client \<Rightarrow> 'w \<Rightarrow> ('v js_result \<times> edm_client \<times> 'w) res" where
  "Js_QueryDriverInfo E deaths X N args c w =
     (let finish = (\<lambda>(ret, infos, c, w).
        if ret \<noteq> EDM_OK then Inr (ThrowErr (query_error ret), c, w)
        else bindE (convert_all (ConvertToJsDriverInfo N) (case infos of None \<Rightarrow> [] | Some xs \<Rightarrow> xs)) (\<lambda>vs.
          Inr (of_value (js_array N vs), c, w))) in
      case args of [] \<Rightarrow> bindE (Client_QueryAllDriverInfo E deaths X c w) finish
      | a # _ \<Rightarrow>
          if \<not> IsMatchType N a Ty_string then Inr (ThrowErr PARAMETER_ERROR, c, w)
          else case nv_get_string N a of None \<Rightarrow> Inr (JNull, c, w)
          | Some driverUid \<Rightarrow> bindE (Client_QueryDriverInfo E deaths X driverUid c w) finish)"

end
