(* ===== verification/Js_Bind.thy ===== *)
theory Js_Bind
  imports Js_Values
begin

text \<open>
  Binding and unbinding from a script, frameworks/js/napi/device_manager/device_manager_middle.cpp:
  the data of a pending binding, the table g_callbackMap, and the callbacks of the service.

  Two threads share the table. The thread of the script runs bindDevice, unbindDevice and their
  variants for drivers, and the tasks that were sent to it; while such a function waits for the
  service, the threads of the process communication run OnConnect, OnDisconnect and OnUnBind. The
  lock of the table makes each of these and each half of a script function, before and after the
  call of the service, one step. A script function that a task calls sees only data that is not that
  of the task, so it is a step after the task.

  A data object is a number; it is deleted when nothing owns it: not the table, not a task, not the
  script function that waits. A reference to a script function and a promise are numbers, too; using
  a deleted reference or settling a promise a second time is a fault, since the engine has freed them.
\<close>

section \<open>State\<close>

text \<open>\<open>ad_unBindOk\<close> tells whether \<open>unBindErrMsg\<close> is ok; a new message is not.\<close>

record async_data =
  ad_deviceId :: u64
  ad_bindCallback :: "nat option"
  ad_onDisconnect :: "nat option"
  ad_unbindCallback :: "nat option"
  ad_bindDeferred :: "nat option"
  ad_unbindDeferred :: "nat option"
  ad_unBindOk :: bool

datatype js_task =
    OnConnectTask nat "nat option" bool
  | OnDisconnectTask nat bool
  | DeleteRefsTask "nat option list"

text \<open>The script function that waits: whether it is the variant for drivers, its object or device, and whether the script passed a callback.\<close>

datatype js_call = Binding bool nat bool | Unbinding bool u64 bool

record js_state =
  js_data :: "(nat \<times> async_data) list"
  js_map :: "(u64 \<times> nat) list"
  js_tasks :: "js_task list"
  js_call :: "js_call option"
  js_refs :: "nat list"
  js_deferred :: "nat list"
  js_next :: nat

definition js_start :: js_state where
  "js_start = \<lparr>js_data = [], js_map = [], js_tasks = [], js_call = None, js_refs = [], js_deferred = [], js_next = 0\<rparr>"

text \<open>What the script sees: errors, promises made and settled, functions called; and the calls of the service.\<close>

datatype js_event =
    Threw int
  | Failed
  | Call_service bool u64
  | Call_unbind bool u64
  | Promise_made nat u64
  | Settled_bind nat u64 "nat option" bool
  | Settled_unbind nat u64 bool
  | Called_bind nat u64 "nat option" bool
  | Called_disconnect nat u64 bool
  | Called_unbind nat u64 bool

definition throws :: "int \<Rightarrow> js_event list" where
  "throws errCode = (case GetNapiError errCode of None \<Rightarrow> [] | Some _ \<Rightarrow> [Threw errCode])"

section \<open>The engine's references and promises\<close>

definition use_ref :: "nat \<Rightarrow> js_state \<Rightarrow> unit res" where
  "use_ref r s = (if r \<in> set (js_refs s) then Inr () else Inl Use_after_free)"

definition delete_ref :: "nat \<Rightarrow> js_state \<Rightarrow> js_state res" where
  "delete_ref r s = (if r \<in> set (js_refs s) then Inr (s\<lparr>js_refs := removeAll r (js_refs s)\<rparr>) else Inl Use_after_free)"

definition settle :: "nat \<Rightarrow> js_state \<Rightarrow> js_state res" where
  "settle p s = (if p \<in> set (js_deferred s) then Inr (s\<lparr>js_deferred := removeAll p (js_deferred s)\<rparr>) else Inl Use_after_free)"

definition new_ref :: "js_state \<Rightarrow> nat \<times> js_state" where
  "new_ref s = (js_next s, s\<lparr>js_refs := js_next s # js_refs s, js_next := Suc (js_next s)\<rparr>)"

definition new_promise :: "js_state \<Rightarrow> nat \<times> js_state" where
  "new_promise s = (js_next s, s\<lparr>js_deferred := js_next s # js_deferred s, js_next := Suc (js_next s)\<rparr>)"

fun delete_refs :: "nat option list \<Rightarrow> js_state \<Rightarrow> js_state res" where
  "delete_refs [] s = Inr s"
| "delete_refs (None # rs) s = delete_refs rs s"
| "delete_refs (Some r # rs) s = bindE (delete_ref r s) (delete_refs rs)"

definition set_data :: "nat \<Rightarrow> (async_data \<Rightarrow> async_data) \<Rightarrow> js_state \<Rightarrow> js_state" where
  "set_data i f s = s\<lparr>js_data := map (\<lambda>(j, d). (j, if j = i then f d else d)) (js_data s)\<rparr>"

section \<open>Owners\<close>

fun task_owns :: "nat \<Rightarrow> js_task \<Rightarrow> bool" where
  "task_owns i (OnConnectTask j _ _) \<longleftrightarrow> j = i"
| "task_owns i (OnDisconnectTask j _) \<longleftrightarrow> j = i"
| "task_owns i (DeleteRefsTask _) \<longleftrightarrow> False"

fun call_owns :: "nat \<Rightarrow> js_call option \<Rightarrow> bool" where
  "call_owns i (Some (Binding _ j _)) \<longleftrightarrow> j = i"
| "call_owns i _ \<longleftrightarrow> False"

definition owned :: "js_state \<Rightarrow> nat \<Rightarrow> bool" where
  "owned s i \<longleftrightarrow> i \<in> snd ` set (js_map s) \<or> list_ex (task_owns i) (js_tasks s) \<or> call_owns i (js_call s)"

text \<open>\<open>DeleteNapiRef\<close>, from the destructor: \<open>sent\<close> tells whether the task could be sent.\<close>

definition DeleteNapiRef :: "bool \<Rightarrow> async_data \<Rightarrow> js_state \<Rightarrow> js_state" where
  "DeleteNapiRef sent d s =
     (if sent then s\<lparr>js_tasks := js_tasks s @ [DeleteRefsTask [ad_bindCallback d, ad_onDisconnect d, ad_unbindCallback d]]\<rparr> else s)"

definition collect :: "bool \<Rightarrow> js_state \<Rightarrow> js_state" where
  "collect sent s =
     fold (\<lambda>e. DeleteNapiRef sent (snd e)) (filter (\<lambda>e. \<not> owned s (fst e)) (js_data s))
       (s\<lparr>js_data := filter (\<lambda>e. owned s (fst e)) (js_data s)\<rparr>)"

section \<open>Binding\<close>

text \<open>The table loses the entry of the device if it is still that of the object.\<close>

definition erase_own :: "nat \<Rightarrow> u64 \<Rightarrow> js_state \<Rightarrow> js_state" where
  "erase_own i deviceId s =
     (if map_of (js_map s) deviceId = Some i then s\<lparr>js_map := al_del deviceId (js_map s)\<rparr> else s)"

definition new_data :: "u64 \<Rightarrow> async_data" where
  "new_data deviceId =
     \<lparr>ad_deviceId = deviceId, ad_bindCallback = None, ad_onDisconnect = None, ad_unbindCallback = None,
      ad_bindDeferred = None, ad_unbindDeferred = None, ad_unBindOk = False\<rparr>"

text \<open>
  \<open>BindDevice\<close> and \<open>BindDriverWithDeviceId\<close> up to the call of the service. \<open>alloc\<close> and \<open>ref_ok\<close> are
  the answers of the allocation and of the engine.
\<close>

definition BindStart :: "'v napi \<Rightarrow> bool \<Rightarrow> bool \<Rightarrow> bool \<Rightarrow> 'v list \<Rightarrow> js_state \<Rightarrow> (js_event list \<times> js_state) res" where
  "BindStart N driver alloc ref_ok args s =
     (if length args < 2 then Inr (throws PARAMETER_ERROR, s)
      else case ParseDeviceId N (args ! 0) of None \<Rightarrow> Inr (throws PARAMETER_ERROR, s)
      | Some deviceId \<Rightarrow>
          if \<not> IsMatchType N (args ! 1) Ty_function then Inr (throws PARAMETER_ERROR, s)
          else if \<not> alloc then Inr (throws PARAMETER_ERROR, s)
          else
            let i = js_next s;
                s = s\<lparr>js_data := (i, new_data deviceId) # js_data s, js_next := Suc i\<rparr> in
            if \<not> ref_ok then Inr ([Failed], s)
            else case new_ref s of (r, s) \<Rightarrow>
              let s = set_data i (\<lambda>d. d\<lparr>ad_onDisconnect := Some r\<rparr>) s;
                  s = s\<lparr>js_map := al_put deviceId i (js_map s),
                        js_call := Some (Binding driver i (length args > 2 \<and> IsMatchType N (args ! 2) Ty_function))\<rparr> in
              Inr ([Call_service driver deviceId], s))"

definition bind_error :: "bool \<Rightarrow> UsbErrCode \<Rightarrow> int" where
  "bind_error driver retCode =
     (if retCode = EDM_ERR_NO_PERM then PERMISSION_DENIED
      else if driver \<and> retCode = EDM_ERR_SERVICE_NOT_ALLOW_ACCESS then SERVICE_NOT_ALLOW_ACCESS
      else if driver then SERVICE_EXCEPTION_NEW
      else SERVICE_EXCEPTION)"

text \<open>Both error paths: the entry and the reference to the script's function go.\<close>

definition drop_binding :: "nat \<Rightarrow> async_data \<Rightarrow> js_state \<Rightarrow> js_state res" where
  "drop_binding i d s =
     (let s = erase_own i (ad_deviceId d) s in
      bindE (delete_refs [ad_onDisconnect d] s) (\<lambda>s. Inr (set_data i (\<lambda>d. d\<lparr>ad_onDisconnect := None\<rparr>) s)))"

text \<open>The rest, with the result of the service and the answer of the engine for the callback or promise.\<close>

definition BindEnd :: "UsbErrCode \<Rightarrow> bool \<Rightarrow> js_state \<Rightarrow> (js_event list \<times> js_state) res" where
  "BindEnd retCode made s =
     (case js_call s of
        Some (Binding driver i callback) \<Rightarrow>
          (case map_of (js_data s) i of None \<Rightarrow> Inl Use_after_free
           | Some d \<Rightarrow>
               if retCode \<noteq> EDM_OK then
                 bindE (drop_binding i d s) (\<lambda>s. Inr (throws (bind_error driver retCode), s\<lparr>js_call := None\<rparr>))
               else if \<not> made then
                 bindE (drop_binding i d s) (\<lambda>s.
                   Inr (Call_unbind driver (ad_deviceId d)
                          # throws (if driver then SERVICE_EXCEPTION_NEW else SERVICE_EXCEPTION), s\<lparr>js_call := None\<rparr>))
               else if callback then
                 (case new_ref s of (r, s) \<Rightarrow>
                    Inr ([], (set_data i (\<lambda>d. d\<lparr>ad_bindCallback := Some r\<rparr>) s)\<lparr>js_call := None\<rparr>))
               else
                 (case new_promise s of (p, s) \<Rightarrow>
                    Inr ([Promise_made p (ad_deviceId d)],
                         (set_data i (\<lambda>d. d\<lparr>ad_bindDeferred := Some p\<rparr>) s)\<lparr>js_call := None\<rparr>)))
      | _ \<Rightarrow> Inr ([], s))"

section \<open>Unbinding\<close>

definition UnbindStart :: "'v napi \<Rightarrow> bool \<Rightarrow> 'v list \<Rightarrow> js_state \<Rightarrow> (js_event list \<times> js_state) res" where
  "UnbindStart N driver args s =
     (if length args < 1 then Inr (throws PARAMETER_ERROR, s)
      else case ParseDeviceId N (args ! 0) of None \<Rightarrow> Inr (throws PARAMETER_ERROR, s)
      | Some deviceId \<Rightarrow>
          Inr ([Call_unbind driver deviceId],
               s\<lparr>js_call := Some (Unbinding driver deviceId (length args > 1 \<and> IsMatchType N (args ! 1) Ty_function))\<rparr>))"

definition unbind_error :: "bool \<Rightarrow> UsbErrCode \<Rightarrow> int" where
  "unbind_error driver retCode =
     (if retCode = EDM_ERR_NO_PERM then PERMISSION_DENIED
      else if driver \<and> retCode = EDM_ERR_SERVICE_NOT_BOUND then SERVICE_NOT_BOUND
      else if driver then SERVICE_EXCEPTION_NEW
      else SERVICE_EXCEPTION)"

definition UnbindEnd :: "UsbErrCode \<Rightarrow> bool \<Rightarrow> js_state \<Rightarrow> (js_event list \<times> js_state) res" where
  "UnbindEnd retCode made s =
     (case js_call s of
        Some (Unbinding driver deviceId callback) \<Rightarrow>
          let s = s\<lparr>js_call := None\<rparr> in
          if retCode \<noteq> EDM_OK then Inr (throws (unbind_error driver retCode), s)
          else case map_of (js_map s) deviceId of None \<Rightarrow> Inr (throws SERVICE_EXCEPTION, s)
          | Some i \<Rightarrow>
              if \<not> made then Inr ([Failed], s)
              else if callback then
                (case new_ref s of (r, s) \<Rightarrow> Inr ([], set_data i (\<lambda>d. d\<lparr>ad_unbindCallback := Some r\<rparr>) s))
              else
                (case new_promise s of (p, s) \<Rightarrow>
                   Inr ([Promise_made p deviceId], set_data i (\<lambda>d. d\<lparr>ad_unbindDeferred := Some p\<rparr>) s))
      | _ \<Rightarrow> Inr ([], s))"

section \<open>The callbacks of the service\<close>

text \<open>\<open>ok\<close>: the error message is ok, \<open>sent\<close>: the task could be sent. The results are the codes of the callbacks.\<close>

definition DeviceManagerCallback_OnConnect :: "u64 \<Rightarrow> nat option \<Rightarrow> bool \<Rightarrow> bool \<Rightarrow> js_state \<Rightarrow> UsbErrCode \<times> js_state" where
  "DeviceManagerCallback_OnConnect deviceId drvExtObj ok sent s =
     (case map_of (js_map s) deviceId of None \<Rightarrow> (EDM_NOK, s)
      | Some i \<Rightarrow>
          let s = (if \<not> ok then s\<lparr>js_map := al_del deviceId (js_map s)\<rparr> else s) in
          if \<not> sent then (EDM_NOK, s)
          else (EDM_OK, s\<lparr>js_tasks := js_tasks s @ [OnConnectTask i drvExtObj ok]\<rparr>))"

definition DeviceManagerCallback_OnDisconnect :: "u64 \<Rightarrow> bool \<Rightarrow> bool \<Rightarrow> js_state \<Rightarrow> (UsbErrCode \<times> js_state) res" where
  "DeviceManagerCallback_OnDisconnect deviceId ok sent s =
     (case map_of (js_map s) deviceId of None \<Rightarrow> Inr (EDM_NOK, s)
      | Some i \<Rightarrow>
          let s = s\<lparr>js_map := al_del deviceId (js_map s)\<rparr> in
          (case map_of (js_data s) i of None \<Rightarrow> Inl Use_after_free
           | Some d \<Rightarrow>
               if ad_onDisconnect d = None \<and> ad_unbindCallback d = None \<and> ad_unbindDeferred d = None then Inr (EDM_NOK, s)
               else if \<not> sent then Inr (EDM_NOK, s)
               else Inr (EDM_OK, s\<lparr>js_tasks := js_tasks s @ [OnDisconnectTask i ok]\<rparr>)))"

definition DeviceManagerCallback_OnUnBind :: "u64 \<Rightarrow> bool \<Rightarrow> js_state \<Rightarrow> (UsbErrCode \<times> js_state) res" where
  "DeviceManagerCallback_OnUnBind deviceId ok s =
     (case map_of (js_map s) deviceId of None \<Rightarrow> Inr (EDM_NOK, s)
      | Some i \<Rightarrow>
          (case map_of (js_data s) i of None \<Rightarrow> Inl Use_after_free
           | Some d \<Rightarrow>
               if ad_unbindCallback d = None \<and> ad_unbindDeferred d = None then Inr (EDM_NOK, s)
               else Inr (EDM_OK, set_data i (\<lambda>d. d\<lparr>ad_unBindOk := ok\<rparr>) s)))"

section \<open>Tasks\<close>

definition RunOnConnect :: "nat \<Rightarrow> nat option \<Rightarrow> bool \<Rightarrow> js_state \<Rightarrow> (js_event list \<times> js_state) res" where
  "RunOnConnect i drvExtObj ok s =
     (case map_of (js_data s) i of None \<Rightarrow> Inl Use_after_free
      | Some d \<Rightarrow>
          (case ad_bindCallback d of
             Some r \<Rightarrow> bindE (use_ref r s) (\<lambda>_. Inr ([Called_bind r (ad_deviceId d) drvExtObj ok], s))
           | None \<Rightarrow>
               (case ad_bindDeferred d of None \<Rightarrow> Inr ([], s)
                | Some p \<Rightarrow> bindE (settle p s) (\<lambda>s. Inr ([Settled_bind p (ad_deviceId d) drvExtObj ok], s)))))"

definition RunOnDisconnect :: "nat \<Rightarrow> bool \<Rightarrow> js_state \<Rightarrow> (js_event list \<times> js_state) res" where
  "RunOnDisconnect i ok s =
     (case map_of (js_data s) i of None \<Rightarrow> Inl Use_after_free
      | Some d \<Rightarrow>
          bindE (case ad_onDisconnect d of None \<Rightarrow> Inr []
                 | Some r \<Rightarrow> bindE (use_ref r s) (\<lambda>_. Inr [Called_disconnect r (ad_deviceId d) ok])) (\<lambda>evs.
            (case ad_unbindCallback d of
               Some r \<Rightarrow> bindE (use_ref r s) (\<lambda>_. Inr (evs @ [Called_unbind r (ad_deviceId d) (ad_unBindOk d)], s))
             | None \<Rightarrow>
                 (case ad_unbindDeferred d of None \<Rightarrow> Inr (evs, s)
                  | Some p \<Rightarrow>
                      bindE (settle p s) (\<lambda>s. Inr (evs @ [Settled_unbind p (ad_deviceId d) (ad_unBindOk d)], s))))))"

fun RunJsTask :: "js_task \<Rightarrow> js_state \<Rightarrow> (js_event list \<times> js_state) res" where
  "RunJsTask (OnConnectTask i drvExtObj ok) s = RunOnConnect i drvExtObj ok s"
| "RunJsTask (OnDisconnectTask i ok) s = RunOnDisconnect i ok s"
| "RunJsTask (DeleteRefsTask rs) s = bindE (delete_refs rs s) (\<lambda>s. Inr ([], s))"

section \<open>Steps\<close>

datatype 'v js_op =
    Op_bind bool bool bool "'v list"
  | Op_bind_end UsbErrCode bool
  | Op_unbind bool "'v list"
  | Op_unbind_end UsbErrCode bool
  | Op_connected u64 "nat option" bool bool
  | Op_disconnected u64 bool bool
  | Op_unbound u64 bool
  | Op_task

text \<open>
  The thread of the script starts a function or a task only when it does not wait. The task has left
  the queue when it runs, and is deleted after it.
\<close>

fun js_step :: "'v napi \<Rightarrow> 'v js_op \<Rightarrow> js_state \<Rightarrow> (js_event list \<times> js_state) res" where
  "js_step N (Op_bind driver alloc ref_ok args) s =
     (if js_call s = None then BindStart N driver alloc ref_ok args s else Inr ([], s))"
| "js_step N (Op_bind_end retCode made) s = BindEnd retCode made s"
| "js_step N (Op_unbind driver args) s = (if js_call s = None then UnbindStart N driver args s else Inr ([], s))"
| "js_step N (Op_unbind_end retCode made) s = UnbindEnd retCode made s"
| "js_step N (Op_connected d remote ok sent) s = Inr ([], snd (DeviceManagerCallback_OnConnect d remote ok sent s))"
| "js_step N (Op_disconnected d ok sent) s =
     bindE (DeviceManagerCallback_OnDisconnect d ok sent s) (\<lambda>(ret, s). Inr ([], s))"
| "js_step N (Op_unbound d ok) s = bindE (DeviceManagerCallback_OnUnBind d ok s) (\<lambda>(ret, s). Inr ([], s))"
| "js_step N Op_task s =
     (if js_call s \<noteq> None then Inr ([], s)
      else case js_tasks s of [] \<Rightarrow> Inr ([], s)
      | t # ts \<Rightarrow> RunJsTask t (s\<lparr>js_tasks := ts\<rparr>))"

text \<open>Every step comes with the answer to the tasks that its deletions send.\<close>

definition js_do :: "'v napi \<Rightarrow> 'v js_op \<times> bool \<Rightarrow> js_state \<Rightarrow> (js_event list \<times> js_state) res" where
  "js_do N op s = bindE (js_step N (fst op) s) (\<lambda>(evs, s). Inr (evs, collect (snd op) s))"

fun js_run :: "'v napi \<Rightarrow> ('v js_op \<times> bool) list \<Rightarrow> js_state \<Rightarrow> (js_event list \<times> js_state) res" where
  "js_run N [] s = Inr ([], s)"
| "js_run N (op # ops) s =
     bindE (js_do N op s) (\<lambda>(evs, s). bindE (js_run N ops s) (\<lambda>(evs', s). Inr (evs @ evs', s)))"

end
