(* ===== verification/Owned_Data.thy ===== *)
theory Owned_Data
  imports Ext_Types "HOL-Library.Multiset"
begin

text \<open>
  What objects hold: numbered objects, each with a multiset of handles; handles held once, and what
  a change of one object does to the sum.
\<close>

section \<open>Sums over objects\<close>

definition opt_mset :: "'a option \<Rightarrow> 'a multiset" where
  "opt_mset x = (case x of None \<Rightarrow> {#} | Some r \<Rightarrow> {#r#})"

lemma opt_mset_simps [simp]: "opt_mset None = {#}" "opt_mset (Some r) = {#r#}"
  by (simp_all add: opt_mset_def)

definition unique :: "'a multiset \<Rightarrow> bool" where
  "unique M \<longleftrightarrow> (\<forall>r. count M r \<le> 1)"

lemma unique_sub: "unique M' \<Longrightarrow> M \<subseteq># M' \<Longrightarrow> unique M"
proof -
  assume u: "unique M'" and m: "M \<subseteq># M'"
  have "count M r \<le> 1" for r
    using u mset_subset_eq_count [OF m, of r] unfolding unique_def by (metis le_trans)
  then show "unique M" by (simp add: unique_def)
qed

lemma unique_add_fresh: "unique M \<Longrightarrow> r \<notin># M \<Longrightarrow> unique (add_mset r M)"
  by (auto simp: unique_def not_in_iff)

lemma unique_disjoint: "unique (M + M') \<Longrightarrow> r \<in># M \<Longrightarrow> r \<notin># M'"
proof -
  assume "unique (M + M')" and r: "r \<in># M"
  then have "count M r + count M' r \<le> 1" by (simp add: unique_def)
  moreover have "count M r > 0" using r by simp
  ultimately have "count M' r = 0" by linarith
  then show "r \<notin># M'" by (simp add: not_in_iff)
qed

definition data_sum :: "('d \<Rightarrow> 'a multiset) \<Rightarrow> (nat \<times> 'd) list \<Rightarrow> 'a multiset" where
  "data_sum g xs = sum_list (map (\<lambda>e. g (snd e)) xs)"

lemma data_sum_simps [simp]:
  "data_sum g [] = {#}" "data_sum g (e # xs) = g (snd e) + data_sum g xs" "data_sum g (xs @ ys) = data_sum g xs + data_sum g ys"
  by (simp_all add: data_sum_def)

lemma data_sum_at: "map_of xs i = Some d \<Longrightarrow> g d \<subseteq># data_sum g xs"
proof (induction xs)
  case (Cons e xs)
  then show ?case
    by (cases "fst e = i") (auto simp: subset_mset.add_increasing subset_mset.add_increasing2 split: prod.splits if_splits)
qed simp

lemma data_sum_two:
  "map_of xs i = Some d \<Longrightarrow> map_of xs j = Some e \<Longrightarrow> i \<noteq> j \<Longrightarrow> g d + g e \<subseteq># data_sum g xs"
proof (induction xs)
  case (Cons x xs)
  show ?case
  proof (cases "fst x = i")
    case True
    then have "snd x = d" "map_of xs j = Some e" using Cons.prems by (cases x; auto)+
    then show ?thesis using data_sum_at [of xs j e g] by (simp add: subset_mset.add_mono)
  next
    case False
    show ?thesis
    proof (cases "fst x = j")
      case True
      then have "snd x = e" "map_of xs i = Some d" using Cons.prems by (cases x; auto)+
      then show ?thesis using data_sum_at [of xs i d g] by (simp add: add.commute subset_mset.add_mono)
    next
      case F: False
      then have "map_of xs i = Some d" "map_of xs j = Some e" using Cons.prems False by (cases x; auto)+
      then show ?thesis using Cons.IH Cons.prems(3) by (simp add: subset_mset.add_increasing)
    qed
  qed
qed simp

lemma data_sum_filter: "data_sum g (filter P xs) + data_sum g (filter (\<lambda>x. \<not> P x) xs) = data_sum g xs"
  by (induction xs) (auto simp: ac_simps)

lemma data_sum_update:
  "distinct (map fst xs) \<Longrightarrow> map_of xs i = Some d \<Longrightarrow>
   data_sum g (map (\<lambda>(j, e). (j, if j = i then f e else e)) xs) + g d = data_sum g xs + g (f d)"
proof (induction xs)
  case (Cons x xs)
  obtain j e where x: "x = (j, e)" by fastforce
  show ?case
  proof (cases "j = i")
    case True
    then have "\<forall>y\<in>set xs. fst y \<noteq> i" using Cons.prems(1) by (force simp: x)
    then have "map (\<lambda>(j, e). (j, if j = i then f e else e)) xs = xs" by (auto intro!: map_idI)
    then show ?thesis using Cons.prems True by (simp add: x ac_simps)
  next
    case False
    then show ?thesis using Cons by (simp add: x ac_simps)
  qed
qed simp

lemma map_of_filter_key: "map_of (filter (\<lambda>e. P (fst e)) xs) i = (if P i then map_of xs i else None)"
  by (induction xs) auto

lemma map_of_update_key:
  "map_of (map (\<lambda>(j, d). (j, if j = i then f d else d)) xs) j = (if j = i then map_option f (map_of xs i) else map_of xs j)"
  by (induction xs) auto

section \<open>Values of a table\<close>

lemma al_del_values: "snd ` set (al_del k m) \<subseteq> snd ` set m"
  by (auto simp: al_del_def)

lemma al_put_values: "snd ` set (al_put k v m) \<subseteq> insert v (snd ` set m)"
  by (induction k v m rule: al_put.induct) auto

end
