(* ===== verification/Js_Bind_Safety.thy ===== *)
theory Js_Bind_Safety
  imports Js_Bind Owned_Data
begin

text \<open>
  The memory of the script module: under every order of script calls, callbacks of the service and
  tasks, no deleted object or reference is used; and no promise is settled twice when the service
  reports the connection of a binding at most once.
\<close>

declare map_of_eq_Some_iff [simp del]

section \<open>Data objects\<close>

abbreviation data_at :: "js_state \<Rightarrow> nat \<Rightarrow> async_data option" where
  "data_at s i \<equiv> map_of (js_data s) i"

lemma data_at_set_data: "data_at (set_data i f s) j = (if j = i then map_option f (data_at s i) else data_at s j)"
  by (simp add: set_data_def map_of_update_key)

lemma set_data_rest [simp]:
  "js_map (set_data i f s) = js_map s" "js_tasks (set_data i f s) = js_tasks s" "js_call (set_data i f s) = js_call s"
  "js_refs (set_data i f s) = js_refs s" "js_deferred (set_data i f s) = js_deferred s" "js_next (set_data i f s) = js_next s"
  "map fst (js_data (set_data i f s)) = map fst (js_data s)" "owned (set_data i f s) = owned s"
  by (auto simp: set_data_def owned_def fun_eq_iff)

lemma fold_DeleteNapiRef:
  "fold (\<lambda>e. DeleteNapiRef sent (snd e)) es s =
     s\<lparr>js_tasks := js_tasks s @
        (if sent then map (\<lambda>e. DeleteRefsTask [ad_bindCallback (snd e), ad_onDisconnect (snd e), ad_unbindCallback (snd e)]) es else [])\<rparr>"
  by (induction es arbitrary: s) (simp_all add: DeleteNapiRef_def)

lemma collect_eq:
  "collect sent s =
     s\<lparr>js_data := filter (\<lambda>e. owned s (fst e)) (js_data s),
       js_tasks := js_tasks s @
        (if sent then map (\<lambda>e. DeleteRefsTask [ad_bindCallback (snd e), ad_onDisconnect (snd e), ad_unbindCallback (snd e)])
           (filter (\<lambda>e. \<not> owned s (fst e)) (js_data s)) else [])\<rparr>"
  by (simp add: collect_def fold_DeleteNapiRef)

lemma owned_collect [simp]: "owned (collect sent s) i = owned s i"
  by (auto simp: collect_eq owned_def list_ex_iff)

lemma data_at_collect: "distinct (map fst (js_data s)) \<Longrightarrow> data_at (collect sent s) i = (if owned s i then data_at s i else None)"
  by (simp add: collect_eq map_of_filter_key)

section \<open>What a state always satisfies\<close>

text \<open>Objects have their own numbers, and what is owned exists; the table has an object under its own device.\<close>

definition objects_ok :: "js_state \<Rightarrow> bool" where
  "objects_ok s \<longleftrightarrow> distinct (map fst (js_data s)) \<and> (\<forall>i. data_at s i \<noteq> None \<longrightarrow> i < js_next s)
     \<and> (\<forall>i. owned s i \<longrightarrow> data_at s i \<noteq> None)
     \<and> distinct (map fst (js_map s)) \<and> (\<forall>k i d. map_of (js_map s) k = Some i \<longrightarrow> data_at s i = Some d \<longrightarrow> ad_deviceId d = k)"

definition refs_of :: "async_data \<Rightarrow> nat multiset" where
  "refs_of d = opt_mset (ad_bindCallback d) + opt_mset (ad_onDisconnect d) + opt_mset (ad_unbindCallback d)"

fun task_refs :: "js_task \<Rightarrow> nat multiset" where
  "task_refs (DeleteRefsTask rs) = sum_list (map opt_mset rs)"
| "task_refs _ = {#}"

definition held_refs :: "js_state \<Rightarrow> nat multiset" where
  "held_refs s = data_sum refs_of (js_data s) + sum_list (map task_refs (js_tasks s))"

text \<open>Every reference that something holds is held once and lives.\<close>

definition refs_ok :: "js_state \<Rightarrow> bool" where
  "refs_ok s \<longleftrightarrow> unique (held_refs s) \<and> set_mset (held_refs s) \<subseteq> set (js_refs s) \<and> (\<forall>r\<in>set (js_refs s). r < js_next s)"

definition promises_of :: "async_data \<Rightarrow> nat multiset" where
  "promises_of d = opt_mset (ad_bindDeferred d) + opt_mset (ad_unbindDeferred d)"

text \<open>How many tasks there are to report the connection of an object, and its end.\<close>

fun connects_task :: "nat \<Rightarrow> js_task \<Rightarrow> bool" where
  "connects_task i (OnConnectTask j _ _) \<longleftrightarrow> j = i"
| "connects_task i _ \<longleftrightarrow> False"

fun disconnects_task :: "nat \<Rightarrow> js_task \<Rightarrow> bool" where
  "disconnects_task i (OnDisconnectTask j _) \<longleftrightarrow> j = i"
| "disconnects_task i _ \<longleftrightarrow> False"

definition connects :: "js_state \<Rightarrow> nat \<Rightarrow> nat" where
  "connects s i = length (filter (connects_task i) (js_tasks s))"

definition disconnects :: "js_state \<Rightarrow> nat \<Rightarrow> nat" where
  "disconnects s i = length (filter (disconnects_task i) (js_tasks s))"

definition in_table :: "js_state \<Rightarrow> nat \<Rightarrow> bool" where
  "in_table s i \<longleftrightarrow> i \<in> snd ` set (js_map s)"

text \<open>
  A promise that can still be settled is in \<open>live\<close>: \<open>told\<close> says whether the connection of the object
  has been reported, \<open>c\<close> and \<open>n\<close> count its tasks.
\<close>

definition promise_ok :: "bool \<Rightarrow> nat set \<Rightarrow> bool \<Rightarrow> nat \<Rightarrow> nat \<Rightarrow> async_data \<Rightarrow> bool" where
  "promise_ok told live tab c n d \<longleftrightarrow>
     c \<le> 1 \<and> (\<not> told \<longrightarrow> c = 0) \<and> n \<le> 1 \<and> (tab \<longrightarrow> n = 0)
     \<and> (\<not> told \<or> c = 1 \<longrightarrow> set_option (ad_bindDeferred d) \<subseteq> live)
     \<and> (tab \<or> n = 1 \<longrightarrow> set_option (ad_unbindDeferred d) \<subseteq> live)"

text \<open>\<open>told\<close> are the objects whose connection has been reported.\<close>

definition promises_ok :: "nat set \<Rightarrow> js_state \<Rightarrow> bool" where
  "promises_ok told s \<longleftrightarrow> unique (data_sum promises_of (js_data s))
     \<and> (\<forall>p. p \<in># data_sum promises_of (js_data s) \<longrightarrow> p < js_next s) \<and> (\<forall>p\<in>set (js_deferred s). p < js_next s)
     \<and> (\<forall>i\<in>told. i < js_next s)
     \<and> (\<forall>i d. data_at s i = Some d \<longrightarrow>
          promise_ok (i \<in> told) (set (js_deferred s)) (in_table s i) (connects s i) (disconnects s i) d)"

lemma promise_ok_less: "promise_ok t live tab c n d \<Longrightarrow> (tab' \<Longrightarrow> tab) \<Longrightarrow> promise_ok t live tab' c n d"
  by (auto simp: promise_ok_def)

lemma promise_ok_same:
  "ad_bindDeferred d' = ad_bindDeferred d \<Longrightarrow> ad_unbindDeferred d' = ad_unbindDeferred d \<Longrightarrow>
   promise_ok t live tab c n d' = promise_ok t live tab c n d"
  by (simp add: promise_ok_def)

lemma promise_ok_more: "promise_ok t live tab c n d \<Longrightarrow> live \<subseteq> live' \<Longrightarrow> promise_ok t live' tab c n d"
  by (auto simp: promise_ok_def)

lemma promise_ok_settle:
  assumes "promise_ok t live tab c n d" and "ad_bindDeferred d = Some p \<Longrightarrow> t \<and> c = 0"
    and "ad_unbindDeferred d = Some p \<Longrightarrow> \<not> tab \<and> n = 0"
  shows "promise_ok t (live - {p}) tab c n d"
proof -
  have "set_option (ad_bindDeferred d) \<subseteq> live - {p}" if "\<not> t \<or> c = 1"
    using assms(1,2) that by (cases "ad_bindDeferred d") (auto simp: promise_ok_def)
  moreover have "set_option (ad_unbindDeferred d) \<subseteq> live - {p}" if "tab \<or> n = 1"
    using assms(1,3) that by (cases "ad_unbindDeferred d") (auto simp: promise_ok_def)
  ultimately show ?thesis using assms(1) by (simp add: promise_ok_def)
qed

section \<open>Deletion\<close>

lemma collect_objects_ok: "objects_ok s \<Longrightarrow> objects_ok (collect sent s)"
proof -
  assume s: "objects_ok s"
  then have d: "data_at (collect sent s) i = (if owned s i then data_at s i else None)" for i
    by (simp add: objects_ok_def data_at_collect)
  have "distinct (map fst (js_data (collect sent s)))"
    using s by (simp add: objects_ok_def collect_eq distinct_map_filter)
  moreover have "js_map (collect sent s) = js_map s" "js_next (collect sent s) = js_next s" by (simp_all add: collect_eq)
  ultimately show ?thesis using s unfolding objects_ok_def by (auto simp: d)
qed

lemma deleted_refs:
  "sum_list (map task_refs (map (\<lambda>e. DeleteRefsTask [ad_bindCallback (snd e), ad_onDisconnect (snd e), ad_unbindCallback (snd e)]) es))
   = data_sum refs_of es"
  by (induction es) (simp_all add: refs_of_def ac_simps)

lemma held_refs_collect: "held_refs (collect sent s) \<subseteq># held_refs s"
proof -
  let ?d = "filter (\<lambda>e. \<not> owned s (fst e)) (js_data s)"
  let ?o = "filter (\<lambda>e. owned s (fst e)) (js_data s)"
  have "held_refs (collect sent s) = data_sum refs_of ?o + sum_list (map task_refs (js_tasks s)) + (if sent then data_sum refs_of ?d else {#})"
    by (simp add: held_refs_def collect_eq deleted_refs del: map_map)
  also have "\<dots> \<subseteq># data_sum refs_of ?o + sum_list (map task_refs (js_tasks s)) + data_sum refs_of ?d"
    by simp
  also have "\<dots> = held_refs s"
    using data_sum_filter [of refs_of "\<lambda>e. owned s (fst e)" "js_data s"] by (simp add: held_refs_def ac_simps)
  finally show ?thesis .
qed

lemma collect_refs_ok: "refs_ok s \<Longrightarrow> refs_ok (collect sent s)"
  using held_refs_collect [of sent s] unique_sub mset_subset_eqD unfolding refs_ok_def
  by (fastforce simp: collect_eq)

lemma collect_promises_ok:
  assumes "objects_ok s" and "promises_ok told s"
  shows "promises_ok told (collect sent s)"
proof -
  have dist: "distinct (map fst (js_data s))" using assms(1) by (simp add: objects_ok_def)
  have tasks: "connects (collect sent s) i = connects s i" "disconnects (collect sent s) i = disconnects s i" for i
    by (auto simp: connects_def disconnects_def collect_eq filter_empty_conv)
  have rest: "in_table (collect sent s) = in_table s" "js_next (collect sent s) = js_next s" "js_deferred (collect sent s) = js_deferred s"
    by (simp_all add: collect_eq in_table_def fun_eq_iff)
  have sub: "data_sum promises_of (js_data (collect sent s)) \<subseteq># data_sum promises_of (js_data s)"
    using data_sum_filter [of promises_of "\<lambda>e. owned s (fst e)" "js_data s"]
    by (simp add: collect_eq) (metis mset_subset_eq_add_left)
  show ?thesis
    using assms(2) unique_sub [OF _ sub] mset_subset_eqD [OF sub]
    unfolding promises_ok_def tasks rest data_at_collect [OF dist] by (auto split: if_splits)
qed

section \<open>Simple changes\<close>

definition state_ok :: "nat set \<Rightarrow> js_state \<Rightarrow> bool" where
  "state_ok told s \<longleftrightarrow> objects_ok s \<and> refs_ok s \<and> promises_ok told s"

lemma collect_ok: "state_ok told s \<Longrightarrow> state_ok told (collect sent s)"
  by (simp add: state_ok_def collect_objects_ok collect_refs_ok collect_promises_ok)

lemma start_ok: "state_ok {} js_start"
  by (simp add: state_ok_def objects_ok_def refs_ok_def promises_ok_def js_start_def owned_def held_refs_def unique_def)

text \<open>Less is owned: an entry of the table goes, or the script function ends.\<close>

lemma less_owned_ok:
  assumes "state_ok told s" and "js_data s' = js_data s" and "js_tasks s' = js_tasks s" and "js_refs s' = js_refs s"
    and "js_deferred s' = js_deferred s" and "js_next s' = js_next s" and "\<And>i. owned s' i \<Longrightarrow> owned s i"
    and "distinct (map fst (js_map s'))" and "\<And>k i. map_of (js_map s') k = Some i \<Longrightarrow> map_of (js_map s) k = Some i"
  shows "state_ok told s'"
proof -
  have "in_table s i" if "in_table s' i" for i
  proof -
    from that obtain k where "(k, i) \<in> set (js_map s')" by (auto simp: in_table_def)
    then have "map_of (js_map s) k = Some i" using assms(8,9) by simp
    then have "(k, i) \<in> set (js_map s)" by (rule map_of_SomeD)
    then show ?thesis by (force simp: in_table_def)
  qed
  moreover have "connects s' = connects s" "disconnects s' = disconnects s"
    by (simp_all add: assms(3) connects_def disconnects_def fun_eq_iff)
  ultimately have "promises_ok told s'"
    using assms(1) promise_ok_less unfolding state_ok_def promises_ok_def assms(2-6) by (metis (no_types, lifting))
  moreover have "objects_ok s'"
    using assms(1,7-9) unfolding state_ok_def objects_ok_def assms(2-6) by blast
  moreover have "refs_ok s'" using assms(1) unfolding state_ok_def refs_ok_def held_refs_def assms(2-6) by simp
  ultimately show ?thesis by (simp add: state_ok_def)
qed

lemma table_distinct: "state_ok told s \<Longrightarrow> distinct (map fst (js_map s))"
  by (simp add: state_ok_def objects_ok_def)

lemma erase_ok: "state_ok told s \<Longrightarrow> state_ok told (s\<lparr>js_map := al_del k (js_map s)\<rparr>)"
  using al_del_values [of k "js_map s"] table_distinct [of told s]
  by (rule_tac less_owned_ok) (auto simp: owned_def split: if_splits)

lemma end_call_ok: "state_ok told s \<Longrightarrow> state_ok told (s\<lparr>js_call := None\<rparr>)"
  by (rule less_owned_ok) (auto simp: owned_def table_distinct)

lemma unbinding_ok: "state_ok told s \<Longrightarrow> state_ok told (s\<lparr>js_call := Some (Unbinding driver k callback)\<rparr>)"
  by (rule less_owned_ok) (auto simp: owned_def table_distinct)

lemma held_refs_set_data:
  assumes "objects_ok s" and "data_at s i = Some d"
  shows "held_refs (set_data i f s) + refs_of d = held_refs s + refs_of (f d)"
  using data_sum_update [of "js_data s" i d refs_of f] assms
  by (simp add: held_refs_def objects_ok_def) (simp add: set_data_def ac_simps)

lemma promises_set_data:
  assumes "objects_ok s" and "data_at s i = Some d"
  shows "data_sum promises_of (js_data (set_data i f s)) + promises_of d = data_sum promises_of (js_data s) + promises_of (f d)"
  using data_sum_update [of "js_data s" i d promises_of f] assms
  by (simp add: objects_ok_def) (simp add: set_data_def ac_simps)

lemma set_data_objects_ok: "objects_ok s \<Longrightarrow> (\<And>d. ad_deviceId (f d) = ad_deviceId d) \<Longrightarrow> objects_ok (set_data i f s)"
  unfolding objects_ok_def by (auto simp: data_at_set_data split: if_splits)

lemma set_data_tasks [simp]: "in_table (set_data i f s) = in_table s" "connects (set_data i f s) = connects s" "disconnects (set_data i f s) = disconnects s"
  by (simp_all add: connects_def disconnects_def in_table_def fun_eq_iff)

text \<open>A change that touches no promise and drops references.\<close>

lemma set_data_ok:
  assumes "state_ok told s" and "data_at s i = Some d" and "\<And>d. ad_deviceId (f d) = ad_deviceId d"
    and "\<And>d. ad_bindDeferred (f d) = ad_bindDeferred d" and "\<And>d. ad_unbindDeferred (f d) = ad_unbindDeferred d"
    and "refs_of (f d) \<subseteq># refs_of d"
  shows "state_ok told (set_data i f s)"
proof -
  have ob: "objects_ok s" using assms(1) by (simp add: state_ok_def)
  have "held_refs (set_data i f s) + refs_of d \<subseteq># held_refs s + refs_of d"
    unfolding held_refs_set_data [OF ob assms(2)] using assms(6) by (simp add: subset_mset.add_left_mono)
  then have sub: "held_refs (set_data i f s) \<subseteq># held_refs s" by (simp add: subset_mset.add_le_cancel_right)
  have pr: "data_sum promises_of (js_data (set_data i f s)) = data_sum promises_of (js_data s)"
    using promises_set_data [OF ob assms(2), of f] assms(4,5) by (simp add: promises_of_def)
  have "refs_ok (set_data i f s)"
    using assms(1) unique_sub [OF _ sub] mset_subset_eqD [OF sub] unfolding state_ok_def refs_ok_def by auto
  moreover have "promises_ok told (set_data i f s)"
    using assms(1) promise_ok_same [OF assms(4,5)] unfolding state_ok_def promises_ok_def pr
    by (auto simp: data_at_set_data split: if_splits)
  ultimately show ?thesis using set_data_objects_ok [OF ob assms(3)] by (simp add: state_ok_def)
qed

section \<open>New references and promises\<close>

lemma objects_ok_more:
  assumes "objects_ok s" and "js_data s' = js_data s" and "js_map s' = js_map s" and "owned s' = owned s" and "js_next s \<le> js_next s'"
  shows "objects_ok s'"
  using assms(1,5) unfolding objects_ok_def assms(2-4) using less_le_trans by blast

lemma new_ref_ok:
  assumes "state_ok told s" and "data_at s i = Some d" and "new_ref s = (r, s')" and "\<And>d. ad_deviceId (f d) = ad_deviceId d"
    and "\<And>d. ad_bindDeferred (f d) = ad_bindDeferred d" and "\<And>d. ad_unbindDeferred (f d) = ad_unbindDeferred d"
    and "refs_of (f d) \<subseteq># add_mset r (refs_of d)"
  shows "state_ok told (set_data i f s')"
proof -
  have s': "s' = s\<lparr>js_refs := js_next s # js_refs s, js_next := Suc (js_next s)\<rparr>" "r = js_next s"
    using assms(3) by (auto simp: new_ref_def)
  have tasks: "in_table s' = in_table s" "connects s' = connects s" "disconnects s' = disconnects s" "owned s' = owned s"
    by (simp_all add: s' in_table_def connects_def disconnects_def owned_def fun_eq_iff)
  have ob: "objects_ok s'" using assms(1) tasks(4) by (intro objects_ok_more [of s s']) (simp_all add: s' state_ok_def)
  have dat: "data_at s' i = Some d" using assms(2) by (simp add: s')
  have "held_refs (set_data i f s') + refs_of d \<subseteq># add_mset r (held_refs s) + refs_of d"
    unfolding held_refs_set_data [OF ob dat] using assms(7)
    by (simp add: s' held_refs_def subset_mset.add_left_mono flip: add_mset_add_single)
  then have sub: "held_refs (set_data i f s') \<subseteq># add_mset r (held_refs s)" by (simp add: subset_mset.add_le_cancel_right)
  have "r \<notin># held_refs s" using assms(1) by (auto simp: state_ok_def refs_ok_def s')
  then have "unique (add_mset r (held_refs s))" using assms(1) by (intro unique_add_fresh) (auto simp: state_ok_def refs_ok_def)
  then have "refs_ok (set_data i f s')"
    using assms(1) unique_sub [OF _ sub] mset_subset_eqD [OF sub]
    unfolding state_ok_def refs_ok_def by (auto simp: s' less_Suc_eq)
  moreover have pr: "data_sum promises_of (js_data (set_data i f s')) = data_sum promises_of (js_data s)"
    using promises_set_data [OF ob dat, of f] assms(5,6) by (simp add: promises_of_def s')
  have "promises_ok told (set_data i f s')"
    using assms(1) promise_ok_same [OF assms(5,6)] tasks unfolding state_ok_def promises_ok_def pr
    by (auto simp: data_at_set_data s' less_SucI split: if_splits)
  ultimately show ?thesis using set_data_objects_ok [OF ob assms(4)] by (simp add: state_ok_def)
qed

lemma new_promise_ok:
  assumes "state_ok told s" and "data_at s i = Some d" and "new_promise s = (p, s')"
    and "\<And>d. ad_deviceId (f d) = ad_deviceId d" and "\<And>d. refs_of (f d) = refs_of d"
    and "promises_of (f d) \<subseteq># add_mset p (promises_of d)"
    and "\<And>t tab c n live. promise_ok t live tab c n d \<Longrightarrow> promise_ok t (insert p live) tab c n (f d)"
  shows "state_ok told (set_data i f s')"
proof -
  have s': "s' = s\<lparr>js_deferred := js_next s # js_deferred s, js_next := Suc (js_next s)\<rparr>" "p = js_next s"
    using assms(3) by (auto simp: new_promise_def)
  have tasks: "in_table s' = in_table s" "connects s' = connects s" "disconnects s' = disconnects s" "owned s' = owned s"
    by (simp_all add: s' in_table_def connects_def disconnects_def owned_def fun_eq_iff)
  have ob: "objects_ok s'" using assms(1) tasks(4) by (intro objects_ok_more [of s s']) (simp_all add: s' state_ok_def)
  have dat: "data_at s' i = Some d" using assms(2) by (simp add: s')
  have held: "held_refs (set_data i f s') = held_refs s"
    using held_refs_set_data [OF ob dat, of f] assms(5) by (simp add: s' held_refs_def)
  have "refs_ok (set_data i f s')"
    using assms(1) unfolding state_ok_def refs_ok_def held by (auto simp: s' less_SucI)
  moreover have "data_sum promises_of (js_data (set_data i f s')) + promises_of d
      \<subseteq># add_mset p (data_sum promises_of (js_data s)) + promises_of d"
    unfolding promises_set_data [OF ob dat] using assms(6)
    by (simp add: s')
  then have sub: "data_sum promises_of (js_data (set_data i f s')) \<subseteq># add_mset p (data_sum promises_of (js_data s))"
    by (simp add: subset_mset.add_le_cancel_right)
  have "p \<notin># data_sum promises_of (js_data s)" using assms(1) by (auto simp: state_ok_def promises_ok_def s')
  then have u: "unique (add_mset p (data_sum promises_of (js_data s)))"
    using assms(1) by (intro unique_add_fresh) (auto simp: state_ok_def promises_ok_def)
  have live: "promise_ok t (set (js_deferred s)) tab c n e \<Longrightarrow> promise_ok t (insert p (set (js_deferred s))) tab c n e" for t tab c n e
    by (erule promise_ok_more) auto
  have rest: "js_data s' = js_data s" "js_deferred s' = p # js_deferred s" "js_next s' = Suc p" by (simp_all add: s')
  have lt: "q < Suc p" if "q \<in># data_sum promises_of (js_data (set_data i f s'))" for q
  proof -
    have "q = p \<or> q \<in># data_sum promises_of (js_data s)" using mset_subset_eqD [OF sub that] by simp
    then show ?thesis using assms(1) s'(2) unfolding state_ok_def promises_ok_def by (auto simp: less_SucI)
  qed
  have "promises_ok told (set_data i f s')"
    using assms(1) unique_sub [OF u sub] lt assms(2,7) live
    unfolding state_ok_def promises_ok_def
    by (auto simp: data_at_set_data tasks rest less_SucI less_Suc_eq simp flip: s'(2) split: if_splits)
  ultimately show ?thesis using set_data_objects_ok [OF ob assms(4)] by (simp add: state_ok_def)
qed

section \<open>The script functions\<close>

lemma objects_fresh: "objects_ok s \<Longrightarrow> js_next s \<le> i \<Longrightarrow> data_at s i = None"
  unfolding objects_ok_def by (metis leD)

lemma not_owned_fresh: "objects_ok s \<Longrightarrow> js_next s \<le> i \<Longrightarrow> \<not> owned s i"
  unfolding objects_ok_def by (metis leD)

lemma connects_owned: "connects s i \<noteq> 0 \<Longrightarrow> owned s i"
proof -
  have "connects_task i t \<Longrightarrow> task_owns i t" for t by (cases t) simp_all
  then show "connects s i \<noteq> 0 \<Longrightarrow> owned s i" by (auto simp: connects_def owned_def filter_empty_conv list_ex_iff)
qed

lemma disconnects_owned: "disconnects s i \<noteq> 0 \<Longrightarrow> owned s i"
proof -
  have "disconnects_task i t \<Longrightarrow> task_owns i t" for t by (cases t) simp_all
  then show "disconnects s i \<noteq> 0 \<Longrightarrow> owned s i" by (auto simp: disconnects_def owned_def filter_empty_conv list_ex_iff)
qed

lemma promise_ok_new [simp]: "promise_ok False live tab 0 0 (new_data d)"
  by (simp add: promise_ok_def new_data_def)

lemma refs_of_new [simp]: "refs_of (new_data d) = {#}"
  by (simp add: refs_of_def new_data_def)

lemma promises_of_new [simp]: "promises_of (new_data d) = {#}"
  by (simp add: promises_of_def new_data_def)

text \<open>A new object that nothing owns yet.\<close>

lemma new_object_ok:
  assumes "state_ok told s"
  shows "state_ok told (s\<lparr>js_data := (js_next s, new_data d) # js_data s, js_next := Suc (js_next s)\<rparr>)"
proof -
  let ?s = "s\<lparr>js_data := (js_next s, new_data d) # js_data s, js_next := Suc (js_next s)\<rparr>"
  have ob: "objects_ok s" using assms by (simp add: state_ok_def)
  have fresh: "data_at s (js_next s) = None" "\<not> owned s (js_next s)" using objects_fresh not_owned_fresh ob by auto
  have tasks: "in_table ?s = in_table s" "connects ?s = connects s" "disconnects ?s = disconnects s" "owned ?s = owned s"
    by (simp_all add: in_table_def connects_def disconnects_def owned_def fun_eq_iff)
  have none: "connects s (js_next s) = 0" "disconnects s (js_next s) = 0" "js_next s \<notin> told"
    using fresh(2) connects_owned disconnects_owned assms by (auto simp: state_ok_def promises_ok_def)
  have no: "map_of (js_map s) k \<noteq> Some (js_next s)" for k
    using fresh(2) map_of_SomeD [of "js_map s" k "js_next s"] by (force simp: owned_def)
  have "objects_ok ?s"
  proof -
    have at: "data_at ?s i = (if i = js_next s then Some (new_data d) else data_at s i)" for i by simp
    have "distinct (map fst (js_data ?s))" using ob fresh(1) by (simp add: objects_ok_def map_of_eq_None_iff)
    moreover have "i < js_next ?s" if "data_at ?s i \<noteq> None" for i
      using that ob unfolding at objects_ok_def by (auto simp: less_SucI split: if_splits)
    moreover have "data_at ?s i \<noteq> None" if "owned s i" for i
      using that ob unfolding at objects_ok_def by simp
    moreover have "ad_deviceId e = k" if "map_of (js_map ?s) k = Some i" "data_at ?s i = Some e" for k i e
      using that ob no unfolding at objects_ok_def by (auto split: if_splits)
    ultimately show ?thesis using ob unfolding objects_ok_def tasks by simp
  qed
  moreover have "refs_ok ?s" using assms by (auto simp: state_ok_def refs_ok_def held_refs_def less_SucI)
  moreover have "promises_ok told ?s"
    using assms none unfolding state_ok_def promises_ok_def tasks by (auto simp: less_SucI)
  ultimately show ?thesis by (simp add: state_ok_def)
qed

text \<open>The object enters the table under its device, and the script function owns it.\<close>

lemma enter_ok:
  assumes "state_ok told s" and "data_at s i = Some d" and "ad_deviceId d = k" and "disconnects s i = 0"
    and "ad_unbindDeferred d = None"
  shows "state_ok told (s\<lparr>js_map := al_put k i (js_map s), js_call := Some (Binding driver i callback)\<rparr>)"
proof -
  let ?s = "s\<lparr>js_map := al_put k i (js_map s), js_call := Some (Binding driver i callback)\<rparr>"
  have tab: "in_table ?s j \<Longrightarrow> j = i \<or> in_table s j" for j
    using al_put_values [of k i "js_map s"] by (auto simp: in_table_def)
  have own: "owned ?s j \<Longrightarrow> j = i \<or> owned s j" for j
    using al_put_values [of k i "js_map s"] by (auto simp: owned_def)
  have "objects_ok ?s"
    using assms(1-3) own unfolding state_ok_def objects_ok_def by (auto split: if_splits)
  moreover have "refs_ok ?s" using assms(1) by (simp add: state_ok_def refs_ok_def held_refs_def)
  moreover have tasks: "connects ?s = connects s" "disconnects ?s = disconnects s"
    by (simp_all add: connects_def disconnects_def fun_eq_iff)
  have "promise_ok (j \<in> told) (set (js_deferred s)) (in_table ?s j) (connects s j) (disconnects s j) e"
    if e: "data_at s j = Some e" for j e
  proof (cases "j = i")
    case True
    have "promise_ok (j \<in> told) (set (js_deferred s)) (in_table s j) (connects s j) (disconnects s j) e"
      using assms(1) e by (simp add: state_ok_def promises_ok_def)
    then show ?thesis using True e assms(2,4,5) by (simp add: promise_ok_def)
  next
    case False
    have "promise_ok (j \<in> told) (set (js_deferred s)) (in_table s j) (connects s j) (disconnects s j) e"
      using assms(1) e by (simp add: state_ok_def promises_ok_def)
    then show ?thesis by (rule promise_ok_less) (use tab [of j] False in blast)
  qed
  then have "promises_ok told ?s" using assms(1) unfolding state_ok_def promises_ok_def tasks by simp
  ultimately show ?thesis by (simp add: state_ok_def)
qed

lemma BindStart_ok:
  assumes "state_ok told s" 
  shows "\<exists>evs s'. BindStart N driver alloc ref_ok args s = Inr (evs, s') \<and> state_ok told s'"
proof (cases "length args < 2 \<or> ParseDeviceId N (args ! 0) = None \<or> \<not> IsMatchType N (args ! 1) Ty_function \<or> \<not> alloc")
  case True
  then show ?thesis using assms by (auto simp: BindStart_def split: option.splits)
next
  case False
  then obtain k where k: "ParseDeviceId N (args ! 0) = Some k" by auto
  let ?i = "js_next s" and ?s = "s\<lparr>js_data := (js_next s, new_data k) # js_data s, js_next := Suc (js_next s)\<rparr>"
  let ?f = "\<lambda>d. d\<lparr>ad_onDisconnect := Some (js_next ?s)\<rparr>"
  obtain s2 where s2: "new_ref ?s = (js_next ?s, s2)" by (simp add: new_ref_def)
  have ok: "state_ok told ?s" by (rule new_object_ok [OF assms])
  have at: "data_at ?s ?i = Some (new_data k)" by simp
  have ok2: "state_ok told (set_data ?i ?f s2)"
    by (rule new_ref_ok [OF ok at s2]) (simp_all add: refs_of_def new_data_def)
  have at2: "data_at (set_data ?i ?f s2) ?i = Some (?f (new_data k))"
    using s2 by (auto simp: data_at_set_data new_ref_def)
  have none: "disconnects (set_data ?i ?f s2) ?i = 0"
  proof -
    have "disconnects (set_data ?i ?f s2) ?i = disconnects s ?i" using s2 by (auto simp: new_ref_def disconnects_def)
    then show ?thesis using disconnects_owned [of s ?i] not_owned_fresh [of s ?i] assms by (auto simp: state_ok_def)
  qed
  have "state_ok told ((set_data ?i ?f s2)\<lparr>js_map := al_put k ?i (js_map (set_data ?i ?f s2)),
      js_call := Some (Binding driver ?i callback)\<rparr>)" for callback
    by (rule enter_ok [OF ok2 at2 _ none]) (simp_all add: new_data_def)
  then show ?thesis
    using False k ok s2 by (auto simp: BindStart_def Let_def split: prod.splits)
qed

section \<open>Deleted references\<close>

lemma delete_refs_eq:
  "unique (sum_list (map opt_mset rs)) \<Longrightarrow> set_mset (sum_list (map opt_mset rs)) \<subseteq> set (js_refs s) \<Longrightarrow>
   delete_refs rs s = Inr (s\<lparr>js_refs := filter (\<lambda>r. r \<notin># sum_list (map opt_mset rs)) (js_refs s)\<rparr>)"
proof (induction rs s rule: delete_refs.induct)
  case (3 r rs s)
  let ?s = "s\<lparr>js_refs := removeAll r (js_refs s)\<rparr>"
  have u: "unique (sum_list (map opt_mset rs))" using unique_sub [OF 3(2)] by simp
  have "r \<notin># sum_list (map opt_mset rs)" using unique_disjoint [of "{#r#}" "sum_list (map opt_mset rs)" r] 3(2) by simp
  then have "set_mset (sum_list (map opt_mset rs)) \<subseteq> set (js_refs ?s)" using 3(3) by auto
  then have "delete_refs rs ?s = Inr (?s\<lparr>js_refs := filter (\<lambda>r. r \<notin># sum_list (map opt_mset rs)) (js_refs ?s)\<rparr>)"
    using 3(1) [OF _ u] 3(3) by (auto simp: delete_ref_def)
  then show ?case using 3(3) by (simp add: delete_ref_def removeAll_filter_not_eq eq_commute [of r])
qed (simp_all add: filter_True)

text \<open>References that are held no more are deleted.\<close>

lemma delete_ok:
  assumes "state_ok told s" and "held_refs s' + R \<subseteq># held_refs s0" and "refs_ok s0" and "js_refs s0 = js_refs s"
    and s': "s' = s\<lparr>js_refs := filter (\<lambda>r. r \<notin># R) (js_refs s)\<rparr>"
  shows "state_ok told s'"
proof -
  have u: "unique (held_refs s' + R)" using unique_sub [OF _ assms(2)] assms(3) by (simp add: refs_ok_def)
  have refs: "js_refs s' = filter (\<lambda>r. r \<notin># R) (js_refs s)" "js_next s' = js_next s" by (simp_all add: s')
  have "set_mset (held_refs s') \<subseteq> set (js_refs s')"
  proof
    fix r assume r: "r \<in># held_refs s'"
    have "r \<notin># R" by (rule unique_disjoint [OF u r])
    moreover have "r \<in># held_refs s0" using mset_subset_eqD [OF assms(2), of r] r by simp
    then have "r \<in> set (js_refs s)" using assms(3,4) by (auto simp: refs_ok_def)
    ultimately show "r \<in> set (js_refs s')" by (simp add: refs)
  qed
  moreover have "unique (held_refs s')" by (rule unique_sub [OF u]) simp
  moreover have "\<forall>r\<in>set (js_refs s'). r < js_next s'" using assms(1) by (simp add: refs state_ok_def refs_ok_def)
  ultimately have "refs_ok s'" by (simp add: refs_ok_def)
  moreover have "objects_ok s'" "promises_ok told s'"
    using assms(1) unfolding state_ok_def objects_ok_def promises_ok_def s' owned_def in_table_def connects_def disconnects_def
    by simp_all
  ultimately show ?thesis by (simp add: state_ok_def)
qed

lemma drop_binding_ok:
  assumes "state_ok told s" and "data_at s i = Some d"
  shows "\<exists>s'. drop_binding i d s = Inr s' \<and> state_ok told s'"
proof -
  let ?s = "erase_own i (ad_deviceId d) s" and ?f = "\<lambda>d. d\<lparr>ad_onDisconnect := None :: nat option\<rparr>"
  let ?R = "opt_mset (ad_onDisconnect d)"
  have s: "state_ok told ?s" using erase_ok [OF assms(1)] assms(1) by (simp add: erase_own_def)
  have at: "data_at ?s i = Some d" using assms(2) by (simp add: erase_own_def)
  have R: "?R \<subseteq># held_refs ?s"
    using data_sum_at [OF at, of refs_of] by (simp add: held_refs_def refs_of_def)
      (meson mset_subset_eq_add_left mset_subset_eq_add_right subset_mset.dual_order.trans)
  have rok: "refs_ok ?s" using s by (simp add: state_ok_def)
  have "unique ?R" "set_mset ?R \<subseteq> set (js_refs ?s)"
    using unique_sub [OF _ R] mset_subset_eqD [OF R] rok by (auto simp: refs_ok_def)
  then have del: "delete_refs [ad_onDisconnect d] ?s = Inr (?s\<lparr>js_refs := filter (\<lambda>r. r \<notin># ?R) (js_refs ?s)\<rparr>)"
    using delete_refs_eq [of "[ad_onDisconnect d]" ?s] by simp
  let ?t = "set_data i ?f ?s"
  have t: "state_ok told ?t"
    by (rule set_data_ok [OF s at]) (simp_all add: refs_of_def)
  have "held_refs ?t + refs_of d = held_refs ?s + refs_of (?f d)"
    using held_refs_set_data [OF _ at] s by (simp add: state_ok_def)
  then have held: "held_refs ?t + ?R = held_refs ?s" by (simp add: refs_of_def ac_simps)
  let ?u = "?t\<lparr>js_refs := filter (\<lambda>r. r \<notin># ?R) (js_refs ?t)\<rparr>"
  have "held_refs ?u = held_refs ?t" by (simp add: held_refs_def)
  then have "state_ok told ?u" using held by (intro delete_ok [OF t _ rok]) simp_all
  moreover have "drop_binding i d s = Inr ?u"
    unfolding drop_binding_def Let_def del by (simp add: set_data_def)
  ultimately show ?thesis by blast
qed

lemma owned_call: "js_call s = Some (Binding driver i callback) \<Longrightarrow> owned s i"
  by (simp add: owned_def)

lemma owned_data: "state_ok told s \<Longrightarrow> owned s i \<Longrightarrow> \<exists>d. data_at s i = Some d"
  by (auto simp: state_ok_def objects_ok_def)

lemma table_data: "state_ok told s \<Longrightarrow> map_of (js_map s) k = Some i \<Longrightarrow> \<exists>d. data_at s i = Some d \<and> ad_deviceId d = k \<and> in_table s i"
proof -
  assume s: "state_ok told s" and k: "map_of (js_map s) k = Some i"
  have tab: "in_table s i" using map_of_SomeD [OF k] by (force simp: in_table_def)
  then have "owned s i" by (simp add: owned_def in_table_def)
  then obtain d where d: "data_at s i = Some d" using owned_data [OF s] by blast
  moreover have "ad_deviceId d = k" using s k d by (auto simp: state_ok_def objects_ok_def)
  ultimately show ?thesis using tab by blast
qed

lemma BindEnd_ok:
  assumes s: "state_ok told s"
  shows "\<exists>evs s'. BindEnd retCode made s = Inr (evs, s') \<and> state_ok told s'"
proof (cases "\<exists>driver i callback. js_call s = Some (Binding driver i callback)")
  case False
  then show ?thesis using s by (auto simp: BindEnd_def split: option.splits js_call.splits)
next
  case True
  then obtain driver i callback where c: "js_call s = Some (Binding driver i callback)" by blast
  obtain d where d: "data_at s i = Some d" using owned_data [OF s owned_call [OF c]] by blast
  obtain s1 where s1: "drop_binding i d s = Inr s1" "state_ok told s1" using drop_binding_ok [OF s d] by blast
  obtain r s2 where s2: "new_ref s = (r, s2)" by fastforce
  obtain p s3 where s3: "new_promise s = (p, s3)" by fastforce
  have "state_ok told (set_data i (\<lambda>d. d\<lparr>ad_bindCallback := Some r\<rparr>) s2)"
    by (rule new_ref_ok [OF s d s2]) (simp_all add: refs_of_def subset_mset.add_increasing)
  moreover have "state_ok told (set_data i (\<lambda>d. d\<lparr>ad_bindDeferred := Some p\<rparr>) s3)"
    by (rule new_promise_ok [OF s d s3])
      (auto simp: refs_of_def promises_of_def promise_ok_def subset_mset.add_increasing)
  ultimately show ?thesis
    using c d s1 s2 s3 end_call_ok by (auto simp: BindEnd_def)
qed

lemma UnbindStart_ok:
  assumes "state_ok told s"
  shows "\<exists>evs s'. UnbindStart N driver args s = Inr (evs, s') \<and> state_ok told s'"
  using assms unbinding_ok by (auto simp: UnbindStart_def split: option.splits)

lemma UnbindEnd_ok:
  assumes "state_ok told s"
  shows "\<exists>evs s'. UnbindEnd retCode made s = Inr (evs, s') \<and> state_ok told s'"
proof (cases "\<exists>driver k callback i. js_call s = Some (Unbinding driver k callback) \<and> map_of (js_map s) k = Some i")
  case False
  then show ?thesis using assms end_call_ok by (auto simp: UnbindEnd_def Let_def split: option.splits js_call.splits)
next
  case True
  then obtain driver k callback i where c: "js_call s = Some (Unbinding driver k callback)" and k: "map_of (js_map s) k = Some i"
    by blast
  let ?s = "s\<lparr>js_call := None\<rparr>"
  have s: "state_ok told ?s" by (rule end_call_ok [OF assms])
  obtain d where d: "data_at ?s i = Some d" using table_data [OF assms k] by auto
  obtain r s2 where s2: "new_ref ?s = (r, s2)" by fastforce
  obtain p s3 where s3: "new_promise ?s = (p, s3)" by fastforce
  have "state_ok told (set_data i (\<lambda>d. d\<lparr>ad_unbindCallback := Some r\<rparr>) s2)"
    by (rule new_ref_ok [OF s d s2]) (simp_all add: refs_of_def subset_mset.add_increasing)
  moreover have "state_ok told (set_data i (\<lambda>d. d\<lparr>ad_unbindDeferred := Some p\<rparr>) s3)"
    by (rule new_promise_ok [OF s d s3])
      (auto simp: refs_of_def promises_of_def promise_ok_def subset_mset.add_increasing)
  ultimately show ?thesis
    using c k s s2 s3 by (auto simp: UnbindEnd_def Let_def)
qed

section \<open>The callbacks of the service\<close>

text \<open>A task is appended: \<open>c\<close> and \<open>n\<close> are what it adds to the counts.\<close>

lemma append_task_ok:
  assumes "state_ok told s" and "objects_ok (s\<lparr>js_map := m, js_tasks := js_tasks s @ [t]\<rparr>)" and "task_refs t = {#}"
    and "told \<subseteq> told'" and "\<forall>i\<in>told'. i < js_next s"
    and "\<And>i d. data_at s i = Some d \<Longrightarrow>
      promise_ok (i \<in> told) (set (js_deferred s)) (in_table s i) (connects s i) (disconnects s i) d \<Longrightarrow>
      promise_ok (i \<in> told') (set (js_deferred s)) (i \<in> snd ` set m)
        (connects s i + (if connects_task i t then 1 else 0)) (disconnects s i + (if disconnects_task i t then 1 else 0)) d"
  shows "state_ok told' (s\<lparr>js_map := m, js_tasks := js_tasks s @ [t]\<rparr>)"
proof -
  let ?s = "s\<lparr>js_map := m, js_tasks := js_tasks s @ [t]\<rparr>"
  have c: "connects ?s i = connects s i + (if connects_task i t then 1 else 0)"
    "disconnects ?s i = disconnects s i + (if disconnects_task i t then 1 else 0)" "in_table ?s i \<longleftrightarrow> i \<in> snd ` set m" for i
    by (simp_all add: connects_def disconnects_def in_table_def)
  have "refs_ok ?s" using assms(1,3) by (simp add: state_ok_def refs_ok_def held_refs_def)
  moreover have "promises_ok told' ?s"
    using assms(1,5,6) unfolding state_ok_def promises_ok_def c by simp
  ultimately show ?thesis using assms(2) by (simp add: state_ok_def)
qed

lemma told_bound: "state_ok told s \<Longrightarrow> data_at s i = Some d \<Longrightarrow> \<forall>j\<in>insert i told. j < js_next s"
  by (auto simp: state_ok_def promises_ok_def objects_ok_def)

lemma tell_ok: 
  assumes "state_ok told s" and "i \<notin> told" and "data_at s i = Some d"
  shows "state_ok (insert i told) s"
proof -
  have "promise_ok (j \<in> insert i told) (set (js_deferred s)) (in_table s j) (connects s j) (disconnects s j) e"
    if "data_at s j = Some e" for j e
    using assms(1,2) that unfolding state_ok_def promises_ok_def by (cases "j = i") (auto simp: promise_ok_def)
  then show ?thesis using assms(1) told_bound [OF assms(1,3)] by (simp add: state_ok_def promises_ok_def)
qed

lemma OnConnect_ok:
  assumes s: "state_ok told s" and k: "map_of (js_map s) k = Some i" and new: "i \<notin> told"
  shows "state_ok (insert i told) (snd (DeviceManagerCallback_OnConnect k remote ok sent s))"
proof -
  obtain d where d: "data_at s i = Some d" "in_table s i" using table_data [OF s k] by blast
  have told: "state_ok (insert i told) s" by (rule tell_ok [OF s new d(1)])
  let ?t = "s\<lparr>js_map := js_map s, js_tasks := js_tasks s @ [OnConnectTask i remote ok]\<rparr>"
  have own: "owned ?t = owned s" using d(2) by (auto simp: owned_def in_table_def fun_eq_iff)
  have "objects_ok s" using s by (simp add: state_ok_def)
  from objects_ok_more [OF this _ _ own] have "objects_ok ?t" by simp
  then have t: "state_ok (insert i told) ?t"
    by (rule append_task_ok [OF s]) (use new told_bound [OF s d(1)] in \<open>auto simp: promise_ok_def simp flip: in_table_def split: if_splits\<close>)
  have "snd (DeviceManagerCallback_OnConnect k remote ok sent s)
      = (if \<not> sent then if \<not> ok then s\<lparr>js_map := al_del k (js_map s)\<rparr> else s
         else if \<not> ok then ?t\<lparr>js_map := al_del k (js_map ?t)\<rparr> else ?t)"
    using k by (simp add: DeviceManagerCallback_OnConnect_def Let_def)
  then show ?thesis using told t erase_ok [OF told, of k] erase_ok [OF t, of k] by (auto split: if_splits)
qed

lemma OnDisconnect_ok:
  assumes s: "state_ok told s"
  shows "\<exists>r s'. DeviceManagerCallback_OnDisconnect k ok sent s = Inr (r, s') \<and> state_ok told s'"
proof (cases "map_of (js_map s) k")
  case None
  then show ?thesis using s by (simp add: DeviceManagerCallback_OnDisconnect_def)
next
  case (Some i)
  obtain d where d: "data_at s i = Some d" "ad_deviceId d = k" "in_table s i" using table_data [OF s Some] by blast
  have dist: "distinct (map fst (js_map s))" by (rule table_distinct [OF s])
  have gone: "i \<notin> snd ` set (al_del k (js_map s))"
  proof
    assume "i \<in> snd ` set (al_del k (js_map s))"
    then obtain k' where k': "(k', i) \<in> set (js_map s)" "k' \<noteq> k" by (auto simp: al_del_def)
    then have "map_of (js_map s) k' = Some i" using dist by simp
    then show False using table_data [OF s] d k'(2) by fastforce
  qed
  let ?m = "al_del k (js_map s)" and ?t = "s\<lparr>js_map := al_del k (js_map s), js_tasks := js_tasks s @ [OnDisconnectTask i ok]\<rparr>"
  have er: "state_ok told (s\<lparr>js_map := ?m\<rparr>)" by (rule erase_ok [OF s])
  have sub: "j \<in> snd ` set ?m \<Longrightarrow> in_table s j" for j using al_del_values [of k "js_map s"] by (auto simp: in_table_def)
  have own: "owned ?t j \<Longrightarrow> owned s j" for j
    using sub [of j] d(3) by (auto simp: owned_def in_table_def)
  have "objects_ok ?t"
    using s own dist unfolding state_ok_def objects_ok_def by (auto split: if_splits)
  then have "state_ok told ?t"
  proof (rule append_task_ok [OF s])
    fix j e
    assume "promise_ok (j \<in> told) (set (js_deferred s)) (in_table s j) (connects s j) (disconnects s j) e"
    then show "promise_ok (j \<in> told) (set (js_deferred s)) (j \<in> snd ` set ?m)
        (connects s j + (if connects_task j (OnDisconnectTask i ok) then 1 else 0))
        (disconnects s j + (if disconnects_task j (OnDisconnectTask i ok) then 1 else 0)) e"
      using gone d(3) sub [of j] by (cases "j = i") (auto simp: promise_ok_def)
  qed (use s in \<open>auto simp: state_ok_def promises_ok_def\<close>)
  then show ?thesis using Some d er by (auto simp: DeviceManagerCallback_OnDisconnect_def Let_def)
qed

lemma OnUnBind_ok:
  assumes s: "state_ok told s"
  shows "\<exists>r s'. DeviceManagerCallback_OnUnBind k ok s = Inr (r, s') \<and> state_ok told s'"
proof (cases "map_of (js_map s) k")
  case (Some i)
  obtain d where d: "data_at s i = Some d" using table_data [OF s Some] by blast
  have "state_ok told (set_data i (\<lambda>d. d\<lparr>ad_unBindOk := ok\<rparr>) s)"
    by (rule set_data_ok [OF s d]) (simp_all add: refs_of_def)
  then show ?thesis using Some d s by (simp add: DeviceManagerCallback_OnUnBind_def)
qed (use s in \<open>simp add: DeviceManagerCallback_OnUnBind_def\<close>)

section \<open>Tasks\<close>

lemma pop_ok:
  assumes s: "state_ok told s" and ts: "js_tasks s = t # ts"
  shows "state_ok told (s\<lparr>js_tasks := ts\<rparr>)"
proof -
  let ?s = "s\<lparr>js_tasks := ts\<rparr>"
  have own: "owned ?s i \<Longrightarrow> owned s i" for i by (auto simp: owned_def ts)
  have "objects_ok ?s" using s own unfolding state_ok_def objects_ok_def by auto
  moreover have "held_refs ?s \<subseteq># held_refs s" by (simp add: held_refs_def ts)
  then have "refs_ok ?s" using s unique_sub mset_subset_eqD unfolding state_ok_def refs_ok_def by fastforce
  moreover have "promise_ok (i \<in> told) (set (js_deferred s)) (in_table ?s i) (connects ?s i) (disconnects ?s i) d"
    if d: "data_at s i = Some d" for i d
  proof -
    have "promise_ok (i \<in> told) (set (js_deferred s)) (in_table s i) (connects s i) (disconnects s i) d"
      using s d by (simp add: state_ok_def promises_ok_def)
    moreover have "in_table ?s i = in_table s i" "connects ?s i \<le> connects s i" "disconnects ?s i \<le> disconnects s i"
      by (simp_all add: in_table_def connects_def disconnects_def ts)
    ultimately show ?thesis by (auto simp: promise_ok_def)
  qed
  then have "promises_ok told ?s" using s unfolding state_ok_def promises_ok_def by simp
  ultimately show ?thesis by (simp add: state_ok_def)
qed

text \<open>A promise that nothing else can settle is settled.\<close>

lemma settle_ok:
  assumes s: "state_ok told s" and d: "data_at s i = Some d" and live: "p \<in> set (js_deferred s)"
    and p: "ad_bindDeferred d = Some p \<and> i \<in> told \<and> connects s i = 0
      \<or> ad_unbindDeferred d = Some p \<and> \<not> in_table s i \<and> disconnects s i = 0"
  shows "\<exists>s'. settle p s = Inr s' \<and> state_ok told s'"
proof -
  let ?s = "s\<lparr>js_deferred := removeAll p (js_deferred s)\<rparr>"
  have u: "unique (data_sum promises_of (js_data s))" using s by (simp add: state_ok_def promises_ok_def)
  have pd: "p \<in># promises_of d" using p by (auto simp: promises_of_def)
  have other: "p \<notin># promises_of e" if "data_at s j = Some e" "j \<noteq> i" for j e
  proof -
    have "unique (promises_of d + promises_of e)"
      by (rule unique_sub [OF u]) (rule data_sum_two [OF d that(1)], use that(2) in simp)
    from unique_disjoint [OF this pd] show ?thesis .
  qed
  have ud: "unique (promises_of d)" using unique_sub [OF u data_sum_at [OF d]] .
  have own: "\<not> (ad_bindDeferred d = Some p \<and> ad_unbindDeferred d = Some p)"
    using spec [OF ud [unfolded unique_def], of p] by (auto simp: promises_of_def)
  have "promise_ok (j \<in> told) (set (js_deferred ?s)) (in_table ?s j) (connects ?s j) (disconnects ?s j) e"
    if e: "data_at s j = Some e" for j e
  proof -
    have "promise_ok (j \<in> told) (set (js_deferred s)) (in_table s j) (connects s j) (disconnects s j) e"
      using s e by (simp add: state_ok_def promises_ok_def)
    moreover have mine: "j = i \<and> e = d" if "ad_bindDeferred e = Some p \<or> ad_unbindDeferred e = Some p"
    proof -
      have "p \<in># promises_of e" using that by (auto simp: promises_of_def)
      then have "j = i" using other [OF e] by blast
      then show ?thesis using d e by simp
    qed
    have "j \<in> told \<and> connects s j = 0" if "ad_bindDeferred e = Some p" using mine [OF disjI1 [OF that]] that p own by simp
    moreover have "\<not> in_table s j \<and> disconnects s j = 0" if "ad_unbindDeferred e = Some p" using mine [OF disjI2 [OF that]] that p own by simp
    ultimately have "promise_ok (j \<in> told) (set (js_deferred s) - {p}) (in_table s j) (connects s j) (disconnects s j) e"
      by (rule promise_ok_settle)
    then show ?thesis by (simp add: in_table_def connects_def disconnects_def)
  qed
  then have "promises_ok told ?s" using s unfolding state_ok_def promises_ok_def by simp
  moreover have "objects_ok ?s"
  proof (rule objects_ok_more)
    show "objects_ok s" using s by (simp add: state_ok_def)
  qed (simp_all add: owned_def fun_eq_iff)
  moreover have "refs_ok ?s" using s by (simp add: state_ok_def refs_ok_def held_refs_def)
  ultimately show ?thesis using live by (simp add: settle_def state_ok_def)
qed

text \<open>What a task finds: its object, whose references live.\<close>

lemma live_ref:
  assumes "state_ok told s" and "data_at s i = Some d" and "r \<in># refs_of d"
  shows "use_ref r s = Inr ()"
proof -
  have "r \<in># data_sum refs_of (js_data s)" by (rule mset_subset_eqD [OF data_sum_at [OF assms(2), of refs_of] assms(3)])
  then have "r \<in># held_refs s" by (simp add: held_refs_def)
  then show ?thesis using assms(1) by (auto simp: state_ok_def refs_ok_def use_ref_def)
qed

lemma task_data:
  assumes "state_ok told s" and "js_tasks s = t # ts" and "task_owns i t"
  obtains d where "data_at s i = Some d"
    "promise_ok (i \<in> told) (set (js_deferred s)) (in_table s i) (connects s i) (disconnects s i) d"
proof -
  have "owned s i" using assms(2,3) by (simp add: owned_def)
  then obtain d where "data_at s i = Some d" using owned_data [OF assms(1)] by blast
  then show ?thesis using that assms(1) by (simp add: state_ok_def promises_ok_def)
qed

lemma RunOnConnect_ok:
  assumes s: "state_ok told s" and ts: "js_tasks s = OnConnectTask i remote ok # ts"
  shows "\<exists>evs s'. RunOnConnect i remote ok (s\<lparr>js_tasks := ts\<rparr>) = Inr (evs, s') \<and> state_ok told s'"
proof -
  let ?s = "s\<lparr>js_tasks := ts\<rparr>"
  obtain d where d: "data_at s i = Some d"
    and pr: "promise_ok (i \<in> told) (set (js_deferred s)) (in_table s i) (connects s i) (disconnects s i) d"
    using task_data [OF s ts, of i] by auto
  have pop: "state_ok told ?s" by (rule pop_ok [OF s ts])
  have at: "data_at ?s i = Some d" using d by simp
  have c: "connects s i = Suc (connects ?s i)" by (simp add: connects_def ts)
  show ?thesis
  proof (cases "ad_bindCallback d")
    case (Some r)
    then have "use_ref r ?s = Inr ()" by (intro live_ref [OF pop at]) (simp add: refs_of_def)
    then show ?thesis using at Some pop by (simp add: RunOnConnect_def)
  next
    case None
    show ?thesis
    proof (cases "ad_bindDeferred d")
      case (Some p)
      then have "p \<in> set (js_deferred ?s)" "i \<in> told" "connects ?s i = 0" using pr c by (auto simp: promise_ok_def)
      then obtain s' where "settle p ?s = Inr s'" "state_ok told s'" using settle_ok [OF pop at] Some by blast
      then show ?thesis using at None Some by (simp add: RunOnConnect_def)
    qed (use at None pop in \<open>simp add: RunOnConnect_def\<close>)
  qed
qed

lemma RunOnDisconnect_ok:
  assumes s: "state_ok told s" and ts: "js_tasks s = OnDisconnectTask i ok # ts"
  shows "\<exists>evs s'. RunOnDisconnect i ok (s\<lparr>js_tasks := ts\<rparr>) = Inr (evs, s') \<and> state_ok told s'"
proof -
  let ?s = "s\<lparr>js_tasks := ts\<rparr>"
  obtain d where d: "data_at s i = Some d"
    and pr: "promise_ok (i \<in> told) (set (js_deferred s)) (in_table s i) (connects s i) (disconnects s i) d"
    using task_data [OF s ts, of i] by auto
  have pop: "state_ok told ?s" by (rule pop_ok [OF s ts])
  have at: "data_at ?s i = Some d" using d by simp
  have n: "disconnects s i = Suc (disconnects ?s i)" by (simp add: disconnects_def ts)
  have ref: "use_ref r ?s = Inr ()" if "r \<in># refs_of d" for r by (rule live_ref [OF pop at that])
  obtain evs where evs: "(case ad_onDisconnect d of None \<Rightarrow> Inr []
      | Some r \<Rightarrow> bindE (use_ref r ?s) (\<lambda>_. Inr [Called_disconnect r (ad_deviceId d) ok])) = Inr evs"
    using ref by (cases "ad_onDisconnect d") (auto simp: refs_of_def)
  show ?thesis
  proof (cases "ad_unbindCallback d")
    case (Some r)
    then have "use_ref r ?s = Inr ()" by (intro ref) (simp add: refs_of_def)
    then show ?thesis using at Some pop evs by (simp add: RunOnDisconnect_def)
  next
    case None
    show ?thesis
    proof (cases "ad_unbindDeferred d")
      case (Some p)
      then have "p \<in> set (js_deferred ?s)" "\<not> in_table ?s i" "disconnects ?s i = 0"
        using pr n by (auto simp: promise_ok_def in_table_def)
      then obtain s' where "settle p ?s = Inr s'" "state_ok told s'" using settle_ok [OF pop at] Some by blast
      then show ?thesis using at None Some evs by (simp add: RunOnDisconnect_def)
    qed (use at None pop evs in \<open>simp add: RunOnDisconnect_def\<close>)
  qed
qed

lemma DeleteRefs_ok:
  assumes s: "state_ok told s" and ts: "js_tasks s = DeleteRefsTask rs # ts"
  shows "\<exists>s'. delete_refs rs (s\<lparr>js_tasks := ts\<rparr>) = Inr s' \<and> state_ok told s'"
proof -
  let ?s = "s\<lparr>js_tasks := ts\<rparr>" and ?R = "sum_list (map opt_mset rs)"
  let ?t = "?s\<lparr>js_refs := filter (\<lambda>r. r \<notin># ?R) (js_refs ?s)\<rparr>"
  have held: "held_refs ?t + ?R = held_refs s" by (simp add: held_refs_def ts ac_simps)
  have R: "?R \<subseteq># held_refs s" unfolding held [symmetric] by simp
  have refs: "refs_ok s" using s by (simp add: state_ok_def)
  have u: "unique ?R" using unique_sub [OF _ R] refs by (simp add: refs_ok_def)
  have live: "set_mset ?R \<subseteq> set (js_refs ?s)" using mset_subset_eqD [OF R] refs by (auto simp: refs_ok_def)
  have "state_ok told ?t"
  proof (rule delete_ok [OF pop_ok [OF s ts] _ refs])
    show "held_refs ?t + ?R \<subseteq># held_refs s" unfolding held ..
    show "js_refs s = js_refs ?s" by simp
  qed (rule refl)
  then show ?thesis using delete_refs_eq [OF u live] by blast
qed

lemma RunJsTask_ok:
  assumes "state_ok told s" and "js_tasks s = t # ts"
  shows "\<exists>evs s'. RunJsTask t (s\<lparr>js_tasks := ts\<rparr>) = Inr (evs, s') \<and> state_ok told s'"
proof (cases t)
  case (OnConnectTask i remote ok)
  then show ?thesis using RunOnConnect_ok assms by simp
next
  case (OnDisconnectTask i ok)
  then show ?thesis using RunOnDisconnect_ok assms by simp
next
  case (DeleteRefsTask rs)
  then show ?thesis using DeleteRefs_ok [of told s rs ts] assms by auto
qed

section \<open>Runs\<close>

text \<open>The object whose connection a step reports, if the table has the device.\<close>

fun reports :: "js_state \<Rightarrow> 'v js_op \<Rightarrow> nat option" where
  "reports s (Op_connected k _ _ _) = map_of (js_map s) k"
| "reports s _ = None"

text \<open>Along the run, the connection of no object is reported again.\<close>

fun reports_once :: "'v napi \<Rightarrow> nat set \<Rightarrow> ('v js_op \<times> bool) list \<Rightarrow> js_state \<Rightarrow> bool" where
  "reports_once N told [] s \<longleftrightarrow> True"
| "reports_once N told (op # ops) s \<longleftrightarrow>
     set_option (reports s (fst op)) \<inter> told = {} \<and>
     (case js_do N op s of Inl _ \<Rightarrow> True
      | Inr (_, s') \<Rightarrow> reports_once N (set_option (reports s (fst op)) \<union> told) ops s')"

lemma js_step_ok:
  assumes s: "state_ok told s" and new: "set_option (reports s op) \<inter> told = {}"
  shows "\<exists>evs s'. js_step N op s = Inr (evs, s') \<and> state_ok (set_option (reports s op) \<union> told) s'"
proof (cases op)
  case (Op_bind driver alloc ref_ok args)
  then show ?thesis using BindStart_ok [OF s, of N driver alloc ref_ok args] s by auto
next
  case (Op_bind_end retCode made)
  then show ?thesis using BindEnd_ok [OF s] by simp
next
  case (Op_unbind driver args)
  then show ?thesis using UnbindStart_ok [OF s, of N driver args] s by auto
next
  case (Op_unbind_end retCode made)
  then show ?thesis using UnbindEnd_ok [OF s] by simp
next
  case (Op_connected k remote ok sent)
  show ?thesis
  proof (cases "map_of (js_map s) k")
    case None
    then show ?thesis using Op_connected s by (simp add: DeviceManagerCallback_OnConnect_def)
  next
    case (Some i)
    then show ?thesis using Op_connected OnConnect_ok [OF s Some] new by simp
  qed
next
  case (Op_disconnected k ok sent)
  then show ?thesis using OnDisconnect_ok [OF s, of k ok sent] by auto
next
  case (Op_unbound k ok)
  then show ?thesis using OnUnBind_ok [OF s, of k ok] by auto
next
  case Op_task
  then show ?thesis using RunJsTask_ok [OF s] s by (cases "js_tasks s") auto
qed

lemma js_do_ok:
  assumes "state_ok told s" and "set_option (reports s (fst op)) \<inter> told = {}"
  shows "\<exists>evs s'. js_do N op s = Inr (evs, s') \<and> state_ok (set_option (reports s (fst op)) \<union> told) s'"
  using js_step_ok [OF assms, of N] collect_ok by (fastforce simp: js_do_def)

fun told_after :: "'v napi \<Rightarrow> nat set \<Rightarrow> ('v js_op \<times> bool) list \<Rightarrow> js_state \<Rightarrow> nat set" where
  "told_after N told [] s = told"
| "told_after N told (op # ops) s =
     (case js_do N op s of Inl _ \<Rightarrow> told | Inr (_, s') \<Rightarrow> told_after N (set_option (reports s (fst op)) \<union> told) ops s')"

lemma js_run_ok:
  "state_ok told s \<Longrightarrow> reports_once N told ops s \<Longrightarrow>
   \<exists>evs s'. js_run N ops s = Inr (evs, s') \<and> state_ok (told_after N told ops s) s'"
proof (induction ops arbitrary: told s)
  case (Cons op ops)
  obtain evs s' where s': "js_do N op s = Inr (evs, s')" "state_ok (set_option (reports s (fst op)) \<union> told) s'"
    using js_do_ok [OF Cons.prems(1), of op N] Cons.prems(2) by auto
  then show ?case
    using Cons.IH [OF s'(2)] Cons.prems(2) by fastforce
qed simp

end
