(* ===== verification/Taihe_Values.thy ===== *)
theory Taihe_Values
  imports Js_Values
begin

text \<open>
  The module deviceManager of the static script language, the values and queries of
  frameworks/js/taihe/src/ohos.driver.deviceManager.impl.cpp. The structures are those of its interface
  description, frameworks/js/taihe/idl. An error is set beside the result; the result is then an
  empty array.
\<close>

section \<open>Structures\<close>

record taihe_device =
  th_busType :: u32
  th_deviceId :: u64
  th_description :: string
  th_ids :: "(int \<times> int) option"

record taihe_interface =
  ti_bInterfaceNumber :: int
  ti_bClass :: int
  ti_bSubClass :: int
  ti_bProtocol :: int

record taihe_usb_info =
  tu_vendorId :: int
  tu_productId :: int
  tu_interfaceDescList :: "taihe_interface list"

record taihe_device_info =
  tx_deviceId :: u64
  tx_isDriverMatched :: bool
  tx_driverUid :: "string option"
  tx_usb :: "taihe_usb_info option"

record taihe_driver_info =
  tr_busType :: u32
  tr_driverUid :: string
  tr_driverName :: string
  tr_driverVersion :: string
  tr_driverSize :: string
  tr_description :: string
  tr_usb :: "(int list \<times> int list) option"

section \<open>Conversions\<close>

definition ConvertToDevice :: "device_data \<Rightarrow> taihe_device res" where
  "ConvertToDevice deviceData =
     (if dd_busType deviceData = BUS_TYPE_USB then
        (case dd_usb deviceData of None \<Rightarrow> Inl Bad_cast
         | Some (productId, vendorId) \<Rightarrow>
             Inr \<lparr>th_busType = BUS_TYPE_USB, th_deviceId = dd_deviceId deviceData, th_description = dd_descripton deviceData,
                  th_ids = Some (uint vendorId, uint productId)\<rparr>)
      else
        Inr \<lparr>th_busType = dd_busType deviceData, th_deviceId = dd_deviceId deviceData,
             th_description = dd_descripton deviceData, th_ids = None\<rparr>)"

definition ParseToUSBInterfaceDesc :: "usb_interface_desc option \<Rightarrow> taihe_interface res" where
  "ParseToUSBInterfaceDesc desc =
     (case desc of None \<Rightarrow> Inl Null_deref
      | Some d \<Rightarrow> Inr \<lparr>ti_bInterfaceNumber = uint (ui_bInterfaceNumber d), ti_bClass = uint (ui_bClass d),
                       ti_bSubClass = uint (ui_bSubClass d), ti_bProtocol = uint (ui_bProtocol d)\<rparr>)"

fun convert_items :: "('a \<Rightarrow> 'b res) \<Rightarrow> 'a list \<Rightarrow> 'b list res" where
  "convert_items f [] = Inr []"
| "convert_items f (x # xs) = bindE (f x) (\<lambda>v. bindE (convert_items f xs) (\<lambda>vs. Inr (v # vs)))"

definition ConvertToDeviceInfo :: "device_info_data \<Rightarrow> taihe_device_info res" where
  "ConvertToDeviceInfo deviceInfoData =
     (if GetBusTypeByDeviceId (dx_deviceId deviceInfoData) = BUS_TYPE_USB then
        (case dx_usb deviceInfoData of None \<Rightarrow> Inl Bad_cast
         | Some u \<Rightarrow>
             bindE (convert_items ParseToUSBInterfaceDesc (ux_interfaceDescList u)) (\<lambda>descs.
               Inr \<lparr>tx_deviceId = dx_deviceId deviceInfoData, tx_isDriverMatched = dx_isDriverMatched deviceInfoData,
                    tx_driverUid = (if dx_isDriverMatched deviceInfoData then Some (dx_driverUid deviceInfoData) else None),
                    tx_usb = Some \<lparr>tu_vendorId = uint (ux_vendorId u), tu_productId = uint (ux_productId u),
                                   tu_interfaceDescList = descs\<rparr>\<rparr>))
      else
        Inr \<lparr>tx_deviceId = dx_deviceId deviceInfoData, tx_isDriverMatched = dx_isDriverMatched deviceInfoData,
             tx_driverUid = (if dx_driverUid deviceInfoData = [] then None else Some (dx_driverUid deviceInfoData)),
             tx_usb = None\<rparr>)"

definition ConvertToDriverInfo :: "driver_info_data \<Rightarrow> taihe_driver_info res" where
  "ConvertToDriverInfo driverInfoData =
     (let common = (\<lambda>busType usb.
        \<lparr>tr_busType = busType, tr_driverUid = rx_driverUid driverInfoData, tr_driverName = rx_driverName driverInfoData,
         tr_driverVersion = rx_version driverInfoData, tr_driverSize = rx_bundleSize driverInfoData,
         tr_description = rx_description driverInfoData, tr_usb = usb\<rparr>) in
      if rx_busType driverInfoData = BUS_TYPE_USB then
        (case rx_usb driverInfoData of None \<Rightarrow> Inl Bad_cast
         | Some (pids, vids) \<Rightarrow> Inr (common BUS_TYPE_USB (Some (map uint pids, map uint vids))))
      else Inr (common (rx_busType driverInfoData) None))"

section \<open>The queries\<close>

text \<open>The error that is set, if any, and the array.\<close>

definition taihe_queryDevices ::
  "client_env \<Rightarrow> nat option option list \<Rightarrow> ('w, 'cb) edm_proxy \<Rightarrow> int option \<Rightarrow> edm_client \<Rightarrow> 'w
   \<Rightarrow> (int option \<times> taihe_device list \<times> edm_client \<times> 'w) res" where
  "taihe_queryDevices E deaths X busType c w =
     (let busTypeVal = (case busType of None \<Rightarrow> 1 | Some v \<Rightarrow> v) in
      bindE (Client_QueryDevice E deaths X (word_of_int busTypeVal) c w) (\<lambda>(retCode, devices, c, w).
        if retCode \<noteq> EDM_OK then
          Inr (Some (if retCode = EDM_ERR_NO_PERM then PERMISSION_DENIED else SERVICE_EXCEPTION), [], c, w)
        else
          bindE (convert_items ConvertToDevice (case devices of None \<Rightarrow> [] | Some ds \<Rightarrow> ds)) (\<lambda>xs. Inr (None, xs, c, w))))"

definition taihe_queryDeviceInfo ::
  "client_env \<Rightarrow> nat option option list \<Rightarrow> ('w, 'cb) edm_proxy \<Rightarrow> u64 option \<Rightarrow> edm_client \<Rightarrow> 'w
   \<Rightarrow> (int option \<times> taihe_device_info list \<times> edm_client \<times> 'w) res" where
  "taihe_queryDeviceInfo E deaths X deviceId c w =
     bindE (case deviceId of None \<Rightarrow> Client_QueryAllDeviceInfo E deaths X c w
            | Some i \<Rightarrow> Client_QueryDeviceInfo E deaths X i c w) (\<lambda>(ret, infos, c, w).
       if ret \<noteq> EDM_OK then Inr (Some (query_error ret), [], c, w)
       else bindE (convert_items ConvertToDeviceInfo (case infos of None \<Rightarrow> [] | Some xs \<Rightarrow> xs)) (\<lambda>xs. Inr (None, xs, c, w)))"

text \<open>The identifier of the driver is passed on as a C string.\<close>

definition taihe_queryDriverInfo ::
  "client_env \<Rightarrow> nat option option list \<Rightarrow> ('w, 'cb) edm_proxy \<Rightarrow> string option \<Rightarrow> edm_client \<Rightarrow> 'w
   \<Rightarrow> (int option \<times> taihe_driver_info list \<times> edm_client \<times> 'w) res" where
  "taihe_queryDriverInfo E deaths X driverUid c w =
     bindE (case driverUid of None \<Rightarrow> Client_QueryAllDriverInfo E deaths X c w
            | Some u \<Rightarrow> Client_QueryDriverInfo E deaths X (c_str u) c w) (\<lambda>(ret, infos, c, w).
       if ret \<noteq> EDM_OK then Inr (Some (query_error ret), [], c, w)
       else bindE (convert_items ConvertToDriverInfo (case infos of None \<Rightarrow> [] | Some xs \<Rightarrow> xs)) (\<lambda>xs. Inr (None, xs, c, w)))"

end
