(* ===== verification/Js_Values_Claims.thy ===== *)
theory Js_Values_Claims
  imports Taihe_Values Edm_Client_Claims
begin

text \<open>
  What the script modules guarantee of the values they hand out: numbers of devices survive the way
  through the script, what arrives over the process boundary is never cast to a wrong class, both
  modules show the same objects, and a script sees the devices of the service.
\<close>

section \<open>The engine\<close>

datatype js_value =
    VUndefined | VBoolean bool | VNumber int | VBigint int | VString string
  | VObject "(string \<times> js_value) list" | VArray "js_value list" | VFunction nat | VRemote nat

fun type_of_js :: "js_value \<Rightarrow> js_type" where
  "type_of_js VUndefined = Ty_undefined"
| "type_of_js (VBoolean _) = Ty_boolean"
| "type_of_js (VNumber _) = Ty_number"
| "type_of_js (VBigint _) = Ty_bigint"
| "type_of_js (VString _) = Ty_string"
| "type_of_js (VFunction _) = Ty_function"
| "type_of_js _ = Ty_object"

text \<open>
  The documented behaviour of the calls while memory lasts, over the script values \<open>view v\<close>. Integers
  of up to 53 bits are numbers that are read back exactly; of a large integer the low 64 bits are read.
\<close>

definition napi_makes :: "'v napi \<Rightarrow> ('v \<Rightarrow> js_value) \<Rightarrow> bool" where
  "napi_makes N view \<longleftrightarrow>
     (\<forall>b. \<exists>v. nv_boolean N b = Some v \<and> view v = VBoolean b)
     \<and> (\<forall>n. \<exists>v. nv_int32 N n = Some v \<and> view v = VNumber n)
     \<and> (\<forall>n. \<exists>v. nv_uint32 N n = Some v \<and> view v = VNumber (uint n))
     \<and> (\<forall>n. \<bar>n\<bar> \<le> 9007199254740991 \<longrightarrow> (\<exists>v. nv_int64 N n = Some v \<and> view v = VNumber n))
     \<and> (\<forall>n. \<exists>v. nv_bigint N n = Some v \<and> view v = VBigint (uint n))
     \<and> (\<forall>s. \<exists>v. nv_string N s = Some v \<and> view v = VString s)
     \<and> (\<exists>v. nv_object N = Some v \<and> view v = VObject [])
     \<and> (\<exists>v. nv_array N = Some v \<and> view v = VArray [])"

definition napi_updates :: "'v napi \<Rightarrow> ('v \<Rightarrow> js_value) \<Rightarrow> bool" where
  "napi_updates N view \<longleftrightarrow>
     (\<forall>k v ob kvs. view ob = VObject kvs \<longrightarrow> k \<notin> fst ` set kvs \<longrightarrow>
        (\<exists>ob'. nv_set N k v ob = Some ob' \<and> view ob' = VObject (kvs @ [(k, view v)])))
     \<and> (\<forall>v a vs. view a = VArray vs \<longrightarrow>
        (\<exists>a'. nv_set_element N (length vs) v a = Some a' \<and> view a' = VArray (vs @ [view v])))"

definition napi_reads :: "'v napi \<Rightarrow> ('v \<Rightarrow> js_value) \<Rightarrow> bool" where
  "napi_reads N view \<longleftrightarrow>
     (\<forall>v. nv_typeof N v = type_of_js (view v))
     \<and> (\<forall>v n. view v = VNumber n \<longrightarrow> \<bar>n\<bar> \<le> 9007199254740991 \<longrightarrow> nv_get_int64 N v = Some n)
     \<and> (\<forall>v n. view v = VBigint n \<longrightarrow> nv_get_bigint N v = Some (word_of_int n))"

text \<open>An engine whose values are the script values themselves.\<close>

definition value_napi :: "js_value napi" where
  "value_napi =
     \<lparr>nv_typeof = type_of_js, nv_undefined = VUndefined, nv_boolean = \<lambda>b. Some (VBoolean b), nv_int32 = \<lambda>n. Some (VNumber n),
      nv_uint32 = \<lambda>n. Some (VNumber (uint n)), nv_int64 = \<lambda>n. Some (VNumber n), nv_bigint = \<lambda>n. Some (VBigint (uint n)),
      nv_string = \<lambda>s. Some (VString s), nv_object = Some (VObject []), nv_array = Some (VArray []),
      nv_error = \<lambda>v. VObject [], nv_remote = VRemote,
      nv_set = \<lambda>k v ob. (case ob of VObject kvs \<Rightarrow> Some (VObject (kvs @ [(k, v)])) | _ \<Rightarrow> None),
      nv_set_element = \<lambda>i v a. (case a of VArray vs \<Rightarrow> Some (VArray (vs @ [v])) | _ \<Rightarrow> None),
      nv_get_int32 = \<lambda>v. (case v of VNumber n \<Rightarrow> Some n | _ \<Rightarrow> None),
      nv_get_int64 = \<lambda>v. (case v of VNumber n \<Rightarrow> Some n | _ \<Rightarrow> None),
      nv_get_bigint = \<lambda>v. (case v of VBigint n \<Rightarrow> Some (word_of_int n) | _ \<Rightarrow> None),
      nv_get_string = \<lambda>v. (case v of VString s \<Rightarrow> Some s | _ \<Rightarrow> None)\<rparr>"

lemma value_napi_ok: "napi_makes value_napi (\<lambda>v. v)" "napi_updates value_napi (\<lambda>v. v)" "napi_reads value_napi (\<lambda>v. v)"
  by (simp_all add: napi_makes_def napi_updates_def napi_reads_def value_napi_def)

section \<open>Numbers of devices\<close>

text \<open>
  a number of a device that a script got is understood as the same number when the script
  passes it back, also above the range in which the numbers of the script are exact.
\<close>

theorem device_id_roundtrip:
  assumes "napi_makes N view" and "napi_reads N view"
  shows "\<exists>v. ConvertToJsDeviceId N d = Some v \<and> ParseDeviceId N v = Some d"
proof (cases "d > MAX_JS_NUMBER")
  case True
  then obtain v where "nv_bigint N d = Some v" "view v = VBigint (uint d)"
    using assms(1) unfolding napi_makes_def by blast
  then show ?thesis using True assms(2) by (simp add: ConvertToJsDeviceId_def ParseDeviceId_def napi_reads_def)
next
  case False
  then have small: "\<bar>uint d\<bar> \<le> 9007199254740991" by (simp add: MAX_JS_NUMBER_def word_less_def not_less)
  then obtain v where "nv_int64 N (uint d) = Some v" "view v = VNumber (uint d)"
    using assms(1) unfolding napi_makes_def by blast
  then show ?thesis using False small assms(2) by (simp add: ConvertToJsDeviceId_def ParseDeviceId_def napi_reads_def)
qed

theorem device_id_roundtrip_witness:
  "\<exists>v. ConvertToJsDeviceId value_napi 0xFFFFFFFF00000001 = Some v \<and> ParseDeviceId value_napi v = Some 0xFFFFFFFF00000001"
  by (rule device_id_roundtrip [OF value_napi_ok(1) value_napi_ok(3)])

text \<open>A large integer keeps only its low 64 bits, and the call for that number goes through.\<close>

lemma lossy_bigint_accepted:
  "napi_reads N view \<Longrightarrow> view v = VBigint (2 ^ 64 + 5) \<Longrightarrow> ParseDeviceId N v = Some 5"
  by (simp add: ParseDeviceId_def napi_reads_def)

section \<open>Casts\<close>

text \<open>
  C35: whatever bytes arrive, an object that is read from a parcel is converted for the script by
  both modules without a cast to a class it does not have and without a null pointer.
\<close>

theorem received_objects_well_typed:
  shows "(fst (DeviceData_Unmarshalling P p) = Some d \<longrightarrow>
           isl (ConvertDeviceToJsDevice N d) = False \<and> isl (ConvertToDevice d) = False)
    \<and> (fst (DeviceInfoData_Unmarshalling P p) = Some x \<longrightarrow>
           isl (ConvertToJsDeviceInfo N x) = False \<and> isl (ConvertToDeviceInfo x) = False)
    \<and> (fst (DriverInfoData_Unmarshalling P p) = Some r \<longrightarrow>
           isl (ConvertToJsDriverInfo N r) = False \<and> isl (ConvertToDriverInfo r) = False)"
proof (intro conjI impI)
  assume "fst (DeviceData_Unmarshalling P p) = Some d"
  then have "dd_usb d \<noteq> None"
    by (auto simp: DeviceData_Unmarshalling_def USBDevice_Unmarshalling_def Let_def split_def split: if_splits)
  then show "isl (ConvertDeviceToJsDevice N d) = False" "isl (ConvertToDevice d) = False"
    by (auto simp: ConvertDeviceToJsDevice_def ConvertToDevice_def Let_def)
next
  have items: "\<exists>ys. convert_items ParseToUSBInterfaceDesc (map Some ds) = Inr ys" for ds
    by (induction ds) (auto simp: ParseToUSBInterfaceDesc_def)
  assume "fst (DeviceInfoData_Unmarshalling P p) = Some x"
  then obtain u ds where "dx_usb x = Some u" "ux_interfaceDescList u = map Some ds"
    by (auto simp: DeviceInfoData_Unmarshalling_def USBDeviceInfoData_Unmarshalling_def Let_def split_def
        split: if_splits option.splits prod.splits)
  then show "isl (ConvertToJsDeviceInfo N x) = False" "isl (ConvertToDeviceInfo x) = False"
    using items [of ds] by (auto simp: ConvertToJsDeviceInfo_def ConvertToDeviceInfo_def Let_def)
next
  assume "fst (DriverInfoData_Unmarshalling P p) = Some r"
  then have "rx_usb r \<noteq> None"
    by (auto simp: DriverInfoData_Unmarshalling_def USBDriverInfoData_Unmarshalling_def Let_def split_def split: if_splits)
  then show "isl (ConvertToJsDriverInfo N r) = False" "isl (ConvertToDriverInfo r) = False"
    by (auto simp: ConvertToJsDriverInfo_def ConvertToDriverInfo_def Let_def)
qed

text \<open>A device, a device with a driver, and a driver, read from a queue of items.\<close>

theorem received_objects_well_typed_witness:
  "isl (ConvertDeviceToJsDevice value_napi
     (the (fst (DeviceData_Unmarshalling queue_parcel [U32 1, U64 (2 ^ 32 + 1), Str ''d'', U16 1, U16 2])))) = False"
proof -
  let ?r = "DeviceData_Unmarshalling queue_parcel [U32 1, U64 (2 ^ 32 + 1), Str ''d'', U16 1, U16 2]"
  have "fst ?r = Some (the (fst ?r))" by code_simp
  then show ?thesis
    using received_objects_well_typed [of queue_parcel "[U32 1, U64 (2 ^ 32 + 1), Str ''d'', U16 1, U16 2]" "the (fst ?r)" value_napi] by blast
qed

section \<open>The two modules\<close>

definition built_from :: "('v \<Rightarrow> js_value) \<Rightarrow> 'v option \<Rightarrow> js_value \<Rightarrow> bool" where
  "built_from view v w \<longleftrightarrow> (\<exists>x. v = Some x \<and> view x = w)"

lemma made_simple:
  assumes "napi_makes N view"
  shows "built_from view (nv_boolean N b) (VBoolean b)" and "built_from view (nv_int32 N n) (VNumber n)"
    and "built_from view (nv_uint32 N m) (VNumber (uint m))" and "built_from view (nv_string N s) (VString s)"
  using assms unfolding napi_makes_def built_from_def by blast+

lemma set_members_made:
  assumes "napi_updates N view"
  shows "view ob = VObject kvs \<Longrightarrow> distinct (map fst kvs @ map fst vs) \<Longrightarrow> map fst vs = map fst ws \<Longrightarrow>
    list_all2 (built_from view) (map snd vs) (map snd ws) \<Longrightarrow> built_from view (set_members N vs ob) (VObject (kvs @ ws))"
proof (induction vs arbitrary: ob kvs ws)
  case Nil
  then show ?case by (simp add: built_from_def)
next
  case (Cons e vs)
  obtain k v where e: "e = (k, v)" by fastforce
  obtain w ws' where ws: "ws = (k, w) # ws'" using Cons.prems(3) by (cases ws) (auto simp: e)
  obtain x where x: "v = Some x" "view x = w" using Cons.prems(4) by (auto simp: e ws built_from_def)
  have "k \<notin> fst ` set kvs" using Cons.prems(2) by (auto simp: e simp flip: set_map)
  then obtain ob' where ob': "nv_set N k x ob = Some ob'" "view ob' = VObject (kvs @ [(k, w)])"
    using assms Cons.prems(1) x(2) unfolding napi_updates_def by blast
  have d: "distinct (map fst (kvs @ [(k, w)]) @ map fst vs)" using Cons.prems(2) by (auto simp: e)
  have "built_from view (set_members N vs ob') (VObject ((kvs @ [(k, w)]) @ ws'))"
    using Cons.prems(3,4) by (intro Cons.IH [OF ob'(2) d]) (auto simp: e ws)
  then show ?case by (simp add: e ws x ob')
qed

lemma new_object_made:
  assumes "napi_makes N view" and "napi_updates N view" and "distinct (map fst vs)" and "map fst vs = map fst ws"
    and "list_all2 (built_from view) (map snd vs) (map snd ws)"
  shows "built_from view (new_object N vs) (VObject ws)"
proof -
  obtain ob where "nv_object N = Some ob" "view ob = VObject []" using assms(1) unfolding napi_makes_def by blast
  then show ?thesis using set_members_made [OF assms(2), of ob "[]" vs ws] assms(3-5) by (simp add: new_object_def)
qed

lemma set_elements_made:
  assumes "napi_updates N view"
  shows "view a = VArray ys \<Longrightarrow> list_all2 (built_from view) vs ws \<Longrightarrow> built_from view (set_elements N (length ys) vs a) (VArray (ys @ ws))"
proof (induction vs arbitrary: a ys ws)
  case Nil
  then show ?case by (simp add: built_from_def)
next
  case (Cons v vs)
  obtain w ws' where ws: "ws = w # ws'" "list_all2 (built_from view) vs ws'" "built_from view v w"
    using Cons.prems(2) by (auto simp: list_all2_Cons1)
  then obtain x where x: "v = Some x" "view x = w" by (auto simp: built_from_def)
  obtain a' where a': "nv_set_element N (length ys) x a = Some a'" "view a' = VArray (ys @ [w])"
    using assms Cons.prems(1) x(2) unfolding napi_updates_def by blast
  have "built_from view (set_elements N (length (ys @ [w])) vs a') (VArray ((ys @ [w]) @ ws'))"
    by (rule Cons.IH [OF a'(2) ws(2)])
  then show ?case by (simp add: ws x a')
qed

lemma js_array_made:
  assumes "napi_makes N view" and "napi_updates N view" and "list_all2 (built_from view) vs ws"
  shows "built_from view (js_array N vs) (VArray ws)"
proof -
  obtain a where "nv_array N = Some a" "view a = VArray []" using assms(1) unfolding napi_makes_def by blast
  then show ?thesis using set_elements_made [OF assms(2), of a "[]" vs ws] assms(3) by (simp add: js_array_def)
qed

text \<open>What the other module shows, as a script value.\<close>

definition js_id :: "u64 \<Rightarrow> js_value" where
  "js_id d = (if d > MAX_JS_NUMBER then VBigint (uint d) else VNumber (uint d))"

definition js_of_interface :: "taihe_interface \<Rightarrow> js_value" where
  "js_of_interface i = VObject [(''bInterfaceNumber'', VNumber (ti_bInterfaceNumber i)), (''bClass'', VNumber (ti_bClass i)),
     (''bSubClass'', VNumber (ti_bSubClass i)), (''bProtocol'', VNumber (ti_bProtocol i))]"

definition js_of_device :: "taihe_device \<Rightarrow> js_value" where
  "js_of_device d = VObject ([(''busType'', VNumber (uint (th_busType d))), (''deviceId'', js_id (th_deviceId d)),
     (''description'', VString (th_description d))]
     @ (case th_ids d of None \<Rightarrow> [] | Some (v, p) \<Rightarrow> [(''vendorId'', VNumber v), (''productId'', VNumber p)]))"

definition js_of_info :: "taihe_device_info \<Rightarrow> js_value" where
  "js_of_info x = VObject ([(''deviceId'', js_id (tx_deviceId x)), (''isDriverMatched'', VBoolean (tx_isDriverMatched x))]
     @ (case tx_driverUid x of None \<Rightarrow> [] | Some u \<Rightarrow> [(''driverUid'', VString u)])
     @ (case tx_usb x of None \<Rightarrow> []
        | Some u \<Rightarrow> [(''vendorId'', VNumber (tu_vendorId u)), (''productId'', VNumber (tu_productId u)),
            (''interfaceDescList'', VArray (map js_of_interface (tu_interfaceDescList u)))]))"

definition js_of_driver :: "taihe_driver_info \<Rightarrow> js_value" where
  "js_of_driver r = VObject ([(''busType'', VNumber (uint (tr_busType r))), (''driverUid'', VString (tr_driverUid r)),
     (''driverName'', VString (tr_driverName r)), (''driverSize'', VString (tr_driverSize r)),
     (''driverVersion'', VString (tr_driverVersion r)), (''description'', VString (tr_description r))]
     @ (case tr_usb r of None \<Rightarrow> []
        | Some (pids, vids) \<Rightarrow> [(''productIdList'', VArray (map VNumber pids)), (''vendorIdList'', VArray (map VNumber vids))]))"

lemma made_id: "napi_makes N view \<Longrightarrow> built_from view (ConvertToJsDeviceId N d) (js_id d)"
proof (cases "d > MAX_JS_NUMBER")
  case False
  then have "\<bar>uint d\<bar> \<le> 9007199254740991" by (simp add: MAX_JS_NUMBER_def word_less_def not_less)
  moreover assume "napi_makes N view"
  ultimately show ?thesis using False unfolding napi_makes_def built_from_def ConvertToJsDeviceId_def js_id_def by auto
qed (simp add: napi_makes_def built_from_def ConvertToJsDeviceId_def js_id_def)

lemma uint_u16_u32 [simp]: "uint (ucast (w :: u16) :: u32) = uint w"
  by (simp add: uint_up_ucast is_up)

lemma uint_u8_u32 [simp]: "uint (ucast (w :: u8) :: u32) = uint w"
  by (simp add: uint_up_ucast is_up)

lemma made_up16: "napi_makes N view \<Longrightarrow> built_from view (nv_uint32 N (ucast (w :: u16))) (VNumber (uint w))"
  using made_simple(3) [of N view "ucast w"] by simp

lemma made_up8: "napi_makes N view \<Longrightarrow> built_from view (nv_uint32 N (ucast (w :: u8))) (VNumber (uint w))"
  using made_simple(3) [of N view "ucast w"] by simp

lemmas made_intros = made_simple made_id made_up16 made_up8 new_object_made js_array_made

lemma interfaces_made:
  assumes "napi_makes N view" and "napi_updates N view"
  shows "convert_items ParseToUSBInterfaceDesc ds = Inr is \<Longrightarrow>
    list_all2 (built_from view) (map (ConvertToJsUSBInterfaceDesc N) ds) (map js_of_interface is)"
proof (induction ds arbitrary: "is")
  case (Cons d ds)
  then obtain i js where d: "ParseToUSBInterfaceDesc d = Inr i" "is = i # js" "convert_items ParseToUSBInterfaceDesc ds = Inr js"
    by (cases "ParseToUSBInterfaceDesc d"; cases "convert_items ParseToUSBInterfaceDesc ds") auto
  have "built_from view (ConvertToJsUSBInterfaceDesc N d) (js_of_interface i)"
    using d(1) by (cases d) (auto simp: ParseToUSBInterfaceDesc_def ConvertToJsUSBInterfaceDesc_def js_of_interface_def
        intro!: new_object_made assms made_up8)
  then show ?case using Cons.IH [OF d(3)] d(2) by simp
qed simp

lemma numbers_made:
  assumes "napi_makes N view" and "napi_updates N view"
  shows "built_from view (js_numbers N xs) (VArray (map VNumber (map uint xs)))"
  unfolding js_numbers_def
  by (intro js_array_made assms) (auto simp: list_all2_map1 list_all2_map2 list_all2_same intro: made_up16 assms)

lemma device_made:
  assumes "napi_makes N view" and "napi_updates N view" and "fst (DeviceData_Unmarshalling P p) = Some d"
  shows "\<exists>t v. ConvertToDevice d = Inr t \<and> ConvertDeviceToJsDevice N d = Inr v \<and> built_from view v (js_of_device t)"
proof -
  obtain a b where d: "dd_usb d = Some (a, b)" "dd_busType d = 1"
    using assms(3) by (auto simp: DeviceData_Unmarshalling_def USBDevice_Unmarshalling_def Let_def split_def split: if_splits)
  show ?thesis
    using d by (auto simp: ConvertToDevice_def ConvertDeviceToJsDevice_def js_of_device_def Let_def
        intro!: made_intros assms(1,2))
qed

lemma usb_info_made:
  assumes "napi_makes N view" and "napi_updates N view"
    and x: "dx_usb x = Some u" "ux_interfaceDescList u = map Some ds" "GetBusTypeByDeviceId (dx_deviceId x) = 1"
  shows "\<exists>t v. ConvertToDeviceInfo x = Inr t \<and> ConvertToJsDeviceInfo N x = Inr v \<and> built_from view v (js_of_info t)"
proof -
  have "\<exists>ys. convert_items ParseToUSBInterfaceDesc (map Some ds) = Inr ys"
    by (induction ds) (auto simp: ParseToUSBInterfaceDesc_def)
  then obtain ys where ys: "convert_items ParseToUSBInterfaceDesc (map Some ds) = Inr ys" by blast
  have arr: "built_from view (js_array N (map (ConvertToJsUSBInterfaceDesc N) (map Some ds))) (VArray (map js_of_interface ys))"
    by (intro js_array_made assms interfaces_made [OF assms(1,2) ys])
  show ?thesis
    using x ys arr by (auto simp: ConvertToDeviceInfo_def ConvertToJsDeviceInfo_def js_of_info_def Let_def
        intro!: made_simple made_id made_up16 new_object_made assms(1,2))
qed

lemma info_made:
  assumes "napi_makes N view" and "napi_updates N view" and "fst (DeviceInfoData_Unmarshalling P p) = Some x"
  shows "\<exists>t v. ConvertToDeviceInfo x = Inr t \<and> ConvertToJsDeviceInfo N x = Inr v \<and> built_from view v (js_of_info t)"
proof -
  obtain u ds where "dx_usb x = Some u" "ux_interfaceDescList u = map Some ds" "GetBusTypeByDeviceId (dx_deviceId x) = 1"
    using assms(3) by (auto simp: DeviceInfoData_Unmarshalling_def USBDeviceInfoData_Unmarshalling_def Let_def split_def
        split: if_splits option.splits prod.splits)
  then show ?thesis by (rule usb_info_made [OF assms(1,2)])
qed

lemma valid_info_made:
  assumes "napi_makes N view" and "napi_updates N view" and "device_info_valid x"
  shows "\<exists>t v. ConvertToDeviceInfo x = Inr t \<and> ConvertToJsDeviceInfo N x = Inr v \<and> built_from view v (js_of_info t)"
proof -
  obtain u where u: "dx_usb x = Some u" "list_all (\<lambda>x. x \<noteq> None) (ux_interfaceDescList u)" "GetBusTypeByDeviceId (dx_deviceId x) = 1"
    using assms(3) by (auto simp: device_info_valid_def split: option.splits)
  have "ux_interfaceDescList u = map Some (map the (ux_interfaceDescList u))"
    using u(2) by (induction "ux_interfaceDescList u" rule: list.induct) (auto simp: list_all_iff intro!: nth_equalityI [symmetric])
  then show ?thesis using usb_info_made [OF assms(1,2) u(1) _ u(3)] by blast
qed

lemma driver_made:
  assumes "napi_makes N view" and "napi_updates N view" and "fst (DriverInfoData_Unmarshalling P p) = Some r"
  shows "\<exists>t v. ConvertToDriverInfo r = Inr t \<and> ConvertToJsDriverInfo N r = Inr v \<and> built_from view v (js_of_driver t)"
proof -
  obtain a b where r: "rx_usb r = Some (a, b)" "rx_busType r = 1"
    using assms(3) by (auto simp: DriverInfoData_Unmarshalling_def USBDriverInfoData_Unmarshalling_def Let_def split_def split: if_splits)
  show ?thesis
    using r numbers_made [OF assms(1,2)] by (auto simp: ConvertToDriverInfo_def ConvertToJsDriverInfo_def js_of_driver_def Let_def
        intro!: made_simple new_object_made assms(1,2) simp flip: map_map)
qed

text \<open>
  C34: for every object read from a parcel, the module for the dynamic language builds exactly the
  object that the module for the static language hands out.
\<close>

theorem modules_agree:
  assumes "napi_makes N view" and "napi_updates N view"
  shows "(fst (DeviceData_Unmarshalling P p) = Some d \<longrightarrow>
          (\<exists>t v. ConvertToDevice d = Inr t \<and> ConvertDeviceToJsDevice N d = Inr (Some v) \<and> view v = js_of_device t))
    \<and> (fst (DeviceInfoData_Unmarshalling P p) = Some x \<longrightarrow>
          (\<exists>t v. ConvertToDeviceInfo x = Inr t \<and> ConvertToJsDeviceInfo N x = Inr (Some v) \<and> view v = js_of_info t))
    \<and> (fst (DriverInfoData_Unmarshalling P p) = Some r \<longrightarrow>
          (\<exists>t v. ConvertToDriverInfo r = Inr t \<and> ConvertToJsDriverInfo N r = Inr (Some v) \<and> view v = js_of_driver t))"
  using device_made [OF assms, of P p d] info_made [OF assms, of P p x] driver_made [OF assms, of P p r]
  unfolding built_from_def by blast

theorem modules_agree_witness:
  "\<exists>v. ConvertDeviceToJsDevice value_napi
        (the (fst (DeviceData_Unmarshalling queue_parcel [U32 1, U64 (2 ^ 32 + 1), Str ''d'', U16 1, U16 2]))) = Inr (Some v)"
proof -
  let ?r = "DeviceData_Unmarshalling queue_parcel [U32 1, U64 (2 ^ 32 + 1), Str ''d'', U16 1, U16 2]"
  have "fst ?r = Some (the (fst ?r))" by code_simp
  then show ?thesis
    using modules_agree [OF value_napi_ok(1,2), of queue_parcel "[U32 1, U64 (2 ^ 32 + 1), Str ''d'', U16 1, U16 2]" "the (fst ?r)"]
    by blast
qed

section \<open>What a script sees\<close>

lemma infos_made:
  assumes "napi_makes N view" and "napi_updates N view"
  shows "list_all device_info_valid xs \<Longrightarrow>
    \<exists>ts vs. convert_items ConvertToDeviceInfo xs = Inr ts \<and> convert_all (ConvertToJsDeviceInfo N) xs = Inr vs
      \<and> list_all2 (built_from view) vs (map js_of_info ts)"
proof (induction xs)
  case (Cons x xs)
  obtain t v where "ConvertToDeviceInfo x = Inr t" "ConvertToJsDeviceInfo N x = Inr v" "built_from view v (js_of_info t)"
    using valid_info_made [OF assms, of x] Cons.prems by auto
  then show ?case using Cons by auto
qed simp

text \<open>
  a script of a system application with the permission gets from queryDeviceInfo an array that
  has, for each visible device of the service in order, the object that shows its number, its driver,
  its USB identifiers and its interfaces.
\<close>

theorem script_sees_visible_devices:
  assumes "napi_makes N view" and "napi_updates N view" and "Connect E c = (EDM_OK, c1)"
    and "IsSystemAppOrSa C" and "VerifyPermission C ACCESS_EXTENSIONAL"
    and "list_all usb_ready (QueryAllDevices (sv_dm sv))"
  shows "\<exists>v xs ts. Js_QueryDeviceInfo E [] (service_proxy P V fs base icon C) N [] c sv = Inr (JReturn v, c1, sv)
    \<and> list_all2 tells xs (QueryAllDevices (sv_dm sv)) \<and> convert_items ConvertToDeviceInfo xs = Inr ts
    \<and> view v = VArray (map js_of_info ts)"
proof -
  obtain xs where xs: "ParseDevices (QueryAllDevices (sv_dm sv)) [] = Inr xs" "list_all2 tells xs (QueryAllDevices (sv_dm sv))"
      "list_all device_info_valid xs"
    using ParseDevices_ready [OF assms(6), of "[]"] by auto
  obtain ts vs where ts: "convert_items ConvertToDeviceInfo xs = Inr ts" "convert_all (ConvertToJsDeviceInfo N) xs = Inr vs"
      "list_all2 (built_from view) vs (map js_of_info ts)"
    using infos_made [OF assms(1,2) xs(3)] by blast
  obtain v where v: "js_array N vs = Some v" "view v = VArray (map js_of_info ts)"
    using js_array_made [OF assms(1,2) ts(3)] by (auto simp: built_from_def)
  obtain r where r: "ec_proxy c1 = Some r" using Connect_OK [OF assms(3)] by auto
  show ?thesis
    using assms(3-5) xs(1,2) ts(1,2) v r
    by (intro exI [of _ v] exI [of _ xs] exI [of _ ts])
      (simp add: Js_QueryDeviceInfo_def Client_QueryAllDeviceInfo_def client_call_def service_proxy_def
        DriverExtMgr_QueryDeviceInfo_def of_value_def Let_def)
qed

theorem script_sees_visible_devices_witness:
  "\<exists>x. Js_QueryDeviceInfo a_client_env [] (service_proxy an_env ok_env (\<lambda>_. None) ''zh'' True caller_five) value_napi []
      new_client plugged_service = Inr (JReturn (VArray [x]), connected_client, plugged_service)"
proof -
  obtain d where d: "QueryAllDevices (sv_dm plugged_service) = [d]" by (rule plugged_visible)
  from script_sees_visible_devices [OF value_napi_ok(1,2) example_connect caller_five_ok plugged_ready,
      of an_env ok_env "\<lambda>_. None" "''zh''" True]
  obtain xs ts where "Js_QueryDeviceInfo a_client_env [] (service_proxy an_env ok_env (\<lambda>_. None) ''zh'' True caller_five)
        value_napi [] new_client plugged_service = Inr (JReturn (VArray (map js_of_info ts)), connected_client, plugged_service)"
      "list_all2 tells xs [d]" "convert_items ConvertToDeviceInfo xs = Inr ts"
    unfolding d by blast
  moreover from this(2) obtain x where "xs = [x]" by (auto simp: list_all2_Cons2)
  ultimately show ?thesis by (cases "ConvertToDeviceInfo x") auto
qed

end
