(* ===== verification/Js_Bind_Claims.thy ===== *)
theory Js_Bind_Claims
  imports Js_Bind_Safety Js_Values_Claims
begin

text \<open>
  What the binding functions of the script module promise to a script: nothing deleted is used, a
  promise gets one answer, that of its own device; and what they do not promise.
\<close>

section \<open>A monitor of the answers\<close>

text \<open>
  The promises that are still open, with their devices; promises have increasing numbers. Only an open
  promise may be settled, with the result of its own device.
\<close>

fun answers :: "nat \<Rightarrow> (nat \<times> u64) list \<Rightarrow> js_event list \<Rightarrow> bool" where
  "answers n opened [] \<longleftrightarrow> True"
| "answers n opened (Promise_made p k # evs) \<longleftrightarrow> n \<le> p \<and> answers (Suc p) ((p, k) # opened) evs"
| "answers n opened (Settled_bind p k _ _ # evs) \<longleftrightarrow> (p, k) \<in> set opened \<and> answers n (removeAll (p, k) opened) evs"
| "answers n opened (Settled_unbind p k _ # evs) \<longleftrightarrow> (p, k) \<in> set opened \<and> answers n (removeAll (p, k) opened) evs"
| "answers n opened (_ # evs) \<longleftrightarrow> answers n opened evs"

fun after :: "nat \<times> (nat \<times> u64) list \<Rightarrow> js_event list \<Rightarrow> nat \<times> (nat \<times> u64) list" where
  "after m [] = m"
| "after (n, opened) (Promise_made p k # evs) = after (Suc p, (p, k) # opened) evs"
| "after (n, opened) (Settled_bind p k _ _ # evs) = after (n, removeAll (p, k) opened) evs"
| "after (n, opened) (Settled_unbind p k _ # evs) = after (n, removeAll (p, k) opened) evs"
| "after m (_ # evs) = after m evs"

lemma answers_append: "answers n opened (evs @ evs') \<longleftrightarrow>
    answers n opened evs \<and> (case after (n, opened) evs of (n', opened') \<Rightarrow> answers n' opened' evs')"
  by (induction n opened evs rule: answers.induct) auto

text \<open>The monitor has every promise of an object that is still to settle.\<close>

definition monitored :: "nat \<times> (nat \<times> u64) list \<Rightarrow> js_state \<Rightarrow> bool" where
  "monitored m s \<longleftrightarrow> fst m \<le> js_next s \<and>
     (\<forall>i d p. data_at s i = Some d \<longrightarrow> p \<in># promises_of d \<longrightarrow> p \<in> set (js_deferred s) \<longrightarrow> (p, ad_deviceId d) \<in> set (snd m))"

definition answering :: "nat \<times> (nat \<times> u64) list \<Rightarrow> js_event list \<Rightarrow> js_state \<Rightarrow> bool" where
  "answering m evs s \<longleftrightarrow> answers (fst m) (snd m) evs \<and> monitored (after m evs) s"

lemma quiet [simp]: "answers n opened (throws c)" "after m (throws c) = m"
  by (cases m; simp add: throws_def split: option.splits)+

lemma quiet_Cons [simp]: "after m (Call_unbind driver k # throws c) = m"
  by (cases m) simp

text \<open>A step that makes and settles no promise.\<close>

definition no_news :: "js_state \<Rightarrow> js_state \<Rightarrow> bool" where
  "no_news s s' \<longleftrightarrow> js_next s \<le> js_next s' \<and> js_deferred s' = js_deferred s \<and>
     (\<forall>i d. data_at s' i = Some d \<longrightarrow> promises_of d = {#} \<or>
       (\<exists>d'. data_at s i = Some d' \<and> promises_of d = promises_of d' \<and> ad_deviceId d = ad_deviceId d'))"

lemma no_news_monitored:
  assumes "monitored m s" and "no_news s s'"
  shows "monitored m s'"
proof -
  have "(p, ad_deviceId d) \<in> set (snd m)"
    if d: "data_at s' i = Some d" and p: "p \<in># promises_of d" and l: "p \<in> set (js_deferred s')" for i d p
  proof -
    obtain d' where d': "data_at s i = Some d'" "promises_of d = promises_of d'" "ad_deviceId d = ad_deviceId d'"
      using assms(2) d p unfolding no_news_def by fastforce
    then have "(p, ad_deviceId d') \<in> set (snd m)" using assms l p unfolding monitored_def no_news_def by auto
    then show ?thesis using d' by simp
  qed
  then show ?thesis using assms unfolding monitored_def no_news_def by fastforce
qed

lemma no_news_same: "js_next s \<le> js_next s' \<Longrightarrow> js_deferred s' = js_deferred s \<Longrightarrow> js_data s' = js_data s \<Longrightarrow> no_news s s'"
  by (auto simp: no_news_def)

lemma no_news_trans:
  assumes "no_news s s'" and "no_news s' s''"
  shows "no_news s s''"
proof -
  have "promises_of d = {#} \<or> (\<exists>d'. data_at s i = Some d' \<and> promises_of d = promises_of d' \<and> ad_deviceId d = ad_deviceId d')"
    if "data_at s'' i = Some d" for i d
    using assms that unfolding no_news_def by metis
  then show ?thesis using assms unfolding no_news_def by auto
qed

lemma no_news_set_data:
  assumes "no_news s s'" and "\<And>d. ad_deviceId (f d) = ad_deviceId d" and "\<And>d. promises_of (f d) = promises_of d"
  shows "no_news s (set_data i f s')"
proof (rule no_news_trans [OF assms(1)])
  show "no_news s' (set_data i f s')" using assms(2,3) by (auto simp: no_news_def data_at_set_data split: if_splits)
qed

lemma no_news_collect: "distinct (map fst (js_data s)) \<Longrightarrow> no_news s (collect sent s)"
  by (auto simp: no_news_def data_at_collect split: if_splits) (simp_all add: collect_eq)

lemma delete_refs_no_news: "delete_refs rs s = Inr s' \<Longrightarrow> no_news s s'"
proof (induction rs s rule: delete_refs.induct)
  case (3 r rs s)
  then obtain t where t: "delete_ref r s = Inr t" "delete_refs rs t = Inr s'" by (cases "delete_ref r s") auto
  then have "no_news s t" by (auto simp: delete_ref_def split: if_splits intro!: no_news_same)
  then show ?case using 3 t no_news_trans by blast
qed (auto intro: no_news_same)

lemma drop_binding_no_news: "drop_binding i d s = Inr s' \<Longrightarrow> no_news s s'"
proof -
  assume a: "drop_binding i d s = Inr s'"
  then obtain t where t: "delete_refs [ad_onDisconnect d] (erase_own i (ad_deviceId d) s) = Inr t"
    and s': "s' = set_data i (\<lambda>d. d\<lparr>ad_onDisconnect := None\<rparr>) t"
    unfolding drop_binding_def Let_def by (cases "delete_refs [ad_onDisconnect d] (erase_own i (ad_deviceId d) s)") simp_all
  have "no_news s (erase_own i (ad_deviceId d) s)" by (rule no_news_same) (simp_all add: erase_own_def)
  then have "no_news s t" using delete_refs_no_news [OF t] no_news_trans by blast
  then show ?thesis unfolding s' by (rule no_news_set_data) (simp_all add: promises_of_def)
qed

text \<open>A promise is made for an object.\<close>

lemma promise_bound:
  assumes "state_ok told s" and "data_at s i = Some d" and "p \<in># promises_of d"
  shows "p < js_next s"
proof -
  have "p \<in># data_sum promises_of (js_data s)"
    by (rule mset_subset_eqD [OF data_sum_at [OF assms(2), of promises_of] assms(3)])
  then show ?thesis using assms(1) unfolding state_ok_def promises_ok_def by blast
qed

lemma made_answering:
  assumes s: "state_ok told s" and m: "monitored m s" and d: "data_at s i = Some d" and p: "new_promise s = (p, s')"
    and f: "ad_deviceId (f d) = ad_deviceId d" "promises_of (f d) \<subseteq># add_mset p (promises_of d)"
  shows "answering m [Promise_made p (ad_deviceId d)] (set_data i f s')"
proof -
  obtain n opened where n: "m = (n, opened)" by fastforce
  have s': "s' = s\<lparr>js_deferred := p # js_deferred s, js_next := Suc p\<rparr>" "js_next s = p"
    using p by (auto simp: new_promise_def)
  have "(q, ad_deviceId e) \<in> insert (p, ad_deviceId d) (set opened)"
    if e: "data_at (set_data i f s') j = Some e" and q: "q \<in># promises_of e" "q \<in> set (js_deferred s')" for j e q
  proof (cases "j = i")
    case True
    then have fd: "e = f d" using e d by (simp add: data_at_set_data s'(1))
    then have "q \<in># add_mset p (promises_of d)" using q(1) mset_subset_eqD [OF f(2)] by simp
    then show ?thesis using m d q fd f(1) by (auto simp: monitored_def n s'(1))
  next
    case False
    then have at: "data_at s j = Some e" using e by (simp add: data_at_set_data s'(1))
    then have "q \<noteq> p" using promise_bound [OF s at q(1)] s'(2) by simp
    then show ?thesis using m at q by (auto simp: monitored_def n s'(1))
  qed
  then show ?thesis using m by (simp add: answering_def monitored_def n s'(2)) (simp add: s'(1))
qed

text \<open>A promise of an object is settled.\<close>

definition settles :: "nat \<Rightarrow> u64 \<Rightarrow> js_event \<Rightarrow> bool" where
  "settles p k e \<longleftrightarrow> (\<exists>remote ok. e = Settled_bind p k remote ok) \<or> (\<exists>ok. e = Settled_unbind p k ok)"

lemma settled_answering:
  assumes m: "monitored m s" and d: "data_at s i = Some d" and p: "p \<in># promises_of d" and st: "settle p s = Inr s'"
    and e: "settles p (ad_deviceId d) e" and evs: "evs = [] \<or> (\<exists>r k ok. evs = [Called_disconnect r k ok])"
  shows "answering m (evs @ [e]) s'"
proof -
  obtain n opened where n: "m = (n, opened)" by fastforce
  have s': "s' = s\<lparr>js_deferred := removeAll p (js_deferred s)\<rparr>" "p \<in> set (js_deferred s)"
    using st by (auto simp: settle_def split: if_splits)
  have "(p, ad_deviceId d) \<in> set opened" using m d p s'(2) by (auto simp: monitored_def n)
  moreover have "monitored (n, removeAll (p, ad_deviceId d) opened) s'"
    using m by (auto simp: monitored_def n s'(1))
  ultimately show ?thesis using e evs by (auto simp: answering_def settles_def n)
qed

section \<open>Every step answers\<close>

fun silent :: "js_event \<Rightarrow> bool" where
  "silent (Promise_made p k) \<longleftrightarrow> False"
| "silent (Settled_bind p k remote ok) \<longleftrightarrow> False"
| "silent (Settled_unbind p k ok) \<longleftrightarrow> False"
| "silent _ \<longleftrightarrow> True"

lemma silent_throws [simp]: "list_all silent (throws c)"
  by (simp add: throws_def split: option.splits)

lemma silent_answering:
  assumes "list_all silent evs" and "monitored m s" and "no_news s s'"
  shows "answering m evs s'"
proof -
  have "answers n opened evs \<and> after (n, opened) evs = (n, opened)" for n opened
    using assms(1)
  proof (induction evs)
    case (Cons e evs)
    then show ?case by (cases e) auto
  qed simp
  then have "answers (fst m) (snd m) evs \<and> after m evs = m" by (metis prod.collapse)
  then show ?thesis using no_news_monitored [OF assms(2,3)] by (simp add: answering_def)
qed

lemma no_news_table: "no_news s s' \<Longrightarrow> no_news s (s'\<lparr>js_map := m, js_call := c\<rparr>)"
  by (simp add: no_news_def)

lemma BindStart_no_news: "BindStart N driver alloc ref_ok args s = Inr (evs, s') \<Longrightarrow> list_all silent evs \<and> no_news s s'"
proof -
  assume b: "BindStart N driver alloc ref_ok args s = Inr (evs, s')"
  have new: "no_news s (s\<lparr>js_data := (js_next s, new_data k) # js_data s, js_refs := rs, js_next := n\<rparr>)"
    if "js_next s \<le> n" for k n rs
    using that by (simp add: no_news_def promises_of_new)
  have new0: "no_news s (s\<lparr>js_data := (js_next s, new_data k) # js_data s, js_next := Suc (js_next s)\<rparr>)" for k
    by (simp add: no_news_def promises_of_new)
  have ref: "no_news s ((set_data i (\<lambda>d. d\<lparr>ad_onDisconnect := Some r\<rparr>)
      (s\<lparr>js_data := (js_next s, new_data k) # js_data s, js_refs := rs, js_next := Suc (Suc (js_next s))\<rparr>))\<lparr>js_map := m, js_call := c\<rparr>)"
    for i k r rs m c
    by (intro no_news_table no_news_set_data new) (simp_all add: promises_of_def)
  show ?thesis
    using b new0 ref no_news_same [of s s]
    by (auto simp: BindStart_def Let_def new_ref_def split: if_splits option.splits)
qed

lemma BindEnd_answering:
  assumes s: "state_ok told s" and m: "monitored m s" and b: "BindEnd retCode made s = Inr (evs, s')"
  shows "answering m evs s'"
proof (cases "\<exists>driver i callback. js_call s = Some (Binding driver i callback)")
  case False
  then have "evs = []" "s' = s" using b by (auto simp: BindEnd_def split: option.splits js_call.splits)
  then show ?thesis using silent_answering [OF _ m no_news_same [of s s]] by simp
next
  case True
  then obtain driver i callback where c: "js_call s = Some (Binding driver i callback)" by blast
  obtain d where d: "data_at s i = Some d" using owned_data [OF s owned_call [OF c]] by blast
  obtain t where t: "drop_binding i d s = Inr t" using drop_binding_ok [OF s d] by blast
  have drop: "no_news s (t\<lparr>js_call := None\<rparr>)" using no_news_trans [OF drop_binding_no_news [OF t] no_news_same] by simp
  obtain r s2 where s2: "new_ref s = (r, s2)" by fastforce
  have ref: "no_news s ((set_data i (\<lambda>d. d\<lparr>ad_bindCallback := Some r\<rparr>) s2)\<lparr>js_call := None\<rparr>)"
  proof (rule no_news_trans [OF no_news_set_data no_news_same])
    show "no_news s s2" using s2 by (intro no_news_same) (auto simp: new_ref_def)
  qed (simp_all add: promises_of_def)
  obtain p s3 where s3: "new_promise s = (p, s3)" by fastforce
  have "answering m [Promise_made p (ad_deviceId d)] (set_data i (\<lambda>d. d\<lparr>ad_bindDeferred := Some p\<rparr>) s3)"
    by (rule made_answering [OF s m d s3]) (simp_all add: promises_of_def)
  then have "answering m [Promise_made p (ad_deviceId d)] ((set_data i (\<lambda>d. d\<lparr>ad_bindDeferred := Some p\<rparr>) s3)\<lparr>js_call := None\<rparr>)"
    by (simp add: answering_def monitored_def)
  then show ?thesis
    using b c d t s2 s3 silent_answering [OF _ m drop] silent_answering [OF _ m ref]
    by (auto simp: BindEnd_def split: if_splits)
qed

lemma UnbindEnd_answering:
  assumes s: "state_ok told s" and m: "monitored m s" and b: "UnbindEnd retCode made s = Inr (evs, s')"
  shows "answering m evs s'"
proof (cases "\<exists>driver k callback i. js_call s = Some (Unbinding driver k callback) \<and> map_of (js_map s) k = Some i")
  case False
  then have "list_all silent evs" "s' = s \<or> s' = s\<lparr>js_call := None\<rparr>"
    using b by (auto simp: UnbindEnd_def Let_def split: option.splits js_call.splits if_splits)
  then show ?thesis using silent_answering [OF _ m no_news_same] by auto
next
  case True
  then obtain driver k callback i where c: "js_call s = Some (Unbinding driver k callback)" and k: "map_of (js_map s) k = Some i"
    by blast
  let ?s = "s\<lparr>js_call := None\<rparr>"
  obtain d where d: "data_at ?s i = Some d" "ad_deviceId d = k" using table_data [OF s k] by auto
  have "no_news s ?s" by (rule no_news_same) simp_all
  then have m1: "monitored m ?s" by (rule no_news_monitored [OF m])
  obtain r s2 where s2: "new_ref ?s = (r, s2)" by fastforce
  have ref: "no_news s (set_data i (\<lambda>d. d\<lparr>ad_unbindCallback := Some r\<rparr>) s2)"
  proof (rule no_news_set_data)
    show "no_news s s2" using s2 by (intro no_news_same) (auto simp: new_ref_def)
  qed (simp_all add: promises_of_def)
  obtain p s3 where s3: "new_promise ?s = (p, s3)" by fastforce
  have "answering m [Promise_made p (ad_deviceId d)] (set_data i (\<lambda>d. d\<lparr>ad_unbindDeferred := Some p\<rparr>) s3)"
    by (rule made_answering [OF end_call_ok [OF s] m1 d(1) s3]) (simp_all add: promises_of_def)
  then show ?thesis
    using b c k d s2 s3 silent_answering [OF _ m ref] silent_answering [OF _ m \<open>no_news s ?s\<close>]
    by (auto simp: UnbindEnd_def Let_def split: if_splits)
qed

lemma RunOnConnect_answering:
  assumes m: "monitored m s" and r: "RunOnConnect i remote ok s = Inr (evs, s')"
  shows "answering m evs s'"
proof (cases "\<exists>d p. data_at s i = Some d \<and> ad_bindCallback d = None \<and> ad_bindDeferred d = Some p")
  case False
  then have "list_all silent evs" "s' = s"
    using r by (auto simp: RunOnConnect_def use_ref_def split: option.splits if_splits)
  then show ?thesis using silent_answering [OF _ m no_news_same] by simp
next
  case True
  then obtain d p where d: "data_at s i = Some d" "ad_bindCallback d = None" "ad_bindDeferred d = Some p" by blast
  then have st: "settle p s = Inr s'" and evs: "evs = [] @ [Settled_bind p (ad_deviceId d) remote ok]"
    using r by (auto simp: RunOnConnect_def settle_def split: if_splits)
  have "p \<in># promises_of d" using d(3) by (simp add: promises_of_def)
  then show ?thesis unfolding evs by (rule settled_answering [OF m d(1) _ st]) (simp_all add: settles_def)
qed

lemma RunOnDisconnect_answering:
  assumes m: "monitored m s" and r: "RunOnDisconnect i ok s = Inr (evs, s')"
  shows "answering m evs s'"
proof -
  obtain d where d: "data_at s i = Some d" using r by (auto simp: RunOnDisconnect_def split: option.splits)
  obtain first where first: "(case ad_onDisconnect d of None \<Rightarrow> Inr []
      | Some r \<Rightarrow> bindE (use_ref r s) (\<lambda>_. Inr [Called_disconnect r (ad_deviceId d) ok])) = Inr first"
    using r d by (cases "case ad_onDisconnect d of None \<Rightarrow> Inr []
      | Some r \<Rightarrow> bindE (use_ref r s) (\<lambda>_. Inr [Called_disconnect r (ad_deviceId d) ok])") (simp_all add: RunOnDisconnect_def)
  then have shape: "first = [] \<or> (\<exists>r k ok. first = [Called_disconnect r k ok])"
    by (auto simp: use_ref_def split: option.splits if_splits)
  show ?thesis
  proof (cases "\<exists>p. ad_unbindCallback d = None \<and> ad_unbindDeferred d = Some p")
    case False
    then have "list_all silent evs" "s' = s"
      using r d first shape by (auto simp: RunOnDisconnect_def use_ref_def split: option.splits if_splits)
    then show ?thesis using silent_answering [OF _ m no_news_same] by simp
  next
    case True
    then obtain p where p: "ad_unbindCallback d = None" "ad_unbindDeferred d = Some p" by blast
    then have st: "settle p s = Inr s'" and evs: "evs = first @ [Settled_unbind p (ad_deviceId d) (ad_unBindOk d)]"
      using r d first by (auto simp: RunOnDisconnect_def settle_def split: if_splits)
    have "p \<in># promises_of d" using p(2) by (simp add: promises_of_def)
    then show ?thesis unfolding evs by (rule settled_answering [OF m d _ st]) (simp_all add: settles_def shape)
  qed
qed

lemma js_step_answering:
  assumes s: "state_ok told s" and m: "monitored m s" and r: "js_step N op s = Inr (evs, s')"
  shows "answering m evs s'"
proof -
  have still: "answering m evs s'" if "list_all silent evs" "no_news s s'" by (rule silent_answering [OF that(1) m that(2)])
  show ?thesis
  proof (cases op)
    case (Op_bind driver alloc ref_ok args)
    then show ?thesis using r BindStart_no_news [of N driver alloc ref_ok args s evs s'] still no_news_same [of s s]
      by (auto split: if_splits)
  next
    case (Op_bind_end retCode made)
    then show ?thesis using r BindEnd_answering [OF s m] by simp
  next
    case (Op_unbind driver args)
    then have "list_all silent evs \<and> no_news s s'"
      using r by (auto simp: UnbindStart_def split: if_splits option.splits intro!: no_news_same)
    then show ?thesis using still by blast
  next
    case (Op_unbind_end retCode made)
    then show ?thesis using r UnbindEnd_answering [OF s m] by simp
  next
    case (Op_connected k remote ok sent)
    then have "evs = [] \<and> no_news s s'"
      using r by (auto simp: DeviceManagerCallback_OnConnect_def Let_def split: option.splits if_splits intro!: no_news_same)
    then show ?thesis using still by simp
  next
    case (Op_disconnected k ok sent)
    then have "evs = [] \<and> no_news s s'"
      using r by (auto simp: DeviceManagerCallback_OnDisconnect_def Let_def split: option.splits if_splits intro!: no_news_same)
    then show ?thesis using still by simp
  next
    case (Op_unbound k ok)
    have "no_news s (set_data i (\<lambda>d. d\<lparr>ad_unBindOk := ok\<rparr>) s)" for i
      by (rule no_news_set_data [OF no_news_same]) (simp_all add: promises_of_def)
    then have "evs = [] \<and> no_news s s'"
      using r Op_unbound no_news_same [of s s]
      by (auto simp: DeviceManagerCallback_OnUnBind_def split: option.splits if_splits)
    then show ?thesis using still by simp
  next
    case Op_task
    then show ?thesis
    proof (cases "js_call s = None \<and> js_tasks s \<noteq> []")
      case False
      then have "evs = []" "s' = s" using r Op_task by (auto split: if_splits list.splits)
      then show ?thesis using still no_news_same by simp
    next
      case True
      then obtain t ts where t: "js_tasks s = t # ts" by (cases "js_tasks s") auto
      let ?s = "s\<lparr>js_tasks := ts\<rparr>"
      have run: "RunJsTask t ?s = Inr (evs, s')" using True t r Op_task by simp
      have same: "no_news s ?s" by (rule no_news_same) simp_all
      have m': "monitored m ?s" by (rule no_news_monitored [OF m same])
      show ?thesis
      proof (cases t)
        case (OnConnectTask i remote ok)
        then show ?thesis using run RunOnConnect_answering [OF m'] by simp
      next
        case (OnDisconnectTask i ok)
        then show ?thesis using run RunOnDisconnect_answering [OF m'] by simp
      next
        case (DeleteRefsTask rs)
        then have "evs = []" "delete_refs rs ?s = Inr s'" using run by (cases "delete_refs rs ?s"; simp)+
        then show ?thesis using still no_news_trans [OF same delete_refs_no_news] by simp
      qed
    qed
  qed
qed

lemma js_run_answers:
  "state_ok told s \<Longrightarrow> monitored m s \<Longrightarrow> reports_once N told ops s \<Longrightarrow> js_run N ops s = Inr (evs, s') \<Longrightarrow>
   answers (fst m) (snd m) evs"
proof (induction ops arbitrary: told s m evs)
  case (Cons op ops)
  let ?told = "set_option (reports s (fst op)) \<union> told"
  have new: "set_option (reports s (fst op)) \<inter> told = {}" using Cons.prems(3) by simp
  obtain evs1 s1 where st: "js_step N (fst op) s = Inr (evs1, s1)" "state_ok ?told s1"
    using js_step_ok [OF Cons.prems(1) new] by blast
  then have do1: "js_do N op s = Inr (evs1, collect (snd op) s1)" by (simp add: js_do_def)
  then obtain evs2 where run: "js_run N ops (collect (snd op) s1) = Inr (evs2, s')" "evs = evs1 @ evs2"
    using Cons.prems(4) by (cases "js_run N ops (collect (snd op) s1)") auto
  have a1: "answering m evs1 s1" by (rule js_step_answering [OF Cons.prems(1,2) st(1)])
  have "no_news s1 (collect (snd op) s1)"
    using st(2) by (intro no_news_collect) (simp add: state_ok_def objects_ok_def)
  then have "monitored (after m evs1) (collect (snd op) s1)"
    using a1 no_news_monitored [of "after m evs1"] unfolding answering_def by blast
  then have "answers (fst (after m evs1)) (snd (after m evs1)) evs2"
    using Cons.IH [OF collect_ok [OF st(2)] _ _ run(1)] Cons.prems(3) do1 by simp
  then show ?case using a1 run(2) by (auto simp: answering_def answers_append split: prod.splits)
qed simp

section \<open>Promises that nothing answers\<close>

fun settled_promise :: "js_event \<Rightarrow> nat option" where
  "settled_promise (Settled_bind p _ _ _) = Some p"
| "settled_promise (Settled_unbind p _ _) = Some p"
| "settled_promise _ = None"

lemma not_open_not_settled:
  "answers n opened evs \<Longrightarrow> p < n \<Longrightarrow> p \<notin> fst ` set opened \<Longrightarrow> list_all (\<lambda>e. settled_promise e \<noteq> Some p) evs"
proof (induction n opened evs rule: answers.induct)
  case (3 n opened q k remote ok evs)
  then have "q \<noteq> p" by force
  moreover have "p \<notin> fst ` set (removeAll (q, k) opened)" using 3(4) by auto
  ultimately show ?case using 3 by simp
next
  case (4 n opened q k ok evs)
  then have "q \<noteq> p" by force
  moreover have "p \<notin> fst ` set (removeAll (q, k) opened)" using 4(4) by auto
  ultimately show ?case using 4 by simp
qed auto

definition promise_list :: "async_data \<Rightarrow> nat list" where
  "promise_list d = case_option [] (\<lambda>p. [p]) (ad_bindDeferred d) @ case_option [] (\<lambda>p. [p]) (ad_unbindDeferred d)"

lemma set_promise_list [simp]: "set (promise_list d) = set_mset (promises_of d)"
  by (auto simp: promise_list_def promises_of_def opt_mset_def split: option.splits)

definition all_open :: "js_state \<Rightarrow> (nat \<times> u64) list" where
  "all_open s = concat (map (\<lambda>e. map (\<lambda>p. (p, ad_deviceId (snd e))) (promise_list (snd e))) (js_data s))"

lemma set_all_open: "(p, k) \<in> set (all_open s) \<longleftrightarrow> (\<exists>e\<in>set (js_data s). p \<in># promises_of (snd e) \<and> ad_deviceId (snd e) = k)"
  by (auto simp: all_open_def)

lemma monitored_all_open: "monitored (js_next s, all_open s) s"
proof -
  have "(p, ad_deviceId d) \<in> set (all_open s)" if d: "data_at s i = Some d" and p: "p \<in># promises_of d" for i d p
    unfolding set_all_open by (rule bexI [OF _ map_of_SomeD [OF d]]) (simp add: p)
  then show ?thesis by (simp add: monitored_def)
qed

lemma unheld_promise_unanswered:
  assumes "state_ok told s" and "reports_once N told ops s" and "js_run N ops s = Inr (evs, s')"
    and "p < js_next s" and "\<And>i d. data_at s i = Some d \<Longrightarrow> p \<notin># promises_of d"
  shows "list_all (\<lambda>e. settled_promise e \<noteq> Some p) evs"
proof (rule not_open_not_settled)
  show "answers (js_next s) (all_open s) evs"
    using js_run_answers [OF assms(1) monitored_all_open assms(2,3)] by simp
  have dist: "distinct (map fst (js_data s))" using assms(1) by (simp add: state_ok_def objects_ok_def)
  then have "data_at s i = Some d" if "(i, d) \<in> set (js_data s)" for i d using that by (rule map_of_is_SomeI)
  then show "p \<notin> fst ` set (all_open s)" using assms(5) by (fastforce simp: set_all_open)
qed (rule assms(4))

text \<open>A second binding of the device takes the entry; nothing owns the first object any more.\<close>

lemma replaced_object_deleted:
  assumes s: "state_ok told s" and k: "map_of (js_map s) k = Some i" and tasks: "\<not> list_ex (task_owns i) (js_tasks s)"
    and t: "js_map t = al_put k j (js_map s)" "js_tasks t = js_tasks s" "js_call t = Some (Binding driver j callback)" "j \<noteq> i"
  shows "\<not> owned t i"
proof -
  have "i \<notin> snd ` set (al_put k j (js_map s))"
  proof
    assume "i \<in> snd ` set (al_put k j (js_map s))"
    then obtain k' where k': "(k', i) \<in> set (al_put k j (js_map s))" by auto
    have "distinct (map fst (al_put k j (js_map s)))" using table_distinct [OF s] by simp
    then have "map_of (al_put k j (js_map s)) k' = Some i" using k' by (rule map_of_is_SomeI)
    then have "map_of (js_map s) k' = Some i" "k' \<noteq> k" using t(4) by (auto split: if_splits)
    then show False using table_data [OF s k] table_data [OF s, of k' i] by auto
  qed
  then show ?thesis using tasks t by (simp add: owned_def)
qed

lemma other_object_promise:
  assumes "state_ok told s" and "data_at s i = Some d" and "p \<in># promises_of d" and "data_at s j = Some e" and "j \<noteq> i"
  shows "p \<notin># promises_of e"
proof -
  have "unique (data_sum promises_of (js_data s))" using assms(1) by (simp add: state_ok_def promises_ok_def)
  then have "unique (promises_of d + promises_of e)"
    by (rule unique_sub) (rule data_sum_two [OF assms(2,4)], use assms(5) in simp)
  from unique_disjoint [OF this assms(3)] show ?thesis .
qed

lemma rebinding_drops_promise:
  assumes s: "state_ok told s" and k: "map_of (js_map s) k = Some i" and d: "data_at s i = Some d" and p: "p \<in># promises_of d"
    and tasks: "\<not> list_ex (task_owns i) (js_tasks s)" and b: "BindStart N driver True True args s = Inr (evs, t)"
    and args: "2 \<le> length args" "ParseDeviceId N (args ! 0) = Some k" "IsMatchType N (args ! 1) Ty_function"
  shows "evs = [Call_service driver k]" and "state_ok told t" and "p < js_next t" and "data_at (collect sent t) x = Some e \<Longrightarrow> p \<notin># promises_of e"
proof -
  have j: "js_next s \<noteq> i" using s d by (force simp: state_ok_def objects_ok_def)
  have t: "js_map t = al_put k (js_next s) (js_map s)" "js_tasks t = js_tasks s" "\<exists>callback. js_call t = Some (Binding driver (js_next s) callback)"
    and "evs = [Call_service driver k]"
    using b args by (auto simp: BindStart_def Let_def new_ref_def)
  then show "evs = [Call_service driver k]" by simp
  show st: "state_ok told t" using BindStart_ok [OF s, of N driver True True args] b by auto
  have nn: "no_news s t" using BindStart_no_news [OF b] by simp
  then show "p < js_next t" using promise_bound [OF s d p] by (simp add: no_news_def)
  assume e: "data_at (collect sent t) x = Some e"
  have "distinct (map fst (js_data t))" using st by (simp add: state_ok_def objects_ok_def)
  then have "owned t x" "data_at t x = Some e" using e by (simp_all add: data_at_collect split: if_splits)
  moreover have "\<not> owned t i" using replaced_object_deleted [OF s k tasks t(1,2) _ j] t(3) by blast
  ultimately have x: "x \<noteq> i" by auto
  from nn \<open>data_at t x = Some e\<close> consider "promises_of e = {#}" | d' where "data_at s x = Some d'" "promises_of e = promises_of d'"
    unfolding no_news_def by blast
  then show "p \<notin># promises_of e" using other_object_promise [OF s d p _ x] by cases auto
qed

lemma throws_service: "throws SERVICE_EXCEPTION = [Threw SERVICE_EXCEPTION]"
  by (simp add: throws_def GetNapiError_def ERROR_MESSAGES_def)

text \<open>Once a step has reported nothing, the rest of the run starts in its state.\<close>

lemma run_split:
  assumes "js_run N (op # ops) s = Inr (evs, s')"
  obtains evs1 s1 evs2 where "js_do N op s = Inr (evs1, s1)" "js_run N ops s1 = Inr (evs2, s')" "evs = evs1 @ evs2"
  using assms by (cases "js_do N op s"; cases "js_run N ops (snd (projr (js_do N op s)))") auto

section \<open>Runs of a script\<close>

text \<open>bindDevice of device 7 without a callback, its end, and unbindDevice.\<close>

definition bind7 :: "js_value js_op" where
  "bind7 = Op_bind False True True [VNumber 7, VFunction 0]"

definition unbind7 :: "js_value js_op" where
  "unbind7 = Op_unbind False [VNumber 7]"

text \<open>Bound, connected, unbound, disconnected.\<close>

definition whole_run :: "(js_value js_op \<times> bool) list" where
  "whole_run = map (\<lambda>op. (op, True))
     [bind7, Op_bind_end EDM_OK True, Op_connected 7 (Some 4) True True, Op_task,
      unbind7, Op_unbind_end EDM_OK True, Op_unbound 7 True, Op_disconnected 7 True True, Op_task, Op_task]"

lemma whole_run_once: "reports_once value_napi {} whole_run js_start"
  by code_simp

lemma whole_run_events:
  "\<exists>s. js_run value_napi whole_run js_start =
     Inr ([Call_service False 7, Promise_made 2 7, Settled_bind 2 7 (Some 4) True, Call_unbind False 7,
       Promise_made 3 7, Called_disconnect 1 7 True, Settled_unbind 3 7 True], s)"
proof -
  have "case js_run value_napi whole_run js_start of Inl _ \<Rightarrow> False | Inr (evs, _) \<Rightarrow>
    evs = [Call_service False 7, Promise_made 2 7, Settled_bind 2 7 (Some 4) True, Call_unbind False 7,
       Promise_made 3 7, Called_disconnect 1 7 True, Settled_unbind 3 7 True]" by code_simp
  then show ?thesis by (auto split: sum.splits)
qed

text \<open>The hypothesis is needed: a second report of the same binding settles its promise again.\<close>

lemma second_report_settles_twice:
  "js_run value_napi (map (\<lambda>op. (op, True))
     [bind7, Op_bind_end EDM_OK True, Op_connected 7 (Some 4) True True, Op_connected 7 (Some 4) True True, Op_task, Op_task]) js_start
   = Inl Use_after_free"
  by code_simp

text \<open>OnUnBind before the promise of unbindDevice exists: its result is lost, the promise is rejected.\<close>

lemma early_result_rejects_unbind:
  "Settled_unbind 3 7 False \<in> set (fst (projr (js_run value_napi (map (\<lambda>op. (op, True))
     [bind7, Op_bind_end EDM_OK True, Op_connected 7 (Some 4) True True, Op_task, unbind7, Op_unbound 7 True,
      Op_unbind_end EDM_OK True, Op_disconnected 7 True True, Op_task]) js_start)))"
  by code_simp

text \<open>States on the way: a binding whose connection is not yet reported; and a script that waits in unbindDevice.\<close>

definition ops_to :: "js_value js_op list \<Rightarrow> js_state" where
  "ops_to ops = snd (projr (js_run value_napi (map (\<lambda>op. (op, True)) ops) js_start))"

lemma ops_to_ok:
  assumes "reports_once value_napi {} (map (\<lambda>op. (op, True)) ops) js_start"
  shows "state_ok (told_after value_napi {} (map (\<lambda>op. (op, True)) ops) js_start) (ops_to ops)"
  using js_run_ok [OF start_ok assms] by (auto simp: ops_to_def)

definition bound7 :: js_state where
  "bound7 = ops_to [bind7, Op_bind_end EDM_OK True]"

definition unbinding7 :: js_state where
  "unbinding7 = ops_to [bind7, Op_bind_end EDM_OK True, unbind7]"

lemma bound7_ok: "state_ok {} bound7" and unbinding7_ok: "state_ok {} unbinding7"
proof -
  have a: "reports_once value_napi {} (map (\<lambda>op. (op, True)) [bind7, Op_bind_end EDM_OK True]) js_start"
    "told_after value_napi {} (map (\<lambda>op. (op, True)) [bind7, Op_bind_end EDM_OK True]) js_start = {}"
    by code_simp+
  then show "state_ok {} bound7" using ops_to_ok [OF a(1)] by (simp add: bound7_def)
  have b: "reports_once value_napi {} (map (\<lambda>op. (op, True)) [bind7, Op_bind_end EDM_OK True, unbind7]) js_start"
    "told_after value_napi {} (map (\<lambda>op. (op, True)) [bind7, Op_bind_end EDM_OK True, unbind7]) js_start = {}"
    by code_simp+
  then show "state_ok {} unbinding7" using ops_to_ok [OF b(1)] by (simp add: unbinding7_def)
qed

section \<open>The properties\<close>

text \<open>
  C31: no order of script calls, callbacks of the service and tasks uses a deleted object or a deleted
  reference, or settles a promise a second time, if the connection of a binding is reported once.
\<close>

theorem bindings_use_no_freed_object:
  assumes "reports_once N {} ops js_start"
  shows "\<exists>evs s. js_run N ops js_start = Inr (evs, s)"
  using js_run_ok [OF start_ok assms] by blast

corollary bindings_use_no_freed_object_witness: "\<exists>evs s. js_run value_napi whole_run js_start = Inr (evs, s)"
  by (rule bindings_use_no_freed_object [OF whole_run_once])

text \<open>
  C32: in every run from the start in which the connection of no binding is reported twice
  (reports_once), every promise is settled at most once, with an answer for the device it was made for.
  The condition is one on the service, and it is needed: second_report_settles_twice is a run with two
  reports, and two calls of Device::Connect while a connection is pending make the service report twice.
\<close>

theorem promises_answer_their_device:
  assumes "reports_once N {} ops js_start" and "js_run N ops js_start = Inr (evs, s)"
  shows "answers 0 [] evs"
proof -
  have "monitored (0, []) js_start" by (simp add: monitored_def js_start_def)
  from js_run_answers [OF start_ok this assms] show ?thesis by simp
qed

corollary promises_answer_their_device_witness:
  "answers 0 [] [Call_service False 7, Promise_made 2 7, Settled_bind 2 7 (Some 4) True, Call_unbind False 7,
     Promise_made 3 7, Called_disconnect 1 7 True, Settled_unbind 3 7 True]"
  using promises_answer_their_device [OF whole_run_once] whole_run_events by blast

text \<open>
  C33: binding a device again before its connection is reported drops the first binding: nothing that
  happens later settles the promise the script holds. As in C32, the runs are those in which the
  connection of no binding is reported twice.
\<close>

theorem rebinding_loses_promise:
  assumes s: "state_ok told s" "js_call s = None" and k: "map_of (js_map s) k = Some i" and d: "data_at s i = Some d"
    and p: "p \<in># promises_of d" and tasks: "\<not> list_ex (task_owns i) (js_tasks s)"
    and args: "2 \<le> length args" "ParseDeviceId N (args ! 0) = Some k" "IsMatchType N (args ! 1) Ty_function"
    and once: "reports_once N told ((Op_bind driver True True args, sent) # ops) s"
    and run: "js_run N ((Op_bind driver True True args, sent) # ops) s = Inr (evs, s')"
  shows "list_all (\<lambda>e. settled_promise e \<noteq> Some p) evs"
proof -
  obtain evs1 t where b: "BindStart N driver True True args s = Inr (evs1, t)"
    using BindStart_ok [OF s(1), of N driver True True args] by blast
  note drop = rebinding_drops_promise [OF s(1) k d p tasks b args]
  have do1: "js_do N (Op_bind driver True True args, sent) s = Inr (evs1, collect sent t)" using b s(2) by (simp add: js_do_def)
  with run obtain evs2 where rest: "js_run N ops (collect sent t) = Inr (evs2, s')" "evs = evs1 @ evs2"
    by (elim run_split) auto
  have "list_all (\<lambda>e. settled_promise e \<noteq> Some p) evs2"
  proof (rule unheld_promise_unanswered [OF collect_ok [OF drop(2)] _ rest(1)])
    show "reports_once N told ops (collect sent t)" using once do1 by simp
    show "p < js_next (collect sent t)" using drop(3) by (simp add: collect_eq)
  qed (rule drop(4))
  then show ?thesis using drop(1) rest(2) by simp
qed

corollary rebinding_loses_promise_witness:
  "\<exists>evs s'. js_run value_napi [(bind7, True), (Op_bind_end EDM_OK True, True), (Op_connected 7 (Some 4) True True, True), (Op_task, True)] bound7
     = Inr (evs, s') \<and> list_all (\<lambda>e. settled_promise e \<noteq> Some 2) evs"
proof -
  let ?ops = "[(Op_bind_end EDM_OK True, True), (Op_connected 7 (Some 4) True True, True), (Op_task, True)] :: (js_value js_op \<times> bool) list"
  let ?bind = "Op_bind False True True [VNumber 7, VFunction 0]"
  have once: "reports_once value_napi {} ((?bind, True) # ?ops) bound7" by code_simp
  obtain evs s' where run: "js_run value_napi ((?bind, True) # ?ops) bound7 = Inr (evs, s')"
    using js_run_ok [OF bound7_ok once] by blast
  have "list_all (\<lambda>e. settled_promise e \<noteq> Some 2) evs"
    by (rule rebinding_loses_promise [OF bound7_ok _ _ _ _ _ _ _ _ once run, where i = 0 and k = 7
        and d = "\<lparr>ad_deviceId = 7, ad_bindCallback = None, ad_onDisconnect = Some 1, ad_unbindCallback = None,
          ad_bindDeferred = Some 2, ad_unbindDeferred = None, ad_unBindOk = False\<rparr>"])
      code_simp+
  then show ?thesis using run by (simp add: bind7_def)
qed

text \<open>
  a device that is reported as disconnected while unbindDevice waits for the service: the service
  has done what it was asked, and the script gets an error.
\<close>

theorem early_disconnect_fails_unbind:
  assumes "state_ok told s" and "js_call s = Some (Unbinding driver k callback)"
  shows "\<exists>s'. js_run N [(Op_disconnected k ok sent, sent1), (Op_unbind_end EDM_OK made, sent2)] s = Inr ([Threw SERVICE_EXCEPTION], s')"
proof -
  obtain r s1 where r: "DeviceManagerCallback_OnDisconnect k ok sent s = Inr (r, s1)" using OnDisconnect_ok [OF assms(1)] by blast
  then have "map_of (js_map s1) k = None" "js_call s1 = Some (Unbinding driver k callback)"
    using assms(2) by (auto simp: DeviceManagerCallback_OnDisconnect_def Let_def split: option.splits if_splits)
  then show ?thesis using r by (simp add: js_do_def collect_eq UnbindEnd_def Let_def throws_service)
qed

corollary early_disconnect_fails_unbind_witness:
  "\<exists>s'. js_run value_napi [(Op_disconnected 7 True True, True), (Op_unbind_end EDM_OK True, True)] unbinding7 = Inr ([Threw SERVICE_EXCEPTION], s')"
proof (rule early_disconnect_fails_unbind [OF unbinding7_ok])
  show "js_call unbinding7 = Some (Unbinding False 7 False)" by code_simp
qed

end
