(* ===== verification/Taihe_Bind.thy ===== *)
theory Taihe_Bind
  imports Taihe_Values Js_Bind
begin

text \<open>
  Binding in the script module for the static language,
  frameworks/js/taihe/src/ohos.driver.deviceManager.impl.cpp.

  Three kinds of thread take part: the thread of the script, which binds; the main thread, which runs the
  tasks that the callbacks send (one task is one step); and the threads of the process communication,
  which run the callbacks. A callback keeps its object until it returns, with the lock of the table; the
  object may die with it. Then the destructor runs on that thread, which the engine need not know.

  The table has a lock, the objects have none: after the service has refused a binding, its entry is
  erased under the lock, but the reference to the script's function is deleted, and then cleared, without
  it. These are steps of their own here, between which tasks and callbacks run.
\<close>

section \<open>State\<close>

record taihe_data =
  tb_deviceId :: u64
  tb_onDisconnect :: "nat option"
  tb_bindDeferred :: "nat option"
  tb_unBindOk :: bool

datatype taihe_task = Tell_connected nat "nat option" bool | Tell_disconnected nat bool

text \<open>
  Where the thread of the script is in BindDriverWithDeviceIdSync: in the call of the service, or on the way
  out after a failure, with what it still has to do: erase the entry, delete the reference, clear it. The
  list is what it does last.
\<close>

datatype taihe_pc =
    Bind_idle
  | Bind_waits nat
  | Bind_refused nat "js_event list"
  | Bind_erased nat "js_event list"
  | Bind_deleted nat "js_event list"

fun taihe_object :: "taihe_pc \<Rightarrow> nat option" where
  "taihe_object Bind_idle = None"
| "taihe_object (Bind_waits i) = Some i"
| "taihe_object (Bind_refused i _) = Some i"
| "taihe_object (Bind_erased i _) = Some i"
| "taihe_object (Bind_deleted i _) = Some i"

text \<open>
  \<open>tm_call\<close> is the place of the binding, \<open>tm_lock\<close> the object of the callback that has not returned.
  \<open>tm_refs\<close> are the references that exist in the engine; \<open>tm_made\<close> and \<open>tm_deleted\<close> record which it has
  made and which it was asked to delete.
\<close>

record taihe_state =
  tm_data :: "(nat \<times> taihe_data) list"
  tm_map :: "(u64 \<times> nat) list"
  tm_tasks :: "taihe_task list"
  tm_call :: taihe_pc
  tm_lock :: "nat option"
  tm_refs :: "nat list"
  tm_made :: "nat list"
  tm_deleted :: "nat list"
  tm_next :: nat

definition taihe_start :: taihe_state where
  "taihe_start =
     \<lparr>tm_data = [], tm_map = [], tm_tasks = [], tm_call = Bind_idle, tm_lock = None, tm_refs = [], tm_made = [],
      tm_deleted = [], tm_next = 0\<rparr>"

definition GlobalReference_Delete :: "nat \<Rightarrow> taihe_state \<Rightarrow> taihe_state res" where
  "GlobalReference_Delete r s =
     (if r \<in> set (tm_refs s) then Inr (s\<lparr>tm_refs := remove1 r (tm_refs s), tm_deleted := r # tm_deleted s\<rparr>)
      else Inl Use_after_free)"

definition set_taihe :: "nat \<Rightarrow> (taihe_data \<Rightarrow> taihe_data) \<Rightarrow> taihe_state \<Rightarrow> taihe_state" where
  "set_taihe i f s = s\<lparr>tm_data := map (\<lambda>(j, d). (j, if j = i then f d else d)) (tm_data s)\<rparr>"

section \<open>The destructor\<close>

text \<open>\<open>known\<close>: the engine knows the thread. Otherwise GetEnv leaves \<open>env_now\<close> as it was, without a value.\<close>

definition Taihe_DeleteNapiRef :: "bool \<Rightarrow> taihe_data \<Rightarrow> taihe_state \<Rightarrow> taihe_state res" where
  "Taihe_DeleteNapiRef known d s =
     (case tb_onDisconnect d of None \<Rightarrow> Inr s
      | Some r \<Rightarrow> if known then GlobalReference_Delete r s else Inl Uninit_read)"

fun taihe_task_owns :: "nat \<Rightarrow> taihe_task \<Rightarrow> bool" where
  "taihe_task_owns i (Tell_connected j _ _) \<longleftrightarrow> j = i"
| "taihe_task_owns i (Tell_disconnected j _) \<longleftrightarrow> j = i"

definition taihe_owned :: "taihe_state \<Rightarrow> nat \<Rightarrow> bool" where
  "taihe_owned s i \<longleftrightarrow>
     i \<in> snd ` set (tm_map s) \<or> list_ex (taihe_task_owns i) (tm_tasks s) \<or> taihe_object (tm_call s) = Some i
     \<or> tm_lock s = Some i"

fun destroy_all :: "bool \<Rightarrow> (nat \<times> taihe_data) list \<Rightarrow> taihe_state \<Rightarrow> taihe_state res" where
  "destroy_all known [] s = Inr s"
| "destroy_all known (e # es) s = bindE (Taihe_DeleteNapiRef known (snd e) s) (destroy_all known es)"

definition taihe_collect :: "bool \<Rightarrow> taihe_state \<Rightarrow> taihe_state res" where
  "taihe_collect known s =
     destroy_all known (filter (\<lambda>e. \<not> taihe_owned s (fst e)) (tm_data s))
       (s\<lparr>tm_data := filter (\<lambda>e. taihe_owned s (fst e)) (tm_data s)\<rparr>)"

section \<open>Binding\<close>

definition taihe_erase_own :: "nat \<Rightarrow> u64 \<Rightarrow> taihe_state \<Rightarrow> taihe_state" where
  "taihe_erase_own i deviceId s =
     (if map_of (tm_map s) deviceId = Some i then s\<lparr>tm_map := al_del deviceId (tm_map s)\<rparr> else s)"

definition new_taihe_data :: "u64 \<Rightarrow> taihe_data" where
  "new_taihe_data deviceId =
     \<lparr>tb_deviceId = deviceId, tb_onDisconnect = None, tb_bindDeferred = None, tb_unBindOk = False\<rparr>"

text \<open>Up to the call of the service: \<open>vm_ok\<close>, \<open>alloc\<close> and \<open>ref_ok\<close> are the answers of the engine and of the allocation.\<close>

definition BindDriverStart :: "bool \<Rightarrow> bool \<Rightarrow> bool \<Rightarrow> u64 \<Rightarrow> taihe_state \<Rightarrow> js_event list \<times> taihe_state" where
  "BindDriverStart vm_ok alloc ref_ok deviceId s =
     (if \<not> vm_ok then ([Failed], s)
      else if \<not> alloc then ([Threw PARAMETER_ERROR], s)
      else
        let i = tm_next s;
            s = s\<lparr>tm_data := (i, new_taihe_data deviceId) # tm_data s, tm_next := Suc i\<rparr> in
        if \<not> ref_ok then ([Threw PARAMETER_ERROR], s)
        else
          let r = tm_next s;
              s = set_taihe i (\<lambda>d. d\<lparr>tb_onDisconnect := Some r\<rparr>)
                    (s\<lparr>tm_refs := r # tm_refs s, tm_made := r # tm_made s, tm_next := Suc r\<rparr>) in
          ([Call_service True deviceId], s\<lparr>tm_map := al_put deviceId i (tm_map s), tm_call := Bind_waits i\<rparr>))"

definition taihe_bind_error :: "UsbErrCode \<Rightarrow> int" where
  "taihe_bind_error retCode =
     (if retCode = EDM_ERR_NO_PERM then PERMISSION_DENIED
      else if retCode = EDM_ERR_SERVICE_NOT_ALLOW_ACCESS then SERVICE_NOT_ALLOW_ACCESS
      else SERVICE_EXCEPTION_NEW)"

text \<open>The service has answered: \<open>made\<close> says whether the engine could make the promise.\<close>

definition BindDriverEnd :: "UsbErrCode \<Rightarrow> bool \<Rightarrow> taihe_state \<Rightarrow> (js_event list \<times> taihe_state) res" where
  "BindDriverEnd retCode made s =
     (case tm_call s of
        Bind_waits i \<Rightarrow>
          (case map_of (tm_data s) i of None \<Rightarrow> Inl Use_after_free
           | Some d \<Rightarrow>
               if retCode \<noteq> EDM_OK then Inr ([], s\<lparr>tm_call := Bind_refused i [Threw (taihe_bind_error retCode)]\<rparr>)
               else if \<not> made then
                 Inr ([], s\<lparr>tm_call := Bind_refused i [Call_unbind True (tb_deviceId d), Threw SERVICE_EXCEPTION_NEW]\<rparr>)
               else
                 Inr ([Promise_made (tm_next s) (tb_deviceId d)],
                      set_taihe i (\<lambda>d. d\<lparr>tb_bindDeferred := Some (tm_next s)\<rparr>)
                        (s\<lparr>tm_call := Bind_idle, tm_next := Suc (tm_next s)\<rparr>)))
      | _ \<Rightarrow> Inr ([], s))"

text \<open>The way out after a failure. Only the first step needs the lock of the table, and waits for it.\<close>

definition BindDriverFail :: "taihe_state \<Rightarrow> (js_event list \<times> taihe_state) res" where
  "BindDriverFail s =
     (case tm_call s of
        Bind_refused i evs \<Rightarrow>
          if tm_lock s \<noteq> None then Inr ([], s)
          else
            (case map_of (tm_data s) i of None \<Rightarrow> Inl Use_after_free
             | Some d \<Rightarrow> Inr ([], (taihe_erase_own i (tb_deviceId d) s)\<lparr>tm_call := Bind_erased i evs\<rparr>))
      | Bind_erased i evs \<Rightarrow>
          (case map_of (tm_data s) i of None \<Rightarrow> Inl Use_after_free
           | Some d \<Rightarrow>
               (case tb_onDisconnect d of None \<Rightarrow> Inr (evs, s\<lparr>tm_call := Bind_idle\<rparr>)
                | Some r \<Rightarrow> bindE (GlobalReference_Delete r s) (\<lambda>s. Inr ([], s\<lparr>tm_call := Bind_deleted i evs\<rparr>))))
      | Bind_deleted i evs \<Rightarrow>
          Inr (evs, set_taihe i (\<lambda>d. d\<lparr>tb_onDisconnect := None\<rparr>) (s\<lparr>tm_call := Bind_idle\<rparr>))
      | _ \<Rightarrow> Inr ([], s))"

definition taihe_unbind_error :: "UsbErrCode \<Rightarrow> int" where
  "taihe_unbind_error retCode =
     (if retCode = EDM_ERR_NO_PERM then PERMISSION_DENIED
      else if retCode = EDM_ERR_SERVICE_NOT_BOUND then SERVICE_NOT_BOUND
      else SERVICE_EXCEPTION_NEW)"

text \<open>Unbinding only calls the service; the promise that the generated code makes gets its result.\<close>

definition UnbindDriverWithDeviceIdSync :: "u64 \<Rightarrow> UsbErrCode \<Rightarrow> js_event list \<times> UsbErrCode" where
  "UnbindDriverWithDeviceIdSync deviceId retCode =
     (Call_unbind True deviceId # (if retCode \<noteq> EDM_OK then [Threw (taihe_unbind_error retCode)] else []), retCode)"

section \<open>The callbacks of the service\<close>

text \<open>\<open>posted\<close>: the main thread has a runner. The callback keeps the object that it found.\<close>

definition Taihe_OnConnect :: "u64 \<Rightarrow> nat option \<Rightarrow> bool \<Rightarrow> bool \<Rightarrow> taihe_state \<Rightarrow> UsbErrCode \<times> taihe_state" where
  "Taihe_OnConnect deviceId drvExtObj ok posted s =
     (case map_of (tm_map s) deviceId of None \<Rightarrow> (EDM_NOK, s)
      | Some i \<Rightarrow>
          let s = (if \<not> ok then s\<lparr>tm_map := al_del deviceId (tm_map s)\<rparr> else s);
              s = s\<lparr>tm_lock := Some i\<rparr> in
          if \<not> posted then (EDM_NOK, s)
          else (EDM_OK, s\<lparr>tm_tasks := tm_tasks s @ [Tell_connected i drvExtObj ok]\<rparr>))"

definition Taihe_OnDisconnect :: "u64 \<Rightarrow> bool \<Rightarrow> bool \<Rightarrow> taihe_state \<Rightarrow> (UsbErrCode \<times> taihe_state) res" where
  "Taihe_OnDisconnect deviceId ok posted s =
     (case map_of (tm_map s) deviceId of None \<Rightarrow> Inr (EDM_NOK, s)
      | Some i \<Rightarrow>
          let s = s\<lparr>tm_map := al_del deviceId (tm_map s), tm_lock := Some i\<rparr> in
          (case map_of (tm_data s) i of None \<Rightarrow> Inl Use_after_free
           | Some d \<Rightarrow>
               if tb_onDisconnect d = None then Inr (EDM_NOK, s)
               else if \<not> posted then Inr (EDM_NOK, s)
               else Inr (EDM_OK, s\<lparr>tm_tasks := tm_tasks s @ [Tell_disconnected i ok]\<rparr>)))"

definition Taihe_OnUnBind :: "u64 \<Rightarrow> bool \<Rightarrow> taihe_state \<Rightarrow> UsbErrCode \<times> taihe_state" where
  "Taihe_OnUnBind deviceId ok s =
     (case map_of (tm_map s) deviceId of None \<Rightarrow> (EDM_NOK, s)
      | Some i \<Rightarrow> (EDM_OK, set_taihe i (\<lambda>d. d\<lparr>tb_unBindOk := ok\<rparr>) s))"

section \<open>Tasks\<close>

text \<open>
  \<open>known\<close>: the engine knew the thread before, so that it cannot be attached again; \<open>env_ok\<close>: there is an
  environment, from the attachment or from GetEnv; \<open>scope_ok\<close>: a scope was made. OnDisconnect gives up
  when there is no environment or no scope. OnConnect goes on in either case: with a null environment, and
  without a scope, in which case it has already detached a thread that it had attached, uses the
  environment that went with it, and would detach the thread once more. A null function is refused by the
  engine.
\<close>

definition Taihe_RunOnConnect :: "bool \<Rightarrow> bool \<Rightarrow> bool \<Rightarrow> nat \<Rightarrow> nat option \<Rightarrow> bool \<Rightarrow> taihe_state \<Rightarrow> (js_event list \<times> taihe_state) res" where
  "Taihe_RunOnConnect known env_ok scope_ok i drvExtObj ok s =
     (case map_of (tm_data s) i of None \<Rightarrow> Inl Use_after_free
      | Some d \<Rightarrow>
          if \<not> env_ok then Inl Null_deref
          else if \<not> scope_ok \<and> \<not> known then Inl Use_after_free
          else case tb_bindDeferred d of None \<Rightarrow> Inr ([], s)
          | Some p \<Rightarrow> Inr ([Settled_bind p (tb_deviceId d) drvExtObj ok], s))"

definition Taihe_RunOnDisconnect :: "bool \<Rightarrow> bool \<Rightarrow> nat \<Rightarrow> bool \<Rightarrow> taihe_state \<Rightarrow> (js_event list \<times> taihe_state) res" where
  "Taihe_RunOnDisconnect env_ok scope_ok i ok s =
     (case map_of (tm_data s) i of None \<Rightarrow> Inl Use_after_free
      | Some d \<Rightarrow>
          if \<not> env_ok \<or> \<not> scope_ok then Inr ([], s)
          else case tb_onDisconnect d of None \<Rightarrow> Inr ([], s)
          | Some r \<Rightarrow> if r \<in> set (tm_refs s) then Inr ([Called_disconnect r (tb_deviceId d) ok], s) else Inl Use_after_free)"

section \<open>Steps\<close>

datatype taihe_op =
    Bind bool bool bool u64
  | Bind_end UsbErrCode bool
  | Bind_fail
  | Unbind u64 UsbErrCode
  | Connected u64 "nat option" bool bool
  | Disconnected u64 bool bool
  | Unbound u64 bool
  | Return bool
  | Task bool bool bool

text \<open>
  A step that needs the lock waits while a callback has it. The return of a callback says whether the
  engine knows its thread, a task whether it knew the main thread before: a task that attached the
  thread detaches it before its object goes. The thread of the script is known.
\<close>

fun taihe_step :: "taihe_op \<Rightarrow> taihe_state \<Rightarrow> (js_event list \<times> taihe_state) res" where
  "taihe_step (Bind vm_ok alloc ref_ok deviceId) s =
     Inr (if tm_call s = Bind_idle \<and> tm_lock s = None then BindDriverStart vm_ok alloc ref_ok deviceId s else ([], s))"
| "taihe_step (Bind_end retCode made) s = BindDriverEnd retCode made s"
| "taihe_step Bind_fail s = BindDriverFail s"
| "taihe_step (Unbind deviceId retCode) s = Inr (fst (UnbindDriverWithDeviceIdSync deviceId retCode), s)"
| "taihe_step (Connected k remote ok posted) s =
     Inr ([], if tm_lock s = None then snd (Taihe_OnConnect k remote ok posted s) else s)"
| "taihe_step (Disconnected k ok posted) s =
     (if tm_lock s = None then bindE (Taihe_OnDisconnect k ok posted s) (\<lambda>(ret, s). Inr ([], s)) else Inr ([], s))"
| "taihe_step (Unbound k ok) s = Inr ([], if tm_lock s = None then snd (Taihe_OnUnBind k ok s) else s)"
| "taihe_step (Return known) s = Inr ([], s\<lparr>tm_lock := None\<rparr>)"
| "taihe_step (Task known env_ok scope_ok) s =
     (case tm_tasks s of [] \<Rightarrow> Inr ([], s)
      | Tell_connected i remote ok # ts \<Rightarrow> Taihe_RunOnConnect known env_ok scope_ok i remote ok (s\<lparr>tm_tasks := ts\<rparr>)
      | Tell_disconnected i ok # ts \<Rightarrow> Taihe_RunOnDisconnect env_ok scope_ok i ok (s\<lparr>tm_tasks := ts\<rparr>))"

fun known_thread :: "taihe_op \<Rightarrow> bool" where
  "known_thread (Return known) \<longleftrightarrow> known"
| "known_thread (Task known _ _) \<longleftrightarrow> known"
| "known_thread _ \<longleftrightarrow> True"

definition taihe_do :: "taihe_op \<Rightarrow> taihe_state \<Rightarrow> (js_event list \<times> taihe_state) res" where
  "taihe_do op s = bindE (taihe_step op s) (\<lambda>(evs, s). bindE (taihe_collect (known_thread op) s) (\<lambda>s. Inr (evs, s)))"

fun taihe_run :: "taihe_op list \<Rightarrow> taihe_state \<Rightarrow> (js_event list \<times> taihe_state) res" where
  "taihe_run [] s = Inr ([], s)"
| "taihe_run (op # ops) s =
     bindE (taihe_do op s) (\<lambda>(evs, s). bindE (taihe_run ops s) (\<lambda>(evs', s). Inr (evs @ evs', s)))"

end
