(* ===== verification/Taihe_Bind_Claims.thy ===== *)
theory Taihe_Bind_Claims
  imports Taihe_Bind Owned_Data
begin

text \<open>
  The memory of the binding in the module for the static language: in orderly runs every reference is deleted once or still held, and never used after; what happens
  otherwise is shown on single runs.
\<close>

declare map_of_eq_Some_iff [simp del]

section \<open>Objects\<close>

abbreviation taihe_at :: "taihe_state \<Rightarrow> nat \<Rightarrow> taihe_data option" where
  "taihe_at s i \<equiv> map_of (tm_data s) i"

definition taihe_refs :: "taihe_data \<Rightarrow> nat multiset" where
  "taihe_refs d = opt_mset (tb_onDisconnect d)"

lemma taihe_refs_simps [simp]:
  "tb_onDisconnect d = None \<Longrightarrow> taihe_refs d = {#}" "tb_onDisconnect d = Some r \<Longrightarrow> taihe_refs d = {#r#}"
  by (simp_all add: taihe_refs_def)

definition taihe_objects_ok :: "taihe_state \<Rightarrow> bool" where
  "taihe_objects_ok s \<longleftrightarrow> distinct (map fst (tm_data s)) \<and> (\<forall>i. taihe_at s i \<noteq> None \<longrightarrow> i < tm_next s)
     \<and> (\<forall>i. taihe_owned s i \<longrightarrow> taihe_at s i \<noteq> None)"

text \<open>The object that still names the reference which the way out has just deleted.\<close>

fun taihe_leaving :: "taihe_pc \<Rightarrow> nat option" where
  "taihe_leaving (Bind_deleted i _) = Some i"
| "taihe_leaving _ = None"

lemma taihe_leaving_object: "taihe_leaving pc = Some i \<Longrightarrow> taihe_object pc = Some i"
  by (cases pc) simp_all

definition taihe_given_up :: "taihe_state \<Rightarrow> nat multiset" where
  "taihe_given_up s =
     (case taihe_leaving (tm_call s) of None \<Rightarrow> {#}
      | Some i \<Rightarrow> (case taihe_at s i of None \<Rightarrow> {#} | Some d \<Rightarrow> taihe_refs d))"

definition taihe_refs_ok :: "taihe_state \<Rightarrow> bool" where
  "taihe_refs_ok s \<longleftrightarrow> data_sum taihe_refs (tm_data s) = mset (tm_refs s) + taihe_given_up s
     \<and> mset (tm_made s) = mset (tm_deleted s) + mset (tm_refs s) \<and> distinct (tm_made s) \<and> (\<forall>r\<in>set (tm_made s). r < tm_next s)"

text \<open>No task waits that tells the script of the disconnection of the object of the running binding.\<close>

definition taihe_quiet :: "taihe_state \<Rightarrow> bool" where
  "taihe_quiet s \<longleftrightarrow> (\<forall>i ok. taihe_object (tm_call s) = Some i \<longrightarrow> Tell_disconnected i ok \<notin> set (tm_tasks s))"

definition taihe_ok :: "taihe_state \<Rightarrow> bool" where
  "taihe_ok s \<longleftrightarrow> taihe_objects_ok s \<and> taihe_refs_ok s \<and> taihe_quiet s"

lemma taihe_start_ok: "taihe_ok taihe_start"
  by (simp add: taihe_ok_def taihe_objects_ok_def taihe_refs_ok_def taihe_quiet_def taihe_given_up_def taihe_start_def taihe_owned_def)

lemma taihe_at_set: "taihe_at (set_taihe i f s) j = (if j = i then map_option f (taihe_at s i) else taihe_at s j)"
  by (simp add: set_taihe_def map_of_update_key)

lemma set_taihe_rest [simp]:
  "tm_map (set_taihe i f s) = tm_map s" "tm_tasks (set_taihe i f s) = tm_tasks s" "tm_call (set_taihe i f s) = tm_call s"
  "tm_lock (set_taihe i f s) = tm_lock s" "tm_refs (set_taihe i f s) = tm_refs s" "tm_next (set_taihe i f s) = tm_next s"
  "tm_made (set_taihe i f s) = tm_made s" "tm_deleted (set_taihe i f s) = tm_deleted s"
  "map fst (tm_data (set_taihe i f s)) = map fst (tm_data s)" "taihe_owned (set_taihe i f s) = taihe_owned s"
  by (auto simp: set_taihe_def taihe_owned_def fun_eq_iff)

lemma taihe_refs_set:
  assumes "distinct (map fst (tm_data s))" and "taihe_at s i = Some d"
  shows "data_sum taihe_refs (tm_data (set_taihe i f s)) + taihe_refs d = data_sum taihe_refs (tm_data s) + taihe_refs (f d)"
  using data_sum_update [OF assms, of taihe_refs f] by (simp add: set_taihe_def)

text \<open>An object changes, but not the reference that it holds.\<close>

lemma set_taihe_ok:
  assumes s: "taihe_ok s" and d: "taihe_at s i = Some d" and f: "taihe_refs (f d) = taihe_refs d"
  shows "taihe_ok (set_taihe i f s)"
proof -
  have dist: "distinct (map fst (tm_data s))" using s by (simp add: taihe_ok_def taihe_objects_ok_def)
  have "data_sum taihe_refs (tm_data (set_taihe i f s)) = data_sum taihe_refs (tm_data s)"
    using taihe_refs_set [OF dist d, of f] f by simp
  moreover have "taihe_given_up (set_taihe i f s) = taihe_given_up s"
    using d f by (auto simp: taihe_given_up_def taihe_at_set split: option.split)
  ultimately have "taihe_refs_ok (set_taihe i f s)" using s by (simp add: taihe_ok_def taihe_refs_ok_def)
  moreover have "taihe_objects_ok (set_taihe i f s)"
    using s unfolding taihe_ok_def taihe_objects_ok_def by (auto simp: taihe_at_set)
  ultimately show ?thesis using s by (simp add: taihe_ok_def taihe_quiet_def)
qed

text \<open>The objects and the references stay as they are, and no other object is owned.\<close>

lemma taihe_owners_ok:
  assumes "taihe_ok s" and "tm_data s' = tm_data s" and "tm_refs s' = tm_refs s" and "tm_made s' = tm_made s"
    and "tm_deleted s' = tm_deleted s" and "tm_next s \<le> tm_next s'" and "taihe_leaving (tm_call s') = taihe_leaving (tm_call s)"
    and "taihe_quiet s'" and "\<And>i. taihe_owned s' i \<Longrightarrow> taihe_at s i \<noteq> None"
  shows "taihe_ok s'"
proof -
  have "taihe_objects_ok s'"
    using assms(1,6,9) unfolding taihe_ok_def taihe_objects_ok_def assms(2) using less_le_trans by blast
  moreover have "taihe_given_up s' = taihe_given_up s" unfolding taihe_given_up_def assms(2,7) ..
  then have "taihe_refs_ok s'"
    using assms(1,6) less_le_trans [of _ "tm_next s" "tm_next s'"] unfolding taihe_ok_def taihe_refs_ok_def assms(2-5) by auto
  ultimately show ?thesis using assms(8) by (simp add: taihe_ok_def)
qed

lemma taihe_less_ok:
  assumes "taihe_ok s" and "tm_data s' = tm_data s" and "tm_refs s' = tm_refs s" and "tm_made s' = tm_made s"
    and "tm_deleted s' = tm_deleted s" and "tm_next s' = tm_next s" and "tm_call s' = tm_call s"
    and "set (tm_tasks s') \<subseteq> set (tm_tasks s)" and "\<And>i. taihe_owned s' i \<Longrightarrow> taihe_owned s i"
  shows "taihe_ok s'"
proof (rule taihe_owners_ok [OF assms(1-5)])
  show "taihe_quiet s'" using assms(1,7,8) unfolding taihe_ok_def taihe_quiet_def by auto
  show "taihe_owned s' i \<Longrightarrow> taihe_at s i \<noteq> None" for i
    using assms(1) assms(9) [of i] unfolding taihe_ok_def taihe_objects_ok_def by blast
qed (simp_all add: assms)

lemma taihe_owned_data: "taihe_ok s \<Longrightarrow> taihe_owned s i \<Longrightarrow> \<exists>d. taihe_at s i = Some d"
  by (auto simp: taihe_ok_def taihe_objects_ok_def)

lemma taihe_entry_owned: "map_of (tm_map s) k = Some i \<Longrightarrow> taihe_owned s i"
  using map_of_SomeD [of "tm_map s" k i] by (force simp: taihe_owned_def)

lemma taihe_live:
  assumes s: "taihe_ok s" and d: "taihe_at s i = Some d" and r: "tb_onDisconnect d = Some r"
    and i: "taihe_leaving (tm_call s) \<noteq> Some i"
  shows "r \<in> set (tm_refs s)"
proof -
  have sum: "data_sum taihe_refs (tm_data s) = mset (tm_refs s) + taihe_given_up s"
    using s by (simp add: taihe_ok_def taihe_refs_ok_def)
  have "taihe_refs d + taihe_given_up s \<subseteq># mset (tm_refs s) + taihe_given_up s"
  proof (cases "taihe_leaving (tm_call s)")
    case None
    then show ?thesis using data_sum_at [OF d, of taihe_refs] sum by (simp add: taihe_given_up_def)
  next
    case (Some j)
    then obtain e where e: "taihe_at s j = Some e" using taihe_owned_data [OF s, of j] taihe_leaving_object by (auto simp: taihe_owned_def)
    have "i \<noteq> j" using i Some by auto
    from data_sum_two [OF d e this, of taihe_refs] show ?thesis using sum Some e by (simp add: taihe_given_up_def)
  qed
  then have "taihe_refs d \<subseteq># mset (tm_refs s)" by (simp add: subset_mset.add_le_cancel_right)
  then have "r \<in># mset (tm_refs s)" using r by (auto dest: mset_subset_eqD)
  then show ?thesis by simp
qed

section \<open>Deletion\<close>

text \<open>Dead objects hold references that exist; each is deleted.\<close>

lemma destroy_all_known:
  "data_sum taihe_refs es \<subseteq># mset (tm_refs s) \<Longrightarrow>
   \<exists>rs ds. destroy_all True es s = Inr (s\<lparr>tm_refs := rs, tm_deleted := ds\<rparr>)
     \<and> mset rs + data_sum taihe_refs es = mset (tm_refs s) \<and> mset ds = mset (tm_deleted s) + data_sum taihe_refs es"
proof (induction es arbitrary: s)
  case Nil
  have "s = s\<lparr>tm_refs := tm_refs s, tm_deleted := tm_deleted s\<rparr>" by simp
  then show ?case by (intro exI conjI) auto
next
  case (Cons e es)
  show ?case
  proof (cases "tb_onDisconnect (snd e)")
    case None
    then show ?thesis using Cons.IH [of s] Cons.prems by (simp add: Taihe_DeleteNapiRef_def)
  next
    case (Some r)
    let ?s = "s\<lparr>tm_refs := remove1 r (tm_refs s), tm_deleted := r # tm_deleted s\<rparr>"
    have sub: "add_mset r (data_sum taihe_refs es) \<subseteq># mset (tm_refs s)" using Cons.prems Some by simp
    then have r: "r \<in># mset (tm_refs s)" by (rule mset_subset_eq_insertD [THEN conjunct1])
    have "data_sum taihe_refs es \<subseteq># mset (tm_refs ?s)" using sub by (simp add: insert_subset_eq_iff)
    then obtain rs ds where *: "destroy_all True es ?s = Inr (?s\<lparr>tm_refs := rs, tm_deleted := ds\<rparr>)"
      "mset rs + data_sum taihe_refs es = mset (tm_refs ?s)" "mset ds = mset (tm_deleted ?s) + data_sum taihe_refs es"
      using Cons.IH by blast
    have "mset rs + data_sum taihe_refs es = mset (tm_refs s) - {#r#}" using *(2) by simp
    then have "mset rs + data_sum taihe_refs (e # es) = mset (tm_refs s)" using r Some by simp
    moreover have "mset ds = mset (tm_deleted s) + data_sum taihe_refs (e # es)" using *(3) Some by simp
    moreover have "destroy_all True (e # es) s = destroy_all True es ?s"
      using Some r by (simp add: Taihe_DeleteNapiRef_def GlobalReference_Delete_def)
    ultimately show ?thesis using *(1) by (intro exI [of _ rs] exI [of _ ds]) simp
  qed
qed

lemma taihe_collect_ok:
  assumes s: "taihe_ok s"
  shows "\<exists>s'. taihe_collect True s = Inr s' \<and> taihe_ok s' \<and> fst ` set (tm_data s') \<subseteq> Collect (taihe_owned s')"
proof -
  let ?dead = "filter (\<lambda>e. \<not> taihe_owned s (fst e)) (tm_data s)"
  let ?live = "filter (\<lambda>e. taihe_owned s (fst e)) (tm_data s)"
  let ?R = "data_sum taihe_refs ?dead" and ?P = "taihe_given_up s"
  have at: "map_of ?live i = (if taihe_owned s i then taihe_at s i else None)" for i
    by (rule map_of_filter_key)
  have sum: "data_sum taihe_refs ?live + ?R = mset (tm_refs s) + ?P"
    using data_sum_filter [of taihe_refs "\<lambda>e. taihe_owned s (fst e)" "tm_data s"] s
    by (simp add: taihe_ok_def taihe_refs_ok_def)
  have own: "taihe_leaving (tm_call s) = Some i \<Longrightarrow> taihe_owned s i" for i
    using taihe_leaving_object by (simp add: taihe_owned_def)
  have "?P \<subseteq># data_sum taihe_refs ?live"
  proof (cases "taihe_leaving (tm_call s)")
    case (Some i)
    then have "map_of ?live i = taihe_at s i" using own at by simp
    then show ?thesis using Some data_sum_at [of ?live i _ taihe_refs] by (simp add: taihe_given_up_def split: option.split)
  qed (simp add: taihe_given_up_def)
  then obtain X where X: "data_sum taihe_refs ?live = ?P + X" by (auto simp: subset_mset.le_iff_add)
  then have R: "mset (tm_refs s) = X + ?R" using sum by (simp add: ac_simps)
  then obtain rs ds where del: "destroy_all True ?dead (s\<lparr>tm_data := ?live\<rparr>) = Inr (s\<lparr>tm_data := ?live, tm_refs := rs, tm_deleted := ds\<rparr>)"
    "mset rs + ?R = mset (tm_refs s)" "mset ds = mset (tm_deleted s) + ?R"
    using destroy_all_known [of ?dead "s\<lparr>tm_data := ?live\<rparr>"] by auto
  let ?s = "s\<lparr>tm_data := ?live, tm_refs := rs, tm_deleted := ds\<rparr>"
  have "mset rs = X" using del(2) R by simp
  moreover have "taihe_given_up ?s = ?P" using own by (auto simp: taihe_given_up_def at split: option.split)
  ultimately have "taihe_refs_ok ?s" using s X R del(3) by (simp add: taihe_ok_def taihe_refs_ok_def ac_simps)
  moreover have dist: "distinct (map fst ?live)" using s by (simp add: taihe_ok_def taihe_objects_ok_def distinct_map_filter)
  moreover have same: "taihe_owned ?s = taihe_owned s" by (simp add: taihe_owned_def fun_eq_iff)
  ultimately have "taihe_ok ?s" using s at unfolding taihe_ok_def taihe_objects_ok_def by (auto simp: taihe_quiet_def)
  then show ?thesis using del(1) same by (auto simp: taihe_collect_def)
qed

text \<open>Where no object dies that holds a reference, it does not matter which thread it is.\<close>

definition no_death :: "taihe_state \<Rightarrow> bool" where
  "no_death s \<longleftrightarrow> list_all (\<lambda>e. taihe_owned s (fst e) \<or> tb_onDisconnect (snd e) = None) (tm_data s)"

lemma taihe_collect_anywhere:
  assumes "no_death s"
  shows "taihe_collect known s = taihe_collect True s"
proof -
  have none: "list_all (\<lambda>e. tb_onDisconnect (snd e) = None) es \<Longrightarrow> destroy_all k es u = Inr u" for es k u
    by (induction es) (simp_all add: Taihe_DeleteNapiRef_def)
  have "list_all (\<lambda>e. tb_onDisconnect (snd e) = None) (filter (\<lambda>e. \<not> taihe_owned s (fst e)) (tm_data s))"
    using assms by (auto simp: no_death_def list_all_iff)
  from none [OF this] show ?thesis by (simp add: taihe_collect_def)
qed

section \<open>Every step\<close>

lemma taihe_fresh:
  assumes "taihe_ok s"
  shows "taihe_at s (tm_next s) = None" and "\<not> taihe_owned s (tm_next s)" and "tm_next s \<notin> set (tm_made s)"
proof -
  show at: "taihe_at s (tm_next s) = None" using assms unfolding taihe_ok_def taihe_objects_ok_def by blast
  show "\<not> taihe_owned s (tm_next s)" using assms at unfolding taihe_ok_def taihe_objects_ok_def by blast
  show "tm_next s \<notin> set (tm_made s)" using assms unfolding taihe_ok_def taihe_refs_ok_def by blast
qed

lemma new_taihe_ok:
  assumes "taihe_ok s" and "tm_call s = Bind_idle"
  shows "taihe_ok (s\<lparr>tm_data := (tm_next s, new_taihe_data k) # tm_data s, tm_next := Suc (tm_next s)\<rparr>)" (is "taihe_ok ?s")
proof -
  have at: "taihe_at ?s i = (if i = tm_next s then Some (new_taihe_data k) else taihe_at s i)" for i by simp
  have own: "taihe_owned ?s = taihe_owned s" by (simp add: taihe_owned_def fun_eq_iff)
  have "distinct (map fst (tm_data ?s))"
    using assms taihe_fresh(1) [OF assms(1)] by (simp add: taihe_ok_def taihe_objects_ok_def map_of_eq_None_iff)
  moreover have "i < tm_next ?s" if "taihe_at ?s i \<noteq> None" for i
    using assms that unfolding at taihe_ok_def taihe_objects_ok_def by (auto simp: less_SucI split: if_splits)
  ultimately have "taihe_objects_ok ?s" using assms unfolding taihe_ok_def taihe_objects_ok_def own at by auto
  moreover have "taihe_refs_ok ?s"
    using assms unfolding taihe_ok_def taihe_refs_ok_def by (auto simp: new_taihe_data_def taihe_given_up_def less_SucI)
  ultimately show ?thesis using assms(2) by (simp add: taihe_ok_def taihe_quiet_def)
qed

lemma new_taihe_ref_ok:
  assumes s: "taihe_ok s" and d: "taihe_at s i = Some d" and none: "tb_onDisconnect d = None" and idle: "tm_call s = Bind_idle"
  shows "taihe_ok (set_taihe i (\<lambda>d. d\<lparr>tb_onDisconnect := Some (tm_next s)\<rparr>)
    (s\<lparr>tm_refs := tm_next s # tm_refs s, tm_made := tm_next s # tm_made s, tm_next := Suc (tm_next s)\<rparr>))"
    (is "taihe_ok (set_taihe i ?f ?s)")
proof -
  have dist: "distinct (map fst (tm_data ?s))" using s by (simp add: taihe_ok_def taihe_objects_ok_def)
  have at: "taihe_at ?s i = Some d" using d by simp
  have sum: "data_sum taihe_refs (tm_data (set_taihe i ?f ?s)) = add_mset (tm_next s) (data_sum taihe_refs (tm_data s))"
    using taihe_refs_set [OF dist at, of ?f] none by simp
  have "taihe_refs_ok (set_taihe i ?f ?s)"
    using s taihe_fresh(3) [OF s] idle unfolding taihe_refs_ok_def sum
    by (auto simp: taihe_ok_def taihe_refs_ok_def taihe_given_up_def less_SucI)
  moreover have "taihe_owned ?s = taihe_owned s" by (simp add: taihe_owned_def fun_eq_iff)
  then have "taihe_objects_ok (set_taihe i ?f ?s)"
    using s unfolding taihe_ok_def taihe_objects_ok_def by (auto simp: taihe_at_set less_SucI split: if_splits)
  ultimately show ?thesis using idle by (simp add: taihe_ok_def taihe_quiet_def)
qed

lemma BindDriverStart_ok:
  assumes s: "taihe_ok s" and idle: "tm_call s = Bind_idle"
  shows "taihe_ok (snd (BindDriverStart vm_ok alloc ref_ok k s))"
proof (cases "vm_ok \<and> alloc")
  case True
  let ?i = "tm_next s" and ?s = "s\<lparr>tm_data := (tm_next s, new_taihe_data k) # tm_data s, tm_next := Suc (tm_next s)\<rparr>"
  let ?t = "set_taihe ?i (\<lambda>d. d\<lparr>tb_onDisconnect := Some (tm_next ?s)\<rparr>)
    (?s\<lparr>tm_refs := tm_next ?s # tm_refs ?s, tm_made := tm_next ?s # tm_made ?s, tm_next := Suc (tm_next ?s)\<rparr>)"
  have new: "taihe_ok ?s" by (rule new_taihe_ok [OF s idle])
  have t: "taihe_ok ?t" by (rule new_taihe_ref_ok [OF new, where d = "new_taihe_data k"]) (simp_all add: new_taihe_data_def idle)
  have fresh: "\<not> taihe_owned s ?i" by (rule taihe_fresh(2) [OF s])
  have "taihe_ok (?t\<lparr>tm_map := al_put k ?i (tm_map ?t), tm_call := Bind_waits ?i\<rparr>)"
  proof (rule taihe_owners_ok [OF t])
    fix i assume "taihe_owned (?t\<lparr>tm_map := al_put k ?i (tm_map ?t), tm_call := Bind_waits ?i\<rparr>) i"
    then have "i = ?i \<or> taihe_owned ?t i" using al_put_values [of k ?i "tm_map s"] by (auto simp: taihe_owned_def)
    moreover have "taihe_at ?t ?i \<noteq> None" by (simp add: taihe_at_set)
    moreover have "taihe_owned ?t i \<Longrightarrow> taihe_at ?t i \<noteq> None" using taihe_owned_data [OF t, of i] by force
    ultimately show "taihe_at ?t i \<noteq> None" by blast
  next
    show "taihe_quiet (?t\<lparr>tm_map := al_put k ?i (tm_map ?t), tm_call := Bind_waits ?i\<rparr>)"
      using fresh by (force simp: taihe_quiet_def taihe_owned_def list_ex_iff)
  qed (simp_all add: idle)
  then show ?thesis using True new by (simp add: BindDriverStart_def Let_def)
qed (use s in \<open>auto simp: BindDriverStart_def\<close>)

lemma taihe_call_owned: "taihe_ok s \<Longrightarrow> taihe_object (tm_call s) = Some i \<Longrightarrow> \<exists>d. taihe_at s i = Some d"
  by (rule taihe_owned_data) (simp_all add: taihe_owned_def)

text \<open>The binding goes on to another place, with the same object or none, and entries of the table may go.\<close>

lemma taihe_move_ok:
  assumes s: "taihe_ok s" and m: "set m \<subseteq> set (tm_map s)" and n: "tm_next s \<le> n"
    and pc: "taihe_object pc = None \<or> taihe_object pc = taihe_object (tm_call s)"
    and l: "taihe_leaving pc = None" "taihe_leaving (tm_call s) = None"
  shows "taihe_ok (s\<lparr>tm_map := m, tm_call := pc, tm_next := n\<rparr>)" (is "taihe_ok ?s")
proof (rule taihe_owners_ok [OF s])
  have "taihe_quiet s" using s by (simp add: taihe_ok_def)
  then show "taihe_quiet ?s" using pc by (auto simp: taihe_quiet_def)
  fix i assume "taihe_owned ?s i"
  then have "taihe_owned s i" using m pc by (auto simp: taihe_owned_def)
  then show "taihe_at s i \<noteq> None" using taihe_owned_data [OF s] by blast
qed (simp_all add: n l)

lemma BindDriverEnd_ok:
  assumes s: "taihe_ok s"
  shows "\<exists>evs s'. BindDriverEnd retCode made s = Inr (evs, s') \<and> taihe_ok s'"
proof (cases "tm_call s")
  case (Bind_waits i)
  obtain d where d: "taihe_at s i = Some d" using taihe_call_owned [OF s, of i] Bind_waits by auto
  have refused: "taihe_ok (s\<lparr>tm_call := Bind_refused i evs\<rparr>)" for evs
    using taihe_move_ok [OF s subset_refl le_refl, of "Bind_refused i evs"] Bind_waits by simp
  let ?n = "s\<lparr>tm_call := Bind_idle, tm_next := Suc (tm_next s)\<rparr>"
  have n: "taihe_ok ?n" using taihe_move_ok [OF s subset_refl, of "Suc (tm_next s)" Bind_idle] Bind_waits by simp
  have "taihe_ok (set_taihe i (\<lambda>d. d\<lparr>tb_bindDeferred := Some (tm_next s)\<rparr>) ?n)"
    by (rule set_taihe_ok [OF n, of i d]) (use d in \<open>simp_all add: taihe_refs_def\<close>)
  then show ?thesis using Bind_waits d refused by (simp add: BindDriverEnd_def)
qed (use s in \<open>simp_all add: BindDriverEnd_def\<close>)

text \<open>The reference is deleted and, a step later, cleared in the object.\<close>

lemma taihe_delete_ok:
  assumes s: "taihe_ok s" and pc: "tm_call s = Bind_erased i evs" and d: "taihe_at s i = Some d" "tb_onDisconnect d = Some r"
  shows "\<exists>s'. GlobalReference_Delete r s = Inr s' \<and> taihe_ok (s'\<lparr>tm_call := Bind_deleted i evs\<rparr>)"
proof -
  let ?s = "s\<lparr>tm_refs := remove1 r (tm_refs s), tm_deleted := r # tm_deleted s, tm_call := Bind_deleted i evs\<rparr>"
  have r: "r \<in> set (tm_refs s)" by (rule taihe_live [OF s d]) (simp add: pc)
  then have split: "mset (tm_refs s) = add_mset r (mset (remove1 r (tm_refs s)))" by simp
  have g: "taihe_given_up ?s = {#r#}" "taihe_given_up s = {#}" using d pc by (simp_all add: taihe_given_up_def)
  have "taihe_refs_ok ?s"
    using s split g unfolding taihe_ok_def taihe_refs_ok_def split by simp
  moreover have "taihe_owned ?s = taihe_owned s" using pc by (simp add: taihe_owned_def fun_eq_iff)
  then have "taihe_objects_ok ?s" using s unfolding taihe_ok_def taihe_objects_ok_def by simp
  moreover have "taihe_quiet ?s" using s pc by (simp add: taihe_ok_def taihe_quiet_def)
  ultimately show ?thesis using r by (simp add: GlobalReference_Delete_def taihe_ok_def)
qed

lemma taihe_clear_ok:
  assumes s: "taihe_ok s" and pc: "tm_call s = Bind_deleted i evs"
  shows "taihe_ok (set_taihe i (\<lambda>d. d\<lparr>tb_onDisconnect := None\<rparr>) (s\<lparr>tm_call := Bind_idle\<rparr>))" (is "taihe_ok ?s")
proof -
  obtain d where d: "taihe_at s i = Some d" using taihe_call_owned [OF s, of i] pc by auto
  have dist: "distinct (map fst (tm_data s))" using s by (simp add: taihe_ok_def taihe_objects_ok_def)
  have "data_sum taihe_refs (tm_data ?s) + taihe_refs d = data_sum taihe_refs (tm_data s)"
    using taihe_refs_set [of "s\<lparr>tm_call := Bind_idle\<rparr>" i d "\<lambda>d. d\<lparr>tb_onDisconnect := None\<rparr>"] dist d by simp
  moreover have "taihe_given_up s = taihe_refs d" "taihe_given_up ?s = {#}" using d pc by (simp_all add: taihe_given_up_def)
  ultimately have "taihe_refs_ok ?s" using s by (simp add: taihe_ok_def taihe_refs_ok_def)
  moreover have "taihe_owned ?s j \<Longrightarrow> taihe_owned s j" for j by (auto simp: taihe_owned_def)
  then have "taihe_objects_ok ?s" using s unfolding taihe_ok_def taihe_objects_ok_def by (auto simp: taihe_at_set split: if_splits)
  ultimately show ?thesis by (simp add: taihe_ok_def taihe_quiet_def)
qed

lemma BindDriverFail_ok:
  assumes s: "taihe_ok s"
  shows "\<exists>evs s'. BindDriverFail s = Inr (evs, s') \<and> taihe_ok s'"
proof (cases "tm_call s")
  case (Bind_refused i evs)
  obtain d where d: "taihe_at s i = Some d" using taihe_call_owned [OF s, of i] Bind_refused by auto
  let ?m = "tm_map (taihe_erase_own i (tb_deviceId d) s)"
  have "set ?m \<subseteq> set (tm_map s)" by (auto simp: taihe_erase_own_def al_del_def)
  then have "taihe_ok (s\<lparr>tm_map := ?m, tm_call := Bind_erased i evs\<rparr>)"
    using taihe_move_ok [OF s _ le_refl, of ?m "Bind_erased i evs"] Bind_refused by simp
  moreover have "(taihe_erase_own i (tb_deviceId d) s)\<lparr>tm_call := Bind_erased i evs\<rparr> = s\<lparr>tm_map := ?m, tm_call := Bind_erased i evs\<rparr>"
    by (simp add: taihe_erase_own_def)
  ultimately show ?thesis using Bind_refused d s by (simp add: BindDriverFail_def)
next
  case (Bind_erased i evs)
  obtain d where d: "taihe_at s i = Some d" using taihe_call_owned [OF s, of i] Bind_erased by auto
  show ?thesis
  proof (cases "tb_onDisconnect d")
    case None
    have "taihe_ok (s\<lparr>tm_call := Bind_idle\<rparr>)"
      using taihe_move_ok [OF s subset_refl le_refl, of Bind_idle] Bind_erased by simp
    then show ?thesis using Bind_erased d None by (simp add: BindDriverFail_def)
  next
    case (Some r)
    then show ?thesis using taihe_delete_ok [OF s Bind_erased d Some] Bind_erased d by (auto simp: BindDriverFail_def)
  qed
next
  case (Bind_deleted i evs)
  then show ?thesis using taihe_clear_ok [OF s Bind_deleted] by (simp add: BindDriverFail_def)
qed (use s in \<open>simp_all add: BindDriverFail_def\<close>)

text \<open>A callback that reports the disconnection of the object of the running binding disturbs it.\<close>

fun disturbs :: "taihe_state \<Rightarrow> taihe_op \<Rightarrow> bool" where
  "disturbs s (Disconnected k ok posted) \<longleftrightarrow>
     tm_lock s = None \<and> (case map_of (tm_map s) k of None \<Rightarrow> False | Some i \<Rightarrow> taihe_object (tm_call s) = Some i)"
| "disturbs s _ \<longleftrightarrow> False"

lemma taihe_callback_ok:
  assumes s: "taihe_ok s" and k: "map_of (tm_map s) k = Some i" and m: "set m \<subseteq> set (tm_map s)"
    and t: "t = Tell_connected i remote ok \<or> t = Tell_disconnected i ok \<and> taihe_object (tm_call s) \<noteq> Some i"
  shows "taihe_ok (s\<lparr>tm_map := m, tm_lock := Some i\<rparr>)" and "taihe_ok (s\<lparr>tm_map := m, tm_lock := Some i, tm_tasks := tm_tasks s @ [t]\<rparr>)"
proof -
  have i: "taihe_owned s i" by (rule taihe_entry_owned [OF k])
  have own: "j = i \<or> taihe_owned s j"
    if "taihe_owned (s\<lparr>tm_map := m, tm_lock := Some i, tm_tasks := tm_tasks s @ ts\<rparr>) j" "ts = [] \<or> ts = [t]" for j ts
    using that m t by (auto simp: taihe_owned_def)
  have q: "taihe_quiet s" using s by (simp add: taihe_ok_def)
  have at: "taihe_at s j \<noteq> None" if "j = i \<or> taihe_owned s j" for j using taihe_owned_data [OF s] that i by auto
  show "taihe_ok (s\<lparr>tm_map := m, tm_lock := Some i\<rparr>)"
    by (rule taihe_owners_ok [OF s]) (use own [where ts = "[]"] at q in \<open>simp_all add: taihe_quiet_def\<close>)
  show "taihe_ok (s\<lparr>tm_map := m, tm_lock := Some i, tm_tasks := tm_tasks s @ [t]\<rparr>)"
  proof (rule taihe_owners_ok [OF s])
    show "taihe_quiet (s\<lparr>tm_map := m, tm_lock := Some i, tm_tasks := tm_tasks s @ [t]\<rparr>)"
      using q t by (auto simp: taihe_quiet_def)
  qed (use own [where ts = "[t]"] at in simp_all)
qed

lemma Taihe_OnConnect_ok:
  assumes s: "taihe_ok s"
  shows "taihe_ok (snd (Taihe_OnConnect k remote ok posted s))"
proof (cases "map_of (tm_map s) k")
  case (Some i)
  have del: "set (al_del k (tm_map s)) \<subseteq> set (tm_map s)" by (auto simp: al_del_def)
  note here = taihe_callback_ok [OF s Some subset_refl disjI1 [OF refl]] taihe_callback_ok [OF s Some del disjI1 [OF refl]]
  show ?thesis using Some s here by (cases ok) (simp_all add: Taihe_OnConnect_def Let_def)
qed (use s in \<open>simp add: Taihe_OnConnect_def\<close>)

lemma Taihe_OnDisconnect_ok:
  assumes s: "taihe_ok s" and lock: "tm_lock s = None" and calm: "\<not> disturbs s (Disconnected k ok posted)"
  shows "\<exists>ret s'. Taihe_OnDisconnect k ok posted s = Inr (ret, s') \<and> taihe_ok s'"
proof (cases "map_of (tm_map s) k")
  case (Some i)
  obtain d where "taihe_at s i = Some d" using taihe_owned_data [OF s taihe_entry_owned [OF Some]] by blast
  moreover have "set (al_del k (tm_map s)) \<subseteq> set (tm_map s)" by (auto simp: al_del_def)
  from taihe_callback_ok [OF s Some this, of "Tell_disconnected i ok" None ok] calm lock Some
  have "taihe_ok (s\<lparr>tm_map := al_del k (tm_map s), tm_lock := Some i\<rparr>)"
    "taihe_ok (s\<lparr>tm_map := al_del k (tm_map s), tm_lock := Some i, tm_tasks := tm_tasks s @ [Tell_disconnected i ok]\<rparr>)" by simp_all
  ultimately show ?thesis using Some s by (auto simp: Taihe_OnDisconnect_def Let_def)
qed (use s in \<open>simp add: Taihe_OnDisconnect_def\<close>)

text \<open>A task finds an environment, and a scope if it had to attach its thread.\<close>

fun has_env :: "taihe_op \<Rightarrow> bool" where
  "has_env (Task known env_ok scope_ok) \<longleftrightarrow> env_ok \<and> (known \<or> scope_ok)"
| "has_env _ \<longleftrightarrow> True"

lemma taihe_task_ok:
  assumes s: "taihe_ok s" and env: "env_ok" "known \<or> scope_ok"
  shows "\<exists>evs s'. taihe_step (Task known env_ok scope_ok) s = Inr (evs, s') \<and> taihe_ok s'"
proof (cases "tm_tasks s")
  case (Cons t ts)
  let ?s = "s\<lparr>tm_tasks := ts\<rparr>"
  have quiet: "taihe_quiet s" using s by (simp add: taihe_ok_def)
  have ok: "taihe_ok ?s" by (rule taihe_less_ok [OF s]) (use Cons in \<open>auto simp: taihe_owned_def\<close>)
  have at: "\<exists>d. taihe_at ?s i = Some d" if "taihe_task_owns i t" for i
    using taihe_owned_data [OF s, of i] Cons that by (simp add: taihe_owned_def)
  show ?thesis
  proof (cases t)
    case (Tell_connected i remote ok')
    then obtain d where "taihe_at ?s i = Some d" using at by fastforce
    then show ?thesis using Cons Tell_connected ok env by (auto simp: Taihe_RunOnConnect_def split: option.splits)
  next
    case (Tell_disconnected i ok')
    then obtain d where d: "taihe_at ?s i = Some d" using at by fastforce
    have "taihe_object (tm_call s) \<noteq> Some i" using quiet Cons Tell_disconnected by (auto simp: taihe_quiet_def)
    then have "taihe_leaving (tm_call ?s) \<noteq> Some i" using taihe_leaving_object by auto
    then show ?thesis using Cons Tell_disconnected ok taihe_live [OF ok d] d env
      by (auto simp: Taihe_RunOnDisconnect_def split: option.splits)
  qed
qed (use s in simp)

lemma taihe_step_ok:
  assumes s: "taihe_ok s" and env: "has_env op" and calm: "\<not> disturbs s op"
  shows "\<exists>evs s'. taihe_step op s = Inr (evs, s') \<and> taihe_ok s'"
proof (cases op)
  case (Bind vm_ok alloc ref_ok k)
  then show ?thesis using BindDriverStart_ok [OF s, of vm_ok alloc ref_ok k] s by (auto simp: prod_eq_iff)
next
  case (Bind_end retCode made)
  then show ?thesis using BindDriverEnd_ok [OF s] by auto
next
  case Bind_fail
  then show ?thesis using BindDriverFail_ok [OF s] by auto
next
  case (Connected k remote ok posted)
  then show ?thesis using Taihe_OnConnect_ok [OF s] s by simp
next
  case (Disconnected k ok posted)
  then show ?thesis using Taihe_OnDisconnect_ok [OF s, of k ok posted] calm s by auto
next
  case (Unbound k ok)
  show ?thesis
  proof (cases "map_of (tm_map s) k")
    case (Some i)
    obtain d where d: "taihe_at s i = Some d" using taihe_owned_data [OF s taihe_entry_owned [OF Some]] by blast
    have "taihe_ok (set_taihe i (\<lambda>d. d\<lparr>tb_unBindOk := ok\<rparr>) s)"
      by (rule set_taihe_ok [OF s d]) (simp add: taihe_refs_def)
    then show ?thesis using Unbound Some s by (simp add: Taihe_OnUnBind_def)
  qed (use Unbound s in \<open>simp add: Taihe_OnUnBind_def\<close>)
next
  case (Return known)
  have "taihe_ok (s\<lparr>tm_lock := None\<rparr>)" by (rule taihe_less_ok [OF s]) (auto simp: taihe_owned_def)
  then show ?thesis using Return by simp
next
  case (Task k env_ok scope_ok)
  then show ?thesis using taihe_task_ok [OF s, of env_ok k scope_ok] env by simp
qed (use s in simp_all)

section \<open>The properties\<close>

text \<open>
  Along the run, tasks find an environment, the disconnection of no object is reported before its binding
  has returned, and no object that holds a reference dies on a thread that the engine does not know.
\<close>

fun orderly :: "taihe_op list \<Rightarrow> taihe_state \<Rightarrow> bool" where
  "orderly [] s \<longleftrightarrow> True"
| "orderly (op # ops) s \<longleftrightarrow> has_env op \<and> \<not> disturbs s op
     \<and> (case taihe_step op s of Inl _ \<Rightarrow> True | Inr (_, s1) \<Rightarrow> known_thread op \<or> no_death s1)
     \<and> (case taihe_do op s of Inl _ \<Rightarrow> True | Inr (_, s') \<Rightarrow> orderly ops s')"

lemma taihe_run_ok:
  "taihe_ok s \<Longrightarrow> fst ` set (tm_data s) \<subseteq> Collect (taihe_owned s) \<Longrightarrow> orderly ops s \<Longrightarrow>
   \<exists>evs s'. taihe_run ops s = Inr (evs, s') \<and> taihe_ok s' \<and> fst ` set (tm_data s') \<subseteq> Collect (taihe_owned s')"
proof (induction ops arbitrary: s)
  case (Cons op ops)
  obtain evs s1 where st: "taihe_step op s = Inr (evs, s1)" "taihe_ok s1"
    using taihe_step_ok [OF Cons.prems(1), of op] Cons.prems(3) by auto
  obtain s2 where c: "taihe_collect True s1 = Inr s2" "taihe_ok s2" "fst ` set (tm_data s2) \<subseteq> Collect (taihe_owned s2)"
    using taihe_collect_ok [OF st(2)] by blast
  have "known_thread op \<or> no_death s1" using Cons.prems(3) st(1) by simp
  then have "taihe_collect (known_thread op) s1 = taihe_collect True s1" by (metis taihe_collect_anywhere)
  then have run: "taihe_do op s = Inr (evs, s2)" using st(1) c(1) by (simp add: taihe_do_def)
  then have "orderly ops s2" using Cons.prems(3) by simp
  then show ?case using Cons.IH [OF c(2,3)] run by auto
qed auto

text \<open>
  What the living objects hold; the object whose reference the way out of a failed binding has just
  deleted does not count.
\<close>

definition taihe_held :: "taihe_state \<Rightarrow> nat multiset" where
  "taihe_held s = data_sum taihe_refs (filter (\<lambda>e. taihe_leaving (tm_call s) \<noteq> Some (fst e)) (tm_data s))"

lemma data_sum_one: "distinct (map fst xs) \<Longrightarrow>
   data_sum g (filter (\<lambda>e. fst e = i) xs) = (case map_of xs i of None \<Rightarrow> {#} | Some d \<Rightarrow> g d)"
proof (induction xs)
  case (Cons x xs)
  then show ?case by (cases x) (auto simp: filter_empty_conv map_of_eq_None_iff [symmetric] split: option.splits)
qed simp

lemma taihe_held_refs:
  assumes s: "taihe_ok s"
  shows "taihe_held s = mset (tm_refs s)"
proof (cases "taihe_leaving (tm_call s)")
  case None
  then show ?thesis using s by (simp add: taihe_held_def taihe_ok_def taihe_refs_ok_def taihe_given_up_def)
next
  case (Some i)
  have "distinct (map fst (tm_data s))" using s by (simp add: taihe_ok_def taihe_objects_ok_def)
  then have "taihe_held s + taihe_given_up s = data_sum taihe_refs (tm_data s)"
    using data_sum_filter [of taihe_refs "\<lambda>e. i \<noteq> fst e" "tm_data s"] data_sum_one [of "tm_data s" taihe_refs i] Some
    by (simp add: taihe_held_def taihe_given_up_def eq_commute [of i])
  then show ?thesis using s by (simp add: taihe_ok_def taihe_refs_ok_def)
qed

text \<open>
  C37: take any order of bindings, callbacks, returns of callbacks and tasks in which every task finds an
  environment, and a scope if it had to attach its thread (has_env), no disconnection is reported to an
  object whose binding has not returned (disturbs), and no object that holds a reference dies on a thread
  that the engine does not know (no_death); orderly says these three. Then no deleted object and no deleted reference is
  used, and the references are accounted for: each that was made has been deleted exactly once, or is
  held by exactly one object that can still be reached from the table, from a task or from a running
  call, and none of these is deleted.
\<close>

theorem taihe_references_deleted_once:
  assumes "orderly ops taihe_start"
  shows "\<exists>evs s. taihe_run ops taihe_start = Inr (evs, s)
    \<and> distinct (tm_made s) \<and> mset (tm_made s) = mset (tm_deleted s) + taihe_held s
    \<and> fst ` set (tm_data s) \<subseteq> Collect (taihe_owned s)"
proof -
  have "fst ` set (tm_data taihe_start) \<subseteq> Collect (taihe_owned taihe_start)" by (simp add: taihe_start_def)
  from taihe_run_ok [OF taihe_start_ok this assms] obtain evs s where
    "taihe_run ops taihe_start = Inr (evs, s)" "taihe_ok s" "fst ` set (tm_data s) \<subseteq> Collect (taihe_owned s)" by blast
  then show ?thesis using taihe_held_refs [of s] by (auto simp: taihe_ok_def taihe_refs_ok_def)
qed

definition taihe_whole_run :: "bool \<Rightarrow> taihe_op list" where
  "taihe_whole_run known =
     [Bind True True True 7, Bind_end EDM_OK True, Connected 7 (Some 4) True True, Return known, Task True True True,
      Unbind 7 EDM_OK, Unbound 7 True, Disconnected 7 True True, Task True True True, Return known]"

lemma taihe_whole_run_orderly: "orderly (taihe_whole_run True) taihe_start"
  by code_simp

text \<open>Callbacks may return on threads that the engine does not know, as long as the object lives on.\<close>

lemma foreign_callbacks_orderly:
  "orderly [Bind True True True 7, Bind_end EDM_OK True, Connected 7 (Some 4) True True, Return False, Task True True True,
     Disconnected 7 True True, Return False, Task True True True] taihe_start"
  by code_simp

corollary taihe_references_deleted_once_witness:
  "\<exists>evs s. taihe_run (taihe_whole_run True) taihe_start = Inr (evs, s) \<and> mset (tm_made s) = mset (tm_deleted s) + taihe_held s"
  using taihe_references_deleted_once [OF taihe_whole_run_orderly] by blast

text \<open>At the end of that run the one reference has been deleted; in the middle of it, the object in the table holds it.\<close>

lemma taihe_whole_run_deletes:
  "case taihe_run (taihe_whole_run True) taihe_start of Inl _ \<Rightarrow> False | Inr (_, s) \<Rightarrow> tm_made s = [1] \<and> tm_deleted s = [1] \<and> tm_data s = []"
  "case taihe_run (take 5 (taihe_whole_run True)) taihe_start of Inl _ \<Rightarrow> False | Inr (_, s) \<Rightarrow> tm_made s = [1] \<and> tm_deleted s = [] \<and> tm_map s = [(7, 0)]"
  by code_simp+

text \<open>
  The conditions are needed; for the third see object_dies_on_foreign_thread. When the disconnection is reported while the binding waits for the service,
  and the binding then fails, the main thread can run the callback's task between the deletion of the
  reference and its clearing: neither happens under the lock.
\<close>

theorem failed_binding_races_with_disconnection:
  "taihe_run [Bind True True True 7, Disconnected 7 True True, Return True, Bind_end EDM_NOK True, Bind_fail, Bind_fail,
     Task True True True] taihe_start = Inl Use_after_free"
  by code_simp

text \<open>
  The task of OnConnect on a thread that it had to attach: when no scope can be made, it detaches the
  thread and goes on with the environment that went with it.
\<close>

theorem detached_environment_used:
  "taihe_run [Bind True True True 7, Bind_end EDM_OK True, Connected 7 (Some 4) True True, Return True, Task False True False]
     taihe_start = Inl Use_after_free"
  by code_simp

text \<open>
  the callback for a disconnected device that ends after its task deletes the object on a thread that
  the engine need not know; then the destructor reads the environment that GetEnv has not set.
\<close>

theorem object_dies_on_foreign_thread:
  "taihe_run (taihe_whole_run False) taihe_start = Inl Uninit_read
   \<and> (\<exists>s. taihe_run (taihe_whole_run True) taihe_start =
       Inr ([Call_service True 7, Promise_made 2 7, Settled_bind 2 7 (Some 4) True, Call_unbind True 7, Called_disconnect 1 7 True], s))"
proof
  show "taihe_run (taihe_whole_run False) taihe_start = Inl Uninit_read" by code_simp
  have "case taihe_run (taihe_whole_run True) taihe_start of Inl _ \<Rightarrow> False | Inr (evs, _) \<Rightarrow>
    evs = [Call_service True 7, Promise_made 2 7, Settled_bind 2 7 (Some 4) True, Call_unbind True 7, Called_disconnect 1 7 True]"
    by code_simp
  then show "\<exists>s. taihe_run (taihe_whole_run True) taihe_start =
       Inr ([Call_service True 7, Promise_made 2 7, Settled_bind 2 7 (Some 4) True, Call_unbind True 7, Called_disconnect 1 7 True], s)"
    by (auto split: sum.splits)
qed

text \<open>Both modules translate the refusals of the service alike.\<close>

lemma refusals_agree: "taihe_bind_error retCode = bind_error True retCode" "taihe_unbind_error retCode = unbind_error True retCode"
  by (simp_all add: taihe_bind_error_def bind_error_def taihe_unbind_error_def unbind_error_def)

end
