(* ===== verification/Driver_Ability.thy ===== *)
theory Driver_Ability
  imports Ext_Types
begin

text \<open>
  The driver extension ability: how a driver's script is loaded, called and connected.
  services/native/driver_extension/src/driver_extension.cpp, js_driver_extension.cpp for the dynamic
  language and frameworks/js/ani/driver_extension_ability for the static one.

  External are the runtime with the script and the ability runtime that calls the extension. The first is
  the record \<open>script\<close>: the n-th call of a function gives a value or throws. Of the property \<open>then\<close> of a
  promise it says whether it is a function (\<open>sc_then\<close>), and whether a call of it registers what it is given
  (\<open>sc_registers\<close>), which a function that the script has put there need not do; what it registers is called
  at most once. The second hands a number with
  each connection, the record of a callback that is to be answered once and then deleted: by the
  ability runtime itself when the extension says that it did not answer later, by the extension
  otherwise. Permissions, the log and the metrics are left out.
\<close>

record 'v script =
  sc_load :: "string \<Rightarrow> bool"
  sc_function :: "string \<Rightarrow> bool"
  sc_call :: "nat \<Rightarrow> string \<Rightarrow> 'v option"
  sc_promise :: "'v \<Rightarrow> bool"
  sc_then :: "'v \<Rightarrow> bool"
  sc_registers :: "'v \<Rightarrow> bool"
  sc_await :: "'v \<Rightarrow> 'v option"
  sc_remote :: "'v option \<Rightarrow> nat option"
  sc_array :: "'v \<Rightarrow> 'v list option"
  sc_text :: "'v \<Rightarrow> string option"

datatype ext_event = Script_called string | Connect_answered nat "nat option" | Disconnect_answered nat

section \<open>Choice of the runtime\<close>

datatype language = Lang_JS | Lang_other
datatype extension_kind = Plain_extension | Created_extension | Js_extension

text \<open>\<open>creator\<close>: SetCreator was called.\<close>

definition DriverExtension_Create :: "bool \<Rightarrow> language option \<Rightarrow> extension_kind" where
  "DriverExtension_Create creator runtime =
     (case runtime of None \<Rightarrow> Plain_extension
      | Some l \<Rightarrow> if creator then Created_extension else if l = Lang_JS then Js_extension else Plain_extension)"

section \<open>The path of the script\<close>

record ability_info =
  ai_moduleName :: string
  ai_name :: string
  ai_package :: string
  ai_srcPath :: string
  ai_srcEntrance :: string
  ai_isModuleJson :: bool

fun rfind_char :: "char \<Rightarrow> string \<Rightarrow> nat option" where
  "rfind_char c [] = None"
| "rfind_char c (x # xs) = (case rfind_char c xs of Some n \<Rightarrow> Some (Suc n) | None \<Rightarrow> if x = c then Some 0 else None)"

text \<open>The result is None where erase is called with npos, which throws.\<close>

definition GetSrcPath :: "ability_info \<Rightarrow> string option" where
  "GetSrcPath a =
     (if \<not> ai_isModuleJson a then
        Some (ai_package a @ ''/assets/js/'' @ (if ai_srcPath a \<noteq> [] then ai_srcPath a else []) @ ''/'' @ ai_name a @ ''.abc'')
      else if ai_srcEntrance a \<noteq> [] then
        let srcPath = ai_moduleName a @ ''/'' @ ai_srcEntrance a in
        (case rfind_char CHR ''.'' srcPath of None \<Rightarrow> None | Some n \<Rightarrow> Some (take n srcPath @ ''.abc''))
      else Some [])"

definition Ani_SrcPath :: "ability_info option \<Rightarrow> string option" where
  "Ani_SrcPath info =
     (case info of None \<Rightarrow> None
      | Some a \<Rightarrow>
          if ai_srcEntrance a = [] then None
          else
            let srcPath = ai_moduleName a @ ''/'' @ ai_srcEntrance a in
            Some (case rfind_char CHR ''.'' srcPath of None \<Rightarrow> srcPath | Some n \<Rightarrow> take n srcPath @ ''.abc''))"

section \<open>The dynamic language\<close>

text \<open>The functions OnConnectPromiseCallback and PromiseCallback, with the callback they will answer.\<close>

datatype handler = Wait_connect nat | Wait_disconnect nat

text \<open>What \<open>then\<close> has registered with a promise: a function for its value and, if there is one, for its rejection.\<close>

type_synonym waiting = "handler \<times> handler option"

text \<open>\<open>jx_live\<close>: the callbacks that are not deleted.\<close>

record js_ext =
  jx_loaded :: bool
  jx_calls :: nat
  jx_waiting :: "waiting list"
  jx_live :: "nat list"
  jx_next :: nat

definition new_js_ext :: js_ext where
  "new_js_ext = \<lparr>jx_loaded = False, jx_calls = 0, jx_waiting = [], jx_live = [], jx_next = 0\<rparr>"

definition Js_Init :: "'v script \<Rightarrow> ability_info \<Rightarrow> js_ext \<Rightarrow> js_ext option" where
  "Js_Init Sc a x =
     (case GetSrcPath a of None \<Rightarrow> None
      | Some srcPath \<Rightarrow> if srcPath = [] then Some x else Some (x\<lparr>jx_loaded := sc_load Sc srcPath\<rparr>))"

definition CallObjectMethod :: "'v script \<Rightarrow> string \<Rightarrow> js_ext \<Rightarrow> 'v option \<times> ext_event list \<times> js_ext" where
  "CallObjectMethod Sc name x =
     (if \<not> jx_loaded x then (None, [], x)
      else if \<not> sc_function Sc name then (None, [], x)
      else (sc_call Sc (jx_calls x) name, [Script_called name], x\<lparr>jx_calls := Suc (jx_calls x)\<rparr>))"

definition Js_OnStart :: "'v script \<Rightarrow> js_ext \<Rightarrow> ext_event list \<times> js_ext" where
  "Js_OnStart Sc x = snd (CallObjectMethod Sc ''onInit'' x)"

definition Js_OnStop :: "'v script \<Rightarrow> js_ext \<Rightarrow> ext_event list \<times> js_ext" where
  "Js_OnStop Sc x = snd (CallObjectMethod Sc ''onRelease'' x)"

definition Js_CallOnConnect :: "'v script \<Rightarrow> js_ext \<Rightarrow> 'v option \<times> ext_event list \<times> js_ext" where
  "Js_CallOnConnect Sc x = CallObjectMethod Sc ''onConnect'' x"

definition Js_CallOnDisconnect :: "'v script \<Rightarrow> bool \<Rightarrow> js_ext \<Rightarrow> 'v option \<times> ext_event list \<times> js_ext" where
  "Js_CallOnDisconnect Sc withResult x =
     (case CallObjectMethod Sc ''onDisconnect'' x of (result, evs, x) \<Rightarrow> (if withResult then result else None, evs, x))"

definition CheckPromise :: "'v script \<Rightarrow> 'v option \<Rightarrow> bool" where
  "CheckPromise Sc result = (case result of None \<Rightarrow> False | Some v \<Rightarrow> sc_promise Sc v)"

text \<open>
  \<open>then\<close> is called with one function, that for the value. The status of the call is not looked at: the result
  is True whether or not the function has been registered.
\<close>

definition CallPromise :: "'v script \<Rightarrow> 'v \<Rightarrow> handler \<Rightarrow> js_ext \<Rightarrow> bool \<times> js_ext" where
  "CallPromise Sc result promiseCallback x =
     (if \<not> sc_then Sc result then (False, x)
      else (True, if sc_registers Sc result then x\<lparr>jx_waiting := jx_waiting x @ [(promiseCallback, None)]\<rparr> else x))"

definition Js_OnConnect :: "'v script \<Rightarrow> js_ext \<Rightarrow> nat option \<times> ext_event list \<times> js_ext" where
  "Js_OnConnect Sc x = (case Js_CallOnConnect Sc x of (result, evs, x) \<Rightarrow> (sc_remote Sc result, evs, x))"

text \<open>The second result is isAsyncCallback.\<close>

definition Js_OnConnectAsync :: "'v script \<Rightarrow> nat \<Rightarrow> js_ext \<Rightarrow> nat option \<times> bool \<times> ext_event list \<times> js_ext" where
  "Js_OnConnectAsync Sc callbackInfo x =
     (case Js_CallOnConnect Sc x of (result, evs, x) \<Rightarrow>
        if \<not> CheckPromise Sc result then (sc_remote Sc result, False, evs, x)
        else case CallPromise Sc (the result) (Wait_connect callbackInfo) x of (callResult, x) \<Rightarrow>
          (None, callResult, evs, x))"

definition Js_OnDisconnect :: "'v script \<Rightarrow> js_ext \<Rightarrow> ext_event list \<times> js_ext" where
  "Js_OnDisconnect Sc x = snd (Js_CallOnDisconnect Sc False x)"

definition Js_OnDisconnectAsync :: "'v script \<Rightarrow> nat \<Rightarrow> js_ext \<Rightarrow> bool \<times> ext_event list \<times> js_ext" where
  "Js_OnDisconnectAsync Sc callbackInfo x =
     (case Js_CallOnDisconnect Sc True x of (result, evs, x) \<Rightarrow>
        if \<not> CheckPromise Sc result then (False, evs, x)
        else case CallPromise Sc (the result) (Wait_disconnect callbackInfo) x of (callResult, x) \<Rightarrow> (callResult, evs, x))"

text \<open>The callback is called and deleted.\<close>

definition finish :: "nat \<Rightarrow> nat list \<Rightarrow> nat list res" where
  "finish i live = (if i \<in> set live then Inr (removeAll i live) else Inl Use_after_free)"

definition OnConnectPromiseCallback :: "'v script \<Rightarrow> nat \<Rightarrow> 'v option \<Rightarrow> js_ext \<Rightarrow> (ext_event list \<times> js_ext) res" where
  "OnConnectPromiseCallback Sc callbackInfo v x =
     bindE (finish callbackInfo (jx_live x)) (\<lambda>live.
       Inr ([Connect_answered callbackInfo (case v of None \<Rightarrow> None | Some a \<Rightarrow> sc_remote Sc (Some a))], x\<lparr>jx_live := live\<rparr>))"

definition PromiseCallback :: "nat \<Rightarrow> js_ext \<Rightarrow> (ext_event list \<times> js_ext) res" where
  "PromiseCallback callbackInfo x =
     bindE (finish callbackInfo (jx_live x)) (\<lambda>live. Inr ([Disconnect_answered callbackInfo], x\<lparr>jx_live := live\<rparr>))"

text \<open>The engine calls a registered function; \<open>v\<close> is its argument.\<close>

definition RunHandler :: "'v script \<Rightarrow> handler \<Rightarrow> 'v option \<Rightarrow> js_ext \<Rightarrow> (ext_event list \<times> js_ext) res" where
  "RunHandler Sc h v x =
     (case h of Wait_connect i \<Rightarrow> OnConnectPromiseCallback Sc i v x | Wait_disconnect i \<Rightarrow> PromiseCallback i x)"

text \<open>The texts of the array that onDump returns, up to the first that is not one.\<close>

fun texts_of :: "'v script \<Rightarrow> 'v list \<Rightarrow> string list" where
  "texts_of Sc [] = []"
| "texts_of Sc (v # vs) = (case sc_text Sc v of None \<Rightarrow> [] | Some t \<Rightarrow> t # texts_of Sc vs)"

definition Js_Dump :: "'v script \<Rightarrow> js_ext \<Rightarrow> string list \<times> ext_event list \<times> js_ext" where
  "Js_Dump Sc x =
     (case CallObjectMethod Sc ''onDump'' x of (dumpInfo, evs, x) \<Rightarrow>
        (case dumpInfo of None \<Rightarrow> [] | Some v \<Rightarrow> (case sc_array Sc v of None \<Rightarrow> [] | Some vs \<Rightarrow> texts_of Sc vs), evs, x))"

text \<open>Steps: calls of the ability runtime, and promises of the script that are resolved or rejected.\<close>

datatype 'v ext_op = Ext_start | Ext_stop | Ext_connect | Ext_disconnect | Ext_resolve nat "'v option" | Ext_reject nat

definition drop_nth :: "nat \<Rightarrow> 'a list \<Rightarrow> 'a list" where
  "drop_nth n xs = take n xs @ drop (Suc n) xs"

fun js_ext_step :: "'v script \<Rightarrow> 'v ext_op \<Rightarrow> js_ext \<Rightarrow> (ext_event list \<times> js_ext) res" where
  "js_ext_step Sc Ext_start x = Inr (Js_OnStart Sc x)"
| "js_ext_step Sc Ext_stop x = Inr (Js_OnStop Sc x)"
| "js_ext_step Sc Ext_connect x =
     (let i = jx_next x; x = x\<lparr>jx_live := i # jx_live x, jx_next := Suc i\<rparr> in
      case Js_OnConnectAsync Sc i x of (remote, isAsync, evs, x) \<Rightarrow>
        if isAsync then Inr (evs, x)
        else bindE (finish i (jx_live x)) (\<lambda>live. Inr (evs @ [Connect_answered i remote], x\<lparr>jx_live := live\<rparr>)))"
| "js_ext_step Sc Ext_disconnect x =
     (let i = jx_next x; x = x\<lparr>jx_live := i # jx_live x, jx_next := Suc i\<rparr> in
      case Js_OnDisconnectAsync Sc i x of (isAsync, evs, x) \<Rightarrow>
        if isAsync then Inr (evs, x)
        else bindE (finish i (jx_live x)) (\<lambda>live. Inr (evs @ [Disconnect_answered i], x\<lparr>jx_live := live\<rparr>)))"
| "js_ext_step Sc (Ext_resolve n v) x =
     (if length (jx_waiting x) \<le> n then Inr ([], x)
      else
        RunHandler Sc (fst (jx_waiting x ! n)) v (x\<lparr>jx_waiting := drop_nth n (jx_waiting x)\<rparr>))"
| "js_ext_step Sc (Ext_reject n) x =
     (if length (jx_waiting x) \<le> n then Inr ([], x)
      else
        let x' = x\<lparr>jx_waiting := drop_nth n (jx_waiting x)\<rparr> in
        case snd (jx_waiting x ! n) of None \<Rightarrow> Inr ([], x') | Some h \<Rightarrow> RunHandler Sc h None x')"

fun js_ext_run :: "'v script \<Rightarrow> 'v ext_op list \<Rightarrow> js_ext \<Rightarrow> (ext_event list \<times> js_ext) res" where
  "js_ext_run Sc [] x = Inr ([], x)"
| "js_ext_run Sc (op # ops) x =
     bindE (js_ext_step Sc op x) (\<lambda>(evs, x). bindE (js_ext_run Sc ops x) (\<lambda>(evs', x). Inr (evs @ evs', x)))"

section \<open>The static language\<close>

text \<open>
  The object of the script, native/src/ani_driver_extension.cpp, and the functions of its base class in
  ets/@ohos.app.ability.DriverExtensionAbility.ets. \<open>env\<close>, \<open>set_ok\<close> and \<open>get_ok\<close>: the engine gives an
  environment, lets the record of the callback be stored in the object before the call, and lets the flag
  be read from the object after it. A null object is dereferenced when the script was not loaded.
\<close>

record ani_ext =
  ay_loaded :: bool
  ay_calls :: nat
  ay_isOnConnectAsync :: bool
  ay_isOnDisconnectAsync :: bool
  ay_live :: "nat list"
  ay_next :: nat

definition new_ani_ext :: ani_ext where
  "new_ani_ext = \<lparr>ay_loaded = False, ay_calls = 0, ay_isOnConnectAsync = True, ay_isOnDisconnectAsync = True, ay_live = [], ay_next = 0\<rparr>"

definition Ani_Init :: "'v script \<Rightarrow> ability_info option \<Rightarrow> ani_ext \<Rightarrow> ani_ext" where
  "Ani_Init Sc info y =
     (case Ani_SrcPath info of None \<Rightarrow> y | Some srcPath \<Rightarrow> y\<lparr>ay_loaded := sc_load Sc srcPath\<rparr>)"

text \<open>Object_CallMethodByName; None where the method throws or is not there.\<close>

definition ani_call :: "'v script \<Rightarrow> string \<Rightarrow> ani_ext \<Rightarrow> ('v option \<times> ext_event list \<times> ani_ext) res" where
  "ani_call Sc name y =
     (if \<not> ay_loaded y then Inl Null_deref
      else if \<not> sc_function Sc name then Inr (None, [], y)
      else Inr (sc_call Sc (ay_calls y) name, [Script_called name], y\<lparr>ay_calls := Suc (ay_calls y)\<rparr>))"

definition Ani_OnStart :: "'v script \<Rightarrow> bool \<Rightarrow> ani_ext \<Rightarrow> (ext_event list \<times> ani_ext) res" where
  "Ani_OnStart Sc env y =
     (if \<not> env then Inr ([], y) else bindE (ani_call Sc ''onInit'' y) (\<lambda>(result, evs, y). Inr (evs, y)))"

definition Ani_OnStop :: "'v script \<Rightarrow> bool \<Rightarrow> ani_ext \<Rightarrow> (ext_event list \<times> ani_ext) res" where
  "Ani_OnStop Sc env y =
     (if \<not> env then Inr ([], y) else bindE (ani_call Sc ''onRelease'' y) (\<lambda>(result, evs, y). Inr (evs, y)))"

definition Ani_OnConnect :: "'v script \<Rightarrow> bool \<Rightarrow> ani_ext \<Rightarrow> (nat option \<times> ext_event list \<times> ani_ext) res" where
  "Ani_OnConnect Sc env y =
     (if \<not> env then Inr (None, [], y)
      else bindE (ani_call Sc ''onConnect'' y) (\<lambda>(result, evs, y).
        Inr (case result of None \<Rightarrow> None | Some v \<Rightarrow> sc_remote Sc (Some v), evs, y)))"

text \<open>callOnConnect and callOnDisConnect wait for a promise; a rejected one is an exception.\<close>

definition callOnConnect :: "'v script \<Rightarrow> ani_ext \<Rightarrow> ('v option \<times> ext_event list \<times> ani_ext) res" where
  "callOnConnect Sc y =
     bindE (ani_call Sc ''onConnect'' y) (\<lambda>(p, evs, y).
       case p of None \<Rightarrow> Inr (None, evs, y)
       | Some v \<Rightarrow>
           if sc_promise Sc v then Inr (sc_await Sc v, evs, y\<lparr>ay_isOnConnectAsync := True\<rparr>)
           else Inr (Some v, evs, y\<lparr>ay_isOnConnectAsync := False\<rparr>))"

definition callOnDisConnect :: "'v script \<Rightarrow> ani_ext \<Rightarrow> (bool \<times> ext_event list \<times> ani_ext) res" where
  "callOnDisConnect Sc y =
     bindE (ani_call Sc ''onDisconnect'' y) (\<lambda>(p, evs, y).
       case p of None \<Rightarrow> Inr (False, evs, y)
       | Some v \<Rightarrow>
           if sc_promise Sc v then Inr (sc_await Sc v \<noteq> None, evs, y\<lparr>ay_isOnDisconnectAsync := True\<rparr>)
           else Inr (True, evs, y\<lparr>ay_isOnDisconnectAsync := False\<rparr>))"

definition Ani_OnConnectAsync ::
  "'v script \<Rightarrow> bool \<Rightarrow> bool \<Rightarrow> bool \<Rightarrow> nat option \<Rightarrow> ani_ext \<Rightarrow> (nat option \<times> bool \<times> ext_event list \<times> ani_ext) res" where
  "Ani_OnConnectAsync Sc env set_ok get_ok callbackInfo y =
     (case callbackInfo of None \<Rightarrow> bindE (Ani_OnConnect Sc env y) (\<lambda>(remote, evs, y). Inr (remote, False, evs, y))
      | Some i \<Rightarrow>
          if \<not> env then Inr (None, False, [], y)
          else if \<not> ay_loaded y then Inl Null_deref
          else if \<not> set_ok then Inr (None, False, [], y)
          else bindE (callOnConnect Sc y) (\<lambda>(result, evs, y).
            case result of None \<Rightarrow> Inr (None, False, evs, y)
            | Some v \<Rightarrow>
                (case sc_remote Sc (Some v) of None \<Rightarrow> Inr (None, False, evs, y)
                 | Some r \<Rightarrow>
                     if \<not> get_ok then Inr (None, False, evs, y)
                     else if ay_isOnConnectAsync y then
                       bindE (finish i (ay_live y)) (\<lambda>live.
                         Inr (None, True, evs @ [Connect_answered i (Some r)], y\<lparr>ay_live := live\<rparr>))
                     else Inr (Some r, False, evs, y))))"

definition Ani_OnDisconnect :: "'v script \<Rightarrow> bool \<Rightarrow> ani_ext \<Rightarrow> (ext_event list \<times> ani_ext) res" where
  "Ani_OnDisconnect Sc env y =
     (if \<not> env then Inr ([], y) else bindE (callOnDisConnect Sc y) (\<lambda>(ok, evs, y). Inr (evs, y)))"

definition Ani_OnDisconnectAsync ::
  "'v script \<Rightarrow> bool \<Rightarrow> bool \<Rightarrow> bool \<Rightarrow> nat option \<Rightarrow> ani_ext \<Rightarrow> (bool \<times> ext_event list \<times> ani_ext) res" where
  "Ani_OnDisconnectAsync Sc env set_ok get_ok callbackInfo y =
     (case callbackInfo of None \<Rightarrow> bindE (Ani_OnDisconnect Sc env y) (\<lambda>(evs, y). Inr (False, evs, y))
      | Some i \<Rightarrow>
          if \<not> env then Inr (False, [], y)
          else if \<not> ay_loaded y then Inl Null_deref
          else if \<not> set_ok then Inr (False, [], y)
          else bindE (callOnDisConnect Sc y) (\<lambda>(ok, evs, y).
            if \<not> ok then Inr (False, evs, y)
            else if \<not> get_ok then Inr (False, evs, y)
            else if ay_isOnDisconnectAsync y then
              bindE (finish i (ay_live y)) (\<lambda>live. Inr (True, evs @ [Disconnect_answered i], y\<lparr>ay_live := live\<rparr>))
            else Inr (False, evs, y)))"

text \<open>The ability runtime: a new callback, which it answers itself when the extension has not.\<close>

definition ani_connect :: "'v script \<Rightarrow> bool \<Rightarrow> bool \<Rightarrow> bool \<Rightarrow> ani_ext \<Rightarrow> (ext_event list \<times> ani_ext) res" where
  "ani_connect Sc env set_ok get_ok y =
     (let i = ay_next y; y = y\<lparr>ay_live := i # ay_live y, ay_next := Suc i\<rparr> in
      bindE (Ani_OnConnectAsync Sc env set_ok get_ok (Some i) y) (\<lambda>(remote, isAsync, evs, y).
        if isAsync then Inr (evs, y)
        else bindE (finish i (ay_live y)) (\<lambda>live. Inr (evs @ [Connect_answered i remote], y\<lparr>ay_live := live\<rparr>))))"

definition ani_disconnect :: "'v script \<Rightarrow> bool \<Rightarrow> bool \<Rightarrow> bool \<Rightarrow> ani_ext \<Rightarrow> (ext_event list \<times> ani_ext) res" where
  "ani_disconnect Sc env set_ok get_ok y =
     (let i = ay_next y; y = y\<lparr>ay_live := i # ay_live y, ay_next := Suc i\<rparr> in
      bindE (Ani_OnDisconnectAsync Sc env set_ok get_ok (Some i) y) (\<lambda>(isAsync, evs, y).
        if isAsync then Inr (evs, y)
        else bindE (finish i (ay_live y)) (\<lambda>live. Inr (evs @ [Disconnect_answered i], y\<lparr>ay_live := live\<rparr>))))"

section \<open>The context of the script\<close>

text \<open>
  The weak pointers to the context that the objects of scripts own. \<open>wc_bound\<close> is the one that the engine
  passes on when it hands the context to another thread; \<open>wc_live\<close> those that are not deleted.
\<close>

record work_contexts =
  wc_live :: "nat list"
  wc_bound :: "nat option"
  wc_next :: nat

definition Js_BindContext :: "bool \<Rightarrow> bool \<Rightarrow> bool \<Rightarrow> work_contexts \<Rightarrow> work_contexts" where
  "Js_BindContext context shell wrapped c =
     (if \<not> context then c
      else if \<not> shell then c
      else
        let w = wc_next c; c = c\<lparr>wc_live := w # wc_live c, wc_bound := Some w, wc_next := Suc w\<rparr> in
        if wrapped then c else c\<lparr>wc_live := removeAll w (wc_live c)\<rparr>)"

text \<open>\<open>alive\<close>: the context behind the weak pointer lives. The result tells whether there is an object.\<close>

definition AttachDriverExtensionContext :: "bool \<Rightarrow> bool \<Rightarrow> bool \<Rightarrow> nat option \<Rightarrow> work_contexts \<Rightarrow> (bool \<times> work_contexts) res" where
  "AttachDriverExtensionContext alive shell wrapped v c =
     (case v of None \<Rightarrow> Inr (False, c)
      | Some w \<Rightarrow>
          if w \<notin> set (wc_live c) then Inl Use_after_free
          else if \<not> alive then Inr (False, c)
          else if \<not> shell then Inr (False, c)
          else
            let w' = wc_next c; c = c\<lparr>wc_live := w' # wc_live c, wc_next := Suc w'\<rparr> in
            if wrapped then Inr (True, c) else Inr (False, c\<lparr>wc_live := removeAll w' (wc_live c)\<rparr>))"

end
