(* ===== verification/Driver_Ability_Claims.thy ===== *)
theory Driver_Ability_Claims
  imports Driver_Ability
begin

text \<open>
  Every connection of a driver extension gets its answer: when and how often, and the same one from the
  extensions of both languages; and what happens when a promise is rejected, a path has no extension
  or a script was not loaded.
\<close>

section \<open>Counting answers\<close>

fun wait_id :: "waiting \<Rightarrow> nat" where
  "wait_id (Wait_connect i, _) = i"
| "wait_id (Wait_disconnect i, _) = i"

fun answers_of :: "nat \<Rightarrow> ext_event list \<Rightarrow> nat" where
  "answers_of i [] = 0"
| "answers_of i (Connect_answered j _ # evs) = (if j = i then 1 else 0) + answers_of i evs"
| "answers_of i (Disconnect_answered j # evs) = (if j = i then 1 else 0) + answers_of i evs"
| "answers_of i (Script_called _ # evs) = answers_of i evs"

lemma answers_of_append [simp]: "answers_of i (evs @ evs') = answers_of i evs + answers_of i evs'"
  by (induction i evs rule: answers_of.induct) simp_all

text \<open>Callbacks in waiting are not deleted and wait once, for a value only; numbers are new.\<close>

definition ext_ok :: "js_ext \<Rightarrow> bool" where
  "ext_ok x \<longleftrightarrow> distinct (map wait_id (jx_waiting x)) \<and> wait_id ` set (jx_waiting x) \<subseteq> set (jx_live x)
     \<and> (\<forall>w\<in>set (jx_waiting x). snd w = None) \<and> (\<forall>i\<in>set (jx_live x). i < jx_next x)"

definition closed_callback :: "js_ext \<Rightarrow> nat \<Rightarrow> bool" where
  "closed_callback x i \<longleftrightarrow> i < jx_next x \<and> i \<notin> set (jx_live x)"

text \<open>A callback that is not deleted and that no promise will answer.\<close>

definition abandoned :: "js_ext \<Rightarrow> nat \<Rightarrow> bool" where
  "abandoned x i \<longleftrightarrow> i \<in> set (jx_live x) \<and> i \<notin> wait_id ` set (jx_waiting x)"

fun is_reject :: "'v ext_op \<Rightarrow> bool" where
  "is_reject (Ext_reject _) \<longleftrightarrow> True"
| "is_reject _ \<longleftrightarrow> False"

text \<open>
  What a step does: an answer for each callback that it closes and for no other. \<open>lossy\<close>: a promise may be
  rejected, or may not have registered the function.
\<close>

definition ext_steps :: "bool \<Rightarrow> js_ext \<Rightarrow> ext_event list \<Rightarrow> js_ext \<Rightarrow> bool" where
  "ext_steps lossy x evs x' \<longleftrightarrow> ext_ok x' \<and>
     (\<forall>i. answers_of i evs + of_bool (closed_callback x i) = of_bool (closed_callback x' i)) \<and>
     (\<forall>i. abandoned x i \<longrightarrow> abandoned x' i) \<and>
     (\<not> lossy \<longrightarrow> set (jx_live x) \<subseteq> wait_id ` set (jx_waiting x) \<longrightarrow> set (jx_live x') \<subseteq> wait_id ` set (jx_waiting x'))"

lemma called_same:
  "CallObjectMethod Sc name x = (r, evs, x') \<Longrightarrow>
   jx_waiting x' = jx_waiting x \<and> jx_live x' = jx_live x \<and> jx_next x' = jx_next x \<and> (\<forall>i. answers_of i evs = 0)"
  by (auto simp: CallObjectMethod_def split: if_splits)

lemma called_steps:
  assumes "ext_ok x" and "CallObjectMethod Sc name x = (r, evs, x')"
  shows "ext_steps lossy x evs x'"
  using assms(1) called_same [OF assms(2)] by (simp add: ext_steps_def ext_ok_def closed_callback_def abandoned_def)

text \<open>A new callback that is closed at once, or waits.\<close>

lemma closed_at_once:
  assumes "ext_ok x" and "jx_waiting x' = jx_waiting x" and "jx_live x' = removeAll (jx_next x) (jx_next x # jx_live x)"
    and "jx_next x' = Suc (jx_next x)" and "\<And>i. answers_of i evs = of_bool (i = jx_next x)"
  shows "ext_steps lossy x evs x'"
proof -
  have live: "set (jx_live x') = set (jx_live x)" using assms(1,3) by (auto simp: ext_ok_def)
  show ?thesis using assms(1,2,4,5) unfolding ext_steps_def ext_ok_def closed_callback_def abandoned_def live
    by (auto simp: less_Suc_eq)
qed

lemma waits:
  assumes "ext_ok x" and "jx_waiting x' = jx_waiting x @ [w]" and "wait_id w = jx_next x" and "snd w = None" and "jx_live x' = jx_next x # jx_live x"
    and "jx_next x' = Suc (jx_next x)" and "\<And>i. answers_of i evs = 0"
  shows "ext_steps lossy x evs x'"
proof -
  have "jx_next x \<notin> wait_id ` set (jx_waiting x)" using assms(1) by (auto simp: ext_ok_def)
  then show ?thesis using assms unfolding ext_steps_def ext_ok_def closed_callback_def abandoned_def
    by (auto simp: less_Suc_eq)
qed

lemma lost:
  assumes "ext_ok x" and "jx_waiting x' = jx_waiting x" and "jx_live x' = jx_next x # jx_live x"
    and "jx_next x' = Suc (jx_next x)" and "\<And>i. answers_of i evs = 0"
  shows "ext_steps True x evs x'" and "abandoned x' (jx_next x)"
proof -
  have "jx_next x \<notin> wait_id ` set (jx_waiting x)" using assms(1) by (auto simp: ext_ok_def)
  then show "ext_steps True x evs x'" and "abandoned x' (jx_next x)"
    using assms unfolding ext_steps_def ext_ok_def closed_callback_def abandoned_def by (auto simp: less_Suc_eq)
qed

lemma connect_steps:
  assumes x: "ext_ok x" and lossy: "lossy \<or> (\<forall>v. sc_registers Sc v)"
  shows "\<exists>evs x'. js_ext_step Sc Ext_connect x = Inr (evs, x') \<and> ext_steps lossy x evs x'"
proof -
  let ?i = "jx_next x" and ?x = "x\<lparr>jx_live := jx_next x # jx_live x, jx_next := Suc (jx_next x)\<rparr>"
  obtain result evs x1 where c: "CallObjectMethod Sc ''onConnect'' ?x = (result, evs, x1)" by (cases "CallObjectMethod Sc ''onConnect'' ?x")
  note same = called_same [OF c]
  show ?thesis
  proof (cases "CheckPromise Sc result \<and> sc_then Sc (the result)")
    case True
    have wait: "ext_steps lossy x evs (x1\<lparr>jx_waiting := jx_waiting x1 @ [(Wait_connect ?i, None)]\<rparr>)"
      by (rule waits [OF x]) (use same in auto)
    have lose: "ext_steps lossy x evs x1" if "\<not> sc_registers Sc (the result)"
      using lost(1) [OF x, of x1 evs] same lossy that by (cases lossy) auto
    show ?thesis using c True wait lose
      by (cases "sc_registers Sc (the result)") (simp_all add: Let_def Js_OnConnectAsync_def Js_CallOnConnect_def CallPromise_def)
  next
    case False
    have "ext_steps lossy x (evs @ [Connect_answered ?i remote]) (x1\<lparr>jx_live := removeAll ?i (jx_live x1)\<rparr>)" for remote
      by (rule closed_at_once [OF x]) (use same in auto)
    then show ?thesis using c False same
      by (auto simp: Let_def Js_OnConnectAsync_def Js_CallOnConnect_def CallPromise_def finish_def)
  qed
qed

lemma disconnect_steps:
  assumes x: "ext_ok x" and lossy: "lossy \<or> (\<forall>v. sc_registers Sc v)"
  shows "\<exists>evs x'. js_ext_step Sc Ext_disconnect x = Inr (evs, x') \<and> ext_steps lossy x evs x'"
proof -
  let ?i = "jx_next x" and ?x = "x\<lparr>jx_live := jx_next x # jx_live x, jx_next := Suc (jx_next x)\<rparr>"
  obtain result evs x1 where c: "CallObjectMethod Sc ''onDisconnect'' ?x = (result, evs, x1)" by (cases "CallObjectMethod Sc ''onDisconnect'' ?x")
  note same = called_same [OF c]
  show ?thesis
  proof (cases "CheckPromise Sc result \<and> sc_then Sc (the result)")
    case True
    have wait: "ext_steps lossy x evs (x1\<lparr>jx_waiting := jx_waiting x1 @ [(Wait_disconnect ?i, None)]\<rparr>)"
      by (rule waits [OF x]) (use same in auto)
    have lose: "ext_steps lossy x evs x1" if "\<not> sc_registers Sc (the result)"
      using lost(1) [OF x, of x1 evs] same lossy that by (cases lossy) auto
    show ?thesis using c True wait lose
      by (cases "sc_registers Sc (the result)") (simp_all add: Let_def Js_OnDisconnectAsync_def Js_CallOnDisconnect_def CallPromise_def)
  next
    case False
    have "ext_steps lossy x (evs @ [Disconnect_answered ?i]) (x1\<lparr>jx_live := removeAll ?i (jx_live x1)\<rparr>)"
      by (rule closed_at_once [OF x]) (use same in auto)
    then show ?thesis using c False same
      by (auto simp: Let_def Js_OnDisconnectAsync_def Js_CallOnDisconnect_def CallPromise_def finish_def)
  qed
qed

lemma drop_nth_split:
  assumes "n < length xs"
  obtains as bs where "xs = as @ xs ! n # bs" and "drop_nth n xs = as @ bs"
  using id_take_nth_drop [OF assms] that by (simp add: drop_nth_def)

lemma resolve_steps:
  assumes x: "ext_ok x"
  shows "\<exists>evs x'. js_ext_step Sc (Ext_resolve n v) x = Inr (evs, x') \<and> ext_steps lossy x evs x'"
proof (cases "n < length (jx_waiting x)")
  case False
  then show ?thesis using x by (simp add: ext_steps_def)
next
  case True
  obtain as bs where s: "jx_waiting x = as @ jx_waiting x ! n # bs" "drop_nth n (jx_waiting x) = as @ bs"
    using drop_nth_split [OF True] .
  let ?w = "jx_waiting x ! n" and ?i = "wait_id (jx_waiting x ! n)"
  let ?x = "x\<lparr>jx_waiting := as @ bs, jx_live := removeAll ?i (jx_live x)\<rparr>"
  have "?w \<in> set (jx_waiting x)" using True by simp
  then have mem: "?i \<in> set (jx_live x)" using x unfolding ext_ok_def by blast
  then have lt: "?i < jx_next x" using x unfolding ext_ok_def by blast
  have none: "\<forall>w\<in>set (as @ bs). snd w = None" using x unfolding ext_ok_def by (metis Un_iff list.set_intros(2) s(1) set_append)
  have ids: "map wait_id (jx_waiting x) = map wait_id as @ ?i # map wait_id bs" by (subst s(1)) simp
  then have "distinct (map wait_id as @ ?i # map wait_id bs)" using x by (simp add: ext_ok_def)
  then have d: "distinct (map wait_id (as @ bs))" "?i \<notin> wait_id ` set (as @ bs)" by auto
  have w: "wait_id ` set (jx_waiting x) = insert ?i (wait_id ` set (as @ bs))" by (subst s(1)) auto
  have sub: "wait_id ` set (as @ bs) \<subseteq> set (jx_live x) - {?i}"
    using x d(2) unfolding ext_ok_def w by blast
  have ok: "ext_ok ?x" using x d(1) sub none by (simp add: ext_ok_def del: set_append)
  have same: "closed_callback ?x j \<longleftrightarrow> closed_callback x j \<or> j = ?i" for j using lt by (auto simp: closed_callback_def)
  have new: "\<not> closed_callback x ?i" using mem by (simp add: closed_callback_def)
  have rest: "set (jx_live x) \<subseteq> wait_id ` set (jx_waiting x) \<Longrightarrow> set (jx_live ?x) \<subseteq> wait_id ` set (jx_waiting ?x)"
    unfolding w by auto
  have left: "abandoned x j \<Longrightarrow> abandoned ?x j" for j unfolding abandoned_def w by auto
  have "ext_steps lossy x evs ?x" if "\<And>j. answers_of j evs = of_bool (j = ?i)" for evs
    unfolding ext_steps_def same that using ok rest new left by auto
  then show ?thesis
    using True s(2) mem
    by (cases ?w rule: wait_id.cases) (auto simp: RunHandler_def OnConnectPromiseCallback_def PromiseCallback_def finish_def)
qed

lemma js_ext_step_ok:
  assumes x: "ext_ok x"
  shows "\<exists>evs x'. js_ext_step Sc op x = Inr (evs, x') \<and> ext_steps (is_reject op \<or> (\<exists>v. \<not> sc_registers Sc v)) x evs x'"
proof (cases op)
  case Ext_start
  then show ?thesis using called_steps [OF x, of Sc "''onInit''"]
    by (cases "CallObjectMethod Sc ''onInit'' x") (simp add: Js_OnStart_def)
next
  case Ext_stop
  then show ?thesis using called_steps [OF x, of Sc "''onRelease''"]
    by (cases "CallObjectMethod Sc ''onRelease'' x") (simp add: Js_OnStop_def)
next
  case Ext_connect
  then show ?thesis using connect_steps [OF x, of "\<exists>v. \<not> sc_registers Sc v" Sc] by auto
next
  case Ext_disconnect
  then show ?thesis using disconnect_steps [OF x, of "\<exists>v. \<not> sc_registers Sc v" Sc] by auto
next
  case (Ext_resolve n v)
  then show ?thesis using resolve_steps [OF x] by blast
next
  case (Ext_reject n)
  let ?x = "x\<lparr>jx_waiting := drop_nth n (jx_waiting x)\<rparr>"
  have "set (drop_nth n (jx_waiting x)) \<subseteq> set (jx_waiting x)"
    using set_take_subset [of n] set_drop_subset [of "Suc n"] by (fastforce simp: drop_nth_def)
  moreover have "distinct (map wait_id (drop_nth n (jx_waiting x)))"
  proof (cases "n < length (jx_waiting x)")
    case True
    obtain as bs where s: "jx_waiting x = as @ jx_waiting x ! n # bs" "drop_nth n (jx_waiting x) = as @ bs"
      using drop_nth_split [OF True] .
    have "distinct (map wait_id (as @ jx_waiting x ! n # bs))" using x s(1) by (simp add: ext_ok_def)
    then show ?thesis by (simp add: s(2))
  qed (use x in \<open>simp add: ext_ok_def drop_nth_def\<close>)
  ultimately have "ext_ok ?x" and "\<forall>i. abandoned x i \<longrightarrow> abandoned ?x i" using x by (auto simp: ext_ok_def abandoned_def)
  then have "ext_steps True x [] ?x" by (simp add: ext_steps_def closed_callback_def)
  moreover have "ext_steps True x [] x" using x by (simp add: ext_steps_def)
  moreover have "snd (jx_waiting x ! n) = None" if "n < length (jx_waiting x)" using x that by (simp add: ext_ok_def)
  ultimately show ?thesis using Ext_reject by (simp add: Let_def)
qed

lemma js_ext_run_ok:
  "ext_ok x \<Longrightarrow> \<exists>evs x'. js_ext_run Sc ops x = Inr (evs, x') \<and> ext_steps (list_ex is_reject ops \<or> (\<exists>v. \<not> sc_registers Sc v)) x evs x'"
proof (induction ops arbitrary: x)
  case Nil
  then show ?case by (simp add: ext_steps_def)
next
  case (Cons op ops)
  obtain evs x1 where st: "js_ext_step Sc op x = Inr (evs, x1)" "ext_steps (is_reject op \<or> (\<exists>v. \<not> sc_registers Sc v)) x evs x1"
    using js_ext_step_ok [OF Cons.prems] by blast
  then have "ext_ok x1" by (simp add: ext_steps_def)
  then obtain evs' x2 where rest: "js_ext_run Sc ops x1 = Inr (evs', x2)" "ext_steps (list_ex is_reject ops \<or> (\<exists>v. \<not> sc_registers Sc v)) x1 evs' x2"
    using Cons.IH by blast
  have count: "answers_of i (evs @ evs') + of_bool (closed_callback x i) = of_bool (closed_callback x2 i)" for i
  proof -
    have "answers_of i evs + of_bool (closed_callback x i) = of_bool (closed_callback x1 i)"
      "answers_of i evs' + of_bool (closed_callback x1 i) = of_bool (closed_callback x2 i)"
      using st(2) rest(2) by (simp_all add: ext_steps_def)
    then show ?thesis by simp
  qed
  have "ext_steps (list_ex is_reject (op # ops) \<or> (\<exists>v. \<not> sc_registers Sc v)) x (evs @ evs') x2"
    using st(2) rest(2) count unfolding ext_steps_def by simp
  then show ?case using st(1) rest(1) by auto
qed

text \<open>A callback that no promise will answer stays so.\<close>

lemma never_answered:
  assumes "ext_ok x" and "abandoned x i"
  obtains evs x' where "js_ext_run Sc ops x = Inr (evs, x')" and "answers_of i evs = 0" and "i \<in> set (jx_live x')"
proof -
  obtain evs x' where r: "js_ext_run Sc ops x = Inr (evs, x')"
    "ext_steps (list_ex is_reject ops \<or> (\<exists>v. \<not> sc_registers Sc v)) x evs x'"
    using js_ext_run_ok [OF assms(1)] by blast
  have left: "abandoned x' i" using r(2) assms(2) by (simp add: ext_steps_def)
  then have "answers_of i evs = 0" using r(2) by (auto simp: ext_steps_def abandoned_def closed_callback_def dest: spec [of _ i])
  then show ?thesis using that r(1) left by (simp add: abandoned_def)
qed

section \<open>The answer of the two languages\<close>

lemma ani_connect_eq:
  assumes "ay_loaded y" and "sc_function Sc ''onConnect''"
  shows "ani_connect Sc True True True y =
    (let p = sc_call Sc (ay_calls y) ''onConnect'';
         v = (case p of None \<Rightarrow> None | Some w \<Rightarrow> if sc_promise Sc w then sc_await Sc w else Some w) in
     Inr ([Script_called ''onConnect'', Connect_answered (ay_next y) (case v of None \<Rightarrow> None | Some w \<Rightarrow> sc_remote Sc (Some w))],
          y\<lparr>ay_calls := Suc (ay_calls y), ay_next := Suc (ay_next y), ay_live := removeAll (ay_next y) (ay_live y),
            ay_isOnConnectAsync := (case p of None \<Rightarrow> ay_isOnConnectAsync y | Some w \<Rightarrow> sc_promise Sc w)\<rparr>))"
  using assms
  by (simp add: ani_connect_def Ani_OnConnectAsync_def callOnConnect_def ani_call_def finish_def Let_def split: option.splits)

text \<open>The promise that onConnect returns is resolved with the value that it has.\<close>

definition settled_by :: "'v script \<Rightarrow> js_ext \<Rightarrow> 'v ext_op list" where
  "settled_by Sc x =
     (case sc_call Sc (jx_calls x) ''onConnect'' of None \<Rightarrow> []
      | Some w \<Rightarrow> if sc_promise Sc w then [Ext_resolve (length (jx_waiting x)) (sc_await Sc w)] else [])"

lemma js_connect_eq:
  assumes "jx_loaded x" and "sc_function Sc ''onConnect''" and "sc_call Sc (jx_calls x) ''onConnect'' = p"
    and "\<And>w. p = Some w \<Longrightarrow> sc_promise Sc w \<Longrightarrow> sc_then Sc w \<and> sc_registers Sc w"
  shows "\<exists>x'. js_ext_run Sc (Ext_connect # settled_by Sc x) x =
     Inr ([Script_called ''onConnect'', Connect_answered (jx_next x)
       (case p of Some w \<Rightarrow> if sc_promise Sc w then (case sc_await Sc w of None \<Rightarrow> None | Some u \<Rightarrow> sc_remote Sc (Some u))
          else sc_remote Sc (Some w) | None \<Rightarrow> sc_remote Sc None)], x')"
proof (cases p)
  case None
  then show ?thesis using assms
    by (simp add: settled_by_def Let_def Js_OnConnectAsync_def Js_CallOnConnect_def CallObjectMethod_def CheckPromise_def finish_def)
next
  case (Some w)
  then show ?thesis using assms
    by (cases "sc_promise Sc w")
      (simp_all add: settled_by_def Let_def Js_OnConnectAsync_def Js_CallOnConnect_def CallObjectMethod_def CheckPromise_def
        CallPromise_def RunHandler_def OnConnectPromiseCallback_def drop_nth_def finish_def)
qed

section \<open>Paths, missing scripts, contexts\<close>

lemma rfind_none: "c \<notin> set s \<Longrightarrow> rfind_char c s = None"
  by (induction s) auto

lemma rfind_last: "c \<notin> set e \<Longrightarrow> rfind_char c (b @ c # e) = Some (length b)"
  by (induction b) (simp_all add: rfind_none)

text \<open>A path without an extension makes the extension of the dynamic language throw; that of the static one uses it as it is.\<close>

lemma path_without_extension:
  assumes "ai_isModuleJson a" and "ai_srcEntrance a \<noteq> []" and "CHR ''.'' \<notin> set (ai_moduleName a @ ai_srcEntrance a)"
  shows "GetSrcPath a = None" and "Ani_SrcPath (Some a) = Some (ai_moduleName a @ ''/'' @ ai_srcEntrance a)"
  using assms by (simp_all add: GetSrcPath_def Ani_SrcPath_def rfind_none)

text \<open>A script that could not be loaded is called all the same.\<close>

lemma missing_script_called:
  "\<not> sc_load Sc p \<Longrightarrow> Ani_SrcPath info = Some p \<Longrightarrow> Ani_OnStart Sc True (Ani_Init Sc info new_ani_ext) = Inl Null_deref"
  by (simp add: Ani_OnStart_def Ani_Init_def ani_call_def)

text \<open>The engine keeps the pointer that was deleted because wrapping it failed.\<close>

lemma unwrapped_context_used:
  "wc_next c \<notin> set (wc_live c) \<Longrightarrow>
   (let c = Js_BindContext True True False c in AttachDriverExtensionContext alive shell wrapped (wc_bound c) c) = Inl Use_after_free"
  by (simp add: Js_BindContext_def AttachDriverExtensionContext_def Let_def)

section \<open>The properties\<close>

text \<open>
  C38: whatever the script does, every callback of the ability runtime is answered at most once, and one
  without an answer is not deleted. If no promise is rejected and the property \<open>then\<close> of every promise
  registers the function it is given, a callback without an answer is one that a promise will answer.
  A registered function is called at most once, as the engine does for a promise.
\<close>

theorem every_callback_answered_once:
  assumes "Js_Init Sc a new_js_ext = Some x"
  shows "\<exists>evs x'. js_ext_run Sc ops x = Inr (evs, x')
    \<and> (\<forall>i. answers_of i evs = (if i < jx_next x' \<and> i \<notin> set (jx_live x') then 1 else 0))
    \<and> ((\<forall>v. sc_registers Sc v) \<and> \<not> list_ex is_reject ops \<longrightarrow> set (jx_live x') \<subseteq> wait_id ` set (jx_waiting x'))"
proof -
  have x: "jx_waiting x = []" "jx_live x = []" "jx_next x = 0"
    using assms by (auto simp: Js_Init_def new_js_ext_def split: option.splits if_splits)
  then have "ext_ok x" by (simp add: ext_ok_def)
  then obtain evs x' where r: "js_ext_run Sc ops x = Inr (evs, x')" "ext_steps (list_ex is_reject ops \<or> (\<exists>v. \<not> sc_registers Sc v)) x evs x'"
    using js_ext_run_ok by blast
  have "\<not> closed_callback x i" for i using x by (simp add: closed_callback_def)
  then have "answers_of i evs = of_bool (closed_callback x' i)" for i using r(2) by (simp add: ext_steps_def)
  then show ?thesis using r x by (auto simp: closed_callback_def ext_steps_def of_bool_def)
qed

text \<open>A script whose functions return numbers; 0 is a promise of the number 5; the n-th call of a connection throws when n is 3.\<close>

definition a_script :: "nat script" where
  "a_script = \<lparr>sc_load = (\<lambda>path. path = ''entry/ets/Driver.abc''), sc_function = (\<lambda>name. name \<noteq> ''onDump''),
     sc_call = (\<lambda>n name. if n = 3 then None else Some (if name = ''onConnect'' \<and> n = 1 then 0 else 9)),
     sc_promise = (\<lambda>v. v = 0), sc_then = (\<lambda>v. True), sc_registers = (\<lambda>v. True), sc_await = (\<lambda>v. Some 5), sc_remote = (\<lambda>v. v),
     sc_array = (\<lambda>v. None), sc_text = (\<lambda>v. None)\<rparr>"

definition an_ability_info :: ability_info where
  "an_ability_info = \<lparr>ai_moduleName = ''entry'', ai_name = ''Driver'', ai_package = [], ai_srcPath = [],
     ai_srcEntrance = ''ets/Driver.ets'', ai_isModuleJson = True\<rparr>"

definition loaded_ext :: js_ext where
  "loaded_ext = new_js_ext\<lparr>jx_loaded := True\<rparr>"

lemma loaded_ext_ok: "Js_Init a_script an_ability_info new_js_ext = Some loaded_ext"
  by code_simp

corollary every_callback_answered_once_witness:
  "\<exists>evs x'. js_ext_run a_script [Ext_start, Ext_connect, Ext_disconnect, Ext_resolve 0 (Some 5), Ext_connect] loaded_ext = Inr (evs, x')
    \<and> (\<forall>i. answers_of i evs = (if i < jx_next x' \<and> i \<notin> set (jx_live x') then 1 else 0))"
  using every_callback_answered_once [OF loaded_ext_ok, of "[Ext_start, Ext_connect, Ext_disconnect, Ext_resolve 0 (Some 5), Ext_connect]"]
  by blast

text \<open>
  C40: in any sound state (ext_ok, which every run keeps), with any other callbacks in waiting, let
  onConnect return a promise whose \<open>then\<close> registers the function. If the promise is resolved next, the callback of the connection is answered once. If it is
  rejected instead, no later run of calls and promises answers the callback, and it is never deleted:
  only a function for the value is registered.
\<close>

theorem rejected_connection_never_answered:
  assumes "ext_ok x" and "jx_loaded x" and "sc_function Sc ''onConnect''" and "sc_call Sc (jx_calls x) ''onConnect'' = Some w"
    and "sc_promise Sc w" and "sc_then Sc w" and "sc_registers Sc w"
  shows "(\<exists>evs x'. js_ext_run Sc [Ext_connect, Ext_resolve (length (jx_waiting x)) v] x = Inr (evs, x') \<and> answers_of (jx_next x) evs = 1)
    \<and> (\<exists>evs x'. js_ext_run Sc (Ext_connect # Ext_reject (length (jx_waiting x)) # ops) x = Inr (evs, x')
         \<and> answers_of (jx_next x) evs = 0 \<and> jx_next x \<in> set (jx_live x'))"
proof -
  let ?i = "jx_next x"
  let ?x = "x\<lparr>jx_calls := Suc (jx_calls x), jx_live := ?i # jx_live x, jx_next := Suc ?i\<rparr>"
  let ?y = "?x\<lparr>jx_waiting := jx_waiting x @ [(Wait_connect ?i, None)]\<rparr>"
  have call: "js_ext_step Sc Ext_connect x = Inr ([Script_called ''onConnect''], ?y)"
    using assms(2-7)
    by (simp add: Let_def Js_OnConnectAsync_def Js_CallOnConnect_def CallObjectMethod_def CheckPromise_def CallPromise_def)
  have resolved: "\<exists>r x'. js_ext_step Sc (Ext_resolve (length (jx_waiting x)) v) ?y = Inr ([Connect_answered ?i r], x')"
    by (simp add: RunHandler_def OnConnectPromiseCallback_def finish_def)
  have rejected: "js_ext_step Sc (Ext_reject (length (jx_waiting x))) ?y = Inr ([], ?x)"
    by (simp add: drop_nth_def)
  have "ext_ok ?x" and "abandoned ?x ?i" using lost [OF assms(1), of ?x "[]"] by (simp_all add: ext_steps_def)
  then obtain evs x' where "js_ext_run Sc ops ?x = Inr (evs, x')" "answers_of ?i evs = 0" "?i \<in> set (jx_live x')"
    by (rule never_answered)
  then show ?thesis using call resolved rejected by (auto simp del: js_ext_step.simps)
qed

corollary rejected_connection_never_answered_witness:
  "\<exists>evs x'. js_ext_run a_script [Ext_connect, Ext_reject 0, Ext_connect, Ext_disconnect, Ext_stop] (loaded_ext\<lparr>jx_calls := 1\<rparr>) = Inr (evs, x')
     \<and> answers_of 0 evs = 0 \<and> 0 \<in> set (jx_live x')"
  using rejected_connection_never_answered [of "loaded_ext\<lparr>jx_calls := 1\<rparr>" a_script 0 None "[Ext_connect, Ext_disconnect, Ext_stop]"]
  by (simp add: ext_ok_def loaded_ext_def new_js_ext_def a_script_def)

text \<open>
  The status of the call of \<open>then\<close> is ignored: when the function is not registered, the extension still says
  that it will answer later, and nothing ever answers the connection.
\<close>

theorem unregistered_connection_never_answered:
  assumes "ext_ok x" and "jx_loaded x" and "sc_function Sc ''onConnect''" and "sc_call Sc (jx_calls x) ''onConnect'' = Some w"
    and "sc_promise Sc w" and "sc_then Sc w" and "\<not> sc_registers Sc w"
  shows "\<exists>evs x'. js_ext_run Sc (Ext_connect # ops) x = Inr (evs, x')
    \<and> answers_of (jx_next x) evs = 0 \<and> jx_next x \<in> set (jx_live x')"
proof -
  let ?i = "jx_next x"
  let ?x = "x\<lparr>jx_calls := Suc (jx_calls x), jx_live := ?i # jx_live x, jx_next := Suc ?i\<rparr>"
  have call: "js_ext_step Sc Ext_connect x = Inr ([Script_called ''onConnect''], ?x)"
    using assms(2-7)
    by (simp add: Let_def Js_OnConnectAsync_def Js_CallOnConnect_def CallObjectMethod_def CheckPromise_def CallPromise_def)
  have "ext_ok ?x" and "abandoned ?x ?i" using lost [OF assms(1), of ?x "[]"] by (simp_all add: ext_steps_def)
  then obtain evs x' where "js_ext_run Sc ops ?x = Inr (evs, x')" "answers_of ?i evs = 0" "?i \<in> set (jx_live x')"
    by (rule never_answered)
  then show ?thesis using call by (auto simp del: js_ext_step.simps)
qed

text \<open>
  C39: the extensions of both languages answer a connection with the same remote object, if the promise
  that the script may return is resolved, its \<open>then\<close> registers the function, and the engine of the static
  language gives access to the fields of the object.
\<close>

theorem connections_agree:
  assumes "jx_loaded x" and "ay_loaded y" and "sc_function Sc ''onConnect''" and "jx_calls x = ay_calls y" and "jx_next x = ay_next y"
    and "sc_remote Sc None = None" and "\<And>w. sc_call Sc (jx_calls x) ''onConnect'' = Some w \<Longrightarrow> sc_promise Sc w \<Longrightarrow> sc_then Sc w \<and> sc_registers Sc w"
  shows "\<exists>evs x' y'. js_ext_run Sc (Ext_connect # settled_by Sc x) x = Inr (evs, x') \<and> ani_connect Sc True True True y = Inr (evs, y')"
  using js_connect_eq [OF assms(1,3) refl assms(7)] ani_connect_eq [OF assms(2,3)] assms(4-6)
  by (auto simp: Let_def split: option.splits)

definition loaded_ani :: ani_ext where
  "loaded_ani = Ani_Init a_script (Some an_ability_info) new_ani_ext"

corollary connections_agree_witness:
  "\<exists>evs x' y'. js_ext_run a_script [Ext_connect, Ext_resolve 0 (Some 5)] (loaded_ext\<lparr>jx_calls := 1\<rparr>) = Inr (evs, x')
    \<and> ani_connect a_script True True True (loaded_ani\<lparr>ay_calls := 1\<rparr>) = Inr (evs, y')"
proof -
  have "settled_by a_script (loaded_ext\<lparr>jx_calls := 1\<rparr>) = [Ext_resolve 0 (Some 5)]" by code_simp
  moreover have "\<exists>evs x' y'. js_ext_run a_script (Ext_connect # settled_by a_script (loaded_ext\<lparr>jx_calls := 1\<rparr>)) (loaded_ext\<lparr>jx_calls := 1\<rparr>) = Inr (evs, x')
    \<and> ani_connect a_script True True True (loaded_ani\<lparr>ay_calls := 1\<rparr>) = Inr (evs, y')"
    by (rule connections_agree) (simp_all add: loaded_ext_def new_js_ext_def loaded_ani_def Ani_Init_def new_ani_ext_def a_script_def
        an_ability_info_def Ani_SrcPath_def)
  ultimately show ?thesis by simp
qed

text \<open>
  the script of an entrance with an extension is the file of the module with the name of the entrance
  and the extension of compiled scripts, in both languages.
\<close>

theorem script_path_of_entrance:
  assumes "ai_isModuleJson a" and "ai_srcEntrance a = b @ ''.'' @ e" and "CHR ''.'' \<notin> set e"
  shows "GetSrcPath a = Some (ai_moduleName a @ ''/'' @ b @ ''.abc'') \<and> Ani_SrcPath (Some a) = GetSrcPath a"
proof -
  have "rfind_char CHR ''.'' ((ai_moduleName a @ ''/'' @ b) @ CHR ''.'' # e) = Some (length (ai_moduleName a @ ''/'' @ b))"
    by (rule rfind_last [OF assms(3)])
  then show ?thesis using assms(1,2) by (simp add: GetSrcPath_def Ani_SrcPath_def Let_def)
qed

corollary script_path_of_entrance_witness: "GetSrcPath an_ability_info = Some ''entry/ets/Driver.abc''"
  using script_path_of_entrance [of an_ability_info "''ets/Driver''" "''ets''"] by (simp add: an_ability_info_def)

end
