(* ===== verification/Script_Objects.thy ===== *)
theory Script_Objects
  imports Taihe_Bind Driver_Ability Js_Values_Claims
begin

text \<open>
  The objects that scripts are handed, beside the results of queries: the results and errors of the
  callbacks of the static language (frameworks/js/taihe/src/ohos.driver.deviceManager.impl.cpp), the
  context object of a driver extension in both languages (js_driver_extension_context.cpp,
  DriverExtensionContext.impl.cpp, BindContext and Dump of ani_driver_extension.cpp), and what the
  module of the dynamic language exports (device_manager_middle.cpp).

  What the engine of the static language can be asked for is the record \<open>ani_vm\<close> of its answers.
\<close>

section \<open>Objects of the static language\<close>

record ani_vm =
  av_class :: "string \<Rightarrow> bool"
  av_ctor :: "string \<Rightarrow> bool"
  av_new :: "string \<Rightarrow> bool"
  av_string :: "string \<Rightarrow> bool"
  av_set :: "string \<Rightarrow> bool"
  av_bind :: bool
  av_field :: "string \<Rightarrow> bool"
  av_global :: bool

text \<open>\<open>A_null\<close> is the null object, \<open>A_error\<close> an error with the members that were set.\<close>

datatype ani_object =
    A_undefined
  | A_null
  | A_remote nat
  | A_driver int ani_object
  | A_error "int option" "string option"
  | A_long int

definition Taihe_GetCallbackResult :: "ani_vm \<Rightarrow> u64 \<Rightarrow> nat option \<Rightarrow> ani_object" where
  "Taihe_GetCallbackResult V deviceId drvExtObj =
     (let cls = ''@ohos.driver.deviceManager.deviceManager.RemoteDeviceDriver_inner'';
          remoteObj = (case drvExtObj of None \<Rightarrow> A_undefined | Some r \<Rightarrow> A_remote r) in
      if \<not> av_class V cls then A_null
      else if \<not> av_ctor V cls then A_null
      else if \<not> av_new V cls then A_null
      else A_driver (sint deviceId) remoteObj)"

definition Taihe_ConvertToBusinessError :: "ani_vm \<Rightarrow> bool \<Rightarrow> ani_object" where
  "Taihe_ConvertToBusinessError V isOk =
     (if isOk then A_undefined
      else case GetNapiError SERVICE_EXCEPTION of None \<Rightarrow> A_undefined
      | Some msgString \<Rightarrow>
          let cls = ''@ohos.base.BusinessError'' in
          if \<not> av_class V cls then A_undefined
          else if \<not> av_ctor V cls then A_undefined
          else if \<not> av_new V cls then A_undefined
          else if \<not> av_string V msgString then A_error None None
          else if \<not> av_set V ''code'' then A_error None None
          else if \<not> av_set V ''message'' then A_error (Some SERVICE_EXCEPTION) None
          else A_error (Some SERVICE_EXCEPTION) (Some msgString))"

definition ConvertToObjectDeviceId :: "ani_vm \<Rightarrow> u64 \<Rightarrow> ani_object" where
  "ConvertToObjectDeviceId V deviceId =
     (let cls = ''std.core.Long'' in
      if \<not> av_class V cls then A_null
      else if \<not> av_ctor V cls then A_null
      else if \<not> av_new V cls then A_null
      else A_long (sint deviceId))"

text \<open>What a connection is answered with: the error and the result.\<close>

definition connect_arguments :: "ani_vm \<Rightarrow> u64 \<Rightarrow> nat option \<Rightarrow> bool \<Rightarrow> ani_object \<times> ani_object" where
  "connect_arguments V deviceId drvExtObj isOk =
     (Taihe_ConvertToBusinessError V isOk, Taihe_GetCallbackResult V deviceId drvExtObj)"

section \<open>The context object of the static language\<close>

text \<open>
  \<open>context\<close> is the native context. The result says whether there is an object; the second one
  whether the address of the context was stored in it.
\<close>

definition CreateAniDriverExtensionContext :: "ani_vm \<Rightarrow> bool \<Rightarrow> bool \<times> bool" where
  "CreateAniDriverExtensionContext V application =
     (let cls = ''application.DriverExtensionContext.DriverExtensionContext'' in
      if \<not> av_class V cls then (False, False)
      else
        let contextObj = av_ctor V cls \<and> av_new V cls in
        if \<not> av_bind V then (False, False)
        else if \<not> (contextObj \<and> av_set V ''nativePtr'') then (False, False)
        else if \<not> av_field V ''nativeContext'' then (False, True)
        else if \<not> av_set V ''nativeContext'' then (False, True)
        else if \<not> application then (False, True)
        else (True, True))"

text \<open>
  The global references that \<open>BindContext\<close> creates, and whether the object of the script gets its
  context. It is called once the script is loaded.
\<close>

definition Ani_BindContext :: "ani_vm \<Rightarrow> bool \<Rightarrow> bool \<Rightarrow> bool \<Rightarrow> bool \<Rightarrow> nat \<times> bool" where
  "Ani_BindContext V env want context application =
     (if \<not> env \<or> \<not> want then (0, False)
      else if \<not> context then (0, False)
      else if \<not> fst (CreateAniDriverExtensionContext V application) then (0, False)
      else if \<not> av_class V ''@ohos.app.ability.DriverExtensionAbility.DriverExtensionAbility'' then (0, False)
      else if \<not> av_field V ''context'' then (0, False)
      else if \<not> av_global V then (0, False)
      else if \<not> av_set V ''context'' then (1, False)
      else (1, True))"

text \<open>\<open>ptr\<close>: the address read back from the object; \<open>alive\<close>: the context still exists.\<close>

definition Ani_UpdateDriverState :: "bool \<Rightarrow> bool \<Rightarrow> unit res" where
  "Ani_UpdateDriverState ptr alive =
     (if \<not> ptr then Inr () else if \<not> alive then Inl Use_after_free else Inr ())"

text \<open>
  The dump: \<open>AniStringUtils::ToStd\<close> does not look at the status of the call that tells the length of
  a text, so that an entry which is no text leaves the length uninitialised. The arguments are not
  given back by the script and are left out.
\<close>

fun ani_texts :: "'v script \<Rightarrow> 'v list \<Rightarrow> string list res" where
  "ani_texts Sc [] = Inr []"
| "ani_texts Sc (v # vs) =
     (case sc_text Sc v of None \<Rightarrow> Inl Uninit_read
      | Some t \<Rightarrow> bindE (ani_texts Sc vs) (\<lambda>ts. Inr (t # ts)))"

definition Ani_Dump :: "'v script \<Rightarrow> bool \<Rightarrow> ani_ext \<Rightarrow> (string list \<times> Driver_Ability.ext_event list \<times> ani_ext) res" where
  "Ani_Dump Sc env y =
     (if \<not> env then Inr ([], [], y)
      else bindE (ani_call Sc ''onDump'' y) (\<lambda>(result, evs, y).
        case result of None \<Rightarrow> Inr ([], evs, y)
        | Some v \<Rightarrow>
            (case sc_array Sc v of None \<Rightarrow> Inr ([], evs, y)
             | Some vs \<Rightarrow> bindE (ani_texts Sc vs) (\<lambda>info. Inr (info, evs, y)))))"

section \<open>The context object of the dynamic language\<close>

text \<open>
  \<open>updateDriverState\<close> answers later, from a task of the engine. A call is answered through the
  callback in its last argument or through the promise it returns. \<open>cu_tasks\<close> are the calls whose
  task has not run, \<open>cu_live\<close> the task objects that are not deleted.
\<close>

datatype answer_by = By_callback | By_promise

datatype update_answer = Updated | Context_released | Send_failed | Native_error int

record ctx_updates =
  cu_context :: bool
  cu_live :: "nat list"
  cu_tasks :: "nat list"
  cu_next :: nat

definition new_ctx_updates :: ctx_updates where
  "new_ctx_updates = \<lparr>cu_context = True, cu_live = [], cu_tasks = [], cu_next = 0\<rparr>"

definition DriverExtensionContext_UpdateDriverState :: int where
  "DriverExtensionContext_UpdateDriverState = 0"

definition CreateEmptyAsyncTask :: "js_type option \<Rightarrow> answer_by" where
  "CreateEmptyAsyncTask lastParam = (if lastParam = Some Ty_function then By_callback else By_promise)"

text \<open>Resolve and Reject use the task object, after which it is deleted.\<close>

definition settle_task :: "nat \<Rightarrow> update_answer \<Rightarrow> ctx_updates \<Rightarrow> ((nat \<times> update_answer) list \<times> ctx_updates) res" where
  "settle_task i a c =
     (if i \<notin> set (cu_live c) then Inl Use_after_free
      else Inr ([(i, a)], c\<lparr>cu_live := removeAll i (cu_live c)\<rparr>))"

definition OnUpdateDriverState :: "bool \<Rightarrow> ctx_updates \<Rightarrow> ((nat \<times> update_answer) list \<times> ctx_updates) res" where
  "OnUpdateDriverState sent c =
     (let i = cu_next c; c = c\<lparr>cu_live := i # cu_live c, cu_next := Suc i\<rparr> in
      if \<not> sent then settle_task i Send_failed c
      else Inr ([], c\<lparr>cu_tasks := cu_tasks c @ [i]\<rparr>))"

definition RunUpdateTask :: "nat \<Rightarrow> ctx_updates \<Rightarrow> ((nat \<times> update_answer) list \<times> ctx_updates) res" where
  "RunUpdateTask i c =
     (if \<not> cu_context c then settle_task i Context_released c
      else
        let innerErrorCode = DriverExtensionContext_UpdateDriverState in
        settle_task i (if innerErrorCode = 0 then Updated else Native_error innerErrorCode) c)"

datatype update_op = Op_update bool | Op_run | Op_release

fun update_step :: "update_op \<Rightarrow> ctx_updates \<Rightarrow> ((nat \<times> update_answer) list \<times> ctx_updates) res" where
  "update_step (Op_update sent) c = OnUpdateDriverState sent c"
| "update_step Op_run c =
     (case cu_tasks c of [] \<Rightarrow> Inr ([], c) | i # rest \<Rightarrow> RunUpdateTask i (c\<lparr>cu_tasks := rest\<rparr>))"
| "update_step Op_release c = Inr ([], c\<lparr>cu_context := False\<rparr>)"

fun update_run :: "update_op list \<Rightarrow> ctx_updates \<Rightarrow> ((nat \<times> update_answer) list \<times> ctx_updates) res" where
  "update_run [] c = Inr ([], c)"
| "update_run (op # ops) c =
     bindE (update_step op c) (\<lambda>(evs, c). bindE (update_run ops c) (\<lambda>(evs', c). Inr (evs @ evs', c)))"

section \<open>What the module exports\<close>

datatype js_function =
    F_QueryDevices | F_BindDevice | F_UnbindDevice | F_BindDriverWithDeviceId | F_UnbindDriverWithDeviceId
  | F_QueryDeviceInfo | F_QueryDriverInfo

definition js_exports :: "(string \<times> js_function) list" where
  "js_exports =
     [(''queryDevices'', F_QueryDevices), (''bindDevice'', F_BindDevice), (''bindDeviceDriver'', F_BindDevice),
      (''unbindDevice'', F_UnbindDevice), (''bindDriverWithDeviceId'', F_BindDriverWithDeviceId),
      (''unbindDriverWithDeviceId'', F_UnbindDriverWithDeviceId), (''queryDeviceInfo'', F_QueryDeviceInfo),
      (''queryDriverInfo'', F_QueryDriverInfo)]"

definition CreateEnumBusType :: "(string \<times> int) list" where
  "CreateEnumBusType = [(''USB'', 1)]"

definition js_module_name :: string where "js_module_name = ''driver.deviceManager''"

section \<open>Every update is answered\<close>

definition updates_ok :: "(nat \<times> update_answer) list \<Rightarrow> ctx_updates \<Rightarrow> bool" where
  "updates_ok evs c \<longleftrightarrow> distinct (cu_tasks c) \<and> set (cu_live c) = set (cu_tasks c)
     \<and> distinct (map fst evs) \<and> fst ` set evs \<inter> set (cu_tasks c) = {}
     \<and> fst ` set evs \<union> set (cu_tasks c) = {..<cu_next c}"

lemma update_step_ok:
  assumes "updates_ok evs c"
  shows "\<exists>evs' c'. update_step op c = Inr (evs', c') \<and> updates_ok (evs @ evs') c'"
proof (cases op)
  case (Op_update sent)
  have new: "cu_next c \<notin> fst ` set evs" "cu_next c \<notin> set (cu_tasks c)" "cu_next c \<notin> set (cu_live c)"
    using assms by (auto simp: updates_ok_def)
  have n: "{..<Suc (cu_next c)} = insert (cu_next c) {..<cu_next c}" by auto
  show ?thesis
  proof (cases sent)
    case True
    have "updates_ok evs (c\<lparr>cu_live := cu_next c # cu_live c, cu_next := Suc (cu_next c),
        cu_tasks := cu_tasks c @ [cu_next c]\<rparr>)"
      using assms new n by (auto simp: updates_ok_def)
    then show ?thesis using Op_update True by (simp add: OnUpdateDriverState_def Let_def)
  next
    case False
    have "removeAll (cu_next c) (cu_live c) = cu_live c" using new by simp
    moreover have "updates_ok (evs @ [(cu_next c, Send_failed)]) (c\<lparr>cu_next := Suc (cu_next c)\<rparr>)"
      using assms new n by (auto simp: updates_ok_def)
    ultimately show ?thesis
      using Op_update False by (simp add: OnUpdateDriverState_def settle_task_def Let_def updates_ok_def)
  qed
next
  case Op_run
  show ?thesis
  proof (cases "cu_tasks c")
    case Nil
    then show ?thesis using Op_run assms by simp
  next
    case (Cons i rest)
    then have i: "i \<in> set (cu_live c)" using assms by (simp add: updates_ok_def)
    have "updates_ok (evs @ [(i, a)]) (c\<lparr>cu_tasks := rest, cu_live := removeAll i (cu_live c)\<rparr>)" for a
      using assms Cons by (auto simp: updates_ok_def)
    then show ?thesis using Op_run Cons i by (simp add: RunUpdateTask_def settle_task_def Let_def)
  qed
next
  case Op_release
  then show ?thesis using assms by (simp add: updates_ok_def)
qed

lemma update_run_ok:
  "updates_ok evs c \<Longrightarrow> \<exists>evs' c'. update_run ops c = Inr (evs', c') \<and> updates_ok (evs @ evs') c'"
proof (induction ops arbitrary: evs c)
  case (Cons op ops)
  obtain e1 c1 where s: "update_step op c = Inr (e1, c1)" "updates_ok (evs @ e1) c1"
    using update_step_ok [OF Cons.prems] by blast
  from Cons.IH [OF s(2)] s(1) show ?case by auto
qed simp

text \<open>
  for every order of calls, tasks and the end of the context, no task object is used after it is
  deleted and no call is answered twice; a call is answered or its task still waits, and task
  objects are kept for the waiting calls only.
\<close>

theorem updates_answered_once:
  "\<exists>evs c. update_run ops new_ctx_updates = Inr (evs, c) \<and> distinct (map fst evs)
     \<and> fst ` set evs \<union> set (cu_tasks c) = {..<cu_next c} \<and> fst ` set evs \<inter> set (cu_tasks c) = {}
     \<and> set (cu_live c) = set (cu_tasks c)"
proof -
  have "updates_ok [] new_ctx_updates" by (simp add: updates_ok_def new_ctx_updates_def)
  then obtain evs c where "update_run ops new_ctx_updates = Inr (evs, c)" "updates_ok evs c"
    using update_run_ok [of "[]" new_ctx_updates ops] by auto
  then show ?thesis unfolding updates_ok_def by blast
qed

text \<open>
  The object of the static language keeps the bare address of the context, that of the dynamic
  language a weak pointer: after the end of the context one uses freed memory and the other
  answers with an error.
\<close>

theorem update_after_the_end:
  "Ani_UpdateDriverState True False = Inl Use_after_free
   \<and> (\<exists>c. update_run [Op_update True, Op_release, Op_run] new_ctx_updates = Inr ([(0, Context_released)], c))"
  by (simp add: Ani_UpdateDriverState_def OnUpdateDriverState_def RunUpdateTask_def settle_task_def
      new_ctx_updates_def Let_def)

text \<open>
  Where the engine makes every object, the callback of the static language gets an error exactly when
  the service reported one, with the code and text of the dynamic one, and the identifier of the
  device as a signed number from which the identifier can be read back.
\<close>

theorem callback_arguments:
  assumes "\<And>s. av_class V s \<and> av_ctor V s \<and> av_new V s \<and> av_string V s \<and> av_set V s"
  shows "fst (connect_arguments V d r isOk) =
      (if isOk then A_undefined else A_error (Some 22900001) (GetNapiError 22900001))"
    and "\<exists>i. snd (connect_arguments V d r isOk) = A_driver i (case r of None \<Rightarrow> A_undefined | Some n \<Rightarrow> A_remote n)
      \<and> word_of_int i = d \<and> ConvertToObjectDeviceId V d = A_long i"
proof -
  have "GetNapiError SERVICE_EXCEPTION \<noteq> None" by (simp add: GetNapiError_def ERROR_MESSAGES_def)
  then show "fst (connect_arguments V d r isOk) =
      (if isOk then A_undefined else A_error (Some 22900001) (GetNapiError 22900001))"
    using assms by (auto simp: connect_arguments_def Taihe_ConvertToBusinessError_def Let_def)
  show "\<exists>i. snd (connect_arguments V d r isOk) = A_driver i (case r of None \<Rightarrow> A_undefined | Some n \<Rightarrow> A_remote n)
      \<and> word_of_int i = d \<and> ConvertToObjectDeviceId V d = A_long i"
    using assms by (auto simp: connect_arguments_def Taihe_GetCallbackResult_def ConvertToObjectDeviceId_def Let_def)
qed

theorem callback_arguments_witness:
  "\<exists>i. snd (connect_arguments \<lparr>av_class = \<lambda>_. True, av_ctor = \<lambda>_. True, av_new = \<lambda>_. True, av_string = \<lambda>_. True,
       av_set = \<lambda>_. True, av_bind = True, av_field = \<lambda>_. True, av_global = True\<rparr> (- 1) None True) = A_driver i A_undefined
     \<and> word_of_int i = (- 1 :: u64)"
  using callback_arguments(2) [of "\<lparr>av_class = \<lambda>_. True, av_ctor = \<lambda>_. True, av_new = \<lambda>_. True,
       av_string = \<lambda>_. True, av_set = \<lambda>_. True, av_bind = True, av_field = \<lambda>_. True, av_global = True\<rparr>" "- 1" None True]
  by auto

text \<open>The value of the enumeration is the bus type of the service, and two names are one function.\<close>

lemma exports: "map_of CreateEnumBusType ''USB'' = Some (uint BUS_TYPE_USB)"
  "map_of js_exports ''bindDeviceDriver'' = map_of js_exports ''bindDevice''" "distinct (map fst js_exports)"
  by (simp_all add: CreateEnumBusType_def js_exports_def)

end
