(* ===== verification/Spec2Isabelle.thy ===== *)
theory Spec2Isabelle
  imports Usb_Desc_Limits Usb_Desc_Free Device_Mgr_Claims Ipc_Types Usb_Match Driver_Text
    Usb_Dev_Claims Pkg_Mgr_Claims Sys_Event System_Claims Service_Libs Scsi_Claims Scsi_Data
    Hid_Claims Usb_Ddk_Claims Serial_Ddk App_Launch_Claims
    Edm_Client_Claims Js_Bind_Claims Taihe_Bind_Claims Driver_Ability_Claims
    Script_Objects
begin

text \<open>
  A model of the OpenHarmony external device manager (drivers_external_device_manager): the system
  service that tracks plugged devices, finds and starts the driver packages for them and lets
  clients bind to them, and the driver development kits through which a driver talks to its device.

  The parts and how they interact.

  A USB host event reaches the subscriber, which opens the device, reads its descriptors, parses the
  configuration and announces a device to the device manager through a bus extension callback. The
  device manager asks the package manager for a driver that matches; the package manager reads the
  drivers from its database, which it fills from the installed bundles and keeps up to date on
  package events. For a match the device manager connects the driver extension through the
  controller. Clients reach the service through the IPC operations, which check the permissions of
  the caller and hand devices and drivers out as marshalled data. Drivers use the kits, each a
  front end of a service in another process.

  The theories. Paths are relative to src/; dem is services/native/driver_extension_manager.

  Edm_Prelude: machine integers, the result type of code that can commit a memory error, checked
  reads and copies, list lemmas. Ext_Types: error codes and shared objects (utils/include), string
  operations, association lists as the code's unordered maps, with the locale finite_map.

  Usb_Desc_Parser (frameworks/ddk/usb/usb_config_desc_parser.cpp): every parsing function; an input
  pointer is the rest of the buffer, an output structure a record, the loop of ParseConfigurationDes
  a partial function, since it may run forever. Usb_Desc_Safety: up to a reference to an element past the
  end of altsetting, if a run makes one, it reads and writes nothing out of bounds; the model stops
  there. Usb_Desc_Roundtrip: it is the inverse of an encoder. Usb_Desc_Limits: the inputs on which it
  does not end, leaves altsetting or refuses. Usb_Desc_Free: the functions that free a
  configuration, over the list of the blocks deleted so far; they delete every block that the
  parser allocated once.

  Ext_Controller, Device, Device_Mgr (dem/src/device_manager): connections to driver extensions, one
  device, and the tables of the manager with every operation on them. The system services answer
  through the record env, which may depend on the trace of all calls. Device_Mgr_Props: the invariant
  dm_inv of the two tables over every step. Device_Mgr_Claims: what registration, removal, binding
  and unbinding guarantee.

  Bus_Core (dem/src/bus_extension): the registry of bus extensions, matching of identifiers, their
  JSON form, the metadata of packages. Usb_Match: what the metadata decides. Usb_Dev (usb_dev_subscriber.cpp)
  and Usb_Dev_Claims: from a host event to the announcement. Driver_Text (driver_info.cpp): the text
  form of a driver and its round trip. Json_Instance: a JSON library for examples.

  Pkg_Db (pkg_database.cpp, pkg_db_helper.cpp) over a relational store given by its laws rdb_ok;
  Pkg_Db_Props and Pkg_Db_Claims: each change refines an update of the table of records or is undone,
  unless the rollback, whose result the code ignores, fails too. Pkg_Mgr (drv_bundle_state_callback.cpp, driver_pkg_manager.cpp,
  driver_os_account_subscriber.cpp) and Pkg_Mgr_Claims: package events, queries, matching.
  Sys_Event (drivers_hisysevent/driver_report_sys_event.cpp, utils/src/ext_dev_api_metrics.cpp): the
  records written about events, those of a package refresh, and the measurements of calls.

  Ipc_Types (interfaces/innerkits/driver_ext_mgr_types.h, dem/src/driver_ext_mgr_types.cpp): the
  marshalled data and its round trips. Faults, Faults_Claims (event_config.cpp, device_notification):
  configured faults and the texts of notifications. App_Launch, App_Launch_Claims
  (dem/src/app_launch_manager): which application is started for a plugged device.

  Service (driver_ext_mgr.cpp, ext_permission_manager.cpp): the start of the service and its IPC
  operations over the components above. Device_Law: a locale of properties of devices that every
  operation of the device manager keeps. System: the steps of the whole service, on which the locale
  is interpreted. System_Claims: what holds of every reachable state of it.

  Edm_Client (frameworks/native/driver_ext_mgr_client.cpp), Edm_Client_Claims: the connection of the
  client library and its calls; a locale for services that check the caller first, interpreted on
  the service model. Js_Values, Taihe_Values (frameworks/js/napi/device_manager, frameworks/js/taihe):
  the values that the two script modules build, and their queries; Js_Values_Claims: both build the same
  values, and what a script sees is what the device manager has. Js_Bind: binding from a script, a
  state machine over script calls, callbacks of the service on other threads, and tasks sent back to
  the script's thread, with the life of every object, reference and promise. Js_Bind_Safety: the
  invariant of its memory under every order of steps; Js_Bind_Claims: the promises as a monitor sees
  them, and the orders of events in which a script is left without an answer. Taihe_Bind,
  Taihe_Bind_Claims: the same for the static language, where a callback may be the last to hold an
  object and a failed binding gives up its reference without a lock: the accounts of the references in
  orderly runs, and the runs in which a deleted one is used. Owned_Data: sums of handles over objects, for both.

  Driver_Ability (services/native/driver_extension, frameworks/js/ani/driver_extension_ability): how the
  script of a driver is found, loaded, called and connected, in both languages.
  Driver_Ability_Claims: a conservation law for the callbacks of the ability runtime, the agreement of
  the two languages, and what is lost when a promise is rejected or does not register the function.

  Scsi_Ddk, Scsi_Sense (frameworks/ddk/scsi), Scsi_Claims, Scsi_Data; Hid_Ddk, Hid_Raw
  (frameworks/ddk/hid) and Hid_Claims; Usb_Ddk (frameworks/ddk/usb/usb_ddk_api.cpp,
  frameworks/ddk/base) and Usb_Ddk_Claims; Serial_Ddk (frameworks/ddk/usb_serial): the kits, in the
  build with their services. Their state is what the code keeps in global variables.

  Conventions. A definition has the name of the function it models; where the code continues a
  function in a loop or a shared part, that part has a definition of its own beside it. A struct is a
  record, null is None, an unordered map an association list in iteration order, a fixed-width
  integer a word or an int with its conversions written out. A memory error is the value Inl of the
  type res. What the code logs is left out, and what it reports to the
  system event log is in Sys_Event only. A run ends
  with its first memory error. Operations are steps: the locks of the code serialise them. Where the code
  gives up its lock in between, as the client library and the binding of scripts do, or takes none, as
  the end of a failed binding does, the parts are steps of their own.

  External code is a parameter of the definitions that use it: the system services, the bundle, ability,
  account and token managers, the JSON library, the relational store, the parcel, the file system,
  the USB host and the services behind the kits. What a property relies on of them is a named
  predicate (ok_env, cjson_ok and its parts, rdb_ok, parcel_ok, hid_law, honest_counts, napi_makes, napi_updates,
  napi_reads), and every
  such predicate is shown to hold of an instance.

  Bounds and fuel. No loop of the model has fuel. The descriptor loop that may run forever is a
  partial function, and both that it ends on encoded configurations and that it does not end on
  truncated ones are proved. Sizes given to the bounds-checking copy functions are below the largest
  that they accept, except in the SCSI kit, where that limit is a parameter.

  Service_Libs: loading of the bus extension library and the end of the extension, the table of the
  database, the request of a notification. Script_Objects: the objects handed to scripts beside the
  results of queries, the context objects of driver extensions, the exports of the script module.

  Not modelled: where events are reported outside the package refresh; log texts and the test output
  of the package manager; the decoding of images; interleavings inside an operation, which the code
  excludes by its locks; the headers that declare the driver kits to their users (interfaces/ddk)
  beyond the structures and error codes the kits use; the helpers that unwrap unions and
  optional values of scripts (ani_utils.h).
\<close>

end
